(* ===== verification/GoPrelude.thy ===== *)
theory GoPrelude
  imports Main "HOL-Library.Sublist"
begin

text \<open>
  Shared material: the wrap-around of Go's 64-bit signed integers, the few functions of Go's
  \<open>strings\<close> and \<open>strconv\<close> packages that the modelled code calls, and lemmas on lists used as
  database tables. Go strings are byte sequences, here \<open>string\<close> (a list of 8-bit characters).
\<close>

named_theorems go_simps \<open>facts on tables, sums and integers shared by the components\<close>

section \<open>64-bit signed integers\<close>

text \<open>
  \<open>int\<close> and \<open>int64\<close> of the source are 64 bits wide; values are \<open>int\<close> here and every
  addition, subtraction, negation or multiplication done by Go code goes through \<open>i64\<close>.
\<close>

definition i64 :: "int \<Rightarrow> int" where
  "i64 x = (x + 2 ^ 63) mod 2 ^ 64 - 2 ^ 63"

definition in_i64 :: "int \<Rightarrow> bool" where
  "in_i64 x \<longleftrightarrow> - (2 ^ 63) \<le> x \<and> x < 2 ^ 63"

lemma in_i64_i64 [simp, intro]: "in_i64 (i64 x)"
proof -
  have "0 \<le> (x + 2 ^ 63) mod 2 ^ 64" and "(x + 2 ^ 63) mod 2 ^ 64 < (2::int) ^ 64"
    by simp_all
  then show ?thesis unfolding in_i64_def i64_def by simp
qed

lemma i64_id: "in_i64 x \<Longrightarrow> i64 x = x"
  by (simp add: i64_def in_i64_def)

lemma in_i64_neg: "in_i64 x \<Longrightarrow> x \<noteq> - (2 ^ 63) \<Longrightarrow> in_i64 (- x)"
  by (simp add: in_i64_def)

lemma i64_neg_nonneg: "0 \<le> x \<Longrightarrow> in_i64 x \<Longrightarrow> i64 (- x) = - x"
  by (rule i64_id) (simp add: in_i64_def)

lemma in_i64_diff_nonneg: "in_i64 a \<Longrightarrow> in_i64 b \<Longrightarrow> 0 \<le> a \<Longrightarrow> 0 \<le> b \<Longrightarrow> in_i64 (a - b)"
  by (simp add: in_i64_def)

text \<open>Go's integer division truncates towards zero.\<close>

definition go_div :: "int \<Rightarrow> int \<Rightarrow> int" where
  "go_div a b = i64 (sgn a * sgn b * (\<bar>a\<bar> div \<bar>b\<bar>))"

section \<open>Strings\<close>

definition has_prefix :: "string \<Rightarrow> string \<Rightarrow> bool" where
  "has_prefix s p \<longleftrightarrow> take (length p) s = p"

definition has_suffix :: "string \<Rightarrow> string \<Rightarrow> bool" where
  "has_suffix s p \<longleftrightarrow> length p \<le> length s \<and> drop (length s - length p) s = p"

definition trim_prefix :: "string \<Rightarrow> string \<Rightarrow> string" where
  "trim_prefix s p = (if has_prefix s p then drop (length p) s else s)"

definition trim_suffix :: "string \<Rightarrow> string \<Rightarrow> string" where
  "trim_suffix s p = (if has_suffix s p then take (length s - length p) s else s)"

fun contains_str :: "string \<Rightarrow> string \<Rightarrow> bool" where
  "contains_str [] p = (p = [])"
| "contains_str (c # s) p = (has_prefix (c # s) p \<or> contains_str s p)"

text \<open>\<open>strings.Split\<close> with a one-byte separator: never empty, \<open>Split("")\<close> is one empty part.\<close>

fun split_on :: "char \<Rightarrow> string \<Rightarrow> string list" where
  "split_on d [] = [[]]"
| "split_on d (c # s) =
     (if c = d then [] # split_on d s
      else case split_on d s of [] \<Rightarrow> [[c]] | w # ws \<Rightarrow> (c # w) # ws)"

definition is_space :: "char \<Rightarrow> bool" where
  "is_space c \<longleftrightarrow> of_char c \<in> {9, 10, 11, 12, 13, 32 :: nat}"

definition trim_space :: "string \<Rightarrow> string" where
  "trim_space s = rev (dropWhile is_space (rev (dropWhile is_space s)))"

definition to_lower_char :: "char \<Rightarrow> char" where
  "to_lower_char c =
     (if 65 \<le> (of_char c :: nat) \<and> (of_char c :: nat) \<le> 90
      then char_of ((of_char c :: nat) + 32) else c)"

definition to_lower :: "string \<Rightarrow> string" where
  "to_lower s = map to_lower_char s"

definition join_with :: "string \<Rightarrow> string list \<Rightarrow> string" where
  "join_with sep ws = (case ws of [] \<Rightarrow> [] | x # xs \<Rightarrow> x @ concat (map (\<lambda>y. sep @ y) xs))"

text \<open>\<open>%d\<close> of \<open>fmt\<close> and \<open>strconv.Atoi\<close>.\<close>

fun show_nat :: "nat \<Rightarrow> string" where
  "show_nat n = (if n < 10 then [char_of (48 + n)] else show_nat (n div 10) @ [char_of (48 + n mod 10)])"

declare show_nat.simps [simp del]

definition show_int :: "int \<Rightarrow> string" where
  "show_int k = (if k < 0 then CHR ''-'' # show_nat (nat (- k)) else show_nat (nat k))"

definition is_digit :: "char \<Rightarrow> bool" where
  "is_digit c \<longleftrightarrow> 48 \<le> (of_char c :: nat) \<and> (of_char c :: nat) \<le> 57"

fun parse_digits :: "nat \<Rightarrow> string \<Rightarrow> nat option" where
  "parse_digits acc [] = Some acc"
| "parse_digits acc (c # s) =
     (if is_digit c then parse_digits (acc * 10 + (of_char c - 48)) s else None)"

definition go_atoi :: "string \<Rightarrow> int option" where
  "go_atoi s =
     (let (neg, ds) = (case s of
            [] \<Rightarrow> (False, [])
          | c # r \<Rightarrow> if c = CHR ''-'' then (True, r) else if c = CHR ''+'' then (False, r) else (False, s))
      in if ds = [] then None
         else case parse_digits 0 ds of
           None \<Rightarrow> None
         | Some n \<Rightarrow> (let k = (if neg then - int n else int n) in if in_i64 k then Some k else None))"

lemma has_prefix_append [simp]: "has_prefix (p @ s) p"
  by (simp add: has_prefix_def)

lemma has_suffix_append [simp]: "has_suffix (s @ p) p"
  by (simp add: has_suffix_def)

lemma trim_prefix_append [simp]: "trim_prefix (p @ s) p = s"
  by (simp add: trim_prefix_def)

lemma trim_suffix_append [simp]: "trim_suffix (s @ p) p = s"
  by (simp add: trim_suffix_def)

lemma split_on_not_Nil [simp]: "split_on d s \<noteq> []"
  by (induction s) (auto split: list.splits)

lemma split_on_no_sep: "d \<notin> set s \<Longrightarrow> split_on d s = [s]"
  by (induction s) auto

lemma split_on_append:
  "d \<notin> set a \<Longrightarrow> split_on d (a @ d # b) = a # split_on d b"
  by (induction a) auto

lemma parse_digits_append:
  "parse_digits acc (s @ t) =
     (case parse_digits acc s of None \<Rightarrow> None | Some a \<Rightarrow> parse_digits a t)"
  by (induction s arbitrary: acc) auto

lemma of_char_digit: "d < 10 \<Longrightarrow> (of_char (char_of (48 + d :: nat)) :: nat) = 48 + d"
  by simp

lemma is_digit_char_of: "d < 10 \<Longrightarrow> is_digit (char_of (48 + d :: nat))"
  by (simp add: is_digit_def)

lemma parse_digits_show_nat: "parse_digits 0 (show_nat n) = Some n"
proof (induction n rule: show_nat.induct)
  case (1 n)
  show ?case
  proof (cases "n < 10")
    case True
    then show ?thesis by (subst show_nat.simps) (simp add: is_digit_char_of)
  next
    case False
    with 1 have IH: "parse_digits 0 (show_nat (n div 10)) = Some (n div 10)" by simp
    have "show_nat n = show_nat (n div 10) @ [char_of (48 + n mod 10)]"
      using False by (subst show_nat.simps) simp
    then show ?thesis
      by (simp add: parse_digits_append IH is_digit_char_of)
  qed
qed

lemma show_nat_digits: "c \<in> set (show_nat n) \<Longrightarrow> is_digit c"
proof (induction n rule: show_nat.induct)
  case (1 n)
  show ?case
  proof (cases "n < 10")
    case True
    with 1(2) show ?thesis by (subst (asm) show_nat.simps) (simp add: is_digit_char_of)
  next
    case False
    have "show_nat n = show_nat (n div 10) @ [char_of (48 + n mod 10)]"
      using False by (subst show_nat.simps) simp
    with 1 False show ?thesis by (auto simp: is_digit_char_of)
  qed
qed

lemma show_nat_not_Nil [simp]: "show_nat n \<noteq> []"
  by (subst show_nat.simps) simp

lemma show_nat_inj: "show_nat m = show_nat n \<Longrightarrow> m = n"
  by (metis option.inject parse_digits_show_nat)

lemma not_digit_minus: "\<not> is_digit CHR ''-''" "\<not> is_digit CHR ''+''"
  by (simp_all add: is_digit_def)

lemma show_nat_hd_not_sign:
  "show_nat n \<noteq> CHR ''-'' # r" "show_nat n \<noteq> CHR ''+'' # r"
  using show_nat_digits [of _ n] not_digit_minus by force+

text \<open>Printing and parsing an \<open>int64\<close> is a round trip.\<close>

lemma atoi_show_int: "in_i64 k \<Longrightarrow> go_atoi (show_int k) = Some k"
proof (cases "k < 0")
  case True
  assume "in_i64 k"
  with True show ?thesis
    by (simp add: go_atoi_def show_int_def parse_digits_show_nat)
next
  case False
  assume k: "in_i64 k"
  obtain c r where cr: "show_nat (nat k) = c # r" by (cases "show_nat (nat k)") auto
  have "c \<noteq> CHR ''-''" and "c \<noteq> CHR ''+''"
    using show_nat_hd_not_sign [of "nat k"] cr by auto
  with False k cr parse_digits_show_nat [of "nat k"] show ?thesis
    by (simp add: go_atoi_def show_int_def)
qed

section \<open>Lists as tables\<close>

text \<open>
  A table is the list of its rows in primary-key order. \<open>UPDATE ... WHERE P\<close> maps the matched
  rows; \<open>RowsAffected\<close> is the number of rows that match.
\<close>

definition update_where :: "('r \<Rightarrow> bool) \<Rightarrow> ('r \<Rightarrow> 'r) \<Rightarrow> 'r list \<Rightarrow> 'r list" where
  "update_where P f rows = map (\<lambda>r. if P r then f r else r) rows"

definition count_where :: "('r \<Rightarrow> bool) \<Rightarrow> 'r list \<Rightarrow> nat" where
  "count_where P rows = length (filter P rows)"

lemma length_update_where [simp]: "length (update_where P f rows) = length rows"
  by (simp add: update_where_def)

lemma update_where_Nil [simp]: "update_where P f [] = []"
  by (simp add: update_where_def)

lemma update_where_Cons [simp]:
  "update_where P f (r # rows) = (if P r then f r else r) # update_where P f rows"
  by (simp add: update_where_def)

lemma update_where_append [simp]:
  "update_where P f (xs @ ys) = update_where P f xs @ update_where P f ys"
  by (simp add: update_where_def)

lemma count_where_simps [simp]:
  "count_where P [] = 0"
  "count_where P (r # rows) = (if P r then 1 else 0) + count_where P rows"
  by (simp_all add: count_where_def)

lemma update_where_none [go_simps]: "(\<And>r. r \<in> set rows \<Longrightarrow> \<not> P r) \<Longrightarrow> update_where P f rows = rows"
  by (induction rows) auto

lemma count_where_0_iff: "count_where P rows = 0 \<longleftrightarrow> (\<forall>r \<in> set rows. \<not> P r)"
  by (auto simp: count_where_def filter_empty_conv)

lemma map_update_where_frame:
  "(\<And>r. g (f r) = g r) \<Longrightarrow> map g (update_where P f rows) = map g rows"
  by (induction rows) auto

lemma find_update_where_frame:
  "(\<And>r. Q (f r) = Q r) \<Longrightarrow>
   find Q (update_where P f rows) = map_option (\<lambda>r. if P r then f r else r) (find Q rows)"
  by (induction rows) auto

lemma filter_update_where:
  "(\<And>x. x \<in> set rows \<Longrightarrow> P x \<Longrightarrow> \<not> Q x \<and> \<not> Q (f x)) \<Longrightarrow> filter Q (update_where P f rows) = filter Q rows"
  by (induction rows) auto

lemma find_Some_mem: "find P xs = Some x \<Longrightarrow> x \<in> set xs \<and> P x"
  by (induction xs) (auto split: if_splits)

lemma find_None_all: "find P xs = None \<longleftrightarrow> (\<forall>x \<in> set xs. \<not> P x)"
  by (auto simp: find_None_iff)

lemma sum_list_update_where:
  fixes g :: "'r \<Rightarrow> int"
  assumes "\<And>r. P r \<Longrightarrow> g (f r) = g r + d"
  shows "sum_list (map g (update_where P f rows)) = sum_list (map g rows) + d * int (count_where P rows)"
  using assms by (induction rows) (auto simp: algebra_simps)

lemma count_where_key:
  "distinct (map key rows) \<Longrightarrow>
   count_where (\<lambda>r. key r = k) rows = (if k \<in> key ` set rows then 1 else 0)"
  by (induction rows) (auto simp: count_where_0_iff)

lemma find_key_distinct:
  "distinct (map key rows) \<Longrightarrow> r \<in> set rows \<Longrightarrow> find (\<lambda>x. key x = key r) rows = Some r"
  by (induction rows) auto

lemma find_key_iff:
  "distinct (map key rows) \<Longrightarrow> find (\<lambda>x. key x = k) rows = Some r \<longleftrightarrow> r \<in> set rows \<and> key r = k"
  using find_key_distinct find_Some_mem by fastforce

text \<open>A guarded update of one keyed row (\<open>UPDATE ... WHERE id = k AND guard\<close>).\<close>

lemma find_guarded_update:
  assumes "\<And>r. key (f r) = key r"
  shows "find (\<lambda>r. key r = j) (update_where (\<lambda>r. key r = k \<and> G r) f rows) =
     (case find (\<lambda>r. key r = j) rows of
        None \<Rightarrow> None
      | Some r \<Rightarrow> Some (if j = k \<and> G r then f r else r))"
  using assms by (induction rows) (auto split: option.splits)

lemma count_guarded:
  "distinct (map key rows) \<Longrightarrow>
   count_where (\<lambda>r. key r = k \<and> G r) rows =
     (case find (\<lambda>r. key r = k) rows of None \<Rightarrow> 0 | Some r \<Rightarrow> if G r then 1 else 0)"
proof (induction rows)
  case (Cons r rows)
  then show ?case
    by (cases "key r = k") (auto simp: count_where_0_iff image_iff dest!: find_Some_mem split: option.splits)
qed simp

lemma distinct_keys_update:
  "(\<And>r. key (f r) = key r) \<Longrightarrow> distinct (map key (update_where P f rows)) = distinct (map key rows)"
  by (simp add: map_update_where_frame)

lemma set_update_where:
  "x \<in> set (update_where P f rows) \<Longrightarrow> (\<exists>r \<in> set rows. P r \<and> x = f r) \<or> (x \<in> set rows \<and> \<not> P x)"
  by (auto simp: update_where_def)

lemma ball_update_where:
  "(\<And>r. r \<in> set rows \<Longrightarrow> Q r \<Longrightarrow> P r \<Longrightarrow> Q (f r)) \<Longrightarrow> \<forall>r \<in> set rows. Q r \<Longrightarrow>
   \<forall>r \<in> set (update_where P f rows). Q r"
  by (auto simp: update_where_def)

text \<open>Replacing the row of one key changes a sum over the rows by the change of that row.\<close>

lemma sum_list_replace_row:
  fixes g :: "'r \<Rightarrow> int"
  assumes "distinct (map key rows)" and "r \<in> set rows"
  shows "sum_list (map g (update_where (\<lambda>x. key x = key r) (\<lambda>_. r') rows)) =
     sum_list (map g rows) + (g r' - g r)"
  using assms
proof (induction rows)
  case (Cons x rows)
  show ?case
  proof (cases "key x = key r")
    case True
    with Cons.prems have "x = r" by force
    moreover have "key x \<notin> key ` set rows" using Cons.prems(1) by simp
    with True have "update_where (\<lambda>x. key x = key r) (\<lambda>_. r') rows = rows"
      by (intro update_where_none) (metis image_eqI)
    ultimately show ?thesis by simp
  next
    case False
    with Cons show ?thesis by auto
  qed
qed simp

lemma map_key_replace_row:
  "key r' = k \<Longrightarrow> map key (update_where (\<lambda>x. key x = k) (\<lambda>_. r') rows) = map key rows"
  by (simp add: update_where_def)

lemma find_replace_row:
  assumes "\<And>x. x \<in> set rows \<Longrightarrow> key x = key r \<Longrightarrow> Q x = Q r'"
  shows "find Q (update_where (\<lambda>x. key x = key r) (\<lambda>_. r') rows) =
     map_option (\<lambda>x. if key x = key r then r' else x) (find Q rows)"
  using assms by (induction rows) auto

lemma sum_list_append_row: "sum_list (map g (rows @ [r])) = sum_list (map g rows) + (g r :: int)"
  by simp

end
