(* ===== verification/GoFloat.thy ===== *)
theory GoFloat
  imports GoPrelude Complex_Main
begin

text \<open>
  Go's \<open>float64\<close> (IEEE 754 binary64, round to nearest, ties to even) as an executable type:
  a finite value is the rational it denotes, every operation rounds the exact result with \<open>fl\<close>.
  The sign of zero is not kept: the modelled code never divides by a zero it computed and
  compares zeros only by value.
\<close>

datatype float64 = Fin rat | PInf | NInf | NaN

function ilog2 :: "int \<Rightarrow> nat" where
  "ilog2 n = (if n < 2 then 0 else Suc (ilog2 (n div 2)))"
  by pat_completeness auto
termination
  by (relation "measure nat") auto

declare ilog2.simps [simp del]

definition pow2 :: "int \<Rightarrow> rat" where
  "pow2 k = (if 0 \<le> k then 2 ^ nat k else 1 / 2 ^ nat (- k))"

text \<open>The binary exponent of a positive rational: \<open>2 ^ e \<le> x < 2 ^ (e + 1)\<close>.\<close>

definition bexp :: "rat \<Rightarrow> int" where
  "bexp x = (if 1 \<le> x then int (ilog2 \<lfloor>x\<rfloor>)
             else - int (Suc (ilog2 (\<lceil>1 / x\<rceil> - 1))))"

definition round_half_even :: "rat \<Rightarrow> int" where
  "round_half_even x =
     (let f = \<lfloor>x\<rfloor>; d = x - of_int f
      in if d < 1 / 2 then f else if 1 / 2 < d then f + 1 else if even f then f else f + 1)"

text \<open>53 significant bits, smallest positive value \<open>2 ^ -1074\<close>.\<close>

definition ulp_exp :: "rat \<Rightarrow> int" where
  "ulp_exp x = max (bexp x - 52) (- 1074)"

definition round_pos :: "rat \<Rightarrow> rat" where
  "round_pos x = of_int (round_half_even (x / pow2 (ulp_exp x))) * pow2 (ulp_exp x)"

definition rnd :: "rat \<Rightarrow> rat" where
  "rnd x = (if x = 0 then 0 else if 0 < x then round_pos x else - round_pos (- x))"

definition overflow_bound :: rat where
  "overflow_bound = 2 ^ 1024"

definition fl :: "rat \<Rightarrow> float64" where
  "fl x = (let r = rnd x in
     if overflow_bound \<le> r then PInf else if r \<le> - overflow_bound then NInf else Fin r)"

definition fl_int :: "int \<Rightarrow> float64" where
  "fl_int k = fl (of_int k)"

section \<open>Operations\<close>

definition inf_sgn :: "rat \<Rightarrow> float64 \<Rightarrow> float64" where
  "inf_sgn s i = (if s = 0 then NaN else if 0 < s then i else (if i = PInf then NInf else PInf))"

fun fmul :: "float64 \<Rightarrow> float64 \<Rightarrow> float64" where
  "fmul (Fin a) (Fin b) = fl (a * b)"
| "fmul NaN _ = NaN"
| "fmul _ NaN = NaN"
| "fmul (Fin a) i = inf_sgn a i"
| "fmul i (Fin a) = inf_sgn a i"
| "fmul PInf i = i"
| "fmul NInf i = (if i = PInf then NInf else PInf)"

fun fadd :: "float64 \<Rightarrow> float64 \<Rightarrow> float64" where
  "fadd (Fin a) (Fin b) = fl (a + b)"
| "fadd NaN _ = NaN"
| "fadd _ NaN = NaN"
| "fadd (Fin a) i = i"
| "fadd i (Fin a) = i"
| "fadd PInf i = (if i = PInf then PInf else NaN)"
| "fadd NInf i = (if i = NInf then NInf else NaN)"

fun fdiv :: "float64 \<Rightarrow> float64 \<Rightarrow> float64" where
  "fdiv (Fin a) (Fin b) =
     (if b = 0 then (if a = 0 then NaN else if 0 < a then PInf else NInf) else fl (a / b))"
| "fdiv NaN _ = NaN"
| "fdiv _ NaN = NaN"
| "fdiv (Fin a) i = Fin 0"
| "fdiv i (Fin a) = (if a < 0 then inf_sgn (- 1) i else i)"
| "fdiv _ _ = NaN"

fun flt :: "float64 \<Rightarrow> float64 \<Rightarrow> bool" where
  "flt (Fin a) (Fin b) = (a < b)"
| "flt NaN _ = False"
| "flt _ NaN = False"
| "flt NInf i = (i \<noteq> NInf)"
| "flt i NInf = False"
| "flt PInf _ = False"
| "flt (Fin _) PInf = True"

fun fle :: "float64 \<Rightarrow> float64 \<Rightarrow> bool" where
  "fle (Fin a) (Fin b) = (a \<le> b)"
| "fle NaN _ = False"
| "fle _ NaN = False"
| "fle NInf i = True"
| "fle i NInf = False"
| "fle PInf i = (i = PInf)"
| "fle (Fin _) PInf = True"

definition feq :: "float64 \<Rightarrow> float64 \<Rightarrow> bool" where
  "feq a b \<longleftrightarrow> a = b \<and> a \<noteq> NaN"

text \<open>
  \<open>int64(f)\<close> truncates towards zero. Where the value does not fit the language leaves the
  result to the implementation; the model takes the value of the amd64 instruction.
\<close>

definition trunc_rat :: "rat \<Rightarrow> int" where
  "trunc_rat x = (if 0 \<le> x then \<lfloor>x\<rfloor> else - \<lfloor>- x\<rfloor>)"

fun f2i :: "float64 \<Rightarrow> int" where
  "f2i (Fin x) = (if in_i64 (trunc_rat x) then trunc_rat x else - (2 ^ 63))"
| "f2i _ = - (2 ^ 63)"

fun fceil :: "float64 \<Rightarrow> float64" where
  "fceil (Fin x) = Fin (of_int \<lceil>x\<rceil>)"
| "fceil f = f"

text \<open>\<open>math.Round\<close>: halves go away from zero.\<close>

fun fround :: "float64 \<Rightarrow> float64" where
  "fround (Fin x) = Fin (of_int (if 0 \<le> x then \<lfloor>x + 1 / 2\<rfloor> else - \<lfloor>- x + 1 / 2\<rfloor>))"
| "fround f = f"

section \<open>Rounding is monotone and exact on small integers\<close>

lemma pow2_pos [simp]: "0 < pow2 k"
  by (simp add: pow2_def)

lemma pow2_0 [simp]: "pow2 0 = 1"
  by (simp add: pow2_def)

lemma pow2_powi: "pow2 k = 2 powi k"
  by (simp add: pow2_def power_int_def field_simps)

lemma pow2_add: "pow2 (a + b) = pow2 a * pow2 b"
  by (simp add: pow2_powi power_int_add)

lemma pow2_diff: "pow2 (a - b) = pow2 a / pow2 b"
  by (simp add: pow2_powi power_int_diff)

lemma pow2_mono: "a \<le> b \<Longrightarrow> pow2 a \<le> pow2 b"
  by (simp add: pow2_powi power_int_increasing)

lemma pow2_mono_lt: "a < b \<Longrightarrow> pow2 a < pow2 b"
  by (simp add: pow2_powi power_int_strict_increasing)

lemma pow2_lt_D: "pow2 a < pow2 b \<Longrightarrow> a < b"
  using pow2_mono [of b a] by (cases "a < b") auto

lemma pow2_nat: "pow2 (int n) = 2 ^ n"
  by (simp add: pow2_def)

lemma pow2_int: "0 \<le> k \<Longrightarrow> pow2 k = of_int (2 ^ nat k)"
  by (simp add: pow2_def)

lemma ilog2_bounds: "0 < n \<Longrightarrow> 2 ^ ilog2 n \<le> n \<and> n < 2 ^ Suc (ilog2 n)"
proof (induction n rule: ilog2.induct)
  case (1 n)
  show ?case
  proof (cases "n < 2")
    case True
    with 1(2) show ?thesis by (subst (1 2) ilog2.simps) simp
  next
    case False
    with 1(1) have "2 ^ ilog2 (n div 2) \<le> n div 2 \<and> n div 2 < 2 ^ Suc (ilog2 (n div 2))" by simp
    moreover have "ilog2 n = Suc (ilog2 (n div 2))" using False by (subst ilog2.simps) simp
    ultimately show ?thesis by auto
  qed
qed

lemma ilog2_bounds_rat:
  assumes "0 < n"
  shows "2 ^ ilog2 n \<le> (of_int n :: rat) \<and> of_int n + 1 \<le> (2 ^ Suc (ilog2 n) :: rat)"
proof -
  have "(of_int (2 ^ ilog2 n) :: rat) \<le> of_int n"
    using ilog2_bounds [OF assms] by (simp only: of_int_le_iff)
  moreover have "(of_int (n + 1) :: rat) \<le> of_int (2 ^ Suc (ilog2 n))"
    using ilog2_bounds [OF assms] by (simp only: of_int_le_iff zless_imp_add1_zle)
  ultimately show ?thesis by simp
qed

lemma bexp_bounds:
  assumes "0 < x"
  shows "pow2 (bexp x) \<le> x \<and> x < pow2 (bexp x + 1)"
proof (cases "1 \<le> x")
  case True
  let ?l = "ilog2 \<lfloor>x\<rfloor>"
  have "0 < \<lfloor>x\<rfloor>" using True by simp
  then have l: "2 ^ ?l \<le> (of_int \<lfloor>x\<rfloor> :: rat)" "of_int \<lfloor>x\<rfloor> + 1 \<le> (2 ^ Suc ?l :: rat)"
    using ilog2_bounds_rat by auto
  have b: "bexp x = int ?l" using True by (simp add: bexp_def)
  have "pow2 (bexp x) = 2 ^ ?l" and "pow2 (bexp x + 1) = 2 ^ Suc ?l"
    using b pow2_nat [of "Suc ?l"] by (simp_all add: pow2_nat add.commute)
  moreover have "of_int \<lfloor>x\<rfloor> \<le> x" and "x < of_int \<lfloor>x\<rfloor> + 1" by linarith+
  ultimately show ?thesis using l by linarith
next
  case False
  define y where "y = 1 / x"
  let ?n = "\<lceil>y\<rceil> - 1" and ?l = "ilog2 (\<lceil>y\<rceil> - 1)"
  have y: "1 < y" using False assms by (simp add: y_def)
  then have "0 < ?n" by linarith
  note l = conjunct1 [OF ilog2_bounds_rat [OF this]] conjunct2 [OF ilog2_bounds_rat [OF this]]
  have "of_int ?n < y" and "y \<le> of_int ?n + 1" by linarith+
  with l have lo: "2 ^ ?l < y" and hi: "y \<le> 2 ^ Suc ?l" by linarith+
  have b: "bexp x = - int (Suc ?l)" using False by (simp add: bexp_def y_def)
  have p1: "pow2 (bexp x) = 1 / 2 ^ Suc ?l"
    by (simp add: b pow2_def nat_add_distrib)
  have p2: "pow2 (bexp x + 1) = 1 / 2 ^ ?l"
    by (simp add: b pow2_def)
  have "1 / 2 ^ Suc ?l \<le> 1 / y" using hi y by (intro frac_le) auto
  moreover have "1 / y < 1 / 2 ^ ?l" using lo y by (intro frac_less2) auto
  moreover have "1 / y = x" by (simp add: y_def)
  ultimately show ?thesis by (simp only: p1 p2)
qed

text \<open>Code equations that keep evaluation on integers of bounded size.\<close>

lemma pow2_code [code]:
  "pow2 k = (if 0 \<le> k then of_int (2 ^ nat k) else Fract 1 (2 ^ nat (- k)))"
  by (simp add: pow2_def Fract_of_int_quotient)

lemma pow2_le_iff_bexp: "0 < x \<Longrightarrow> pow2 k \<le> x \<longleftrightarrow> k \<le> bexp x"
  using bexp_bounds [of x] pow2_mono [of k "bexp x"] pow2_mono [of "bexp x + 1" k] by fastforce

lemma overflow_bound_pow2: "overflow_bound = pow2 1024"
  by (simp add: overflow_bound_def pow2_def)

lemma overflow_bound_le_iff: "overflow_bound \<le> x \<longleftrightarrow> 0 < x \<and> 1024 \<le> bexp x"
  using pow2_le_iff_bexp [of x 1024] pow2_pos [of 1024]
  unfolding overflow_bound_pow2 by (cases "0 < x") linarith+

lemma fl_code [code]:
  "fl x = (let r = rnd x in
     if r = 0 then Fin 0 else if bexp \<bar>r\<bar> < 1024 then Fin r else if 0 < r then PInf else NInf)"
proof -
  have neg: "rnd x \<le> - overflow_bound \<longleftrightarrow> rnd x < 0 \<and> 1024 \<le> bexp (- rnd x)"
    using overflow_bound_le_iff [of "- rnd x"] by (simp add: le_minus_iff)
  consider "rnd x = 0" | "0 < rnd x" | "rnd x < 0" by linarith
  then show ?thesis
    by cases (simp_all add: fl_def Let_def overflow_bound_le_iff neg not_less not_le)
qed

lemma round_half_even_int [simp]: "round_half_even (of_int n) = n"
  by (simp add: round_half_even_def Let_def)

lemma round_half_even_bounds: "\<lfloor>x\<rfloor> \<le> round_half_even x \<and> round_half_even x \<le> \<lfloor>x\<rfloor> + 1"
  by (simp add: round_half_even_def Let_def)

lemma round_half_even_mono:
  assumes "x \<le> y"
  shows "round_half_even x \<le> round_half_even y"
proof (cases "\<lfloor>x\<rfloor> = \<lfloor>y\<rfloor>")
  case True
  then show ?thesis using assms by (auto simp: round_half_even_def Let_def)
next
  case False
  then have "\<lfloor>x\<rfloor> + 1 \<le> \<lfloor>y\<rfloor>" using floor_mono [OF assms] by simp
  then show ?thesis using round_half_even_bounds [of x] round_half_even_bounds [of y] by simp
qed

lemma bexp_mono: "0 < x \<Longrightarrow> x \<le> y \<Longrightarrow> bexp x \<le> bexp y"
  using bexp_bounds [of x] bexp_bounds [of y] pow2_lt_D [of "bexp x" "bexp y + 1"] by fastforce

lemma ulp_exp_mono: "0 < x \<Longrightarrow> x \<le> y \<Longrightarrow> ulp_exp x \<le> ulp_exp y"
  using bexp_mono [of x y] by (simp add: ulp_exp_def)

text \<open>A dyadic number on the rounding grid bounds the rounding of every number below (above) it.\<close>

lemma round_pos_le_grid:
  assumes "x \<le> of_int n * pow2 (ulp_exp x)"
  shows "round_pos x \<le> of_int n * pow2 (ulp_exp x)"
proof -
  have "x / pow2 (ulp_exp x) \<le> of_int n"
    using assms by (simp add: divide_le_eq)
  then have "round_half_even (x / pow2 (ulp_exp x)) \<le> n"
    using round_half_even_mono [of _ "of_int n"] by fastforce
  then show ?thesis by (simp add: round_pos_def mult_right_mono)
qed

lemma round_pos_ge_grid:
  assumes "of_int n * pow2 (ulp_exp x) \<le> x"
  shows "of_int n * pow2 (ulp_exp x) \<le> round_pos x"
proof -
  have "of_int n \<le> x / pow2 (ulp_exp x)"
    using assms by (simp add: le_divide_eq)
  then have "n \<le> round_half_even (x / pow2 (ulp_exp x))"
    using round_half_even_mono [of "of_int n"] by fastforce
  then show ?thesis by (simp add: round_pos_def mult_right_mono)
qed

lemma round_pos_exact: "x = of_int n * pow2 (ulp_exp x) \<Longrightarrow> round_pos x = x"
  using round_pos_le_grid [of x n] round_pos_ge_grid [of n x] by simp

lemma pow2_on_grid:
  assumes "k \<le> e"
  shows "pow2 e = of_int (2 ^ nat (e - k)) * pow2 k"
  using assms pow2_add [of "e - k" k] by (simp add: pow2_int)

lemma round_pos_mono:
  assumes "0 < x" and "x \<le> y"
  shows "round_pos x \<le> round_pos y"
proof (cases "ulp_exp x = ulp_exp y")
  case True
  have "x / pow2 (ulp_exp x) \<le> y / pow2 (ulp_exp x)"
    using assms by (simp add: divide_right_mono less_imp_le)
  then have "round_half_even (x / pow2 (ulp_exp x)) \<le> round_half_even (y / pow2 (ulp_exp y))"
    using round_half_even_mono True by metis
  then show ?thesis using True by (simp add: round_pos_def mult_right_mono)
next
  case False
  then have lt: "ulp_exp x < ulp_exp y" using ulp_exp_mono [OF assms] by simp
  then have e: "bexp x < bexp y" and uy: "ulp_exp y = bexp y - 52"
    by (auto simp: ulp_exp_def)
  have "pow2 (bexp x + 1) \<le> pow2 (bexp y)" using e by (intro pow2_mono) simp
  then have xb: "x \<le> pow2 (bexp y)" using bexp_bounds [OF assms(1)] by simp
  have "pow2 (bexp y) = of_int (2 ^ nat (bexp y - ulp_exp x)) * pow2 (ulp_exp x)"
    using lt uy by (intro pow2_on_grid) simp
  with xb have "round_pos x \<le> pow2 (bexp y)" using round_pos_le_grid by metis
  moreover have "pow2 (bexp y) = of_int (2 ^ nat (bexp y - ulp_exp y)) * pow2 (ulp_exp y)"
    using uy by (intro pow2_on_grid) simp
  then have "pow2 (bexp y) \<le> round_pos y"
    using round_pos_ge_grid bexp_bounds [of y] assms by (metis less_le_trans)
  ultimately show ?thesis by simp
qed

lemma round_pos_nonneg: "0 < x \<Longrightarrow> 0 \<le> round_pos x"
  using round_pos_ge_grid [of 0 x] by simp

lemma rnd_0 [simp]: "rnd 0 = 0"
  by (simp add: rnd_def)

lemma rnd_nonneg: "0 \<le> x \<Longrightarrow> 0 \<le> rnd x"
  by (simp add: rnd_def round_pos_nonneg)

lemma rnd_nonpos: "x \<le> 0 \<Longrightarrow> rnd x \<le> 0"
  using round_pos_nonneg [of "- x"] by (simp add: rnd_def)

lemma rnd_mono:
  assumes "x \<le> y"
  shows "rnd x \<le> rnd y"
proof (cases "0 < x")
  case True
  with assms show ?thesis by (simp add: rnd_def round_pos_mono)
next
  case x: False
  show ?thesis
  proof (cases "y < 0")
    case True
    with assms round_pos_mono [of "- y" "- x"] show ?thesis by (simp add: rnd_def)
  next
    case False
    with x rnd_nonneg [of y] rnd_nonpos [of x] show ?thesis by simp
  qed
qed

lemma rnd_small_int:
  assumes "\<bar>n\<bar> \<le> 2 ^ 53"
  shows "rnd (of_int n) = of_int n"
proof -
  have pos: "round_pos (of_int m) = of_int m" if m: "0 < m" "m \<le> 2 ^ 53" for m :: int
  proof -
    let ?q = "ulp_exp (of_int m)"
    have b: "pow2 (bexp (of_int m)) \<le> of_int m" using bexp_bounds [of "of_int m"] m by simp
    have "(of_int m :: rat) \<le> of_int (2 ^ 53)" using m by (simp only: of_int_le_iff)
    then have "pow2 (bexp (of_int m)) < pow2 54" using b by (simp add: pow2_def)
    then have e: "bexp (of_int m) \<le> 53" using pow2_lt_D by fastforce
    show ?thesis
    proof (cases "m = 2 ^ 53")
      case True
      have "pow2 53 = of_int (2 ^ nat (53 - ?q)) * pow2 ?q"
        using e by (intro pow2_on_grid) (simp add: ulp_exp_def)
      moreover have "(of_int m :: rat) = pow2 53" using True by (simp add: pow2_def)
      ultimately show ?thesis by (metis round_pos_exact)
    next
      case False
      then have "m < 2 ^ 53" using m by simp
      then have "(of_int m :: rat) < of_int (2 ^ 53)" by (simp only: of_int_less_iff)
      then have "pow2 (bexp (of_int m)) < pow2 53" using b by (simp add: pow2_def)
      then have "bexp (of_int m) < 53" using pow2_lt_D by fastforce
      then have q: "?q \<le> 0" by (simp add: ulp_exp_def)
      have "pow2 0 = of_int (2 ^ nat (0 - ?q)) * pow2 ?q"
        using q by (intro pow2_on_grid) simp
      then have "(of_int m :: rat) = of_int (m * 2 ^ nat (0 - ?q)) * pow2 ?q"
        by (simp add: mult.assoc)
      then show ?thesis by (rule round_pos_exact)
    qed
  qed
  show ?thesis
    using pos [of n] pos [of "- n"] assms by (auto simp: rnd_def)
qed

section \<open>The order on the non-NaN values\<close>

lemma fle_refl [simp]: "x \<noteq> NaN \<Longrightarrow> fle x x"
  by (cases x) auto

lemma fle_PInf [simp]: "x \<noteq> NaN \<Longrightarrow> fle x PInf"
  by (cases x) auto

lemma fle_NInf [simp]: "x \<noteq> NaN \<Longrightarrow> fle NInf x"
  by (cases x) auto

lemma fle_trans: "fle x y \<Longrightarrow> fle y z \<Longrightarrow> fle x z"
  by (cases x; cases y; cases z) auto

lemma fl_mono: "x \<le> y \<Longrightarrow> fle (fl x) (fl y)"
  using rnd_mono [of x y] by (auto simp: fl_def Let_def)

lemma overflow_bound_pos [simp]: "0 < overflow_bound"
  by (simp only: overflow_bound_def) simp

lemma fl_0 [simp]: "fl 0 = Fin 0"
  by (simp add: fl_def Let_def not_le)

lemma fl_not_NaN [simp]: "fl x \<noteq> NaN"
  by (simp add: fl_def Let_def)

lemma fl_nonneg: "0 \<le> x \<Longrightarrow> fle (Fin 0) (fl x)"
  using fl_mono [of 0 x] by simp

lemma fl_int_small: "\<bar>n\<bar> \<le> 2 ^ 53 \<Longrightarrow> fl_int n = Fin (of_int n)"
proof -
  assume a: "\<bar>n\<bar> \<le> 2 ^ 53"
  have "\<bar>of_int n :: rat\<bar> \<le> of_int (2 ^ 53)"
    using a by (metis of_int_abs of_int_le_iff)
  also have "of_int (2 ^ 53) < overflow_bound"
    unfolding overflow_bound_def by (simp add: power_strict_increasing)
  finally have "\<bar>of_int n :: rat\<bar> < overflow_bound" .
  then show ?thesis
    using a by (auto simp: fl_int_def fl_def Let_def rnd_small_int abs_less_iff)
qed

lemma fl_int_mono: "m \<le> n \<Longrightarrow> fle (fl_int m) (fl_int n)"
  by (simp add: fl_int_def fl_mono)

lemma fl_int_nonneg: "0 \<le> n \<Longrightarrow> fle (Fin 0) (fl_int n)"
  by (simp add: fl_int_def fl_nonneg)

lemma fmul_nonneg:
  "fle (Fin 0) x \<Longrightarrow> fle (Fin 0) y \<Longrightarrow> fmul x y \<noteq> NaN \<Longrightarrow> fle (Fin 0) (fmul x y)"
  by (cases x; cases y) (auto simp: fl_nonneg inf_sgn_def split: if_splits)

lemma fmul_mono:
  assumes "fle x y" and "fle (Fin 0) z" and "fmul x z \<noteq> NaN" and "fmul y z \<noteq> NaN"
  shows "fle (fmul x z) (fmul y z)"
  using assms
  by (cases x; cases y; cases z)
     (auto simp: fl_mono mult_right_mono inf_sgn_def split: if_splits)

lemma fadd_mono:
  "fle x y \<Longrightarrow> fadd x z \<noteq> NaN \<Longrightarrow> fadd y z \<noteq> NaN \<Longrightarrow> fle (fadd x z) (fadd y z)"
  by (cases x; cases y; cases z) (auto simp: fl_mono split: if_splits)

lemma trunc_rat_mono: "x \<le> y \<Longrightarrow> trunc_rat x \<le> trunc_rat y"
proof (cases "0 \<le> x")
  case True
  assume "x \<le> y"
  with True show ?thesis by (simp add: trunc_rat_def floor_mono)
next
  case False
  assume "x \<le> y"
  then have neg: "\<lfloor>- y\<rfloor> \<le> \<lfloor>- x\<rfloor>" by (simp add: floor_mono)
  have "trunc_rat x \<le> 0" and "0 \<le> y \<Longrightarrow> 0 \<le> trunc_rat y"
    using False by (simp_all add: trunc_rat_def)
  then show ?thesis
  proof (cases "0 \<le> y")
    case False
    with neg \<open>\<not> 0 \<le> x\<close> show ?thesis by (simp add: trunc_rat_def)
  qed (rule order_trans)
qed

lemma trunc_rat_nonneg: "0 \<le> x \<Longrightarrow> 0 \<le> trunc_rat x"
  by (simp add: trunc_rat_def)

lemma trunc_rat_of_int [simp]: "trunc_rat (of_int n) = n"
  by (simp add: trunc_rat_def)

text \<open>Conversion to \<open>int64\<close> is monotone wherever the value fits.\<close>

definition fits_i64 :: "float64 \<Rightarrow> bool" where
  "fits_i64 f = (case f of Fin x \<Rightarrow> in_i64 (trunc_rat x) | _ \<Rightarrow> False)"

lemma f2i_mono: "fle x y \<Longrightarrow> fits_i64 x \<Longrightarrow> fits_i64 y \<Longrightarrow> f2i x \<le> f2i y"
  by (cases x; cases y) (auto simp: fits_i64_def trunc_rat_mono)

lemma f2i_nonneg: "fle (Fin 0) x \<Longrightarrow> fits_i64 x \<Longrightarrow> 0 \<le> f2i x"
  by (cases x) (auto simp: fits_i64_def trunc_rat_nonneg)

lemma in_i64_f2i [simp]: "in_i64 (f2i x)"
  by (cases x) (auto simp: in_i64_def)

section \<open>Rounding twice\<close>

lemma round_pos_grid:
  "round_pos x = of_int (round_half_even (x / pow2 (ulp_exp x))) * pow2 (ulp_exp x)"
  by (simp add: round_pos_def)

text \<open>A rounded value has at most 53 significant bits on its grid.\<close>

lemma round_pos_mantissa:
  assumes "0 < x"
  shows "0 \<le> round_half_even (x / pow2 (ulp_exp x)) \<and> round_half_even (x / pow2 (ulp_exp x)) \<le> 2 ^ 53"
proof -
  have "x < pow2 (bexp x + 1)" using bexp_bounds [OF assms] by simp
  also have "\<dots> \<le> pow2 (53 + ulp_exp x)" by (rule pow2_mono) (simp add: ulp_exp_def)
  also have "\<dots> = pow2 53 * pow2 (ulp_exp x)" by (simp add: pow2_add)
  finally have "x / pow2 (ulp_exp x) \<le> of_int (2 ^ 53)" by (simp add: pos_divide_le_eq pow2_def)
  from round_half_even_mono [OF this] have "round_half_even (x / pow2 (ulp_exp x)) \<le> 2 ^ 53"
    by (simp only: round_half_even_int)
  moreover have "0 \<le> \<lfloor>x / pow2 (ulp_exp x)\<rfloor>" using assms by (simp add: pos_le_divide_eq)
  ultimately show ?thesis using round_half_even_bounds [of "x / pow2 (ulp_exp x)"] by linarith
qed

lemma round_pos_idem:
  assumes "0 < x"
  shows "round_pos (round_pos x) = round_pos x \<or> round_pos x = 0"
proof -
  define k where "k = ulp_exp x"
  define n where "n = round_half_even (x / pow2 k)"
  have r: "round_pos x = of_int n * pow2 k" by (simp add: round_pos_def n_def k_def)
  have n: "0 \<le> n" "n \<le> 2 ^ 53" using round_pos_mantissa [OF assms] by (auto simp: n_def k_def)
  have k: "- 1074 \<le> k" by (simp add: k_def ulp_exp_def)
  show ?thesis
  proof (cases "n = 0")
    case True
    then show ?thesis using r by simp
  next
    case False
    then have pos: "0 < round_pos x" using r n by simp
    consider "n < 2 ^ 53" | "n = 2 ^ 53" using n by linarith
    then show ?thesis
    proof cases
      case 1
      have "round_pos x < of_int (2 ^ 53) * pow2 k"
        unfolding r using 1 by (intro mult_strict_right_mono) (simp_all only: of_int_less_iff pow2_pos)
      also have "\<dots> = pow2 (53 + k)" by (simp add: pow2_add) (simp add: pow2_def)
      finally have "pow2 (bexp (round_pos x)) < pow2 (53 + k)"
        using bexp_bounds [OF pos] by linarith
      then have "ulp_exp (round_pos x) \<le> k" using pow2_lt_D k by (fastforce simp: ulp_exp_def)
      then have "round_pos x = of_int (n * 2 ^ nat (k - ulp_exp (round_pos x))) * pow2 (ulp_exp (round_pos x))"
        using r pow2_on_grid [of "ulp_exp (round_pos x)" k] by simp
      from round_pos_exact [OF this] show ?thesis by simp
    next
      case 2
      then have r2: "round_pos x = pow2 (53 + k)" using r by (simp add: pow2_add) (simp add: pow2_def)
      have "pow2 (bexp (round_pos x)) \<le> round_pos x" using bexp_bounds [OF pos] by blast
      also have "\<dots> = pow2 (53 + k)" by (rule r2)
      finally have "pow2 (bexp (round_pos x)) \<le> pow2 (53 + k)" .
      then have "\<not> 53 + k < bexp (round_pos x)" using pow2_mono_lt [of "53 + k" "bexp (round_pos x)"] by linarith
      then have "ulp_exp (round_pos x) \<le> 53 + k" using k by (simp add: ulp_exp_def)
      then have "round_pos x = of_int (2 ^ nat (53 + k - ulp_exp (round_pos x))) * pow2 (ulp_exp (round_pos x))"
        using r2 pow2_on_grid [of "ulp_exp (round_pos x)" "53 + k"] by simp
      from round_pos_exact [OF this] show ?thesis by simp
    qed
  qed
qed

lemma rnd_idem: "rnd (rnd x) = rnd x"
proof -
  have *: "rnd (round_pos y) = round_pos y" if "0 < y" for y
    using round_pos_idem [OF that] round_pos_nonneg [OF that] by (auto simp: rnd_def)
  have neg: "rnd (- z) = - rnd z" for z by (simp add: rnd_def)
  show ?thesis using * [of x] * [of "- x"] neg [of "round_pos (- x)"] by (auto simp: rnd_def)
qed

lemma fl_rnd: "fl x = Fin r \<Longrightarrow> fl r = Fin r"
  using rnd_idem [of x] by (auto simp: fl_def Let_def split: if_splits)

text \<open>Multiplying a rounded non-negative number by at least one does not make it smaller.\<close>

lemma fmul_ge_1:
  assumes "fl x = Fin a" and "0 \<le> a" and "1 \<le> s"
  shows "fle (Fin a) (fmul (Fin a) (Fin s))"
proof -
  have "a * 1 \<le> a * s" by (rule mult_left_mono [OF assms(3,2)])
  then have "fle (fl a) (fl (a * s))" by (intro fl_mono) simp
  then show ?thesis using fl_rnd [OF assms(1)] by simp
qed

text \<open>
  The truncation of a product of non-negative numbers is non-negative, unless it does not fit
  (or is not a number), when the conversion yields the smallest \<open>int64\<close>.
\<close>

lemma f2i_nonneg_or_min: "fle (Fin 0) x \<or> x = NaN \<Longrightarrow> 0 \<le> f2i x \<or> f2i x = - (2 ^ 63)"
  by (cases x) (auto intro: trunc_rat_nonneg)

lemma fmul_nonneg_or_NaN:
  "fle (Fin 0) x \<or> x = NaN \<Longrightarrow> fle (Fin 0) y \<or> y = NaN \<Longrightarrow> fle (Fin 0) (fmul x y) \<or> fmul x y = NaN"
  using fmul_nonneg [of x y] by (cases x; cases y) auto

lemma f2i_product_nonneg:
  assumes "0 < k" and "fle (Fin 0) x" and "fle (Fin 0) y"
  shows "0 \<le> f2i (fmul (fmul (fl_int k) x) y) \<or> f2i (fmul (fmul (fl_int k) x) y) = - (2 ^ 63)"
  using assms fl_int_nonneg [of k] by (intro f2i_nonneg_or_min fmul_nonneg_or_NaN) auto

section \<open>An upper bound on rounding\<close>

lemma round_pos_upper:
  assumes "0 < x" and "- 1022 \<le> bexp x"
  shows "round_pos x \<le> x + x / 2 ^ 52"
proof -
  let ?u = "pow2 (ulp_exp x)"
  have "of_int (round_half_even (x / ?u)) \<le> x / ?u + 1"
    using round_half_even_bounds [of "x / ?u"] by linarith
  then have "round_pos x \<le> (x / ?u + 1) * ?u"
    unfolding round_pos_def by (intro mult_right_mono) (simp_all add: less_imp_le)
  also have "\<dots> = x + ?u" using pow2_pos [of "ulp_exp x"] by (simp add: distrib_right less_imp_neq [symmetric])
  finally have "round_pos x \<le> x + ?u" .
  moreover have "ulp_exp x = bexp x - 52" using assms(2) by (simp add: ulp_exp_def)
  then have "?u = pow2 (bexp x) / 2 ^ 52" by (simp add: pow2_diff) (simp add: pow2_def)
  moreover have "pow2 (bexp x) \<le> x" using bexp_bounds [OF assms(1)] by blast
  ultimately show ?thesis by (simp add: divide_right_mono)
qed

lemma rnd_pos: "0 < x \<Longrightarrow> rnd x = round_pos x"
  by (auto simp: rnd_def)

lemma bexp_lower: "0 < x \<Longrightarrow> pow2 k \<le> x \<Longrightarrow> k \<le> bexp x"
  by (simp add: pow2_le_iff_bexp)

lemma fle_Fin_iff: "fle (Fin 0) x \<Longrightarrow> fle x (Fin b) \<Longrightarrow> \<exists>a. x = Fin a \<and> 0 \<le> a \<and> a \<le> b"
  by (cases x) auto

end
