(* ===== verification/Store.thy ===== *)
theory Store
  imports GoFloat
begin

text \<open>
  The persistent and process-wide state of the gateway: one record per GORM model of
  \<open>src/model\<close>, the database as one list per table in primary-key order, and the \<open>World\<close> that
  adds the log database, Redis, the batch-update stores, the quota-warning cooldown map, the
  configuration variables and the clock.

  GORM and the SQL servers are not part of the repository. Their documented behaviour is the
  four statements \<open>sql_first\<close>, \<open>sql_update\<close>, \<open>sql_insert\<close>, \<open>sql_save\<close> and the combinator
  \<open>sql_transaction\<close> (all or nothing). Any call may fail: the list \<open>faults\<close> holds, for each coming
  database or Redis call, whether it fails, so a theorem for all worlds is a theorem for every
  pattern of failures. An arithmetic update that leaves the 64-bit range of its column is
  rejected, as PostgreSQL and MySQL do.
\<close>

section \<open>Error values\<close>

text \<open>
  \<open>ErrDB\<close> is any error of the database or Redis driver; \<open>Err\<close> carries the message of an
  \<open>errors.New\<close> or \<open>fmt.Errorf\<close> of the source, in English where the source writes Chinese.
  \<open>ErrUniqueViolation\<close> is the driver's own error for a violated unique index; GORM replaces it by
  \<open>gorm.ErrDuplicatedKey\<close> only when its configuration sets \<open>TranslateError\<close>, which
  \<open>model/main.go\<close> does not.
\<close>

datatype GoErr = ErrDB | ErrRecordNotFound | ErrDuplicatedKey | ErrUniqueViolation | ErrJSON | Err string

text \<open>\<open>err.Error()\<close>, for the sources that put one error's text into another.\<close>

fun error_text :: "GoErr \<Rightarrow> string" where
  "error_text ErrDB = ''database error''"
| "error_text ErrRecordNotFound = ''record not found''"
| "error_text ErrDuplicatedKey = ''duplicated key not allowed''"
| "error_text ErrUniqueViolation = ''UNIQUE constraint failed''"
| "error_text ErrJSON = ''invalid JSON''"
| "error_text (Err s) = s"

section \<open>Rows\<close>

record User =
  User_Id :: int
  User_Username :: string
  User_Password :: string
  User_DisplayName :: string
  User_Role :: int
  User_Status :: int
  User_Email :: string
  User_GitHubId :: string
  User_WeChatId :: string
  User_LarkId :: string
  User_OidcId :: string
  User_GoogleId :: string
  User_AccessToken :: string
  User_TwoFASecret :: string
  User_TwoFAEnabled :: bool
  User_BackupCodes :: string
  User_Quota :: int
  User_UsedQuota :: int
  User_RequestCount :: int
  User_Group :: string
  User_AffCode :: string
  User_InviterId :: int

record PasskeyCredential =
  Passkey_Id :: int
  Passkey_UserId :: int
  Passkey_CredentialId :: string
  Passkey_PublicKey :: string
  Passkey_SignCount :: int
  Passkey_Transports :: string
  Passkey_AAGUID :: string
  Passkey_Name :: string
  Passkey_CreatedAt :: int
  Passkey_LastUsedAt :: int

record Token =
  Token_Id :: int
  Token_UserId :: int
  Token_Key :: string
  Token_Status :: int
  Token_Name :: string
  Token_AccessedTime :: int
  Token_ExpiredTime :: int
  Token_RemainQuota :: int
  Token_UnlimitedQuota :: bool
  Token_UsedQuota :: int
  Token_Models :: "string option"
  Token_Subnet :: "string option"

record Topup =
  Topup_Id :: int
  Topup_UserId :: int
  Topup_TradeNo :: string
  Topup_GatewayTradeNo :: string
  Topup_Gateway :: string
  Topup_PayMethod :: string
  Topup_Money :: int
  Topup_Currency :: string
  Topup_Quota :: int
  Topup_Status :: string
  Topup_CallbackPayload :: string
  Topup_CreatedAt :: int
  Topup_CompletedAt :: int

record Redemption =
  Redemption_Id :: int
  Redemption_UserId :: int
  Redemption_Key :: string
  Redemption_Status :: int
  Redemption_Name :: string
  Redemption_Quota :: int
  Redemption_CreatedTime :: int
  Redemption_RedeemedTime :: int

record Checkin =
  Checkin_Id :: int
  Checkin_UserId :: int
  Checkin_Date :: string
  Checkin_Quota :: int
  Checkin_Streak :: int
  Checkin_CreatedAt :: int

text \<open>
  \<open>TaskStatus\<close> is a string type in the source with six constants; \<open>TaskStatusOther\<close> is any
  other string, the empty one included.
\<close>

datatype TaskStatus =
    TaskStatusNotStart | TaskStatusSubmitted | TaskStatusQueued | TaskStatusInProgress
  | TaskStatusSuccess | TaskStatusFailure | TaskStatusOther string

text \<open>
  \<open>OtherRatios\<close> is a Go map; the list gives its entries in the order in which one \<open>range\<close>
  loop visits them, which Go leaves open.
\<close>

record TaskBillingContext =
  TB_TokenId :: int
  TB_TokenName :: string
  TB_ModelName :: string
  TB_ModelRatio :: float64
  TB_GroupRatio :: float64
  TB_OtherRatios :: "(string \<times> float64) list"

record TaskPrivateData =
  PD_UpstreamTaskId :: string
  PD_Billing :: TaskBillingContext

text \<open>
  The \<open>private_data\<close> column holds a JSON text: blank, the encoding of a \<open>TaskPrivateData\<close>, or a
  text that \<open>json.Unmarshal\<close> rejects.
\<close>

datatype PrivateCol = PrivateBlank | PrivateJSON TaskPrivateData | PrivateBad

record Task =
  Task_Id :: int
  Task_TaskId :: string
  Task_Platform :: string
  Task_UserId :: int
  Task_Group :: string
  Task_ChannelId :: int
  Task_Quota :: int
  Task_Action :: string
  Task_Status :: TaskStatus
  Task_FailReason :: string
  Task_SubmitTime :: int
  Task_StartTime :: int
  Task_FinishTime :: int
  Task_Progress :: int
  Task_ResultUrl :: string
  Task_Properties :: string
  Task_PrivateData :: PrivateCol
  Task_Data :: string
  Task_CreatedAt :: int

record Channel =
  Channel_Id :: int
  Channel_Type :: int
  Channel_Key :: string
  Channel_Status :: int
  Channel_Name :: string
  Channel_BaseURL :: "string option"
  Channel_Models :: string
  Channel_Group :: string
  Channel_UsedQuota :: int
  Channel_Priority :: "int option"
  Channel_ModelMapping :: "string option"
  Channel_Other :: "string option"
  Channel_Config :: string
  Channel_SystemPrompt :: "string option"
  Channel_TestTime :: int
  Channel_ResponseTime :: int

record Ability =
  Ability_Group :: string
  Ability_Model :: string
  Ability_ChannelId :: int
  Ability_Enabled :: bool
  Ability_Priority :: "int option"

text \<open>
  A consumption or refund record. \<open>Content\<close> is display text; the model keeps the values that
  are formatted into it.
\<close>

datatype LogContent =
    LogTopupBy string int string int
  | LogRedeem int
  | LogCheckin int int
  | LogBonus string int
  | LogQuotaChange int int
  | LogRemark string int
  | LogRatios "float64 list"
  | LogTask string string
  | LogVideo string float64 float64

record Log =
  Log_UserId :: int
  Log_Username :: string
  Log_CreatedAt :: int
  Log_Type :: int
  Log_Content :: LogContent
  Log_ModelName :: string
  Log_TokenName :: string
  Log_Quota :: int
  Log_PromptTokens :: int
  Log_CompletionTokens :: int
  Log_ChannelId :: int
  Log_IsStream :: bool
  Log_SystemPromptReset :: bool

record OptionRow =
  Option_Key :: string
  Option_Value :: string

record Database =
  db_users :: "User list"
  db_tokens :: "Token list"
  db_topups :: "Topup list"
  db_redemptions :: "Redemption list"
  db_checkins :: "Checkin list"
  db_tasks :: "Task list"
  db_channels :: "Channel list"
  db_abilities :: "Ability list"
  db_passkeys :: "PasskeyCredential list"
  db_options :: "OptionRow list"

section \<open>Configuration and the world\<close>

text \<open>
  Redis values are strings, but for the cached token rows, kept apart in \<open>redis_token\<close>: the value
  there is always the JSON text that \<open>json.Marshal\<close> wrote for a token.
\<close>

record Config =
  BatchUpdateEnabled :: bool
  RedisEnabled :: bool
  LogConsumeEnabled :: bool
  PreConsumedQuota :: int
  QuotaPerUnit :: float64
  QuotaForNewUser :: int
  QuotaForInviter :: int
  QuotaForInvitee :: int
  Checkin_DailyQuota :: int
  Checkin_StreakBonus :: int
  Checkin_StreakCap :: int
  TZOffset :: int
  Warn_Enabled :: bool
  Warn_ThresholdQuota :: int
  Warn_CooldownHours :: int
  EnforceIncludeUsage :: bool
  RetryTimes :: int
  MemoryCacheEnabled :: bool
  AutomaticDisableChannelEnabled :: bool
  AutomaticEnableChannelEnabled :: bool
  EnableMetric :: bool
  MetricQueueSize :: int
  MetricSuccessRateThreshold :: float64

datatype BatchUpdateType =
    BatchUpdateTypeUserQuota | BatchUpdateTypeTokenQuota | BatchUpdateTypeUsedQuota
  | BatchUpdateTypeChannelUsedQuota | BatchUpdateTypeRequestCount

record World =
  db :: Database
  log_db :: "Log list"
  redis :: "string \<Rightarrow> string option"
  redis_token :: "string \<Rightarrow> Token option"
  batchUpdateStores :: "BatchUpdateType \<Rightarrow> (int \<times> int) list"
  quotaWarningLastSent :: "(int \<times> int) list"
  warnings_sent :: "int list"
  cfg :: Config
  clock :: int
  faults :: "bool list"

definition io_fault :: "World \<Rightarrow> bool \<times> World" where
  "io_fault w = (case faults w of [] \<Rightarrow> (False, w) | b # bs \<Rightarrow> (b, w\<lparr>faults := bs\<rparr>))"

section \<open>SQL statements\<close>

text \<open>A table is given by its selector and its record-update function.\<close>

type_synonym 'r tbl_get = "Database \<Rightarrow> 'r list"
type_synonym 'r tbl_upd = "('r list \<Rightarrow> 'r list) \<Rightarrow> Database \<Rightarrow> Database"

definition sql_first ::
  "'r tbl_get \<Rightarrow> ('r \<Rightarrow> bool) \<Rightarrow> World \<Rightarrow> (GoErr + 'r) \<times> World" where
  "sql_first get P w = (case io_fault w of
       (True, w1) \<Rightarrow> (Inl ErrDB, w1)
     | (False, w1) \<Rightarrow> (case find P (get (db w1)) of
           None \<Rightarrow> (Inl ErrRecordNotFound, w1)
         | Some r \<Rightarrow> (Inr r, w1)))"

text \<open>\<open>Find\<close> of one column: no row is not an error, the destination keeps its zero value.\<close>

definition sql_find_col ::
  "'r tbl_get \<Rightarrow> ('r \<Rightarrow> bool) \<Rightarrow> ('r \<Rightarrow> 'c) \<Rightarrow> 'c \<Rightarrow> World \<Rightarrow> (GoErr + 'c) \<times> World" where
  "sql_find_col get P col zero w = (case io_fault w of
       (True, w1) \<Rightarrow> (Inl ErrDB, w1)
     | (False, w1) \<Rightarrow> (Inr (case find P (get (db w1)) of None \<Rightarrow> zero | Some r \<Rightarrow> col r), w1))"

text \<open>\<open>UPDATE ... SET f WHERE P\<close>; \<open>ok\<close> says that the new row fits its columns. Returns \<open>RowsAffected\<close>.\<close>

definition sql_update ::
  "'r tbl_get \<Rightarrow> 'r tbl_upd \<Rightarrow> ('r \<Rightarrow> bool) \<Rightarrow> ('r \<Rightarrow> bool) \<Rightarrow> ('r \<Rightarrow> 'r) \<Rightarrow> World
     \<Rightarrow> (GoErr + nat) \<times> World" where
  "sql_update get upd ok P f w = (case io_fault w of
       (True, w1) \<Rightarrow> (Inl ErrDB, w1)
     | (False, w1) \<Rightarrow>
         if list_all (\<lambda>r. P r \<longrightarrow> ok (f r)) (get (db w1))
         then (Inr (count_where P (get (db w1))), w1\<lparr>db := upd (update_where P f) (db w1)\<rparr>)
         else (Inl ErrDB, w1))"

text \<open>\<open>DELETE ... WHERE P\<close>.\<close>

definition sql_delete ::
  "'r tbl_get \<Rightarrow> 'r tbl_upd \<Rightarrow> ('r \<Rightarrow> bool) \<Rightarrow> World \<Rightarrow> (GoErr + nat) \<times> World" where
  "sql_delete get upd P w = (case io_fault w of
       (True, w1) \<Rightarrow> (Inl ErrDB, w1)
     | (False, w1) \<Rightarrow> (Inr (count_where P (get (db w1))), w1\<lparr>db := upd (filter (\<lambda>r. \<not> P r)) (db w1)\<rparr>))"

text \<open>\<open>INSERT\<close>: \<open>dup\<close> says which existing row violates a unique index with the new one.\<close>

definition sql_insert ::
  "'r tbl_get \<Rightarrow> 'r tbl_upd \<Rightarrow> ('r \<Rightarrow> bool) \<Rightarrow> 'r \<Rightarrow> World \<Rightarrow> (GoErr + unit) \<times> World" where
  "sql_insert get upd dup r w = (case io_fault w of
       (True, w1) \<Rightarrow> (Inl ErrDB, w1)
     | (False, w1) \<Rightarrow>
         if list_ex dup (get (db w1)) then (Inl ErrUniqueViolation, w1)
         else (Inr (), w1\<lparr>db := upd (\<lambda>rows. rows @ [r]) (db w1)\<rparr>))"

text \<open>GORM's \<open>Save\<close>: update every column of the row with this key, insert it when there is none.\<close>

definition sql_save ::
  "'r tbl_get \<Rightarrow> 'r tbl_upd \<Rightarrow> ('r \<Rightarrow> 'k) \<Rightarrow> 'r \<Rightarrow> World \<Rightarrow> (GoErr + unit) \<times> World" where
  "sql_save get upd key r w = (case io_fault w of
       (True, w1) \<Rightarrow> (Inl ErrDB, w1)
     | (False, w1) \<Rightarrow>
         (Inr (), w1\<lparr>db := upd (\<lambda>rows.
            if list_ex (\<lambda>x. key x = key r) rows
            then update_where (\<lambda>x. key x = key r) (\<lambda>_. r) rows
            else rows @ [r]) (db w1)\<rparr>))"

text \<open>\<open>WHERE P ORDER BY id DESC LIMIT limit OFFSET offset\<close>; a negative limit means no limit.\<close>

definition sql_list ::
  "'r tbl_get \<Rightarrow> ('r \<Rightarrow> bool) \<Rightarrow> int \<Rightarrow> int \<Rightarrow> World \<Rightarrow> (GoErr + 'r list) \<times> World" where
  "sql_list get P off limit w = (case io_fault w of
       (True, w1) \<Rightarrow> (Inl ErrDB, w1)
     | (False, w1) \<Rightarrow>
         let rows = drop (nat off) (rev (filter P (get (db w1))))
         in (Inr (if limit < 0 then rows else take (nat limit) rows), w1))"

text \<open>\<open>WHERE P ORDER BY id LIMIT limit\<close>.\<close>

definition sql_list_asc ::
  "'r tbl_get \<Rightarrow> ('r \<Rightarrow> bool) \<Rightarrow> int \<Rightarrow> World \<Rightarrow> (GoErr + 'r list) \<times> World" where
  "sql_list_asc get P limit w = (case io_fault w of
       (True, w1) \<Rightarrow> (Inl ErrDB, w1)
     | (False, w1) \<Rightarrow>
         let rows = filter P (get (db w1))
         in (Inr (if limit < 0 then rows else take (nat limit) rows), w1))"

text \<open>\<open>WHERE P ORDER BY key DESC LIMIT limit OFFSET offset\<close>; rows with equal keys come in the order of the table.\<close>

definition sql_sorted ::
  "'r tbl_get \<Rightarrow> ('r \<Rightarrow> bool) \<Rightarrow> ('r \<Rightarrow> int) \<Rightarrow> int \<Rightarrow> int \<Rightarrow> World \<Rightarrow> (GoErr + 'r list) \<times> World" where
  "sql_sorted get P key off limit w = (case io_fault w of
       (True, w1) \<Rightarrow> (Inl ErrDB, w1)
     | (False, w1) \<Rightarrow>
         let rows = drop (nat off) (sort_key (\<lambda>r. - key r) (filter P (get (db w1))))
         in (Inr (if limit < 0 then rows else take (nat limit) rows), w1))"

text \<open>The next auto-increment key.\<close>

definition next_id :: "('r \<Rightarrow> int) \<Rightarrow> 'r list \<Rightarrow> int" where
  "next_id key rows = fold max (map key rows) 0 + 1"

text \<open>
  \<open>DB.Transaction\<close>: begin and commit are database calls of their own; an error of the body, of
  \<open>BEGIN\<close> or of \<open>COMMIT\<close> leaves the database as it was.
\<close>

definition sql_transaction ::
  "(World \<Rightarrow> (GoErr + 'a) \<times> World) \<Rightarrow> World \<Rightarrow> (GoErr + 'a) \<times> World" where
  "sql_transaction body w = (case io_fault w of
       (True, w1) \<Rightarrow> (Inl ErrDB, w1)
     | (False, w1) \<Rightarrow> (case body w1 of
           (Inl e, w2) \<Rightarrow> (Inl e, w2\<lparr>db := db w1\<rparr>)
         | (Inr x, w2) \<Rightarrow> (case io_fault w2 of
               (True, w3) \<Rightarrow> (Inl ErrDB, w3\<lparr>db := db w1\<rparr>)
             | (False, w3) \<Rightarrow> (Inr x, w3))))"

section \<open>Redis\<close>

definition RedisGet :: "string \<Rightarrow> World \<Rightarrow> (GoErr + string) \<times> World" where
  "RedisGet key w = (case io_fault w of
       (True, w1) \<Rightarrow> (Inl ErrDB, w1)
     | (False, w1) \<Rightarrow> (case redis w1 key of None \<Rightarrow> (Inl ErrRecordNotFound, w1) | Some v \<Rightarrow> (Inr v, w1)))"

definition RedisSet :: "string \<Rightarrow> string \<Rightarrow> World \<Rightarrow> (GoErr + unit) \<times> World" where
  "RedisSet key value w = (case io_fault w of
       (True, w1) \<Rightarrow> (Inl ErrDB, w1)
     | (False, w1) \<Rightarrow> (Inr (), w1\<lparr>redis := (redis w1)(key := Some value)\<rparr>))"

text \<open>\<open>DECRBY\<close>: a missing key counts as 0; a value that is not a decimal integer is an error.\<close>

definition RedisDecrease :: "string \<Rightarrow> int \<Rightarrow> World \<Rightarrow> (GoErr + unit) \<times> World" where
  "RedisDecrease key value w = (case io_fault w of
       (True, w1) \<Rightarrow> (Inl ErrDB, w1)
     | (False, w1) \<Rightarrow> (case (case redis w1 key of None \<Rightarrow> Some 0 | Some v \<Rightarrow> go_atoi v) of
           None \<Rightarrow> (Inl ErrDB, w1)
         | Some k \<Rightarrow>
             if in_i64 (k - value)
             then (Inr (), w1\<lparr>redis := (redis w1)(key := Some (show_int (k - value)))\<rparr>)
             else (Inl ErrDB, w1)))"

section \<open>Frames\<close>

text \<open>
  What a step leaves alone. \<open>same_env\<close>: configuration, clock, batch stores and the other
  process state are untouched; only the database, the log database, Redis and the remaining
  faults may differ.
\<close>

definition same_env :: "World \<Rightarrow> World \<Rightarrow> bool" where
  "same_env w w' \<longleftrightarrow> cfg w' = cfg w \<and> clock w' = clock w
     \<and> batchUpdateStores w' = batchUpdateStores w
     \<and> quotaWarningLastSent w' = quotaWarningLastSent w
     \<and> warnings_sent w' = warnings_sent w"

lemma same_env_refl [simp, intro]: "same_env w w"
  by (simp add: same_env_def)

lemma same_env_trans: "same_env w1 w2 \<Longrightarrow> same_env w2 w3 \<Longrightarrow> same_env w1 w3"
  by (simp add: same_env_def)

lemma same_env_db [simp]: "same_env w (w'\<lparr>db := d\<rparr>) = same_env w w'"
  by (simp add: same_env_def)

lemma io_fault_frame:
  "io_fault w = (b, w1) \<Longrightarrow>
     db w1 = db w \<and> log_db w1 = log_db w \<and> redis w1 = redis w \<and> same_env w w1"
  by (auto simp: io_fault_def same_env_def split: list.splits)

lemma io_fault_Nil [simp]: "faults w = [] \<Longrightarrow> io_fault w = (False, w)"
  by (simp add: io_fault_def)

lemma io_fault_faults: "io_fault w = (b, w1) \<Longrightarrow> faults w1 = tl (faults w)"
  by (auto simp: io_fault_def split: list.splits)

lemma sql_first_frame:
  "sql_first get P w = (r, w1) \<Longrightarrow> db w1 = db w \<and> log_db w1 = log_db w \<and> redis w1 = redis w \<and> same_env w w1"
  by (auto simp: sql_first_def dest!: io_fault_frame split: prod.splits bool.splits option.splits)

lemma sql_first_Inr:
  "sql_first get P w = (Inr r, w1) \<Longrightarrow> find P (get (db w)) = Some r"
  by (auto simp: sql_first_def dest!: io_fault_frame split: prod.splits bool.splits option.splits)

lemma sql_find_col_frame:
  "sql_find_col get P col z w = (r, w1) \<Longrightarrow>
     db w1 = db w \<and> log_db w1 = log_db w \<and> redis w1 = redis w \<and> same_env w w1"
  by (auto simp: sql_find_col_def dest!: io_fault_frame split: prod.splits bool.splits)

lemma sql_update_Inl:
  "sql_update get upd ok P f w = (Inl e, w1) \<Longrightarrow>
     db w1 = db w \<and> log_db w1 = log_db w \<and> redis w1 = redis w \<and> same_env w w1"
  by (auto simp: sql_update_def dest!: io_fault_frame split: prod.splits bool.splits if_splits)

lemma sql_update_Inr:
  "sql_update get upd ok P f w = (Inr n, w1) \<Longrightarrow>
     db w1 = upd (update_where P f) (db w) \<and> n = count_where P (get (db w))
     \<and> list_all (\<lambda>r. P r \<longrightarrow> ok (f r)) (get (db w))
     \<and> log_db w1 = log_db w \<and> redis w1 = redis w \<and> same_env w w1"
  by (auto simp: sql_update_def dest!: io_fault_frame split: prod.splits bool.splits if_splits)

lemma sql_update_env: "sql_update get upd ok P f w = (r, w1) \<Longrightarrow> same_env w w1"
  by (cases r) (auto dest: sql_update_Inl sql_update_Inr)

lemma sql_save_Inl:
  "sql_save get upd key r w = (Inl e, w1) \<Longrightarrow>
     db w1 = db w \<and> log_db w1 = log_db w \<and> redis w1 = redis w \<and> same_env w w1"
  by (auto simp: sql_save_def dest!: io_fault_frame split: prod.splits bool.splits)

lemma sql_save_Inr:
  "sql_save get upd key r w = (Inr x, w1) \<Longrightarrow>
     db w1 = upd (\<lambda>rows. if list_ex (\<lambda>x. key x = key r) rows
                     then update_where (\<lambda>x. key x = key r) (\<lambda>_. r) rows else rows @ [r]) (db w)
     \<and> log_db w1 = log_db w \<and> redis w1 = redis w \<and> same_env w w1"
  by (auto simp: sql_save_def dest!: io_fault_frame split: prod.splits bool.splits)

lemma sql_insert_Inl:
  "sql_insert get upd dup r w = (Inl e, w1) \<Longrightarrow>
     db w1 = db w \<and> log_db w1 = log_db w \<and> redis w1 = redis w \<and> same_env w w1"
  by (auto simp: sql_insert_def dest!: io_fault_frame split: prod.splits bool.splits if_splits)

lemma sql_insert_Inr:
  "sql_insert get upd dup r w = (Inr x, w1) \<Longrightarrow>
     db w1 = upd (\<lambda>rows. rows @ [r]) (db w) \<and> \<not> list_ex dup (get (db w))
     \<and> log_db w1 = log_db w \<and> redis w1 = redis w \<and> same_env w w1"
  by (auto simp: sql_insert_def dest!: io_fault_frame split: prod.splits bool.splits if_splits)

lemma sql_list_frame:
  "sql_list get P off limit w = (r, w1) \<Longrightarrow>
     db w1 = db w \<and> log_db w1 = log_db w \<and> redis w1 = redis w \<and> same_env w w1"
  by (auto simp: sql_list_def Let_def dest!: io_fault_frame split: prod.splits bool.splits)

lemma sql_list_asc_frame:
  "sql_list_asc get P limit w = (r, w1) \<Longrightarrow>
     db w1 = db w \<and> log_db w1 = log_db w \<and> redis w1 = redis w \<and> same_env w w1"
  by (auto simp: sql_list_asc_def Let_def dest!: io_fault_frame split: prod.splits bool.splits)

lemma sql_list_asc_Inr:
  "sql_list_asc get P limit w = (Inr rows, w1) \<Longrightarrow> r \<in> set rows \<Longrightarrow> r \<in> set (get (db w)) \<and> P r"
  by (auto simp: sql_list_asc_def Let_def dest!: io_fault_frame in_set_takeD
      split: prod.splits bool.splits if_splits)

text \<open>A transaction that returns an error leaves the database as it found it.\<close>

lemma sql_transaction_Inl: "sql_transaction body w = (Inl e, w') \<Longrightarrow> db w' = db w"
  by (auto simp: sql_transaction_def dest!: io_fault_frame
      split: prod.splits bool.splits sum.splits)

lemma sql_transaction_Inr:
  assumes "sql_transaction body w = (Inr x, w')"
  obtains w1 w2 where "io_fault w = (False, w1)" and "body w1 = (Inr x, w2)"
    and "io_fault w2 = (False, w')"
  using assms by (auto simp: sql_transaction_def split: prod.splits bool.splits sum.splits)

lemma sql_transaction_env:
  assumes "sql_transaction body w = (r, w')"
    and "\<And>v x v'. body v = (x, v') \<Longrightarrow> same_env v v'"
  shows "same_env w w'"
  using assms(1) unfolding sql_transaction_def
  by (auto dest!: io_fault_frame assms(2) intro: same_env_trans
      split: prod.splits bool.splits sum.splits)

lemma fold_max_ge: "a \<le> fold max xs a \<and> (x \<in> set xs \<longrightarrow> x \<le> fold max xs (a :: int))"
proof (induction xs arbitrary: a)
  case Nil
  show ?case by simp
next
  case (Cons y ys)
  show ?case using Cons [of "max y a"] by auto
qed

lemma next_id_fresh: "x \<in> set rows \<Longrightarrow> key x < next_id key rows"
  using fold_max_ge [of 0 "map key rows" "key x"] by (simp add: next_id_def)

section \<open>A small world for the witnesses\<close>

definition empty_db :: Database where
  "empty_db = \<lparr>db_users = [], db_tokens = [], db_topups = [], db_redemptions = [], db_checkins = [],
     db_tasks = [], db_channels = [], db_abilities = [], db_passkeys = [], db_options = []\<rparr>"

text \<open>The defaults of \<open>common/config\<close> and of the setting packages.\<close>

definition default_cfg :: Config where
  "default_cfg = \<lparr>BatchUpdateEnabled = False, RedisEnabled = False, LogConsumeEnabled = True,
     PreConsumedQuota = 500, QuotaPerUnit = Fin 500000, QuotaForNewUser = 0, QuotaForInviter = 0,
     QuotaForInvitee = 0, Checkin_DailyQuota = 0, Checkin_StreakBonus = 0, Checkin_StreakCap = 7, TZOffset = 0,
     Warn_Enabled = True, Warn_ThresholdQuota = 500000, Warn_CooldownHours = 24,
     EnforceIncludeUsage = False, RetryTimes = 0, MemoryCacheEnabled = False,
     AutomaticDisableChannelEnabled = False, AutomaticEnableChannelEnabled = False,
     EnableMetric = False, MetricQueueSize = 10, MetricSuccessRateThreshold = fl 0.8\<rparr>"

definition world_of :: "Database \<Rightarrow> bool list \<Rightarrow> World" where
  "world_of d fs = \<lparr>db = d, log_db = [], redis = (\<lambda>_. None), redis_token = (\<lambda>_. None),
     batchUpdateStores = (\<lambda>_. []), quotaWarningLastSent = [], warnings_sent = [],
     cfg = default_cfg, clock = 1750000000, faults = fs\<rparr>"

definition demo_user :: "int \<Rightarrow> int \<Rightarrow> User" where
  "demo_user uid quota = \<lparr>User_Id = uid, User_Username = ''alice'', User_Password = ''h'', User_DisplayName = ''alice'',
     User_Role = 1, User_Status = 1, User_Email = ''a@b.c'', User_GitHubId = [], User_WeChatId = [],
     User_LarkId = [], User_OidcId = [], User_GoogleId = [], User_AccessToken = ''t'',
     User_TwoFASecret = [], User_TwoFAEnabled = False, User_BackupCodes = [], User_Quota = quota,
     User_UsedQuota = 0, User_RequestCount = 0, User_Group = ''default'', User_AffCode = ''x'',
     User_InviterId = 0\<rparr>"

definition demo_token :: "int \<Rightarrow> int \<Rightarrow> int \<Rightarrow> bool \<Rightarrow> Token" where
  "demo_token tid uid remain unlimited = \<lparr>Token_Id = tid, Token_UserId = uid, Token_Key = ''key'',
     Token_Status = 1, Token_Name = ''tok'', Token_AccessedTime = 0, Token_ExpiredTime = - 1,
     Token_RemainQuota = remain, Token_UnlimitedQuota = unlimited, Token_UsedQuota = 0,
     Token_Models = None, Token_Subnet = None\<rparr>"

definition demo_db :: Database where
  "demo_db = empty_db\<lparr>db_users := [demo_user 1 100, demo_user 2 40],
     db_tokens := [demo_token 7 1 50 False, demo_token 8 2 0 True]\<rparr>"

end
