(* ===== verification/Wallet.thy ===== *)
theory Wallet
  imports Store
begin

text \<open>
  The user wallet (\<open>model/user.go\<close>), its Redis cache (\<open>model/cache.go\<close>), the consumption log
  (\<open>model/log.go\<close>) and the entry side of the batch updater (\<open>model/utils.go\<close>). The wallet is an
  instance of the locale \<open>ledger\<close>, which the token side of \<open>TokenLedger\<close> instantiates too.
\<close>

definition RoleGuestUser :: int where "RoleGuestUser = 0"
definition RoleCommonUser :: int where "RoleCommonUser = 1"
definition RoleAdminUser :: int where "RoleAdminUser = 10"
definition RoleRootUser :: int where "RoleRootUser = 100"

definition UserStatusEnabled :: int where "UserStatusEnabled = 1"
definition UserStatusDisabled :: int where "UserStatusDisabled = 2"
definition UserStatusDeleted :: int where "UserStatusDeleted = 3"

text \<open>The Go shape \<open>err := stmt.Error\<close>: keep the error, drop the number of rows.\<close>

definition err_only :: "(GoErr + 'a) \<times> World \<Rightarrow> GoErr option \<times> World" where
  "err_only r = (case r of (Inl e, w) \<Rightarrow> (Some e, w) | (Inr x, w) \<Rightarrow> (None, w))"

lemma err_only_None: "err_only r = (None, w) \<longleftrightarrow> (\<exists>x. r = (Inr x, w))"
  by (cases r) (auto simp: err_only_def split: sum.splits)

lemma err_only_Some: "err_only r = (Some e, w) \<longleftrightarrow> r = (Inl e, w)"
  by (cases r) (auto simp: err_only_def split: sum.splits)

section \<open>Batch store entries\<close>

text \<open>A Go map from row id to pending delta, as an association list with distinct keys.\<close>

fun add_delta :: "int \<Rightarrow> int \<Rightarrow> (int \<times> int) list \<Rightarrow> (int \<times> int) list" where
  "add_delta uid v [] = [(uid, v)]"
| "add_delta uid v ((k, d) # xs) = (if k = uid then (k, i64 (d + v)) # xs else (k, d) # add_delta uid v xs)"

definition addNewRecord :: "BatchUpdateType \<Rightarrow> int \<Rightarrow> int \<Rightarrow> World \<Rightarrow> World" where
  "addNewRecord ty uid v w =
     w\<lparr>batchUpdateStores := (batchUpdateStores w)(ty := add_delta uid v (batchUpdateStores w ty))\<rparr>"

definition pending :: "BatchUpdateType \<Rightarrow> World \<Rightarrow> int \<Rightarrow> int" where
  "pending ty w uid = (case map_of (batchUpdateStores w ty) uid of None \<Rightarrow> 0 | Some d \<Rightarrow> d)"

section \<open>Users\<close>

definition GetUserById :: "int \<Rightarrow> World \<Rightarrow> (GoErr + User) \<times> World" where
  "GetUserById uid w =
     (if uid = 0 then (Inl (Err ''id is empty''), w)
      else sql_first db_users (\<lambda>u. User_Id u = uid) w)"

definition GetUserQuota :: "int \<Rightarrow> World \<Rightarrow> (GoErr + int) \<times> World" where
  "GetUserQuota uid w = sql_find_col db_users (\<lambda>u. User_Id u = uid) User_Quota 0 w"

definition GetUserUsedQuota :: "int \<Rightarrow> World \<Rightarrow> (GoErr + int) \<times> World" where
  "GetUserUsedQuota uid w = sql_find_col db_users (\<lambda>u. User_Id u = uid) User_UsedQuota 0 w"

definition GetUserEmail :: "int \<Rightarrow> World \<Rightarrow> (GoErr + string) \<times> World" where
  "GetUserEmail uid w = sql_find_col db_users (\<lambda>u. User_Id u = uid) User_Email [] w"

definition GetUserGroup :: "int \<Rightarrow> World \<Rightarrow> (GoErr + string) \<times> World" where
  "GetUserGroup uid w = sql_find_col db_users (\<lambda>u. User_Id u = uid) User_Group [] w"

definition GetUsernameById :: "int \<Rightarrow> World \<Rightarrow> string \<times> World" where
  "GetUsernameById uid w =
     (case sql_find_col db_users (\<lambda>u. User_Id u = uid) User_Username [] w of
        (Inl e, w1) \<Rightarrow> ([], w1)
      | (Inr n, w1) \<Rightarrow> (n, w1))"

definition IsAdmin :: "int \<Rightarrow> World \<Rightarrow> bool \<times> World" where
  "IsAdmin userId w =
     (if userId = 0 then (False, w)
      else case sql_find_col db_users (\<lambda>u. User_Id u = userId) User_Role 0 w of
        (Inl e, w1) \<Rightarrow> (False, w1)
      | (Inr role, w1) \<Rightarrow> (RoleAdminUser \<le> role, w1))"

definition IsUserEnabled :: "int \<Rightarrow> World \<Rightarrow> (GoErr + bool) \<times> World" where
  "IsUserEnabled userId w =
     (if userId = 0 then (Inl (Err ''user id is empty''), w)
      else case sql_find_col db_users (\<lambda>u. User_Id u = userId) User_Status 0 w of
        (Inl e, w1) \<Rightarrow> (Inl e, w1)
      | (Inr status, w1) \<Rightarrow> (Inr (status = UserStatusEnabled), w1))"

definition user_fits :: "User \<Rightarrow> bool" where
  "user_fits u \<longleftrightarrow> in_i64 (User_Quota u) \<and> in_i64 (User_UsedQuota u) \<and> in_i64 (User_RequestCount u)"

definition increaseUserQuota :: "int \<Rightarrow> int \<Rightarrow> World \<Rightarrow> GoErr option \<times> World" where
  "increaseUserQuota uid quota w =
     err_only (sql_update db_users db_users_update user_fits (\<lambda>u. User_Id u = uid)
       (\<lambda>u. u\<lparr>User_Quota := User_Quota u + quota\<rparr>) w)"

definition IncreaseUserQuota :: "int \<Rightarrow> int \<Rightarrow> World \<Rightarrow> GoErr option \<times> World" where
  "IncreaseUserQuota uid quota w =
     (if quota < 0 then (Some (Err ''quota must not be negative''), w)
      else if BatchUpdateEnabled (cfg w)
      then (None, addNewRecord BatchUpdateTypeUserQuota uid quota w)
      else increaseUserQuota uid quota w)"

definition decreaseUserQuota :: "int \<Rightarrow> int \<Rightarrow> World \<Rightarrow> GoErr option \<times> World" where
  "decreaseUserQuota uid quota w =
     err_only (sql_update db_users db_users_update user_fits (\<lambda>u. User_Id u = uid)
       (\<lambda>u. u\<lparr>User_Quota := User_Quota u - quota\<rparr>) w)"

definition DecreaseUserQuota :: "int \<Rightarrow> int \<Rightarrow> World \<Rightarrow> GoErr option \<times> World" where
  "DecreaseUserQuota uid quota w =
     (if quota < 0 then (Some (Err ''quota must not be negative''), w)
      else if BatchUpdateEnabled (cfg w)
      then (None, addNewRecord BatchUpdateTypeUserQuota uid (i64 (- quota)) w)
      else decreaseUserQuota uid quota w)"

definition updateUserUsedQuotaAndRequestCount :: "int \<Rightarrow> int \<Rightarrow> int \<Rightarrow> World \<Rightarrow> World" where
  "updateUserUsedQuotaAndRequestCount uid quota count w =
     snd (sql_update db_users db_users_update user_fits (\<lambda>u. User_Id u = uid)
       (\<lambda>u. u\<lparr>User_UsedQuota := User_UsedQuota u + quota,
              User_RequestCount := User_RequestCount u + count\<rparr>) w)"

definition updateUserUsedQuota :: "int \<Rightarrow> int \<Rightarrow> World \<Rightarrow> World" where
  "updateUserUsedQuota uid quota w =
     snd (sql_update db_users db_users_update user_fits (\<lambda>u. User_Id u = uid)
       (\<lambda>u. u\<lparr>User_UsedQuota := User_UsedQuota u + quota\<rparr>) w)"

definition updateUserRequestCount :: "int \<Rightarrow> int \<Rightarrow> World \<Rightarrow> World" where
  "updateUserRequestCount uid count w =
     snd (sql_update db_users db_users_update user_fits (\<lambda>u. User_Id u = uid)
       (\<lambda>u. u\<lparr>User_RequestCount := User_RequestCount u + count\<rparr>) w)"

definition UpdateUserUsedQuotaAndRequestCount :: "int \<Rightarrow> int \<Rightarrow> World \<Rightarrow> World" where
  "UpdateUserUsedQuotaAndRequestCount uid quota w =
     (if BatchUpdateEnabled (cfg w)
      then addNewRecord BatchUpdateTypeRequestCount uid 1
             (addNewRecord BatchUpdateTypeUsedQuota uid quota w)
      else updateUserUsedQuotaAndRequestCount uid quota 1 w)"

definition channel_fits :: "Channel \<Rightarrow> bool" where
  "channel_fits c \<longleftrightarrow> in_i64 (Channel_UsedQuota c)"

definition updateChannelUsedQuota :: "int \<Rightarrow> int \<Rightarrow> World \<Rightarrow> World" where
  "updateChannelUsedQuota uid quota w =
     snd (sql_update db_channels db_channels_update channel_fits (\<lambda>c. Channel_Id c = uid)
       (\<lambda>c. c\<lparr>Channel_UsedQuota := Channel_UsedQuota c + quota\<rparr>) w)"

definition UpdateChannelUsedQuota :: "int \<Rightarrow> int \<Rightarrow> World \<Rightarrow> World" where
  "UpdateChannelUsedQuota uid quota w =
     (if BatchUpdateEnabled (cfg w)
      then addNewRecord BatchUpdateTypeChannelUsedQuota uid quota w
      else updateChannelUsedQuota uid quota w)"

section \<open>The log\<close>

definition LogTypeTopup :: int where "LogTypeTopup = 1"
definition LogTypeConsume :: int where "LogTypeConsume = 2"
definition LogTypeManage :: int where "LogTypeManage = 3"
definition LogTypeSystem :: int where "LogTypeSystem = 4"
definition LogTypeRefund :: int where "LogTypeRefund = 6"

definition recordLogHelper :: "Log \<Rightarrow> World \<Rightarrow> World" where
  "recordLogHelper l w = (case io_fault w of
       (True, w1) \<Rightarrow> w1
     | (False, w1) \<Rightarrow> w1\<lparr>log_db := log_db w1 @ [l]\<rparr>)"

definition RecordLog :: "int \<Rightarrow> int \<Rightarrow> LogContent \<Rightarrow> World \<Rightarrow> World" where
  "RecordLog userId logType content w =
     (if logType = LogTypeConsume \<and> \<not> LogConsumeEnabled (cfg w) then w
      else case GetUsernameById userId w of (name, w1) \<Rightarrow>
        recordLogHelper \<lparr>Log_UserId = userId, Log_Username = name, Log_CreatedAt = clock w1,
          Log_Type = logType, Log_Content = content, Log_ModelName = [], Log_TokenName = [],
          Log_Quota = 0, Log_PromptTokens = 0, Log_CompletionTokens = 0, Log_ChannelId = 0,
          Log_IsStream = False, Log_SystemPromptReset = False\<rparr> w1)"

definition RecordConsumeLog :: "Log \<Rightarrow> World \<Rightarrow> World" where
  "RecordConsumeLog l w =
     (if \<not> LogConsumeEnabled (cfg w) then w
      else case GetUsernameById (Log_UserId l) w of (name, w1) \<Rightarrow>
        recordLogHelper (l\<lparr>Log_Username := name, Log_CreatedAt := clock w1,
                           Log_Type := LogTypeConsume\<rparr>) w1)"

definition RecordRefundLog :: "Log \<Rightarrow> World \<Rightarrow> World" where
  "RecordRefundLog l w =
     (case GetUsernameById (Log_UserId l) w of (name, w1) \<Rightarrow>
        recordLogHelper (l\<lparr>Log_Username := name, Log_CreatedAt := clock w1,
                           Log_Type := LogTypeRefund\<rparr>) w1)"

section \<open>The Redis cache of the balance\<close>

definition user_quota_key :: "int \<Rightarrow> string" where
  "user_quota_key uid = ''user_quota:'' @ show_int uid"

definition fetchAndUpdateUserQuota :: "int \<Rightarrow> World \<Rightarrow> (GoErr + int) \<times> World" where
  "fetchAndUpdateUserQuota uid w = (case GetUserQuota uid w of
       (Inl e, w1) \<Rightarrow> (Inl e, w1)
     | (Inr quota, w1) \<Rightarrow> (case RedisSet (user_quota_key uid) (show_int quota) w1 of
           (Inl e, w2) \<Rightarrow> (Inl e, w2)
         | (Inr _, w2) \<Rightarrow> (Inr quota, w2)))"

definition CacheGetUserQuota :: "int \<Rightarrow> World \<Rightarrow> (GoErr + int) \<times> World" where
  "CacheGetUserQuota uid w =
     (if \<not> RedisEnabled (cfg w) then GetUserQuota uid w
      else case RedisGet (user_quota_key uid) w of
        (Inl e, w1) \<Rightarrow> fetchAndUpdateUserQuota uid w1
      | (Inr s, w1) \<Rightarrow> (case go_atoi s of
            None \<Rightarrow> (Inr 0, w1)
          | Some quota \<Rightarrow>
              if quota \<le> PreConsumedQuota (cfg w1) then fetchAndUpdateUserQuota uid w1
              else (Inr quota, w1)))"

definition CacheUpdateUserQuota :: "int \<Rightarrow> World \<Rightarrow> GoErr option \<times> World" where
  "CacheUpdateUserQuota uid w =
     (if \<not> RedisEnabled (cfg w) then (None, w)
      else case CacheGetUserQuota uid w of
        (Inl e, w1) \<Rightarrow> (Some e, w1)
      | (Inr quota, w1) \<Rightarrow> err_only (RedisSet (user_quota_key uid) (show_int quota) w1))"

definition CacheDecreaseUserQuota :: "int \<Rightarrow> int \<Rightarrow> World \<Rightarrow> GoErr option \<times> World" where
  "CacheDecreaseUserQuota uid quota w =
     (if \<not> RedisEnabled (cfg w) then (None, w)
      else err_only (RedisDecrease (user_quota_key uid) quota w))"

section \<open>The ledger interface\<close>

text \<open>
  A ledger holds one balance per account. A successful credit or debit moves the balance of
  one account by the amount and no other balance; a failed one moves none.
\<close>

locale ledger =
  fixes bal :: "'s \<Rightarrow> int \<Rightarrow> int option"
    and credit :: "int \<Rightarrow> int \<Rightarrow> 's \<Rightarrow> GoErr option \<times> 's"
    and debit :: "int \<Rightarrow> int \<Rightarrow> 's \<Rightarrow> GoErr option \<times> 's"
  assumes credit_ok: "credit k d s = (None, s') \<Longrightarrow>
      bal s' j = (if j = k then map_option (\<lambda>b. b + d) (bal s j) else bal s j)"
    and credit_err: "credit k d s = (Some e, s') \<Longrightarrow> bal s' j = bal s j"
    and debit_ok: "debit k d s = (None, s') \<Longrightarrow>
      bal s' j = (if j = k then map_option (\<lambda>b. b - d) (bal s j) else bal s j)"
    and debit_err: "debit k d s = (Some e, s') \<Longrightarrow> bal s' j = bal s j"
begin

lemmas ledger_laws = credit_ok credit_err debit_ok debit_err

text \<open>A debit followed by the credit of the same amount (a refund) restores every balance.\<close>

lemma debit_credit_restores:
  assumes "debit k d s = (None, s1)" and "credit k d s1 = (None, s2)"
  shows "bal s2 j = bal s j"
  using assms by (auto simp: credit_ok debit_ok option.map_comp comp_def option.map_ident)

lemma other_account_untouched:
  assumes "j \<noteq> k"
  shows "credit k d s = (r, s1) \<Longrightarrow> bal s1 j = bal s j"
    and "debit k d s = (r, s1) \<Longrightarrow> bal s1 j = bal s j"
  using assms by (cases r; simp add: ledger_laws)+

text \<open>Whatever the outcome, a credit never lowers a balance it is given a non-negative amount for.\<close>

lemma credit_mono:
  "credit k d s = (r, s1) \<Longrightarrow> 0 \<le> d \<Longrightarrow> bal s j = Some b \<Longrightarrow> \<exists>b'. bal s1 j = Some b' \<and> b \<le> b'"
  by (cases r) (auto simp: ledger_laws)

end

definition user_bal :: "World \<Rightarrow> int \<Rightarrow> int option" where
  "user_bal w uid = map_option User_Quota (find (\<lambda>u. User_Id u = uid) (db_users (db w)))"

lemma find_user_update:
  "find (\<lambda>u. User_Id u = j) (update_where (\<lambda>u. User_Id u = k) (\<lambda>u. u\<lparr>User_Quota := q u\<rparr>) us) =
     map_option (\<lambda>u. if User_Id u = k then u\<lparr>User_Quota := q u\<rparr> else u)
       (find (\<lambda>u. User_Id u = j) us)"
  by (rule find_update_where_frame) simp

lemma map_find_key:
  "map_option (\<lambda>u. g (if key u = k then f u else u)) (find (\<lambda>u. key u = j) us) =
     (if j = k then map_option (\<lambda>u. g (f u)) (find (\<lambda>u. key u = j) us)
      else map_option g (find (\<lambda>u. key u = j) us))"
  by (induction us) auto

lemma user_bal_update:
  "map_option User_Quota (find (\<lambda>u. User_Id u = j)
     (update_where (\<lambda>u. User_Id u = k) (\<lambda>u. u\<lparr>User_Quota := User_Quota u + d\<rparr>) us)) =
   (if j = k then map_option (\<lambda>b. b + d) (map_option User_Quota (find (\<lambda>u. User_Id u = j) us))
    else map_option User_Quota (find (\<lambda>u. User_Id u = j) us))"
  using map_find_key [of User_Quota User_Id k "\<lambda>u. u\<lparr>User_Quota := User_Quota u + d\<rparr>" j us]
  by (simp add: find_user_update option.map_comp comp_def)

lemma user_bal_update_minus:
  "map_option User_Quota (find (\<lambda>u. User_Id u = j)
     (update_where (\<lambda>u. User_Id u = k) (\<lambda>u. u\<lparr>User_Quota := User_Quota u - d\<rparr>) us)) =
   (if j = k then map_option (\<lambda>b. b - d) (map_option User_Quota (find (\<lambda>u. User_Id u = j) us))
    else map_option User_Quota (find (\<lambda>u. User_Id u = j) us))"
  using user_bal_update [of j k "- d" us] by simp

lemma increaseUserQuota_None:
  "increaseUserQuota k d w = (None, w1) \<Longrightarrow>
     db w1 = db_users_update (update_where (\<lambda>u. User_Id u = k)
               (\<lambda>u. u\<lparr>User_Quota := User_Quota u + d\<rparr>)) (db w)
     \<and> log_db w1 = log_db w \<and> redis w1 = redis w \<and> same_env w w1"
  by (auto simp: increaseUserQuota_def err_only_None dest: sql_update_Inr)

lemma increaseUserQuota_Some:
  "increaseUserQuota k d w = (Some e, w1) \<Longrightarrow>
     db w1 = db w \<and> log_db w1 = log_db w \<and> redis w1 = redis w \<and> same_env w w1"
  by (auto simp: increaseUserQuota_def err_only_Some dest: sql_update_Inl)

lemma decreaseUserQuota_increase: "decreaseUserQuota k d w = increaseUserQuota k (- d) w"
  by (simp add: decreaseUserQuota_def increaseUserQuota_def)

interpretation wallet: ledger user_bal increaseUserQuota decreaseUserQuota
proof unfold_locales
  fix k d s s' j e
  show "increaseUserQuota k d s = (None, s') \<Longrightarrow>
      user_bal s' j = (if j = k then map_option (\<lambda>b. b + d) (user_bal s j) else user_bal s j)"
    by (auto dest!: increaseUserQuota_None simp: user_bal_def user_bal_update)
  show "increaseUserQuota k d s = (Some e, s') \<Longrightarrow> user_bal s' j = user_bal s j"
    by (auto dest!: increaseUserQuota_Some simp: user_bal_def)
  show "decreaseUserQuota k d s = (None, s') \<Longrightarrow>
      user_bal s' j = (if j = k then map_option (\<lambda>b. b - d) (user_bal s j) else user_bal s j)"
    by (auto dest!: increaseUserQuota_None
        simp: decreaseUserQuota_increase user_bal_def user_bal_update_minus)
  show "decreaseUserQuota k d s = (Some e, s') \<Longrightarrow> user_bal s' j = user_bal s j"
    by (auto dest!: increaseUserQuota_Some simp: decreaseUserQuota_increase user_bal_def)
qed

section \<open>Frames of the read-only and logging operations\<close>

lemma GetUsernameById_frame:
  "GetUsernameById k w = (n, w1) \<Longrightarrow>
     db w1 = db w \<and> log_db w1 = log_db w \<and> redis w1 = redis w \<and> same_env w w1"
  by (auto simp: GetUsernameById_def dest!: sql_find_col_frame split: prod.splits sum.splits)

lemma recordLogHelper_frame:
  "db (recordLogHelper l w) = db w \<and> redis (recordLogHelper l w) = redis w
   \<and> same_env w (recordLogHelper l w)"
  by (auto simp: recordLogHelper_def same_env_def dest!: io_fault_frame split: prod.splits bool.splits)

lemma recordLogHelper_appends:
  "log_db (recordLogHelper l w) = log_db w \<or> log_db (recordLogHelper l w) = log_db w @ [l]"
  by (auto simp: recordLogHelper_def dest!: io_fault_frame split: prod.splits bool.splits)

lemma RecordLog_frame [go_simps]:
  "db (RecordLog u t c w) = db w" "redis (RecordLog u t c w) = redis w"
  "same_env w (RecordLog u t c w)"
  by (auto simp: RecordLog_def recordLogHelper_frame dest!: GetUsernameById_frame
      intro: same_env_trans split: prod.splits)

lemma RecordConsumeLog_frame [go_simps]:
  "db (RecordConsumeLog l w) = db w" "redis (RecordConsumeLog l w) = redis w"
  "same_env w (RecordConsumeLog l w)"
  by (auto simp: RecordConsumeLog_def recordLogHelper_frame dest!: GetUsernameById_frame
      intro: same_env_trans split: prod.splits)

lemma RecordRefundLog_frame [go_simps]:
  "db (RecordRefundLog l w) = db w" "redis (RecordRefundLog l w) = redis w"
  "same_env w (RecordRefundLog l w)"
  by (auto simp: RecordRefundLog_def recordLogHelper_frame dest!: GetUsernameById_frame
      intro: same_env_trans split: prod.splits)

lemma GetUserQuota_frame:
  "GetUserQuota k w = (r, w1) \<Longrightarrow>
     db w1 = db w \<and> log_db w1 = log_db w \<and> redis w1 = redis w \<and> same_env w w1"
  unfolding GetUserQuota_def by (rule sql_find_col_frame)

lemma RedisSet_frame:
  "RedisSet k v w = (r, w1) \<Longrightarrow> db w1 = db w \<and> log_db w1 = log_db w \<and> same_env w w1"
  by (auto simp: RedisSet_def same_env_def dest!: io_fault_frame split: prod.splits bool.splits)

lemma RedisGet_frame:
  "RedisGet k w = (r, w1) \<Longrightarrow>
     db w1 = db w \<and> log_db w1 = log_db w \<and> redis w1 = redis w \<and> same_env w w1"
  by (auto simp: RedisGet_def dest!: io_fault_frame split: prod.splits bool.splits option.splits)

lemma RedisDecrease_frame:
  "RedisDecrease k v w = (r, w1) \<Longrightarrow> db w1 = db w \<and> log_db w1 = log_db w \<and> same_env w w1"
  by (auto simp: RedisDecrease_def same_env_def dest!: io_fault_frame
      split: prod.splits bool.splits option.splits if_splits)

lemma fetchAndUpdateUserQuota_frame:
  "fetchAndUpdateUserQuota k w = (r, w1) \<Longrightarrow> db w1 = db w \<and> log_db w1 = log_db w \<and> same_env w w1"
  by (auto simp: fetchAndUpdateUserQuota_def dest!: GetUserQuota_frame RedisSet_frame
      intro: same_env_trans split: prod.splits sum.splits)

lemma CacheGetUserQuota_frame:
  "CacheGetUserQuota k w = (r, w1) \<Longrightarrow> db w1 = db w \<and> log_db w1 = log_db w \<and> same_env w w1"
  by (auto simp: CacheGetUserQuota_def
      dest!: GetUserQuota_frame RedisGet_frame fetchAndUpdateUserQuota_frame
      intro: same_env_trans split: prod.splits sum.splits option.splits if_splits)

lemma CacheUpdateUserQuota_frame:
  "CacheUpdateUserQuota k w = (r, w1) \<Longrightarrow> db w1 = db w \<and> log_db w1 = log_db w \<and> same_env w w1"
  by (cases r)
     (auto simp: CacheUpdateUserQuota_def err_only_None err_only_Some
      dest!: CacheGetUserQuota_frame RedisSet_frame
      intro: same_env_trans split: prod.splits sum.splits if_splits)

lemma CacheDecreaseUserQuota_frame:
  "CacheDecreaseUserQuota k q w = (r, w1) \<Longrightarrow> db w1 = db w \<and> log_db w1 = log_db w \<and> same_env w w1"
  by (cases r)
     (auto simp: CacheDecreaseUserQuota_def err_only_None err_only_Some
      dest!: RedisDecrease_frame split: if_splits)

end
