(* ===== verification/QuotaWarning.thy ===== *)
theory QuotaWarning
  imports Wallet
begin

text \<open>
  The low-balance reminder (\<open>model/quota_warning.go\<close>): the decision to send and the per-user
  cooldown map. Times are in nanoseconds. The e-mail itself is not modelled; an attempted send
  is recorded in \<open>warnings_sent\<close>.
\<close>

definition second :: int where "second = 1000000000"
definition hour :: int where "hour = 3600 * second"

fun put_assoc :: "int \<Rightarrow> 'v \<Rightarrow> (int \<times> 'v) list \<Rightarrow> (int \<times> 'v) list" where
  "put_assoc k v [] = [(k, v)]"
| "put_assoc k v ((i, x) # xs) = (if i = k then (k, v) # xs else (i, x) # put_assoc k v xs)"

definition quotaWarningCooldownAllows ::
  "int \<Rightarrow> int \<Rightarrow> int \<Rightarrow> (int \<times> int) list \<Rightarrow> bool \<times> (int \<times> int) list" where
  "quotaWarningCooldownAllows userId now cooldown m =
     (if (case map_of m userId of Some prev \<Rightarrow> now - prev < cooldown | None \<Rightarrow> False)
      then (False, m)
      else (True, put_assoc userId now (filter (\<lambda>(_, prev). \<not> cooldown \<le> now - prev) m)))"

definition shouldSendQuotaWarning ::
  "int \<Rightarrow> int \<Rightarrow> int \<Rightarrow> int \<Rightarrow> World \<Rightarrow> bool \<times> World" where
  "shouldSendQuotaWarning userId preQuota postQuota now w =
     (if \<not> Warn_Enabled (cfg w) then (False, w)
      else let crossedThreshold = Warn_ThresholdQuota (cfg w) \<le> preQuota
                                    \<and> postQuota < Warn_ThresholdQuota (cfg w);
               exhausted = postQuota \<le> 0
        in if \<not> crossedThreshold \<and> \<not> exhausted then (False, w)
           else case quotaWarningCooldownAllows userId now
                       (i64 (Warn_CooldownHours (cfg w) * hour)) (quotaWarningLastSent w) of
             (ok, m) \<Rightarrow> (ok, w\<lparr>quotaWarningLastSent := m\<rparr>))"

definition maybeSendQuotaWarning :: "int \<Rightarrow> int \<Rightarrow> int \<Rightarrow> World \<Rightarrow> World" where
  "maybeSendQuotaWarning userId preQuota postQuota w =
     (case shouldSendQuotaWarning userId preQuota postQuota (clock w * second) w of
        (False, w1) \<Rightarrow> w1
      | (True, w1) \<Rightarrow> w1\<lparr>warnings_sent := warnings_sent w1 @ [userId]\<rparr>)"

lemma map_of_put_assoc [simp]: "map_of (put_assoc k v m) = (map_of m)(k \<mapsto> v)"
  by (induction m) (auto simp: fun_eq_iff)

lemma set_put_assoc: "set (put_assoc k v m) \<subseteq> insert (k, v) (set m)"
  by (induction m) (auto split: if_splits)

lemma keys_put_assoc: "fst ` set (put_assoc k v m) = insert k (fst ` set m)"
  by (induction m) force+

lemma distinct_put_assoc: "distinct (map fst m) \<Longrightarrow> distinct (map fst (put_assoc k v m))"
proof (induction m)
  case (Cons p m)
  obtain i x where [simp]: "p = (i, x)" by (cases p)
  have "fst ` set (put_assoc k v m) = insert k (fst ` set m)" by (rule keys_put_assoc)
  with Cons show ?case by auto
qed simp

lemma map_of_filter_val:
  "distinct (map fst m) \<Longrightarrow>
   map_of (filter (\<lambda>(_, v). Q v) m) k =
     (case map_of m k of None \<Rightarrow> None | Some v \<Rightarrow> if Q v then Some v else None)"
proof (induction m)
  case (Cons p m)
  obtain i x where [simp]: "p = (i, x)" by (cases p)
  from Cons show ?case
    by (auto split: option.splits dest: map_of_SomeD)
       (metis (mono_tags, lifting) fst_conv image_eqI map_of_SomeD option.distinct(1))
qed simp

section \<open>The cooldown\<close>

text \<open>A run of the cooldown check over a sequence of requests \<open>(user, time)\<close>.\<close>

fun cooldown_run :: "int \<Rightarrow> (int \<times> int) list \<Rightarrow> (int \<times> int) list \<Rightarrow> (int \<times> int) list" where
  "cooldown_run cd m [] = []"
| "cooldown_run cd m ((u, t) # rs) = (case quotaWarningCooldownAllows u t cd m of
      (ok, m') \<Rightarrow> (if ok then [(u, t)] else []) @ cooldown_run cd m' rs)"

lemma allows_True:
  "quotaWarningCooldownAllows u t cd m = (True, m') \<Longrightarrow>
     (\<forall>prev. map_of m u = Some prev \<longrightarrow> cd \<le> t - prev)
     \<and> m' = put_assoc u t (filter (\<lambda>(_, prev). \<not> cd \<le> t - prev) m)"
  by (auto simp: quotaWarningCooldownAllows_def split: if_splits option.splits)

lemma allows_False: "quotaWarningCooldownAllows u t cd m = (False, m') \<Longrightarrow> m' = m"
  by (auto simp: quotaWarningCooldownAllows_def split: if_splits)

lemma allows_distinct:
  "quotaWarningCooldownAllows u t cd m = (ok, m') \<Longrightarrow> distinct (map fst m) \<Longrightarrow> distinct (map fst m')"
proof (cases ok)
  case True
  assume a: "quotaWarningCooldownAllows u t cd m = (ok, m')" and d: "distinct (map fst m)"
  from d have "distinct (map fst (filter (\<lambda>(_, prev). \<not> cd \<le> t - prev) m))"
    by (rule distinct_map_filter)
  with a True show ?thesis by (auto dest!: allows_True intro: distinct_put_assoc)
next
  case False
  assume "quotaWarningCooldownAllows u t cd m = (ok, m')" and "distinct (map fst m)"
  with False show ?thesis by (auto dest: allows_False)
qed

text \<open>
  While the clock does not run backwards, an entry is only forgotten after its window: the time
  of a user's last send stays known, or every later time is already outside its window.
\<close>

lemma cooldown_run_spacing_aux:
  assumes "distinct (map fst m)" and "sorted (t0 # map snd rs)"
    and "map_of m u = Some prev \<or> cd \<le> t0 - prev"
    and "(u, t) \<in> set (cooldown_run cd m rs)"
  shows "cd \<le> t - prev"
  using assms
proof (induction rs arbitrary: m t0)
  case Nil
  then show ?case by simp
next
  case (Cons r rs)
  obtain v s where r: "r = (v, s)" by (cases r)
  obtain ok m' where a: "quotaWarningCooldownAllows v s cd m = (ok, m')" by fastforce
  have s: "sorted (s # map snd rs)" "t0 \<le> s" using Cons.prems(2) r by auto
  have d': "distinct (map fst m')" using allows_distinct [OF a Cons.prems(1)] .
  have keep: "map_of m' u = Some prev \<or> cd \<le> s - prev" if "\<not> (ok \<and> v = u)"
  proof (cases ok)
    case True
    with that have "v \<noteq> u" by simp
    with True a Cons.prems(1,3) s show ?thesis
      by (auto dest!: allows_True simp: map_of_filter_val)
  next
    case False
    with a Cons.prems(3) s show ?thesis by (auto dest!: allows_False)
  qed
  show ?case
  proof (cases "ok \<and> v = u")
    case True
    then have first: "cd \<le> s - prev" using a Cons.prems(3) s by (auto dest!: allows_True)
    show ?thesis
    proof (cases "(u, t) = (v, s)")
      case False
      with Cons.prems(4) r a True have "(u, t) \<in> set (cooldown_run cd m' rs)" by auto
      then show ?thesis using Cons.IH [OF d' s(1)] first by blast
    qed (use first in simp)
  next
    case False
    with Cons.prems(4) r a have "(u, t) \<in> set (cooldown_run cd m' rs) \<or> (ok \<and> u = v)"
      by (auto split: if_splits)
    with False have "(u, t) \<in> set (cooldown_run cd m' rs)" by auto
    then show ?thesis using Cons.IH [OF d' s(1) keep [OF False]] by blast
  qed
qed

lemma maybeSendQuotaWarning_frame:
  "db (maybeSendQuotaWarning u p q w) = db w"
  "log_db (maybeSendQuotaWarning u p q w) = log_db w"
  "redis (maybeSendQuotaWarning u p q w) = redis w"
  "cfg (maybeSendQuotaWarning u p q w) = cfg w"
  "clock (maybeSendQuotaWarning u p q w) = clock w"
  "faults (maybeSendQuotaWarning u p q w) = faults w"
  "batchUpdateStores (maybeSendQuotaWarning u p q w) = batchUpdateStores w"
  by (auto simp: maybeSendQuotaWarning_def shouldSendQuotaWarning_def Let_def
      split: prod.splits bool.splits if_splits)

end
