(* ===== verification/TokenLedger.thy ===== *)
theory TokenLedger
  imports QuotaWarning
begin

text \<open>
  API tokens (\<open>model/token.go\<close>): validation, the token side of the ledger, and the two
  operations through which every request is charged, \<open>PreConsumeTokenQuota\<close> (reserve before
  the upstream call) and \<open>PostConsumeTokenQuota\<close> (settle or refund after it).
\<close>

definition TokenStatusEnabled :: int where "TokenStatusEnabled = 1"
definition TokenStatusDisabled :: int where "TokenStatusDisabled = 2"
definition TokenStatusExpired :: int where "TokenStatusExpired = 3"
definition TokenStatusExhausted :: int where "TokenStatusExhausted = 4"

section \<open>Lookup and validation\<close>

definition CacheGetTokenByKey :: "string \<Rightarrow> World \<Rightarrow> (GoErr + Token) \<times> World" where
  "CacheGetTokenByKey key w =
     (if \<not> RedisEnabled (cfg w) then sql_first db_tokens (\<lambda>t. Token_Key t = key) w
      else case io_fault w of
        (hit_fault, w1) \<Rightarrow> (case (if hit_fault then None else redis_token w1 key) of
            Some t \<Rightarrow> (Inr t, w1)
          | None \<Rightarrow> (case sql_first db_tokens (\<lambda>t. Token_Key t = key) w1 of
                (Inl e, w2) \<Rightarrow> (Inl e, w2)
              | (Inr t, w2) \<Rightarrow> (case io_fault w2 of
                    (True, w3) \<Rightarrow> (Inr t, w3)
                  | (False, w3) \<Rightarrow> (Inr t, w3\<lparr>redis_token := (redis_token w3)(key := Some t)\<rparr>)))))"

definition SelectUpdate :: "Token \<Rightarrow> World \<Rightarrow> GoErr option \<times> World" where
  "SelectUpdate t w =
     err_only (sql_update db_tokens db_tokens_update (\<lambda>_. True) (\<lambda>x. Token_Id x = Token_Id t)
       (\<lambda>x. x\<lparr>Token_AccessedTime := Token_AccessedTime t, Token_Status := Token_Status t\<rparr>) w)"

definition ValidateUserToken :: "string \<Rightarrow> World \<Rightarrow> (GoErr + Token) \<times> World" where
  "ValidateUserToken key w =
     (if key = [] then (Inl (Err ''no token provided''), w)
      else case CacheGetTokenByKey key w of
        (Inl e, w1) \<Rightarrow>
          if e = ErrRecordNotFound then (Inl (Err ''invalid token''), w1)
          else (Inl (Err ''token validation failed''), w1)
      | (Inr token, w1) \<Rightarrow>
          if Token_Status token = TokenStatusExhausted
          then (Inl (Err ''token quota used up''), w1)
          else if Token_Status token = TokenStatusExpired
          then (Inl (Err ''token expired''), w1)
          else if Token_Status token \<noteq> TokenStatusEnabled
          then (Inl (Err ''token not usable''), w1)
          else if Token_ExpiredTime token \<noteq> - 1 \<and> Token_ExpiredTime token < clock w1
          then (Inl (Err ''token expired''),
                if \<not> RedisEnabled (cfg w1)
                then snd (SelectUpdate (token\<lparr>Token_Status := TokenStatusExpired\<rparr>) w1) else w1)
          else if \<not> Token_UnlimitedQuota token \<and> Token_RemainQuota token \<le> 0
          then (Inl (Err ''token quota used up''),
                if \<not> RedisEnabled (cfg w1)
                then snd (SelectUpdate (token\<lparr>Token_Status := TokenStatusExhausted\<rparr>) w1) else w1)
          else (Inr token, w1))"

definition GetTokenById :: "int \<Rightarrow> World \<Rightarrow> (GoErr + Token) \<times> World" where
  "GetTokenById tid w =
     (if tid = 0 then (Inl (Err ''id is empty''), w)
      else sql_first db_tokens (\<lambda>t. Token_Id t = tid) w)"

definition GetTokenByIds :: "int \<Rightarrow> int \<Rightarrow> World \<Rightarrow> (GoErr + Token) \<times> World" where
  "GetTokenByIds tid userId w =
     (if tid = 0 \<or> userId = 0 then (Inl (Err ''id or userId is empty''), w)
      else sql_first db_tokens (\<lambda>t. Token_Id t = tid \<and> Token_UserId t = userId) w)"

section \<open>The token ledger\<close>

definition token_fits :: "Token \<Rightarrow> bool" where
  "token_fits t \<longleftrightarrow> in_i64 (Token_RemainQuota t) \<and> in_i64 (Token_UsedQuota t)"

definition increaseTokenQuota :: "int \<Rightarrow> int \<Rightarrow> World \<Rightarrow> GoErr option \<times> World" where
  "increaseTokenQuota tid quota w =
     err_only (sql_update db_tokens db_tokens_update token_fits (\<lambda>t. Token_Id t = tid)
       (\<lambda>t. t\<lparr>Token_RemainQuota := Token_RemainQuota t + quota,
              Token_UsedQuota := Token_UsedQuota t - quota,
              Token_AccessedTime := clock w\<rparr>) w)"

definition IncreaseTokenQuota :: "int \<Rightarrow> int \<Rightarrow> World \<Rightarrow> GoErr option \<times> World" where
  "IncreaseTokenQuota tid quota w =
     (if quota < 0 then (Some (Err ''quota must not be negative''), w)
      else if BatchUpdateEnabled (cfg w)
      then (None, addNewRecord BatchUpdateTypeTokenQuota tid quota w)
      else increaseTokenQuota tid quota w)"

definition decreaseTokenQuota :: "int \<Rightarrow> int \<Rightarrow> World \<Rightarrow> GoErr option \<times> World" where
  "decreaseTokenQuota tid quota w =
     err_only (sql_update db_tokens db_tokens_update token_fits (\<lambda>t. Token_Id t = tid)
       (\<lambda>t. t\<lparr>Token_RemainQuota := Token_RemainQuota t - quota,
              Token_UsedQuota := Token_UsedQuota t + quota,
              Token_AccessedTime := clock w\<rparr>) w)"

definition DecreaseTokenQuota :: "int \<Rightarrow> int \<Rightarrow> World \<Rightarrow> GoErr option \<times> World" where
  "DecreaseTokenQuota tid quota w =
     (if quota < 0 then (Some (Err ''quota must not be negative''), w)
      else if BatchUpdateEnabled (cfg w)
      then (None, addNewRecord BatchUpdateTypeTokenQuota tid (i64 (- quota)) w)
      else decreaseTokenQuota tid quota w)"

section \<open>Reserving\<close>

text \<open>
  The two guarded statements of \<open>PreConsumeTokenQuota\<close>: \<open>UPDATE ... WHERE id = ? AND remain_quota
  >= ?\<close> and \<open>UPDATE ... WHERE id = ? AND quota >= ?\<close>. The guard and the deduction are one
  statement.
\<close>

definition reserveToken :: "int \<Rightarrow> int \<Rightarrow> World \<Rightarrow> (GoErr + nat) \<times> World" where
  "reserveToken tokenId quota w =
     sql_update db_tokens db_tokens_update token_fits
       (\<lambda>t. Token_Id t = tokenId \<and> quota \<le> Token_RemainQuota t)
       (\<lambda>t. t\<lparr>Token_RemainQuota := Token_RemainQuota t - quota,
              Token_UsedQuota := Token_UsedQuota t + quota,
              Token_AccessedTime := clock w\<rparr>) w"

definition reserveUser :: "int \<Rightarrow> int \<Rightarrow> World \<Rightarrow> (GoErr + nat) \<times> World" where
  "reserveUser userId quota w =
     sql_update db_users db_users_update user_fits
       (\<lambda>u. User_Id u = userId \<and> quota \<le> User_Quota u)
       (\<lambda>u. u\<lparr>User_Quota := User_Quota u - quota\<rparr>) w"

definition preConsumeTokenQuotaLegacy :: "int \<Rightarrow> int \<Rightarrow> Token \<Rightarrow> World \<Rightarrow> GoErr option \<times> World" where
  "preConsumeTokenQuotaLegacy tokenId quota token w =
     (if \<not> Token_UnlimitedQuota token \<and> Token_RemainQuota token < quota
      then (Some (Err ''token quota insufficient''), w)
      else case GetUserQuota (Token_UserId token) w of
        (Inl e, w1) \<Rightarrow> (Some e, w1)
      | (Inr userQuota, w1) \<Rightarrow>
          if userQuota < quota then (Some (Err ''user quota insufficient''), w1)
          else let w2 = maybeSendQuotaWarning (Token_UserId token) userQuota (i64 (userQuota - quota)) w1
            in case (if \<not> Token_UnlimitedQuota token then DecreaseTokenQuota tokenId quota w2
                     else (None, w2)) of
                 (Some e, w3) \<Rightarrow> (Some e, w3)
               | (None, w3) \<Rightarrow> DecreaseUserQuota (Token_UserId token) quota w3)"

text \<open>The rollback of step 1; its own error is dropped (\<open>_ = increaseTokenQuota(...)\<close>).\<close>

definition rollbackToken :: "Token \<Rightarrow> int \<Rightarrow> int \<Rightarrow> World \<Rightarrow> World" where
  "rollbackToken token tokenId quota w =
     (if \<not> Token_UnlimitedQuota token then snd (increaseTokenQuota tokenId quota w) else w)"

definition PreConsumeTokenQuota :: "int \<Rightarrow> int \<Rightarrow> World \<Rightarrow> GoErr option \<times> World" where
  "PreConsumeTokenQuota tokenId quota w =
     (if quota < 0 then (Some (Err ''quota must not be negative''), w)
      else if quota = 0 then (None, w)
      else case GetTokenById tokenId w of
        (Inl e, w1) \<Rightarrow> (Some e, w1)
      | (Inr token, w1) \<Rightarrow>
          if BatchUpdateEnabled (cfg w1) then preConsumeTokenQuotaLegacy tokenId quota token w1
          else case (if \<not> Token_UnlimitedQuota token then reserveToken tokenId quota w1
                     else (Inr 1, w1)) of
            (Inl e, w2) \<Rightarrow> (Some e, w2)
          | (Inr n, w2) \<Rightarrow>
              if n = 0 then (Some (Err ''token quota insufficient''), w2)
              else case reserveUser (Token_UserId token) quota w2 of
                (Inl e, w3) \<Rightarrow> (Some e, rollbackToken token tokenId quota w3)
              | (Inr m, w3) \<Rightarrow>
                  if m = 0
                  then (Some (Err ''user quota insufficient''), rollbackToken token tokenId quota w3)
                  else (None, case GetUserQuota (Token_UserId token) w3 of
                          (Inl e, w4) \<Rightarrow> w4
                        | (Inr userQuota, w4) \<Rightarrow>
                            maybeSendQuotaWarning (Token_UserId token)
                              (i64 (userQuota + quota)) userQuota w4))"

section \<open>Settling\<close>

text \<open>
  The error of the wallet leg is overwritten by the token leg, or dropped by the final
  \<open>return nil\<close>: only an error of the token leg of a limited token is returned.
\<close>

definition PostConsumeTokenQuota :: "int \<Rightarrow> int \<Rightarrow> World \<Rightarrow> GoErr option \<times> World" where
  "PostConsumeTokenQuota tokenId quota w =
     (case GetTokenById tokenId w of
        (Inl e, w1) \<Rightarrow> (Some e, w1)
      | (Inr token, w1) \<Rightarrow>
          case (if 0 < quota then DecreaseUserQuota (Token_UserId token) quota w1
                else IncreaseUserQuota (Token_UserId token) (i64 (- quota)) w1) of
            (err, w2) \<Rightarrow>
              if \<not> Token_UnlimitedQuota token
              then (case (if 0 < quota then DecreaseTokenQuota tokenId quota w2
                          else IncreaseTokenQuota tokenId (i64 (- quota)) w2) of
                      (Some e, w3) \<Rightarrow> (Some e, w3)
                    | (None, w3) \<Rightarrow> (None, w3))
              else (None, w2))"

section \<open>The token table as a ledger\<close>

definition token_bal :: "World \<Rightarrow> int \<Rightarrow> int option" where
  "token_bal w tid = map_option Token_RemainQuota (find (\<lambda>t. Token_Id t = tid) (db_tokens (db w)))"

lemma increaseTokenQuota_None:
  "increaseTokenQuota k d w = (None, w1) \<Longrightarrow>
     db w1 = db_tokens_update (update_where (\<lambda>t. Token_Id t = k)
       (\<lambda>t. t\<lparr>Token_RemainQuota := Token_RemainQuota t + d, Token_UsedQuota := Token_UsedQuota t - d,
              Token_AccessedTime := clock w\<rparr>)) (db w)
     \<and> log_db w1 = log_db w \<and> redis w1 = redis w \<and> same_env w w1"
  by (auto simp: increaseTokenQuota_def err_only_None dest: sql_update_Inr)

lemma increaseTokenQuota_Some:
  "increaseTokenQuota k d w = (Some e, w1) \<Longrightarrow>
     db w1 = db w \<and> log_db w1 = log_db w \<and> redis w1 = redis w \<and> same_env w w1"
  by (auto simp: increaseTokenQuota_def err_only_Some dest: sql_update_Inl)

lemma decreaseTokenQuota_increase: "decreaseTokenQuota k d w = increaseTokenQuota k (- d) w"
  by (simp add: decreaseTokenQuota_def increaseTokenQuota_def)

lemma token_bal_update:
  "map_option Token_RemainQuota (find (\<lambda>t. Token_Id t = j)
     (update_where (\<lambda>t. Token_Id t = k)
       (\<lambda>t. t\<lparr>Token_RemainQuota := Token_RemainQuota t + d, Token_UsedQuota := g t,
              Token_AccessedTime := c\<rparr>) ts)) =
   (if j = k then map_option (\<lambda>b. b + d) (map_option Token_RemainQuota (find (\<lambda>t. Token_Id t = j) ts))
    else map_option Token_RemainQuota (find (\<lambda>t. Token_Id t = j) ts))"
  by (induction ts) auto

lemma token_bal_increase:
  "increaseTokenQuota k d w = (None, w1) \<Longrightarrow>
     token_bal w1 j = (if j = k then map_option (\<lambda>b. b + d) (token_bal w j) else token_bal w j)"
  by (drule increaseTokenQuota_None) (simp add: token_bal_def token_bal_update)

interpretation tokens: ledger token_bal increaseTokenQuota decreaseTokenQuota
proof unfold_locales
  fix k d s s' j e
  show "increaseTokenQuota k d s = (None, s') \<Longrightarrow>
      token_bal s' j = (if j = k then map_option (\<lambda>b. b + d) (token_bal s j) else token_bal s j)"
    by (rule token_bal_increase)
  show "increaseTokenQuota k d s = (Some e, s') \<Longrightarrow> token_bal s' j = token_bal s j"
    by (auto dest!: increaseTokenQuota_Some simp: token_bal_def)
  show "decreaseTokenQuota k d s = (None, s') \<Longrightarrow>
      token_bal s' j = (if j = k then map_option (\<lambda>b. b - d) (token_bal s j) else token_bal s j)"
    using token_bal_increase [of k "- d" s s' j] by (simp add: decreaseTokenQuota_increase)
  show "decreaseTokenQuota k d s = (Some e, s') \<Longrightarrow> token_bal s' j = token_bal s j"
    by (auto dest!: increaseTokenQuota_Some simp: decreaseTokenQuota_increase token_bal_def)
qed

lemma user_bal_cong: "db_users (db w1) = db_users (db w) \<Longrightarrow> user_bal w1 = user_bal w"
  by (simp add: user_bal_def fun_eq_iff)

lemma token_bal_cong: "db_tokens (db w1) = db_tokens (db w) \<Longrightarrow> token_bal w1 = token_bal w"
  by (simp add: token_bal_def fun_eq_iff)

lemma bal_db_cong: "db w1 = db w \<Longrightarrow> user_bal w1 = user_bal w \<and> token_bal w1 = token_bal w"
  by (simp add: user_bal_def token_bal_def fun_eq_iff)

lemma increaseTokenQuota_user_bal [go_simps]:
  "increaseTokenQuota k d w = (r, w1) \<Longrightarrow> user_bal w1 = user_bal w"
  by (cases r) (auto dest!: increaseTokenQuota_None increaseTokenQuota_Some intro!: user_bal_cong)

lemma increaseUserQuota_token_bal [go_simps]:
  "increaseUserQuota k d w = (r, w1) \<Longrightarrow> token_bal w1 = token_bal w"
  by (cases r) (auto dest!: increaseUserQuota_None increaseUserQuota_Some intro!: token_bal_cong)

lemma GetTokenById_frame:
  "GetTokenById k w = (r, w1) \<Longrightarrow>
     db w1 = db w \<and> log_db w1 = log_db w \<and> redis w1 = redis w \<and> same_env w w1"
  by (auto simp: GetTokenById_def dest: sql_first_frame split: if_splits)

lemma GetTokenById_Inr:
  "GetTokenById k w = (Inr t, w1) \<Longrightarrow> find (\<lambda>t. Token_Id t = k) (db_tokens (db w)) = Some t \<and> k \<noteq> 0"
  by (auto simp: GetTokenById_def dest: sql_first_Inr split: if_splits)

section \<open>Well-formed ledgers\<close>

text \<open>Primary keys are unique and every stored amount fits its column.\<close>

definition ledger_ok :: "Database \<Rightarrow> bool" where
  "ledger_ok d \<longleftrightarrow> distinct (map User_Id (db_users d)) \<and> distinct (map Token_Id (db_tokens d))
     \<and> (\<forall>u \<in> set (db_users d). user_fits u) \<and> (\<forall>t \<in> set (db_tokens d). token_fits t)"

text \<open>No user owes anything and no limited token is overdrawn.\<close>

definition solvent :: "Database \<Rightarrow> bool" where
  "solvent d \<longleftrightarrow> (\<forall>u \<in> set (db_users d). 0 \<le> User_Quota u)
     \<and> (\<forall>t \<in> set (db_tokens d). \<not> Token_UnlimitedQuota t \<longrightarrow> 0 \<le> Token_RemainQuota t)"

lemma ledger_okD:
  assumes "ledger_ok d"
  shows "distinct (map User_Id (db_users d))" "distinct (map Token_Id (db_tokens d))"
    "u \<in> set (db_users d) \<Longrightarrow> user_fits u" "t \<in> set (db_tokens d) \<Longrightarrow> token_fits t"
  using assms by (auto simp: ledger_ok_def)

lemma reserveUser_Inl:
  "reserveUser k q w = (Inl e, w1) \<Longrightarrow> db w1 = db w \<and> same_env w w1"
  by (auto simp: reserveUser_def dest: sql_update_Inl)

lemma reserveUser_Inr:
  "reserveUser k q w = (Inr n, w1) \<Longrightarrow>
     db w1 = db_users_update (update_where (\<lambda>u. User_Id u = k \<and> q \<le> User_Quota u)
               (\<lambda>u. u\<lparr>User_Quota := User_Quota u - q\<rparr>)) (db w)
     \<and> n = count_where (\<lambda>u. User_Id u = k \<and> q \<le> User_Quota u) (db_users (db w))
     \<and> same_env w w1"
  by (auto simp: reserveUser_def dest: sql_update_Inr)

lemma reserveToken_Inl:
  "reserveToken k q w = (Inl e, w1) \<Longrightarrow> db w1 = db w \<and> same_env w w1"
  by (auto simp: reserveToken_def dest: sql_update_Inl)

lemma reserveToken_Inr:
  "reserveToken k q w = (Inr n, w1) \<Longrightarrow>
     db w1 = db_tokens_update (update_where (\<lambda>t. Token_Id t = k \<and> q \<le> Token_RemainQuota t)
               (\<lambda>t. t\<lparr>Token_RemainQuota := Token_RemainQuota t - q,
                      Token_UsedQuota := Token_UsedQuota t + q,
                      Token_AccessedTime := clock w\<rparr>)) (db w)
     \<and> n = count_where (\<lambda>t. Token_Id t = k \<and> q \<le> Token_RemainQuota t) (db_tokens (db w))
     \<and> list_all (\<lambda>t. Token_Id t = k \<and> q \<le> Token_RemainQuota t \<longrightarrow>
            token_fits (t\<lparr>Token_RemainQuota := Token_RemainQuota t - q,
                      Token_UsedQuota := Token_UsedQuota t + q,
                      Token_AccessedTime := clock w\<rparr>)) (db_tokens (db w))
     \<and> same_env w w1"
  by (auto simp: reserveToken_def dest: sql_update_Inr)

text \<open>The guarded statement either finds enough and takes exactly the amount, or changes nothing.\<close>

lemma reserveUser_bal:
  assumes "reserveUser k q w = (Inr n, w1)" and "distinct (map User_Id (db_users (db w)))"
  shows "(case user_bal w k of
            Some b \<Rightarrow> if q \<le> b then n = 1 \<and> user_bal w1 = (user_bal w)(k \<mapsto> b - q)
                       else n = 0 \<and> user_bal w1 = user_bal w
          | None \<Rightarrow> n = 0 \<and> user_bal w1 = user_bal w)"
  using reserveUser_Inr [OF assms(1)] count_guarded [OF assms(2), of k "\<lambda>u. q \<le> User_Quota u"]
  by (auto simp: user_bal_def fun_eq_iff find_guarded_update split: option.splits)

lemma reserveToken_bal:
  assumes "reserveToken k q w = (Inr n, w1)" and "distinct (map Token_Id (db_tokens (db w)))"
  shows "(case token_bal w k of
            Some b \<Rightarrow> if q \<le> b then n = 1 \<and> token_bal w1 = (token_bal w)(k \<mapsto> b - q)
                       else n = 0 \<and> token_bal w1 = token_bal w
          | None \<Rightarrow> n = 0 \<and> token_bal w1 = token_bal w)"
  using reserveToken_Inr [OF assms(1)] count_guarded [OF assms(2), of k "\<lambda>t. q \<le> Token_RemainQuota t"]
  by (auto simp: token_bal_def fun_eq_iff find_guarded_update split: option.splits)

lemma reserveUser_taken:
  assumes "reserveUser k q w = (Inr n, w1)" and "distinct (map User_Id (db_users (db w)))" and "n \<noteq> 0"
  shows "\<exists>b. user_bal w k = Some b \<and> q \<le> b \<and> user_bal w1 = (user_bal w)(k \<mapsto> b - q)"
  using reserveUser_bal [OF assms(1,2)] assms(3) by (auto split: option.splits if_splits)

lemma reserveUser_short:
  assumes "reserveUser k q w = (Inl e, w1) \<or> reserveUser k q w = (Inr 0, w1)"
    and "distinct (map User_Id (db_users (db w)))"
  shows "user_bal w1 = user_bal w"
  using assms(1)
proof
  assume "reserveUser k q w = (Inl e, w1)"
  then show ?thesis using bal_db_cong reserveUser_Inl by blast
next
  assume "reserveUser k q w = (Inr 0, w1)"
  from reserveUser_bal [OF this assms(2)] show ?thesis
    by (cases "user_bal w k") (simp_all split: if_splits)
qed

lemma reserveToken_taken:
  assumes "reserveToken k q w = (Inr n, w1)" and "distinct (map Token_Id (db_tokens (db w)))" and "n \<noteq> 0"
  shows "\<exists>b. token_bal w k = Some b \<and> q \<le> b \<and> token_bal w1 = (token_bal w)(k \<mapsto> b - q)"
  using reserveToken_bal [OF assms(1,2)] assms(3) by (auto split: option.splits if_splits)

lemma reserveToken_short:
  assumes "reserveToken k q w = (Inl e, w1) \<or> reserveToken k q w = (Inr 0, w1)"
    and "distinct (map Token_Id (db_tokens (db w)))"
  shows "token_bal w1 = token_bal w"
  using assms(1)
proof
  assume "reserveToken k q w = (Inl e, w1)"
  then show ?thesis using bal_db_cong reserveToken_Inl by blast
next
  assume "reserveToken k q w = (Inr 0, w1)"
  from reserveToken_bal [OF this assms(2)] show ?thesis
    by (cases "token_bal w k") (simp_all split: if_splits)
qed

lemma reserveUser_token_bal: "reserveUser k q w = (r, w1) \<Longrightarrow> token_bal w1 = token_bal w"
  by (cases r) (auto dest!: reserveUser_Inl reserveUser_Inr intro!: token_bal_cong)

lemma reserveToken_user_bal: "reserveToken k q w = (r, w1) \<Longrightarrow> user_bal w1 = user_bal w"
  by (cases r) (auto dest!: reserveToken_Inl reserveToken_Inr intro!: user_bal_cong)

lemma reserveToken_users: "reserveToken k q w = (r, w1) \<Longrightarrow> db_users (db w1) = db_users (db w)"
  by (cases r) (auto dest!: reserveToken_Inl reserveToken_Inr)

lemma rollbackToken_user_bal: "user_bal (rollbackToken t k q w) = user_bal w"
  by (auto simp: rollbackToken_def increaseTokenQuota_user_bal [OF surjective_pairing])

lemma rollbackToken_bal:
  "token_bal (rollbackToken t k q w) = token_bal w
   \<or> (\<not> Token_UnlimitedQuota t \<and>
      token_bal (rollbackToken t k q w) = (\<lambda>j. if j = k then map_option (\<lambda>b. b + q) (token_bal w j) else token_bal w j))"
proof (cases "increaseTokenQuota k q w")
  case (Pair r w1)
  then show ?thesis
    by (cases r) (auto simp: rollbackToken_def fun_eq_iff tokens.credit_ok tokens.credit_err)
qed

lemma GetUserQuota_db: "GetUserQuota k w = (r, w1) \<Longrightarrow> db w1 = db w"
  by (simp add: GetUserQuota_frame)

section \<open>What a reservation does\<close>

text \<open>Inversion of a run of \<open>PreConsumeTokenQuota\<close> outside batch mode.\<close>

lemma PreConsume_cases:
  assumes "PreConsumeTokenQuota k q w = (r, w')" and "0 < q" and "\<not> BatchUpdateEnabled (cfg w)"
  obtains (lookup) e w1 where "GetTokenById k w = (Inl e, w1)" "r = Some e" "w' = w1"
  | (token) e t w1 w2 where "GetTokenById k w = (Inr t, w1)" "\<not> Token_UnlimitedQuota t"
      "reserveToken k q w1 = (Inl e, w2) \<or> reserveToken k q w1 = (Inr 0, w2)" "r \<noteq> None" "w' = w2"
  | (user) e t n w1 w2 w3 where "GetTokenById k w = (Inr t, w1)"
      "(if Token_UnlimitedQuota t then w2 = w1 else reserveToken k q w1 = (Inr n, w2) \<and> n \<noteq> 0)"
      "reserveUser (Token_UserId t) q w2 = (Inl e, w3) \<or> reserveUser (Token_UserId t) q w2 = (Inr 0, w3)"
      "r \<noteq> None" "w' = rollbackToken t k q w3"
  | (success) t n m w1 w2 w3 where "GetTokenById k w = (Inr t, w1)"
      "(if Token_UnlimitedQuota t then w2 = w1 else reserveToken k q w1 = (Inr n, w2) \<and> n \<noteq> 0)"
      "reserveUser (Token_UserId t) q w2 = (Inr m, w3)" "m \<noteq> 0" "r = None" "db w' = db w3"
proof -
  obtain g w1 where g: "GetTokenById k w = (g, w1)" by fastforce
  show thesis
  proof (cases g)
    case (Inl e)
    with g assms show thesis by (intro lookup) (auto simp: PreConsumeTokenQuota_def)
  next
    case (Inr t)
    have cfg: "cfg w1 = cfg w" using GetTokenById_frame [OF g] by (simp add: same_env_def)
    obtain s w2 where s: "(if \<not> Token_UnlimitedQuota t then reserveToken k q w1 else (Inr 1, w1)) = (s, w2)"
      by fastforce
    obtain u w3 where u: "reserveUser (Token_UserId t) q w2 = (u, w3)" by fastforce
    note unf = PreConsumeTokenQuota_def g Inr cfg s u
    consider (a) e where "s = Inl e" | (b) "s = Inr 0" | (c) n e where "s = Inr n" "n \<noteq> 0" "u = Inl e"
      | (d) n where "s = Inr n" "n \<noteq> 0" "u = Inr 0" | (e) n m where "s = Inr n" "n \<noteq> 0" "u = Inr m" "m \<noteq> 0"
      by (cases s; cases u; force)
    then show thesis
    proof cases
      case a
      then have lim: "\<not> Token_UnlimitedQuota t" "reserveToken k q w1 = (Inl e, w2)"
        using s by (auto split: if_splits)
      moreover have "r = Some e" "w' = w2" using assms a by (auto simp: unf)
      ultimately show thesis using g Inr by (intro token [of t w1 e w2]) auto
    next
      case b
      then have lim: "\<not> Token_UnlimitedQuota t" "reserveToken k q w1 = (Inr 0, w2)"
        using s by (auto split: if_splits)
      moreover have "r \<noteq> None" "w' = w2" using assms b by (auto simp: unf)
      ultimately show thesis using g Inr by (intro token [of t w1 undefined w2]) auto
    next
      case c
      then have "if Token_UnlimitedQuota t then w2 = w1 else reserveToken k q w1 = (Inr n, w2) \<and> n \<noteq> 0"
        using s by (auto split: if_splits)
      moreover have "r \<noteq> None" "w' = rollbackToken t k q w3" using assms c by (auto simp: unf)
      ultimately show thesis using g Inr u c by (intro user [of t w1 w2 n e w3]) auto
    next
      case d
      then have "if Token_UnlimitedQuota t then w2 = w1 else reserveToken k q w1 = (Inr n, w2) \<and> n \<noteq> 0"
        using s by (auto split: if_splits)
      moreover have "r \<noteq> None" "w' = rollbackToken t k q w3" using assms d by (auto simp: unf)
      ultimately show thesis using g Inr u d by (intro user [of t w1 w2 n undefined w3]) auto
    next
      case e
      have "r = None \<and> db w' = db w3"
        using assms e
        by (auto simp: unf maybeSendQuotaWarning_frame dest!: GetUserQuota_db
            split: prod.splits sum.splits)
      moreover have "if Token_UnlimitedQuota t then w2 = w1 else reserveToken k q w1 = (Inr n, w2) \<and> n \<noteq> 0"
        using s e by (auto split: if_splits)
      ultimately show thesis using g Inr u e by (intro success [of t w1 w2 n m w3]) auto
    qed
  qed
qed

text \<open>The token leg of a reservation that got past it.\<close>

lemma token_leg:
  assumes "if Token_UnlimitedQuota t then w2 = w1 else reserveToken k q w1 = (Inr n, w2) \<and> n \<noteq> 0"
    and "GetTokenById k w = (Inr t, w1)" and "ledger_ok (db w)"
  shows "db_users (db w2) = db_users (db w)"
    and "if Token_UnlimitedQuota t then token_bal w2 = token_bal w
        else q \<le> Token_RemainQuota t \<and> token_bal w2 = (token_bal w)(k \<mapsto> Token_RemainQuota t - q)"
proof -
  have db1: "db w1 = db w" using GetTokenById_frame [OF assms(2)] by simp
  then have tb: "token_bal w1 k = Some (Token_RemainQuota t)" "token_bal w1 = token_bal w"
    using GetTokenById_Inr [OF assms(2)] by (simp_all add: token_bal_def fun_eq_iff)
  show "db_users (db w2) = db_users (db w)"
    using assms(1) db1 reserveToken_users [of k q w1] by (auto split: if_splits)
  show "if Token_UnlimitedQuota t then token_bal w2 = token_bal w
        else q \<le> Token_RemainQuota t \<and> token_bal w2 = (token_bal w)(k \<mapsto> Token_RemainQuota t - q)"
  proof (cases "Token_UnlimitedQuota t")
    case False
    then have "reserveToken k q w1 = (Inr n, w2)" and "n \<noteq> 0" using assms(1) by auto
    from reserveToken_taken [OF this(1) _ this(2)] ledger_okD(2) [OF assms(3)] db1 tb False
    show ?thesis by auto
  qed (use assms(1) tb in simp)
qed

text \<open>
  C1. A successful reservation of a positive amount outside batch mode takes exactly that amount
  from the owner of the token, who had at least that much, takes it from the token too when the
  token is limited (which then had at least that much), and touches no other balance.
\<close>

theorem PreConsume_exact:
  assumes "ledger_ok (db w)" and "\<not> BatchUpdateEnabled (cfg w)" and "0 < q"
    and "PreConsumeTokenQuota k q w = (None, w')"
  shows "\<exists>t b. find (\<lambda>t. Token_Id t = k) (db_tokens (db w)) = Some t
     \<and> user_bal w (Token_UserId t) = Some b \<and> q \<le> b
     \<and> user_bal w' = (user_bal w)(Token_UserId t \<mapsto> b - q)
     \<and> (if Token_UnlimitedQuota t then token_bal w' = token_bal w
        else q \<le> Token_RemainQuota t \<and> token_bal w' = (token_bal w)(k \<mapsto> Token_RemainQuota t - q))"
  using assms(4,3,2)
proof (cases rule: PreConsume_cases)
  case (success t n m w1 w2 w3)
  note leg = token_leg [OF success(2,1) assms(1)]
  obtain b where b: "user_bal w2 (Token_UserId t) = Some b" "q \<le> b"
      "user_bal w3 = (user_bal w2)(Token_UserId t \<mapsto> b - q)"
    using reserveUser_taken [OF success(3) _ success(4)] leg(1) ledger_okD(1) [OF assms(1)] by auto
  have "user_bal w2 = user_bal w" using leg(1) by (rule user_bal_cong)
  moreover have "user_bal w' = user_bal w3" and "token_bal w' = token_bal w2"
    using bal_db_cong [OF success(6)] reserveUser_token_bal [OF success(3)] by simp_all
  ultimately show ?thesis using b leg(2) GetTokenById_Inr [OF success(1)] by auto
qed simp_all

theorem PreConsume_exact_witness:
  "\<exists>t b. find (\<lambda>t. Token_Id t = 7) (db_tokens (db (world_of demo_db []))) = Some t
     \<and> user_bal (world_of demo_db []) (Token_UserId t) = Some b \<and> 30 \<le> b
     \<and> user_bal (snd (PreConsumeTokenQuota 7 30 (world_of demo_db []))) =
         (user_bal (world_of demo_db []))(Token_UserId t \<mapsto> b - 30)
     \<and> (if Token_UnlimitedQuota t
        then token_bal (snd (PreConsumeTokenQuota 7 30 (world_of demo_db []))) = token_bal (world_of demo_db [])
        else 30 \<le> Token_RemainQuota t
          \<and> token_bal (snd (PreConsumeTokenQuota 7 30 (world_of demo_db []))) =
              (token_bal (world_of demo_db []))(7 \<mapsto> Token_RemainQuota t - 30))"
proof (rule PreConsume_exact)
  show "ledger_ok (db (world_of demo_db []))" by code_simp
  show "\<not> BatchUpdateEnabled (cfg (world_of demo_db []))" by code_simp
  have "fst (PreConsumeTokenQuota 7 30 (world_of demo_db [])) = None" by code_simp
  then show "PreConsumeTokenQuota 7 30 (world_of demo_db []) =
      (None, snd (PreConsumeTokenQuota 7 30 (world_of demo_db [])))"
    by (simp add: prod_eq_iff)
qed simp

text \<open>What a refused reservation may leave behind.\<close>

lemma refused_balances:
  assumes "ledger_ok (db w)" and "\<not> BatchUpdateEnabled (cfg w)" and "0 < q"
    and "PreConsumeTokenQuota k q w = (Some e, w')"
  shows "user_bal w' = user_bal w \<and>
    (token_bal w' = token_bal w \<or>
     (\<exists>r. token_bal w k = Some r \<and> q \<le> r \<and> token_bal w' = (token_bal w)(k \<mapsto> r - q)))"
  using assms(4,3,2)
proof (cases rule: PreConsume_cases)
  case (lookup e w1)
  have "db w' = db w" using GetTokenById_frame [OF lookup(1)] lookup(3) by simp
  from bal_db_cong [OF this] show ?thesis by simp
next
  case (token e' t w1 w2)
  have db1: "db w1 = db w" using GetTokenById_frame [OF token(1)] by simp
  have "token_bal w2 = token_bal w1"
    using reserveToken_short [OF token(3)] ledger_okD(2) [OF assms(1)] db1 by simp
  moreover have "user_bal w2 = user_bal w1" using token(3) reserveToken_user_bal by metis
  ultimately show ?thesis using token(5) bal_db_cong [OF db1] by simp
next
  case (user e' t n w1 w2 w3)
  note leg = token_leg [OF user(2,1) assms(1)]
  have t: "token_bal w k = Some (Token_RemainQuota t)"
    using GetTokenById_Inr [OF user(1)] by (simp add: token_bal_def)
  have "user_bal w3 = user_bal w2"
    using reserveUser_short [OF user(3)] leg(1) ledger_okD(1) [OF assms(1)] by simp
  moreover have "token_bal w3 = token_bal w2" using user(3) reserveUser_token_bal by metis
  moreover have "user_bal w2 = user_bal w" using leg(1) by (rule user_bal_cong)
  ultimately have ub: "user_bal w' = user_bal w" and tb: "token_bal w3 = token_bal w2"
    using user(5) by (simp_all add: rollbackToken_user_bal)
  show ?thesis
  proof (cases "Token_UnlimitedQuota t")
    case True
    then show ?thesis using leg(2) ub tb user(5) by (simp add: rollbackToken_def)
  next
    case False
    then have w3: "q \<le> Token_RemainQuota t" "token_bal w3 = (token_bal w)(k \<mapsto> Token_RemainQuota t - q)"
      using leg(2) tb by auto
    consider "token_bal w' = token_bal w3"
      | "token_bal w' = (\<lambda>j. if j = k then map_option (\<lambda>b. b + q) (token_bal w3 j) else token_bal w3 j)"
      using rollbackToken_bal [of t k q w3] user(5) by auto
    then show ?thesis
    proof cases
      case 1
      with w3 ub t show ?thesis by auto
    next
      case 2
      with w3 t have "token_bal w' = token_bal w" by (auto simp: fun_eq_iff)
      with ub show ?thesis by simp
    qed
  qed
qed simp_all

text \<open>
  C2. A reservation that is refused, whatever call failed, never changes a user balance; token
  balances are unchanged too, unless the compensating update of a limited token itself failed,
  and then that token, and only it, stays lower by the amount.
\<close>

theorem PreConsume_refused:
  assumes "ledger_ok (db w)" and "\<not> BatchUpdateEnabled (cfg w)" and "0 < q"
    and "PreConsumeTokenQuota k q w = (Some e, w')"
  shows "user_bal w' = user_bal w \<and>
    (token_bal w' = token_bal w \<or>
     (\<exists>r. token_bal w k = Some r \<and> q \<le> r \<and> token_bal w' = (token_bal w)(k \<mapsto> r - q)))"
  using assms by (rule refused_balances)

theorem PreConsume_refused_witness:
  "user_bal (snd (PreConsumeTokenQuota 7 60 (world_of demo_db []))) = user_bal (world_of demo_db []) \<and>
    (token_bal (snd (PreConsumeTokenQuota 7 60 (world_of demo_db []))) = token_bal (world_of demo_db []) \<or>
     (\<exists>r. token_bal (world_of demo_db []) 7 = Some r \<and> 60 \<le> r
        \<and> token_bal (snd (PreConsumeTokenQuota 7 60 (world_of demo_db []))) =
            (token_bal (world_of demo_db []))(7 \<mapsto> r - 60)))"
proof (rule PreConsume_refused)
  show "ledger_ok (db (world_of demo_db []))" by code_simp
  show "\<not> BatchUpdateEnabled (cfg (world_of demo_db []))" by code_simp
  have "fst (PreConsumeTokenQuota 7 60 (world_of demo_db [])) = Some (Err ''token quota insufficient'')"
    by code_simp
  then show "PreConsumeTokenQuota 7 60 (world_of demo_db []) =
      (Some (Err ''token quota insufficient''), snd (PreConsumeTokenQuota 7 60 (world_of demo_db [])))"
    by (simp add: prod_eq_iff)
qed simp

section \<open>Solvency\<close>

lemma reserveUser_solvent:
  assumes "reserveUser k q w = (r, w1)" and "solvent (db w)"
  shows "solvent (db w1)"
proof (cases r)
  case (Inl e)
  with assms show ?thesis by (auto dest!: reserveUser_Inl)
next
  case (Inr n)
  with reserveUser_Inr [of k q w n w1] assms show ?thesis
    by (auto simp: solvent_def update_where_def)
qed

lemma reserveToken_solvent:
  assumes "reserveToken k q w = (r, w1)" and "solvent (db w)"
  shows "solvent (db w1)"
proof (cases r)
  case (Inl e)
  with assms show ?thesis by (auto dest!: reserveToken_Inl)
next
  case (Inr n)
  with reserveToken_Inr [of k q w n w1] assms show ?thesis
    by (auto simp: solvent_def update_where_def)
qed

lemma increaseTokenQuota_solvent:
  assumes "increaseTokenQuota k q w = (r, w1)" and "solvent (db w)" and "0 \<le> q"
  shows "solvent (db w1)"
proof (cases r)
  case (Some e)
  with assms show ?thesis by (auto dest!: increaseTokenQuota_Some)
next
  case None
  with increaseTokenQuota_None [of k q w w1] assms show ?thesis
    by (auto simp: solvent_def update_where_def)
qed

lemma rollbackToken_solvent: "solvent (db w) \<Longrightarrow> 0 \<le> q \<Longrightarrow> solvent (db (rollbackToken t k q w))"
  using increaseTokenQuota_solvent [OF surjective_pairing, of w q k] by (simp add: rollbackToken_def)

lemma PreConsume_solvent_step:
  assumes "\<not> BatchUpdateEnabled (cfg w)" and "PreConsumeTokenQuota k q w = (r, w')" and "solvent (db w)"
  shows "solvent (db w')"
proof (cases "0 < q")
  case False
  with assms show ?thesis by (auto simp: PreConsumeTokenQuota_def split: if_splits)
next
  case True
  from assms(2) True assms(1) show ?thesis
  proof (cases rule: PreConsume_cases)
    case (lookup e w1)
    with GetTokenById_frame [OF lookup(1)] assms show ?thesis by simp
  next
    case (token e t w1 w2)
    with GetTokenById_frame [OF token(1)] assms show ?thesis
      by (auto intro: reserveToken_solvent)
  next
    case (user e t n w1 w2 w3)
    have "solvent (db w2)"
      using user(2) GetTokenById_frame [OF user(1)] assms(3) reserveToken_solvent [of k q w1]
      by (auto split: if_splits)
    then have "solvent (db w3)" using user(3) by (auto intro: reserveUser_solvent)
    with user(5) True show ?thesis by (simp add: rollbackToken_solvent)
  next
    case (success t n m w1 w2 w3)
    have "solvent (db w2)"
      using success(2) GetTokenById_frame [OF success(1)] assms(3) reserveToken_solvent [of k q w1]
      by (auto split: if_splits)
    with success show ?thesis by (auto intro: reserveUser_solvent)
  qed
qed

end
