(* ===== verification/ConcurrentReserve.thy ===== *)
theory ConcurrentReserve
  imports TokenLedger
begin

text \<open>
  Concurrent requests. Each call of \<open>PreConsumeTokenQuota\<close> is cut into the SQL statements it
  executes; a step of the system is one statement of one of any number of calls in flight, so
  every interleaving of their statements is a run. This is the situation the guarded
  \<open>UPDATE ... WHERE quota >= ?\<close> of the source was written for.
\<close>

section \<open>One call, statement by statement\<close>

datatype pc =
    PStart
  | PLoaded Token
  | PTokenDone Token
  | PRollback Token GoErr
  | PGranted Token
  | PRefused GoErr

record call =
  call_token :: int
  call_quota :: int
  call_pc :: pc

text \<open>The next statement of a call and the state after it; \<open>PGranted\<close> and \<open>PRefused\<close> are final.\<close>

fun pre_step :: "int \<Rightarrow> int \<Rightarrow> pc \<Rightarrow> World \<Rightarrow> pc \<times> World" where
  "pre_step k q PStart w = (case GetTokenById k w of
      (Inl e, w1) \<Rightarrow> (PRefused e, w1)
    | (Inr t, w1) \<Rightarrow> (PLoaded t, w1))"
| "pre_step k q (PLoaded t) w =
     (if Token_UnlimitedQuota t then (PTokenDone t, w)
      else case reserveToken k q w of
        (Inl e, w1) \<Rightarrow> (PRefused e, w1)
      | (Inr n, w1) \<Rightarrow>
          if n = 0 then (PRefused (Err ''token quota insufficient''), w1) else (PTokenDone t, w1))"
| "pre_step k q (PTokenDone t) w = (case reserveUser (Token_UserId t) q w of
      (Inl e, w1) \<Rightarrow> (PRollback t e, w1)
    | (Inr n, w1) \<Rightarrow>
        if n = 0 then (PRollback t (Err ''user quota insufficient''), w1) else (PGranted t, w1))"
| "pre_step k q (PRollback t e) w = (PRefused e, rollbackToken t k q w)"
| "pre_step k q (PGranted t) w = (PGranted t, w)"
| "pre_step k q (PRefused e) w = (PRefused e, w)"

fun run_call :: "nat \<Rightarrow> int \<Rightarrow> int \<Rightarrow> pc \<times> World \<Rightarrow> pc \<times> World" where
  "run_call 0 k q s = s"
| "run_call (Suc n) k q s = run_call n k q (pre_step k q (fst s) (snd s))"

text \<open>
  Run alone, the statements compose to the operation: four steps reach a final state, with the
  same outcome and the same database.
\<close>

lemma run_call_refines:
  assumes "0 < q" and "\<not> BatchUpdateEnabled (cfg w)"
    and "PreConsumeTokenQuota k q w = (r, w')" and "run_call 4 k q (PStart, w) = (s, v)"
  shows "db v = db w' \<and> (case s of PGranted t \<Rightarrow> r = None | PRefused e \<Rightarrow> r = Some e | _ \<Rightarrow> False)"
proof -
  obtain g w1 where g: "GetTokenById k w = (g, w1)" by fastforce
  have cfg: "cfg w1 = cfg w" using GetTokenById_frame [OF g] by (simp add: same_env_def)
  show ?thesis
  proof (cases g)
    case (Inl e)
    with assms g show ?thesis by (auto simp: PreConsumeTokenQuota_def numeral_eq_Suc)
  next
    case (Inr t)
    obtain a w2 where a: "reserveToken k q w1 = (a, w2)" by fastforce
    obtain u w3 where u: "reserveUser (Token_UserId t) q w2 = (u, w3)" by fastforce
    obtain u' w3' where u': "reserveUser (Token_UserId t) q w1 = (u', w3')" by fastforce
    have gq: "db (case GetUserQuota x v of (Inl e, w4) \<Rightarrow> w4
        | (Inr y, w4) \<Rightarrow> maybeSendQuotaWarning x (f y) y w4) = db v" for x v f
      by (auto simp: maybeSendQuotaWarning_frame dest!: GetUserQuota_db split: prod.splits sum.splits)
    show ?thesis
    proof (cases "Token_UnlimitedQuota t")
      case True
      with assms g Inr u' cfg gq show ?thesis
        by (cases u') (auto simp: PreConsumeTokenQuota_def numeral_eq_Suc rollbackToken_def
            split: if_splits)
    next
      case False
      with assms g Inr a u cfg gq show ?thesis
        by (cases a; cases u) (auto simp: PreConsumeTokenQuota_def numeral_eq_Suc split: if_splits)
    qed
  qed
qed

section \<open>Many calls\<close>

definition take_step :: "nat \<Rightarrow> World \<times> call list \<Rightarrow> World \<times> call list" where
  "take_step i s = (case s of (w, cs) \<Rightarrow>
     (case pre_step (call_token (cs ! i)) (call_quota (cs ! i)) (call_pc (cs ! i)) w of
        (p, w1) \<Rightarrow> (w1, cs[i := (cs ! i)\<lparr>call_pc := p\<rparr>])))"

inductive sys_step :: "World \<times> call list \<Rightarrow> World \<times> call list \<Rightarrow> bool" where
  one_statement: "i < length cs \<Longrightarrow> sys_step (w, cs) (take_step i (w, cs))"

inductive sys_reach :: "World \<times> call list \<Rightarrow> World \<times> call list \<Rightarrow> bool" for s0 where
  here: "sys_reach s0 s0"
| onward: "sys_reach s0 s \<Longrightarrow> sys_step s s' \<Longrightarrow> sys_reach s0 s'"

inductive_cases sys_stepE: "sys_step (w, cs) s'"

text \<open>What has been granted against user \<open>u\<close>, and what is held against token \<open>k\<close>.\<close>

definition granted_of :: "int \<Rightarrow> call \<Rightarrow> int" where
  "granted_of u c = (case call_pc c of
      PGranted t \<Rightarrow> if Token_UserId t = u then call_quota c else 0
    | _ \<Rightarrow> 0)"

definition granted :: "int \<Rightarrow> call list \<Rightarrow> int" where
  "granted u cs = sum_list (map (granted_of u) cs)"

definition fresh_calls :: "call list \<Rightarrow> bool" where
  "fresh_calls cs \<longleftrightarrow> (\<forall>c \<in> set cs. call_pc c = PStart \<and> 0 < call_quota c)"

lemma sum_list_map_update:
  fixes f :: "'a \<Rightarrow> int"
  shows "i < length xs \<Longrightarrow> sum_list (map f (xs[i := x])) = sum_list (map f xs) - f (xs ! i) + f x"
  by (induction xs arbitrary: i) (auto split: nat.splits)

text \<open>One statement moves the balance of a user by exactly what it grants against that user.\<close>

lemma pre_step_keeps_ok:
  assumes "pre_step k q p w = (p', w')" and "distinct (map User_Id (db_users (db w)))"
  shows "distinct (map User_Id (db_users (db w')))"
proof -
  have upd: "distinct (map User_Id (update_where P (\<lambda>u. u\<lparr>User_Quota := f u\<rparr>) us)) =
      distinct (map User_Id us)" for P f us
    by (rule distinct_keys_update) simp
  have roll: "db_users (db (rollbackToken t k q w)) = db_users (db w)" for t
    by (cases "increaseTokenQuota k q w"; cases "fst (increaseTokenQuota k q w)")
       (auto simp: rollbackToken_def dest!: increaseTokenQuota_None increaseTokenQuota_Some)
  show ?thesis
    using assms
    by (cases p)
       (auto simp: upd roll dest!: GetTokenById_frame reserveUser_Inl reserveUser_Inr reserveToken_users
         split: prod.splits sum.splits if_splits)
qed

lemma pre_step_user_bal:
  assumes "pre_step k q p w = (p', w')" and "distinct (map User_Id (db_users (db w)))"
  shows "(\<exists>t b. p = PTokenDone t \<and> p' = PGranted t \<and> user_bal w (Token_UserId t) = Some b \<and> q \<le> b
            \<and> user_bal w' = (user_bal w)(Token_UserId t \<mapsto> b - q))
       \<or> (user_bal w' = user_bal w \<and> (p' = p \<or> (\<forall>t. p' \<noteq> PGranted t) \<and> (\<forall>t. p \<noteq> PGranted t)))"
proof (cases p)
  case PStart
  with assms show ?thesis
    by (auto dest!: GetTokenById_frame bal_db_cong split: prod.splits sum.splits)
next
  case (PLoaded t)
  with assms show ?thesis
    by (auto dest!: reserveToken_user_bal split: prod.splits sum.splits if_splits)
next
  case (PTokenDone t)
  obtain r w1 where r: "reserveUser (Token_UserId t) q w = (r, w1)" by fastforce
  show ?thesis
  proof (cases "\<exists>n. r = Inr n \<and> n \<noteq> 0")
    case True
    then obtain n where n: "r = Inr n" "n \<noteq> 0" by blast
    with reserveUser_taken [OF r [unfolded n(1)] assms(2) n(2)] assms(1) PTokenDone r show ?thesis
      by auto
  next
    case False
    then obtain e where "reserveUser (Token_UserId t) q w = (Inl e, w1) \<or>
        reserveUser (Token_UserId t) q w = (Inr 0, w1)"
      using r by (cases r) auto
    then have "user_bal w1 = user_bal w" using reserveUser_short assms(2) by metis
    with assms(1) PTokenDone r False show ?thesis by (cases r) auto
  qed
next
  case (PRollback t e)
  with assms show ?thesis by (auto simp: rollbackToken_user_bal)
qed (use assms in auto)

definition conserved :: "World \<Rightarrow> World \<times> call list \<Rightarrow> bool" where
  "conserved w0 s \<longleftrightarrow> (case s of (w, cs) \<Rightarrow>
     distinct (map User_Id (db_users (db w))) \<and>
     (\<forall>u. user_bal w0 u = map_option (\<lambda>b. b + granted u cs) (user_bal w u)))"

lemma take_step_conserved:
  assumes "conserved w0 (w, cs)" and "i < length cs"
  shows "conserved w0 (take_step i (w, cs))"
proof -
  define c where "c = cs ! i"
  obtain p' w' where st: "pre_step (call_token c) (call_quota c) (call_pc c) w = (p', w')" by fastforce
  have ts: "take_step i (w, cs) = (w', cs[i := c\<lparr>call_pc := p'\<rparr>])"
    using st by (simp add: take_step_def c_def)
  have d: "distinct (map User_Id (db_users (db w)))" using assms(1) by (simp add: conserved_def)
  have gr: "granted u (cs[i := c\<lparr>call_pc := p'\<rparr>]) =
      granted u cs - granted_of u c + granted_of u (c\<lparr>call_pc := p'\<rparr>)" for u
    using assms(2) by (simp add: granted_def sum_list_map_update c_def)
  have "user_bal w0 u = map_option (\<lambda>b. b + granted u (cs[i := c\<lparr>call_pc := p'\<rparr>])) (user_bal w' u)" for u
  proof -
    have old: "user_bal w0 u = map_option (\<lambda>b. b + granted u cs) (user_bal w u)"
      using assms(1) by (simp add: conserved_def)
    from pre_step_user_bal [OF st d] show ?thesis
    proof (elim disjE exE conjE)
      fix t b
      assume "call_pc c = PTokenDone t" and "p' = PGranted t"
        and "user_bal w (Token_UserId t) = Some b"
        and "user_bal w' = (user_bal w)(Token_UserId t \<mapsto> b - call_quota c)"
      then show ?thesis using old gr [of u] by (auto simp: granted_of_def)
    next
      assume "user_bal w' = user_bal w" and "p' = call_pc c"
      then show ?thesis using old gr [of u] by (simp add: granted_of_def)
    next
      assume "user_bal w' = user_bal w" and "\<forall>t. p' \<noteq> PGranted t" and "\<forall>t. call_pc c \<noteq> PGranted t"
      then have "granted_of u c = 0" and "granted_of u (c\<lparr>call_pc := p'\<rparr>) = 0"
        by (auto simp: granted_of_def split: pc.splits)
      then show ?thesis using old gr [of u] \<open>user_bal w' = user_bal w\<close> by simp
    qed
  qed
  then show ?thesis using pre_step_keeps_ok [OF st d] by (simp add: conserved_def ts)
qed

lemma reach_conserved:
  assumes "sys_reach (w0, cs0) s" and "fresh_calls cs0" and "distinct (map User_Id (db_users (db w0)))"
  shows "conserved w0 s"
  using assms(1)
proof (induction rule: sys_reach.induct)
  case here
  have "granted u cs0 = 0" for u
  proof -
    have "map (granted_of u) cs0 = map (\<lambda>_. 0) cs0"
      using assms(2) by (auto simp: fresh_calls_def granted_of_def)
    then have "sum_list (map (granted_of u) cs0) = sum_list (map (\<lambda>_. 0) cs0)" by (rule arg_cong)
    then show ?thesis by (simp add: granted_def)
  qed
  then show ?case using assms(3) by (simp add: conserved_def option.map_ident)
next
  case (onward s s')
  then show ?case by (cases s) (auto elim!: sys_stepE intro: take_step_conserved)
qed

lemma pre_step_solvent:
  assumes "pre_step k q p w = (p', w')" and "solvent (db w)" and "0 < q"
  shows "solvent (db w')"
proof (cases p)
  case PStart
  with assms show ?thesis by (auto dest!: GetTokenById_frame split: prod.splits sum.splits)
next
  case (PLoaded t)
  with assms show ?thesis
    by (auto intro: reserveToken_solvent split: prod.splits sum.splits if_splits)
next
  case (PTokenDone t)
  with assms show ?thesis
    by (auto intro: reserveUser_solvent split: prod.splits sum.splits if_splits)
next
  case (PRollback t e)
  with assms show ?thesis by (auto intro: rollbackToken_solvent)
qed (use assms in auto)

lemma reach_solvent:
  assumes "sys_reach (w0, cs0) s" and "fresh_calls cs0" and "solvent (db w0)"
  shows "solvent (db (fst s)) \<and> (\<forall>c \<in> set (snd s). 0 < call_quota c)"
  using assms(1)
proof (induction rule: sys_reach.induct)
  case here
  then show ?case using assms by (auto simp: fresh_calls_def)
next
  case (onward s s')
  obtain w cs where s: "s = (w, cs)" by (cases s)
  with onward(2) obtain i where i: "i < length cs" "s' = take_step i (w, cs)"
    by (auto elim: sys_stepE)
  have q: "0 < call_quota (cs ! i)" using onward.IH s i by simp
  obtain p' w' where st: "pre_step (call_token (cs ! i)) (call_quota (cs ! i)) (call_pc (cs ! i)) w = (p', w')"
    by fastforce
  have "solvent (db w')" using pre_step_solvent [OF st] onward.IH s q by simp
  moreover have "0 < call_quota c" if "c \<in> set (cs[i := (cs ! i)\<lparr>call_pc := p'\<rparr>])" for c
    using that onward.IH s q set_update_subset_insert [of cs i] by fastforce
  ultimately show ?case using i st by (simp add: take_step_def)
qed


lemma take_step_length: "length (snd (take_step i s)) = length (snd s)"
  by (auto simp: take_step_def split: prod.splits)

lemma reach_schedule:
  "sys_reach s0 s \<Longrightarrow> \<forall>i \<in> set sched. i < length (snd s) \<Longrightarrow> sys_reach s0 (fold take_step sched s)"
proof (induction sched arbitrary: s)
  case (Cons i sched)
  obtain w cs where s: "s = (w, cs)" by (cases s)
  have "sys_step s (take_step i s)" using Cons.prems(2) s by (simp add: sys_step.intros)
  then show ?case
    using Cons.IH [of "take_step i s"] Cons.prems by (simp add: sys_reach.onward take_step_length)
qed simp

text \<open>Two calls of 30 against a user who has 40, their statements alternating.\<close>

definition demo_calls :: "call list" where
  "demo_calls = [\<lparr>call_token = 8, call_quota = 30, call_pc = PStart\<rparr>,
                 \<lparr>call_token = 8, call_quota = 30, call_pc = PStart\<rparr>]"

definition demo_run :: "World \<times> call list" where
  "demo_run = fold take_step [0, 1, 0, 1, 0, 1, 1] (world_of demo_db [], demo_calls)"


lemma demo_run_granted: "granted 2 (snd demo_run) = 30 \<and> user_bal (fst demo_run) 2 = Some 10"
  by code_simp

end
