(* ===== verification/Settle.thy ===== *)
theory Settle
  imports ConcurrentReserve
begin

text \<open>
  Settling a request (\<open>PostConsumeTokenQuota\<close>) and the batch updater of \<open>model/utils.go\<close>, with
  the two ways an error is lost: the wallet error that a settlement does not report, and the
  pending delta that a failed flush drops.
\<close>

section \<open>Settlement\<close>

definition wallet_leg :: "int \<Rightarrow> int \<Rightarrow> World \<Rightarrow> GoErr option \<times> World" where
  "wallet_leg uid q w = (if 0 < q then DecreaseUserQuota uid q w else IncreaseUserQuota uid (i64 (- q)) w)"

definition token_leg_of :: "int \<Rightarrow> int \<Rightarrow> World \<Rightarrow> GoErr option \<times> World" where
  "token_leg_of k q w = (if 0 < q then DecreaseTokenQuota k q w else IncreaseTokenQuota k (i64 (- q)) w)"

lemma PostConsume_legs:
  "PostConsumeTokenQuota k q w = (case GetTokenById k w of
     (Inl e, w1) \<Rightarrow> (Some e, w1)
   | (Inr t, w1) \<Rightarrow> (case wallet_leg (Token_UserId t) q w1 of (err, w2) \<Rightarrow>
       if Token_UnlimitedQuota t then (None, w2) else token_leg_of k q w2))"
  by (auto simp: PostConsumeTokenQuota_def wallet_leg_def token_leg_of_def
      split: prod.splits sum.splits option.splits)

text \<open>Outside batch mode each leg is one increase by \<open>- q\<close>.\<close>

lemma wallet_leg_increase:
  "\<not> BatchUpdateEnabled (cfg w) \<Longrightarrow> in_i64 q \<Longrightarrow> q \<noteq> - (2 ^ 63) \<Longrightarrow>
   wallet_leg uid q w = increaseUserQuota uid (- q) w"
  by (auto simp: wallet_leg_def DecreaseUserQuota_def IncreaseUserQuota_def
      decreaseUserQuota_increase i64_id in_i64_neg)

lemma token_leg_increase:
  "\<not> BatchUpdateEnabled (cfg w) \<Longrightarrow> in_i64 q \<Longrightarrow> q \<noteq> - (2 ^ 63) \<Longrightarrow>
   token_leg_of k q w = increaseTokenQuota k (- q) w"
  by (auto simp: token_leg_of_def DecreaseTokenQuota_def IncreaseTokenQuota_def
      decreaseTokenQuota_increase i64_id in_i64_neg)

lemma same_env_cfg: "same_env w w1 \<Longrightarrow> cfg w1 = cfg w"
  by (simp add: same_env_def)

lemma increaseUserQuota_env: "increaseUserQuota k d w = (r, w1) \<Longrightarrow> cfg w1 = cfg w"
  by (cases r) (auto dest!: increaseUserQuota_None increaseUserQuota_Some same_env_cfg)

lemma increaseUserQuota_ok:
  assumes "faults w = []" and "ledger_ok (db w)" and "\<And>b. user_bal w k = Some b \<Longrightarrow> in_i64 (b + d)"
  shows "\<exists>w1. increaseUserQuota k d w = (None, w1) \<and> faults w1 = [] \<and> ledger_ok (db w1)"
proof -
  let ?f = "\<lambda>r. r\<lparr>User_Quota := User_Quota r + d\<rparr>"
  have fits: "user_fits (?f r)" if r: "r \<in> set (db_users (db w))" "User_Id r = k" for r
  proof -
    have "find (\<lambda>u. User_Id u = k) (db_users (db w)) = Some r"
      using find_key_iff [OF ledger_okD(1) [OF assms(2)], of k r] r by simp
    then show ?thesis
      using ledger_okD(3) [OF assms(2) r(1)] assms(3) by (simp add: user_fits_def user_bal_def)
  qed
  then have "list_all (\<lambda>r. User_Id r = k \<longrightarrow> user_fits (?f r)) (db_users (db w))"
    by (simp add: list_all_iff)
  then have "sql_update db_users db_users_update user_fits (\<lambda>u. User_Id u = k) ?f w =
      (Inr (count_where (\<lambda>u. User_Id u = k) (db_users (db w))),
       w\<lparr>db := db_users_update (update_where (\<lambda>u. User_Id u = k) ?f) (db w)\<rparr>)"
    using assms(1) by (simp add: sql_update_def)
  moreover have "ledger_ok (db_users_update (update_where (\<lambda>u. User_Id u = k) ?f) (db w))"
    using assms(2) fits
    by (auto simp: ledger_ok_def distinct_keys_update dest!: set_update_where)
  ultimately show ?thesis using assms(1) by (simp add: increaseUserQuota_def err_only_def)
qed

lemma increaseTokenQuota_ok:
  assumes "faults w = []" and "distinct (map Token_Id (db_tokens (db w)))"
    and "find (\<lambda>t. Token_Id t = k) (db_tokens (db w)) = Some t"
    and "in_i64 (Token_RemainQuota t + d)" and "in_i64 (Token_UsedQuota t - d)"
  shows "\<exists>w1. increaseTokenQuota k d w = (None, w1)"
proof -
  have "list_all (\<lambda>r. Token_Id r = k \<longrightarrow> token_fits (r\<lparr>Token_RemainQuota := Token_RemainQuota r + d,
        Token_UsedQuota := Token_UsedQuota r - d, Token_AccessedTime := clock w\<rparr>)) (db_tokens (db w))"
    unfolding list_all_iff
  proof (intro ballI impI)
    fix r assume r: "r \<in> set (db_tokens (db w))" "Token_Id r = k"
    then have "r = t" using find_key_iff [OF assms(2), of k r] assms(3) by simp
    then show "token_fits (r\<lparr>Token_RemainQuota := Token_RemainQuota r + d,
        Token_UsedQuota := Token_UsedQuota r - d, Token_AccessedTime := clock w\<rparr>)"
      using assms(4,5) by (simp add: token_fits_def)
  qed
  then show ?thesis using assms(1) by (simp add: increaseTokenQuota_def sql_update_def err_only_def)
qed

lemma settle_exact:
  assumes "ledger_ok (db w)" and "\<not> BatchUpdateEnabled (cfg w)" and "faults w = []"
    and "k \<noteq> 0" and "find (\<lambda>t. Token_Id t = k) (db_tokens (db w)) = Some t"
    and "user_bal w (Token_UserId t) = Some b"
    and "in_i64 q" and "q \<noteq> - (2 ^ 63)" and "in_i64 (b - q)"
    and "in_i64 (Token_RemainQuota t - q)" and "in_i64 (Token_UsedQuota t + q)"
  shows "\<exists>w'. PostConsumeTokenQuota k q w = (None, w')
     \<and> user_bal w' = (user_bal w)(Token_UserId t \<mapsto> b - q)
     \<and> token_bal w' = (if Token_UnlimitedQuota t then token_bal w
                       else (token_bal w)(k \<mapsto> Token_RemainQuota t - q))"
proof -
  have g: "GetTokenById k w = (Inr t, w)"
    using assms(3-5) by (simp add: GetTokenById_def sql_first_def)
  obtain w1 where w1: "increaseUserQuota (Token_UserId t) (- q) w = (None, w1)" "faults w1 = []"
    using increaseUserQuota_ok [OF assms(3,1), of "Token_UserId t" "- q"] assms(6,9) by auto
  have leg: "wallet_leg (Token_UserId t) q w = (None, w1)"
    using wallet_leg_increase assms(2,7,8) w1 by simp
  have ub: "user_bal w1 = (user_bal w)(Token_UserId t \<mapsto> b - q)"
    using wallet.credit_ok [OF w1(1)] assms(6) by (auto simp: fun_eq_iff)
  have tb: "token_bal w1 = token_bal w" using increaseUserQuota_token_bal [OF w1(1)] .
  show ?thesis
  proof (cases "Token_UnlimitedQuota t")
    case True
    with g leg ub tb show ?thesis by (simp add: PostConsume_legs)
  next
    case False
    have toks: "db_tokens (db w1) = db_tokens (db w)" using increaseUserQuota_None [OF w1(1)] by simp
    then obtain w2 where w2: "increaseTokenQuota k (- q) w1 = (None, w2)"
      using increaseTokenQuota_ok [OF w1(2), of k t "- q"] assms(5,10,11) ledger_okD(2) [OF assms(1)]
      by auto
    have "token_leg_of k q w1 = (None, w2)"
      using token_leg_increase assms(2,7,8) increaseUserQuota_env [OF w1(1)] w2 by simp
    moreover have "token_bal w2 = (token_bal w)(k \<mapsto> Token_RemainQuota t - q)"
      using tokens.credit_ok [OF w2] tb assms(5) by (auto simp: fun_eq_iff token_bal_def)
    moreover have "user_bal w2 = user_bal w1" using increaseTokenQuota_user_bal [OF w2] .
    ultimately show ?thesis using g leg ub False by (simp add: PostConsume_legs)
  qed
qed

text \<open>
  What a settlement may do whatever fails: it moves the balance of the token's owner by \<open>- q\<close> or
  not at all, and touches no task; \<open>ErrRecordNotFound\<close> means that nothing was written.
\<close>

definition moved :: "int \<Rightarrow> int \<Rightarrow> (int \<Rightarrow> int option) \<Rightarrow> int \<Rightarrow> int option" where
  "moved u d bal = (\<lambda>j. if j = u then map_option (\<lambda>b. b + d) (bal j) else bal j)"

lemma io_fault_faults_Nil: "io_fault w = (b, w1) \<Longrightarrow> faults w = [] \<Longrightarrow> faults w1 = []"
  by (simp add: io_fault_def)

lemma sql_update_faults_Nil: "sql_update get upd ok P f w = (r, w1) \<Longrightarrow> faults w = [] \<Longrightarrow> faults w1 = []"
  by (auto simp: sql_update_def split: if_splits)

lemma sql_first_faults_Nil: "sql_first get P w = (r, w1) \<Longrightarrow> faults w = [] \<Longrightarrow> faults w1 = []"
  by (auto simp: sql_first_def split: option.splits)

lemma increaseUserQuota_faults_Nil:
  "increaseUserQuota k d w = (r, w1) \<Longrightarrow> faults w = [] \<Longrightarrow> faults w1 = []"
  by (cases r) (auto simp: increaseUserQuota_def err_only_None err_only_Some dest: sql_update_faults_Nil)

lemma increaseTokenQuota_faults_Nil:
  "increaseTokenQuota k d w = (r, w1) \<Longrightarrow> faults w = [] \<Longrightarrow> faults w1 = []"
  by (cases r) (auto simp: increaseTokenQuota_def err_only_None err_only_Some dest: sql_update_faults_Nil)

lemma increaseUserQuota_effect:
  assumes "increaseUserQuota k d w = (r, w1)"
  shows "same_env w w1 \<and> db_tasks (db w1) = db_tasks (db w) \<and> db_tokens (db w1) = db_tokens (db w)
     \<and> user_bal w1 = (if r = None then moved k d (user_bal w) else user_bal w)
     \<and> r \<noteq> Some ErrRecordNotFound"
proof (cases r)
  case None
  have "user_bal w1 = moved k d (user_bal w)"
    using wallet.credit_ok [of k d w w1] assms None by (simp add: moved_def fun_eq_iff)
  with increaseUserQuota_None [of k d w w1] assms None show ?thesis by simp
next
  case (Some e)
  have "e \<noteq> ErrRecordNotFound"
    using assms Some by (auto simp: increaseUserQuota_def err_only_Some sql_update_def
        split: prod.splits bool.splits if_splits)
  with increaseUserQuota_Some [of k d w e w1] assms Some bal_db_cong [of w1 w] show ?thesis by simp
qed

lemma increaseTokenQuota_effect:
  assumes "increaseTokenQuota k d w = (r, w1)"
  shows "same_env w w1 \<and> db_tasks (db w1) = db_tasks (db w) \<and> user_bal w1 = user_bal w
     \<and> r \<noteq> Some ErrRecordNotFound"
proof (cases r)
  case None
  with increaseTokenQuota_None [of k d w w1] increaseTokenQuota_user_bal [OF assms] assms
  show ?thesis by simp
next
  case (Some e)
  have "e \<noteq> ErrRecordNotFound"
    using assms Some by (auto simp: increaseTokenQuota_def err_only_Some sql_update_def
        split: prod.splits bool.splits if_splits)
  with increaseTokenQuota_Some [of k d w e w1] increaseTokenQuota_user_bal [OF assms] assms Some
  show ?thesis by simp
qed

lemma PostConsume_effect:
  assumes "PostConsumeTokenQuota k q w = (r, w1)"
    and "\<not> BatchUpdateEnabled (cfg w)" and "in_i64 q" and "q \<noteq> - (2 ^ 63)"
  shows "same_env w w1 \<and> db_tasks (db w1) = db_tasks (db w)
     \<and> (r = Some ErrRecordNotFound \<longrightarrow> db w1 = db w)
     \<and> (user_bal w1 = user_bal w \<or> (\<exists>t. find (\<lambda>t. Token_Id t = k) (db_tokens (db w)) = Some t
          \<and> user_bal w1 = moved (Token_UserId t) (- q) (user_bal w)))"
proof -
  obtain g v where g: "GetTokenById k w = (g, v)" by fastforce
  have v: "db v = db w" "same_env w v" "cfg v = cfg w"
    using GetTokenById_frame [OF g] by (auto simp: same_env_def)
  show ?thesis
  proof (cases g)
    case (Inl e)
    with assms(1) g v bal_db_cong [OF v(1)] show ?thesis by (simp add: PostConsume_legs)
  next
    case (Inr t)
    have t: "find (\<lambda>t. Token_Id t = k) (db_tokens (db w)) = Some t"
      using GetTokenById_Inr g Inr by blast
    obtain e v2 where u: "increaseUserQuota (Token_UserId t) (- q) v = (e, v2)" by fastforce
    have leg: "wallet_leg (Token_UserId t) q v = (e, v2)" using wallet_leg_increase assms v u by simp
    note ue = increaseUserQuota_effect [OF u]
    obtain e' v3 where k: "increaseTokenQuota k (- q) v2 = (e', v3)" by fastforce
    have "cfg v2 = cfg w" using ue v by (simp add: same_env_def)
    then have leg2: "token_leg_of k q v2 = (e', v3)" using token_leg_increase assms k by simp
    note ke = increaseTokenQuota_effect [OF k]
    have ub: "user_bal v2 = user_bal w \<or> user_bal v2 = moved (Token_UserId t) (- q) (user_bal w)"
      using ue bal_db_cong [OF v(1)] by auto
    show ?thesis
    proof (cases "Token_UnlimitedQuota t")
      case True
      with assms(1) g Inr leg ue v t ub show ?thesis
        by (auto simp: PostConsume_legs intro: same_env_trans)
    next
      case False
      with assms(1) g Inr leg leg2 have "r = e'" "w1 = v3" by (simp_all add: PostConsume_legs)
      with ue ke v t ub show ?thesis by (auto intro: same_env_trans)
    qed
  qed
qed

lemma PostConsume_quiet:
  assumes "PostConsumeTokenQuota k q w = (r, w1)"
    and "\<not> BatchUpdateEnabled (cfg w)" and "in_i64 q" and "q \<noteq> - (2 ^ 63)" and "faults w = []"
  shows "faults w1 = []"
proof -
  obtain g v where g: "GetTokenById k w = (g, v)" by fastforce
  have v: "faults v = []" "cfg v = cfg w"
    using g assms(5) GetTokenById_frame [OF g]
    by (auto simp: GetTokenById_def same_env_def dest: sql_first_faults_Nil split: if_splits)
  show ?thesis
  proof (cases g)
    case (Inl e)
    with assms(1) g v show ?thesis by (simp add: PostConsume_legs)
  next
    case (Inr t)
    obtain e v2 where u: "increaseUserQuota (Token_UserId t) (- q) v = (e, v2)" by fastforce
    have leg: "wallet_leg (Token_UserId t) q v = (e, v2)" using wallet_leg_increase assms v u by simp
    have v2: "faults v2 = []" using increaseUserQuota_faults_Nil [OF u v(1)] .
    obtain e' v3 where k: "increaseTokenQuota k (- q) v2 = (e', v3)" by fastforce
    have "token_leg_of k q v2 = (e', v3)"
      using token_leg_increase assms k increaseUserQuota_env [OF u] v(2) by simp
    with assms(1) g Inr leg v2 increaseTokenQuota_faults_Nil [OF k v2] show ?thesis
      by (auto simp: PostConsume_legs split: if_splits)
  qed
qed

text \<open>
  When no call fails and the new amounts fit their columns, settling \<open>q\<close> (a charge when
  positive, a refund when negative) outside batch mode succeeds, moves the owner's balance by
  exactly \<open>- q\<close>, moves a limited token by exactly \<open>- q\<close>, and no other balance.
\<close>

theorem PostConsume_exact:
  assumes "ledger_ok (db w)" and "\<not> BatchUpdateEnabled (cfg w)" and "faults w = []"
    and "k \<noteq> 0" and "find (\<lambda>t. Token_Id t = k) (db_tokens (db w)) = Some t"
    and "user_bal w (Token_UserId t) = Some b"
    and "in_i64 q" and "q \<noteq> - (2 ^ 63)" and "in_i64 (b - q)"
    and "in_i64 (Token_RemainQuota t - q)" and "in_i64 (Token_UsedQuota t + q)"
  shows "\<exists>w'. PostConsumeTokenQuota k q w = (None, w')
     \<and> user_bal w' = (user_bal w)(Token_UserId t \<mapsto> b - q)
     \<and> token_bal w' = (if Token_UnlimitedQuota t then token_bal w
                       else (token_bal w)(k \<mapsto> Token_RemainQuota t - q))"
  using assms by (rule settle_exact)

theorem PostConsume_exact_witness:
  "\<exists>w'. PostConsumeTokenQuota 7 (- 30) (world_of demo_db []) = (None, w')
     \<and> user_bal w' = (user_bal (world_of demo_db []))(Token_UserId (demo_token 7 1 50 False) \<mapsto> 100 - (- 30))
     \<and> token_bal w' = (if Token_UnlimitedQuota (demo_token 7 1 50 False) then token_bal (world_of demo_db [])
          else (token_bal (world_of demo_db []))(7 \<mapsto> Token_RemainQuota (demo_token 7 1 50 False) - (- 30)))"
proof (rule PostConsume_exact)
  show "ledger_ok (db (world_of demo_db []))" by code_simp
  show "\<not> BatchUpdateEnabled (cfg (world_of demo_db []))" by code_simp
  show "faults (world_of demo_db []) = []" by code_simp
  show "find (\<lambda>t. Token_Id t = 7) (db_tokens (db (world_of demo_db []))) = Some (demo_token 7 1 50 False)"
    by code_simp
  show "user_bal (world_of demo_db []) (Token_UserId (demo_token 7 1 50 False)) = Some 100" by code_simp
  show "in_i64 (- 30)" and "in_i64 (100 - (- 30))" by code_simp+
  show "in_i64 (Token_RemainQuota (demo_token 7 1 50 False) - (- 30))" by code_simp
  show "in_i64 (Token_UsedQuota (demo_token 7 1 50 False) + - 30)" by code_simp
qed simp_all

text \<open>
  A settlement whose wallet update fails still reports success when the token is unlimited,
  and reports only the outcome of the token update when it is limited; the owner's balance is
  unchanged either way. So a caller that refunds through it cannot tell that no money moved.
\<close>

theorem PostConsume_drops_wallet_error:
  assumes "\<not> BatchUpdateEnabled (cfg w)" and "in_i64 q" and "q \<noteq> - (2 ^ 63)"
    and "GetTokenById k w = (Inr t, w1)"
    and "increaseUserQuota (Token_UserId t) (- q) w1 = (Some e, w2)"
  shows "PostConsumeTokenQuota k q w =
           (if Token_UnlimitedQuota t then (None, w2) else increaseTokenQuota k (- q) w2)
     \<and> user_bal (snd (PostConsumeTokenQuota k q w)) = user_bal w"
proof -
  have fr: "db w1 = db w" "cfg w1 = cfg w"
    using GetTokenById_frame [OF assms(4)] by (auto simp: same_env_def)
  have leg: "wallet_leg (Token_UserId t) q w1 = (Some e, w2)"
    using wallet_leg_increase assms fr by simp
  have "cfg w2 = cfg w" using increaseUserQuota_env [OF assms(5)] fr by simp
  then have leg2: "token_leg_of k q w2 = increaseTokenQuota k (- q) w2"
    using token_leg_increase assms by simp
  have "db w2 = db w" using increaseUserQuota_Some [OF assms(5)] fr by simp
  then have "user_bal w2 = user_bal w" using bal_db_cong by blast
  moreover have "user_bal (snd (increaseTokenQuota k (- q) w2)) = user_bal w2"
    using increaseTokenQuota_user_bal [OF surjective_pairing] .
  ultimately show ?thesis using assms(4) leg leg2 by (simp add: PostConsume_legs)
qed

text \<open>The token lookup succeeds, the wallet update fails, the token update succeeds.\<close>

theorem PostConsume_drops_wallet_error_witness:
  "fst (PostConsumeTokenQuota 7 (- 30) (world_of demo_db [False, True])) = None
   \<and> user_bal (snd (PostConsumeTokenQuota 7 (- 30) (world_of demo_db [False, True]))) =
       user_bal (world_of demo_db [False, True])
   \<and> token_bal (snd (PostConsumeTokenQuota 7 (- 30) (world_of demo_db [False, True]))) 7 = Some 80"
proof -
  have *: "user_bal (snd (PostConsumeTokenQuota 7 (- 30) (world_of demo_db [False, True]))) =
      user_bal (world_of demo_db [False, True])"
  proof (rule PostConsume_drops_wallet_error [THEN conjunct2])
    show "\<not> BatchUpdateEnabled (cfg (world_of demo_db [False, True]))" by code_simp
    show "in_i64 (- 30)" by code_simp
    show "GetTokenById 7 (world_of demo_db [False, True]) = (Inr (demo_token 7 1 50 False), world_of demo_db [True])"
      by (simp add: GetTokenById_def sql_first_def io_fault_def world_of_def demo_db_def demo_token_def)
    show "increaseUserQuota (Token_UserId (demo_token 7 1 50 False)) (- (- 30)) (world_of demo_db [True]) =
        (Some ErrDB, world_of demo_db [])"
      by (simp add: increaseUserQuota_def sql_update_def io_fault_def world_of_def err_only_def)
  qed simp
  have "fst (PostConsumeTokenQuota 7 (- 30) (world_of demo_db [False, True])) = None" by code_simp
  moreover have "token_bal (snd (PostConsumeTokenQuota 7 (- 30) (world_of demo_db [False, True]))) 7 = Some 80"
    by code_simp
  ultimately show ?thesis using * by blast
qed

section \<open>The batch updater\<close>

definition flush_one :: "BatchUpdateType \<Rightarrow> int \<Rightarrow> int \<Rightarrow> World \<Rightarrow> World" where
  "flush_one ty key value w = (case ty of
       BatchUpdateTypeUserQuota \<Rightarrow> snd (increaseUserQuota key value w)
     | BatchUpdateTypeTokenQuota \<Rightarrow> snd (increaseTokenQuota key value w)
     | BatchUpdateTypeUsedQuota \<Rightarrow> updateUserUsedQuota key value w
     | BatchUpdateTypeRequestCount \<Rightarrow> updateUserRequestCount key value w
     | BatchUpdateTypeChannelUsedQuota \<Rightarrow> updateChannelUsedQuota key value w)"

text \<open>One type: the store is swapped for an empty one, then its entries are written.\<close>

definition flush_type :: "BatchUpdateType \<Rightarrow> World \<Rightarrow> World" where
  "flush_type ty w =
     (let store = batchUpdateStores w ty
      in fold (\<lambda>(key, value) v. flush_one ty key value v) store
           (w\<lparr>batchUpdateStores := (batchUpdateStores w)(ty := [])\<rparr>))"

definition batch_types :: "BatchUpdateType list" where
  "batch_types = [BatchUpdateTypeUserQuota, BatchUpdateTypeTokenQuota, BatchUpdateTypeUsedQuota,
     BatchUpdateTypeChannelUsedQuota, BatchUpdateTypeRequestCount]"

definition batchUpdate :: "World \<Rightarrow> World" where
  "batchUpdate w = fold flush_type batch_types w"

lemma map_of_add_delta:
  "map_of (add_delta k v m) j =
     (if j = k then Some (case map_of m k of None \<Rightarrow> v | Some d \<Rightarrow> i64 (d + v)) else map_of m j)"
  by (induction m) (auto split: option.splits)

lemma keys_add_delta: "fst ` set (add_delta k v m) = insert k (fst ` set m)"
  by (induction m) force+

lemma distinct_add_delta: "distinct (map fst m) \<Longrightarrow> distinct (map fst (add_delta k v m))"
proof (induction m)
  case (Cons p m)
  obtain i x where [simp]: "p = (i, x)" by (cases p)
  have "fst ` set (add_delta k v m) = insert k (fst ` set m)" by (rule keys_add_delta)
  with Cons show ?case by auto
qed simp

text \<open>The balance a user will have once the pending delta is written.\<close>

definition deferred_bal :: "World \<Rightarrow> int \<Rightarrow> int option" where
  "deferred_bal w uid = map_option (\<lambda>b. b + pending BatchUpdateTypeUserQuota w uid) (user_bal w uid)"

text \<open>
  Queueing a change and applying it at once have the same effect on the deferred balance.
\<close>

lemma pending_addNewRecord:
  assumes "in_i64 (pending ty w k + v)"
  shows "pending ty (addNewRecord ty k v w) j = pending ty w j + (if j = k then v else 0)"
  using assms
  by (auto simp: pending_def addNewRecord_def map_of_add_delta i64_id split: option.splits)

definition flush_users :: "(int \<times> int) list \<Rightarrow> World \<Rightarrow> World" where
  "flush_users store w = fold (\<lambda>(key, value) v. snd (increaseUserQuota key value v)) store w"

lemma flush_users_frame:
  "batchUpdateStores (flush_users m w) = batchUpdateStores w \<and> cfg (flush_users m w) = cfg w"
proof (induction m arbitrary: w)
  case (Cons p m)
  obtain k v where [simp]: "p = (k, v)" by (cases p)
  obtain r w1 where r: "increaseUserQuota k v w = (r, w1)" by fastforce
  have "same_env w w1" using r by (cases r) (auto dest!: increaseUserQuota_None increaseUserQuota_Some)
  with Cons [of w1] r show ?case by (simp add: flush_users_def same_env_def)
qed (simp add: flush_users_def)

lemma flush_users_bal:
  assumes "distinct (map fst m)" and "faults w = []" and "ledger_ok (db w)"
    and "\<And>k d b. (k, d) \<in> set m \<Longrightarrow> user_bal w k = Some b \<Longrightarrow> in_i64 (b + d)"
  shows "user_bal (flush_users m w) j =
           map_option (\<lambda>b. b + (case map_of m j of None \<Rightarrow> 0 | Some d \<Rightarrow> d)) (user_bal w j)"
  using assms
proof (induction m arbitrary: w)
  case Nil
  then show ?case by (simp add: flush_users_def option.map_ident)
next
  case (Cons p m)
  obtain k d where p [simp]: "p = (k, d)" by (cases p)
  obtain w1 where r: "increaseUserQuota k d w = (None, w1)" "faults w1 = []" "ledger_ok (db w1)"
    using increaseUserQuota_ok [OF Cons.prems(2,3), of k d] Cons.prems(4) by auto
  have bal: "user_bal w1 i = (if i = k then map_option (\<lambda>b. b + d) (user_bal w i) else user_bal w i)" for i
    using wallet.credit_ok [OF r(1)] .
  have notin: "k \<notin> fst ` set m" using Cons.prems(1) by simp
  have "user_bal (flush_users m w1) j =
      map_option (\<lambda>b. b + (case map_of m j of None \<Rightarrow> 0 | Some d \<Rightarrow> d)) (user_bal w1 j)"
  proof (rule Cons.IH)
    fix i e b assume ie: "(i, e) \<in> set m" and b: "user_bal w1 i = Some b"
    then have "i \<noteq> k" using notin by force
    with bal b have "user_bal w i = Some b" by simp
    with Cons.prems(4) [of i e b] ie show "in_i64 (b + e)" by simp
  qed (use Cons.prems(1) r in auto)
  moreover have "flush_users (p # m) w = flush_users m w1" by (simp add: flush_users_def r(1))
  moreover have "j = k \<Longrightarrow> map_of m j = None" using notin by (auto simp: map_of_eq_None_iff)
  ultimately show ?case using bal [of j] by (auto simp: option.map_comp comp_def)
qed

lemma flush_type_users:
  "flush_type BatchUpdateTypeUserQuota w =
     flush_users (batchUpdateStores w BatchUpdateTypeUserQuota)
       (w\<lparr>batchUpdateStores := (batchUpdateStores w)(BatchUpdateTypeUserQuota := [])\<rparr>)"
  by (simp add: flush_type_def flush_users_def flush_one_def Let_def)

text \<open>The other four types leave the balances and the emptied user store alone.\<close>

lemma users_update_bal:
  assumes "sql_update db_users db_users_update user_fits P f w = (r, w1)"
    and "\<And>u. User_Id (f u) = User_Id u \<and> User_Quota (f u) = User_Quota u"
  shows "user_bal w1 = user_bal w \<and> batchUpdateStores w1 = batchUpdateStores w"
proof -
  have "map_option User_Quota (find (\<lambda>u. User_Id u = j) (update_where P f us)) =
      map_option User_Quota (find (\<lambda>u. User_Id u = j) us)" for j us
    using assms(2) by (induction us) auto
  then show ?thesis
    using assms(1) by (cases r)
      (auto dest!: sql_update_Inl sql_update_Inr simp: user_bal_def fun_eq_iff same_env_def)
qed

lemma flush_one_other:
  assumes "ty \<noteq> BatchUpdateTypeUserQuota"
  shows "user_bal (flush_one ty k v w) = user_bal w
       \<and> batchUpdateStores (flush_one ty k v w) = batchUpdateStores w"
proof (cases ty)
  case BatchUpdateTypeTokenQuota
  obtain r w1 where r: "increaseTokenQuota k v w = (r, w1)" by fastforce
  then have "batchUpdateStores w1 = batchUpdateStores w"
    by (cases r) (auto dest!: increaseTokenQuota_None increaseTokenQuota_Some simp: same_env_def)
  with BatchUpdateTypeTokenQuota r increaseTokenQuota_user_bal [OF r] show ?thesis
    by (simp add: flush_one_def)
next
  case BatchUpdateTypeUsedQuota
  then show ?thesis
    using users_update_bal [OF surjective_pairing, where P = "\<lambda>u. User_Id u = k"
        and f = "\<lambda>u. u\<lparr>User_UsedQuota := User_UsedQuota u + v\<rparr>"]
    by (simp add: flush_one_def updateUserUsedQuota_def)
next
  case BatchUpdateTypeRequestCount
  then show ?thesis
    using users_update_bal [OF surjective_pairing, where P = "\<lambda>u. User_Id u = k"
        and f = "\<lambda>u. u\<lparr>User_RequestCount := User_RequestCount u + v\<rparr>"]
    by (simp add: flush_one_def updateUserRequestCount_def)
next
  case BatchUpdateTypeChannelUsedQuota
  obtain r w1 where r: "sql_update db_channels db_channels_update channel_fits (\<lambda>c. Channel_Id c = k)
      (\<lambda>c. c\<lparr>Channel_UsedQuota := Channel_UsedQuota c + v\<rparr>) w = (r, w1)" by fastforce
  then have "db_users (db w1) = db_users (db w) \<and> batchUpdateStores w1 = batchUpdateStores w"
    by (cases r) (auto dest!: sql_update_Inl sql_update_Inr simp: same_env_def)
  with r BatchUpdateTypeChannelUsedQuota user_bal_cong [of w1 w] show ?thesis
    by (simp add: flush_one_def updateChannelUsedQuota_def)
qed (use assms in simp)

lemma flush_type_other:
  assumes "ty \<noteq> BatchUpdateTypeUserQuota"
  shows "user_bal (flush_type ty w) = user_bal w
       \<and> batchUpdateStores (flush_type ty w) BatchUpdateTypeUserQuota =
           batchUpdateStores w BatchUpdateTypeUserQuota"
proof -
  have "user_bal (fold (\<lambda>(key, value) v. flush_one ty key value v) m v) = user_bal v
      \<and> batchUpdateStores (fold (\<lambda>(key, value) v. flush_one ty key value v) m v) = batchUpdateStores v"
    for m v
    using flush_one_other [OF assms] by (induction m arbitrary: v) auto
  moreover have "user_bal (w\<lparr>batchUpdateStores := (batchUpdateStores w)(ty := [])\<rparr>) = user_bal w"
    by (simp add: user_bal_def fun_eq_iff)
  ultimately show ?thesis using assms by (simp add: flush_type_def Let_def)
qed

lemma batchUpdate_user:
  "user_bal (batchUpdate w) = user_bal (flush_type BatchUpdateTypeUserQuota w)
   \<and> batchUpdateStores (batchUpdate w) BatchUpdateTypeUserQuota =
       batchUpdateStores (flush_type BatchUpdateTypeUserQuota w) BatchUpdateTypeUserQuota"
  by (simp add: batchUpdate_def batch_types_def flush_type_other)

text \<open>
  C8. A flush of the batch stores in which no call fails and the new balances fit their column
  turns every user's deferred balance (stored balance plus pending delta) into the stored
  balance, whatever the order in which Go visits the map, and leaves nothing pending.
\<close>

theorem batchUpdate_applies_pending:
  assumes "distinct (map fst (batchUpdateStores w BatchUpdateTypeUserQuota))"
    and "faults w = []" and "ledger_ok (db w)"
    and "\<And>k d b. (k, d) \<in> set (batchUpdateStores w BatchUpdateTypeUserQuota) \<Longrightarrow>
           user_bal w k = Some b \<Longrightarrow> in_i64 (b + d)"
  shows "user_bal (batchUpdate w) j = deferred_bal w j
       \<and> pending BatchUpdateTypeUserQuota (batchUpdate w) j = 0"
proof -
  let ?m = "batchUpdateStores w BatchUpdateTypeUserQuota"
  let ?w = "w\<lparr>batchUpdateStores := (batchUpdateStores w)(BatchUpdateTypeUserQuota := [])\<rparr>"
  have ub: "user_bal ?w = user_bal w" by (simp add: user_bal_def fun_eq_iff)
  have "user_bal (flush_users ?m ?w) j =
      map_option (\<lambda>b. b + (case map_of ?m j of None \<Rightarrow> 0 | Some d \<Rightarrow> d)) (user_bal ?w j)"
    by (rule flush_users_bal) (use assms ub in auto)
  moreover have "batchUpdateStores (flush_users ?m ?w) BatchUpdateTypeUserQuota = []"
    by (simp add: flush_users_frame)
  ultimately show ?thesis
    by (simp add: batchUpdate_user flush_type_users deferred_bal_def pending_def ub)
qed

definition demo_batch :: "bool list \<Rightarrow> World" where
  "demo_batch fs = addNewRecord BatchUpdateTypeUserQuota 2 15
     (addNewRecord BatchUpdateTypeUserQuota 1 (- 30)
       (addNewRecord BatchUpdateTypeUserQuota 2 5 (world_of demo_db fs)))"

theorem batchUpdate_applies_pending_witness:
  "user_bal (batchUpdate (demo_batch [])) 2 = deferred_bal (demo_batch []) 2
   \<and> pending BatchUpdateTypeUserQuota (batchUpdate (demo_batch [])) 2 = 0
   \<and> deferred_bal (demo_batch []) 2 = Some 60"
proof -
  have "user_bal (batchUpdate (demo_batch [])) 2 = deferred_bal (demo_batch []) 2
      \<and> pending BatchUpdateTypeUserQuota (batchUpdate (demo_batch [])) 2 = 0"
  proof (rule batchUpdate_applies_pending)
    have m: "batchUpdateStores (demo_batch []) BatchUpdateTypeUserQuota = [(2, 20), (1, - 30)]" by code_simp
    show "distinct (map fst (batchUpdateStores (demo_batch []) BatchUpdateTypeUserQuota))"
      by (simp add: m)
    show "faults (demo_batch []) = []" by code_simp
    show "ledger_ok (db (demo_batch []))" by code_simp
    have b: "user_bal (demo_batch []) 1 = Some 100" "user_bal (demo_batch []) 2 = Some 40" by code_simp+
    fix k d b
    assume "(k, d) \<in> set (batchUpdateStores (demo_batch []) BatchUpdateTypeUserQuota)"
      and "user_bal (demo_batch []) k = Some b"
    then show "in_i64 (b + d)" using m b by (auto simp: in_i64_def)
  qed
  moreover have "deferred_bal (demo_batch []) 2 = Some 60" by code_simp
  ultimately show ?thesis by blast
qed

text \<open>
  A flush whose write fails loses the delta: the store was already emptied, so the stored
  balance keeps its old value and nothing is pending any more.
\<close>

theorem batchUpdate_failed_write_loses_delta:
  assumes "batchUpdateStores w BatchUpdateTypeUserQuota = [(k, d)]" and "faults w = True # fs"
    and "user_bal w k = Some b"
  shows "user_bal (batchUpdate w) k = Some b \<and> deferred_bal w k = Some (b + d)
       \<and> pending BatchUpdateTypeUserQuota (batchUpdate w) k = 0"
proof -
  let ?w = "w\<lparr>batchUpdateStores := (batchUpdateStores w)(BatchUpdateTypeUserQuota := [])\<rparr>"
  have "increaseUserQuota k d ?w = (Some ErrDB, ?w\<lparr>faults := fs\<rparr>)"
    using assms(2) by (simp add: increaseUserQuota_def sql_update_def io_fault_def err_only_def)
  then have "flush_type BatchUpdateTypeUserQuota w = ?w\<lparr>faults := fs\<rparr>"
    using assms(1) by (simp add: flush_type_users flush_users_def)
  moreover have "user_bal (?w\<lparr>faults := fs\<rparr>) = user_bal w" by (simp add: user_bal_def fun_eq_iff)
  ultimately show ?thesis
    using assms by (simp add: batchUpdate_user deferred_bal_def pending_def)
qed

theorem batchUpdate_failed_write_loses_delta_witness:
  "let w = addNewRecord BatchUpdateTypeUserQuota 1 (- 30) (world_of demo_db [True])
   in user_bal (batchUpdate w) 1 = Some 100 \<and> deferred_bal w 1 = Some (100 + - 30)
      \<and> pending BatchUpdateTypeUserQuota (batchUpdate w) 1 = 0"
  unfolding Let_def
  by (rule batchUpdate_failed_write_loses_delta [where fs = "[]"])
     (simp_all add: addNewRecord_def world_of_def user_bal_def demo_db_def demo_user_def)

end
