(* ===== verification/TaskModel.thy ===== *)
theory TaskModel
  imports Settle
begin

text \<open>
  Asynchronous relay tasks: the row and its guarded updates (\<open>model/task.go\<close>), and the billing of
  a task (\<open>relay/task/billing.go\<close>): the quota charged at submission, the refund of a failed task
  and the settlement of a successful one.
\<close>

section \<open>The task row\<close>

definition IsTerminal :: "TaskStatus \<Rightarrow> bool" where
  "IsTerminal s \<longleftrightarrow> s = TaskStatusSuccess \<or> s = TaskStatusFailure"

definition zero_private :: TaskPrivateData where
  "zero_private = \<lparr>PD_UpstreamTaskId = [], PD_Billing = \<lparr>TB_TokenId = 0, TB_TokenName = [],
     TB_ModelName = [], TB_ModelRatio = Fin 0, TB_GroupRatio = Fin 0, TB_OtherRatios = []\<rparr>\<rparr>"

definition GetPrivateData :: "Task \<Rightarrow> GoErr + TaskPrivateData" where
  "GetPrivateData task = (case Task_PrivateData task of
       PrivateBlank \<Rightarrow> Inr zero_private
     | PrivateJSON pd \<Rightarrow> Inr pd
     | PrivateBad \<Rightarrow> Inl ErrJSON)"

text \<open>\<open>json.Marshal\<close> rejects infinities and NaN.\<close>

definition finite_float :: "float64 \<Rightarrow> bool" where
  "finite_float f \<longleftrightarrow> (case f of Fin x \<Rightarrow> True | _ \<Rightarrow> False)"

definition SetPrivateData :: "TaskPrivateData \<Rightarrow> Task \<Rightarrow> GoErr + Task" where
  "SetPrivateData pd task =
     (if finite_float (TB_ModelRatio (PD_Billing pd)) \<and> finite_float (TB_GroupRatio (PD_Billing pd))
         \<and> list_all (\<lambda>(k, v). finite_float v) (TB_OtherRatios (PD_Billing pd))
      then Inr (task\<lparr>Task_PrivateData := PrivateJSON pd\<rparr>) else Inl ErrJSON)"

lemma Get_Set_PrivateData: "SetPrivateData pd task = Inr task' \<Longrightarrow> GetPrivateData task' = Inr pd"
  by (auto simp: GetPrivateData_def SetPrivateData_def split: if_splits)

definition NormalizeJSONColumn :: "string \<Rightarrow> string" where
  "NormalizeJSONColumn s = (if trim_space s = [] then ''{}'' else s)"

text \<open>The same on the private column: \<open>{}\<close> decodes to the zero value.\<close>

definition NormalizePrivate :: "PrivateCol \<Rightarrow> PrivateCol" where
  "NormalizePrivate c = (if c = PrivateBlank then PrivateJSON zero_private else c)"

definition InsertTask :: "Task \<Rightarrow> World \<Rightarrow> GoErr option \<times> World" where
  "InsertTask task w =
     (let t1 = task\<lparr>Task_Properties := NormalizeJSONColumn (Task_Properties task),
                    Task_PrivateData := NormalizePrivate (Task_PrivateData task),
                    Task_Data := NormalizeJSONColumn (Task_Data task), Task_CreatedAt := clock w\<rparr>;
          t2 = (if Task_Id t1 = 0 then t1\<lparr>Task_Id := next_id Task_Id (db_tasks (db w))\<rparr> else t1)
      in err_only (sql_insert db_tasks db_tasks_update
           (\<lambda>x. Task_Id x = Task_Id t2 \<or> Task_TaskId x = Task_TaskId t2) t2 w))"

definition GetTaskByTaskId :: "string \<Rightarrow> World \<Rightarrow> (GoErr + Task) \<times> World" where
  "GetTaskByTaskId taskId w =
     (if taskId = [] then (Inl (Err ''task_id is empty''), w)
      else sql_first db_tasks (\<lambda>t. Task_TaskId t = taskId) w)"

text \<open>
  The compare-and-set on the status column. \<open>updates\<close>, a map of columns in the source, is the
  function that writes those columns.
\<close>

definition UpdateTaskStatus ::
  "int \<Rightarrow> TaskStatus \<Rightarrow> (Task \<Rightarrow> Task) \<Rightarrow> World \<Rightarrow> (GoErr + bool) \<times> World" where
  "UpdateTaskStatus tid fromStatus updates w =
     (case sql_update db_tasks db_tasks_update (\<lambda>_. True)
             (\<lambda>t. Task_Id t = tid \<and> Task_Status t = fromStatus) updates w of
        (Inl e, w1) \<Rightarrow> (Inl e, w1)
      | (Inr n, w1) \<Rightarrow> (Inr (0 < n), w1))"

definition UpdateTaskNonTerminal :: "int \<Rightarrow> (Task \<Rightarrow> Task) \<Rightarrow> World \<Rightarrow> GoErr option \<times> World" where
  "UpdateTaskNonTerminal tid updates w =
     err_only (sql_update db_tasks db_tasks_update (\<lambda>_. True)
       (\<lambda>t. Task_Id t = tid \<and> \<not> IsTerminal (Task_Status t)) updates w)"

definition task_fits :: "Task \<Rightarrow> bool" where
  "task_fits t \<longleftrightarrow> in_i64 (Task_Quota t)"

definition UpdateTaskQuota :: "int \<Rightarrow> int \<Rightarrow> World \<Rightarrow> GoErr option \<times> World" where
  "UpdateTaskQuota tid quota w =
     err_only (sql_update db_tasks db_tasks_update task_fits (\<lambda>t. Task_Id t = tid)
       (\<lambda>t. t\<lparr>Task_Quota := quota\<rparr>) w)"

definition ListUnfinishedTasks :: "int \<Rightarrow> World \<Rightarrow> (GoErr + Task list) \<times> World" where
  "ListUnfinishedTasks limit w = sql_list_asc db_tasks (\<lambda>t. \<not> IsTerminal (Task_Status t)) limit w"

definition ListTimeoutTasks :: "int \<Rightarrow> int \<Rightarrow> World \<Rightarrow> (GoErr + Task list) \<times> World" where
  "ListTimeoutTasks limit submittedBefore w =
     sql_list_asc db_tasks (\<lambda>t. \<not> IsTerminal (Task_Status t) \<and> Task_SubmitTime t < submittedBefore) limit w"

section \<open>Billing\<close>

text \<open>\<open>relay/task/adaptor.go\<close>: what one upstream query reports.\<close>

record TaskInfo =
  TI_TaskId :: string
  TI_Status :: TaskStatus
  TI_Reason :: string
  TI_Url :: string
  TI_Progress :: int
  TI_TotalTokens :: int

definition quotaScale :: int where "quotaScale = 1000"

definition ComputeQuota :: "TaskBillingContext \<Rightarrow> int" where
  "ComputeQuota bc =
     f2i (fmul (fold (\<lambda>(k, v) r. fmul r v) (TB_OtherRatios bc)
                  (fmul (TB_ModelRatio bc) (TB_GroupRatio bc)))
               (fl_int quotaScale))"

text \<open>The refund log entry and the cache update that follow a refund.\<close>

definition task_log :: "Task \<Rightarrow> TaskBillingContext \<Rightarrow> int \<Rightarrow> string \<Rightarrow> Log" where
  "task_log task bc quota reason = \<lparr>Log_UserId = Task_UserId task, Log_Username = [], Log_CreatedAt = 0,
     Log_Type = 0, Log_Content = LogTask (Task_TaskId task) reason, Log_ModelName = TB_ModelName bc,
     Log_TokenName = TB_TokenName bc, Log_Quota = quota, Log_PromptTokens = 0,
     Log_CompletionTokens = 0, Log_ChannelId = Task_ChannelId task, Log_IsStream = False,
     Log_SystemPromptReset = False\<rparr>"

definition RefundTask :: "Task \<Rightarrow> string \<Rightarrow> World \<Rightarrow> World" where
  "RefundTask task reason w =
     (if Task_Quota task \<le> 0 then w
      else
        let pd = (case GetPrivateData task of Inl e \<Rightarrow> zero_private | Inr pd \<Rightarrow> pd);
            finish = (\<lambda>v. RecordRefundLog (task_log task (PD_Billing pd) (Task_Quota task) reason)
                        (snd (CacheUpdateUserQuota (Task_UserId task) v)))
        in case PostConsumeTokenQuota (TB_TokenId (PD_Billing pd)) (i64 (- Task_Quota task)) w of
             (None, w1) \<Rightarrow> finish w1
           | (Some e, w1) \<Rightarrow>
               if e \<noteq> ErrRecordNotFound then w1
               else (case IncreaseUserQuota (Task_UserId task) (Task_Quota task) w1 of
                   (Some _, w2) \<Rightarrow> w2
                 | (None, w2) \<Rightarrow> finish w2))"

text \<open>\<open>adjust\<close> is the adaptor's \<open>AdjustBillingOnComplete\<close>; \<open>None\<close> is its \<open>(0, false)\<close>.\<close>

definition final_quota ::
  "(Task \<Rightarrow> TaskInfo \<Rightarrow> int option) \<Rightarrow> TaskBillingContext \<Rightarrow> Task \<Rightarrow> TaskInfo \<Rightarrow> int" where
  "final_quota adjust bc task info = (case adjust task info of
       Some quota \<Rightarrow> quota
     | None \<Rightarrow>
         if 0 < TI_TotalTokens info
         then f2i (fmul (fmul (fl_int (TI_TotalTokens info)) (TB_ModelRatio bc)) (TB_GroupRatio bc))
         else Task_Quota task)"

definition SettleSuccess ::
  "(Task \<Rightarrow> TaskInfo \<Rightarrow> int option) \<Rightarrow> Task \<Rightarrow> TaskInfo \<Rightarrow> World \<Rightarrow> World" where
  "SettleSuccess adjust task info w = (case GetPrivateData task of
       Inl e \<Rightarrow> w
     | Inr pd \<Rightarrow>
         let bc = PD_Billing pd;
             finalQuota = final_quota adjust bc task info;
             delta = i64 (finalQuota - Task_Quota task)
         in if delta = 0 then w
            else case PostConsumeTokenQuota (TB_TokenId bc) delta w of
              (Some e, w1) \<Rightarrow> w1
            | (None, w1) \<Rightarrow>
                let w2 = snd (CacheUpdateUserQuota (Task_UserId task) w1);
                    w3 = (if 0 < delta
                          then UpdateChannelUsedQuota (Task_ChannelId task) delta
                                 (RecordConsumeLog (task_log task bc delta ''settlement charge'') w2)
                          else RecordRefundLog (task_log task bc (i64 (- delta)) ''settlement refund'') w2)
                in snd (UpdateTaskQuota (Task_Id task) finalQuota w3))"

section \<open>What the guarded updates do\<close>

definition task_row :: "World \<Rightarrow> int \<Rightarrow> Task option" where
  "task_row w tid = find (\<lambda>t. Task_Id t = tid) (db_tasks (db w))"

definition tasks_ok :: "World \<Rightarrow> bool" where
  "tasks_ok w \<longleftrightarrow> distinct (map Task_Id (db_tasks (db w)))"

lemma task_same_db: "db w1 = db w \<Longrightarrow> task_row w1 = task_row w \<and> tasks_ok w1 = tasks_ok w"
  by (simp add: task_row_def tasks_ok_def fun_eq_iff)

lemma same_tasks: "db_tasks (db w1) = db_tasks (db w) \<Longrightarrow> task_row w1 = task_row w \<and> tasks_ok w1 = tasks_ok w"
  by (simp add: task_row_def tasks_ok_def fun_eq_iff)

lemma UpdateTaskStatus_won:
  assumes "UpdateTaskStatus tid s f w = (Inr True, w1)" and "tasks_ok w" and "\<And>t. Task_Id (f t) = Task_Id t"
  shows "\<exists>t. task_row w tid = Some t \<and> Task_Status t = s
     \<and> task_row w1 = (task_row w)(tid \<mapsto> f t) \<and> tasks_ok w1 \<and> db_users (db w1) = db_users (db w)
     \<and> db_tokens (db w1) = db_tokens (db w) \<and> same_env w w1"
proof -
  let ?P = "\<lambda>t. Task_Id t = tid \<and> Task_Status t = s"
  from assms(1) obtain n where u: "sql_update db_tasks db_tasks_update (\<lambda>_. True) ?P f w = (Inr n, w1)"
    and n: "0 < n" by (auto simp: UpdateTaskStatus_def split: prod.splits sum.splits)
  note eff = sql_update_Inr [OF u]
  have "count_where ?P (db_tasks (db w)) = n" using eff by simp
  then obtain t where t: "task_row w tid = Some t" "Task_Status t = s"
    using n count_guarded [of Task_Id "db_tasks (db w)" tid "\<lambda>t. Task_Status t = s"] assms(2)
    by (auto simp: task_row_def tasks_ok_def split: option.splits if_splits)
  have "task_row w1 j = ((task_row w)(tid \<mapsto> f t)) j" for j
    using eff t find_guarded_update [of Task_Id f j tid "\<lambda>t. Task_Status t = s" "db_tasks (db w)"] assms(3)
    by (auto simp: task_row_def split: option.splits)
  moreover have "tasks_ok w1"
    using eff assms(2,3) by (simp add: tasks_ok_def distinct_keys_update)
  ultimately show ?thesis using t eff by auto
qed

lemma UpdateTaskStatus_lost:
  assumes "UpdateTaskStatus tid s f w = (r, w1)" and "r \<noteq> Inr True"
  shows "db w1 = db w \<and> same_env w w1"
proof -
  let ?P = "\<lambda>t. Task_Id t = tid \<and> Task_Status t = s"
  obtain x where u: "sql_update db_tasks db_tasks_update (\<lambda>_. True) ?P f w = (x, w1)"
    and x: "x = Inr n \<Longrightarrow> n = 0" for n
    using assms by (auto simp: UpdateTaskStatus_def split: prod.splits sum.splits)
  show ?thesis
  proof (cases x)
    case (Inl e)
    with u sql_update_Inl show ?thesis by blast
  next
    case (Inr n)
    with x have "n = 0" by simp
    note eff = sql_update_Inr [OF u [unfolded Inr]]
    then have *: "count_where ?P (db_tasks (db w)) = 0" using \<open>n = 0\<close> by simp
    have d: "db w1 = db_tasks_update (update_where ?P f) (db w)" "same_env w w1" using eff by auto
    from * have "update_where ?P f (db_tasks (db w)) = db_tasks (db w)"
      by (intro update_where_none) (simp add: count_where_0_iff)
    with d show ?thesis by simp
  qed
qed

section \<open>Nothing fails from here on\<close>

text \<open>A world with no pending fault keeps it that way: its calls consume faults, they add none.\<close>

lemma quiet_io: "io_fault w = (b, w1) \<Longrightarrow> faults w = [] \<Longrightarrow> faults w1 = []"
  by (rule io_fault_faults_Nil)

lemma quiet_find_col: "sql_find_col get P c z w = (r, w1) \<Longrightarrow> faults w = [] \<Longrightarrow> faults w1 = []"
  by (auto simp: sql_find_col_def)

lemma quiet_redis:
  "RedisGet k w = (r, w1) \<Longrightarrow> faults w = [] \<Longrightarrow> faults w1 = []"
  "RedisSet k v w = (r', w1) \<Longrightarrow> faults w = [] \<Longrightarrow> faults w1 = []"
  by (auto simp: RedisGet_def RedisSet_def split: option.splits)

lemma quiet_fetch: "fetchAndUpdateUserQuota u w = (r, w1) \<Longrightarrow> faults w = [] \<Longrightarrow> faults w1 = []"
  by (auto simp: fetchAndUpdateUserQuota_def GetUserQuota_def dest: quiet_find_col quiet_redis
      split: prod.splits sum.splits)

lemma quiet_cache_get: "CacheGetUserQuota u w = (r, w1) \<Longrightarrow> faults w = [] \<Longrightarrow> faults w1 = []"
  by (auto simp: CacheGetUserQuota_def GetUserQuota_def dest: quiet_find_col quiet_redis quiet_fetch
      split: prod.splits sum.splits option.splits if_splits)

lemma quiet_cache_update: "faults w = [] \<Longrightarrow> faults (snd (CacheUpdateUserQuota u w)) = []"
  by (auto simp: CacheUpdateUserQuota_def err_only_def dest: quiet_cache_get quiet_redis
      split: prod.splits sum.splits)

lemma quiet_username: "GetUsernameById u w = (n, w1) \<Longrightarrow> faults w = [] \<Longrightarrow> faults w1 = []"
  by (auto simp: GetUsernameById_def dest: quiet_find_col split: prod.splits sum.splits)

lemma quiet_log_helper: "faults w = [] \<Longrightarrow> faults (recordLogHelper l w) = []"
  by (simp add: recordLogHelper_def)

lemma quiet_logs:
  assumes "faults w = []"
  shows "faults (RecordConsumeLog l w) = []" and "faults (RecordRefundLog l w) = []"
  using assms
  by (auto simp: RecordConsumeLog_def RecordRefundLog_def dest: quiet_username
      intro!: quiet_log_helper split: prod.splits)

lemma quiet_channel: "faults w = [] \<Longrightarrow> faults (UpdateChannelUsedQuota c q w) = []"
  using sql_update_faults_Nil [OF surjective_pairing, of w db_channels db_channels_update channel_fits
      "\<lambda>ca. Channel_Id ca = c" "\<lambda>ca. ca\<lparr>Channel_UsedQuota := Channel_UsedQuota ca + q\<rparr>"]
  by (simp add: UpdateChannelUsedQuota_def updateChannelUsedQuota_def addNewRecord_def)

lemma cache_update_db [simp]:
  "db (snd (CacheUpdateUserQuota u w)) = db w" "same_env w (snd (CacheUpdateUserQuota u w))"
  using CacheUpdateUserQuota_frame [OF surjective_pairing] by auto

lemma channel_quota_frame:
  "db_users (db (UpdateChannelUsedQuota c q w)) = db_users (db w)
   \<and> db_tokens (db (UpdateChannelUsedQuota c q w)) = db_tokens (db w)
   \<and> db_tasks (db (UpdateChannelUsedQuota c q w)) = db_tasks (db w)"
proof -
  obtain r v where "sql_update db_channels db_channels_update channel_fits (\<lambda>x. Channel_Id x = c)
      (\<lambda>x. x\<lparr>Channel_UsedQuota := Channel_UsedQuota x + q\<rparr>) w = (r, v)" by fastforce
  then show ?thesis
    by (cases r) (auto dest: sql_update_Inl sql_update_Inr
        simp: UpdateChannelUsedQuota_def updateChannelUsedQuota_def addNewRecord_def)
qed

section \<open>Refunds\<close>

definition private_or_zero :: "Task \<Rightarrow> TaskPrivateData" where
  "private_or_zero task = (case GetPrivateData task of Inl e \<Rightarrow> zero_private | Inr pd \<Rightarrow> pd)"

definition refund_token :: "Task \<Rightarrow> int" where
  "refund_token task = TB_TokenId (PD_Billing (private_or_zero task))"

lemma RefundTask_effect:
  assumes "\<not> BatchUpdateEnabled (cfg w)" and "in_i64 (Task_Quota task)"
  shows "db_tasks (db (RefundTask task reason w)) = db_tasks (db w)
     \<and> same_env w (RefundTask task reason w)
     \<and> (user_bal (RefundTask task reason w) = user_bal w
       \<or> (0 < Task_Quota task
          \<and> (\<exists>u. user_bal (RefundTask task reason w) = moved u (Task_Quota task) (user_bal w)
             \<and> (u = Task_UserId task \<or> (\<exists>t. find (\<lambda>t. Token_Id t = refund_token task) (db_tokens (db w)) = Some t
                  \<and> u = Token_UserId t)))))"
proof (cases "Task_Quota task \<le> 0")
  case True
  then show ?thesis by (simp add: RefundTask_def)
next
  case False
  let ?q = "Task_Quota task"
  define pd where "pd = private_or_zero task"
  have pd: "(case GetPrivateData task of Inl e \<Rightarrow> zero_private | Inr pd \<Rightarrow> pd) = pd"
    by (simp add: pd_def private_or_zero_def)
  have q: "in_i64 (- ?q)" "- ?q \<noteq> - (2 ^ 63)" using assms(2) False by (auto simp: in_i64_def)
  obtain r w1 where p: "PostConsumeTokenQuota (TB_TokenId (PD_Billing pd)) (- ?q) w = (r, w1)" by fastforce
  note eff = PostConsume_effect [OF p assms(1) q]
  define finish where "finish v = RecordRefundLog (task_log task (PD_Billing pd) ?q reason)
      (snd (CacheUpdateUserQuota (Task_UserId task) v))" for v
  have fin: "db (finish v) = db v" "same_env v (finish v)" for v
    by (auto simp: finish_def go_simps intro: same_env_trans [OF cache_update_db(2) RecordRefundLog_frame(3)])
  have run: "RefundTask task reason w = (case r of None \<Rightarrow> finish w1
      | Some e \<Rightarrow> if e \<noteq> ErrRecordNotFound then w1
          else (case IncreaseUserQuota (Task_UserId task) ?q w1 of
              (Some _, w2) \<Rightarrow> w2 | (None, w2) \<Rightarrow> finish w2))"
    using False p q(1)
    by (simp add: RefundTask_def pd Let_def i64_id finish_def split: option.splits prod.splits)
  have settled: ?thesis if "db (RefundTask task reason w) = db w1" "same_env w1 (RefundTask task reason w)"
    using eff that False bal_db_cong [OF that(1)]
    by (auto simp: refund_token_def pd_def intro: same_env_trans)
  show ?thesis
  proof (cases r)
    case None
    with run fin settled show ?thesis by simp
  next
    case (Some e)
    show ?thesis
    proof (cases "e = ErrRecordNotFound")
      case False
      with run Some settled show ?thesis by simp
    next
      case True
      then have d1: "db w1 = db w" using eff Some by simp
      have inc: "IncreaseUserQuota (Task_UserId task) ?q w1 = increaseUserQuota (Task_UserId task) ?q w1"
        using False assms(1) eff by (simp add: IncreaseUserQuota_def same_env_def)
      obtain r2 w2 where u: "increaseUserQuota (Task_UserId task) ?q w1 = (r2, w2)" by fastforce
      note ue = increaseUserQuota_effect [OF u]
      have "db (RefundTask task reason w) = db w2 \<and> same_env w2 (RefundTask task reason w)"
        using run Some True inc u fin by (simp split: option.splits)
      with ue eff d1 bal_db_cong [OF d1] bal_db_cong [of "RefundTask task reason w" w2] False
      show ?thesis by (auto intro: same_env_trans)
    qed
  qed
qed

lemma moved_upd: "bal u = Some b \<Longrightarrow> moved u d bal = bal(u \<mapsto> b + d)"
  by (auto simp: moved_def fun_eq_iff)

text \<open>
  A refund credits at most one account, once, and only the task's user or the owner of the
  token the task was billed to, whatever calls fail on the way; it never touches a task row.
\<close>

theorem refund_at_most_once:
  assumes "\<not> BatchUpdateEnabled (cfg w)" and "in_i64 (Task_Quota task)"
  shows "db_tasks (db (RefundTask task reason w)) = db_tasks (db w)
     \<and> (user_bal (RefundTask task reason w) = user_bal w
       \<or> (\<exists>u. user_bal (RefundTask task reason w) = moved u (Task_Quota task) (user_bal w)
            \<and> (u = Task_UserId task \<or> (\<exists>t. find (\<lambda>t. Token_Id t = refund_token task) (db_tokens (db w)) = Some t
                 \<and> u = Token_UserId t))))"
  using RefundTask_effect [OF assms] by blast

definition demo_task :: "int \<Rightarrow> PrivateCol \<Rightarrow> Task" where
  "demo_task k priv = \<lparr>Task_Id = k, Task_TaskId = ''task_a'', Task_Platform = ''seedance'', Task_UserId = 1,
     Task_Group = ''default'', Task_ChannelId = 5, Task_Quota = 30, Task_Action = ''generate'',
     Task_Status = TaskStatusQueued, Task_FailReason = [], Task_SubmitTime = 1750000000,
     Task_StartTime = 0, Task_FinishTime = 0, Task_Progress = 0, Task_ResultUrl = [],
     Task_Properties = ''{}'', Task_PrivateData = priv, Task_Data = ''{}'', Task_CreatedAt = 1750000000\<rparr>"

definition demo_private :: "int \<Rightarrow> TaskPrivateData" where
  "demo_private tok = \<lparr>PD_UpstreamTaskId = ''cgt-1'', PD_Billing = \<lparr>TB_TokenId = tok, TB_TokenName = ''tok'',
     TB_ModelName = ''video'', TB_ModelRatio = Fin 2, TB_GroupRatio = Fin 1,
     TB_OtherRatios = [(''seconds'', Fin 5)]\<rparr>\<rparr>"

text \<open>The wallet is credited, then the token update fails: the refund stops there.\<close>

theorem refund_at_most_once_witness:
  "db_tasks (db (RefundTask (demo_task 1 (PrivateJSON (demo_private 7))) ''x'' (world_of demo_db [False, False, True]))) = []
   \<and> (user_bal (RefundTask (demo_task 1 (PrivateJSON (demo_private 7))) ''x'' (world_of demo_db [False, False, True])) =
        user_bal (world_of demo_db [False, False, True])
      \<or> (\<exists>u. user_bal (RefundTask (demo_task 1 (PrivateJSON (demo_private 7))) ''x'' (world_of demo_db [False, False, True])) =
            moved u 30 (user_bal (world_of demo_db [False, False, True]))
          \<and> (u = 1 \<or> (\<exists>t. find (\<lambda>t. Token_Id t = 7) (db_tokens (db (world_of demo_db [False, False, True]))) = Some t
               \<and> u = Token_UserId t))))
   \<and> user_bal (RefundTask (demo_task 1 (PrivateJSON (demo_private 7))) ''x'' (world_of demo_db [False, False, True])) 1 = Some 130"
proof -
  have cfg: "\<not> BatchUpdateEnabled (cfg (world_of demo_db [False, False, True]))" by code_simp
  have q: "in_i64 (Task_Quota (demo_task 1 (PrivateJSON (demo_private 7))))" by code_simp
  have "user_bal (RefundTask (demo_task 1 (PrivateJSON (demo_private 7))) ''x'' (world_of demo_db [False, False, True])) 1 = Some 130"
    by code_simp
  moreover have "refund_token (demo_task 1 (PrivateJSON (demo_private 7))) = 7"
    by (simp add: refund_token_def private_or_zero_def GetPrivateData_def demo_task_def demo_private_def)
  moreover have "db_tasks (db (world_of demo_db [False, False, True])) = []"
    by (simp add: world_of_def demo_db_def empty_db_def)
  ultimately show ?thesis
    using refund_at_most_once [OF cfg q, of "''x''"] by (simp add: demo_task_def)
qed

text \<open>
  When no call fails, a refund lands: the task's user ends with exactly the task's quota
  more, through the token it was billed to, or directly when that token has been deleted.
\<close>

theorem refund_lands:
  assumes "\<not> BatchUpdateEnabled (cfg w)" and "faults w = []" and "ledger_ok (db w)"
    and "GetPrivateData task = Inr pd" and "TB_TokenId (PD_Billing pd) \<noteq> 0"
    and "0 < Task_Quota task" and "in_i64 (Task_Quota task)"
    and "user_bal w (Task_UserId task) = Some b" and "in_i64 (b + Task_Quota task)"
    and "\<And>t. find (\<lambda>t. Token_Id t = TB_TokenId (PD_Billing pd)) (db_tokens (db w)) = Some t \<Longrightarrow>
           Token_UserId t = Task_UserId task \<and> in_i64 (Token_RemainQuota t + Task_Quota task)
           \<and> in_i64 (Token_UsedQuota t - Task_Quota task)"
  shows "user_bal (RefundTask task reason w) = (user_bal w)(Task_UserId task \<mapsto> b + Task_Quota task)"
proof -
  let ?q = "Task_Quota task" and ?k = "TB_TokenId (PD_Billing pd)"
  have q: "in_i64 (- ?q)" "- ?q \<noteq> - (2 ^ 63)" using assms(6,7) by (auto simp: in_i64_def)
  have after: "user_bal (RecordRefundLog l (snd (CacheUpdateUserQuota u v))) = user_bal v" for l u v
    using bal_db_cong [of "RecordRefundLog l (snd (CacheUpdateUserQuota u v))" v] by (simp add: go_simps)
  show ?thesis
  proof (cases "find (\<lambda>t. Token_Id t = ?k) (db_tokens (db w))")
    case (Some t)
    have "\<exists>w'. PostConsumeTokenQuota ?k (- ?q) w = (None, w')
        \<and> user_bal w' = (user_bal w)(Token_UserId t \<mapsto> b - (- ?q))
        \<and> token_bal w' = (if Token_UnlimitedQuota t then token_bal w
                         else (token_bal w)(?k \<mapsto> Token_RemainQuota t - (- ?q)))"
      by (rule settle_exact) (use assms q Some in auto)
    with assms(4,6,10) Some q after show ?thesis by (auto simp: RefundTask_def Let_def i64_id)
  next
    case None
    then have "GetTokenById ?k w = (Inl ErrRecordNotFound, w)"
      using assms(2,5) by (simp add: GetTokenById_def sql_first_def)
    then have p: "PostConsumeTokenQuota ?k (- ?q) w = (Some ErrRecordNotFound, w)"
      by (simp add: PostConsume_legs)
    obtain w1 where w1: "increaseUserQuota (Task_UserId task) ?q w = (None, w1)"
      using increaseUserQuota_ok [OF assms(2,3), of "Task_UserId task" ?q] assms(8,9) by auto
    then have "user_bal w1 = (user_bal w)(Task_UserId task \<mapsto> b + ?q)"
      using wallet.credit_ok [OF w1] assms(8) by (auto simp: fun_eq_iff)
    with assms(1,4,6) p w1 q after show ?thesis
      by (simp add: RefundTask_def Let_def i64_id IncreaseUserQuota_def)
  qed
qed

text \<open>The token (number 9) no longer exists.\<close>

theorem refund_lands_witness:
  "user_bal (RefundTask (demo_task 1 (PrivateJSON (demo_private 9))) ''x'' (world_of demo_db [])) =
     (user_bal (world_of demo_db []))(1 \<mapsto> 100 + 30)"
proof -
  let ?t = "demo_task 1 (PrivateJSON (demo_private 9))"
  have f: "Task_UserId ?t = 1" "Task_Quota ?t = 30" by (simp_all add: demo_task_def)
  have "user_bal (RefundTask ?t ''x'' (world_of demo_db [])) =
      (user_bal (world_of demo_db []))(Task_UserId ?t \<mapsto> 100 + Task_Quota ?t)"
  proof (rule refund_lands)
    show "\<not> BatchUpdateEnabled (cfg (world_of demo_db []))" by code_simp
    show "ledger_ok (db (world_of demo_db []))" by code_simp
    show "GetPrivateData ?t = Inr (demo_private 9)" by (simp add: GetPrivateData_def demo_task_def)
    show "user_bal (world_of demo_db []) (Task_UserId ?t) = Some 100" by code_simp
    show "in_i64 (Task_Quota ?t)" and "in_i64 (100 + Task_Quota ?t)" by code_simp+
    fix t
    have "find (\<lambda>t. Token_Id t = TB_TokenId (PD_Billing (demo_private 9))) (db_tokens (db (world_of demo_db []))) = None"
      by code_simp
    then show "find (\<lambda>t. Token_Id t = TB_TokenId (PD_Billing (demo_private 9))) (db_tokens (db (world_of demo_db []))) = Some t \<Longrightarrow>
        Token_UserId t = Task_UserId ?t \<and> in_i64 (Token_RemainQuota t + Task_Quota ?t)
        \<and> in_i64 (Token_UsedQuota t - Task_Quota ?t)" by simp
  qed (simp_all add: demo_private_def demo_task_def world_of_def)
  with f show ?thesis by simp
qed

text \<open>
  A task whose private data cannot be decoded is never refunded: the fallback to a zero
  token id ends in an error that is taken for an ambiguous failure, so the branch that would
  pay the user directly is not reached, and the charge stays.
\<close>

theorem refund_bad_private_data:
  assumes "Task_PrivateData task = PrivateBad"
  shows "db (RefundTask task reason w) = db w"
proof -
  have "PostConsumeTokenQuota 0 q w = (Some (Err ''id is empty''), w)" for q
    by (simp add: PostConsume_legs GetTokenById_def)
  with assms show ?thesis
    by (simp add: RefundTask_def GetPrivateData_def zero_private_def)
qed

theorem refund_bad_private_data_witness:
  "db (RefundTask (demo_task 1 PrivateBad) ''x'' (world_of demo_db [])) = db (world_of demo_db [])
   \<and> Task_Quota (demo_task 1 PrivateBad) = 30"
  using refund_bad_private_data [of "demo_task 1 PrivateBad" "''x''" "world_of demo_db []"]
  by (simp add: demo_task_def)

section \<open>Settlement of a finished task\<close>

lemma settle_success_run:
  assumes pd: "GetPrivateData task = Inr pd"
    and "delta = i64 (final_quota adjust (PD_Billing pd) task info - Task_Quota task)" and "delta \<noteq> 0"
    and "PostConsumeTokenQuota (TB_TokenId (PD_Billing pd)) delta w = (None, w1)" and "faults w1 = []"
  shows "\<exists>v. db_users (db v) = db_users (db w1) \<and> db_tokens (db v) = db_tokens (db w1)
     \<and> db_tasks (db v) = db_tasks (db w1) \<and> faults v = []
     \<and> SettleSuccess adjust task info w =
         snd (UpdateTaskQuota (Task_Id task) (final_quota adjust (PD_Billing pd) task info) v)"
proof -
  let ?bc = "PD_Billing pd" and ?w2 = "snd (CacheUpdateUserQuota (Task_UserId task) w1)"
  define v where "v = (if 0 < delta
     then UpdateChannelUsedQuota (Task_ChannelId task) delta
            (RecordConsumeLog (task_log task ?bc delta ''settlement charge'') ?w2)
     else RecordRefundLog (task_log task ?bc (i64 (- delta)) ''settlement refund'') ?w2)"
  have "faults v = []"
    using quiet_cache_update [OF assms(5)] by (simp add: v_def quiet_logs quiet_channel)
  moreover have "db_users (db v) = db_users (db w1) \<and> db_tokens (db v) = db_tokens (db w1)
     \<and> db_tasks (db v) = db_tasks (db w1)"
    by (simp add: v_def channel_quota_frame go_simps)
  moreover have "SettleSuccess adjust task info w =
      snd (UpdateTaskQuota (Task_Id task) (final_quota adjust ?bc task info) v)"
    using assms(1,3,4) by (simp add: SettleSuccess_def Let_def v_def flip: assms(2))
  ultimately show ?thesis by blast
qed

lemma UpdateTaskQuota_ok:
  assumes "faults w = []" and "in_i64 q"
  shows "task_row (snd (UpdateTaskQuota k q w)) k = map_option (\<lambda>t. t\<lparr>Task_Quota := q\<rparr>) (task_row w k)
     \<and> db_users (db (snd (UpdateTaskQuota k q w))) = db_users (db w)"
proof -
  have "find (\<lambda>t. Task_Id t = k) (update_where (\<lambda>t. Task_Id t = k) (\<lambda>t. t\<lparr>Task_Quota := q\<rparr>) rows) =
      map_option (\<lambda>t. t\<lparr>Task_Quota := q\<rparr>) (find (\<lambda>t. Task_Id t = k) rows)" for rows
    by (induction rows) auto
  with assms show ?thesis
    by (simp add: UpdateTaskQuota_def sql_update_def err_only_def task_fits_def task_row_def list_all_iff)
qed



end
