(* ===== verification/Poller.thy ===== *)
theory Poller
  imports TaskModel
begin

text \<open>
  The polling loop of asynchronous tasks (\<open>relay/task/poller.go\<close>), the adaptor interface and its
  registry (\<open>relay/task/adaptor.go\<close>), and what makes several pollers safe together: the status
  compare-and-set lets exactly one of them settle or refund a task.
\<close>

section \<open>Channels as the poller sees them\<close>

definition ChannelBaseURLs :: "string list" where
  "ChannelBaseURLs =
    [[],
     ''https://api.openai.com'',
     ''https://oa.api2d.net'',
     [],
     ''https://api.closeai-proxy.xyz'',
     ''https://api.openai-sb.com'',
     ''https://api.openaimax.com'',
     ''https://api.ohmygpt.com'',
     [],
     ''https://api.caipacity.com'',
     ''https://api.aiproxy.io'',
     ''https://generativelanguage.googleapis.com'',
     ''https://api.api2gpt.com'',
     ''https://api.aigc2d.com'',
     ''https://api.anthropic.com'',
     ''https://aip.baidubce.com'',
     ''https://open.bigmodel.cn'',
     ''https://dashscope.aliyuncs.com'',
     [],
     ''https://ai.360.cn'',
     ''https://openrouter.ai/api'',
     ''https://api.aiproxy.io'',
     ''https://fastgpt.run/api/openapi'',
     ''https://hunyuan.tencentcloudapi.com'',
     ''https://generativelanguage.googleapis.com'',
     ''https://api.moonshot.cn'',
     ''https://api.baichuan-ai.com'',
     ''https://api.minimax.chat'',
     ''https://api.mistral.ai'',
     ''https://api.groq.com/openai'',
     ''http://localhost:11434'',
     ''https://api.lingyiwanwu.com'',
     ''https://api.stepfun.com'',
     [],
     ''https://api.coze.com'',
     ''https://api.cohere.ai'',
     ''https://api.deepseek.com'',
     ''https://api.cloudflare.com'',
     ''https://api-free.deepl.com'',
     ''https://api.together.xyz'',
     ''https://ark.cn-beijing.volces.com'',
     ''https://api.novita.ai/v3/openai'',
     [],
     [],
     ''https://api.siliconflow.cn'',
     ''https://api.x.ai'',
     ''https://api.replicate.com/v1/models/'',
     ''https://qianfan.baidubce.com'',
     ''https://spark-api-open.xf-yun.com'',
     ''https://dashscope.aliyuncs.com'',
     [],
     ''https://generativelanguage.googleapis.com/v1beta/openai/'']"

definition GetBaseURL :: "Channel \<Rightarrow> string" where
  "GetBaseURL c = (case Channel_BaseURL c of None \<Rightarrow> [] | Some u \<Rightarrow> u)"

text \<open>With \<open>selectAll\<close> unset the key column is left out and stays empty.\<close>

definition GetChannelById :: "int \<Rightarrow> bool \<Rightarrow> World \<Rightarrow> (GoErr + Channel) \<times> World" where
  "GetChannelById cid selectAll w =
     (case sql_first db_channels (\<lambda>c. Channel_Id c = cid) w of
        (Inl e, w1) \<Rightarrow> (Inl e, w1)
      | (Inr c, w1) \<Rightarrow> (Inr (if selectAll then c else c\<lparr>Channel_Key := []\<rparr>), w1))"

section \<open>Adaptors\<close>

text \<open>
  The part of the \<open>Adaptor\<close> interface that the poller uses. \<open>FetchTask\<close> is an upstream HTTP call:
  it fails, or it returns a status code and a body whose reading may fail.
\<close>

datatype FetchResult = FetchErr | Fetched int "string option"

record TaskAdaptor =
  TA_FetchTask :: "string \<Rightarrow> string \<Rightarrow> string \<Rightarrow> FetchResult"
  TA_ParseTaskResult :: "string \<Rightarrow> GoErr + TaskInfo"
  TA_AdjustBillingOnComplete :: "Task \<Rightarrow> TaskInfo \<Rightarrow> int option"

definition BaseBilling_AdjustBillingOnComplete :: "Task \<Rightarrow> TaskInfo \<Rightarrow> int option" where
  "BaseBilling_AdjustBillingOnComplete task info = None"

record Registry =
  adaptorFactories :: "(string \<times> TaskAdaptor) list"
  platformByModel :: "(string \<times> string) list"

text \<open>\<open>Register\<close> panics on a wiring bug; a panic is an error value here.\<close>

fun register_models :: "string \<Rightarrow> string list \<Rightarrow> Registry \<Rightarrow> GoErr + Registry" where
  "register_models platform [] reg = Inr reg"
| "register_models platform (m # ms) reg = (case map_of (platformByModel reg) m of
     Some existing \<Rightarrow>
       Inl (Err (''task: model '' @ m @ '' already registered to platform '' @ existing))
   | None \<Rightarrow> register_models platform ms
       (reg\<lparr>platformByModel := (m, platform) # platformByModel reg\<rparr>))"

definition Register :: "string \<Rightarrow> TaskAdaptor option \<Rightarrow> string list \<Rightarrow> Registry \<Rightarrow> GoErr + Registry" where
  "Register platform factory models reg = (case factory of
       None \<Rightarrow> Inl (Err (''task: Register factory is nil for platform '' @ platform))
     | Some a \<Rightarrow>
         if map_of (adaptorFactories reg) platform \<noteq> None
         then Inl (Err (''task: Register called twice for platform '' @ platform))
         else register_models platform models
                (reg\<lparr>adaptorFactories := (platform, a) # adaptorFactories reg\<rparr>))"

definition GetAdaptor :: "Registry \<Rightarrow> string \<Rightarrow> TaskAdaptor option" where
  "GetAdaptor reg platform = map_of (adaptorFactories reg) platform"

definition GetPlatform :: "Registry \<Rightarrow> string \<Rightarrow> string" where
  "GetPlatform reg modelName = (case map_of (platformByModel reg) modelName of None \<Rightarrow> [] | Some p \<Rightarrow> p)"

section \<open>The loop\<close>

definition taskTimeout :: int where "taskTimeout = 7200"
definition pollBatchLimit :: int where "pollBatchLimit = 1000"
definition timeoutScanLimit :: int where "timeoutScanLimit = 100"

definition fail_updates :: "string \<Rightarrow> string \<Rightarrow> int \<Rightarrow> Task \<Rightarrow> Task" where
  "fail_updates reason rawData now t =
     (let t1 = t\<lparr>Task_Status := TaskStatusFailure, Task_FailReason := reason, Task_FinishTime := now\<rparr>
      in if rawData \<noteq> [] then t1\<lparr>Task_Data := rawData\<rparr> else t1)"

definition failTask :: "Task \<Rightarrow> string \<Rightarrow> string \<Rightarrow> World \<Rightarrow> World" where
  "failTask t reason rawData w =
     (case UpdateTaskStatus (Task_Id t) (Task_Status t) (fail_updates reason rawData (clock w)) w of
        (Inl e, w1) \<Rightarrow> w1
      | (Inr won, w1) \<Rightarrow> if \<not> won then w1 else RefundTask t reason w1)"

definition scanTimeouts :: "World \<Rightarrow> World" where
  "scanTimeouts w =
     (case ListTimeoutTasks timeoutScanLimit (clock w - taskTimeout) w of
        (Inl e, w1) \<Rightarrow> w1
      | (Inr tasks, w1) \<Rightarrow> fold (\<lambda>t v. failTask t ''task timed out'' [] v) tasks w1)"

definition success_updates :: "TaskInfo \<Rightarrow> string \<Rightarrow> int \<Rightarrow> Task \<Rightarrow> Task" where
  "success_updates info rawData now t =
     t\<lparr>Task_Status := TaskStatusSuccess, Task_Progress := 100, Task_ResultUrl := TI_Url info,
       Task_FinishTime := now, Task_Data := NormalizeJSONColumn rawData\<rparr>"

definition progress_updates :: "TaskInfo \<Rightarrow> Task \<Rightarrow> int \<Rightarrow> Task \<Rightarrow> Task" where
  "progress_updates info snapshot now t =
     (let t1 = t\<lparr>Task_Progress := TI_Progress info\<rparr>;
          t2 = (if TI_Status info \<noteq> TaskStatusOther [] then t1\<lparr>Task_Status := TI_Status info\<rparr> else t1)
      in if TI_Status info = TaskStatusInProgress \<and> Task_StartTime snapshot = 0
         then t2\<lparr>Task_StartTime := now\<rparr> else t2)"

definition applyTaskInfo :: "TaskAdaptor \<Rightarrow> Task \<Rightarrow> TaskInfo \<Rightarrow> string \<Rightarrow> World \<Rightarrow> World" where
  "applyTaskInfo adaptor t info rawData w =
     (if TI_Status info = TaskStatusSuccess
      then (case UpdateTaskStatus (Task_Id t) (Task_Status t) (success_updates info rawData (clock w)) w of
          (Inl e, w1) \<Rightarrow> w1
        | (Inr won, w1) \<Rightarrow>
            if \<not> won then w1 else SettleSuccess (TA_AdjustBillingOnComplete adaptor) t info w1)
      else if TI_Status info = TaskStatusFailure then failTask t (TI_Reason info) rawData w
      else snd (UpdateTaskNonTerminal (Task_Id t) (progress_updates info t (clock w)) w))"

definition pollTask :: "TaskAdaptor \<Rightarrow> Task \<Rightarrow> string \<Rightarrow> string \<Rightarrow> World \<Rightarrow> World" where
  "pollTask adaptor t baseURL key w = (case GetPrivateData t of
       Inl e \<Rightarrow> w
     | Inr pd \<Rightarrow>
         if PD_UpstreamTaskId pd = [] then w
         else case TA_FetchTask adaptor baseURL key (PD_UpstreamTaskId pd) of
           FetchErr \<Rightarrow> w
         | Fetched code body \<Rightarrow>
             if code = 429 then w
             else (case body of
                 None \<Rightarrow> w
               | Some raw \<Rightarrow>
                   if code \<noteq> 200 then w
                   else (case TA_ParseTaskResult adaptor raw of
                       Inl e \<Rightarrow> w
                     | Inr info \<Rightarrow> applyTaskInfo adaptor t info raw w)))"

definition group_key :: "Task \<Rightarrow> string \<times> int" where
  "group_key t = (Task_Platform t, Task_ChannelId t)"

definition pollGroup :: "Registry \<Rightarrow> string \<times> int \<Rightarrow> Task list \<Rightarrow> World \<Rightarrow> World" where
  "pollGroup reg key members w = (case GetAdaptor reg (fst key) of
       None \<Rightarrow> w
     | Some adaptor \<Rightarrow> (case GetChannelById (snd key) True w of
           (Inl e, w1) \<Rightarrow> w1
         | (Inr channel, w1) \<Rightarrow>
             let url = GetBaseURL channel;
                 go = (\<lambda>u. fold (\<lambda>t v. pollTask adaptor t u (Channel_Key channel) v) members w1)
             in if url \<noteq> [] then go url
                else if Channel_Type channel < 0 \<or> int (length ChannelBaseURLs) \<le> Channel_Type channel
                then w1
                else go (ChannelBaseURLs ! nat (Channel_Type channel))))"

text \<open>
  \<open>order\<close> is the order in which \<open>range\<close> visits the groups, which Go leaves open; \<open>remdups\<close> of the
  keys gives the groups themselves.
\<close>

definition pollUnfinished ::
  "((string \<times> int) list \<Rightarrow> (string \<times> int) list) \<Rightarrow> Registry \<Rightarrow> World \<Rightarrow> World" where
  "pollUnfinished order reg w = (case ListUnfinishedTasks pollBatchLimit w of
       (Inl e, w1) \<Rightarrow> w1
     | (Inr tasks, w1) \<Rightarrow>
         fold (\<lambda>key v. pollGroup reg key (filter (\<lambda>t. group_key t = key) tasks) v)
           (order (remdups (map group_key tasks))) w1)"

definition pollOnce ::
  "((string \<times> int) list \<Rightarrow> (string \<times> int) list) \<Rightarrow> Registry \<Rightarrow> World \<Rightarrow> World" where
  "pollOnce order reg w = pollUnfinished order reg (scanTimeouts w)"

section \<open>Money operations leave statuses alone\<close>

lemma legs_tasks:
  "db_tasks (db (snd (wallet_leg u q w))) = db_tasks (db w)"
  "db_tasks (db (snd (token_leg_of k q w))) = db_tasks (db w)"
  using increaseUserQuota_effect [OF surjective_pairing] increaseTokenQuota_effect [OF surjective_pairing]
  by (auto simp: wallet_leg_def token_leg_of_def DecreaseUserQuota_def IncreaseUserQuota_def
      DecreaseTokenQuota_def IncreaseTokenQuota_def decreaseUserQuota_increase
      decreaseTokenQuota_increase addNewRecord_def)

lemma PostConsume_tasks:
  assumes "PostConsumeTokenQuota k q w = (r, w1)"
  shows "db_tasks (db w1) = db_tasks (db w)"
proof -
  have legs: "db_tasks (db v2) = db_tasks (db v)" if "wallet_leg u q v = (x, v2)" for u v x v2
    using legs_tasks(1) [of u q v] that by simp
  have legs2: "db_tasks (db v2) = db_tasks (db v)" if "token_leg_of k q v = (x, v2)" for v x v2
    using legs_tasks(2) [of k q v] that by simp
  show ?thesis
    using assms
    by (auto simp: PostConsume_legs dest!: GetTokenById_frame legs legs2
        split: prod.splits sum.splits if_splits)
qed

lemma RefundTask_tasks: "db_tasks (db (RefundTask t r w)) = db_tasks (db w)"
proof -
  have inc: "db_tasks (db v2) = db_tasks (db v)" if "IncreaseUserQuota u q v = (x, v2)" for u q v x v2
    using that increaseUserQuota_effect [of u q v x v2]
    by (auto simp: IncreaseUserQuota_def addNewRecord_def split: if_splits)
  show ?thesis
    by (auto simp: RefundTask_def Let_def go_simps dest!: PostConsume_tasks inc
        split: prod.splits option.splits)
qed

text \<open>Ids and statuses of all rows.\<close>

definition status_rows :: "World \<Rightarrow> (int \<times> TaskStatus) list" where
  "status_rows w = map (\<lambda>t. (Task_Id t, Task_Status t)) (db_tasks (db w))"

lemma SettleSuccess_status: "status_rows (SettleSuccess adjust t info w) = status_rows w"
proof -
  have up: "status_rows (snd (UpdateTaskQuota k q v)) = status_rows v" for k q v
  proof (cases "sql_update db_tasks db_tasks_update task_fits (\<lambda>t. Task_Id t = k)
        (\<lambda>t. t\<lparr>Task_Quota := q\<rparr>) v")
    case (Pair r v')
    then show ?thesis
      by (cases r) (auto dest!: sql_update_Inl sql_update_Inr
          simp: UpdateTaskQuota_def err_only_def status_rows_def map_update_where_frame)
  qed
  have cong: "db_tasks (db v) = db_tasks (db v') \<Longrightarrow> status_rows v = status_rows v'" for v v'
    by (simp add: status_rows_def)
  show ?thesis
    by (auto simp: SettleSuccess_def Let_def up go_simps channel_quota_frame
        dest!: PostConsume_tasks intro!: cong split: sum.splits prod.splits option.splits)
qed

section \<open>Several pollers\<close>

text \<open>
  What a poller holds after it has read a row and queried the upstream: the snapshot and what
  to do with it. \<open>Owes\<close> is the moment between a won compare-and-set and the money it decides.
\<close>

datatype verdict = Fails string string | Succeeds TaskInfo string | Progresses TaskInfo

datatype worker = Idle | Holds Task verdict | Owes Task verdict

definition verdict_of :: "TaskInfo \<Rightarrow> string \<Rightarrow> verdict" where
  "verdict_of info raw =
     (if TI_Status info = TaskStatusSuccess then Succeeds info raw
      else if TI_Status info = TaskStatusFailure then Fails (TI_Reason info) raw
      else Progresses info)"

text \<open>The database statement of \<open>applyTaskInfo\<close>; the result says whether money is now due.\<close>

fun claim :: "verdict \<Rightarrow> Task \<Rightarrow> World \<Rightarrow> bool \<times> World" where
  "claim (Fails reason raw) t w =
     (case UpdateTaskStatus (Task_Id t) (Task_Status t) (fail_updates reason raw (clock w)) w of
        (Inl e, w1) \<Rightarrow> (False, w1) | (Inr won, w1) \<Rightarrow> (won, w1))"
| "claim (Succeeds info raw) t w =
     (case UpdateTaskStatus (Task_Id t) (Task_Status t) (success_updates info raw (clock w)) w of
        (Inl e, w1) \<Rightarrow> (False, w1) | (Inr won, w1) \<Rightarrow> (won, w1))"
| "claim (Progresses info) t w =
     (False, snd (UpdateTaskNonTerminal (Task_Id t) (progress_updates info t (clock w)) w))"

fun settle :: "TaskAdaptor \<Rightarrow> verdict \<Rightarrow> Task \<Rightarrow> World \<Rightarrow> World" where
  "settle a (Fails reason raw) t w = RefundTask t reason w"
| "settle a (Succeeds info raw) t w = SettleSuccess (TA_AdjustBillingOnComplete a) t info w"
| "settle a (Progresses info) t w = w"

fun outcome :: "verdict \<Rightarrow> TaskStatus" where
  "outcome (Fails reason raw) = TaskStatusFailure"
| "outcome (Succeeds info raw) = TaskStatusSuccess"
| "outcome (Progresses info) = TaskStatusQueued"

text \<open>Claim and money, done one right after the other, are \<open>applyTaskInfo\<close>.\<close>

lemma applyTaskInfo_steps:
  "applyTaskInfo a t info raw w =
     (case claim (verdict_of info raw) t w of
        (won, w1) \<Rightarrow> if won then settle a (verdict_of info raw) t w1 else w1)"
  by (auto simp: applyTaskInfo_def verdict_of_def failTask_def split: prod.splits sum.splits)

record pollers =
  p_world :: World
  p_worker :: "nat \<Rightarrow> worker"
  p_won :: "(int \<times> verdict) list"
  p_paid :: "(int \<times> verdict) list"

text \<open>
  Any poller may at any time read an unfinished row and reach a verdict on it, run its claim, or
  pay what it owes; other requests may do anything that leaves the task rows alone.
\<close>

inductive poll_step :: "TaskAdaptor \<Rightarrow> pollers \<Rightarrow> pollers \<Rightarrow> bool" for a where
  reads: "t \<in> set (db_tasks (db (p_world s))) \<Longrightarrow> \<not> IsTerminal (Task_Status t) \<Longrightarrow> p_worker s i = Idle \<Longrightarrow>
     poll_step a s (s\<lparr>p_worker := (p_worker s)(i := Holds t v)\<rparr>)"
| wins: "p_worker s i = Holds t v \<Longrightarrow> claim v t (p_world s) = (True, w') \<Longrightarrow>
     poll_step a s (s\<lparr>p_world := w', p_worker := (p_worker s)(i := Owes t v),
                      p_won := (Task_Id t, v) # p_won s\<rparr>)"
| loses: "p_worker s i = Holds t v \<Longrightarrow> claim v t (p_world s) = (False, w') \<Longrightarrow>
     poll_step a s (s\<lparr>p_world := w', p_worker := (p_worker s)(i := Idle)\<rparr>)"
| pays: "p_worker s i = Owes t v \<Longrightarrow>
     poll_step a s (s\<lparr>p_world := settle a v t (p_world s), p_worker := (p_worker s)(i := Idle),
                      p_paid := (Task_Id t, v) # p_paid s\<rparr>)"
| outside: "db_tasks (db w') = db_tasks (db (p_world s)) \<Longrightarrow> poll_step a s (s\<lparr>p_world := w'\<rparr>)"

inductive poll_reach :: "TaskAdaptor \<Rightarrow> pollers \<Rightarrow> pollers \<Rightarrow> bool" for a s0 where
  start: "poll_reach a s0 s0"
| step: "poll_reach a s0 s \<Longrightarrow> poll_step a s s' \<Longrightarrow> poll_reach a s0 s'"

inductive_cases poll_stepE: "poll_step a s s'"

definition status_of :: "World \<Rightarrow> int \<Rightarrow> TaskStatus option" where
  "status_of w k = map_option Task_Status (task_row w k)"

lemma status_of_rows: "status_rows w' = status_rows w \<Longrightarrow> status_of w' = status_of w \<and> tasks_ok w' = tasks_ok w"
proof -
  assume eq: "status_rows w' = status_rows w"
  have "map_option Task_Status (find (\<lambda>t. Task_Id t = k) ts) =
      map_option snd (find (\<lambda>p. fst p = k) (map (\<lambda>t. (Task_Id t, Task_Status t)) ts))" for k ts
    by (induction ts) auto
  then have "status_of v k = map_option snd (find (\<lambda>p. fst p = k) (status_rows v))" for v k
    by (simp only: status_of_def task_row_def status_rows_def)
  then have "status_of w' k = status_of w k" for k using eq by simp
  moreover have "map Task_Id (db_tasks (db v)) = map fst (status_rows v)" for v
    by (simp add: status_rows_def)
  ultimately show ?thesis using eq by (auto simp: tasks_ok_def)
qed

lemma settle_status: "status_rows (settle a v t w) = status_rows w"
proof (cases v)
  case (Fails r raw)
  then show ?thesis by (simp add: status_rows_def RefundTask_tasks)
qed (simp_all add: SettleSuccess_status)

lemma updates_keep_id [simp]:
  "Task_Id (fail_updates r raw now t) = Task_Id t" "Task_Id (success_updates info raw now t) = Task_Id t"
  "Task_Id (progress_updates info s now t) = Task_Id t"
  "Task_Status (fail_updates r raw now t) = TaskStatusFailure"
  "Task_Status (success_updates info raw now t) = TaskStatusSuccess"
  by (simp_all add: fail_updates_def success_updates_def progress_updates_def Let_def)

lemma claim_wins:
  assumes "claim v t w = (True, w')" and "tasks_ok w" and "\<not> IsTerminal (Task_Status t)"
  shows "status_of w (Task_Id t) = Some (Task_Status t)
     \<and> status_of w' = (status_of w)(Task_Id t \<mapsto> outcome v) \<and> IsTerminal (outcome v) \<and> tasks_ok w'"
proof -
  have *: ?thesis if "UpdateTaskStatus (Task_Id t) (Task_Status t) f w = (Inr True, w')"
      and "\<And>t. Task_Id (f t) = Task_Id t" and "\<And>t. Task_Status (f t) = outcome v"
      and "IsTerminal (outcome v)" for f
    using UpdateTaskStatus_won [OF that(1) assms(2) that(2)] that(3,4)
    by (auto simp: status_of_def fun_eq_iff)
  show ?thesis
  proof (cases v)
    case (Fails r raw)
    with assms(1) show ?thesis
      by (intro * [of "fail_updates r raw (clock w)"])
         (auto simp: IsTerminal_def split: prod.splits sum.splits)
  next
    case (Succeeds info raw)
    with assms(1) show ?thesis
      by (intro * [of "success_updates info raw (clock w)"])
         (auto simp: IsTerminal_def split: prod.splits sum.splits)
  qed (use assms in simp)
qed

text \<open>A claim that wins nothing keeps every terminal status.\<close>

lemma progress_status:
  assumes "sql_update db_tasks db_tasks_update (\<lambda>_. True)
      (\<lambda>t. Task_Id t = k \<and> \<not> IsTerminal (Task_Status t)) f w = (Inr n, w')"
    and "\<And>t. Task_Id (f t) = Task_Id t"
  shows "tasks_ok w' = tasks_ok w
     \<and> (\<forall>j s. status_of w j = Some s \<and> IsTerminal s \<longrightarrow> status_of w' j = Some s)"
proof -
  have rows: "db_tasks (db w') =
      update_where (\<lambda>t. Task_Id t = k \<and> \<not> IsTerminal (Task_Status t)) f (db_tasks (db w))"
    using sql_update_Inr [OF assms(1)] by simp
  then show ?thesis
    using find_guarded_update [of Task_Id f _ k "\<lambda>t. \<not> IsTerminal (Task_Status t)" "db_tasks (db w)"] assms(2)
    by (auto simp: status_of_def task_row_def tasks_ok_def distinct_keys_update split: option.splits)
qed

lemma claim_loses:
  assumes "claim v t w = (False, w')"
  shows "tasks_ok w' = tasks_ok w
     \<and> (\<forall>j s. status_of w j = Some s \<and> IsTerminal s \<longrightarrow> status_of w' j = Some s)"
proof -
  have same: ?thesis if "db w' = db w"
    using that task_same_db [OF that] by (simp add: status_of_def)
  show ?thesis
  proof (cases v)
    case (Progresses info)
    obtain r v' where u: "sql_update db_tasks db_tasks_update (\<lambda>_. True)
        (\<lambda>x. Task_Id x = Task_Id t \<and> \<not> IsTerminal (Task_Status x)) (progress_updates info t (clock w)) w = (r, v')"
      by fastforce
    then have v': "w' = v'" using assms Progresses
      by (cases r) (auto simp: UpdateTaskNonTerminal_def err_only_def)
    show ?thesis
    proof (cases r)
      case (Inl e)
      with sql_update_Inl u v' have "db w' = db w" by blast
      then show ?thesis by (rule same)
    next
      case (Inr n)
      from progress_status [OF u [unfolded Inr]] v' show ?thesis by simp
    qed
  qed (use assms same UpdateTaskStatus_lost in \<open>fastforce split: prod.splits sum.splits\<close>)+
qed

text \<open>
  The invariant: a snapshot is never terminal; a won claim left the row in its outcome for good;
  no id is won twice; what is owed was won and is not yet paid.
\<close>

definition poll_inv :: "pollers \<Rightarrow> bool" where
  "poll_inv s \<longleftrightarrow> tasks_ok (p_world s)
     \<and> (\<forall>i t v. p_worker s i = Holds t v \<longrightarrow> \<not> IsTerminal (Task_Status t))
     \<and> (\<forall>(k, v) \<in> set (p_won s). status_of (p_world s) k = Some (outcome v) \<and> IsTerminal (outcome v))
     \<and> distinct (map fst (p_won s)) \<and> distinct (map fst (p_paid s))
     \<and> set (p_paid s) \<subseteq> set (p_won s)
     \<and> (\<forall>i t v. p_worker s i = Owes t v \<longrightarrow> (Task_Id t, v) \<in> set (p_won s) \<and> Task_Id t \<notin> fst ` set (p_paid s))
     \<and> (\<forall>i j t v t' v'. p_worker s i = Owes t v \<and> p_worker s j = Owes t' v' \<and> Task_Id t = Task_Id t' \<longrightarrow> i = j)"

lemma poll_inv_owes:
  "poll_inv s \<Longrightarrow> p_worker s i = Owes t v \<Longrightarrow>
     (Task_Id t, v) \<in> set (p_won s) \<and> Task_Id t \<notin> fst ` set (p_paid s)"
  by (auto simp: poll_inv_def)

lemma poll_inv_step:
  assumes "poll_step a s s'" and inv: "poll_inv s"
  shows "poll_inv s'"
  using assms(1)
proof cases
  case (reads t i v)
  with inv show ?thesis by (auto simp: poll_inv_def)
next
  case (wins i t v w')
  have held: "\<not> IsTerminal (Task_Status t)" using inv wins by (auto simp: poll_inv_def)
  have ok: "tasks_ok (p_world s)" using inv by (simp add: poll_inv_def)
  note w = claim_wins [OF wins(3) ok held]
  have new: "Task_Id t \<notin> fst ` set (p_won s)"
  proof
    assume "Task_Id t \<in> fst ` set (p_won s)"
    then obtain v0 where "(Task_Id t, v0) \<in> set (p_won s)" by force
    then have "status_of (p_world s) (Task_Id t) = Some (outcome v0) \<and> IsTerminal (outcome v0)"
      using inv by (auto simp: poll_inv_def)
    with w held show False by simp
  qed
  have "fst ` set (p_paid s) \<subseteq> fst ` set (p_won s)" using inv by (auto simp: poll_inv_def)
  moreover have "j = i" if "((p_worker s)(i := Owes t v)) j = Owes t' v'" "Task_Id t' = Task_Id t" for j t' v'
  proof (rule ccontr)
    assume "j \<noteq> i"
    then have "(Task_Id t', v') \<in> set (p_won s)" using that(1) poll_inv_owes [OF inv] by simp
    with that(2) new show False by force
  qed
  moreover have "status_of w' k = Some (outcome v0) \<and> IsTerminal (outcome v0)"
    if "(k, v0) \<in> set (p_won s)" for k v0
  proof -
    have "k \<noteq> Task_Id t" using that new by force
    with that inv w show ?thesis by (auto simp: poll_inv_def)
  qed
  ultimately have facts: "fst ` set (p_paid s) \<subseteq> fst ` set (p_won s)"
    "\<And>j t' v'. ((p_worker s)(i := Owes t v)) j = Owes t' v' \<Longrightarrow> Task_Id t' = Task_Id t \<Longrightarrow> j = i"
    "\<And>k v0. (k, v0) \<in> set (p_won s) \<Longrightarrow> status_of w' k = Some (outcome v0) \<and> IsTerminal (outcome v0)"
    by blast+
  have one: "j = j'" if "((p_worker s)(i := Owes t v)) j = Owes t1 v1"
      "((p_worker s)(i := Owes t v)) j' = Owes t2 v2" "Task_Id t1 = Task_Id t2" for j j' t1 v1 t2 v2
  proof (cases "j = i \<or> j' = i")
    case True
    with that facts(2) show ?thesis by (metis fun_upd_same worker.inject(2))
  next
    case False
    with that inv show ?thesis unfolding poll_inv_def by (metis fun_upd_other)
  qed
  let ?s = "s\<lparr>p_world := w', p_worker := (p_worker s)(i := Owes t v), p_won := (Task_Id t, v) # p_won s\<rparr>"
  have inv': "distinct (map fst (p_won s))" "distinct (map fst (p_paid s))" "set (p_paid s) \<subseteq> set (p_won s)"
    "\<And>i t v. p_worker s i = Holds t v \<Longrightarrow> \<not> IsTerminal (Task_Status t)"
    using inv by (auto simp: poll_inv_def)
  have "p_worker ?s j = Holds t' v' \<Longrightarrow> \<not> IsTerminal (Task_Status t')" for j t' v'
    using inv'(4) by (simp split: if_splits)
  moreover have "\<forall>(k, v) \<in> set (p_won ?s). status_of (p_world ?s) k = Some (outcome v) \<and> IsTerminal (outcome v)"
    using w facts(3) by auto
  moreover have "(Task_Id t', v') \<in> set (p_won ?s) \<and> Task_Id t' \<notin> fst ` set (p_paid ?s)"
    if o: "p_worker ?s j = Owes t' v'" for j t' v'
  proof (cases "j = i")
    case True
    with o have "t' = t" "v' = v" by simp_all
    with new facts(1) show ?thesis by auto
  next
    case False
    with o poll_inv_owes [OF inv, of j t' v'] show ?thesis by simp
  qed
  moreover have "j = j'" if "p_worker ?s j = Owes t1 v1" "p_worker ?s j' = Owes t2 v2"
      "Task_Id t1 = Task_Id t2" for j j' t1 v1 t2 v2
    using one [of j t1 v1 j' t2 v2] that by simp
  moreover have "distinct (map fst (p_won ?s))" "distinct (map fst (p_paid ?s))" "set (p_paid ?s) \<subseteq> set (p_won ?s)"
    using new inv' by auto
  moreover have "tasks_ok (p_world ?s)" using w by simp
  ultimately show ?thesis unfolding wins(1) poll_inv_def by blast
next
  case (loses i t v w')
  have "status_of w' k = Some (outcome v0) \<and> IsTerminal (outcome v0)"
    if "(k, v0) \<in> set (p_won s)" for k v0
    using that inv claim_loses [OF loses(3)] by (auto simp: poll_inv_def)
  moreover have "tasks_ok w'" using inv claim_loses [OF loses(3)] by (simp add: poll_inv_def)
  ultimately show ?thesis using inv loses(1) by (auto simp: poll_inv_def split: if_splits)
next
  case (pays i t v)
  have same: "status_of (settle a v t (p_world s)) = status_of (p_world s)"
    "tasks_ok (settle a v t (p_world s)) = tasks_ok (p_world s)"
    using status_of_rows [OF settle_status] by auto
  have owes: "(Task_Id t, v) \<in> set (p_won s)" "Task_Id t \<notin> fst ` set (p_paid s)"
    using poll_inv_owes [OF inv pays(2)] by auto
  have "Task_Id t' \<noteq> Task_Id t" if "p_worker s j = Owes t' v'" "j \<noteq> i" for j t' v'
    using that inv pays(2) unfolding poll_inv_def by metis
  with inv pays(1) same owes show ?thesis by (auto simp: poll_inv_def split: if_splits)
next
  case (outside w')
  with same_tasks [of w' "p_world s"] inv show ?thesis by (simp add: poll_inv_def status_of_def)
qed

lemma poll_reach_inv: "poll_reach a s0 s \<Longrightarrow> poll_inv s0 \<Longrightarrow> poll_inv s"
  by (induction rule: poll_reach.induct) (auto intro: poll_inv_step)

lemma poll_step_terminal:
  assumes "poll_step a s s'" and inv: "poll_inv s"
    and "status_of (p_world s) k = Some st" and "IsTerminal st"
  shows "status_of (p_world s') k = Some st"
  using assms(1)
proof cases
  case (wins i t v w')
  have held: "\<not> IsTerminal (Task_Status t)" "tasks_ok (p_world s)" using inv wins by (auto simp: poll_inv_def)
  note w = claim_wins [OF wins(3) held(2,1)]
  then have "k \<noteq> Task_Id t" using held(1) assms(3,4) by auto
  with w wins assms(3) show ?thesis by simp
next
  case (loses i t v w')
  with claim_loses [OF loses(3)] assms(3,4) show ?thesis by simp
next
  case (pays i t v)
  with status_of_rows [OF settle_status] assms(3) show ?thesis by simp
next
  case (outside w')
  with same_tasks [of w' "p_world s"] assms(3) show ?thesis by (simp add: status_of_def)
qed (use assms in simp)

definition poll_start :: "World \<Rightarrow> pollers" where
  "poll_start w = \<lparr>p_world = w, p_worker = (\<lambda>_. Idle), p_won = [], p_paid = []\<rparr>"

lemma poll_start_inv: "tasks_ok w \<Longrightarrow> poll_inv (poll_start w)"
  by (simp add: poll_inv_def poll_start_def)

text \<open>
  C4. However many pollers race on the same tasks, each on its own snapshot and its own
  verdict, interleaved with each other and with any other requests, and whichever calls fail:
  no task is ever settled or refunded twice, and whoever paid is the one whose outcome the row
  shows.
\<close>

theorem settles_at_most_once:
  assumes "poll_reach a (poll_start w) s" and "tasks_ok w"
  shows "distinct (map fst (p_paid s))
     \<and> (\<forall>(k, v) \<in> set (p_paid s). status_of (p_world s) k = Some (outcome v) \<and> IsTerminal (outcome v))"
  using poll_reach_inv [OF assms(1) poll_start_inv [OF assms(2)]] unfolding poll_inv_def by blast


definition demo_adaptor :: TaskAdaptor where
  "demo_adaptor = \<lparr>TA_FetchTask = (\<lambda>_ _ _. FetchErr), TA_ParseTaskResult = (\<lambda>_. Inl ErrJSON),
     TA_AdjustBillingOnComplete = BaseBilling_AdjustBillingOnComplete\<rparr>"

definition demo_poll_task :: Task where
  "demo_poll_task = demo_task 1 (PrivateJSON (demo_private 7))"

definition demo_poll_world :: World where
  "demo_poll_world = world_of (demo_db\<lparr>db_tasks := [demo_poll_task]\<rparr>) []"

definition demo_success :: TaskInfo where
  "demo_success = \<lparr>TI_TaskId = ''cgt-1'', TI_Status = TaskStatusSuccess, TI_Reason = [], TI_Url = ''u'',
     TI_Progress = 100, TI_TotalTokens = 0\<rparr>"

text \<open>Two pollers hold the same queued task; the one that times it out wins, the other loses.\<close>

definition demo_poll_1 :: pollers where
  "demo_poll_1 = (poll_start demo_poll_world)\<lparr>p_worker := ((\<lambda>_. Idle)(0 := Holds demo_poll_task (Fails ''timeout'' [])))
     (1 := Holds demo_poll_task (Succeeds demo_success ''{}''))\<rparr>"

definition demo_poll_2 :: pollers where
  "demo_poll_2 = demo_poll_1\<lparr>p_world := snd (claim (Fails ''timeout'' []) demo_poll_task demo_poll_world),
     p_worker := (p_worker demo_poll_1)(0 := Owes demo_poll_task (Fails ''timeout'' [])),
     p_won := [(1, Fails ''timeout'' [])]\<rparr>"

definition demo_poll_3 :: pollers where
  "demo_poll_3 = demo_poll_2\<lparr>p_world := snd (claim (Succeeds demo_success ''{}'') demo_poll_task (p_world demo_poll_2)),
     p_worker := (p_worker demo_poll_2)(1 := Idle)\<rparr>"

definition demo_poll_4 :: pollers where
  "demo_poll_4 = demo_poll_3\<lparr>p_world := settle demo_adaptor (Fails ''timeout'' []) demo_poll_task (p_world demo_poll_3),
     p_worker := (p_worker demo_poll_3)(0 := Idle), p_paid := [(1, Fails ''timeout'' [])]\<rparr>"

lemma demo_poll_reach: "poll_reach demo_adaptor (poll_start demo_poll_world) demo_poll_4"
proof -
  let ?w0 = "poll_start demo_poll_world"
  have mem: "demo_poll_task \<in> set (db_tasks (db demo_poll_world))" "\<not> IsTerminal (Task_Status demo_poll_task)"
    "Task_Id demo_poll_task = 1"
    by (simp_all add: demo_poll_world_def world_of_def IsTerminal_def demo_poll_task_def demo_task_def)
  have 0: "poll_step demo_adaptor ?w0 (?w0\<lparr>p_worker := (\<lambda>_. Idle)(0 := Holds demo_poll_task (Fails ''timeout'' []))\<rparr>)"
    using poll_step.reads [of demo_poll_task ?w0 0 demo_adaptor "Fails ''timeout'' []"] mem
    by (simp add: poll_start_def)
  have 1: "poll_step demo_adaptor (?w0\<lparr>p_worker := (\<lambda>_. Idle)(0 := Holds demo_poll_task (Fails ''timeout'' []))\<rparr>)
      demo_poll_1"
    using poll_step.reads [of demo_poll_task "?w0\<lparr>p_worker := (\<lambda>_. Idle)(0 := Holds demo_poll_task (Fails ''timeout'' []))\<rparr>"
        1 demo_adaptor "Succeeds demo_success ''{}''"] mem
    by (simp add: poll_start_def demo_poll_1_def)
  have "fst (claim (Fails ''timeout'' []) demo_poll_task demo_poll_world)" by code_simp
  then have 2: "poll_step demo_adaptor demo_poll_1 demo_poll_2"
    using poll_step.wins [of demo_poll_1 0 demo_poll_task "Fails ''timeout'' []" "p_world demo_poll_2" demo_adaptor] mem
    by (simp add: demo_poll_1_def demo_poll_2_def poll_start_def prod_eq_iff)
  have "\<not> fst (claim (Succeeds demo_success ''{}'') demo_poll_task (p_world demo_poll_2))" by code_simp
  then have 3: "poll_step demo_adaptor demo_poll_2 demo_poll_3"
    using poll_step.loses [of demo_poll_2 1 demo_poll_task "Succeeds demo_success ''{}''" "p_world demo_poll_3" demo_adaptor]
    by (simp add: demo_poll_1_def demo_poll_2_def demo_poll_3_def poll_start_def prod_eq_iff)
  have 4: "poll_step demo_adaptor demo_poll_3 demo_poll_4"
    using poll_step.pays [of demo_poll_3 0 demo_poll_task "Fails ''timeout'' []" demo_adaptor] mem
    by (simp add: demo_poll_1_def demo_poll_2_def demo_poll_3_def demo_poll_4_def poll_start_def)
  show ?thesis
    by (rule poll_reach.step [OF poll_reach.step [OF poll_reach.step [OF poll_reach.step
          [OF poll_reach.step [OF poll_reach.start 0] 1] 2] 3] 4])
qed

theorem settles_at_most_once_witness:
  "distinct (map fst (p_paid demo_poll_4)) \<and> p_paid demo_poll_4 = [(1, Fails ''timeout'' [])]
   \<and> status_of (p_world demo_poll_4) 1 = Some TaskStatusFailure \<and> user_bal (p_world demo_poll_4) 1 = Some 130"
proof -
  have "tasks_ok demo_poll_world" by code_simp
  note settles_at_most_once [OF demo_poll_reach this]
  moreover have "p_paid demo_poll_4 = [(1, Fails ''timeout'' [])]" by (simp add: demo_poll_4_def)
  moreover have "user_bal (p_world demo_poll_4) 1 = Some 130" by code_simp
  ultimately show ?thesis by simp
qed


section \<open>The adaptor interface\<close>

text \<open>
  What the poller relies on in an adaptor: a parsed result carries one of the declared statuses
  or none at all. Then every task row keeps a declared status.
\<close>

definition known_status :: "TaskStatus \<Rightarrow> bool" where
  "known_status s \<longleftrightarrow> (case s of TaskStatusOther x \<Rightarrow> False | _ \<Rightarrow> True)"

definition tasks_typed :: "World \<Rightarrow> bool" where
  "tasks_typed w \<longleftrightarrow> list_all (\<lambda>t. known_status (Task_Status t)) (db_tasks (db w))"

lemma tasks_typed_update:
  assumes "sql_update db_tasks db_tasks_update ok P f w = (r, w1)" and "tasks_typed w"
    and "\<And>t. known_status (Task_Status t) \<Longrightarrow> known_status (Task_Status (f t))"
  shows "tasks_typed w1"
  using assms
  by (cases r) (auto dest!: sql_update_Inl sql_update_Inr simp: tasks_typed_def list_all_iff update_where_def)

lemma tasks_typed_rows: "status_rows w1 = status_rows w \<Longrightarrow> tasks_typed w1 = tasks_typed w"
proof -
  have "tasks_typed v = list_all (\<lambda>p. known_status (snd p)) (status_rows v)" for v
    by (simp add: tasks_typed_def status_rows_def list.pred_map comp_def)
  then show "status_rows w1 = status_rows w \<Longrightarrow> tasks_typed w1 = tasks_typed w" by simp
qed

lemma claim_typed:
  assumes "tasks_typed w" and "\<And>i. v = Progresses i \<Longrightarrow> known_status (TI_Status i) \<or> TI_Status i = TaskStatusOther []"
    and "claim v t w = (b, w1)"
  shows "tasks_typed w1"
proof -
  have up: "tasks_typed v'" if "UpdateTaskStatus k s f w = (x, v')" "\<And>t. known_status (Task_Status (f t))" for k s f x v'
  proof -
    obtain r u where u: "sql_update db_tasks db_tasks_update (\<lambda>_. True) (\<lambda>t. Task_Id t = k \<and> Task_Status t = s) f w = (r, u)"
      by fastforce
    then have "v' = u" using that(1) by (cases r) (auto simp: UpdateTaskStatus_def)
    with tasks_typed_update [OF u assms(1)] that(2) show ?thesis by simp
  qed
  show ?thesis
  proof (cases v)
    case (Fails r raw)
    obtain x v' where x: "UpdateTaskStatus (Task_Id t) (Task_Status t) (fail_updates r raw (clock w)) w = (x, v')"
      by fastforce
    with up [OF x] Fails assms(3) show ?thesis by (cases x) (auto simp: known_status_def)
  next
    case (Succeeds i raw)
    obtain x v' where x: "UpdateTaskStatus (Task_Id t) (Task_Status t) (success_updates i raw (clock w)) w = (x, v')"
      by fastforce
    with up [OF x] Succeeds assms(3) show ?thesis by (cases x) (auto simp: known_status_def)
  next
    case (Progresses i)
    obtain r u where u: "sql_update db_tasks db_tasks_update (\<lambda>_. True)
        (\<lambda>x. Task_Id x = Task_Id t \<and> \<not> IsTerminal (Task_Status x)) (progress_updates i t (clock w)) w = (r, u)"
      by fastforce
    then have "w1 = u" using assms(3) Progresses
      by (cases r) (auto simp: UpdateTaskNonTerminal_def err_only_def)
    moreover have "known_status (TI_Status i) \<or> TI_Status i = TaskStatusOther []"
      using assms(2) Progresses by blast
    then have "known_status (Task_Status x) \<Longrightarrow> known_status (Task_Status (progress_updates i t (clock w) x))" for x
      by (auto simp: progress_updates_def Let_def)
    ultimately show ?thesis using tasks_typed_update [OF u assms(1)] by simp
  qed
qed

end
