(* ===== verification/RatioTables.thy ===== *)
theory RatioTables
  imports GoFloat
begin

text \<open>
  The price tables of \<open>relay/billing/ratio/model.go\<close>, in the order of the source. Go evaluates
  constant expressions exactly, so the entries are rationals and are rounded to \<open>float64\<close> only as
  table values. \<open>RMB\<close> is a quotient of two untyped integer constants: Go truncates it.
\<close>

definition USD2RMB :: int where "USD2RMB = 7"
definition USD :: int where "USD = 500"
definition MILLI_USD :: rat where "MILLI_USD = 1 / 1000 * of_int USD"
definition RMB :: int where "RMB = go_div USD USD2RMB"

definition ModelRatio_1 :: "(string \<times> rat) list" where
  "ModelRatio_1 =
    [(''gpt-4'', 15),
     (''gpt-4-0314'', 15),
     (''gpt-4-0613'', 15),
     (''gpt-4-32k'', 30),
     (''gpt-4-32k-0314'', 30),
     (''gpt-4-32k-0613'', 30),
     (''gpt-4-1106-preview'', 5),
     (''gpt-4-0125-preview'', 5),
     (''gpt-4-turbo-preview'', 5),
     (''gpt-4-turbo'', 5),
     (''gpt-4-turbo-2024-04-09'', 5),
     (''gpt-4o'', 25 / 10),
     (''chatgpt-4o-latest'', 25 / 10),
     (''gpt-4o-2024-05-13'', 25 / 10),
     (''gpt-4o-2024-08-06'', 125 / 100),
     (''gpt-4o-2024-11-20'', 125 / 100),
     (''gpt-4o-mini'', 75 / 1000),
     (''gpt-4o-mini-2024-07-18'', 75 / 1000),
     (''gpt-4-vision-preview'', 5),
     (''gpt-3.5-turbo'', 25 / 100),
     (''gpt-3.5-turbo-0301'', 75 / 100),
     (''gpt-3.5-turbo-0613'', 75 / 100),
     (''gpt-3.5-turbo-16k'', 15 / 10),
     (''gpt-3.5-turbo-16k-0613'', 15 / 10),
     (''gpt-3.5-turbo-instruct'', 75 / 100),
     (''gpt-3.5-turbo-1106'', 5 / 10),
     (''gpt-3.5-turbo-0125'', 25 / 100),
     (''o1'', 75 / 10),
     (''o1-2024-12-17'', 75 / 10),
     (''o1-preview'', 75 / 10),
     (''o1-preview-2024-09-12'', 75 / 10),
     (''o1-mini'', 15 / 10),
     (''o1-mini-2024-09-12'', 15 / 10),
     (''o3-mini'', 15 / 10),
     (''o3-mini-2025-01-31'', 15 / 10),
     (''davinci-002'', 1),
     (''babbage-002'', 2 / 10),
     (''text-ada-001'', 2 / 10),
     (''text-babbage-001'', 25 / 100),
     (''text-curie-001'', 1),
     (''text-davinci-002'', 10),
     (''text-davinci-003'', 10),
     (''text-davinci-edit-001'', 10),
     (''code-davinci-edit-001'', 10),
     (''whisper-1'', 15),
     (''tts-1'', 75 / 10),
     (''tts-1-1106'', 75 / 10),
     (''tts-1-hd'', 15),
     (''tts-1-hd-1106'', 15),
     (''davinci'', 10),
     (''curie'', 10),
     (''babbage'', 10),
     (''ada'', 10),
     (''text-embedding-ada-002'', 5 / 100),
     (''text-embedding-3-small'', 1 / 100),
     (''text-embedding-3-large'', 65 / 1000),
     (''text-search-ada-doc-001'', 10),
     (''text-moderation-stable'', 1 / 10),
     (''text-moderation-latest'', 1 / 10),
     (''dall-e-2'', (2 / 100) * of_int USD),
     (''dall-e-3'', (4 / 100) * of_int USD),
     (''claude-instant-1.2'', (8 / 10) / 1000 * of_int USD),
     (''claude-2.0'', (80 / 10) / 1000 * of_int USD),
     (''claude-2.1'', (80 / 10) / 1000 * of_int USD),
     (''claude-3-haiku-20240307'', (25 / 100) / 1000 * of_int USD),
     (''claude-3-5-haiku-20241022'', (10 / 10) / 1000 * of_int USD),
     (''claude-3-5-haiku-latest'', (10 / 10) / 1000 * of_int USD),
     (''claude-3-sonnet-20240229'', (30 / 10) / 1000 * of_int USD),
     (''claude-3-5-sonnet-20240620'', (30 / 10) / 1000 * of_int USD),
     (''claude-3-5-sonnet-20241022'', (30 / 10) / 1000 * of_int USD),
     (''claude-3-5-sonnet-latest'', (30 / 10) / 1000 * of_int USD),
     (''claude-3-opus-20240229'', (150 / 10) / 1000 * of_int USD),
     (''ERNIE-4.0-8K'', (120 / 1000) * of_int RMB),
     (''ERNIE-3.5-8K'', (12 / 1000) * of_int RMB),
     (''ERNIE-3.5-8K-0205'', (24 / 1000) * of_int RMB),
     (''ERNIE-3.5-8K-1222'', (12 / 1000) * of_int RMB),
     (''ERNIE-Bot-8K'', (24 / 1000) * of_int RMB),
     (''ERNIE-3.5-4K-0205'', (12 / 1000) * of_int RMB),
     (''ERNIE-Speed-8K'', (4 / 1000) * of_int RMB),
     (''ERNIE-Speed-128K'', (4 / 1000) * of_int RMB),
     (''ERNIE-Lite-8K-0922'', (8 / 1000) * of_int RMB),
     (''ERNIE-Lite-8K-0308'', (3 / 1000) * of_int RMB),
     (''ERNIE-Tiny-8K'', (1 / 1000) * of_int RMB),
     (''BLOOMZ-7B'', (4 / 1000) * of_int RMB),
     (''Embedding-V1'', (2 / 1000) * of_int RMB),
     (''bge-large-zh'', (2 / 1000) * of_int RMB),
     (''bge-large-en'', (2 / 1000) * of_int RMB),
     (''tao-8k'', (2 / 1000) * of_int RMB),
     (''gemini-pro'', (25 / 100) * MILLI_USD),
     (''gemini-1.0-pro'', (125 / 1000) * MILLI_USD),
     (''gemini-1.5-pro'', (125 / 100) * MILLI_USD),
     (''gemini-1.5-pro-001'', (125 / 100) * MILLI_USD),
     (''gemini-1.5-pro-experimental'', (125 / 100) * MILLI_USD),
     (''gemini-1.5-flash'', (75 / 1000) * MILLI_USD),
     (''gemini-1.5-flash-001'', (75 / 1000) * MILLI_USD),
     (''gemini-1.5-flash-8b'', (375 / 10000) * MILLI_USD),
     (''gemini-2.0-flash-exp'', (75 / 1000) * MILLI_USD),
     (''gemini-2.0-flash'', (15 / 100) * MILLI_USD),
     (''gemini-2.0-flash-001'', (15 / 100) * MILLI_USD),
     (''gemini-2.0-flash-lite-preview-02-05'', (75 / 1000) * MILLI_USD),
     (''gemini-2.0-flash-thinking-exp-01-21'', (75 / 1000) * MILLI_USD),
     (''gemini-2.0-pro-exp-02-05'', (125 / 100) * MILLI_USD),
     (''aqa'', 1)]"

definition ModelRatio_2 :: "(string \<times> rat) list" where
  "ModelRatio_2 =
    [(''glm-zero-preview'', (1 / 100) * of_int RMB),
     (''glm-4-plus'', (5 / 100) * of_int RMB),
     (''glm-4-0520'', (1 / 10) * of_int RMB),
     (''glm-4-airx'', (1 / 100) * of_int RMB),
     (''glm-4-air'', (5 / 10000) * of_int RMB),
     (''glm-4-long'', (1 / 1000) * of_int RMB),
     (''glm-4-flashx'', (1 / 10000) * of_int RMB),
     (''glm-4-flash'', 0),
     (''glm-4'', (1 / 10) * of_int RMB),
     (''glm-3-turbo'', (1 / 1000) * of_int RMB),
     (''glm-4v-plus'', (4 / 1000) * of_int RMB),
     (''glm-4v'', (5 / 100) * of_int RMB),
     (''glm-4v-flash'', 0),
     (''cogview-3-plus'', (6 / 100) * of_int RMB),
     (''cogview-3'', (1 / 10) * of_int RMB),
     (''cogview-3-flash'', 0),
     (''cogviewx'', (5 / 10) * of_int RMB),
     (''cogviewx-flash'', 0),
     (''charglm-4'', (1 / 1000) * of_int RMB),
     (''emohaa'', (15 / 1000) * of_int RMB),
     (''codegeex-4'', (1 / 10000) * of_int RMB),
     (''embedding-2'', (5 / 10000) * of_int RMB),
     (''embedding-3'', (5 / 10000) * of_int RMB),
     (''qwen-turbo'', (3 / 10000) * of_int RMB),
     (''qwen-turbo-latest'', (3 / 10000) * of_int RMB),
     (''qwen-plus'', (8 / 10000) * of_int RMB),
     (''qwen-plus-latest'', (8 / 10000) * of_int RMB),
     (''qwen-max'', (24 / 10000) * of_int RMB),
     (''qwen-max-latest'', (24 / 10000) * of_int RMB),
     (''qwen-max-longcontext'', (5 / 10000) * of_int RMB),
     (''qwen-vl-max'', (3 / 1000) * of_int RMB),
     (''qwen-vl-max-latest'', (3 / 1000) * of_int RMB),
     (''qwen-vl-plus'', (15 / 10000) * of_int RMB),
     (''qwen-vl-plus-latest'', (15 / 10000) * of_int RMB),
     (''qwen-vl-ocr'', (5 / 1000) * of_int RMB),
     (''qwen-vl-ocr-latest'', (5 / 1000) * of_int RMB),
     (''qwen-audio-turbo'', 14286 / 10000),
     (''qwen-math-plus'', (4 / 1000) * of_int RMB),
     (''qwen-math-plus-latest'', (4 / 1000) * of_int RMB),
     (''qwen-math-turbo'', (2 / 1000) * of_int RMB),
     (''qwen-math-turbo-latest'', (2 / 1000) * of_int RMB),
     (''qwen-coder-plus'', (35 / 10000) * of_int RMB),
     (''qwen-coder-plus-latest'', (35 / 10000) * of_int RMB),
     (''qwen-coder-turbo'', (2 / 1000) * of_int RMB),
     (''qwen-coder-turbo-latest'', (2 / 1000) * of_int RMB),
     (''qwen-mt-plus'', (15 / 1000) * of_int RMB),
     (''qwen-mt-turbo'', (1 / 1000) * of_int RMB),
     (''qwq-32b-preview'', (2 / 1000) * of_int RMB),
     (''qwen2.5-72b-instruct'', (4 / 1000) * of_int RMB),
     (''qwen2.5-32b-instruct'', (3 / 100) * of_int RMB),
     (''qwen2.5-14b-instruct'', (1 / 1000) * of_int RMB),
     (''qwen2.5-7b-instruct'', (5 / 10000) * of_int RMB),
     (''qwen2.5-3b-instruct'', (6 / 1000) * of_int RMB),
     (''qwen2.5-1.5b-instruct'', (3 / 10000) * of_int RMB),
     (''qwen2.5-0.5b-instruct'', (3 / 10000) * of_int RMB),
     (''qwen2-72b-instruct'', (4 / 1000) * of_int RMB),
     (''qwen2-57b-a14b-instruct'', (35 / 10000) * of_int RMB),
     (''qwen2-7b-instruct'', (1 / 1000) * of_int RMB),
     (''qwen2-1.5b-instruct'', (1 / 1000) * of_int RMB),
     (''qwen2-0.5b-instruct'', (1 / 1000) * of_int RMB),
     (''qwen1.5-110b-chat'', (7 / 1000) * of_int RMB),
     (''qwen1.5-72b-chat'', (5 / 1000) * of_int RMB),
     (''qwen1.5-32b-chat'', (35 / 10000) * of_int RMB),
     (''qwen1.5-14b-chat'', (2 / 1000) * of_int RMB),
     (''qwen1.5-7b-chat'', (1 / 1000) * of_int RMB),
     (''qwen1.5-1.8b-chat'', (1 / 1000) * of_int RMB),
     (''qwen1.5-0.5b-chat'', (1 / 1000) * of_int RMB),
     (''qwen-72b-chat'', (2 / 100) * of_int RMB),
     (''qwen-14b-chat'', (8 / 1000) * of_int RMB),
     (''qwen-7b-chat'', (6 / 1000) * of_int RMB),
     (''qwen-1.8b-chat'', (6 / 1000) * of_int RMB),
     (''qwen-1.8b-longcontext-chat'', (6 / 1000) * of_int RMB),
     (''qvq-72b-preview'', (12 / 1000) * of_int RMB),
     (''qwen2.5-vl-72b-instruct'', (16 / 1000) * of_int RMB),
     (''qwen2.5-vl-7b-instruct'', (2 / 1000) * of_int RMB),
     (''qwen2.5-vl-3b-instruct'', (12 / 10000) * of_int RMB),
     (''qwen2-vl-7b-instruct'', (16 / 1000) * of_int RMB),
     (''qwen2-vl-2b-instruct'', (2 / 1000) * of_int RMB),
     (''qwen-vl-v1'', (2 / 1000) * of_int RMB),
     (''qwen-vl-chat-v1'', (2 / 1000) * of_int RMB),
     (''qwen2-audio-instruct'', (2 / 1000) * of_int RMB),
     (''qwen-audio-chat'', (2 / 1000) * of_int RMB),
     (''qwen2.5-math-72b-instruct'', (4 / 1000) * of_int RMB),
     (''qwen2.5-math-7b-instruct'', (1 / 1000) * of_int RMB),
     (''qwen2.5-math-1.5b-instruct'', (1 / 1000) * of_int RMB),
     (''qwen2-math-72b-instruct'', (4 / 1000) * of_int RMB),
     (''qwen2-math-7b-instruct'', (1 / 1000) * of_int RMB),
     (''qwen2-math-1.5b-instruct'', (1 / 1000) * of_int RMB),
     (''qwen2.5-coder-32b-instruct'', (2 / 1000) * of_int RMB),
     (''qwen2.5-coder-14b-instruct'', (2 / 1000) * of_int RMB),
     (''qwen2.5-coder-7b-instruct'', (1 / 1000) * of_int RMB),
     (''qwen2.5-coder-3b-instruct'', (1 / 1000) * of_int RMB),
     (''qwen2.5-coder-1.5b-instruct'', (1 / 1000) * of_int RMB),
     (''qwen2.5-coder-0.5b-instruct'', (1 / 1000) * of_int RMB),
     (''text-embedding-v1'', (7 / 10000) * of_int RMB),
     (''text-embedding-v3'', (7 / 10000) * of_int RMB),
     (''text-embedding-v2'', (7 / 10000) * of_int RMB),
     (''text-embedding-async-v2'', (7 / 10000) * of_int RMB),
     (''text-embedding-async-v1'', (7 / 10000) * of_int RMB),
     (''ali-stable-diffusion-xl'', 800 / 100),
     (''ali-stable-diffusion-v1.5'', 800 / 100),
     (''wanx-v1'', 800 / 100),
     (''deepseek-r1'', (2 / 1000) * of_int RMB),
     (''deepseek-v3'', (1 / 1000) * of_int RMB),
     (''deepseek-r1-distill-qwen-1.5b'', (1 / 1000) * of_int RMB),
     (''deepseek-r1-distill-qwen-7b'', (5 / 10000) * of_int RMB),
     (''deepseek-r1-distill-qwen-14b'', (1 / 1000) * of_int RMB),
     (''deepseek-r1-distill-qwen-32b'', (2 / 1000) * of_int RMB),
     (''deepseek-r1-distill-llama-8b'', (5 / 10000) * of_int RMB),
     (''deepseek-r1-distill-llama-70b'', (4 / 1000) * of_int RMB),
     (''SparkDesk'', 12858 / 10000),
     (''SparkDesk-v1.1'', 12858 / 10000),
     (''SparkDesk-v2.1'', 12858 / 10000),
     (''SparkDesk-v3.1'', 12858 / 10000),
     (''SparkDesk-v3.1-128K'', 12858 / 10000),
     (''SparkDesk-v3.5'', 12858 / 10000),
     (''SparkDesk-v3.5-32K'', 12858 / 10000),
     (''SparkDesk-v4.0'', 12858 / 10000),
     (''360GPT_S2_V9'', 8572 / 10000),
     (''embedding-bert-512-v1'', 715 / 10000),
     (''embedding_s1_v1'', 715 / 10000),
     (''semantic_similarity_s1_v1'', 715 / 10000)]"

definition ModelRatio_3 :: "(string \<times> rat) list" where
  "ModelRatio_3 =
    [(''hunyuan-turbo'', (15 / 1000) * of_int RMB),
     (''hunyuan-large'', (4 / 1000) * of_int RMB),
     (''hunyuan-large-longcontext'', (6 / 1000) * of_int RMB),
     (''hunyuan-standard'', (8 / 10000) * of_int RMB),
     (''hunyuan-standard-256K'', (5 / 10000) * of_int RMB),
     (''hunyuan-translation-lite'', (5 / 1000) * of_int RMB),
     (''hunyuan-role'', (4 / 1000) * of_int RMB),
     (''hunyuan-functioncall'', (4 / 1000) * of_int RMB),
     (''hunyuan-code'', (4 / 1000) * of_int RMB),
     (''hunyuan-turbo-vision'', (8 / 100) * of_int RMB),
     (''hunyuan-vision'', (18 / 1000) * of_int RMB),
     (''hunyuan-embedding'', (7 / 10000) * of_int RMB),
     (''seedance-2.0'', 35 / 10),
     (''seedance-2.0-fast'', 28 / 10),
     (''doubao-seedance-2-0-260128'', 35 / 10),
     (''doubao-seedance-2-0-fast-260128'', 28 / 10),
     (''moonshot-v1-8k'', (12 / 1000) * of_int RMB),
     (''moonshot-v1-32k'', (24 / 1000) * of_int RMB),
     (''moonshot-v1-128k'', (6 / 100) * of_int RMB),
     (''Baichuan2-Turbo'', (8 / 1000) * of_int RMB),
     (''Baichuan2-Turbo-192k'', (16 / 1000) * of_int RMB),
     (''Baichuan2-53B'', (2 / 100) * of_int RMB),
     (''abab6.5-chat'', (3 / 100) * of_int RMB),
     (''abab6.5s-chat'', (1 / 100) * of_int RMB),
     (''abab6-chat'', (1 / 10) * of_int RMB),
     (''abab5.5-chat'', (15 / 1000) * of_int RMB),
     (''abab5.5s-chat'', (5 / 1000) * of_int RMB),
     (''open-mistral-7b'', (25 / 100) / 1000 * of_int USD),
     (''open-mixtral-8x7b'', (7 / 10) / 1000 * of_int USD),
     (''mistral-small-latest'', (20 / 10) / 1000 * of_int USD),
     (''mistral-medium-latest'', (27 / 10) / 1000 * of_int USD),
     (''mistral-large-latest'', (80 / 10) / 1000 * of_int USD),
     (''mistral-embed'', (1 / 10) / 1000 * of_int USD),
     (''gemma-7b-it'', (7 / 100) / 1000000 * of_int USD),
     (''gemma2-9b-it'', (20 / 100) / 1000000 * of_int USD),
     (''llama-3.1-70b-versatile'', (59 / 100) / 1000000 * of_int USD),
     (''llama-3.1-8b-instant'', (5 / 100) / 1000000 * of_int USD),
     (''llama-3.2-11b-text-preview'', (5 / 100) / 1000000 * of_int USD),
     (''llama-3.2-11b-vision-preview'', (5 / 100) / 1000000 * of_int USD),
     (''llama-3.2-1b-preview'', (5 / 100) / 1000000 * of_int USD),
     (''llama-3.2-3b-preview'', (5 / 100) / 1000000 * of_int USD),
     (''llama-3.2-90b-text-preview'', (59 / 100) / 1000000 * of_int USD),
     (''llama-guard-3-8b'', (5 / 100) / 1000000 * of_int USD),
     (''llama3-70b-8192'', (59 / 100) / 1000000 * of_int USD),
     (''llama3-8b-8192'', (5 / 100) / 1000000 * of_int USD),
     (''llama3-groq-70b-8192-tool-use-preview'', (89 / 100) / 1000000 * of_int USD),
     (''llama3-groq-8b-8192-tool-use-preview'', (19 / 100) / 1000000 * of_int USD),
     (''mixtral-8x7b-32768'', (24 / 100) / 1000000 * of_int USD),
     (''yi-34b-chat-0205'', (25 / 10) / 1000 * of_int RMB),
     (''yi-34b-chat-200k'', (120 / 10) / 1000 * of_int RMB),
     (''yi-vl-plus'', (60 / 10) / 1000 * of_int RMB),
     (''step-1-8k'', (5 / 1000) / 1000 * of_int RMB),
     (''step-1-32k'', (15 / 1000) / 1000 * of_int RMB),
     (''step-1-128k'', (40 / 1000) / 1000 * of_int RMB),
     (''step-1-256k'', (95 / 1000) / 1000 * of_int RMB),
     (''step-1-flash'', (1 / 1000) / 1000 * of_int RMB),
     (''step-2-16k'', (38 / 1000) / 1000 * of_int RMB),
     (''step-1v-8k'', (5 / 1000) / 1000 * of_int RMB),
     (''step-1v-32k'', (15 / 1000) / 1000 * of_int RMB),
     (''llama3-8b-8192(33)'', (3 / 10000) / (2 / 1000)),
     (''llama3-70b-8192(33)'', (265 / 100000) / (2 / 1000)),
     (''command'', 5 / 10),
     (''command-nightly'', 5 / 10),
     (''command-light'', 5 / 10),
     (''command-light-nightly'', 5 / 10),
     (''command-r'', (5 / 10) / 1000 * of_int USD),
     (''command-r-plus'', (30 / 10) / 1000 * of_int USD),
     (''deepseek-chat'', (14 / 100) * MILLI_USD),
     (''deepseek-reasoner'', (55 / 100) * MILLI_USD),
     (''deepl-zh'', (250 / 10) / 1000 * of_int USD),
     (''deepl-en'', (250 / 10) / 1000 * of_int USD),
     (''deepl-ja'', (250 / 10) / 1000 * of_int USD),
     (''grok-beta'', (50 / 10) / 1000 * of_int USD),
     (''black-forest-labs/flux-1.1-pro'', (4 / 100) * of_int USD),
     (''black-forest-labs/flux-1.1-pro-ultra'', (6 / 100) * of_int USD),
     (''black-forest-labs/flux-canny-dev'', (25 / 1000) * of_int USD),
     (''black-forest-labs/flux-canny-pro'', (5 / 100) * of_int USD),
     (''black-forest-labs/flux-depth-dev'', (25 / 1000) * of_int USD),
     (''black-forest-labs/flux-depth-pro'', (5 / 100) * of_int USD),
     (''black-forest-labs/flux-dev'', (25 / 1000) * of_int USD),
     (''black-forest-labs/flux-dev-lora'', (32 / 1000) * of_int USD),
     (''black-forest-labs/flux-fill-dev'', (4 / 100) * of_int USD),
     (''black-forest-labs/flux-fill-pro'', (5 / 100) * of_int USD),
     (''black-forest-labs/flux-pro'', (55 / 1000) * of_int USD),
     (''black-forest-labs/flux-redux-dev'', (25 / 1000) * of_int USD),
     (''black-forest-labs/flux-redux-schnell'', (3 / 1000) * of_int USD),
     (''black-forest-labs/flux-schnell'', (3 / 1000) * of_int USD),
     (''black-forest-labs/flux-schnell-lora'', (2 / 100) * of_int USD),
     (''ideogram-ai/ideogram-v2'', (8 / 100) * of_int USD),
     (''ideogram-ai/ideogram-v2-turbo'', (5 / 100) * of_int USD),
     (''recraft-ai/recraft-v3'', (4 / 100) * of_int USD),
     (''recraft-ai/recraft-v3-svg'', (8 / 100) * of_int USD),
     (''stability-ai/stable-diffusion-3'', (35 / 1000) * of_int USD),
     (''stability-ai/stable-diffusion-3.5-large'', (65 / 1000) * of_int USD),
     (''stability-ai/stable-diffusion-3.5-large-turbo'', (4 / 100) * of_int USD),
     (''stability-ai/stable-diffusion-3.5-medium'', (35 / 1000) * of_int USD)]"

definition ModelRatio_4 :: "(string \<times> rat) list" where
  "ModelRatio_4 =
    [(''ibm-granite/granite-20b-code-instruct-8k'', (100 / 1000) * of_int USD),
     (''ibm-granite/granite-3.0-2b-instruct'', (30 / 1000) * of_int USD),
     (''ibm-granite/granite-3.0-8b-instruct'', (50 / 1000) * of_int USD),
     (''ibm-granite/granite-8b-code-instruct-128k'', (50 / 1000) * of_int USD),
     (''meta/llama-2-13b'', (100 / 1000) * of_int USD),
     (''meta/llama-2-13b-chat'', (100 / 1000) * of_int USD),
     (''meta/llama-2-70b'', (650 / 1000) * of_int USD),
     (''meta/llama-2-70b-chat'', (650 / 1000) * of_int USD),
     (''meta/llama-2-7b'', (50 / 1000) * of_int USD),
     (''meta/llama-2-7b-chat'', (50 / 1000) * of_int USD),
     (''meta/meta-llama-3.1-405b-instruct'', (9500 / 1000) * of_int USD),
     (''meta/meta-llama-3-70b'', (650 / 1000) * of_int USD),
     (''meta/meta-llama-3-70b-instruct'', (650 / 1000) * of_int USD),
     (''meta/meta-llama-3-8b'', (50 / 1000) * of_int USD),
     (''meta/meta-llama-3-8b-instruct'', (50 / 1000) * of_int USD),
     (''mistralai/mistral-7b-instruct-v0.2'', (50 / 1000) * of_int USD),
     (''mistralai/mistral-7b-v0.1'', (50 / 1000) * of_int USD),
     (''mistralai/mixtral-8x7b-instruct-v0.1'', (300 / 1000) * of_int USD),
     (''01-ai/yi-large'', 15 / 10),
     (''aetherwiing/mn-starcannon-12b'', 6 / 10),
     (''ai21/jamba-1-5-large'', 40 / 10),
     (''ai21/jamba-1-5-mini'', 2 / 10),
     (''ai21/jamba-instruct'', 35 / 100),
     (''aion-labs/aion-1.0'', 60 / 10),
     (''aion-labs/aion-1.0-mini'', 12 / 10),
     (''aion-labs/aion-rp-llama-3.1-8b'', 1 / 10),
     (''allenai/llama-3.1-tulu-3-405b'', 50 / 10),
     (''alpindale/goliath-120b'', 46875 / 10000),
     (''alpindale/magnum-72b'', 1125 / 1000),
     (''amazon/nova-lite-v1'', 12 / 100),
     (''amazon/nova-micro-v1'', 7 / 100),
     (''amazon/nova-pro-v1'', 16 / 10),
     (''anthracite-org/magnum-v2-72b'', 15 / 10),
     (''anthracite-org/magnum-v4-72b'', 1125 / 1000),
     (''anthropic/claude-2'', 120 / 10),
     (''anthropic/claude-2.0'', 120 / 10),
     (''anthropic/claude-2.0:beta'', 120 / 10),
     (''anthropic/claude-2.1'', 120 / 10),
     (''anthropic/claude-2.1:beta'', 120 / 10),
     (''anthropic/claude-2:beta'', 120 / 10),
     (''anthropic/claude-3-haiku'', 625 / 1000),
     (''anthropic/claude-3-haiku:beta'', 625 / 1000),
     (''anthropic/claude-3-opus'', 375 / 10),
     (''anthropic/claude-3-opus:beta'', 375 / 10),
     (''anthropic/claude-3-sonnet'', 75 / 10),
     (''anthropic/claude-3-sonnet:beta'', 75 / 10),
     (''anthropic/claude-3.5-haiku'', 20 / 10),
     (''anthropic/claude-3.5-haiku-20241022'', 20 / 10),
     (''anthropic/claude-3.5-haiku-20241022:beta'', 20 / 10),
     (''anthropic/claude-3.5-haiku:beta'', 20 / 10),
     (''anthropic/claude-3.5-sonnet'', 75 / 10),
     (''anthropic/claude-3.5-sonnet-20240620'', 75 / 10),
     (''anthropic/claude-3.5-sonnet-20240620:beta'', 75 / 10),
     (''anthropic/claude-3.5-sonnet:beta'', 75 / 10),
     (''cognitivecomputations/dolphin-mixtral-8x22b'', 45 / 100),
     (''cognitivecomputations/dolphin-mixtral-8x7b'', 25 / 100),
     (''cohere/command'', 95 / 100),
     (''cohere/command-r'', 7125 / 10000),
     (''cohere/command-r-03-2024'', 7125 / 10000),
     (''cohere/command-r-08-2024'', 285 / 1000),
     (''cohere/command-r-plus'', 7125 / 1000),
     (''cohere/command-r-plus-04-2024'', 7125 / 1000),
     (''cohere/command-r-plus-08-2024'', 475 / 100),
     (''cohere/command-r7b-12-2024'', 75 / 1000),
     (''databricks/dbrx-instruct'', 6 / 10),
     (''deepseek/deepseek-chat'', 445 / 1000),
     (''deepseek/deepseek-chat-v2.5'', 10 / 10),
     (''deepseek/deepseek-chat:free'', 0 / 10),
     (''deepseek/deepseek-r1'', 12 / 10),
     (''deepseek/deepseek-r1-distill-llama-70b'', 345 / 1000),
     (''deepseek/deepseek-r1-distill-llama-70b:free'', 0 / 10),
     (''deepseek/deepseek-r1-distill-llama-8b'', 2 / 100),
     (''deepseek/deepseek-r1-distill-qwen-1.5b'', 9 / 100),
     (''deepseek/deepseek-r1-distill-qwen-14b'', 75 / 1000),
     (''deepseek/deepseek-r1-distill-qwen-32b'', 9 / 100),
     (''deepseek/deepseek-r1:free'', 0 / 10),
     (''eva-unit-01/eva-llama-3.33-70b'', 30 / 10),
     (''eva-unit-01/eva-qwen-2.5-32b'', 17 / 10),
     (''eva-unit-01/eva-qwen-2.5-72b'', 30 / 10),
     (''google/gemini-2.0-flash-001'', 2 / 10),
     (''google/gemini-2.0-flash-exp:free'', 0 / 10),
     (''google/gemini-2.0-flash-lite-preview-02-05:free'', 0 / 10),
     (''google/gemini-2.0-flash-thinking-exp-1219:free'', 0 / 10),
     (''google/gemini-2.0-flash-thinking-exp:free'', 0 / 10),
     (''google/gemini-2.0-pro-exp-02-05:free'', 0 / 10),
     (''google/gemini-exp-1206:free'', 0 / 10),
     (''google/gemini-flash-1.5'', 15 / 100),
     (''google/gemini-flash-1.5-8b'', 75 / 1000),
     (''google/gemini-flash-1.5-8b-exp'', 0 / 10),
     (''google/gemini-pro'', 75 / 100),
     (''google/gemini-pro-1.5'', 25 / 10),
     (''google/gemini-pro-vision'', 75 / 100),
     (''google/gemma-2-27b-it'', 135 / 1000),
     (''google/gemma-2-9b-it'', 3 / 100),
     (''google/gemma-2-9b-it:free'', 0 / 10),
     (''google/gemma-7b-it'', 75 / 1000),
     (''google/learnlm-1.5-pro-experimental:free'', 0 / 10),
     (''google/palm-2-chat-bison'', 10 / 10),
     (''google/palm-2-chat-bison-32k'', 10 / 10),
     (''google/palm-2-codechat-bison'', 10 / 10),
     (''google/palm-2-codechat-bison-32k'', 10 / 10),
     (''gryphe/mythomax-l2-13b'', 325 / 10000),
     (''gryphe/mythomax-l2-13b:free'', 0 / 10),
     (''huggingfaceh4/zephyr-7b-beta:free'', 0 / 10),
     (''infermatic/mn-inferor-12b'', 6 / 10),
     (''inflection/inflection-3-pi'', 50 / 10),
     (''inflection/inflection-3-productivity'', 50 / 10),
     (''jondurbin/airoboros-l2-70b'', 25 / 100),
     (''liquid/lfm-3b'', 1 / 100),
     (''liquid/lfm-40b'', 75 / 1000),
     (''liquid/lfm-7b'', 5 / 1000),
     (''mancer/weaver'', 1125 / 1000),
     (''meta-llama/llama-2-13b-chat'', 11 / 100),
     (''meta-llama/llama-2-70b-chat'', 45 / 100),
     (''meta-llama/llama-3-70b-instruct'', 2 / 10),
     (''meta-llama/llama-3-8b-instruct'', 3 / 100),
     (''meta-llama/llama-3-8b-instruct:free'', 0 / 10),
     (''meta-llama/llama-3.1-405b'', 10 / 10),
     (''meta-llama/llama-3.1-405b-instruct'', 4 / 10),
     (''meta-llama/llama-3.1-70b-instruct'', 15 / 100),
     (''meta-llama/llama-3.1-8b-instruct'', 25 / 1000),
     (''meta-llama/llama-3.2-11b-vision-instruct'', 275 / 10000),
     (''meta-llama/llama-3.2-11b-vision-instruct:free'', 0 / 10),
     (''meta-llama/llama-3.2-1b-instruct'', 5 / 1000)]"

definition ModelRatio_5 :: "(string \<times> rat) list" where
  "ModelRatio_5 =
    [(''meta-llama/llama-3.2-3b-instruct'', 125 / 10000),
     (''meta-llama/llama-3.2-90b-vision-instruct'', 8 / 10),
     (''meta-llama/llama-3.3-70b-instruct'', 15 / 100),
     (''meta-llama/llama-3.3-70b-instruct:free'', 0 / 10),
     (''meta-llama/llama-guard-2-8b'', 1 / 10),
     (''microsoft/phi-3-medium-128k-instruct'', 5 / 10),
     (''microsoft/phi-3-medium-128k-instruct:free'', 0 / 10),
     (''microsoft/phi-3-mini-128k-instruct'', 5 / 100),
     (''microsoft/phi-3-mini-128k-instruct:free'', 0 / 10),
     (''microsoft/phi-3.5-mini-128k-instruct'', 5 / 100),
     (''microsoft/phi-4'', 7 / 100),
     (''microsoft/wizardlm-2-7b'', 35 / 1000),
     (''microsoft/wizardlm-2-8x22b'', 25 / 100),
     (''minimax/minimax-01'', 55 / 100),
     (''mistralai/codestral-2501'', 45 / 100),
     (''mistralai/codestral-mamba'', 125 / 1000),
     (''mistralai/ministral-3b'', 2 / 100),
     (''mistralai/ministral-8b'', 5 / 100),
     (''mistralai/mistral-7b-instruct'', 275 / 10000),
     (''mistralai/mistral-7b-instruct-v0.1'', 1 / 10),
     (''mistralai/mistral-7b-instruct-v0.3'', 275 / 10000),
     (''mistralai/mistral-7b-instruct:free'', 0 / 10),
     (''mistralai/mistral-large'', 30 / 10),
     (''mistralai/mistral-large-2407'', 30 / 10),
     (''mistralai/mistral-large-2411'', 30 / 10),
     (''mistralai/mistral-medium'', 405 / 100),
     (''mistralai/mistral-nemo'', 4 / 100),
     (''mistralai/mistral-nemo:free'', 0 / 10),
     (''mistralai/mistral-small'', 3 / 10),
     (''mistralai/mistral-small-24b-instruct-2501'', 7 / 100),
     (''mistralai/mistral-small-24b-instruct-2501:free'', 0 / 10),
     (''mistralai/mistral-tiny'', 125 / 1000),
     (''mistralai/mixtral-8x22b-instruct'', 45 / 100),
     (''mistralai/mixtral-8x7b'', 3 / 10),
     (''mistralai/mixtral-8x7b-instruct'', 12 / 100),
     (''mistralai/pixtral-12b'', 5 / 100),
     (''mistralai/pixtral-large-2411'', 30 / 10),
     (''neversleep/llama-3-lumimaid-70b'', 225 / 100),
     (''neversleep/llama-3-lumimaid-8b'', 5625 / 10000),
     (''neversleep/llama-3-lumimaid-8b:extended'', 5625 / 10000),
     (''neversleep/llama-3.1-lumimaid-70b'', 225 / 100),
     (''neversleep/llama-3.1-lumimaid-8b'', 5625 / 10000),
     (''neversleep/noromaid-20b'', 1125 / 1000),
     (''nothingiisreal/mn-celeste-12b'', 6 / 10),
     (''nousresearch/hermes-2-pro-llama-3-8b'', 2 / 100),
     (''nousresearch/hermes-3-llama-3.1-405b'', 4 / 10),
     (''nousresearch/hermes-3-llama-3.1-70b'', 15 / 100),
     (''nousresearch/nous-hermes-2-mixtral-8x7b-dpo'', 3 / 10),
     (''nousresearch/nous-hermes-llama2-13b'', 85 / 1000),
     (''nvidia/llama-3.1-nemotron-70b-instruct'', 15 / 100),
     (''nvidia/llama-3.1-nemotron-70b-instruct:free'', 0 / 10),
     (''openai/chatgpt-4o-latest'', 75 / 10),
     (''openai/gpt-3.5-turbo'', 75 / 100),
     (''openai/gpt-3.5-turbo-0125'', 75 / 100),
     (''openai/gpt-3.5-turbo-0613'', 10 / 10),
     (''openai/gpt-3.5-turbo-1106'', 10 / 10),
     (''openai/gpt-3.5-turbo-16k'', 20 / 10),
     (''openai/gpt-3.5-turbo-instruct'', 10 / 10),
     (''openai/gpt-4'', 300 / 10),
     (''openai/gpt-4-0314'', 300 / 10),
     (''openai/gpt-4-1106-preview'', 150 / 10),
     (''openai/gpt-4-32k'', 600 / 10),
     (''openai/gpt-4-32k-0314'', 600 / 10),
     (''openai/gpt-4-turbo'', 150 / 10),
     (''openai/gpt-4-turbo-preview'', 150 / 10),
     (''openai/gpt-4o'', 50 / 10),
     (''openai/gpt-4o-2024-05-13'', 75 / 10),
     (''openai/gpt-4o-2024-08-06'', 50 / 10),
     (''openai/gpt-4o-2024-11-20'', 50 / 10),
     (''openai/gpt-4o-mini'', 3 / 10),
     (''openai/gpt-4o-mini-2024-07-18'', 3 / 10),
     (''openai/gpt-4o:extended'', 90 / 10),
     (''openai/o1'', 300 / 10),
     (''openai/o1-mini'', 22 / 10),
     (''openai/o1-mini-2024-09-12'', 22 / 10),
     (''openai/o1-preview'', 300 / 10),
     (''openai/o1-preview-2024-09-12'', 300 / 10),
     (''openai/o3-mini'', 22 / 10),
     (''openai/o3-mini-high'', 22 / 10),
     (''openchat/openchat-7b'', 275 / 10000),
     (''openchat/openchat-7b:free'', 0 / 10),
     (''openrouter/auto'', - 5000000 / 10),
     (''perplexity/llama-3.1-sonar-huge-128k-online'', 25 / 10),
     (''perplexity/llama-3.1-sonar-large-128k-chat'', 5 / 10),
     (''perplexity/llama-3.1-sonar-large-128k-online'', 5 / 10),
     (''perplexity/llama-3.1-sonar-small-128k-chat'', 1 / 10),
     (''perplexity/llama-3.1-sonar-small-128k-online'', 1 / 10),
     (''perplexity/sonar'', 5 / 10),
     (''perplexity/sonar-reasoning'', 25 / 10),
     (''pygmalionai/mythalion-13b'', 6 / 10),
     (''qwen/qvq-72b-preview'', 25 / 100),
     (''qwen/qwen-2-72b-instruct'', 45 / 100),
     (''qwen/qwen-2-7b-instruct'', 27 / 1000),
     (''qwen/qwen-2-7b-instruct:free'', 0 / 10),
     (''qwen/qwen-2-vl-72b-instruct'', 2 / 10),
     (''qwen/qwen-2-vl-7b-instruct'', 5 / 100),
     (''qwen/qwen-2.5-72b-instruct'', 2 / 10),
     (''qwen/qwen-2.5-7b-instruct'', 25 / 1000),
     (''qwen/qwen-2.5-coder-32b-instruct'', 8 / 100),
     (''qwen/qwen-max'', 32 / 10),
     (''qwen/qwen-plus'', 6 / 10),
     (''qwen/qwen-turbo'', 1 / 10),
     (''qwen/qwen-vl-plus:free'', 0 / 10),
     (''qwen/qwen2.5-vl-72b-instruct:free'', 0 / 10),
     (''qwen/qwq-32b-preview'', 9 / 100),
     (''raifle/sorcererlm-8x22b'', 225 / 100),
     (''sao10k/fimbulvetr-11b-v2'', 6 / 10),
     (''sao10k/l3-euryale-70b'', 4 / 10),
     (''sao10k/l3-lunaris-8b'', 3 / 100),
     (''sao10k/l3.1-70b-hanami-x1'', 15 / 10),
     (''sao10k/l3.1-euryale-70b'', 4 / 10),
     (''sao10k/l3.3-euryale-70b'', 4 / 10),
     (''sophosympatheia/midnight-rose-70b'', 4 / 10),
     (''sophosympatheia/rogue-rose-103b-v0.2:free'', 0 / 10),
     (''teknium/openhermes-2.5-mistral-7b'', 85 / 1000),
     (''thedrummer/rocinante-12b'', 25 / 100),
     (''thedrummer/unslopnemo-12b'', 25 / 100),
     (''undi95/remm-slerp-l2-13b'', 6 / 10),
     (''undi95/toppy-m-7b'', 35 / 1000),
     (''undi95/toppy-m-7b:free'', 0 / 10),
     (''x-ai/grok-2-1212'', 50 / 10),
     (''x-ai/grok-2-vision-1212'', 50 / 10),
     (''x-ai/grok-beta'', 75 / 10),
     (''x-ai/grok-vision-beta'', 75 / 10),
     (''xwin-lm/xwin-lm-70b'', 1875 / 1000)]"

definition ModelRatio_6 :: "(string \<times> rat) list" where
  "ModelRatio_6 =
    [(''claude-fable-5'', 35 / 10),
     (''claude-opus-4-8'', 175 / 100),
     (''claude-opus-4-7'', 175 / 100),
     (''claude-opus-4-6'', 175 / 100),
     (''claude-sonnet-4-6'', 105 / 100),
     (''claude-haiku-4-5'', 35 / 100),
     (''gpt-5.5'', 175 / 100),
     (''gpt-5.4'', 875 / 1000),
     (''gpt-5.4-mini'', 2625 / 10000),
     (''gpt-oss-120b'', 195 / 10000),
     (''gpt-oss-20b'', 15 / 1000),
     (''gemini-3.1-pro-preview'', 7 / 10),
     (''gemini-3.1-flash-lite-preview'', 875 / 10000),
     (''grok-4.20'', 1),
     (''deepseek-v4-pro'', 609 / 1000),
     (''deepseek-v4-flash'', 49 / 1000),
     (''deepseek-v3.2-exp'', 135 / 1000),
     (''deepseek-v3.1-terminus'', 105 / 1000),
     (''deepseek-chat-v3.1'', 75 / 1000),
     (''deepseek-chat-v3-0324'', 1 / 10),
     (''glm-5.1'', 385 / 1000),
     (''glm-5'', 275 / 1000),
     (''glm-4.7'', 2 / 10),
     (''glm-4.7-flash'', 3 / 100),
     (''glm-4.6'', 195 / 1000),
     (''glm-4.5-air'', 65 / 1000),
     (''kimi-k2.6'', 3325 / 10000),
     (''kimi-k2.5'', 21 / 100),
     (''MiniMax-M2.7'', 105 / 1000),
     (''MiniMax-M2.5'', 105 / 1000),
     (''qwen3.5-plus'', 403 / 10000),
     (''qwen3.5-plus-02-15'', 2 / 10),
     (''qwen3.6-plus'', 966 / 10000),
     (''qwen3.5-flash'', 102 / 10000),
     (''qwen3.5-flash-02-23'', 5 / 100),
     (''qwen3-coder-plus'', 2009 / 10000),
     (''qwen3-coder-next'', 7 / 100),
     (''qwen3-coder'', 11 / 100),
     (''qwen3.5-397b-a17b'', 195 / 1000),
     (''qwen3.5-35b-a3b'', 125 / 1000),
     (''qwen3.5-27b'', 15 / 100),
     (''qwen3.5-9b'', 5 / 100),
     (''qwen3-vl-235b-a22b-instruct'', 1 / 10),
     (''qwen3-235b-a22b-2507'', 5 / 100),
     (''qwen3-next-80b-a3b-instruct'', 45 / 1000),
     (''qwen3-30b-a3b-instruct-2507'', 45 / 1000),
     (''qwen3-32b'', 4 / 100),
     (''mimo-v2.5-pro'', 5 / 10),
     (''mimo-v2.5'', 2 / 10),
     (''mimo-v2-flash'', 45 / 1000),
     (''step-3.5-flash'', 5 / 100),
     (''gemma-4-31b-it'', 65 / 1000),
     (''gemma-4-26b-a4b-it'', 65 / 1000),
     (''gemma-3-27b-it'', 4 / 100),
     (''gemma-3-12b-it'', 2 / 100),
     (''mistral-nemo'', 1 / 100),
     (''mistral-small-3.2-24b-instruct'', 375 / 10000),
     (''llama-4-maverick'', 75 / 1000),
     (''llama-3.3-70b-instruct'', 5 / 100),
     (''llama-3.1-70b-instruct'', 2 / 10),
     (''llama-3.1-8b-instruct'', 1 / 100),
     (''nemotron-3-super-120b-a12b'', 45 / 1000),
     (''nemotron-3-nano-30b-a3b'', 25 / 1000)]"

definition CompletionRatio_consts :: "(string \<times> rat) list" where
  "CompletionRatio_consts =
    [(''llama3-8b-8192(33)'', (6 / 10000) / (3 / 10000)),
     (''llama3-70b-8192(33)'', (35 / 10000) / (265 / 100000)),
     (''whisper-1'', 0),
     (''deepseek-chat'', (28 / 100) / (14 / 100)),
     (''deepseek-reasoner'', (219 / 100) / (55 / 100)),
     (''claude-fable-5'', 5),
     (''claude-opus-4-8'', 5),
     (''claude-opus-4-7'', 5),
     (''claude-opus-4-6'', 5),
     (''claude-sonnet-4-6'', 5),
     (''claude-haiku-4-5'', 5),
     (''gpt-5.5'', 6),
     (''gpt-5.4'', 6),
     (''gpt-5.4-mini'', 6),
     (''gpt-oss-120b'', 487 / 100),
     (''gpt-oss-20b'', 467 / 100),
     (''gemini-3.1-pro-preview'', 6),
     (''gemini-3.1-flash-lite-preview'', 6),
     (''grok-4.20'', 3),
     (''deepseek-v4-pro'', 2),
     (''deepseek-v4-flash'', 2),
     (''deepseek-v3.2-exp'', 152 / 100),
     (''deepseek-v3.1-terminus'', 376 / 100),
     (''deepseek-chat-v3.1'', 5),
     (''deepseek-chat-v3-0324'', 385 / 100),
     (''glm-5.1'', 314 / 100),
     (''glm-5'', 32 / 10),
     (''glm-4.7'', 4375 / 1000),
     (''glm-4.7-flash'', 667 / 100),
     (''glm-4.6'', 487 / 100),
     (''glm-4.5-air'', 654 / 100),
     (''kimi-k2.6'', 421 / 100),
     (''kimi-k2.5'', 5),
     (''MiniMax-M2.7'', 4),
     (''MiniMax-M2.5'', 4),
     (''qwen3.5-plus'', 6),
     (''qwen3.5-plus-02-15'', 6),
     (''qwen3.6-plus'', 6),
     (''qwen3.5-flash'', 99 / 10),
     (''qwen3.5-flash-02-23'', 4),
     (''qwen3-coder-plus'', 4),
     (''qwen3-coder-next'', 571 / 100),
     (''qwen3-coder'', 818 / 100),
     (''qwen3.5-397b-a17b'', 6),
     (''qwen3.5-35b-a3b'', 8),
     (''qwen3.5-27b'', 8),
     (''qwen3.5-9b'', 15 / 10),
     (''qwen3-vl-235b-a22b-instruct'', 44 / 10),
     (''qwen3-235b-a22b-2507'', 6),
     (''qwen3-next-80b-a3b-instruct'', 1222 / 100),
     (''qwen3-30b-a3b-instruct-2507'', 333 / 100),
     (''qwen3-32b'', 3),
     (''mimo-v2.5-pro'', 3),
     (''mimo-v2.5'', 5),
     (''mimo-v2-flash'', 322 / 100),
     (''step-3.5-flash'', 3),
     (''gemma-4-31b-it'', 292 / 100),
     (''gemma-4-26b-a4b-it'', 308 / 100),
     (''gemma-3-27b-it'', 2),
     (''gemma-3-12b-it'', 325 / 100),
     (''mistral-nemo'', 2),
     (''mistral-small-3.2-24b-instruct'', 267 / 100),
     (''llama-4-maverick'', 4),
     (''llama-3.3-70b-instruct'', 32 / 10),
     (''llama-3.1-70b-instruct'', 1),
     (''llama-3.1-8b-instruct'', 25 / 10),
     (''nemotron-3-super-120b-a12b'', 5),
     (''nemotron-3-nano-30b-a3b'', 4)]"

definition ModelRatio_consts :: "(string \<times> rat) list" where
  "ModelRatio_consts = ModelRatio_1 @ ModelRatio_2 @ ModelRatio_3 @ ModelRatio_4 @ ModelRatio_5 @ ModelRatio_6"

text \<open>The tables as the program holds them.\<close>

definition float_table :: "(string \<times> rat) list \<Rightarrow> (string \<times> float64) list" where
  "float_table t = map (\<lambda>(k, q). (k, fl q)) t"

definition DefaultModelRatio :: "(string \<times> float64) list" where
  "DefaultModelRatio = float_table ModelRatio_consts"

definition DefaultCompletionRatio :: "(string \<times> float64) list" where
  "DefaultCompletionRatio = float_table CompletionRatio_consts"

end
