(* ===== verification/Ratio.thy ===== *)
theory Ratio
  imports RatioTables Store
begin

text \<open>
  Price lookup (\<open>relay/billing/ratio\<close>): the model, completion and group ratio tables with their
  lookups and JSON updates, and the image tables. The three \<open>var\<close> maps are the fields of
  \<open>Ratios\<close>; a Go map is an association list read with \<open>map_of\<close>. \<open>encoding/json\<close> is a parameter:
  decoding yields the entries it stored in the (fresh) map and the error it returned, since
  \<open>json.Unmarshal\<close> keeps what it decoded before a type error.
\<close>

record Ratios =
  ModelRatio :: "(string \<times> float64) list"
  CompletionRatio :: "(string \<times> float64) list"
  GroupRatio :: "(string \<times> float64) list"

definition initial_ratios :: Ratios where
  "initial_ratios = \<lparr>ModelRatio = DefaultModelRatio, CompletionRatio = DefaultCompletionRatio,
     GroupRatio = [(''default'', Fin 1), (''vip'', Fin 1), (''svip'', Fin 1)]\<rparr>"

type_synonym decoder = "string \<Rightarrow> (string \<times> float64) list \<times> GoErr option"

section \<open>Group ratio\<close>

definition UpdateGroupRatioByJSONString :: "decoder \<Rightarrow> string \<Rightarrow> Ratios \<Rightarrow> GoErr option \<times> Ratios" where
  "UpdateGroupRatioByJSONString unmarshal s r =
     (snd (unmarshal s), r\<lparr>GroupRatio := fst (unmarshal s)\<rparr>)"

definition GetGroupRatio :: "string \<Rightarrow> Ratios \<Rightarrow> float64" where
  "GetGroupRatio name r = (case map_of (GroupRatio r) name of None \<Rightarrow> Fin 1 | Some x \<Rightarrow> x)"

section \<open>Model ratio\<close>

definition UpdateModelRatioByJSONString :: "decoder \<Rightarrow> string \<Rightarrow> Ratios \<Rightarrow> GoErr option \<times> Ratios" where
  "UpdateModelRatioByJSONString unmarshal s r =
     (snd (unmarshal s), r\<lparr>ModelRatio := fst (unmarshal s)\<rparr>)"

definition AddNewMissingRatio ::
  "decoder \<Rightarrow> ((string \<times> float64) list \<Rightarrow> string option) \<Rightarrow> string \<Rightarrow> string" where
  "AddNewMissingRatio unmarshal marshal oldRatio = (case unmarshal oldRatio of
       (newRatio, Some e) \<Rightarrow> oldRatio
     | (newRatio, None) \<Rightarrow>
         (case marshal (newRatio @ filter (\<lambda>(k, v). k \<notin> fst ` set newRatio) DefaultModelRatio) of
            None \<Rightarrow> oldRatio
          | Some jsonBytes \<Rightarrow> jsonBytes))"

definition channel_key :: "string \<Rightarrow> int \<Rightarrow> string" where
  "channel_key name channelType = name @ ''('' @ show_int channelType @ '')''"

definition strip_internet :: "string \<Rightarrow> string \<Rightarrow> string" where
  "strip_internet pfx name =
     (if has_prefix name pfx \<and> has_suffix name ''-internet''
      then trim_suffix name ''-internet'' else name)"

text \<open>The four lookups of the getters, in their order.\<close>

definition lookup4 ::
  "(string \<times> 'v) list \<Rightarrow> (string \<times> 'v) list \<Rightarrow> string \<Rightarrow> string \<Rightarrow> 'v option" where
  "lookup4 tbl defaults model name =
     (case map_of tbl model of Some x \<Rightarrow> Some x | None \<Rightarrow>
      (case map_of defaults model of Some x \<Rightarrow> Some x | None \<Rightarrow>
       (case map_of tbl name of Some x \<Rightarrow> Some x | None \<Rightarrow> map_of defaults name)))"

definition GetModelRatio :: "string \<Rightarrow> int \<Rightarrow> Ratios \<Rightarrow> float64" where
  "GetModelRatio name channelType r =
     (let name = strip_internet ''qwen-'' name;
          name = strip_internet ''command-'' name
      in case lookup4 (ModelRatio r) DefaultModelRatio (channel_key name channelType) name of
           Some x \<Rightarrow> x
         | None \<Rightarrow> Fin 30)"

text \<open>Evaluation looks at the built-in table only when the configured one has no entry.\<close>

lemma GetModelRatio_code [code]:
  "GetModelRatio name channelType r =
     (let name = strip_internet ''command-'' (strip_internet ''qwen-'' name)
      in case map_of (ModelRatio r) (channel_key name channelType) of Some x \<Rightarrow> x | None \<Rightarrow>
        (case map_of DefaultModelRatio (channel_key name channelType) of Some x \<Rightarrow> x | None \<Rightarrow>
          (case map_of (ModelRatio r) name of Some x \<Rightarrow> x | None \<Rightarrow>
            (case map_of DefaultModelRatio name of Some x \<Rightarrow> x | None \<Rightarrow> Fin 30))))"
  by (simp add: GetModelRatio_def lookup4_def Let_def split: option.split)

section \<open>Completion ratio\<close>

definition UpdateCompletionRatioByJSONString :: "decoder \<Rightarrow> string \<Rightarrow> Ratios \<Rightarrow> GoErr option \<times> Ratios" where
  "UpdateCompletionRatioByJSONString unmarshal s r =
     (snd (unmarshal s), r\<lparr>CompletionRatio := fst (unmarshal s)\<rparr>)"

text \<open>The final \<open>switch\<close> on exact names.\<close>

definition completion_cases :: "(string list \<times> rat) list" where
  "completion_cases =
    [([''llama2-70b-4096''], 0.8 / 0.64),
     ([''llama3-8b-8192''], 2),
     ([''llama3-70b-8192''], 0.79 / 0.59),
     ([''command'', ''command-light'', ''command-nightly'', ''command-light-nightly''], 2),
     ([''command-r''], 3),
     ([''command-r-plus''], 5),
     ([''grok-beta''], 3),
     ([''ibm-granite/granite-20b-code-instruct-8k''], 5),
     ([''ibm-granite/granite-3.0-2b-instruct''], 8.333333333333334),
     ([''ibm-granite/granite-3.0-8b-instruct'', ''ibm-granite/granite-8b-code-instruct-128k''], 5),
     ([''meta/llama-2-13b'', ''meta/llama-2-13b-chat'', ''meta/llama-2-7b'', ''meta/llama-2-7b-chat'',
       ''meta/meta-llama-3-8b'', ''meta/meta-llama-3-8b-instruct''], 5),
     ([''meta/llama-2-70b'', ''meta/llama-2-70b-chat'', ''meta/meta-llama-3-70b'',
       ''meta/meta-llama-3-70b-instruct''], 2.750 / 0.650),
     ([''meta/meta-llama-3.1-405b-instruct''], 1),
     ([''mistralai/mistral-7b-instruct-v0.2'', ''mistralai/mistral-7b-v0.1''], 5),
     ([''mistralai/mixtral-8x7b-instruct-v0.1''], 1.000 / 0.300)]"

definition completion_default :: "string \<Rightarrow> rat" where
  "completion_default name =
     (if has_prefix name ''gpt-3.5'' then
        (if name = ''gpt-3.5-turbo'' \<or> has_suffix name ''0125'' then 3
         else if has_suffix name ''1106'' then 2
         else 4 / 3)
      else if has_prefix name ''gpt-4'' then
        (if has_prefix name ''gpt-4o'' then (if name = ''gpt-4o-2024-05-13'' then 3 else 4)
         else if has_prefix name ''gpt-4-turbo'' \<or> has_suffix name ''preview'' then 3
         else 2)
      else if has_prefix name ''o1'' then 4
      else if name = ''chatgpt-4o-latest'' then 3
      else if has_prefix name ''claude-3'' then 5
      else if has_prefix name ''claude-'' then 3
      else if has_prefix name ''mistral-'' then 3
      else if has_prefix name ''gemini-'' then 3
      else if has_prefix name ''deepseek-'' then 2
      else case find (\<lambda>(names, x). name \<in> set names) completion_cases of
             Some (names, x) \<Rightarrow> x
           | None \<Rightarrow> 1)"

definition GetCompletionRatio :: "string \<Rightarrow> int \<Rightarrow> Ratios \<Rightarrow> float64" where
  "GetCompletionRatio name channelType r =
     (let name = strip_internet ''qwen-'' name
      in case lookup4 (CompletionRatio r) DefaultCompletionRatio (channel_key name channelType) name of
           Some x \<Rightarrow> x
         | None \<Rightarrow> fl (completion_default name))"

lemma GetCompletionRatio_code [code]:
  "GetCompletionRatio name channelType r =
     (let name = strip_internet ''qwen-'' name
      in case map_of (CompletionRatio r) (channel_key name channelType) of Some x \<Rightarrow> x | None \<Rightarrow>
        (case map_of DefaultCompletionRatio (channel_key name channelType) of Some x \<Rightarrow> x | None \<Rightarrow>
          (case map_of (CompletionRatio r) name of Some x \<Rightarrow> x | None \<Rightarrow>
            (case map_of DefaultCompletionRatio name of Some x \<Rightarrow> x | None \<Rightarrow> fl (completion_default name)))))"
  by (simp add: GetCompletionRatio_def lookup4_def Let_def split: option.split)

section \<open>Image tables\<close>

definition ImageSizeRatios :: "(string \<times> (string \<times> rat) list) list" where
  "ImageSizeRatios =
    [(''dall-e-2'', [(''256x256'', 1), (''512x512'', 1.125), (''1024x1024'', 1.25)]),
     (''dall-e-3'', [(''1024x1024'', 1), (''1024x1792'', 2), (''1792x1024'', 2)]),
     (''ali-stable-diffusion-xl'', [(''512x1024'', 1), (''1024x768'', 1), (''1024x1024'', 1),
        (''576x1024'', 1), (''1024x576'', 1)]),
     (''ali-stable-diffusion-v1.5'', [(''512x1024'', 1), (''1024x768'', 1), (''1024x1024'', 1),
        (''576x1024'', 1), (''1024x576'', 1)]),
     (''wanx-v1'', [(''1024x1024'', 1), (''720x1280'', 1), (''1280x720'', 1)]),
     (''step-1x-medium'', [(''256x256'', 1), (''512x512'', 1), (''768x768'', 1), (''1024x1024'', 1),
        (''1280x800'', 1), (''800x1280'', 1)])]"

definition ImageGenerationAmounts :: "(string \<times> int \<times> int) list" where
  "ImageGenerationAmounts =
    [(''dall-e-2'', 1, 10), (''dall-e-3'', 1, 1), (''ali-stable-diffusion-xl'', 1, 4),
     (''ali-stable-diffusion-v1.5'', 1, 4), (''wanx-v1'', 1, 4), (''cogview-3'', 1, 1),
     (''step-1x-medium'', 1, 1)]"

definition ImagePromptLengthLimitations :: "(string \<times> int) list" where
  "ImagePromptLengthLimitations =
    [(''dall-e-2'', 1000), (''dall-e-3'', 4000), (''ali-stable-diffusion-xl'', 4000),
     (''ali-stable-diffusion-v1.5'', 4000), (''wanx-v1'', 4000), (''cogview-3'', 833),
     (''step-1x-medium'', 4000)]"

definition ImageOriginModelName :: "(string \<times> string) list" where
  "ImageOriginModelName =
    [(''ali-stable-diffusion-xl'', ''stable-diffusion-xl''),
     (''ali-stable-diffusion-v1.5'', ''stable-diffusion-v1.5'')]"

section \<open>Ratios are prices\<close>

text \<open>A price table is usable when every entry is a finite number that is not negative.\<close>

definition price :: "float64 \<Rightarrow> bool" where
  "price x \<longleftrightarrow> (case x of Fin q \<Rightarrow> 0 \<le> q | _ \<Rightarrow> False)"

definition prices :: "(string \<times> float64) list \<Rightarrow> bool" where
  "prices t \<longleftrightarrow> list_all (\<lambda>(k, x). price x) t"

definition ratios_are_prices :: "Ratios \<Rightarrow> bool" where
  "ratios_are_prices r \<longleftrightarrow> prices (ModelRatio r) \<and> prices (CompletionRatio r) \<and> prices (GroupRatio r)"

lemma price_fle: "price x \<Longrightarrow> fle (Fin 0) x"
  by (cases x) (auto simp: price_def)

lemma prices_map_of: "prices t \<Longrightarrow> map_of t k = Some x \<Longrightarrow> price x"
  by (auto simp: prices_def list_all_iff dest!: map_of_SomeD)

lemma lookup4_prices: "prices t \<Longrightarrow> prices d \<Longrightarrow> lookup4 t d m n = Some x \<Longrightarrow> price x"
  by (auto simp: lookup4_def dest: prices_map_of split: option.splits)

lemma price_fl:
  assumes "0 \<le> q" and "q \<le> 2 ^ 53"
  shows "price (fl q)"
proof -
  have "fle (fl q) (fl (of_int (2 ^ 53)))" using assms(2) by (intro fl_mono) simp
  moreover have "fl (of_int (2 ^ 53)) = Fin (of_int (2 ^ 53))"
    using fl_int_small [of "2 ^ 53"] by (simp add: fl_int_def)
  ultimately show ?thesis using fl_nonneg [OF assms(1)] by (cases "fl q") (auto simp: price_def)
qed

definition small_consts :: "(string \<times> rat) list \<Rightarrow> bool" where
  "small_consts t \<longleftrightarrow> list_all (\<lambda>(k, q). 0 \<le> q \<and> q \<le> 100000) t"

lemma small_consts_append [simp]: "small_consts (s @ t) = (small_consts s \<and> small_consts t)"
  by (simp add: small_consts_def)

lemma small_consts_prices: "small_consts t \<Longrightarrow> prices (float_table t)"
  by (fastforce simp: small_consts_def prices_def float_table_def list_all_iff intro!: price_fl)

text \<open>One entry of the built-in model table is negative.\<close>

definition openrouter_auto :: string where "openrouter_auto = ''openrouter/auto''"

definition but_auto :: "(string \<times> rat) list \<Rightarrow> (string \<times> rat) list" where
  "but_auto t = filter (\<lambda>(k, q). k \<noteq> openrouter_auto) t"

lemma but_auto_append: "but_auto (s @ t) = but_auto s @ but_auto t"
  by (simp add: but_auto_def)

lemma DefaultModelRatio_small: "small_consts (but_auto ModelRatio_consts)"
proof -
  have "small_consts (but_auto ModelRatio_1)" by code_simp
  moreover have "small_consts (but_auto ModelRatio_2)" by code_simp
  moreover have "small_consts (but_auto ModelRatio_3)" by code_simp
  moreover have "small_consts (but_auto ModelRatio_4)" by code_simp
  moreover have "small_consts (but_auto ModelRatio_5)" by code_simp
  moreover have "small_consts (but_auto ModelRatio_6)" by code_simp
  ultimately show ?thesis
    unfolding ModelRatio_consts_def but_auto_append small_consts_append by blast
qed

lemma DefaultModelRatio_price:
  assumes "map_of DefaultModelRatio k = Some x" and "k \<noteq> openrouter_auto"
  shows "price x"
proof -
  obtain q where "(k, q) \<in> set ModelRatio_consts" and x: "x = fl q"
    using map_of_SomeD [OF assms(1)] by (auto simp: DefaultModelRatio_def float_table_def)
  with assms(2) have "(k, q) \<in> set (but_auto ModelRatio_consts)" by (simp add: but_auto_def)
  with DefaultModelRatio_small have "0 \<le> q \<and> q \<le> 100000"
    by (auto simp: small_consts_def list_all_iff)
  then show ?thesis by (auto simp: x intro!: price_fl)
qed

lemma DefaultCompletionRatio_prices: "prices DefaultCompletionRatio"
  unfolding DefaultCompletionRatio_def by (rule small_consts_prices) code_simp

text \<open>The tables of a running gateway are the built-in ones or decoded from an option.\<close>

lemma take_auto: "take k name = openrouter_auto \<Longrightarrow> has_prefix name (c # p) \<Longrightarrow> c = CHR ''o''"
proof -
  assume t: "take k name = openrouter_auto" and p: "has_prefix name (c # p)"
  have "name = openrouter_auto @ drop k name" using append_take_drop_id [of k name] t by simp
  moreover have "name = (c # p) @ drop (length (c # p)) name"
    using p append_take_drop_id [of "length (c # p)" name] unfolding has_prefix_def by simp
  ultimately show ?thesis by (metis append_Cons list.sel(1) openrouter_auto_def)
qed

lemma strip_internet_auto:
  "strip_internet (c # p) name = openrouter_auto \<Longrightarrow> c \<noteq> CHR ''o'' \<Longrightarrow> name = openrouter_auto"
  by (auto simp: strip_internet_def trim_suffix_def dest: take_auto split: if_splits)

lemma channel_key_auto: "channel_key name ct \<noteq> openrouter_auto"
proof
  assume "channel_key name ct = openrouter_auto"
  then have "last (channel_key name ct) = last openrouter_auto" by simp
  then show False by (simp add: channel_key_def openrouter_auto_def)
qed

lemma GetModelRatio_price:
  assumes "ratios_are_prices r" and "name \<noteq> openrouter_auto"
  shows "price (GetModelRatio name ct r)"
proof -
  define n where "n = strip_internet ''command-'' (strip_internet ''qwen-'' name)"
  have n: "n \<noteq> openrouter_auto"
  proof
    assume "n = openrouter_auto"
    then have "strip_internet ''qwen-'' name = openrouter_auto"
      unfolding n_def by (rule strip_internet_auto) simp
    then have "name = openrouter_auto" by (rule strip_internet_auto) simp
    with assms(2) show False ..
  qed
  have "price x" if "lookup4 (ModelRatio r) DefaultModelRatio (channel_key n ct) n = Some x" for x
    using that assms(1) n channel_key_auto [of n ct]
    by (auto simp: lookup4_def ratios_are_prices_def dest: prices_map_of DefaultModelRatio_price
        split: option.splits)
  moreover have "GetModelRatio name ct r =
      (case lookup4 (ModelRatio r) DefaultModelRatio (channel_key n ct) n of Some x \<Rightarrow> x | None \<Rightarrow> Fin 30)"
    unfolding GetModelRatio_def Let_def n_def ..
  moreover have "price (Fin 30)" by (simp add: price_def)
  ultimately show ?thesis
    by (cases "lookup4 (ModelRatio r) DefaultModelRatio (channel_key n ct) n") auto
qed

lemma GetGroupRatio_price: "ratios_are_prices r \<Longrightarrow> price (GetGroupRatio name r)"
  by (auto simp: GetGroupRatio_def ratios_are_prices_def dest: prices_map_of split: option.splits)
     (simp add: price_def)

lemma completion_cases_small: "list_all (\<lambda>(n, q). 0 \<le> q \<and> q \<le> 9) completion_cases"
  by code_simp

lemma completion_switch_small:
  "find (\<lambda>(names, x). name \<in> set names) completion_cases = Some (ns, x) \<Longrightarrow> 0 \<le> x \<and> x \<le> 9"
  using completion_cases_small by (auto simp: list_all_iff dest!: find_Some_mem)

lemma completion_default_cases:
  assumes "P 1" and "P 2" and "P 3" and "P 4" and "P 5" and "P (4 / 3)"
    and "\<And>ns x. find (\<lambda>(names, x). name \<in> set names) completion_cases = Some (ns, x) \<Longrightarrow> P x"
  shows "P (completion_default name)"
proof -
  have "P (case find (\<lambda>(names, x). name \<in> set names) completion_cases of
             Some (names, x) \<Rightarrow> x | None \<Rightarrow> 1)"
    using assms(1,7) by (simp split: option.split prod.split)
  then show ?thesis
    unfolding completion_default_def by (simp only: if_distrib [of P] assms(1-6) if_cancel)
qed

lemma completion_default_small: "0 \<le> completion_default name \<and> completion_default name \<le> 9"
  by (rule completion_default_cases) (simp_all add: completion_switch_small)

lemma GetCompletionRatio_price:
  assumes "ratios_are_prices r"
  shows "price (GetCompletionRatio name ct r)"
proof -
  have "completion_default n \<le> 2 ^ 53" for n
    using completion_default_small [of n] by (auto intro: order_trans)
  then have "price (fl (completion_default n))" for n
    using completion_default_small [of n] by (intro price_fl) auto
  then show ?thesis
    using lookup4_prices [OF _ DefaultCompletionRatio_prices] assms
    by (auto simp: GetCompletionRatio_def Let_def ratios_are_prices_def split: option.splits)
qed

text \<open>
  Whatever model, channel type and group a request names, the model ratio, the completion
  ratio and the group ratio it is priced with are finite and not negative, as long as the
  configured tables hold only such numbers: through the fallbacks (the built-in tables, 30, the
  prefix rules, 1) there is always a price. The one exception is the model
  \<open>openrouter/auto\<close>, whose built-in ratio is -500000.
\<close>

theorem every_model_is_priced:
  "ratios_are_prices r \<Longrightarrow> name \<noteq> ''openrouter/auto'' \<Longrightarrow>
     price (GetModelRatio name channelType r) \<and> price (GetCompletionRatio name channelType r)
     \<and> price (GetGroupRatio grp r)"
  using GetModelRatio_price [of r name]
  by (simp add: openrouter_auto_def GetCompletionRatio_price GetGroupRatio_price)

definition configured_ratios :: Ratios where
  "configured_ratios = \<lparr>ModelRatio = [(''gpt-5.4(1)'', Fin 2), (''my-image(1)'', Fin 3), (''gpt-5.4'', Fin 1)],
     CompletionRatio = [(''gpt-5.4(1)'', Fin 6)],
     GroupRatio = [(''default'', Fin 1), (''vip'', Fin (1 / 2))]\<rparr>"

lemma configured_ratios_prices: "ratios_are_prices configured_ratios"
  by (simp add: ratios_are_prices_def configured_ratios_def prices_def price_def)

theorem every_model_is_priced_witness:
  "ratios_are_prices configured_ratios \<and> price (GetModelRatio ''gpt-5.4'' 1 configured_ratios)
   \<and> price (GetGroupRatio ''vip'' configured_ratios)"
  using every_model_is_priced [OF configured_ratios_prices, of "''gpt-5.4''" 1 "''vip''"]
    configured_ratios_prices by simp

section \<open>Updating the tables\<close>

lemma map_of_filter_notin:
  "map_of (filter (\<lambda>(k, v). k \<notin> S) t) x = (if x \<in> S then None else map_of t x)"
  by (induction t) auto

text \<open>
  At start-up the stored model table is completed: when it decodes and the codec reads back
  what it wrote, the text written to the option table decodes to a table with every stored
  price unchanged and, for every other model, the price of the built-in table.
\<close>

theorem AddNewMissingRatio_completes:
  assumes "unmarshal old = (t, None)"
    and "marshal (t @ filter (\<lambda>(k, v). k \<notin> fst ` set t) DefaultModelRatio) = Some new"
    and "unmarshal new = (t', None)"
    and "map_of t' = map_of (t @ filter (\<lambda>(k, v). k \<notin> fst ` set t) DefaultModelRatio)"
  shows "AddNewMissingRatio unmarshal marshal old = new
     \<and> map_of (ModelRatio (snd (UpdateModelRatioByJSONString unmarshal
                 (AddNewMissingRatio unmarshal marshal old) r))) name
       = (case map_of t name of Some x \<Rightarrow> Some x | None \<Rightarrow> map_of DefaultModelRatio name)"
proof -
  have "AddNewMissingRatio unmarshal marshal old = new"
    using assms(1,2) by (simp add: AddNewMissingRatio_def)
  moreover have "map_of t name = None \<longleftrightarrow> name \<notin> fst ` set t" by (simp add: map_of_eq_None_iff)
  ultimately show ?thesis
    using assms(3,4)
    by (auto simp: UpdateModelRatioByJSONString_def map_add_def map_of_filter_notin split: option.splits)
qed

text \<open>A codec for the witness: one stored table, and one text that stands for its completion.\<close>

definition demo_table :: "(string \<times> float64) list" where
  "demo_table = [(''my-model'', Fin 2)]"

definition demo_full :: "(string \<times> float64) list" where
  "demo_full = demo_table @ filter (\<lambda>(k, v). k \<notin> fst ` set demo_table) DefaultModelRatio"

definition demo_unmarshal :: decoder where
  "demo_unmarshal s = (if s = ''old'' then (demo_table, None) else if s = ''new'' then (demo_full, None)
     else ([], Some ErrJSON))"

theorem AddNewMissingRatio_completes_witness:
  "AddNewMissingRatio demo_unmarshal (\<lambda>_. Some ''new'') ''old'' = ''new''
   \<and> map_of (ModelRatio (snd (UpdateModelRatioByJSONString demo_unmarshal
        (AddNewMissingRatio demo_unmarshal (\<lambda>_. Some ''new'') ''old'') initial_ratios))) ''my-model'' = Some (Fin 2)"
proof -
  have d: "demo_unmarshal ''old'' = (demo_table, None)" "demo_unmarshal ''new'' = (demo_full, None)"
    by (simp_all add: demo_unmarshal_def)
  have "AddNewMissingRatio demo_unmarshal (\<lambda>_. Some ''new'') ''old'' = ''new''
   \<and> map_of (ModelRatio (snd (UpdateModelRatioByJSONString demo_unmarshal
        (AddNewMissingRatio demo_unmarshal (\<lambda>_. Some ''new'') ''old'') initial_ratios))) ''my-model''
     = (case map_of demo_table ''my-model'' of Some x \<Rightarrow> Some x | None \<Rightarrow> map_of DefaultModelRatio ''my-model'')"
    by (rule AddNewMissingRatio_completes [of demo_unmarshal "''old''" demo_table _ _ demo_full], rule d(1),
        rule refl, rule d(2), simp only: demo_full_def)
  moreover have m: "map_of demo_table ''my-model'' = Some (Fin 2)" by (simp add: demo_table_def)
  ultimately show ?thesis unfolding m option.case by blast
qed

text \<open>
  An update with a text that does not decode returns the error, but the table is already
  gone: every group then costs the fallback 1, whatever it cost before, and every model the
  built-in price or 30.
\<close>

theorem rejected_ratio_update_forgets:
  assumes "unmarshal s = ([], Some e)"
  shows "UpdateGroupRatioByJSONString unmarshal s r = (Some e, r\<lparr>GroupRatio := []\<rparr>)
     \<and> GetGroupRatio grp (snd (UpdateGroupRatioByJSONString unmarshal s r)) = Fin 1
     \<and> fst (UpdateModelRatioByJSONString unmarshal s r) = Some e
     \<and> GetModelRatio name ct (snd (UpdateModelRatioByJSONString unmarshal s r))
       = GetModelRatio name ct (r\<lparr>ModelRatio := []\<rparr>)"
  using assms
  by (simp add: UpdateGroupRatioByJSONString_def UpdateModelRatioByJSONString_def GetGroupRatio_def)

theorem rejected_ratio_update_forgets_witness:
  "GetGroupRatio ''vip'' (initial_ratios\<lparr>GroupRatio := [(''vip'', Fin (1 / 2))]\<rparr>) = Fin (1 / 2)
   \<and> fst (UpdateGroupRatioByJSONString demo_unmarshal ''bad''
        (initial_ratios\<lparr>GroupRatio := [(''vip'', Fin (1 / 2))]\<rparr>)) = Some ErrJSON
   \<and> GetGroupRatio ''vip'' (snd (UpdateGroupRatioByJSONString demo_unmarshal ''bad''
        (initial_ratios\<lparr>GroupRatio := [(''vip'', Fin (1 / 2))]\<rparr>))) = Fin 1"
proof -
  have "demo_unmarshal ''bad'' = ([], Some ErrJSON)" by (simp add: demo_unmarshal_def)
  from rejected_ratio_update_forgets [of demo_unmarshal, OF this, of "initial_ratios\<lparr>GroupRatio := [(''vip'', Fin (1 / 2))]\<rparr>" "''vip''"]
  show ?thesis by (simp add: GetGroupRatio_def)
qed

end
