(* ===== verification/TokenCount.thy ===== *)
theory TokenCount
  imports Ratio
begin

text \<open>
  Counting the prompt tokens a request is priced with (\<open>relay/adaptor/openai/token.go\<close>). The
  \<open>tiktoken\<close> library is a parameter: \<open>EncodingForModel\<close> finds an encoder and \<open>Encode\<close> yields
  the number of tokens; so is \<open>GetImageSize\<close>, which downloads an image. A value decoded by
  \<open>encoding/json\<close> into \<open>any\<close> is an \<open>AnyVal\<close>. A Go type assertion that fails panics; the
  counting functions return \<open>None\<close> for a panic.
\<close>

section \<open>Decoded JSON values\<close>

datatype AnyVal =
    AnyNil | AnyBool bool | AnyNum float64 | AnyStr string
  | AnyArr "AnyVal list" | AnyObj "(string \<times> AnyVal) list"

text \<open>Reading a key of a \<open>map[string]any\<close>: a missing key reads as \<open>nil\<close>.\<close>

definition obj_get :: "(string \<times> AnyVal) list \<Rightarrow> string \<Rightarrow> AnyVal" where
  "obj_get m k = (case map_of m k of None \<Rightarrow> AnyNil | Some v \<Rightarrow> v)"

record Message =
  Msg_Role :: string
  Msg_Content :: AnyVal
  Msg_Name :: "string option"

section \<open>Encoders\<close>

record 'enc Encoders =
  tokenEncoderMap :: "(string \<times> 'enc option) list"
  defaultTokenEncoder :: 'enc

definition InitTokenEncoders :: "'enc \<Rightarrow> 'enc \<Rightarrow> 'enc \<Rightarrow> Ratios \<Rightarrow> 'enc Encoders" where
  "InitTokenEncoders gpt35 gpt4o gpt4 r =
     \<lparr>tokenEncoderMap = map (\<lambda>(model, _). (model,
         if has_prefix model ''gpt-3.5'' then Some gpt35
         else if has_prefix model ''gpt-4o'' then Some gpt4o
         else if has_prefix model ''gpt-4'' then Some gpt4
         else None)) (ModelRatio r),
      defaultTokenEncoder = gpt35\<rparr>"

fun put_str :: "string \<Rightarrow> 'v \<Rightarrow> (string \<times> 'v) list \<Rightarrow> (string \<times> 'v) list" where
  "put_str k v [] = [(k, v)]"
| "put_str k v ((i, x) # xs) = (if i = k then (k, v) # xs else (i, x) # put_str k v xs)"

definition getTokenEncoder ::
  "(string \<Rightarrow> 'enc option) \<Rightarrow> string \<Rightarrow> 'enc Encoders \<Rightarrow> 'enc \<times> 'enc Encoders" where
  "getTokenEncoder EncodingForModel model s = (case map_of (tokenEncoderMap s) model of
       Some (Some enc) \<Rightarrow> (enc, s)
     | Some None \<Rightarrow>
         let enc = (case EncodingForModel model of None \<Rightarrow> defaultTokenEncoder s | Some e \<Rightarrow> e)
         in (enc, s\<lparr>tokenEncoderMap := put_str model (Some enc) (tokenEncoderMap s)\<rparr>)
     | None \<Rightarrow> (defaultTokenEncoder s, s))"

text \<open>\<open>approx\<close> is \<open>config.ApproximateTokenEnabled\<close>.\<close>

definition getTokenNum :: "bool \<Rightarrow> ('enc \<Rightarrow> string \<Rightarrow> nat) \<Rightarrow> 'enc \<Rightarrow> string \<Rightarrow> int" where
  "getTokenNum approx Encode enc text =
     (if approx then f2i (fmul (fl_int (int (length text))) (fl 0.38))
      else int (Encode enc text))"

section \<open>Images\<close>

definition lowDetailCost :: int where "lowDetailCost = 85"
definition highDetailCostPerTile :: int where "highDetailCostPerTile = 170"
definition additionalCost :: int where "additionalCost = 85"
definition gpt4oMiniLowDetailCost :: int where "gpt4oMiniLowDetailCost = 2833"
definition gpt4oMiniHighDetailCost :: int where "gpt4oMiniHighDetailCost = 5667"
definition gpt4oMiniAdditionalCost :: int where "gpt4oMiniAdditionalCost = 2833"

text \<open>\<open>int(float64(side) * ratio)\<close>.\<close>

definition scale_side :: "float64 \<Rightarrow> int \<Rightarrow> int" where
  "scale_side ratio side = f2i (fmul (fl_int side) ratio)"

definition fit_2048 :: "int \<times> int \<Rightarrow> int \<times> int" where
  "fit_2048 = (\<lambda>(width, height).
     if 2048 < width \<or> 2048 < height
     then let ratio = fdiv (Fin 2048) (fl_int (max width height))
          in (scale_side ratio width, scale_side ratio height)
     else (width, height))"

definition fit_768 :: "int \<times> int \<Rightarrow> int \<times> int" where
  "fit_768 = (\<lambda>(width, height).
     if 768 < width \<and> 768 < height
     then let ratio = fdiv (Fin 768) (fl_int (min width height))
          in (scale_side ratio width, scale_side ratio height)
     else (width, height))"

definition numSquares :: "int \<times> int \<Rightarrow> int" where
  "numSquares = (\<lambda>(width, height).
     f2i (fmul (fceil (fdiv (fl_int width) (Fin 512))) (fceil (fdiv (fl_int height) (Fin 512)))))"

definition countImageTokens ::
  "(string \<Rightarrow> GoErr + int \<times> int) \<Rightarrow> string \<Rightarrow> string \<Rightarrow> string \<Rightarrow> GoErr + int" where
  "countImageTokens GetImageSize url detail model =
     (let detail = (if detail = [] \<or> detail = ''auto'' then ''high'' else detail)
      in if detail = ''low'' then
           Inr (if has_prefix model ''gpt-4o-mini'' then gpt4oMiniLowDetailCost else lowDetailCost)
         else if detail = ''high'' then
           (case GetImageSize url of
              Inl err \<Rightarrow> Inl err
            | Inr wh \<Rightarrow>
                let n = numSquares (fit_768 (fit_2048 wh))
                in Inr (if has_prefix model ''gpt-4o-mini''
                        then i64 (i64 (n * gpt4oMiniHighDetailCost) + gpt4oMiniAdditionalCost)
                        else i64 (i64 (n * highDetailCostPerTile) + additionalCost)))
         else Inl (Err ''invalid detail option''))"

section \<open>Messages\<close>

text \<open>One element of a content list: the tokens it adds, or a panic.\<close>

definition count_part ::
  "(string \<Rightarrow> int) \<Rightarrow> (string \<Rightarrow> string \<Rightarrow> GoErr + int) \<Rightarrow> AnyVal \<Rightarrow> int option" where
  "count_part tok img it = (case it of
       AnyObj m \<Rightarrow>
         (if obj_get m ''type'' = AnyStr ''text'' then
            Some (case map_of m ''text'' of Some (AnyStr s) \<Rightarrow> tok s | _ \<Rightarrow> 0)
          else if obj_get m ''type'' = AnyStr ''image_url'' then
            (case obj_get m ''image_url'' of
               AnyObj imageUrl \<Rightarrow>
                 (case obj_get imageUrl ''url'' of
                    AnyStr url \<Rightarrow>
                      (case obj_get imageUrl ''detail'' of
                         AnyNil \<Rightarrow> Some (case img url [] of Inl e \<Rightarrow> 0 | Inr n \<Rightarrow> n)
                       | AnyStr detail \<Rightarrow> Some (case img url detail of Inl e \<Rightarrow> 0 | Inr n \<Rightarrow> n)
                       | _ \<Rightarrow> None)
                  | _ \<Rightarrow> None)
             | _ \<Rightarrow> Some 0)
          else Some 0)
     | _ \<Rightarrow> None)"

fun count_parts ::
  "(string \<Rightarrow> int) \<Rightarrow> (string \<Rightarrow> string \<Rightarrow> GoErr + int) \<Rightarrow> AnyVal list \<Rightarrow> int \<Rightarrow> int option" where
  "count_parts tok img [] acc = Some acc"
| "count_parts tok img (it # its) acc = (case count_part tok img it of
      None \<Rightarrow> None
    | Some n \<Rightarrow> count_parts tok img its (i64 (acc + n)))"

fun count_messages ::
  "(string \<Rightarrow> int) \<Rightarrow> (string \<Rightarrow> string \<Rightarrow> GoErr + int) \<Rightarrow> int \<Rightarrow> int
     \<Rightarrow> Message list \<Rightarrow> int \<Rightarrow> int option" where
  "count_messages tok img perMessage perName [] acc = Some acc"
| "count_messages tok img perMessage perName (msg # msgs) acc =
     (let acc = i64 (acc + perMessage)
      in case (case Msg_Content msg of
                 AnyStr v \<Rightarrow> Some (i64 (acc + tok v))
               | AnyArr v \<Rightarrow> count_parts tok img v acc
               | _ \<Rightarrow> Some acc) of
           None \<Rightarrow> None
         | Some acc \<Rightarrow>
             let acc = i64 (acc + tok (Msg_Role msg));
                 acc = (case Msg_Name msg of
                          None \<Rightarrow> acc
                        | Some n \<Rightarrow> i64 (i64 (acc + perName) + tok n))
             in count_messages tok img perMessage perName msgs acc)"

text \<open>The process-wide parts of counting: configuration, library and the image fetcher.\<close>

record 'enc Tokenizer =
  TK_approx :: bool
  TK_EncodingForModel :: "string \<Rightarrow> 'enc option"
  TK_Encode :: "'enc \<Rightarrow> string \<Rightarrow> nat"
  TK_GetImageSize :: "string \<Rightarrow> GoErr + int \<times> int"

definition CountTokenMessages ::
  "'enc Tokenizer \<Rightarrow> Message list \<Rightarrow> string \<Rightarrow> 'enc Encoders \<Rightarrow> int option \<times> 'enc Encoders" where
  "CountTokenMessages tk messages model s =
     (case getTokenEncoder (TK_EncodingForModel tk) model s of (enc, s1) \<Rightarrow>
        let (tokensPerMessage, tokensPerName) =
              (if model = ''gpt-3.5-turbo-0301'' then (4, - 1) else (3, 1))
        in (map_option (\<lambda>n. i64 (n + 3))
              (count_messages (getTokenNum (TK_approx tk) (TK_Encode tk) enc)
                 (\<lambda>url detail. countImageTokens (TK_GetImageSize tk) url detail model)
                 tokensPerMessage tokensPerName messages 0), s1))"

definition CountTokenText ::
  "'enc Tokenizer \<Rightarrow> string \<Rightarrow> string \<Rightarrow> 'enc Encoders \<Rightarrow> int \<times> 'enc Encoders" where
  "CountTokenText tk text model s =
     (case getTokenEncoder (TK_EncodingForModel tk) model s of (enc, s1) \<Rightarrow>
        (getTokenNum (TK_approx tk) (TK_Encode tk) enc text, s1))"

text \<open>
  The type switch tests for \<open>string\<close> and \<open>[]string\<close>. A decoded JSON array is a \<open>[]any\<close>, so no
  \<open>AnyVal\<close> takes the second case.
\<close>

definition CountTokenInput ::
  "'enc Tokenizer \<Rightarrow> AnyVal \<Rightarrow> string \<Rightarrow> 'enc Encoders \<Rightarrow> int \<times> 'enc Encoders" where
  "CountTokenInput tk input model s = (case input of
       AnyStr v \<Rightarrow> CountTokenText tk v model s
     | _ \<Rightarrow> (0, s))"

section \<open>Encoder cache\<close>

lemma map_of_put_str [simp]: "map_of (put_str k v m) = (map_of m)(k \<mapsto> v)"
  by (induction m) (auto simp: fun_eq_iff)

text \<open>The cache never grows: a lookup only fills in an entry that \<open>InitTokenEncoders\<close> made.\<close>

lemma getTokenEncoder_dom:
  "getTokenEncoder E m s = (enc, s') \<Longrightarrow> dom (map_of (tokenEncoderMap s')) = dom (map_of (tokenEncoderMap s))"
  by (auto simp: getTokenEncoder_def Let_def split: option.splits if_splits)

lemma getTokenEncoder_again:
  assumes "getTokenEncoder E m s = (enc, s')"
  shows "getTokenEncoder E' m s' = (enc, s')"
  using assms by (auto simp: getTokenEncoder_def Let_def split: option.splits)

section \<open>The price of an image is bounded\<close>

definition side_ok :: "int \<Rightarrow> bool" where
  "side_ok n \<longleftrightarrow> 0 \<le> n \<and> n \<le> 2 ^ 53"

lemma scale_ratio:
  assumes "0 < c" and "c \<le> 2048" and "c < m" and "m \<le> 2 ^ 53"
  shows "\<exists>r. fdiv (Fin (of_int c)) (fl_int m) = Fin r \<and> 0 \<le> r \<and> r \<le> 1
     \<and> of_int m * r \<le> of_int c + 1 / 2"
proof -
  let ?q = "of_int c / of_int m :: rat"
  have m: "0 < m" using assms by simp
  have fi: "fl_int m = Fin (of_int m)" using assms m by (intro fl_int_small) simp
  have q: "0 < ?q" "?q < 1" using assms m by simp_all
  have "(1 :: rat) / 2 ^ 53 \<le> ?q"
  proof -
    have "(of_int m :: rat) \<le> of_int (2 ^ 53)" using assms(4) by (simp only: of_int_le_iff)
    then have "(1 :: rat) / 2 ^ 53 \<le> 1 / of_int m" using m by (intro divide_left_mono) simp_all
    also have "\<dots> \<le> ?q" using assms m by (intro divide_right_mono) simp_all
    finally show ?thesis .
  qed
  then have "pow2 (- 53) \<le> ?q" by (simp add: pow2_def)
  then have "- 53 \<le> bexp ?q" using q(1) by (intro bexp_lower)
  then have up: "round_pos ?q \<le> ?q + ?q / 2 ^ 52" using q(1) by (intro round_pos_upper) simp_all
  have r: "rnd ?q = round_pos ?q" using q(1) by (rule rnd_pos)
  have "fle (fl ?q) (fl 1)" using q by (intro fl_mono) simp
  moreover have "fl 1 = Fin 1" using fl_int_small [of 1] by (simp add: fl_int_def)
  moreover have "fle (Fin 0) (fl ?q)" using q by (intro fl_nonneg) simp
  ultimately obtain a where a: "fl ?q = Fin a" "0 \<le> a" "a \<le> 1" using fle_Fin_iff by metis
  then have "a = round_pos ?q" using r by (auto simp: fl_def Let_def split: if_splits)
  then have "of_int m * a \<le> of_int m * (?q + ?q / 2 ^ 52)" using up m by (intro mult_left_mono) simp_all
  also have "\<dots> = of_int c + of_int c / 2 ^ 52" using m by (simp add: distrib_left)
  also have "\<dots> \<le> of_int c + 1 / 2"
  proof -
    have "(of_int c :: rat) \<le> 2048" using assms(2) by (metis of_int_le_iff of_int_numeral)
    then show ?thesis by simp
  qed
  finally show ?thesis using a fi m by (intro exI [of _ a]) simp
qed

lemma fl_half: "fl (4097 / 2) = Fin (4097 / 2)" "fl (1537 / 2) = Fin (1537 / 2)"
  by code_simp+

lemma scale_side_le:
  assumes "0 \<le> r" and "r \<le> 1" and "side_ok n"
  shows "0 \<le> scale_side (Fin r) n \<and> scale_side (Fin r) n \<le> n"
proof -
  have n: "fl_int n = Fin (of_int n)" using assms(3) by (intro fl_int_small) (simp add: side_ok_def)
  have "of_int n * r \<le> of_int n * 1" using assms by (intro mult_left_mono) (simp_all add: side_ok_def)
  then have "fle (fl (of_int n * r)) (fl (of_int n))" by (intro fl_mono) simp
  moreover have "fle (Fin 0) (fl (of_int n * r))"
    using assms by (intro fl_nonneg) (simp add: side_ok_def)
  moreover have "fl (of_int n) = Fin (of_int n)" using n by (simp add: fl_int_def)
  ultimately obtain a where a: "fl (of_int n * r) = Fin a" "0 \<le> a" "a \<le> of_int n"
    using fle_Fin_iff by metis
  have "trunc_rat a \<le> n" using trunc_rat_mono [OF a(3)] by simp
  moreover have "0 \<le> trunc_rat a" using a(2) by (rule trunc_rat_nonneg)
  ultimately show ?thesis using assms(3) a(1) n by (simp add: scale_side_def side_ok_def in_i64_def)
qed

lemma scale_side_max:
  assumes "0 \<le> r" and "r \<le> 1" and "side_ok n" and "n \<le> m" and "of_int m * r \<le> of_int c + 1 / 2"
    and "c = 2048 \<or> c = 768"
  shows "scale_side (Fin r) n \<le> c"
proof -
  have n: "fl_int n = Fin (of_int n)" using assms(3) by (intro fl_int_small) (simp add: side_ok_def)
  have "of_int n * r \<le> of_int m * r" using assms(1,4) by (intro mult_right_mono) simp_all
  then have "fle (fl (of_int n * r)) (fl (of_int c + 1 / 2))" using assms(5) by (intro fl_mono) simp
  moreover have "fl (of_int c + 1 / 2) = Fin (of_int c + 1 / 2)" using assms(6) fl_half by auto
  moreover have "fle (Fin 0) (fl (of_int n * r))"
    using assms by (intro fl_nonneg) (simp add: side_ok_def)
  ultimately obtain a where a: "fl (of_int n * r) = Fin a" "0 \<le> a" "a \<le> of_int c + 1 / 2"
    using fle_Fin_iff by metis
  have "trunc_rat a \<le> c" using a(2,3) by (simp add: trunc_rat_def floor_le_iff)
  moreover have "0 \<le> trunc_rat a" using a(2) by (rule trunc_rat_nonneg)
  ultimately show ?thesis using assms(6) a(1) n by (auto simp: scale_side_def in_i64_def)
qed

lemma fit_2048_bounds:
  assumes "side_ok w" and "side_ok h" and "fit_2048 (w, h) = (w', h')"
  shows "0 \<le> w' \<and> w' \<le> 2048 \<and> 0 \<le> h' \<and> h' \<le> 2048"
proof (cases "2048 < w \<or> 2048 < h")
  case True
  have mx: "max w h \<le> 2 ^ 53" using assms by (simp add: side_ok_def)
  from True have "2048 < max w h" by auto
  from scale_ratio [of 2048, OF _ _ this mx] obtain r
    where r: "fdiv (Fin 2048) (fl_int (max w h)) = Fin r" "0 \<le> r" "r \<le> 1"
      "of_int (max w h) * r \<le> of_int 2048 + 1 / 2" by auto
  then have "w' = scale_side (Fin r) w" "h' = scale_side (Fin r) h"
    using assms(3) True by (auto simp: fit_2048_def Let_def)
  then show ?thesis
    using scale_side_max [OF r(2,3) _ _ r(4)] scale_side_le [OF r(2,3)] assms by auto
next
  case False
  with assms show ?thesis by (auto simp: fit_2048_def side_ok_def)
qed

lemma fit_768_bounds:
  assumes "0 \<le> w" and "w \<le> 2048" and "0 \<le> h" and "h \<le> 2048" and "fit_768 (w, h) = (w', h')"
  shows "0 \<le> w' \<and> w' \<le> 2048 \<and> 0 \<le> h' \<and> h' \<le> 2048 \<and> (w' \<le> 768 \<or> h' \<le> 768)"
proof (cases "768 < w \<and> 768 < h")
  case True
  have ok: "side_ok w" "side_ok h" using assms by (auto simp: side_ok_def)
  have "768 < min w h" and "min w h \<le> 2 ^ 53" using True assms by auto
  from scale_ratio [of 768, OF _ _ this] obtain r
    where r: "fdiv (Fin 768) (fl_int (min w h)) = Fin r" "0 \<le> r" "r \<le> 1"
      "of_int (min w h) * r \<le> of_int 768 + 1 / 2" by auto
  then have e: "w' = scale_side (Fin r) w" "h' = scale_side (Fin r) h"
    using assms(5) True by (auto simp: fit_768_def Let_def)
  have "w' \<le> 768 \<or> h' \<le> 768"
    using scale_side_max [OF r(2,3) _ _ r(4)] ok e by (cases "w \<le> h") auto
  then show ?thesis using scale_side_le [OF r(2,3)] ok e assms by force
next
  case False
  with assms show ?thesis by (auto simp: fit_768_def)
qed

lemma ceil_tiles:
  assumes "0 \<le> n" and "n \<le> 512 * int k" and "k \<le> 4"
  shows "\<exists>j. fceil (fdiv (fl_int n) (Fin 512)) = Fin (of_int j) \<and> 0 \<le> j \<and> j \<le> int k"
proof -
  have "n \<le> 2048" using assms(2,3) by simp
  then have n: "fl_int n = Fin (of_int n)" using assms by (intro fl_int_small) simp
  have "(of_int n :: rat) \<le> of_int (512 * int k)" using assms(2) by (simp only: of_int_le_iff)
  then have "fle (fl (of_int n / 512)) (fl (of_int (int k)))" by (intro fl_mono) simp
  moreover have "fl (of_int (int k)) = Fin (of_int (int k))"
    using fl_int_small [of "int k"] assms(3) by (simp add: fl_int_def)
  moreover have "fle (Fin 0) (fl (of_int n / 512))" using assms by (intro fl_nonneg) simp
  ultimately obtain a where a: "fl (of_int n / 512) = Fin a" "0 \<le> a" "a \<le> of_int (int k)"
    using fle_Fin_iff by metis
  have "\<lceil>a\<rceil> \<le> int k" and "0 \<le> \<lceil>a\<rceil>" using a by (simp_all add: ceiling_le_iff)
  then show ?thesis using a n by simp
qed

lemma in_i64_small: "0 \<le> x \<Longrightarrow> x \<le> 8 \<Longrightarrow> in_i64 x"
  by (simp add: in_i64_def)

lemma numSquares_bounds:
  assumes "0 \<le> w" and "w \<le> 2048" and "0 \<le> h" and "h \<le> 2048" and "w \<le> 768 \<or> h \<le> 768"
  shows "0 \<le> numSquares (w, h) \<and> numSquares (w, h) \<le> 8"
proof -
  define a b where "a = (if w \<le> 768 then 2 else 4 :: nat)" and "b = (if w \<le> 768 then 4 else 2 :: nat)"
  have ab: "a \<le> 4" "b \<le> 4" "int a * int b = 8" "w \<le> 512 * int a" "h \<le> 512 * int b"
    using assms by (auto simp: a_def b_def)
  obtain i where i: "fceil (fdiv (fl_int w) (Fin 512)) = Fin (of_int i)" "0 \<le> i" "i \<le> int a"
    using ceil_tiles [OF assms(1) ab(4,1)] by blast
  obtain j where j: "fceil (fdiv (fl_int h) (Fin 512)) = Fin (of_int j)" "0 \<le> j" "j \<le> int b"
    using ceil_tiles [OF assms(3) ab(5,2)] by blast
  have ij: "0 \<le> i * j" "i * j \<le> 8"
    using mult_mono [OF i(3) j(3)] i(2) j(2) ab(3) by simp_all
  then have "fl (of_int (i * j)) = Fin (of_int (i * j))"
    using fl_int_small [of "i * j"] by (simp add: fl_int_def)
  moreover have "in_i64 (i * j)" using ij by (intro in_i64_small) simp_all
  ultimately have "numSquares (w, h) = i * j"
    using i j by (simp add: numSquares_def flip: of_int_mult)
  with ij show ?thesis by simp
qed

text \<open>
  Whatever the size an image reports, in either detail mode it is charged a bounded number
  of prompt tokens: between 85 and 1445, and for the \<open>gpt-4o-mini\<close> models between 2833 and
  48169. After the two scalings at most eight tiles of 512 pixels remain, also with the
  rounding of the \<open>float64\<close> ratios.
\<close>

theorem image_tokens_bounded:
  assumes "\<And>w h. GetImageSize url = Inr (w, h) \<Longrightarrow> 0 \<le> w \<and> w \<le> 2 ^ 53 \<and> 0 \<le> h \<and> h \<le> 2 ^ 53"
    and "countImageTokens GetImageSize url detail model = Inr n"
  shows "if has_prefix model ''gpt-4o-mini'' then 2833 \<le> n \<and> n \<le> 48169 else 85 \<le> n \<and> n \<le> 1445"
proof (cases "detail = ''low''")
  case True
  with assms(2) show ?thesis
    by (auto simp: countImageTokens_def gpt4oMiniLowDetailCost_def lowDetailCost_def)
next
  case False
  with assms(2) obtain w h where s: "GetImageSize url = Inr (w, h)"
    and n: "n = (let n = numSquares (fit_768 (fit_2048 (w, h)))
                 in if has_prefix model ''gpt-4o-mini''
                        then i64 (i64 (n * gpt4oMiniHighDetailCost) + gpt4oMiniAdditionalCost)
                        else i64 (i64 (n * highDetailCostPerTile) + additionalCost))"
    by (auto simp: countImageTokens_def Let_def split: if_splits sum.splits)
  obtain w1 h1 where f1: "fit_2048 (w, h) = (w1, h1)" by fastforce
  obtain w2 h2 where f2: "fit_768 (w1, h1) = (w2, h2)" by fastforce
  have "side_ok w" "side_ok h" using assms(1) [OF s] by (auto simp: side_ok_def)
  from fit_2048_bounds [OF this f1] fit_768_bounds [OF _ _ _ _ f2]
  have "0 \<le> numSquares (w2, h2) \<and> numSquares (w2, h2) \<le> 8" by (intro numSquares_bounds) auto
  with n f1 f2 show ?thesis
    by (simp add: Let_def gpt4oMiniHighDetailCost_def gpt4oMiniAdditionalCost_def
        highDetailCostPerTile_def additionalCost_def i64_id in_i64_def)
qed

theorem image_tokens_bounded_witness:
  "countImageTokens (\<lambda>_. Inr (4000, 3000)) ''u'' ''auto'' ''gpt-4o'' = Inr 765
   \<and> 765 \<le> (1445 :: int)"
proof -
  have e: "countImageTokens (\<lambda>_. Inr (4000, 3000)) ''u'' ''auto'' ''gpt-4o'' = Inr 765" by code_simp
  from image_tokens_bounded [OF _ e] show ?thesis using e by (simp add: has_prefix_def)
qed

section \<open>When counting panics\<close>

text \<open>A content element that fails one of the unchecked type assertions.\<close>

definition bad_part :: "AnyVal \<Rightarrow> bool" where
  "bad_part it = (case it of
       AnyObj m \<Rightarrow>
         obj_get m ''type'' = AnyStr ''image_url'' \<and>
         (case obj_get m ''image_url'' of
            AnyObj imageUrl \<Rightarrow>
              (case obj_get imageUrl ''url'' of AnyStr _ \<Rightarrow> False | _ \<Rightarrow> True) \<or>
              (case obj_get imageUrl ''detail'' of AnyNil \<Rightarrow> False | AnyStr _ \<Rightarrow> False | _ \<Rightarrow> True)
          | _ \<Rightarrow> False)
     | _ \<Rightarrow> True)"

definition bad_message :: "Message \<Rightarrow> bool" where
  "bad_message msg = (case Msg_Content msg of AnyArr v \<Rightarrow> list_ex bad_part v | _ \<Rightarrow> False)"

lemma count_part_None: "count_part tok img it = None \<longleftrightarrow> bad_part it"
  by (auto simp: count_part_def bad_part_def split: AnyVal.splits option.splits)

lemma count_parts_None: "count_parts tok img its acc = None \<longleftrightarrow> list_ex bad_part its"
proof (induction its arbitrary: acc)
  case (Cons it its)
  with count_part_None [of tok img it] show ?case by (auto split: option.split)
qed simp

lemma count_messages_None:
  "count_messages tok img pm pn msgs acc = None \<longleftrightarrow> list_ex bad_message msgs"
proof (induction msgs arbitrary: acc)
  case Nil
  show ?case by simp
next
  case (Cons msg msgs)
  have "(case Msg_Content msg of AnyStr v \<Rightarrow> Some (i64 (a + tok v))
           | AnyArr v \<Rightarrow> count_parts tok img v a | _ \<Rightarrow> Some a) = None \<longleftrightarrow> bad_message msg" for a
    by (simp add: bad_message_def count_parts_None split: AnyVal.split)
  with Cons.IH show ?case by (auto simp: Let_def split: option.split)
qed

text \<open>
  Counting the tokens of a chat request ends in a panic exactly when some message has a
  content list with an element that is not an object, or an image part without a string
  \<open>url\<close> (or with a \<open>detail\<close> that is neither absent nor a string); whatever the encoder, the
  configuration and the image server do.
\<close>

theorem count_panics_iff:
  "fst (CountTokenMessages tk messages model s) = None \<longleftrightarrow> list_ex bad_message messages"
  by (simp add: CountTokenMessages_def Let_def count_messages_None split: prod.split)

end
