(* ===== verification/RelayMeta.thy ===== *)
theory RelayMeta
  imports Poller TokenCount
begin

text \<open>
  What the relay handlers share: channel types, API types and relay modes with their tables
  (\<open>relay/channeltype\<close>, \<open>relay/apitype\<close>, \<open>relay/relaymode\<close>, \<open>relay/adaptor.go\<close>), the request
  context and \<open>Meta\<close> (\<open>relay/meta\<close>), the error values and the translation of an upstream's
  error (\<open>relay/controller/error.go\<close>), request validation (\<open>relay/controller/validator\<close>), and the
  adaptor interface (\<open>relay/adaptor/interface.go\<close>), whose implementations are arguments.
\<close>

section \<open>Constants\<close>

text \<open>\<open>relay/channeltype/define.go\<close>.\<close>

definition CT_Unknown :: int where "CT_Unknown = 0"
definition CT_OpenAI :: int where "CT_OpenAI = 1"
definition CT_API2D :: int where "CT_API2D = 2"
definition CT_Azure :: int where "CT_Azure = 3"
definition CT_CloseAI :: int where "CT_CloseAI = 4"
definition CT_OpenAISB :: int where "CT_OpenAISB = 5"
definition CT_OpenAIMax :: int where "CT_OpenAIMax = 6"
definition CT_OhMyGPT :: int where "CT_OhMyGPT = 7"
definition CT_Custom :: int where "CT_Custom = 8"
definition CT_Ails :: int where "CT_Ails = 9"
definition CT_AIProxy :: int where "CT_AIProxy = 10"
definition CT_PaLM :: int where "CT_PaLM = 11"
definition CT_API2GPT :: int where "CT_API2GPT = 12"
definition CT_AIGC2D :: int where "CT_AIGC2D = 13"
definition CT_Anthropic :: int where "CT_Anthropic = 14"
definition CT_Baidu :: int where "CT_Baidu = 15"
definition CT_Zhipu :: int where "CT_Zhipu = 16"
definition CT_Ali :: int where "CT_Ali = 17"
definition CT_Xunfei :: int where "CT_Xunfei = 18"
definition CT_AI360 :: int where "CT_AI360 = 19"
definition CT_OpenRouter :: int where "CT_OpenRouter = 20"
definition CT_AIProxyLibrary :: int where "CT_AIProxyLibrary = 21"
definition CT_FastGPT :: int where "CT_FastGPT = 22"
definition CT_Tencent :: int where "CT_Tencent = 23"
definition CT_Gemini :: int where "CT_Gemini = 24"
definition CT_Moonshot :: int where "CT_Moonshot = 25"
definition CT_Baichuan :: int where "CT_Baichuan = 26"
definition CT_Minimax :: int where "CT_Minimax = 27"
definition CT_Mistral :: int where "CT_Mistral = 28"
definition CT_Groq :: int where "CT_Groq = 29"
definition CT_Ollama :: int where "CT_Ollama = 30"
definition CT_LingYiWanWu :: int where "CT_LingYiWanWu = 31"
definition CT_StepFun :: int where "CT_StepFun = 32"
definition CT_AwsClaude :: int where "CT_AwsClaude = 33"
definition CT_Coze :: int where "CT_Coze = 34"
definition CT_Cohere :: int where "CT_Cohere = 35"
definition CT_DeepSeek :: int where "CT_DeepSeek = 36"
definition CT_Cloudflare :: int where "CT_Cloudflare = 37"
definition CT_DeepL :: int where "CT_DeepL = 38"
definition CT_TogetherAI :: int where "CT_TogetherAI = 39"
definition CT_Doubao :: int where "CT_Doubao = 40"
definition CT_Novita :: int where "CT_Novita = 41"
definition CT_VertextAI :: int where "CT_VertextAI = 42"
definition CT_Proxy :: int where "CT_Proxy = 43"
definition CT_SiliconFlow :: int where "CT_SiliconFlow = 44"
definition CT_XAI :: int where "CT_XAI = 45"
definition CT_Replicate :: int where "CT_Replicate = 46"
definition CT_BaiduV2 :: int where "CT_BaiduV2 = 47"
definition CT_XunfeiV2 :: int where "CT_XunfeiV2 = 48"
definition CT_AliBailian :: int where "CT_AliBailian = 49"
definition CT_OpenAICompatible :: int where "CT_OpenAICompatible = 50"
definition CT_GeminiOpenAICompatible :: int where "CT_GeminiOpenAICompatible = 51"
definition CT_Dummy :: int where "CT_Dummy = 52"

text \<open>\<open>relay/apitype/define.go\<close>.\<close>

definition API_OpenAI :: int where "API_OpenAI = 0"
definition API_Anthropic :: int where "API_Anthropic = 1"
definition API_PaLM :: int where "API_PaLM = 2"
definition API_Baidu :: int where "API_Baidu = 3"
definition API_Zhipu :: int where "API_Zhipu = 4"
definition API_Ali :: int where "API_Ali = 5"
definition API_Xunfei :: int where "API_Xunfei = 6"
definition API_AIProxyLibrary :: int where "API_AIProxyLibrary = 7"
definition API_Tencent :: int where "API_Tencent = 8"
definition API_Gemini :: int where "API_Gemini = 9"
definition API_Ollama :: int where "API_Ollama = 10"
definition API_AwsClaude :: int where "API_AwsClaude = 11"
definition API_Coze :: int where "API_Coze = 12"
definition API_Cohere :: int where "API_Cohere = 13"
definition API_Cloudflare :: int where "API_Cloudflare = 14"
definition API_DeepL :: int where "API_DeepL = 15"
definition API_VertexAI :: int where "API_VertexAI = 16"
definition API_Proxy :: int where "API_Proxy = 17"
definition API_Replicate :: int where "API_Replicate = 18"
definition API_Dummy :: int where "API_Dummy = 19"

lemmas channel_type_defs = CT_Unknown_def CT_OpenAI_def CT_API2D_def CT_Azure_def CT_CloseAI_def CT_OpenAISB_def CT_OpenAIMax_def CT_OhMyGPT_def CT_Custom_def CT_Ails_def CT_AIProxy_def CT_PaLM_def CT_API2GPT_def CT_AIGC2D_def CT_Anthropic_def CT_Baidu_def CT_Zhipu_def CT_Ali_def CT_Xunfei_def CT_AI360_def CT_OpenRouter_def CT_AIProxyLibrary_def CT_FastGPT_def CT_Tencent_def CT_Gemini_def CT_Moonshot_def CT_Baichuan_def CT_Minimax_def CT_Mistral_def CT_Groq_def CT_Ollama_def CT_LingYiWanWu_def CT_StepFun_def CT_AwsClaude_def CT_Coze_def CT_Cohere_def CT_DeepSeek_def CT_Cloudflare_def CT_DeepL_def CT_TogetherAI_def CT_Doubao_def CT_Novita_def CT_VertextAI_def CT_Proxy_def CT_SiliconFlow_def CT_XAI_def CT_Replicate_def CT_BaiduV2_def CT_XunfeiV2_def CT_AliBailian_def CT_OpenAICompatible_def CT_GeminiOpenAICompatible_def CT_Dummy_def

lemmas api_type_defs = API_OpenAI_def API_Anthropic_def API_PaLM_def API_Baidu_def API_Zhipu_def API_Ali_def API_Xunfei_def API_AIProxyLibrary_def API_Tencent_def API_Gemini_def API_Ollama_def API_AwsClaude_def API_Coze_def API_Cohere_def API_Cloudflare_def API_DeepL_def API_VertexAI_def API_Proxy_def API_Replicate_def API_Dummy_def

definition ToAPIType :: "int \<Rightarrow> int" where
  "ToAPIType channelType =
     (if channelType = CT_Anthropic then API_Anthropic
      else if channelType = CT_Baidu then API_Baidu
      else if channelType = CT_PaLM then API_PaLM
      else if channelType = CT_Zhipu then API_Zhipu
      else if channelType = CT_Ali then API_Ali
      else if channelType = CT_Xunfei then API_Xunfei
      else if channelType = CT_AIProxyLibrary then API_AIProxyLibrary
      else if channelType = CT_Tencent then API_Tencent
      else if channelType = CT_Gemini then API_Gemini
      else if channelType = CT_Ollama then API_Ollama
      else if channelType = CT_AwsClaude then API_AwsClaude
      else if channelType = CT_Coze then API_Coze
      else if channelType = CT_Cohere then API_Cohere
      else if channelType = CT_Cloudflare then API_Cloudflare
      else if channelType = CT_DeepL then API_DeepL
      else if channelType = CT_VertextAI then API_VertexAI
      else if channelType = CT_Replicate then API_Replicate
      else if channelType = CT_Proxy then API_Proxy
      else API_OpenAI)"

text \<open>\<open>relay.GetAdaptor\<close>: the API types that have an adaptor.\<close>

definition adaptor_api_types :: "int list" where
  "adaptor_api_types = [API_AIProxyLibrary, API_Ali, API_Anthropic, API_AwsClaude, API_Baidu,
     API_Gemini, API_OpenAI, API_PaLM, API_Tencent, API_Xunfei, API_Zhipu, API_Ollama, API_Coze,
     API_Cohere, API_Cloudflare, API_DeepL, API_VertexAI, API_Proxy, API_Replicate]"

definition RelayGetAdaptor :: "(int \<Rightarrow> 'a) \<Rightarrow> int \<Rightarrow> 'a option" where
  "RelayGetAdaptor adaptors apiType =
     (if apiType \<in> set adaptor_api_types then Some (adaptors apiType) else None)"

datatype RelayMode =
    Unknown | ChatCompletions | Completions | Embeddings | Moderations | ImagesGenerations | Edits
  | AudioSpeech | AudioTranscription | AudioTranslation | ProxyMode

definition GetByPath :: "string \<Rightarrow> RelayMode" where
  "GetByPath path =
     (if has_prefix path ''/v1/chat/completions'' then ChatCompletions
      else if has_prefix path ''/v1/completions'' then Completions
      else if has_prefix path ''/v1/embeddings'' then Embeddings
      else if has_suffix path ''embeddings'' then Embeddings
      else if has_prefix path ''/v1/moderations'' then Moderations
      else if has_prefix path ''/v1/images/generations'' then ImagesGenerations
      else if has_prefix path ''/v1/edits'' then Edits
      else if has_prefix path ''/v1/audio/speech'' then AudioSpeech
      else if has_prefix path ''/v1/audio/transcriptions'' then AudioTranscription
      else if has_prefix path ''/v1/audio/translations'' then AudioTranslation
      else if has_prefix path ''/v1/oneapi/proxy'' then ProxyMode
      else Unknown)"

section \<open>The request context\<close>

record ChannelConfig =
  CC_Region :: string
  CC_SK :: string
  CC_AK :: string
  CC_UserID :: string
  CC_APIVersion :: string
  CC_LibraryID :: string
  CC_Plugin :: string
  CC_VertexAIProjectID :: string
  CC_VertexAIADC :: string

definition empty_channel_config :: ChannelConfig where
  "empty_channel_config = \<lparr>CC_Region = [], CC_SK = [], CC_AK = [], CC_UserID = [], CC_APIVersion = [],
     CC_LibraryID = [], CC_Plugin = [], CC_VertexAIProjectID = [], CC_VertexAIADC = []\<rparr>"

text \<open>
  The keys of the gin context that the relay reads (\<open>common/ctxkey\<close>), with the request path, its
  body, its \<open>model\<close> path parameter and the authorization header. A key that was never set reads as the zero value of its type.
\<close>

record GinContext =
  C_Path :: string
  C_URL :: string
  C_Authorization :: string
  C_Body :: string
  C_ParamModel :: string
  C_Id :: int
  C_TokenId :: int
  C_TokenName :: string
  C_Group :: string
  C_RequestModel :: string
  C_OriginalModel :: string
  C_SpecificChannelId :: "string option"
  C_Channel :: int
  C_ChannelId :: int
  C_ChannelName :: string
  C_ModelMapping :: "(string \<times> string) list option"
  C_BaseURL :: string
  C_SystemPrompt :: string
  C_Config :: "ChannelConfig option"

record Meta =
  M_Mode :: RelayMode
  M_ChannelType :: int
  M_ChannelId :: int
  M_TokenId :: int
  M_TokenName :: string
  M_UserId :: int
  M_Group :: string
  M_ModelMapping :: "(string \<times> string) list option"
  M_BaseURL :: string
  M_APIKey :: string
  M_APIType :: int
  M_Config :: ChannelConfig
  M_IsStream :: bool
  M_OriginModelName :: string
  M_ActualModelName :: string
  M_RequestURLPath :: string
  M_PromptTokens :: int
  M_ForcedSystemPrompt :: string

text \<open>Indexing a Go slice; outside its range the program panics.\<close>

definition go_index :: "'a list \<Rightarrow> int \<Rightarrow> 'a option" where
  "go_index xs i = (if 0 \<le> i \<and> i < int (length xs) then Some (xs ! nat i) else None)"

definition GetByContext :: "GinContext \<Rightarrow> Meta option" where
  "GetByContext c =
     (case (if C_BaseURL c = [] then go_index ChannelBaseURLs (C_Channel c) else Some (C_BaseURL c)) of
        None \<Rightarrow> None
      | Some base \<Rightarrow> Some
          \<lparr>M_Mode = GetByPath (C_Path c), M_ChannelType = C_Channel c, M_ChannelId = C_ChannelId c,
           M_TokenId = C_TokenId c, M_TokenName = C_TokenName c, M_UserId = C_Id c, M_Group = C_Group c,
           M_ModelMapping = C_ModelMapping c, M_BaseURL = base,
           M_APIKey = trim_prefix (C_Authorization c) ''Bearer '',
           M_APIType = ToAPIType (C_Channel c),
           M_Config = (case C_Config c of None \<Rightarrow> empty_channel_config | Some cc \<Rightarrow> cc),
           M_IsStream = False, M_OriginModelName = C_RequestModel c, M_ActualModelName = [],
           M_RequestURLPath = C_URL c, M_PromptTokens = 0, M_ForcedSystemPrompt = C_SystemPrompt c\<rparr>)"

section \<open>Errors for the client\<close>

text \<open>\<open>relay/model/misc.go\<close>: \<open>Error\<close> and \<open>ErrorWithStatusCode\<close> in one record.\<close>

record RelayError =
  RE_Message :: string
  RE_Type :: string
  RE_Param :: string
  RE_Code :: AnyVal
  RE_StatusCode :: int

definition ErrorWrapper :: "GoErr \<Rightarrow> string \<Rightarrow> int \<Rightarrow> RelayError" where
  "ErrorWrapper err code statusCode =
     \<lparr>RE_Message = error_text err, RE_Type = ''one_api_error'', RE_Param = [], RE_Code = AnyStr code,
      RE_StatusCode = statusCode\<rparr>"

text \<open>An upstream answer: the body may fail to be read, and closing it may fail.\<close>

record HttpResp =
  H_StatusCode :: int
  H_ContentType :: string
  H_Body :: "GoErr + string"
  H_CloseErr :: "GoErr option"

record GeneralErrorResponse =
  GE_Error :: RelayError
  GE_Message :: string
  GE_Msg :: string
  GE_Err :: string
  GE_ErrorMsg :: string
  GE_HeaderMessage :: string
  GE_ResponseErrorMessage :: string

definition ToMessage :: "GeneralErrorResponse \<Rightarrow> string" where
  "ToMessage e =
     (if RE_Message (GE_Error e) \<noteq> [] then RE_Message (GE_Error e)
      else if GE_Message e \<noteq> [] then GE_Message e
      else if GE_Msg e \<noteq> [] then GE_Msg e
      else if GE_Err e \<noteq> [] then GE_Err e
      else if GE_ErrorMsg e \<noteq> [] then GE_ErrorMsg e
      else if GE_HeaderMessage e \<noteq> [] then GE_HeaderMessage e
      else if GE_ResponseErrorMessage e \<noteq> [] then GE_ResponseErrorMessage e
      else [])"

text \<open>\<open>decode\<close> is \<open>json.Unmarshal\<close> of the body into a \<open>GeneralErrorResponse\<close>.\<close>

definition RelayErrorHandler ::
  "(string \<Rightarrow> GeneralErrorResponse option) \<Rightarrow> HttpResp option \<Rightarrow> RelayError" where
  "RelayErrorHandler decode resp = (case resp of
       None \<Rightarrow> \<lparr>RE_Message = ''resp is nil'', RE_Type = ''upstream_error'', RE_Param = [],
                RE_Code = AnyStr ''bad_response'', RE_StatusCode = 500\<rparr>
     | Some h \<Rightarrow>
         let base = \<lparr>RE_Message = [], RE_Type = ''upstream_error'', RE_Param = show_int (H_StatusCode h),
                RE_Code = AnyStr ''bad_response_status_code'', RE_StatusCode = H_StatusCode h\<rparr>
         in case H_Body h of
              Inl e \<Rightarrow> base
            | Inr body \<Rightarrow>
                if H_CloseErr h \<noteq> None then base
                else case decode body of
                       None \<Rightarrow> base
                     | Some errResponse \<Rightarrow>
                         let err = (if RE_Message (GE_Error errResponse) \<noteq> []
                                    then (GE_Error errResponse)\<lparr>RE_StatusCode := H_StatusCode h\<rparr>
                                    else base\<lparr>RE_Message := ToMessage errResponse\<rparr>)
                         in if RE_Message err = []
                            then err\<lparr>RE_Message := ''bad response status code '' @ show_int (H_StatusCode h)\<rparr>
                            else err)"

section \<open>Text requests\<close>

text \<open>The fields of \<open>GeneralOpenAIRequest\<close> that the relay itself reads or writes.\<close>

record TextRequest =
  TR_Messages :: "Message list"
  TR_Model :: string
  TR_MaxTokens :: int
  TR_Stream :: bool
  TR_Prompt :: AnyVal
  TR_Input :: AnyVal
  TR_Instruction :: string

definition ValidateTextRequest :: "TextRequest \<Rightarrow> RelayMode \<Rightarrow> GoErr option" where
  "ValidateTextRequest r relayMode =
     (if TR_MaxTokens r < 0 \<or> 1073741823 < TR_MaxTokens r then Some (Err ''max_tokens is invalid'')
      else if TR_Model r = [] then Some (Err ''model is required'')
      else case relayMode of
        Completions \<Rightarrow>
          if TR_Prompt r = AnyStr [] then Some (Err ''field prompt is required'') else None
      | ChatCompletions \<Rightarrow>
          if TR_Messages r = [] then Some (Err ''field messages is required'') else None
      | Moderations \<Rightarrow>
          if TR_Input r = AnyStr [] then Some (Err ''field input is required'') else None
      | Edits \<Rightarrow>
          if TR_Instruction r = [] then Some (Err ''field instruction is required'') else None
      | _ \<Rightarrow> None)"

definition getMappedModelName :: "string \<Rightarrow> (string \<times> string) list option \<Rightarrow> string \<times> bool" where
  "getMappedModelName modelName mapping = (case mapping of
       None \<Rightarrow> (modelName, False)
     | Some m \<Rightarrow>
         let mapped = (case map_of m modelName of None \<Rightarrow> [] | Some x \<Rightarrow> x)
         in if mapped \<noteq> [] then (mapped, True) else (modelName, False))"

definition setSystemPrompt :: "TextRequest \<Rightarrow> string \<Rightarrow> TextRequest \<times> bool" where
  "setSystemPrompt request prompt =
     (if prompt = [] then (request, False)
      else case TR_Messages request of
        [] \<Rightarrow> (request, False)
      | m # ms \<Rightarrow>
          if Msg_Role m = ''system''
          then (request\<lparr>TR_Messages := m\<lparr>Msg_Content := AnyStr prompt\<rparr> # ms\<rparr>, True)
          else (request\<lparr>TR_Messages :=
                  \<lparr>Msg_Role = ''system'', Msg_Content = AnyStr prompt, Msg_Name = None\<rparr> # m # ms\<rparr>, True))"

section \<open>Adaptors\<close>

record Usage =
  PromptTokens :: int
  CompletionTokens :: int

record ImageRequest =
  IR_Model :: string
  IR_Prompt :: string
  IR_N :: int
  IR_Size :: string
  IR_Quality :: string
  IR_ResponseFormat :: string

text \<open>
  \<open>DoRequest\<close> may return a nil response without an error. \<open>DoResponse\<close> returns usage or an
  error, either of which may be nil.
\<close>

record Adaptor =
  ConvertRequest :: "Meta \<Rightarrow> TextRequest \<Rightarrow> GoErr + AnyVal"
  ConvertImageRequest :: "ImageRequest \<Rightarrow> GoErr + AnyVal"
  DoRequest :: "Meta \<Rightarrow> string \<Rightarrow> GoErr + HttpResp option"
  AdaptorDoResponse :: "HttpResp option \<Rightarrow> Meta \<Rightarrow> Usage option \<times> RelayError option"

definition isErrorHappened :: "Meta \<Rightarrow> HttpResp option \<Rightarrow> bool" where
  "isErrorHappened m resp = (case resp of
       None \<Rightarrow> M_ChannelType m \<noteq> CT_AwsClaude
     | Some h \<Rightarrow>
         if H_StatusCode h \<noteq> 200 \<and> H_StatusCode h \<noteq> 201 then True
         else if M_ChannelType m = CT_DeepL then False
         else M_IsStream m \<and> has_prefix (H_ContentType h) ''application/json''
                \<and> M_ChannelType m \<noteq> CT_Replicate)"

section \<open>The tables fit together\<close>

text \<open>Every channel type has an adaptor: \<open>invalid_api_type\<close> cannot happen.\<close>

lemma ToAPIType_has_adaptor: "ToAPIType channelType \<in> set adaptor_api_types"
  unfolding ToAPIType_def by (simp add: adaptor_api_types_def api_type_defs)

lemma GetAdaptor_total: "RelayGetAdaptor adaptors (ToAPIType ct) = Some (adaptors (ToAPIType ct))"
  by (simp add: RelayGetAdaptor_def ToAPIType_has_adaptor)

lemma length_ChannelBaseURLs: "int (length ChannelBaseURLs) = CT_Dummy"
  by code_simp

lemma GetByContext_total: "0 \<le> C_Channel c \<Longrightarrow> C_Channel c < CT_Dummy \<Longrightarrow> GetByContext c \<noteq> None"
  by (simp add: GetByContext_def go_index_def length_ChannelBaseURLs split: option.split)

lemma RelayErrorHandler_status:
  "RE_StatusCode (RelayErrorHandler decode resp) = (case resp of None \<Rightarrow> 500 | Some h \<Rightarrow> H_StatusCode h)"
  by (simp add: RelayErrorHandler_def Let_def split: option.split sum.split)

end
