(* ===== verification/Seedance.thy ===== *)
theory Seedance
  imports RelayMeta
begin

text \<open>
  The Seedance adaptor (\<open>relay/task/seedance/adaptor.go\<close>): request validation, the price
  estimate, the price tier applied at settlement, and the reading of the upstream's answers. It
  provides the interface \<open>task_adaptor\<close> that the poller relies on. \<open>encoding/json\<close> is a
  parameter: the functions that decode a body are arguments.
\<close>

section \<open>Tables\<close>

definition Platform :: string where "Platform = ''seedance''"

definition tasksPath :: string where "tasksPath = ''/api/v3/contents/generations/tasks''"

definition ModelList :: "string list" where
  "ModelList = [''seedance-2.0'', ''seedance-2.0-fast'', ''doubao-seedance-2-0-260128'',
     ''doubao-seedance-2-0-fast-260128'']"

definition defaultDuration :: int where "defaultDuration = 5"
definition defaultResolution :: string where "defaultResolution = ''720p''"
definition minDuration :: int where "minDuration = 4"
definition maxDuration :: int where "maxDuration = 15"

definition hdSurchargeKey :: string where "hdSurchargeKey = ''hd_surcharge''"

text \<open>The constant \<open>1.1\<close> is the float64 nearest to it.\<close>

definition hdSurcharge :: float64 where "hdSurcharge = fl (11 / 10)"

definition resolutionShortSide :: "(string \<times> int) list" where
  "resolutionShortSide = [(''480p'', 480), (''720p'', 720), (''1080p'', 1080)]"

definition aspectRatios :: "(string \<times> int \<times> int) list" where
  "aspectRatios = [(''16:9'', 16, 9), (''4:3'', 4, 3), (''1:1'', 1, 1),
     (''3:4'', 3, 4), (''9:16'', 9, 16), (''21:9'', 21, 9)]"

section \<open>Requests\<close>

record SdRequest =
  Sd_Prompt :: string
  Sd_Seconds :: string
  Sd_Resolution :: string
  Sd_Ratio :: string
  Sd_Seed :: "int option"
  Sd_Watermark :: "bool option"

record SdAdaptor =
  sd_req :: "SdRequest option"
  sd_duration :: int
  sd_resolution :: string

definition new_adaptor :: SdAdaptor where
  "new_adaptor = \<lparr>sd_req = None, sd_duration = 0, sd_resolution = []\<rparr>"

text \<open>\<open>body\<close> is the result of decoding the request body into the adaptor's \<open>request\<close>.\<close>

definition ValidateRequest ::
  "GoErr + SdRequest \<Rightarrow> string \<Rightarrow> SdAdaptor \<Rightarrow> (GoErr + string) \<times> SdAdaptor" where
  "ValidateRequest body actualModel a = (case body of
       Inl e \<Rightarrow> (Inl e, a)
     | Inr req \<Rightarrow>
         if trim_space (Sd_Prompt req) = [] then (Inl (Err ''prompt must not be empty''), a)
         else
           let duration = (if Sd_Seconds req = [] then Some defaultDuration else go_atoi (Sd_Seconds req))
           in case duration of
             None \<Rightarrow> (Inl (Err (''seconds must be an integer, got '' @ Sd_Seconds req)), a)
           | Some d \<Rightarrow>
               if d < minDuration \<or> maxDuration < d
               then (Inl (Err ''seconds out of range''), a)
               else
                 let resolution = (if Sd_Resolution req = [] then defaultResolution else Sd_Resolution req)
                 in if map_of resolutionShortSide resolution = None
                    then (Inl (Err (''unsupported resolution '' @ Sd_Resolution req)), a)
                    else if resolution = ''1080p'' \<and> contains_str actualModel ''fast''
                    then (Inl (Err ''the fast model does not support 1080p''), a)
                    else if Sd_Ratio req \<noteq> [] \<and> Sd_Ratio req \<noteq> ''adaptive''
                            \<and> map_of aspectRatios (Sd_Ratio req) = None
                    then (Inl (Err (''unsupported ratio '' @ Sd_Ratio req)), a)
                    else (Inr ''generate'',
                          a\<lparr>sd_req := Some req, sd_duration := d, sd_resolution := resolution\<rparr>))"

section \<open>Price\<close>

definition estimateDimensions :: "string \<Rightarrow> string \<Rightarrow> int \<times> int" where
  "estimateDimensions resolution ratio =
     (let short = (case map_of resolutionShortSide resolution of None \<Rightarrow> 0 | Some s \<Rightarrow> s);
          ar = (case map_of aspectRatios ratio of
                  Some p \<Rightarrow> p
                | None \<Rightarrow> (case map_of aspectRatios ''16:9'' of Some p \<Rightarrow> p | None \<Rightarrow> (0, 0)))
      in if snd ar \<le> fst ar then (go_div (short * fst ar) (snd ar), short)
         else (short, go_div (short * snd ar) (fst ar)))"

definition estimate_tokens :: "int \<Rightarrow> int \<Rightarrow> int \<Rightarrow> float64" where
  "estimate_tokens duration w h =
     fdiv (fmul (fmul (fmul (fl_int duration) (fl_int w)) (fl_int h)) (fl_int 24)) (fl_int 1024)"

definition EstimateBilling :: "SdAdaptor \<Rightarrow> GoErr + (string \<times> float64) list" where
  "EstimateBilling a = (case sd_req a of
       None \<Rightarrow> Inl (Err ''EstimateBilling called before ValidateRequest'')
     | Some req \<Rightarrow>
         (case estimateDimensions (sd_resolution a) (Sd_Ratio req) of (w, h) \<Rightarrow>
           let ratios = [(''tokens'', fdiv (estimate_tokens (sd_duration a) w h) (fl_int 1000))]
           in Inr (if sd_resolution a = ''1080p'' then ratios @ [(hdSurchargeKey, hdSurcharge)] else ratios)))"

definition AdjustBillingOnComplete :: "Task \<Rightarrow> TaskInfo \<Rightarrow> int option" where
  "AdjustBillingOnComplete t info =
     (if TI_TotalTokens info \<le> 0 then None
      else case GetPrivateData t of
        Inl e \<Rightarrow> None
      | Inr pd \<Rightarrow> (case map_of (TB_OtherRatios (PD_Billing pd)) hdSurchargeKey of
            None \<Rightarrow> None
          | Some surcharge \<Rightarrow>
              if fle surcharge (Fin 0) then None
              else Some (f2i (fmul (fmul (fmul (fl_int (TI_TotalTokens info)) (TB_ModelRatio (PD_Billing pd)))
                                         (TB_GroupRatio (PD_Billing pd))) surcharge))))"

section \<open>The upstream protocol\<close>

definition BuildRequestURL :: "string \<Rightarrow> GoErr + string" where
  "BuildRequestURL baseURL =
     (if baseURL = [] then Inl (Err ''the channel has no base url'')
      else Inr (trim_suffix baseURL ''/'' @ tasksPath))"

record ArkCreateRequest =
  Ark_Model :: string
  Ark_Content :: "(string \<times> string) list"
  Ark_Resolution :: string
  Ark_Ratio :: string
  Ark_Duration :: int
  Ark_Seed :: "int option"
  Ark_Watermark :: "bool option"

definition BuildRequestBody :: "string \<Rightarrow> SdAdaptor \<Rightarrow> GoErr + ArkCreateRequest" where
  "BuildRequestBody actualModel a = (case sd_req a of
       None \<Rightarrow> Inl (Err ''BuildRequestBody called before ValidateRequest'')
     | Some req \<Rightarrow> Inr \<lparr>Ark_Model = actualModel, Ark_Content = [(''text'', Sd_Prompt req)],
         Ark_Resolution = sd_resolution a, Ark_Ratio = Sd_Ratio req, Ark_Duration = sd_duration a,
         Ark_Seed = Sd_Seed req, Ark_Watermark = Sd_Watermark req\<rparr>)"

definition seedanceError :: "int \<Rightarrow> string \<Rightarrow> string \<Rightarrow> RelayError" where
  "seedanceError status code message = \<lparr>RE_Message = message, RE_Type = ''seedance_error'', RE_Param = [],
     RE_Code = AnyStr code, RE_StatusCode = status\<rparr>"

text \<open>The Ark error envelope: code and message, under \<open>error\<close> or under \<open>detail\<close>.\<close>

record ArkError =
  AE_Code :: string
  AE_Message :: string
  AE_DetailCode :: string
  AE_DetailMessage :: string

definition DoResponse ::
  "(string \<Rightarrow> ArkError option) \<Rightarrow> (string \<Rightarrow> string option) \<Rightarrow> int \<Rightarrow> string option \<Rightarrow> RelayError + string" where
  "DoResponse dec_error dec_id status body = (case body of
       None \<Rightarrow> Inl (seedanceError 500 [] ''failed to read the upstream response'')
     | Some raw \<Rightarrow>
         if status \<noteq> 200 then
           let dflt = ([], ''upstream returned status code '' @ show_int status);
               cm = (case dec_error raw of
                  None \<Rightarrow> dflt
                | Some e \<Rightarrow>
                    if AE_Message e \<noteq> [] then (AE_Code e, AE_Message e)
                    else if AE_DetailMessage e \<noteq> [] then (AE_DetailCode e, AE_DetailMessage e)
                    else dflt)
           in Inl (seedanceError status (fst cm) (snd cm))
         else (case dec_id raw of
             None \<Rightarrow> Inl (seedanceError 500 [] (''upstream returned no task id: '' @ raw))
           | Some tid \<Rightarrow>
               if tid = [] then Inl (seedanceError 500 [] (''upstream returned no task id: '' @ raw))
               else Inr tid))"

text \<open>The Ark query response.\<close>

record ArkTask =
  AT_Id :: string
  AT_Status :: string
  AT_VideoUrl :: string
  AT_TotalTokens :: int
  AT_OutputTokens :: int
  AT_ErrorMessage :: string

definition ParseTaskResult :: "(string \<Rightarrow> ArkTask option) \<Rightarrow> string \<Rightarrow> GoErr + TaskInfo" where
  "ParseTaskResult dec body = (case dec body of
       None \<Rightarrow> Inl ErrJSON
     | Some t \<Rightarrow>
         let info = \<lparr>TI_TaskId = AT_Id t, TI_Status = TaskStatusOther [], TI_Reason = [], TI_Url = [],
                     TI_Progress = 0, TI_TotalTokens = 0\<rparr>
         in if AT_Status t = ''queued'' then Inr (info\<lparr>TI_Status := TaskStatusQueued\<rparr>)
            else if AT_Status t = ''running'' then Inr (info\<lparr>TI_Status := TaskStatusInProgress\<rparr>)
            else if AT_Status t = ''succeeded'' then
              if trim_space (AT_VideoUrl t) = [] then Inl (Err ''upstream succeeded without video_url'')
              else Inr (info\<lparr>TI_Status := TaskStatusSuccess, TI_Url := AT_VideoUrl t,
                     TI_TotalTokens := (if AT_TotalTokens t = 0 then AT_OutputTokens t else AT_TotalTokens t),
                     TI_Progress := 100\<rparr>)
            else if AT_Status t = ''failed'' \<or> AT_Status t = ''cancelled'' \<or> AT_Status t = ''expired''
            then Inr (info\<lparr>TI_Status := TaskStatusFailure,
                   TI_Reason := (if AT_ErrorMessage t = [] then ''upstream task '' @ AT_Status t
                                 else AT_ErrorMessage t)\<rparr>)
            else Inl (Err (''unknown task status '' @ AT_Status t)))"

text \<open>\<open>fetch\<close> is the HTTP client and \<open>escape\<close> \<open>url.PathEscape\<close>.\<close>

definition FetchTask ::
  "(string \<Rightarrow> string \<Rightarrow> FetchResult) \<Rightarrow> (string \<Rightarrow> string) \<Rightarrow> string \<Rightarrow> string \<Rightarrow> string \<Rightarrow> FetchResult" where
  "FetchTask fetch escape baseURL key upstreamTaskId =
     fetch (trim_suffix baseURL ''/'' @ tasksPath @ ''/'' @ escape upstreamTaskId) (''Bearer '' @ key)"

definition seedance_adaptor ::
  "(string \<Rightarrow> string \<Rightarrow> FetchResult) \<Rightarrow> (string \<Rightarrow> string) \<Rightarrow> (string \<Rightarrow> ArkTask option) \<Rightarrow> TaskAdaptor" where
  "seedance_adaptor fetch escape dec = \<lparr>TA_FetchTask = FetchTask fetch escape,
     TA_ParseTaskResult = ParseTaskResult dec, TA_AdjustBillingOnComplete = AdjustBillingOnComplete\<rparr>"

section \<open>What the poller relies on\<close>

text \<open>
  A well-behaved adaptor reports only declared statuses, never reports success without a result
  URL, and never turns a billing snapshot with non-negative ratios into a negative charge (as
  long as the product fits an \<open>int64\<close>).
\<close>

definition ratios_ok :: "TaskBillingContext \<Rightarrow> bool" where
  "ratios_ok bc \<longleftrightarrow> fle (Fin 0) (TB_ModelRatio bc) \<and> fle (Fin 0) (TB_GroupRatio bc)"

locale task_adaptor =
  fixes parse :: "string \<Rightarrow> GoErr + TaskInfo"
    and adjust :: "Task \<Rightarrow> TaskInfo \<Rightarrow> int option"
  assumes parse_status: "parse raw = Inr info \<Longrightarrow>
      known_status (TI_Status info) \<or> TI_Status info = TaskStatusOther []"
    and parse_url: "parse raw = Inr info \<Longrightarrow> TI_Status info = TaskStatusSuccess \<Longrightarrow> TI_Url info \<noteq> []"
    and adjust_nonneg: "adjust t info = Some q \<Longrightarrow> GetPrivateData t = Inr pd \<Longrightarrow> ratios_ok (PD_Billing pd) \<Longrightarrow>
      0 \<le> q \<or> q = - (2 ^ 63)"
begin

lemma apply_typed:
  assumes "tasks_typed w" and "parse raw = Inr info"
  shows "tasks_typed (applyTaskInfo (\<lparr>TA_FetchTask = f, TA_ParseTaskResult = parse,
           TA_AdjustBillingOnComplete = adjust\<rparr>) t info raw' w)"
proof -
  obtain b w1 where c: "claim (verdict_of info raw') t w = (b, w1)" by fastforce
  have "tasks_typed w1"
    by (rule claim_typed [OF assms(1) _ c])
       (use parse_status [OF assms(2)] in \<open>auto simp: verdict_of_def split: if_splits\<close>)
  with c tasks_typed_rows [OF settle_status] show ?thesis by (simp add: applyTaskInfo_steps)
qed

lemma poll_typed:
  assumes "tasks_typed w"
  shows "tasks_typed (pollTask (\<lparr>TA_FetchTask = f, TA_ParseTaskResult = parse,
           TA_AdjustBillingOnComplete = adjust\<rparr>) t url key w)"
  using assms by (auto simp: pollTask_def intro: apply_typed
      split: sum.splits FetchResult.splits option.splits)

lemma final_quota_nonneg:
  assumes "GetPrivateData t = Inr pd" and "ratios_ok (PD_Billing pd)" and "0 \<le> Task_Quota t"
  shows "0 \<le> final_quota adjust (PD_Billing pd) t info \<or> final_quota adjust (PD_Billing pd) t info = - (2 ^ 63)"
proof (cases "adjust t info")
  case (Some q)
  with adjust_nonneg [OF Some assms(1,2)] show ?thesis by (simp add: final_quota_def)
next
  case None
  let ?p = "fmul (fmul (fl_int (TI_TotalTokens info)) (TB_ModelRatio (PD_Billing pd))) (TB_GroupRatio (PD_Billing pd))"
  have "0 < TI_TotalTokens info \<Longrightarrow> 0 \<le> f2i ?p \<or> f2i ?p = - (2 ^ 63)"
    using f2i_product_nonneg [of "TI_TotalTokens info"] assms(2) by (simp add: ratios_ok_def)
  with None assms(3) show ?thesis by (simp add: final_quota_def)
qed

end

lemma ParseTaskResult_cases:
  assumes "ParseTaskResult dec raw = Inr info"
  shows "known_status (TI_Status info) \<and> (TI_Status info = TaskStatusSuccess \<longrightarrow> TI_Url info \<noteq> [])"
  using assms
  by (auto simp: ParseTaskResult_def Let_def known_status_def trim_space_def split: option.splits if_splits)

lemma adjust_nonneg_or_min:
  assumes "AdjustBillingOnComplete t info = Some q" and "GetPrivateData t = Inr pd" and "ratios_ok (PD_Billing pd)"
  shows "0 \<le> q \<or> q = - (2 ^ 63)"
proof -
  obtain s where s: "map_of (TB_OtherRatios (PD_Billing pd)) hdSurchargeKey = Some s" "\<not> fle s (Fin 0)"
    and q: "q = f2i (fmul (fmul (fmul (fl_int (TI_TotalTokens info)) (TB_ModelRatio (PD_Billing pd)))
        (TB_GroupRatio (PD_Billing pd))) s)" and pos: "0 < TI_TotalTokens info"
    using assms(1,2) by (auto simp: AdjustBillingOnComplete_def split: if_splits option.splits)
  have "fle (Fin 0) s \<or> s = NaN" using s(2) by (cases s) auto
  then show ?thesis
    unfolding q using assms(3) pos fl_int_nonneg [of "TI_TotalTokens info"]
    by (intro f2i_nonneg_or_min fmul_nonneg_or_NaN) (auto simp: ratios_ok_def)
qed

interpretation seedance: task_adaptor "ParseTaskResult dec" AdjustBillingOnComplete for dec
  by unfold_locales (use ParseTaskResult_cases adjust_nonneg_or_min in blast)+

text \<open>
  C12. Polling a Seedance task, whatever the upstream answers and whatever fails, leaves every
  task row with one of the six declared statuses.
\<close>

theorem seedance_poll_typed:
  assumes "tasks_typed w"
  shows "tasks_typed (pollTask (seedance_adaptor fetch escape dec) t baseURL key w)"
  unfolding seedance_adaptor_def using assms by (rule seedance.poll_typed)

theorem seedance_poll_typed_witness:
  "let fetch = (\<lambda>u k. Fetched 200 (Some ''body''));
       dec = (\<lambda>raw. Some \<lparr>AT_Id = ''cgt-1'', AT_Status = ''running'', AT_VideoUrl = [], AT_TotalTokens = 0,
               AT_OutputTokens = 0, AT_ErrorMessage = []\<rparr>);
       w = pollTask (seedance_adaptor fetch (\<lambda>s. s) dec) demo_poll_task ''https://u'' ''k'' demo_poll_world
   in tasks_typed w \<and> status_of w 1 = Some TaskStatusInProgress"
proof -
  let ?fetch = "\<lambda>u k. Fetched 200 (Some ''body'')"
  let ?dec = "\<lambda>raw. Some \<lparr>AT_Id = ''cgt-1'', AT_Status = ''running'', AT_VideoUrl = [], AT_TotalTokens = 0,
               AT_OutputTokens = 0, AT_ErrorMessage = []\<rparr>"
  have "tasks_typed demo_poll_world" by code_simp
  note seedance_poll_typed [OF this, of ?fetch "\<lambda>s. s" ?dec demo_poll_task "''https://u''" "''k''"]
  moreover have "status_of (pollTask (seedance_adaptor ?fetch (\<lambda>s. s) ?dec) demo_poll_task ''https://u'' ''k''
      demo_poll_world) 1 = Some TaskStatusInProgress" by code_simp
  ultimately show ?thesis by (simp add: Let_def)
qed

text \<open>
  A request that validates asks for 4 to 15 seconds in a supported resolution, never for
  1080p from a fast model, and can be priced: the estimate is the token count of those
  dimensions per thousand, with the surcharge exactly for 1080p, so a fast model never carries it.
\<close>

theorem validated_request_is_priced:
  assumes "ValidateRequest body actualModel a = (Inr action, a')"
  shows "minDuration \<le> sd_duration a' \<and> sd_duration a' \<le> maxDuration
     \<and> sd_resolution a' \<in> fst ` set resolutionShortSide
     \<and> (\<exists>ratios. EstimateBilling a' = Inr ratios
          \<and> (map_of ratios hdSurchargeKey = Some hdSurcharge \<longleftrightarrow> sd_resolution a' = ''1080p'')
          \<and> (contains_str actualModel ''fast'' \<longrightarrow> map_of ratios hdSurchargeKey = None))"
proof -
  obtain req where req: "body = Inr req" using assms by (cases body) (auto simp: ValidateRequest_def)
  have d: "minDuration \<le> sd_duration a'" "sd_duration a' \<le> maxDuration" and r: "sd_req a' = Some req"
    and res: "map_of resolutionShortSide (sd_resolution a') \<noteq> None"
    and fast: "sd_resolution a' = ''1080p'' \<longrightarrow> \<not> contains_str actualModel ''fast''"
    using assms req by (auto simp: ValidateRequest_def Let_def not_less split: if_splits option.splits)
  have "sd_resolution a' \<in> fst ` set resolutionShortSide"
    using res map_of_eq_None_iff by metis
  then show ?thesis using d r fast
    by (auto simp: EstimateBilling_def hdSurchargeKey_def Let_def split: prod.splits)
qed

theorem validated_request_is_priced_witness:
  "let a = snd (ValidateRequest (Inr \<lparr>Sd_Prompt = ''cat'', Sd_Seconds = ''10'', Sd_Resolution = ''1080p'',
        Sd_Ratio = ''9:16'', Sd_Seed = None, Sd_Watermark = None\<rparr>) ''seedance-2.0'' new_adaptor)
   in minDuration \<le> sd_duration a \<and> sd_duration a \<le> maxDuration
     \<and> sd_resolution a \<in> fst ` set resolutionShortSide
     \<and> (\<exists>ratios. EstimateBilling a = Inr ratios
          \<and> map_of ratios hdSurchargeKey = Some hdSurcharge)
     \<and> sd_duration a = 10"
proof -
  define body where "body = (Inr \<lparr>Sd_Prompt = ''cat'', Sd_Seconds = ''10'', Sd_Resolution = ''1080p'',
        Sd_Ratio = ''9:16'', Sd_Seed = None, Sd_Watermark = None\<rparr> :: GoErr + SdRequest)"
  have f: "fst (ValidateRequest body ''seedance-2.0'' new_adaptor) = Inr ''generate''"
    unfolding body_def by code_simp
  have d: "sd_duration (snd (ValidateRequest body ''seedance-2.0'' new_adaptor)) = 10"
    unfolding body_def by code_simp
  from f have "ValidateRequest body ''seedance-2.0'' new_adaptor =
      (Inr ''generate'', snd (ValidateRequest body ''seedance-2.0'' new_adaptor))"
    by (simp add: prod_eq_iff)
  note v = validated_request_is_priced [OF this]
  have "sd_resolution (snd (ValidateRequest body ''seedance-2.0'' new_adaptor)) = ''1080p''"
    unfolding body_def by code_simp
  with v d show ?thesis unfolding Let_def body_def [symmetric] by blast
qed

text \<open>
  Settling a 1080p task with its surcharge of at least one never charges less than the
  framework's own recalculation from the same tokens would.
\<close>

theorem surcharge_never_undercharges:
  assumes "AdjustBillingOnComplete t info = Some q" and "GetPrivateData t = Inr pd"
    and "map_of (TB_OtherRatios (PD_Billing pd)) hdSurchargeKey = Some (Fin s)" and "1 \<le> s"
    and "ratios_ok (PD_Billing pd)" and "TB_ModelRatio (PD_Billing pd) = Fin mr" and "TB_GroupRatio (PD_Billing pd) = Fin gr"
    and "fits_i64 (fmul (fmul (fmul (fl_int (TI_TotalTokens info)) (Fin mr)) (Fin gr)) (Fin s))"
    and "fits_i64 (fmul (fmul (fl_int (TI_TotalTokens info)) (Fin mr)) (Fin gr))"
  shows "f2i (fmul (fmul (fl_int (TI_TotalTokens info)) (Fin mr)) (Fin gr)) \<le> q"
proof -
  let ?p = "fmul (fmul (fl_int (TI_TotalTokens info)) (Fin mr)) (Fin gr)"
  have q: "q = f2i (fmul ?p (Fin s))" and pos: "0 < TI_TotalTokens info"
    using assms by (auto simp: AdjustBillingOnComplete_def split: if_splits option.splits)
  obtain b where b: "?p = Fin b" using assms(9) by (cases ?p) (auto simp: fits_i64_def)
  have nn: "fle (Fin 0) ?p \<or> ?p = NaN"
    using assms(5-7) pos fl_int_nonneg [of "TI_TotalTokens info"]
    by (intro fmul_nonneg_or_NaN) (auto simp: ratios_ok_def)
  obtain c where "fmul (fl_int (TI_TotalTokens info)) (Fin mr) = Fin c"
    using b by (cases "fmul (fl_int (TI_TotalTokens info)) (Fin mr)") (auto simp: inf_sgn_def split: if_splits)
  with b have "fl (c * gr) = Fin b" by simp
  from fmul_ge_1 [OF this _ assms(4)] nn b have "fle ?p (fmul ?p (Fin s))" by simp
  from f2i_mono [OF this assms(9,8)] q show ?thesis by simp
qed

theorem surcharge_never_undercharges_witness:
  "let t = (demo_task 1 (PrivateJSON ((demo_private 7)\<lparr>PD_Billing := (PD_Billing (demo_private 7))
        \<lparr>TB_OtherRatios := [(''tokens'', Fin 100), (hdSurchargeKey, hdSurcharge)]\<rparr>\<rparr>)))
   in AdjustBillingOnComplete t (demo_success\<lparr>TI_TotalTokens := 1000\<rparr>) = Some 2200
      \<and> f2i (fmul (fmul (fl_int (TI_TotalTokens (demo_success\<lparr>TI_TotalTokens := 1000\<rparr>))) (Fin 2)) (Fin 1)) \<le> 2200"
proof -
  let ?pd = "(demo_private 7)\<lparr>PD_Billing := (PD_Billing (demo_private 7))
        \<lparr>TB_OtherRatios := [(''tokens'', Fin 100), (hdSurchargeKey, hdSurcharge)]\<rparr>\<rparr>"
  let ?t = "demo_task 1 (PrivateJSON ?pd)" and ?i = "demo_success\<lparr>TI_TotalTokens := 1000\<rparr>"
  have a: "AdjustBillingOnComplete ?t ?i = Some 2200" by code_simp
  have s: "hdSurcharge = Fin (2476979795053773 / 2251799813685248)" by code_simp
  have "f2i (fmul (fmul (fl_int (TI_TotalTokens ?i)) (Fin 2)) (Fin 1)) \<le> 2200"
  proof (rule surcharge_never_undercharges [OF a, where s = "2476979795053773 / 2251799813685248"])
    show "GetPrivateData ?t = Inr ?pd" by (simp add: GetPrivateData_def demo_task_def)
    show "map_of (TB_OtherRatios (PD_Billing ?pd)) hdSurchargeKey = Some (Fin (2476979795053773 / 2251799813685248))"
      by (simp add: s hdSurchargeKey_def)
    show "ratios_ok (PD_Billing ?pd)" by (simp add: ratios_ok_def demo_private_def)
    show "fits_i64 (fmul (fmul (fmul (fl_int (TI_TotalTokens ?i)) (Fin 2)) (Fin 1)) (Fin (2476979795053773 / 2251799813685248)))"
      by code_simp
    show "fits_i64 (fmul (fmul (fl_int (TI_TotalTokens ?i)) (Fin 2)) (Fin 1))" by code_simp
  qed (simp_all add: demo_private_def)
  with a show ?thesis by (simp add: Let_def)
qed

text \<open>
  The quota charged for a request depends on the order in which Go happens to visit the
  map of ratios: 15 seconds of 1080p at model ratio 3.5 and group ratio 0.7 cost 1964654 or
  1964655.
\<close>

theorem ComputeQuota_order_matters:
  "ComputeQuota \<lparr>TB_TokenId = 1, TB_TokenName = [], TB_ModelName = ''seedance-2.0'', TB_ModelRatio = fl (7 / 2),
      TB_GroupRatio = fl (7 / 10), TB_OtherRatios = [(''tokens'', Fin 729), (hdSurchargeKey, hdSurcharge)]\<rparr> = 1964654
   \<and> ComputeQuota \<lparr>TB_TokenId = 1, TB_TokenName = [], TB_ModelName = ''seedance-2.0'', TB_ModelRatio = fl (7 / 2),
      TB_GroupRatio = fl (7 / 10), TB_OtherRatios = [(hdSurchargeKey, hdSurcharge), (''tokens'', Fin 729)]\<rparr> = 1964655
   \<and> EstimateBilling (snd (ValidateRequest (Inr \<lparr>Sd_Prompt = ''cat'', Sd_Seconds = ''15'', Sd_Resolution = ''1080p'',
        Sd_Ratio = ''16:9'', Sd_Seed = None, Sd_Watermark = None\<rparr>) ''seedance-2.0'' new_adaptor)) =
      Inr [(''tokens'', Fin 729), (hdSurchargeKey, hdSurcharge)]"
proof (intro conjI)
  show "ComputeQuota \<lparr>TB_TokenId = 1, TB_TokenName = [], TB_ModelName = ''seedance-2.0'', TB_ModelRatio = fl (7 / 2),
      TB_GroupRatio = fl (7 / 10), TB_OtherRatios = [(''tokens'', Fin 729), (hdSurchargeKey, hdSurcharge)]\<rparr> = 1964654"
    by code_simp
  show "ComputeQuota \<lparr>TB_TokenId = 1, TB_TokenName = [], TB_ModelName = ''seedance-2.0'', TB_ModelRatio = fl (7 / 2),
      TB_GroupRatio = fl (7 / 10), TB_OtherRatios = [(hdSurchargeKey, hdSurcharge), (''tokens'', Fin 729)]\<rparr> = 1964655"
    by code_simp
qed code_simp

end
