(* ===== verification/Topup.thy ===== *)
theory Topup
  imports Wallet
begin

text \<open>
  Paid recharge orders (\<open>model/topup.go\<close>): the order's life cycle, the one path on which a
  gateway callback credits a user, and the locale \<open>credited_orders\<close> that states what every
  credit path of the gateway promises (orders, redemption codes and check-ins interpret it).
\<close>

section \<open>Credit paths\<close>

text \<open>
  A credit path books what it has paid to each account (\<open>credited\<close>). Every event, whatever its
  outcome, moves an account's balance by exactly the change of what is booked to it.
\<close>

locale credited_orders =
  fixes inv :: "'s \<Rightarrow> bool"
    and bal :: "'s \<Rightarrow> int \<Rightarrow> int option"
    and credited :: "'s \<Rightarrow> int \<Rightarrow> int"
    and step :: "'e \<Rightarrow> 's \<Rightarrow> 's"
  assumes step_inv: "inv s \<Longrightarrow> inv (step e s)"
    and step_bal: "inv s \<Longrightarrow>
      bal (step e s) j = map_option (\<lambda>b. b + (credited (step e s) j - credited s j)) (bal s j)"
begin

lemma run_inv: "inv s \<Longrightarrow> inv (fold step es s)"
  by (induction es arbitrary: s) (auto simp: step_inv)

lemma run_bal:
  "inv s \<Longrightarrow> bal (fold step es s) j =
     map_option (\<lambda>b. b + (credited (fold step es s) j - credited s j)) (bal s j)"
proof (induction es arbitrary: s)
  case Nil
  then show ?case by (simp add: option.map_ident)
next
  case (Cons e es)
  have "bal (fold step es (step e s)) j =
      map_option (\<lambda>b. b + (credited (fold step es (step e s)) j - credited (step e s) j)) (bal (step e s) j)"
    using Cons.IH [OF step_inv [OF Cons.prems]] .
  then show ?case
    using step_bal [OF Cons.prems] by (simp add: option.map_comp comp_def algebra_simps)
qed

text \<open>A run that books nothing to an account leaves its balance alone.\<close>

lemma run_nothing_booked:
  "inv s \<Longrightarrow> credited (fold step es s) j = credited s j \<Longrightarrow> bal (fold step es s) j = bal s j"
  by (simp add: run_bal option.map_ident)

end

section \<open>Orders\<close>

definition TopupStatusPending :: string where "TopupStatusPending = ''pending''"
definition TopupStatusSuccess :: string where "TopupStatusSuccess = ''success''"
definition TopupStatusFailed :: string where "TopupStatusFailed = ''failed''"
definition TopupStatusRefunded :: string where "TopupStatusRefunded = ''refunded''"

lemmas topup_status_defs =
  TopupStatusPending_def TopupStatusSuccess_def TopupStatusFailed_def TopupStatusRefunded_def

definition CreatePendingTopup :: "Topup \<Rightarrow> World \<Rightarrow> GoErr option \<times> World" where
  "CreatePendingTopup t w =
     (if Topup_TradeNo t = [] then (Some (Err ''trade_no is required''), w)
      else if Topup_UserId t \<le> 0 then (Some (Err ''user_id is required''), w)
      else if Topup_Money t \<le> 0 then (Some (Err ''money must be positive''), w)
      else if Topup_Quota t \<le> 0 then (Some (Err ''quota must be positive''), w)
      else if Topup_Gateway t = [] then (Some (Err ''gateway is required''), w)
      else
        let t1 = t\<lparr>Topup_Currency := (if Topup_Currency t = [] then ''CNY'' else Topup_Currency t),
                   Topup_Status := (if Topup_Status t = [] then TopupStatusPending else Topup_Status t),
                   Topup_CreatedAt := clock w\<rparr>;
            t2 = (if Topup_Id t1 = 0 then t1\<lparr>Topup_Id := next_id Topup_Id (db_topups (db w))\<rparr> else t1)
        in err_only (sql_insert db_topups db_topups_update
             (\<lambda>x. Topup_Id x = Topup_Id t2 \<or> Topup_TradeNo x = Topup_TradeNo t2) t2 w))"

definition GetTopupByTradeNo :: "string \<Rightarrow> World \<Rightarrow> (GoErr + Topup) \<times> World" where
  "GetTopupByTradeNo tradeNo w =
     (if tradeNo = [] then (Inl (Err ''trade_no is empty''), w)
      else sql_first db_topups (\<lambda>t. Topup_TradeNo t = tradeNo) w)"

definition complete_row :: "string \<Rightarrow> string \<Rightarrow> string \<Rightarrow> int \<Rightarrow> Topup \<Rightarrow> Topup" where
  "complete_row gatewayTradeNo payMethod payload now t =
     t\<lparr>Topup_Status := TopupStatusSuccess, Topup_GatewayTradeNo := gatewayTradeNo,
       Topup_CallbackPayload := payload, Topup_CompletedAt := now,
       Topup_PayMethod := (if payMethod \<noteq> [] then payMethod else Topup_PayMethod t)\<rparr>"

text \<open>
  The transaction body. \<open>Inr None\<close> is the \<open>alreadyDone\<close> exit, \<open>Inr (Some t)\<close> the order that was
  credited. The row lock of \<open>SELECT ... FOR UPDATE\<close> makes two bodies on one order run one after
  the other, which is how a list of events runs them here.
\<close>

definition complete_body ::
  "string \<Rightarrow> string \<Rightarrow> int \<Rightarrow> string \<Rightarrow> string \<Rightarrow> World \<Rightarrow> (GoErr + Topup option) \<times> World" where
  "complete_body tradeNo gatewayTradeNo paid payMethod payload w =
     (case sql_first db_topups (\<lambda>t. Topup_TradeNo t = tradeNo) w of
        (Inl e, w1) \<Rightarrow> (Inl e, w1)
      | (Inr t, w1) \<Rightarrow>
          if Topup_Status t = TopupStatusSuccess then (Inr None, w1)
          else if Topup_Status t \<noteq> TopupStatusPending
          then (Inl (Err (''order in non-actionable status: '' @ Topup_Status t)), w1)
          else if paid < Topup_Money t
          then (Inl (Err (''paid amount '' @ show_int paid @ '' < expected '' @ show_int (Topup_Money t))), w1)
          else (case increaseUserQuota (Topup_UserId t) (Topup_Quota t) w1 of
              (Some e, w2) \<Rightarrow> (Inl e, w2)
            | (None, w2) \<Rightarrow>
                (case sql_save db_topups db_topups_update Topup_Id
                        (complete_row gatewayTradeNo payMethod payload (clock w2) t) w2 of
                   (Inl e, w3) \<Rightarrow> (Inl e, w3)
                 | (Inr _, w3) \<Rightarrow> (Inr (Some t), w3))))"

definition CompleteTopup ::
  "string \<Rightarrow> string \<Rightarrow> int \<Rightarrow> string \<Rightarrow> string \<Rightarrow> World \<Rightarrow> (GoErr + bool) \<times> World" where
  "CompleteTopup tradeNo gatewayTradeNo paid payMethod payload w =
     (if tradeNo = [] then (Inl (Err ''trade_no is empty''), w)
      else case sql_transaction (complete_body tradeNo gatewayTradeNo paid payMethod payload) w of
        (Inl e, w1) \<Rightarrow> (Inl e, w1)
      | (Inr None, w1) \<Rightarrow> (Inr True, w1)
      | (Inr (Some t), w1) \<Rightarrow>
          (Inr False,
           if 0 < Topup_UserId t
           then RecordLog (Topup_UserId t) LogTypeTopup
                  (LogTopupBy (Topup_Gateway t) (Topup_Money t) (Topup_Currency t) (Topup_Quota t)) w1
           else w1))"

definition fail_body :: "string \<Rightarrow> string \<Rightarrow> World \<Rightarrow> (GoErr + unit) \<times> World" where
  "fail_body tradeNo payload w =
     (case sql_first db_topups (\<lambda>t. Topup_TradeNo t = tradeNo) w of
        (Inl e, w1) \<Rightarrow> (Inl e, w1)
      | (Inr t, w1) \<Rightarrow>
          if Topup_Status t \<noteq> TopupStatusPending then (Inr (), w1)
          else sql_save db_topups db_topups_update Topup_Id
                 (t\<lparr>Topup_Status := TopupStatusFailed, Topup_CallbackPayload := payload,
                    Topup_CompletedAt := clock w1\<rparr>) w1)"

definition FailTopup :: "string \<Rightarrow> string \<Rightarrow> World \<Rightarrow> GoErr option \<times> World" where
  "FailTopup tradeNo payload w =
     (if tradeNo = [] then (Some (Err ''trade_no is empty''), w)
      else err_only (sql_transaction (fail_body tradeNo payload) w))"

definition topupExpectedAmountSentinel :: int where
  "topupExpectedAmountSentinel = 2 ^ 62 - 1"

definition AdminMarkTopupSuccess :: "string \<Rightarrow> string \<Rightarrow> World \<Rightarrow> GoErr option \<times> World" where
  "AdminMarkTopupSuccess tradeNo operatorNote w =
     (if tradeNo = [] then (Some (Err ''trade_no is empty''), w)
      else err_only (CompleteTopup tradeNo [] topupExpectedAmountSentinel []
             (''admin-complete:'' @ operatorNote) w))"

definition ListUserTopups :: "int \<Rightarrow> int \<Rightarrow> int \<Rightarrow> World \<Rightarrow> (GoErr + Topup list) \<times> World" where
  "ListUserTopups userId off limit w = sql_list db_topups (\<lambda>t. Topup_UserId t = userId) off limit w"

record TopupFilter =
  TF_UserId :: int
  TF_Status :: string
  TF_Gateway :: string
  TF_StartAt :: int
  TF_EndAt :: int

definition topup_matches :: "TopupFilter \<Rightarrow> Topup \<Rightarrow> bool" where
  "topup_matches ft t \<longleftrightarrow>
     (TF_UserId ft \<le> 0 \<or> Topup_UserId t = TF_UserId ft)
     \<and> (TF_Status ft = [] \<or> Topup_Status t = TF_Status ft)
     \<and> (TF_Gateway ft = [] \<or> Topup_Gateway t = TF_Gateway ft)
     \<and> (TF_StartAt ft \<le> 0 \<or> TF_StartAt ft \<le> Topup_CreatedAt t)
     \<and> (TF_EndAt ft \<le> 0 \<or> Topup_CreatedAt t < TF_EndAt ft)"

definition AdminListTopups :: "TopupFilter \<Rightarrow> int \<Rightarrow> int \<Rightarrow> World \<Rightarrow> (GoErr + Topup list) \<times> World" where
  "AdminListTopups ft off limit w = sql_list db_topups (topup_matches ft) off limit w"

section \<open>The bookkeeping of orders\<close>

definition topup_row_credit :: "int \<Rightarrow> Topup \<Rightarrow> int" where
  "topup_row_credit j t = (if Topup_Status t = TopupStatusSuccess \<and> Topup_UserId t = j then Topup_Quota t else 0)"

definition topup_credited :: "World \<Rightarrow> int \<Rightarrow> int" where
  "topup_credited w j = sum_list (map (topup_row_credit j) (db_topups (db w)))"

text \<open>Order ids and trade numbers are unique (primary key and unique index).\<close>

definition topups_ok :: "World \<Rightarrow> bool" where
  "topups_ok w \<longleftrightarrow> distinct (map Topup_Id (db_topups (db w)))
     \<and> distinct (map Topup_TradeNo (db_topups (db w)))"

definition topup_of :: "World \<Rightarrow> string \<Rightarrow> Topup option" where
  "topup_of w tradeNo = find (\<lambda>t. Topup_TradeNo t = tradeNo) (db_topups (db w))"

lemma same_db_topup:
  "db w1 = db w \<Longrightarrow> topups_ok w1 = topups_ok w \<and> topup_credited w1 = topup_credited w
     \<and> topup_of w1 = topup_of w \<and> user_bal w1 = user_bal w"
  by (simp add: topups_ok_def topup_credited_def topup_of_def user_bal_def fun_eq_iff)

definition replace_topup :: "Topup \<Rightarrow> Database \<Rightarrow> Database" where
  "replace_topup t d = db_topups_update (update_where (\<lambda>x. Topup_Id x = Topup_Id t) (\<lambda>_. t)) d"

lemma list_ex_key: "r \<in> set rows \<Longrightarrow> key r = k \<Longrightarrow> list_ex (\<lambda>x. key x = k) rows"
  by (auto simp: list_ex_iff)

lemma sql_save_topup:
  assumes "sql_save db_topups db_topups_update Topup_Id t' w = (Inr x, w1)"
    and "t \<in> set (db_topups (db w))" and "Topup_Id t' = Topup_Id t"
  shows "db w1 = replace_topup t' (db w) \<and> same_env w w1"
  using sql_save_Inr [OF assms(1)] list_ex_key [OF assms(2), of Topup_Id] assms(3)
  by (simp add: replace_topup_def)

text \<open>What a successful run of the transaction body has done to the database.\<close>

lemma complete_body_Inr:
  assumes "complete_body tradeNo g paid m p w = (Inr r, w1)"
  shows "same_env w w1 \<and> (case r of
      None \<Rightarrow> db w1 = db w \<and> (\<exists>t. topup_of w tradeNo = Some t \<and> Topup_Status t = TopupStatusSuccess)
    | Some t \<Rightarrow> topup_of w tradeNo = Some t \<and> Topup_Status t = TopupStatusPending \<and> Topup_Money t \<le> paid
        \<and> db w1 = replace_topup (complete_row g m p (clock w) t)
            (db_users_update (update_where (\<lambda>u. User_Id u = Topup_UserId t)
               (\<lambda>u. u\<lparr>User_Quota := User_Quota u + Topup_Quota t\<rparr>)) (db w)))"
proof -
  obtain f w0 where f: "sql_first db_topups (\<lambda>t. Topup_TradeNo t = tradeNo) w = (f, w0)" by fastforce
  have w0: "db w0 = db w" "same_env w w0" using sql_first_frame [OF f] by auto
  from assms f obtain t where t: "f = Inr t" by (cases f) (auto simp: complete_body_def)
  have tf: "topup_of w tradeNo = Some t" using sql_first_Inr f t by (force simp: topup_of_def)
  then have mem: "t \<in> set (db_topups (db w))" by (auto simp: topup_of_def dest: find_Some_mem)
  consider "Topup_Status t = TopupStatusSuccess" | "Topup_Status t = TopupStatusPending"
    | "Topup_Status t \<noteq> TopupStatusSuccess" "Topup_Status t \<noteq> TopupStatusPending" by blast
  then show ?thesis
  proof cases
    case 1
    with assms f t w0 tf show ?thesis by (auto simp: complete_body_def)
  next
    case 2
    then have ns: "Topup_Status t \<noteq> TopupStatusSuccess" by (simp add: topup_status_defs)
    have paid: "Topup_Money t \<le> paid"
      using assms f t 2 ns by (auto simp: complete_body_def split: if_splits)
    obtain e w2 where u: "increaseUserQuota (Topup_UserId t) (Topup_Quota t) w0 = (e, w2)" by fastforce
    obtain s w3 where sv: "sql_save db_topups db_topups_update Topup_Id
        (complete_row g m p (clock w2) t) w2 = (s, w3)" by fastforce
    have "e = None" and s: "s = Inr ()" and r: "r = Some t" and w13: "w1 = w3"
      using assms f t 2 ns paid u sv by (auto simp: complete_body_def split: option.splits sum.splits)
    then have u2: "db w2 = db_users_update (update_where (\<lambda>u. User_Id u = Topup_UserId t)
        (\<lambda>u. u\<lparr>User_Quota := User_Quota u + Topup_Quota t\<rparr>)) (db w)" and env2: "same_env w w2"
      using increaseUserQuota_None u w0 by (auto intro: same_env_trans)
    have "db w3 = replace_topup (complete_row g m p (clock w2) t) (db w2) \<and> same_env w2 w3"
      by (rule sql_save_topup [OF sv [unfolded s], of t]) (use mem u2 in \<open>simp_all add: complete_row_def\<close>)
    moreover have "clock w2 = clock w" using env2 by (simp add: same_env_def)
    ultimately show ?thesis using r w13 u2 env2 tf 2 paid by (auto intro: same_env_trans)
  next
    case 3
    with assms f t show ?thesis by (auto simp: complete_body_def)
  qed
qed

definition credit_order :: "string \<Rightarrow> string \<Rightarrow> string \<Rightarrow> int \<Rightarrow> Topup \<Rightarrow> Database \<Rightarrow> Database" where
  "credit_order g m p now t d = replace_topup (complete_row g m p now t)
     (db_users_update (update_where (\<lambda>u. User_Id u = Topup_UserId t)
        (\<lambda>u. u\<lparr>User_Quota := User_Quota u + Topup_Quota t\<rparr>)) d)"

lemma CompleteTopup_db:
  assumes "CompleteTopup tradeNo g paid m p w = (r, w')"
  shows "case r of
      Inl e \<Rightarrow> db w' = db w
    | Inr True \<Rightarrow> db w' = db w \<and> (\<exists>t. topup_of w tradeNo = Some t \<and> Topup_Status t = TopupStatusSuccess)
    | Inr False \<Rightarrow> (\<exists>t. topup_of w tradeNo = Some t \<and> Topup_Status t = TopupStatusPending
        \<and> Topup_Money t \<le> paid \<and> db w' = credit_order g m p (clock w) t (db w))"
proof (cases "tradeNo = []")
  case True
  with assms show ?thesis by (auto simp: CompleteTopup_def)
next
  case False
  obtain x v where x: "sql_transaction (complete_body tradeNo g paid m p) w = (x, v)" by fastforce
  show ?thesis
  proof (cases x)
    case (Inl e)
    with assms False x sql_transaction_Inl [of _ w e v] show ?thesis by (auto simp: CompleteTopup_def)
  next
    case (Inr o')
    with x have "sql_transaction (complete_body tradeNo g paid m p) w = (Inr o', v)" by simp
    then obtain w1 w2 where w1: "io_fault w = (False, w1)"
      and b: "complete_body tradeNo g paid m p w1 = (Inr o', w2)" and w2: "io_fault w2 = (False, v)"
      by (rule sql_transaction_Inr)
    have d1: "db w1 = db w" "clock w1 = clock w" using io_fault_frame [OF w1] by (auto simp: same_env_def)
    have d2: "db v = db w2" using io_fault_frame [OF w2] by simp
    have to: "topup_of w1 = topup_of w" using same_db_topup [OF d1(1)] by simp
    show ?thesis
    proof (cases o')
      case None
      with complete_body_Inr [OF b] d1 d2 to assms False x Inr show ?thesis
        by (auto simp: CompleteTopup_def)
    next
      case (Some t)
      with complete_body_Inr [OF b] d1 d2 to assms False x Inr show ?thesis
        by (auto simp: CompleteTopup_def credit_order_def go_simps split: if_splits)
    qed
  qed
qed

lemma FailTopup_db:
  assumes "FailTopup tradeNo p w = (r, w')"
  shows "db w' = db w \<or> (\<exists>t. topup_of w tradeNo = Some t \<and> Topup_Status t = TopupStatusPending
     \<and> db w' = replace_topup (t\<lparr>Topup_Status := TopupStatusFailed, Topup_CallbackPayload := p,
                    Topup_CompletedAt := clock w\<rparr>) (db w))"
proof (cases "tradeNo = []")
  case True
  with assms show ?thesis by (auto simp: FailTopup_def)
next
  case False
  obtain x v where x: "sql_transaction (fail_body tradeNo p) w = (x, v)" by fastforce
  have w': "w' = v" using assms False x by (cases x) (auto simp: FailTopup_def err_only_def)
  show ?thesis
  proof (cases x)
    case (Inl e)
    with x w' sql_transaction_Inl show ?thesis by blast
  next
    case (Inr y)
    with x have "sql_transaction (fail_body tradeNo p) w = (Inr y, v)" by simp
    then obtain w1 w2 where w1: "io_fault w = (False, w1)"
      and b: "fail_body tradeNo p w1 = (Inr y, w2)" and w2: "io_fault w2 = (False, v)"
      by (rule sql_transaction_Inr)
    have d1: "db w1 = db w" "clock w1 = clock w" using io_fault_frame [OF w1] by (auto simp: same_env_def)
    have d2: "db v = db w2" using io_fault_frame [OF w2] by simp
    obtain f w0 where f: "sql_first db_topups (\<lambda>t. Topup_TradeNo t = tradeNo) w1 = (f, w0)" by fastforce
    have w0: "db w0 = db w" "clock w0 = clock w"
      using sql_first_frame [OF f] d1 by (auto simp: same_env_def)
    from b f obtain t where t: "f = Inr t" by (cases f) (auto simp: fail_body_def)
    have tf: "topup_of w tradeNo = Some t" using sql_first_Inr f t d1 by (force simp: topup_of_def)
    then have mem: "t \<in> set (db_topups (db w0))" using w0 by (auto simp: topup_of_def dest: find_Some_mem)
    show ?thesis
    proof (cases "Topup_Status t = TopupStatusPending")
      case True
      have "sql_save db_topups db_topups_update Topup_Id (t\<lparr>Topup_Status := TopupStatusFailed,
          Topup_CallbackPayload := p, Topup_CompletedAt := clock w0\<rparr>) w0 = (Inr y, w2)"
        using b f t True by (simp add: fail_body_def)
      from sql_save_topup [OF this mem] w0 d2 w' tf True show ?thesis by auto
    next
      case False
      with b f t w0 d2 w' show ?thesis by (simp add: fail_body_def)
    qed
  qed
qed

text \<open>Replacing an order by a row of the same id, trade number and user.\<close>

lemma replace_topup_rows [simp]:
  "db_topups (replace_topup t d) = update_where (\<lambda>x. Topup_Id x = Topup_Id t) (\<lambda>_. t) (db_topups d)"
  "db_users (replace_topup t d) = db_users d"
  by (simp_all add: replace_topup_def)

lemma topups_ok_replace:
  assumes "topups_ok w" and "topup_of w tn = Some t"
    and "db_topups (db w') = update_where (\<lambda>x. Topup_Id x = Topup_Id t) (\<lambda>_. t') (db_topups (db w))"
    and "Topup_Id t' = Topup_Id t" and "Topup_TradeNo t' = Topup_TradeNo t"
  shows "topups_ok w'"
    and "topup_credited w' j = topup_credited w j + (topup_row_credit j t' - topup_row_credit j t)"
    and "topup_of w' n = (if n = tn then Some t' else topup_of w n)"
proof -
  let ?rows = "db_topups (db w)"
  let ?new = "update_where (\<lambda>x. Topup_Id x = Topup_Id t) (\<lambda>_. t') ?rows"
  have d: "distinct (map Topup_Id ?rows)" "distinct (map Topup_TradeNo ?rows)"
    using assms(1) by (auto simp: topups_ok_def)
  have t: "t \<in> set ?rows" "Topup_TradeNo t = tn"
    using assms(2) by (auto simp: topup_of_def dest: find_Some_mem)
  have uniq: "x = t" if "x \<in> set ?rows" "Topup_Id x = Topup_Id t" for x
    using d(1) that t(1) by (auto simp: distinct_map inj_on_def)
  have keys: "map Topup_Id ?new = map Topup_Id ?rows" "map Topup_TradeNo ?new = map Topup_TradeNo ?rows"
    using assms(4,5) uniq by (auto simp: update_where_def)
  then show "topups_ok w'" using assms(3) d by (simp add: topups_ok_def)
  show "topup_credited w' j = topup_credited w j + (topup_row_credit j t' - topup_row_credit j t)"
    using sum_list_replace_row [OF d(1) t(1)] assms(3) by (simp add: topup_credited_def)
  have "topup_of w' n = map_option (\<lambda>x. if Topup_Id x = Topup_Id t then t' else x) (topup_of w n)"
    unfolding topup_of_def assms(3)
    using find_replace_row [of ?rows Topup_Id t "\<lambda>x. Topup_TradeNo x = n" t'] uniq assms(5) by auto
  moreover have "Topup_Id x \<noteq> Topup_Id t" if "topup_of w n = Some x" "n \<noteq> tn" for x
    using that uniq [of x] t by (auto simp: topup_of_def dest!: find_Some_mem)
  ultimately show "topup_of w' n = (if n = tn then Some t' else topup_of w n)"
    using assms(2) by (cases "topup_of w n") auto
qed

section \<open>Payment events\<close>

text \<open>What can happen to orders after they were created, with the arguments the callers pass.\<close>

datatype PayEvent =
    GatewayCallback string string int string string
  | GatewayRejects string string
  | AdminMarks string string

definition pay_event :: "PayEvent \<Rightarrow> World \<Rightarrow> World" where
  "pay_event e w = (case e of
       GatewayCallback tn g paid m p \<Rightarrow> snd (CompleteTopup tn g paid m p w)
     | GatewayRejects tn p \<Rightarrow> snd (FailTopup tn p w)
     | AdminMarks tn note \<Rightarrow> snd (AdminMarkTopupSuccess tn note w))"

lemma AdminMark_is_Complete:
  "tradeNo \<noteq> [] \<Longrightarrow> snd (AdminMarkTopupSuccess tradeNo note w) =
     snd (CompleteTopup tradeNo [] topupExpectedAmountSentinel [] (''admin-complete:'' @ note) w)"
  by (auto simp: AdminMarkTopupSuccess_def err_only_def split: prod.splits sum.splits)

text \<open>
  Every event either leaves the database alone, or credits one pending order, or fails one
  pending order.
\<close>

lemma pay_event_cases:
  obtains (same) "db (pay_event e w) = db w"
  | (credit) tn g m p t where "topup_of w tn = Some t" and "Topup_Status t = TopupStatusPending"
      and "db (pay_event e w) = credit_order g m p (clock w) t (db w)"
  | (failed) tn p t where "topup_of w tn = Some t" and "Topup_Status t = TopupStatusPending"
      and "db (pay_event e w) = replace_topup (t\<lparr>Topup_Status := TopupStatusFailed,
             Topup_CallbackPayload := p, Topup_CompletedAt := clock w\<rparr>) (db w)"
proof -
  have complete: thesis if "pay_event e w = snd (CompleteTopup tn g paid m p w)" for tn g paid m p
  proof -
    obtain r w' where r: "CompleteTopup tn g paid m p w = (r, w')" by fastforce
    then have ev: "pay_event e w = w'" using that by simp
    from CompleteTopup_db [OF r] show thesis
    proof (cases r)
      case (Inl x)
      with CompleteTopup_db [OF r] ev same show thesis by simp
    next
      case (Inr b)
      with CompleteTopup_db [OF r] ev same credit show thesis by (cases b) auto
    qed
  qed
  show thesis
  proof (cases e)
    case (GatewayCallback tn g paid m p)
    then show thesis using complete [of tn g paid m p] by (simp add: pay_event_def)
  next
    case (GatewayRejects tn p)
    obtain r w' where r: "FailTopup tn p w = (r, w')" by fastforce
    with GatewayRejects have "pay_event e w = w'" by (simp add: pay_event_def)
    with FailTopup_db [OF r] show thesis by (metis same failed)
  next
    case (AdminMarks tn nt)
    show thesis
    proof (cases "tn = []")
      case True
      with AdminMarks same show thesis by (simp add: pay_event_def AdminMarkTopupSuccess_def)
    next
      case False
      with AdminMarks AdminMark_is_Complete complete show thesis by (simp add: pay_event_def)
    qed
  qed
qed

lemma credit_order_bal:
  "db w' = credit_order g m p now t (db w) \<Longrightarrow> user_bal w' j =
     (if j = Topup_UserId t then map_option (\<lambda>b. b + Topup_Quota t) (user_bal w j) else user_bal w j)"
  by (simp add: credit_order_def user_bal_def user_bal_update)

lemma complete_row_keys [simp]:
  "Topup_Id (complete_row g m p now t) = Topup_Id t"
  "Topup_TradeNo (complete_row g m p now t) = Topup_TradeNo t"
  "Topup_UserId (complete_row g m p now t) = Topup_UserId t"
  "Topup_Quota (complete_row g m p now t) = Topup_Quota t"
  "Topup_Status (complete_row g m p now t) = TopupStatusSuccess"
  by (simp_all add: complete_row_def)

lemma credit_order_rows:
  "db w' = credit_order g m p now t (db w) \<Longrightarrow> db_topups (db w') =
     update_where (\<lambda>x. Topup_Id x = Topup_Id t) (\<lambda>_. complete_row g m p now t) (db_topups (db w))"
  by (simp add: credit_order_def)

text \<open>One event: what is kept, what is booked, and what becomes of each order.\<close>

lemma pay_event_step:
  assumes "topups_ok w"
  shows "topups_ok (pay_event e w)
     \<and> user_bal (pay_event e w) j =
         map_option (\<lambda>b. b + (topup_credited (pay_event e w) j - topup_credited w j)) (user_bal w j)
     \<and> (\<forall>n. topup_of (pay_event e w) n = topup_of w n
         \<or> (\<exists>t t'. topup_of w n = Some t \<and> Topup_Status t = TopupStatusPending
              \<and> topup_of (pay_event e w) n = Some t' \<and> Topup_UserId t' = Topup_UserId t
              \<and> Topup_Quota t' = Topup_Quota t
              \<and> Topup_Status t' \<in> {TopupStatusSuccess, TopupStatusFailed}))"
proof (cases rule: pay_event_cases [of e w])
  case same
  with same_db_topup [OF same] assms show ?thesis by (simp add: option.map_ident)
next
  case (credit tn g m p t)
  note rows = credit_order_rows [OF credit(3)]
  note eff = topups_ok_replace [OF assms credit(1) rows]
  have "topup_row_credit j t = 0" using credit(2) by (simp add: topup_row_credit_def topup_status_defs)
  then have "topup_credited (pay_event e w) j - topup_credited w j =
      (if j = Topup_UserId t then Topup_Quota t else 0)"
    using eff(2) [of j] by (simp add: topup_row_credit_def)
  with eff(1,3) credit credit_order_bal [OF credit(3)] show ?thesis by (auto simp: option.map_ident)
next
  case (failed tn p t)
  let ?t' = "t\<lparr>Topup_Status := TopupStatusFailed, Topup_CallbackPayload := p, Topup_CompletedAt := clock w\<rparr>"
  have rows: "db_topups (db (pay_event e w)) =
      update_where (\<lambda>x. Topup_Id x = Topup_Id t) (\<lambda>_. ?t') (db_topups (db w))"
    using failed(3) by simp
  note eff = topups_ok_replace [OF assms failed(1) rows]
  have "topup_credited (pay_event e w) j - topup_credited w j = 0"
    using eff(2) [of j] failed(2) by (simp add: topup_row_credit_def topup_status_defs)
  moreover have "user_bal (pay_event e w) j = user_bal w j" using failed(3) by (simp add: user_bal_def)
  ultimately show ?thesis using eff(1,3) failed by (auto simp: option.map_ident)
qed

interpretation orders: credited_orders topups_ok user_bal topup_credited pay_event
  by unfold_locales (simp_all add: pay_event_step)

lemma settled_order_run:
  assumes "topups_ok w" and "topup_of w n = Some t" and "Topup_Status t \<noteq> TopupStatusPending"
  shows "topup_of (fold pay_event es w) n = Some t"
  using assms
proof (induction es arbitrary: w)
  case (Cons e es)
  have "topup_of (pay_event e w) n = topup_of w n"
    using pay_event_step [OF Cons.prems(1), of e] Cons.prems(2,3) by (metis option.inject)
  with Cons pay_event_step [OF Cons.prems(1), of e] show ?case by simp
qed simp

lemma pending_order_run:
  assumes "topups_ok w" and "topup_of w n = Some t" and "Topup_Status t = TopupStatusPending"
  shows "\<exists>t'. topup_of (fold pay_event es w) n = Some t' \<and> Topup_UserId t' = Topup_UserId t
     \<and> Topup_Quota t' = Topup_Quota t
     \<and> Topup_Status t' \<in> {TopupStatusPending, TopupStatusSuccess, TopupStatusFailed}"
  using assms
proof (induction es arbitrary: w t)
  case (Cons e es)
  have ok: "topups_ok (pay_event e w)" using pay_event_step [OF Cons.prems(1)] by simp
  consider "topup_of (pay_event e w) n = Some t"
    | t' where "topup_of (pay_event e w) n = Some t'" "Topup_UserId t' = Topup_UserId t"
        "Topup_Quota t' = Topup_Quota t" "Topup_Status t' \<in> {TopupStatusSuccess, TopupStatusFailed}"
    using pay_event_step [OF Cons.prems(1), of e] Cons.prems(2) by force
  then show ?case
  proof cases
    case 1
    with Cons.IH [OF ok] Cons.prems(3) show ?thesis by simp
  next
    case 2
    then have "Topup_Status t' \<noteq> TopupStatusPending" by (auto simp: topup_status_defs)
    from settled_order_run [OF ok 2(1) this] 2 show ?thesis by simp
  qed
qed simp

section \<open>Properties\<close>

text \<open>
  The contract of \<open>CompleteTopup\<close> under any failures: an error leaves the database as it
  was; \<open>alreadyDone\<close> means the order was already successful and nothing changed; otherwise the
  order was pending and fully paid, it is now marked successful, and its owner's balance grew
  by exactly its quota in the same commit.
\<close>

theorem CompleteTopup_contract:
  "case CompleteTopup tradeNo g paid m p w of
     (Inl e, w') \<Rightarrow> db w' = db w
   | (Inr True, w') \<Rightarrow> db w' = db w
       \<and> (\<exists>t. topup_of w tradeNo = Some t \<and> Topup_Status t = TopupStatusSuccess)
   | (Inr False, w') \<Rightarrow> (\<exists>t. topup_of w tradeNo = Some t
       \<and> Topup_Status t = TopupStatusPending \<and> Topup_Money t \<le> paid
       \<and> db_topups (db w') = update_where (\<lambda>x. Topup_Id x = Topup_Id t)
            (\<lambda>_. complete_row g m p (clock w) t) (db_topups (db w))
       \<and> user_bal w' = (\<lambda>j. if j = Topup_UserId t
            then map_option (\<lambda>b. b + Topup_Quota t) (user_bal w j) else user_bal w j))"
proof -
  obtain r w' where r: "CompleteTopup tradeNo g paid m p w = (r, w')" by fastforce
  show ?thesis
  proof (cases r)
    case (Inl e)
    with r CompleteTopup_db [OF r] show ?thesis by simp
  next
    case (Inr b)
    show ?thesis
    proof (cases b)
      case True
      with Inr r CompleteTopup_db [OF r] show ?thesis by simp
    next
      case False
      with Inr CompleteTopup_db [OF r] obtain t where t: "topup_of w tradeNo = Some t"
        "Topup_Status t = TopupStatusPending" "Topup_Money t \<le> paid"
        "db w' = credit_order g m p (clock w) t (db w)" by auto
      have "user_bal w' = (\<lambda>j. if j = Topup_UserId t
            then map_option (\<lambda>b. b + Topup_Quota t) (user_bal w j) else user_bal w j)"
        using credit_order_bal [OF t(4)] by (simp add: fun_eq_iff)
      with False Inr r t(1-3) credit_order_rows [OF t(4)] show ?thesis by simp
    qed
  qed
qed

text \<open>
  C5. Whatever callbacks, rejections and admin completions arrive, in any order and with any
  failures, every user's balance moves by exactly the change in the quota booked by their
  successful orders: no order is credited twice, none is marked successful without its credit.
\<close>

theorem payments_conserve:
  assumes "topups_ok w"
  shows "user_bal (fold pay_event es w) j =
     map_option (\<lambda>b. b + (topup_credited (fold pay_event es w) j - topup_credited w j)) (user_bal w j)"
  using assms by (rule orders.run_bal)

definition demo_topup :: "int \<Rightarrow> string \<Rightarrow> int \<Rightarrow> Topup" where
  "demo_topup k tn uid = \<lparr>Topup_Id = k, Topup_UserId = uid, Topup_TradeNo = tn, Topup_GatewayTradeNo = [],
     Topup_Gateway = ''epay'', Topup_PayMethod = ''alipay'', Topup_Money = 1000, Topup_Currency = ''CNY'',
     Topup_Quota = 70, Topup_Status = TopupStatusPending, Topup_CallbackPayload = [],
     Topup_CreatedAt = 0, Topup_CompletedAt = 0\<rparr>"

definition demo_pay :: World where
  "demo_pay = world_of (demo_db\<lparr>db_topups := [demo_topup 1 ''A'' 1, demo_topup 2 ''B'' 1]\<rparr>) []"

definition demo_pay_events :: "PayEvent list" where
  "demo_pay_events = [GatewayCallback ''A'' ''g1'' 999 [] [], GatewayCallback ''A'' ''g1'' 1000 [] [],
     AdminMarks ''A'' ''x'', GatewayRejects ''A'' [], GatewayRejects ''B'' [],
     GatewayCallback ''B'' ''g2'' 1000 [] []]"

theorem payments_conserve_witness:
  "user_bal (fold pay_event demo_pay_events demo_pay) 1 =
     map_option (\<lambda>b. b + (topup_credited (fold pay_event demo_pay_events demo_pay) 1
        - topup_credited demo_pay 1)) (user_bal demo_pay 1)
   \<and> user_bal (fold pay_event demo_pay_events demo_pay) 1 = Some 170"
proof -
  have "topups_ok demo_pay" by code_simp
  note payments_conserve [OF this, of demo_pay_events 1]
  moreover have "user_bal (fold pay_event demo_pay_events demo_pay) 1 = Some 170" by code_simp
  ultimately show ?thesis by blast
qed

text \<open>
  An order that has been settled (successful, failed or refunded) is never changed again
  by any sequence of payment events: a late callback cannot revive a failed order and a late
  rejection cannot revoke a paid one.
\<close>

theorem settled_order_frozen:
  assumes "topups_ok w" and "topup_of w tradeNo = Some t" and "Topup_Status t \<noteq> TopupStatusPending"
  shows "topup_of (fold pay_event es w) tradeNo = Some t"
  using assms by (rule settled_order_run)

theorem settled_order_frozen_witness:
  "topup_of (fold pay_event demo_pay_events (pay_event (GatewayRejects ''A'' ''late'') demo_pay)) ''A'' =
     Some ((demo_topup 1 ''A'' 1)\<lparr>Topup_Status := TopupStatusFailed, Topup_CallbackPayload := ''late'',
        Topup_CompletedAt := 1750000000\<rparr>)"
proof (rule settled_order_frozen)
  show "topups_ok (pay_event (GatewayRejects ''A'' ''late'') demo_pay)" by code_simp
  show "topup_of (pay_event (GatewayRejects ''A'' ''late'') demo_pay) ''A'' =
     Some ((demo_topup 1 ''A'' 1)\<lparr>Topup_Status := TopupStatusFailed, Topup_CallbackPayload := ''late'',
        Topup_CompletedAt := 1750000000\<rparr>)" by code_simp
qed (simp add: topup_status_defs)

end
