(* ===== verification/Redeem.thy ===== *)
theory Redeem
  imports Topup
begin

text \<open>
  Redemption codes (\<open>model/redemption.go\<close>). A code is paid out at most once, whoever tries it
  and however often; the total quota of all users moves by exactly the quota of the codes that
  become used.
\<close>

section \<open>Codes\<close>

definition RedemptionCodeStatusEnabled :: int where "RedemptionCodeStatusEnabled = 1"
definition RedemptionCodeStatusDisabled :: int where "RedemptionCodeStatusDisabled = 2"
definition RedemptionCodeStatusUsed :: int where "RedemptionCodeStatusUsed = 3"

lemmas redemption_status_defs =
  RedemptionCodeStatusEnabled_def RedemptionCodeStatusDisabled_def RedemptionCodeStatusUsed_def

definition GetAllRedemptions :: "int \<Rightarrow> int \<Rightarrow> World \<Rightarrow> (GoErr + Redemption list) \<times> World" where
  "GetAllRedemptions startIdx num w = sql_list db_redemptions (\<lambda>_. True) startIdx num w"

definition GetRedemptionById :: "int \<Rightarrow> World \<Rightarrow> (GoErr + Redemption) \<times> World" where
  "GetRedemptionById rid w =
     (if rid = 0 then (Inl (Err ''id is empty''), w)
      else sql_first db_redemptions (\<lambda>r. Redemption_Id r = rid) w)"

definition redeem_row :: "int \<Rightarrow> Redemption \<Rightarrow> Redemption" where
  "redeem_row now r = r\<lparr>Redemption_RedeemedTime := now, Redemption_Status := RedemptionCodeStatusUsed\<rparr>"

definition redeem_body :: "string \<Rightarrow> int \<Rightarrow> World \<Rightarrow> (GoErr + Redemption) \<times> World" where
  "redeem_body key userId w =
     (case sql_first db_redemptions (\<lambda>r. Redemption_Key r = key) w of
        (Inl e, w1) \<Rightarrow> (Inl (Err ''invalid redemption code''), w1)
      | (Inr r, w1) \<Rightarrow>
          if Redemption_Status r \<noteq> RedemptionCodeStatusEnabled
          then (Inl (Err ''this code has been used''), w1)
          else if Redemption_UserId r = userId
          then (Inl (Err ''a code cannot be redeemed by its creator''), w1)
          else (case increaseUserQuota userId (Redemption_Quota r) w1 of
              (Some e, w2) \<Rightarrow> (Inl e, w2)
            | (None, w2) \<Rightarrow>
                (case sql_save db_redemptions db_redemptions_update Redemption_Id
                        (redeem_row (clock w2) r) w2 of
                   (Inl e, w3) \<Rightarrow> (Inl e, w3)
                 | (Inr _, w3) \<Rightarrow> (Inr (redeem_row (clock w2) r), w3))))"

definition Redeem :: "string \<Rightarrow> int \<Rightarrow> World \<Rightarrow> (GoErr + int) \<times> World" where
  "Redeem key userId w =
     (if key = [] then (Inl (Err ''no redemption code given''), w)
      else if userId = 0 then (Inl (Err ''invalid user id''), w)
      else case sql_transaction (redeem_body key userId) w of
        (Inl e, w1) \<Rightarrow> (Inl (Err (''redemption failed, '' @ error_text e)), w1)
      | (Inr r, w1) \<Rightarrow>
          (Inr (Redemption_Quota r),
           RecordLog userId LogTypeTopup (LogRedeem (Redemption_Quota r)) w1))"

definition Redemption_Insert :: "Redemption \<Rightarrow> World \<Rightarrow> GoErr option \<times> World" where
  "Redemption_Insert r w =
     (let r1 = (if Redemption_Id r = 0
                then r\<lparr>Redemption_Id := next_id Redemption_Id (db_redemptions (db w))\<rparr> else r);
          r2 = (if Redemption_Status r1 = 0 then r1\<lparr>Redemption_Status := 1\<rparr> else r1);
          r3 = (if Redemption_Quota r2 = 0 then r2\<lparr>Redemption_Quota := 100\<rparr> else r2)
      in err_only (sql_insert db_redemptions db_redemptions_update
           (\<lambda>x. Redemption_Id x = Redemption_Id r3 \<or> Redemption_Key x = Redemption_Key r3) r3 w))"

definition Redemption_SelectUpdate :: "Redemption \<Rightarrow> World \<Rightarrow> GoErr option \<times> World" where
  "Redemption_SelectUpdate r w = err_only (sql_update db_redemptions db_redemptions_update (\<lambda>_. True)
     (\<lambda>x. Redemption_Id x = Redemption_Id r)
     (\<lambda>x. x\<lparr>Redemption_RedeemedTime := Redemption_RedeemedTime r,
            Redemption_Status := Redemption_Status r\<rparr>) w)"

definition Redemption_Update :: "Redemption \<Rightarrow> World \<Rightarrow> GoErr option \<times> World" where
  "Redemption_Update r w = err_only (sql_update db_redemptions db_redemptions_update (\<lambda>_. True)
     (\<lambda>x. Redemption_Id x = Redemption_Id r)
     (\<lambda>x. x\<lparr>Redemption_Name := Redemption_Name r, Redemption_Status := Redemption_Status r,
            Redemption_Quota := Redemption_Quota r,
            Redemption_RedeemedTime := Redemption_RedeemedTime r\<rparr>) w)"

definition Redemption_Delete :: "Redemption \<Rightarrow> World \<Rightarrow> GoErr option \<times> World" where
  "Redemption_Delete r w = (case io_fault w of
       (True, w1) \<Rightarrow> (Some ErrDB, w1)
     | (False, w1) \<Rightarrow> (None, w1\<lparr>db := db_redemptions_update
         (filter (\<lambda>x. Redemption_Id x \<noteq> Redemption_Id r)) (db w1)\<rparr>))"

definition DeleteRedemptionById :: "int \<Rightarrow> World \<Rightarrow> GoErr option \<times> World" where
  "DeleteRedemptionById rid w =
     (if rid = 0 then (Some (Err ''id is empty''), w)
      else case sql_first db_redemptions (\<lambda>r. Redemption_Id r = rid) w of
        (Inl e, w1) \<Rightarrow> (Some e, w1)
      | (Inr r, w1) \<Rightarrow> Redemption_Delete r w1)"

section \<open>Effect of one attempt\<close>

definition redemption_of :: "World \<Rightarrow> string \<Rightarrow> Redemption option" where
  "redemption_of w key = find (\<lambda>r. Redemption_Key r = key) (db_redemptions (db w))"

definition redeem_db :: "int \<Rightarrow> int \<Rightarrow> Redemption \<Rightarrow> Database \<Rightarrow> Database" where
  "redeem_db userId now r d =
     db_redemptions_update (update_where (\<lambda>x. Redemption_Id x = Redemption_Id r) (\<lambda>_. redeem_row now r))
       (db_users_update (update_where (\<lambda>u. User_Id u = userId)
          (\<lambda>u. u\<lparr>User_Quota := User_Quota u + Redemption_Quota r\<rparr>)) d)"

lemma redeem_row_simps [simp]:
  "Redemption_Id (redeem_row now r) = Redemption_Id r"
  "Redemption_Key (redeem_row now r) = Redemption_Key r"
  "Redemption_Quota (redeem_row now r) = Redemption_Quota r"
  "Redemption_Status (redeem_row now r) = RedemptionCodeStatusUsed"
  by (simp_all add: redeem_row_def)

lemma redeem_body_Inr:
  assumes "redeem_body key uid w = (Inr r', w1)"
  shows "\<exists>r. redemption_of w key = Some r \<and> Redemption_Status r = RedemptionCodeStatusEnabled
     \<and> Redemption_UserId r \<noteq> uid \<and> r' = redeem_row (clock w) r \<and> db w1 = redeem_db uid (clock w) r (db w)"
proof -
  obtain f w0 where f: "sql_first db_redemptions (\<lambda>r. Redemption_Key r = key) w = (f, w0)" by fastforce
  have w0: "db w0 = db w" "same_env w w0" using sql_first_frame [OF f] by auto
  from assms f obtain r where r: "f = Inr r" by (cases f) (auto simp: redeem_body_def)
  have rf: "redemption_of w key = Some r" using sql_first_Inr f r by (force simp: redemption_of_def)
  then have mem: "r \<in> set (db_redemptions (db w))" by (auto simp: redemption_of_def dest: find_Some_mem)
  have ok: "Redemption_Status r = RedemptionCodeStatusEnabled" "Redemption_UserId r \<noteq> uid"
    using assms f r by (auto simp: redeem_body_def split: if_splits)
  obtain e w2 where u: "increaseUserQuota uid (Redemption_Quota r) w0 = (e, w2)" by fastforce
  obtain s w3 where sv: "sql_save db_redemptions db_redemptions_update Redemption_Id
      (redeem_row (clock w2) r) w2 = (s, w3)" by fastforce
  have "e = None" and s: "s = Inr ()" and r': "r' = redeem_row (clock w2) r" and w13: "w1 = w3"
    using assms f r ok u sv by (auto simp: redeem_body_def split: option.splits sum.splits)
  then have u2: "db w2 = db_users_update (update_where (\<lambda>v. User_Id v = uid)
      (\<lambda>v. v\<lparr>User_Quota := User_Quota v + Redemption_Quota r\<rparr>)) (db w)" and env2: "same_env w w2"
    using increaseUserQuota_None u w0 by (auto intro: same_env_trans)
  have "clock w2 = clock w" using env2 by (simp add: same_env_def)
  moreover have "list_ex (\<lambda>x. Redemption_Id x = Redemption_Id r) (db_redemptions (db w2))"
    using mem u2 by (auto simp: list_ex_iff)
  ultimately show ?thesis
    using sql_save_Inr [OF sv [unfolded s]] rf ok r' w13 u2 by (auto simp: redeem_db_def)
qed

lemma Redeem_db:
  assumes "Redeem key uid w = (x, w')"
  shows "case x of Inl e \<Rightarrow> db w' = db w
    | Inr q \<Rightarrow> \<exists>r. redemption_of w key = Some r \<and> Redemption_Status r = RedemptionCodeStatusEnabled
        \<and> Redemption_UserId r \<noteq> uid \<and> q = Redemption_Quota r \<and> db w' = redeem_db uid (clock w) r (db w)"
proof (cases "key = [] \<or> uid = 0")
  case True
  with assms show ?thesis by (auto simp: Redeem_def split: if_splits)
next
  case False
  obtain y v where y: "sql_transaction (redeem_body key uid) w = (y, v)" by fastforce
  show ?thesis
  proof (cases y)
    case (Inl e)
    with assms False y sql_transaction_Inl [of _ w e v] show ?thesis by (auto simp: Redeem_def)
  next
    case (Inr r')
    with y have "sql_transaction (redeem_body key uid) w = (Inr r', v)" by simp
    then obtain w1 w2 where w1: "io_fault w = (False, w1)"
      and b: "redeem_body key uid w1 = (Inr r', w2)" and w2: "io_fault w2 = (False, v)"
      by (rule sql_transaction_Inr)
    have d1: "db w1 = db w" "clock w1 = clock w" using io_fault_frame [OF w1] by (auto simp: same_env_def)
    have d2: "db v = db w2" using io_fault_frame [OF w2] by simp
    have "redemption_of w1 = redemption_of w" using d1 by (simp add: redemption_of_def fun_eq_iff)
    with redeem_body_Inr [OF b] d1 d2 assms False y Inr show ?thesis
      by (auto simp: Redeem_def go_simps)
  qed
qed

section \<open>Attempts conserve quota\<close>

definition redeemed_total :: "World \<Rightarrow> int" where
  "redeemed_total w = sum_list (map
     (\<lambda>r. if Redemption_Status r = RedemptionCodeStatusUsed then Redemption_Quota r else 0)
     (db_redemptions (db w)))"

definition total_quota :: "World \<Rightarrow> int" where
  "total_quota w = sum_list (map User_Quota (db_users (db w)))"

definition redemptions_ok :: "World \<Rightarrow> bool" where
  "redemptions_ok w \<longleftrightarrow> distinct (map Redemption_Id (db_redemptions (db w)))
     \<and> distinct (map User_Id (db_users (db w)))"

text \<open>An attempt by a user who exists, as the session check of the router guarantees.\<close>

definition redeem_event :: "string \<times> int \<Rightarrow> World \<Rightarrow> World" where
  "redeem_event e w = (case e of (key, uid) \<Rightarrow>
     if user_bal w uid = None then w else snd (Redeem key uid w))"

lemma redeem_event_step:
  assumes "redemptions_ok w"
  shows "redemptions_ok (redeem_event e w)
     \<and> total_quota (redeem_event e w) - total_quota w =
         redeemed_total (redeem_event e w) - redeemed_total w"
proof -
  obtain key uid where e: "e = (key, uid)" by fastforce
  obtain x w' where x: "Redeem key uid w = (x, w')" by fastforce
  show ?thesis
  proof (cases "user_bal w uid = None \<or> (\<exists>y. x = Inl y)")
    case True
    then have "db (redeem_event e w) = db w" using e x Redeem_db [OF x] by (auto simp: redeem_event_def)
    with assms show ?thesis by (simp add: redemptions_ok_def total_quota_def redeemed_total_def)
  next
    case False
    then obtain q where "x = Inr q" by (cases x) auto
    with Redeem_db [OF x] False e x obtain r where r: "redemption_of w key = Some r"
      "Redemption_Status r = RedemptionCodeStatusEnabled"
      and d: "db (redeem_event e w) = redeem_db uid (clock w) r (db w)"
      by (auto simp: redeem_event_def)
    have mem: "r \<in> set (db_redemptions (db w))"
      using r(1) by (auto simp: redemption_of_def dest: find_Some_mem)
    obtain u where "find (\<lambda>u. User_Id u = uid) (db_users (db w)) = Some u"
      using False by (auto simp: user_bal_def)
    then have "uid \<in> User_Id ` set (db_users (db w))" by (auto dest: find_Some_mem)
    then have c: "count_where (\<lambda>u. User_Id u = uid) (db_users (db w)) = 1"
      using assms count_where_key [of User_Id "db_users (db w)" uid] by (simp add: redemptions_ok_def)
    have "total_quota (redeem_event e w) = total_quota w + Redemption_Quota r"
      unfolding total_quota_def d redeem_db_def
      using sum_list_update_where [of "\<lambda>u. User_Id u = uid" User_Quota
          "\<lambda>u. u\<lparr>User_Quota := User_Quota u + Redemption_Quota r\<rparr>" "Redemption_Quota r" "db_users (db w)"] c
      by simp
    moreover have "redeemed_total (redeem_event e w) = redeemed_total w + Redemption_Quota r"
      unfolding redeemed_total_def d redeem_db_def
      using sum_list_replace_row [of Redemption_Id "db_redemptions (db w)" r _ "redeem_row (clock w) r"]
        assms mem r(2) by (simp add: redemptions_ok_def redemption_status_defs)
    moreover have "redemptions_ok (redeem_event e w)"
      using assms unfolding redemptions_ok_def d redeem_db_def
      by (simp add: distinct_keys_update map_key_replace_row)
    ultimately show ?thesis by simp
  qed
qed

interpretation codes: credited_orders redemptions_ok "\<lambda>w _. Some (total_quota w)"
    "\<lambda>w _. redeemed_total w" redeem_event
  by unfold_locales (use redeem_event_step in \<open>auto simp: algebra_simps\<close>)

section \<open>Properties\<close>

text \<open>
  Redeeming a code under any failures: an error leaves the database as it was; success
  means the code was enabled and not created by the redeeming user, it is used afterwards, its
  quota is returned and was added to that user's balance and to no other.
\<close>

theorem Redeem_contract:
  "case Redeem key uid w of
     (Inl e, w') \<Rightarrow> db w' = db w
   | (Inr q, w') \<Rightarrow> (\<exists>r. redemption_of w key = Some r
       \<and> Redemption_Status r = RedemptionCodeStatusEnabled \<and> Redemption_UserId r \<noteq> uid
       \<and> q = Redemption_Quota r
       \<and> db_redemptions (db w') = update_where (\<lambda>x. Redemption_Id x = Redemption_Id r)
            (\<lambda>_. redeem_row (clock w) r) (db_redemptions (db w))
       \<and> (\<forall>j. user_bal w' j = (if j = uid then map_option (\<lambda>b. b + q) (user_bal w j) else user_bal w j)))"
proof -
  obtain x w' where x: "Redeem key uid w = (x, w')" by fastforce
  show ?thesis
  proof (cases x)
    case (Inl e)
    with x Redeem_db [OF x] show ?thesis by simp
  next
    case (Inr q)
    with Redeem_db [OF x] obtain r where r: "redemption_of w key = Some r"
      "Redemption_Status r = RedemptionCodeStatusEnabled" "Redemption_UserId r \<noteq> uid"
      "q = Redemption_Quota r" and d: "db w' = redeem_db uid (clock w) r (db w)" by auto
    have "user_bal w' j = (if j = uid then map_option (\<lambda>b. b + q) (user_bal w j) else user_bal w j)" for j
      using d r(4) by (simp add: user_bal_def redeem_db_def user_bal_update)
    moreover have "db_redemptions (db w') = update_where (\<lambda>x. Redemption_Id x = Redemption_Id r)
        (\<lambda>_. redeem_row (clock w) r) (db_redemptions (db w))"
      using d by (simp add: redeem_db_def)
    ultimately show ?thesis using x Inr r by auto
  qed
qed

text \<open>
  C9. Over any list of redemption attempts by existing users, with any failures, the total
  quota of all users grows by exactly the quota of the codes that became used: no code pays
  twice, and none becomes used without paying.
\<close>

theorem redemptions_conserve:
  assumes "redemptions_ok w"
  shows "total_quota (fold redeem_event es w) - total_quota w =
     redeemed_total (fold redeem_event es w) - redeemed_total w"
  using codes.run_bal [OF assms, of es] by simp

definition demo_code :: "int \<Rightarrow> string \<Rightarrow> Redemption" where
  "demo_code k key = \<lparr>Redemption_Id = k, Redemption_UserId = 2, Redemption_Key = key,
     Redemption_Status = RedemptionCodeStatusEnabled, Redemption_Name = ''gift'', Redemption_Quota = 25,
     Redemption_CreatedTime = 0, Redemption_RedeemedTime = 0\<rparr>"

definition demo_codes :: "bool list \<Rightarrow> World" where
  "demo_codes fs = world_of (demo_db\<lparr>db_redemptions := [demo_code 1 ''k1'', demo_code 2 ''k2'']\<rparr>) fs"

text \<open>User 2 tries the code it created, user 1 redeems it, tries again, and redeems the other.\<close>

definition demo_redeems :: "(string \<times> int) list" where
  "demo_redeems = [(''k1'', 2), (''k1'', 1), (''k1'', 1), (''k2'', 1), (''k3'', 1)]"

theorem redemptions_conserve_witness:
  "total_quota (fold redeem_event demo_redeems (demo_codes [])) - total_quota (demo_codes []) =
     redeemed_total (fold redeem_event demo_redeems (demo_codes [])) - redeemed_total (demo_codes [])
   \<and> total_quota (fold redeem_event demo_redeems (demo_codes [])) - total_quota (demo_codes []) = 50"
proof -
  have "redemptions_ok (demo_codes [])" by code_simp
  note redemptions_conserve [OF this, of demo_redeems]
  moreover have "total_quota (fold redeem_event demo_redeems (demo_codes [])) - total_quota (demo_codes []) = 50"
    by code_simp
  ultimately show ?thesis by blast
qed

end
