(* ===== verification/Calendar.thy ===== *)
theory Calendar
  imports GoPrelude
begin

text \<open>
  The part of Go's \<open>time\<close> package that the check-in uses: the civil date of a day number and its
  \<open>2006-01-02\<close> text (\<open>time.Time.Format\<close>), with the fact that different days have different
  texts. Days are numbered from 0001-01-01, the year cycle being cut as the standard library
  cuts it (400, 100, 4 and 1 years).
\<close>

text \<open>Year (from 0) and day of the year (from 0).\<close>

definition year_yday :: "int \<Rightarrow> int \<times> int" where
  "year_yday d0 =
     (let n400 = d0 div 146097; d1 = d0 mod 146097;
          n100 = min 3 (d1 div 36524); d2 = d1 - 36524 * n100;
          n4 = d2 div 1461; d3 = d2 mod 1461;
          n1 = min 3 (d3 div 365); d4 = d3 - 365 * n1
      in (400 * n400 + 100 * n100 + 4 * n4 + n1, d4))"

definition is_leap :: "int \<Rightarrow> bool" where
  "is_leap y \<longleftrightarrow> y mod 4 = 0 \<and> (y mod 100 \<noteq> 0 \<or> y mod 400 = 0)"

definition month_lengths :: "int \<Rightarrow> int list" where
  "month_lengths y = [31, if is_leap y then 29 else 28, 31, 30, 31, 30, 31, 31, 30, 31, 30, 31]"

fun month_day :: "int list \<Rightarrow> int \<Rightarrow> int \<times> int" where
  "month_day [] yday = (1, yday + 1)"
| "month_day (l # ls) yday =
     (if yday < l then (1, yday + 1)
      else case month_day ls (yday - l) of (m, d) \<Rightarrow> (m + 1, d))"

definition civil :: "int \<Rightarrow> int \<times> int \<times> int" where
  "civil d = (case year_yday d of (y, yday) \<Rightarrow>
     case month_day (month_lengths (y + 1)) yday of (m, dd) \<Rightarrow> (y + 1, m, dd))"

definition pad_zero :: "nat \<Rightarrow> int \<Rightarrow> string" where
  "pad_zero n k = (let s = show_int k in replicate (n - length s) CHR ''0'' @ s)"

definition format_date :: "int \<times> int \<times> int \<Rightarrow> string" where
  "format_date ymd = (case ymd of (y, m, d) \<Rightarrow>
     pad_zero 4 y @ ''-'' @ pad_zero 2 m @ ''-'' @ pad_zero 2 d)"

text \<open>Seconds since 1970 to days since 0001-01-01.\<close>

definition day_number :: "int \<Rightarrow> int" where
  "day_number secs = secs div 86400 + 719162"

section \<open>Different days, different texts\<close>

lemma year_yday_inverse:
  assumes "year_yday d = (y, yd)"
  shows "d = 365 * y + y div 4 - y div 100 + y div 400 + yd \<and> 0 \<le> yd \<and> yd < 366"
proof -
  define n400 where "n400 = d div 146097"
  define d1 where "d1 = d mod 146097"
  define n100 where "n100 = min 3 (d1 div 36524)"
  define d2 where "d2 = d1 - 36524 * n100"
  define n4 where "n4 = d2 div 1461"
  define d3 where "d3 = d2 mod 1461"
  define n1 where "n1 = min 3 (d3 div 365)"
  have y: "y = 400 * n400 + 100 * n100 + 4 * n4 + n1" and yd: "yd = d3 - 365 * n1"
    using assms by (auto simp: year_yday_def Let_def n400_def d1_def n100_def d2_def n4_def d3_def n1_def)
  have d1: "0 \<le> d1" "d1 < 146097" "d = 146097 * n400 + d1" by (simp_all add: d1_def n400_def)
  have n100: "0 \<le> n100" "n100 \<le> 3" using d1 by (auto simp: n100_def)
  have d2: "0 \<le> d2" "d2 < 36525" "d1 = 36524 * n100 + d2"
    unfolding d2_def n100_def using d1 by (auto simp: min_def split: if_splits) (presburger+)?
  have n4: "0 \<le> n4" "n4 < 25" using d2 by (auto simp: n4_def)
  have d3: "0 \<le> d3" "d3 < 1461" "d2 = 1461 * n4 + d3" by (simp_all add: d3_def n4_def)
  have n1: "0 \<le> n1" "n1 \<le> 3" using d3 by (auto simp: n1_def)
  have yd2: "0 \<le> yd" "yd < 366"
    unfolding yd n1_def using d3 by (auto simp: min_def split: if_splits) (presburger+)?
  have "y div 400 = n400" using y n100 n4 n1 by simp
  moreover have "y div 100 = 4 * n400 + n100" using y n100 n4 n1 by simp
  moreover have "y div 4 = 100 * n400 + 25 * n100 + n4" using y n1 by simp
  ultimately show ?thesis using y yd yd2 d1(3) d2(3) d3(3) by simp
qed

lemma year_yday_inj: "year_yday d = year_yday d' \<Longrightarrow> d = d'"
  using year_yday_inverse [of d] year_yday_inverse [of d'] by (metis prod.exhaust)

lemma month_day_bounds:
  "month_day ls yd = (m, d) \<Longrightarrow> 0 \<le> yd \<Longrightarrow> 1 \<le> m \<and> 1 \<le> d"
  by (induction ls yd arbitrary: m d rule: month_day.induct)
     (auto split: if_splits prod.splits)

lemma month_day_inj:
  "month_day ls yd = month_day ls yd' \<Longrightarrow> 0 \<le> yd \<Longrightarrow> 0 \<le> yd' \<Longrightarrow> yd = yd'"
proof (induction ls arbitrary: yd yd')
  case (Cons l ls)
  obtain m d where md: "month_day ls (yd - l) = (m, d)" by fastforce
  obtain m' d' where md': "month_day ls (yd' - l) = (m', d')" by fastforce
  show ?case
  proof (cases "yd < l"; cases "yd' < l")
    assume "\<not> yd < l" "\<not> yd' < l"
    with Cons md md' have "yd - l = yd' - l" by (intro Cons.IH) auto
    then show ?thesis by simp
  qed (use Cons.prems md md' month_day_bounds [OF md] month_day_bounds [OF md'] in auto)
qed simp

lemma civil_inj: "civil d = civil d' \<Longrightarrow> d = d'"
proof -
  assume eq: "civil d = civil d'"
  obtain y yd where y: "year_yday d = (y, yd)" by fastforce
  obtain y' yd' where y': "year_yday d' = (y', yd')" by fastforce
  from eq y y' have "y = y'" "month_day (month_lengths (y + 1)) yd = month_day (month_lengths (y + 1)) yd'"
    by (auto simp: civil_def split: prod.splits)
  then have "yd = yd'" using month_day_inj year_yday_inverse [OF y] year_yday_inverse [OF y'] by blast
  with \<open>y = y'\<close> y y' show "d = d'" using year_yday_inj by metis
qed

lemma show_int_nonneg: "0 \<le> k \<Longrightarrow> show_int k = show_nat (nat k)"
  by (simp add: show_int_def)

lemma parse_digits_zeros: "parse_digits 0 (replicate n CHR ''0'' @ s) = parse_digits 0 s"
  by (induction n) (simp_all add: is_digit_def)

lemma pad_zero_inj: "pad_zero n k = pad_zero n k' \<Longrightarrow> 0 \<le> k \<Longrightarrow> 0 \<le> k' \<Longrightarrow> k = k'"
proof -
  assume "pad_zero n k = pad_zero n k'" and nn: "0 \<le> k" "0 \<le> k'"
  then have "parse_digits 0 (pad_zero n k) = parse_digits 0 (pad_zero n k')" by simp
  with nn have "nat k = nat k'"
    by (simp add: pad_zero_def Let_def show_int_nonneg parse_digits_zeros parse_digits_show_nat)
  with nn show "k = k'" by simp
qed

lemma pad_zero_no_minus: "0 \<le> k \<Longrightarrow> CHR ''-'' \<notin> set (pad_zero n k)"
  using show_nat_digits [of "CHR ''-''" "nat k"]
  by (auto simp: pad_zero_def Let_def show_int_nonneg is_digit_def)

lemma split_at_first: "c \<notin> set a \<Longrightarrow> c \<notin> set a' \<Longrightarrow> a @ c # b = a' @ c # b' \<Longrightarrow> a = a' \<and> b = b'"
  by (induction a arbitrary: a') (auto simp: Cons_eq_append_conv)

lemma format_date_inj:
  assumes "format_date (y, m, d) = format_date (y', m', d')"
    and "0 \<le> y" "0 \<le> m" "0 \<le> d" "0 \<le> y'" "0 \<le> m'" "0 \<le> d'"
  shows "(y, m, d) = (y', m', d')"
proof -
  have 1: "pad_zero 4 y @ CHR ''-'' # (pad_zero 2 m @ CHR ''-'' # pad_zero 2 d) =
      pad_zero 4 y' @ CHR ''-'' # (pad_zero 2 m' @ CHR ''-'' # pad_zero 2 d')"
    using assms(1) by (simp add: format_date_def)
  have y: "pad_zero 4 y = pad_zero 4 y'"
    and 2: "pad_zero 2 m @ CHR ''-'' # pad_zero 2 d = pad_zero 2 m' @ CHR ''-'' # pad_zero 2 d'"
    using split_at_first [OF _ _ 1] pad_zero_no_minus assms(2-) by auto
  have "pad_zero 2 m = pad_zero 2 m' \<and> pad_zero 2 d = pad_zero 2 d'"
    using split_at_first [OF _ _ 2] pad_zero_no_minus assms(2-) by auto
  with y pad_zero_inj assms(2-) show ?thesis by blast
qed

lemma civil_nonneg:
  assumes "civil d0 = (y, m, d)" and "0 \<le> d0"
  shows "0 \<le> y \<and> 0 \<le> m \<and> 0 \<le> d"
proof -
  obtain y0 yd where y: "year_yday d0 = (y0, yd)" by fastforce
  have "0 \<le> y0"
  proof (rule ccontr)
    assume "\<not> 0 \<le> y0"
    then have neg: "y0 \<le> - 1" by simp
    have "y0 div 4 \<le> y0 div 100" using zdiv_mono2_neg [of y0 4 100] neg by simp
    moreover have "y0 div 400 \<le> - 1" using zdiv_mono1 [OF neg, of 400] by simp
    ultimately show False using year_yday_inverse [OF y] assms(2) neg by linarith
  qed
  with y assms(1) month_day_bounds year_yday_inverse [OF y] show ?thesis
    by (fastforce simp: civil_def split: prod.splits)
qed

lemma format_civil_inj:
  assumes "format_date (civil d) = format_date (civil d')" and "0 \<le> d" and "0 \<le> d'"
  shows "d = d'"
proof -
  obtain y m dd where c: "civil d = (y, m, dd)" by (cases "civil d")
  obtain y' m' dd' where c': "civil d' = (y', m', dd')" by (cases "civil d'")
  have "civil d = civil d'"
    using assms c c' format_date_inj civil_nonneg [OF c] civil_nonneg [OF c'] by metis
  then show ?thesis by (rule civil_inj)
qed

end
