(* ===== verification/CheckinModel.thy ===== *)
theory CheckinModel
  imports Redeem Calendar
begin

text \<open>
  The daily check-in (\<open>model/checkin.go\<close>): at most one claim per user and day, each claim credited
  in the transaction that inserts its row, and the streak that consecutive days build up.
\<close>

section \<open>Operations\<close>

text \<open>
  The server's local day. The time zone is an offset in seconds (\<open>TZOffset\<close>); \<open>AddDate(0, 0, -1)\<close>
  is the previous day number.
\<close>

definition dateKey :: "int \<Rightarrow> string" where
  "dateKey day = format_date (civil day)"

definition local_day :: "World \<Rightarrow> int" where
  "local_day w = day_number (clock w + TZOffset (cfg w))"

definition PreviewReward :: "Config \<Rightarrow> int \<Rightarrow> int" where
  "PreviewReward s streak0 =
     (let streak = (if streak0 < 1 then 1 else streak0);
          extra0 = streak - 1;
          extra1 = (if 0 < Checkin_StreakCap s \<and> Checkin_StreakCap s < streak
                    then Checkin_StreakCap s - 1 else extra0);
          extra = (if extra1 < 0 then 0 else extra1)
      in i64 (Checkin_DailyQuota s + i64 (extra * Checkin_StreakBonus s)))"

definition checkin_at :: "int \<Rightarrow> string \<Rightarrow> Checkin \<Rightarrow> bool" where
  "checkin_at userId date c \<longleftrightarrow> Checkin_UserId c = userId \<and> Checkin_Date c = date"

definition getCheckinByDate :: "int \<Rightarrow> string \<Rightarrow> World \<Rightarrow> (GoErr + Checkin option) \<times> World" where
  "getCheckinByDate userId date w =
     (case sql_first db_checkins (checkin_at userId date) w of
        (Inl e, w1) \<Rightarrow> if e = ErrRecordNotFound then (Inr None, w1) else (Inl e, w1)
      | (Inr c, w1) \<Rightarrow> (Inr (Some c), w1))"

definition GetTodayCheckin :: "int \<Rightarrow> World \<Rightarrow> (GoErr + Checkin option) \<times> World" where
  "GetTodayCheckin userId w = getCheckinByDate userId (dateKey (local_day w)) w"

text \<open>\<open>Inr (streak, claimedToday)\<close>.\<close>

definition CurrentStreak :: "int \<Rightarrow> World \<Rightarrow> (GoErr + int \<times> bool) \<times> World" where
  "CurrentStreak userId w =
     (case getCheckinByDate userId (dateKey (local_day w)) w of
        (Inl e, w1) \<Rightarrow> (Inl e, w1)
      | (Inr (Some today), w1) \<Rightarrow> (Inr (Checkin_Streak today, True), w1)
      | (Inr None, w1) \<Rightarrow>
          (case getCheckinByDate userId (dateKey (local_day w - 1)) w1 of
             (Inl e, w2) \<Rightarrow> (Inl e, w2)
           | (Inr (Some yest), w2) \<Rightarrow> (Inr (Checkin_Streak yest, False), w2)
           | (Inr None, w2) \<Rightarrow> (Inr (0, False), w2)))"

text \<open>
  The part of the transaction after the two lookups: insert the row, or re-read the one that a
  concurrent claim inserted; credit the reward; \<open>Inr (rec, alreadyClaimed)\<close>.
\<close>

definition claim_insert :: "int \<Rightarrow> string \<Rightarrow> int \<Rightarrow> World \<Rightarrow> (GoErr + Checkin \<times> bool) \<times> World" where
  "claim_insert userId today streak w =
     (let reward = PreviewReward (cfg w) streak;
          nc = \<lparr>Checkin_Id = next_id Checkin_Id (db_checkins (db w)), Checkin_UserId = userId,
                Checkin_Date = today, Checkin_Quota = reward, Checkin_Streak = streak,
                Checkin_CreatedAt = clock w\<rparr>
      in case sql_insert db_checkins db_checkins_update (checkin_at userId today) nc w of
           (Inl e, w1) \<Rightarrow>
             if e \<noteq> ErrDuplicatedKey then (Inl e, w1)
             else (case sql_first db_checkins (checkin_at userId today) w1 of
                 (Inl e2, w2) \<Rightarrow> (Inl e, w2)
               | (Inr again, w2) \<Rightarrow> (Inr (again, True), w2))
         | (Inr _, w1) \<Rightarrow>
             if 0 < reward
             then (case sql_update db_users db_users_update user_fits (\<lambda>u. User_Id u = userId)
                          (\<lambda>u. u\<lparr>User_Quota := User_Quota u + reward\<rparr>) w1 of
                 (Inl e, w2) \<Rightarrow> (Inl e, w2)
               | (Inr n, w2) \<Rightarrow>
                   if n \<noteq> 1
                   then (Inl (Err (''checkin: credit quota affected '' @ show_int (int n) @
                                   '' rows for user '' @ show_int userId)), w2)
                   else (Inr (nc, False), w2))
             else (Inr (nc, False), w1))"

definition claim_body :: "int \<Rightarrow> string \<Rightarrow> string \<Rightarrow> World \<Rightarrow> (GoErr + Checkin \<times> bool) \<times> World" where
  "claim_body userId today yesterday w =
     (case sql_first db_checkins (checkin_at userId today) w of
        (Inr existing, w1) \<Rightarrow> (Inr (existing, True), w1)
      | (Inl e, w1) \<Rightarrow>
          if e \<noteq> ErrRecordNotFound then (Inl e, w1)
          else (case sql_first db_checkins (checkin_at userId yesterday) w1 of
              (Inr prev, w2) \<Rightarrow> claim_insert userId today (i64 (Checkin_Streak prev + 1)) w2
            | (Inl e, w2) \<Rightarrow>
                if e \<noteq> ErrRecordNotFound then (Inl e, w2) else claim_insert userId today 1 w2))"

definition ClaimToday :: "int \<Rightarrow> World \<Rightarrow> (GoErr + Checkin \<times> bool) \<times> World" where
  "ClaimToday userId w =
     (if userId \<le> 0 then (Inl (Err ''user_id is required''), w)
      else case sql_transaction
             (claim_body userId (dateKey (local_day w)) (dateKey (local_day w - 1))) w of
        (Inl e, w1) \<Rightarrow> (Inl e, w1)
      | (Inr (r, already), w1) \<Rightarrow>
          (Inr (r, already),
           if \<not> already \<and> 0 < Checkin_Quota r
           then RecordLog userId LogTypeSystem (LogCheckin (Checkin_Streak r) (Checkin_Quota r)) w1
           else w1))"

section \<open>Effect of a claim\<close>

definition checkin_of :: "World \<Rightarrow> int \<Rightarrow> string \<Rightarrow> Checkin option" where
  "checkin_of w uid date = find (checkin_at uid date) (db_checkins (db w))"

definition new_checkin :: "World \<Rightarrow> int \<Rightarrow> string \<Rightarrow> int \<Rightarrow> Checkin" where
  "new_checkin w uid today streak = \<lparr>Checkin_Id = next_id Checkin_Id (db_checkins (db w)),
     Checkin_UserId = uid, Checkin_Date = today, Checkin_Quota = PreviewReward (cfg w) streak,
     Checkin_Streak = streak, Checkin_CreatedAt = clock w\<rparr>"

definition streak_today :: "World \<Rightarrow> int \<Rightarrow> string \<Rightarrow> int" where
  "streak_today w uid yesterday = (case checkin_of w uid yesterday of
       None \<Rightarrow> 1 | Some prev \<Rightarrow> i64 (Checkin_Streak prev + 1))"

definition claim_db :: "World \<Rightarrow> Checkin \<Rightarrow> Database" where
  "claim_db w c =
     (if 0 < Checkin_Quota c
      then db_users_update (update_where (\<lambda>u. User_Id u = Checkin_UserId c)
             (\<lambda>u. u\<lparr>User_Quota := User_Quota u + Checkin_Quota c\<rparr>))
      else (\<lambda>d. d)) (db_checkins_update (\<lambda>rows. rows @ [c]) (db w))"

lemma new_checkin_simps [simp]:
  "Checkin_UserId (new_checkin w uid today s) = uid" "Checkin_Date (new_checkin w uid today s) = today"
  "Checkin_Streak (new_checkin w uid today s) = s"
  "Checkin_Quota (new_checkin w uid today s) = PreviewReward (cfg w) s"
  by (simp_all add: new_checkin_def)

lemma new_checkin_cong:
  "db w' = db w \<Longrightarrow> same_env w w' \<Longrightarrow> new_checkin w' uid today s = new_checkin w uid today s"
  by (simp add: new_checkin_def same_env_def)

lemma claim_insert_Inr:
  assumes "claim_insert uid today s w = (Inr (r, b), w')" and "checkin_of w uid today = None"
  shows "\<not> b \<and> r = new_checkin w uid today s \<and> db w' = claim_db w r
     \<and> (0 < Checkin_Quota r \<longrightarrow> count_where (\<lambda>u. User_Id u = uid) (db_users (db w)) = 1)"
proof -
  let ?nc = "new_checkin w uid today s"
  obtain x w1 where x: "sql_insert db_checkins db_checkins_update (checkin_at uid today) ?nc w = (x, w1)"
    by fastforce
  have nodup: "\<not> list_ex (checkin_at uid today) (db_checkins (db w))"
    using assms(2) by (auto simp: checkin_of_def find_None_iff list_ex_iff)
  have x': "sql_insert db_checkins db_checkins_update (checkin_at uid today)
      \<lparr>Checkin_Id = next_id Checkin_Id (db_checkins (db w)), Checkin_UserId = uid,
       Checkin_Date = today, Checkin_Quota = PreviewReward (cfg w) s, Checkin_Streak = s,
       Checkin_CreatedAt = clock w\<rparr> w = (x, w1)"
    using x by (simp add: new_checkin_def)
  obtain u where xu: "x = Inr u"
  proof (cases x)
    case (Inl e)
    have "e \<noteq> ErrDuplicatedKey"
      using x Inl nodup
      by (auto simp: sql_insert_def dest!: io_fault_frame split: prod.splits bool.splits if_splits)
    with assms(1) x' Inl show ?thesis by (simp add: claim_insert_def Let_def)
  qed (use that in auto)
  have d1: "db w1 = db_checkins_update (\<lambda>rows. rows @ [?nc]) (db w)"
    using sql_insert_Inr [OF x [unfolded xu]] by simp
  show ?thesis
  proof (cases "0 < PreviewReward (cfg w) s")
    case False
    with assms(1) x' xu d1 show ?thesis
      by (auto simp: claim_insert_def Let_def claim_db_def new_checkin_def)
  next
    case True
    obtain y w2 where y: "sql_update db_users db_users_update user_fits (\<lambda>u. User_Id u = uid)
        (\<lambda>u. u\<lparr>User_Quota := User_Quota u + PreviewReward (cfg w) s\<rparr>) w1 = (y, w2)" by fastforce
    with assms(1) x' xu True have "y = Inr 1" "w' = w2" "r = ?nc" "\<not> b"
      by (auto simp: claim_insert_def Let_def new_checkin_def split: sum.splits if_splits)
    with sql_update_Inr y d1 True show ?thesis by (fastforce simp: claim_db_def)
  qed
qed

lemma claim_body_Inr:
  assumes "claim_body uid today yesterday w = (Inr (r, b), w')"
  shows "if b then checkin_of w uid today = Some r \<and> db w' = db w
     else checkin_of w uid today = None
        \<and> r = new_checkin w uid today (streak_today w uid yesterday) \<and> db w' = claim_db w r
        \<and> (0 < Checkin_Quota r \<longrightarrow> count_where (\<lambda>u. User_Id u = uid) (db_users (db w)) = 1)"
proof -
  obtain f w1 where f: "sql_first db_checkins (checkin_at uid today) w = (f, w1)" by fastforce
  have w1: "db w1 = db w" "same_env w w1" using sql_first_frame [OF f] by auto
  show ?thesis
  proof (cases f)
    case (Inr c)
    with f assms w1 sql_first_Inr [of db_checkins "checkin_at uid today" w c w1]
    show ?thesis by (simp add: claim_body_def checkin_of_def)
  next
    case (Inl e)
    with assms f have e: "e = ErrRecordNotFound" by (auto simp: claim_body_def split: if_splits)
    have none: "checkin_of w uid today = None"
      using f Inl e by (auto simp: checkin_of_def sql_first_def dest!: io_fault_frame
          split: prod.splits bool.splits option.splits)
    obtain g w2 where g: "sql_first db_checkins (checkin_at uid yesterday) w1 = (g, w2)" by fastforce
    have w2: "db w2 = db w" "same_env w w2"
      using sql_first_frame [OF g] w1 by (auto intro: same_env_trans)
    have "claim_insert uid today (streak_today w uid yesterday) w2 = (Inr (r, b), w')"
    proof (cases g)
      case (Inr c)
      with f Inl e g assms sql_first_Inr [of db_checkins "checkin_at uid yesterday" w1 c w2] w1
      show ?thesis by (simp add: claim_body_def streak_today_def checkin_of_def)
    next
      case (Inl e')
      have e': "e' = ErrRecordNotFound"
        using f \<open>f = Inl e\<close> e g Inl assms by (auto simp: claim_body_def split: if_splits)
      have "checkin_of w uid yesterday = None"
        using g Inl e' w1(1) by (auto simp: checkin_of_def sql_first_def dest!: io_fault_frame
            split: prod.splits bool.splits option.splits)
      with f \<open>f = Inl e\<close> e g Inl e' assms show ?thesis by (simp add: claim_body_def streak_today_def)
    qed
    from claim_insert_Inr [OF this] none w2 new_checkin_cong [OF w2]
    show ?thesis by (auto simp: checkin_of_def claim_db_def)
  qed
qed

lemma ClaimToday_db:
  assumes "ClaimToday uid w = (x, w')"
  shows "case x of Inl e \<Rightarrow> db w' = db w
    | Inr (r, b) \<Rightarrow> 0 < uid \<and> (if b then checkin_of w uid (dateKey (local_day w)) = Some r \<and> db w' = db w
        else checkin_of w uid (dateKey (local_day w)) = None
          \<and> r = new_checkin w uid (dateKey (local_day w)) (streak_today w uid (dateKey (local_day w - 1)))
          \<and> db w' = claim_db w r
          \<and> (0 < Checkin_Quota r \<longrightarrow> count_where (\<lambda>u. User_Id u = uid) (db_users (db w)) = 1))"
proof (cases "uid \<le> 0")
  case True
  with assms show ?thesis by (auto simp: ClaimToday_def)
next
  case False
  let ?body = "claim_body uid (dateKey (local_day w)) (dateKey (local_day w - 1))"
  obtain y v where y: "sql_transaction ?body w = (y, v)" by fastforce
  show ?thesis
  proof (cases y)
    case (Inl e)
    with assms False y sql_transaction_Inl [of _ w e v] show ?thesis by (auto simp: ClaimToday_def)
  next
    case (Inr rb)
    obtain r b where rb: "rb = (r, b)" by fastforce
    from y Inr rb have "sql_transaction ?body w = (Inr (r, b), v)" by simp
    then obtain w1 w2 where w1: "io_fault w = (False, w1)" and body: "?body w1 = (Inr (r, b), w2)"
      and w2: "io_fault w2 = (False, v)" by (rule sql_transaction_Inr)
    have d1: "db w1 = db w" "same_env w w1" using io_fault_frame [OF w1] by auto
    have d2: "db v = db w2" using io_fault_frame [OF w2] by simp
    have "checkin_of w1 = checkin_of w" "claim_db w1 = claim_db w"
      using d1 by (simp_all add: checkin_of_def claim_db_def fun_eq_iff)
    with claim_body_Inr [OF body] d1 d2 assms False y Inr rb new_checkin_cong [OF d1]
    show ?thesis by (auto simp: ClaimToday_def go_simps streak_today_def split: if_splits)
  qed
qed

section \<open>Claims over time\<close>

definition claim_event :: "int \<times> int \<Rightarrow> World \<Rightarrow> World" where
  "claim_event e w = (case e of (uid, t) \<Rightarrow> snd (ClaimToday uid (w\<lparr>clock := t\<rparr>)))"

definition checkin_credited :: "World \<Rightarrow> int \<Rightarrow> int" where
  "checkin_credited w j = sum_list (map
     (\<lambda>c. if Checkin_UserId c = j then max 0 (Checkin_Quota c) else 0) (db_checkins (db w)))"

definition checkins_ok :: "World \<Rightarrow> bool" where
  "checkins_ok w \<longleftrightarrow> distinct (map (\<lambda>c. (Checkin_UserId c, Checkin_Date c)) (db_checkins (db w)))"

lemma claim_event_cases:
  obtains (same) "db (claim_event (uid, t) w) = db w"
  | (claimed) r v where "v = w\<lparr>clock := t\<rparr>" and "0 < uid" and "checkin_of w uid (dateKey (local_day v)) = None"
      and "r = new_checkin v uid (dateKey (local_day v)) (streak_today v uid (dateKey (local_day v - 1)))"
      and "db (claim_event (uid, t) w) = claim_db w r"
proof -
  let ?v = "w\<lparr>clock := t\<rparr>"
  obtain x w' where x: "ClaimToday uid ?v = (x, w')" by fastforce
  have cv: "checkin_of ?v = checkin_of w" "claim_db ?v = claim_db w"
    by (simp_all add: checkin_of_def claim_db_def fun_eq_iff)
  show thesis
  proof (cases x)
    case (Inl e)
    with ClaimToday_db [OF x] x same show thesis by (simp add: claim_event_def)
  next
    case (Inr rb)
    obtain r b where rb: "rb = (r, b)" by fastforce
    show thesis
    proof (cases b)
      case True
      with ClaimToday_db [OF x] Inr rb x same show thesis by (simp add: claim_event_def)
    next
      case False
      with ClaimToday_db [OF x] Inr rb x cv claimed [of ?v r] show thesis by (simp add: claim_event_def)
    qed
  qed
qed

lemma claim_db_rows: "db w' = claim_db w r \<Longrightarrow> db_checkins (db w') = db_checkins (db w) @ [r]"
  by (simp add: claim_db_def)

lemma claim_db_bal:
  "db w' = claim_db w r \<Longrightarrow> user_bal w' j =
     (if j = Checkin_UserId r then map_option (\<lambda>b. b + max 0 (Checkin_Quota r)) (user_bal w j)
      else user_bal w j)"
  by (auto simp: claim_db_def user_bal_def user_bal_update option.map_ident)

lemma claim_event_step:
  assumes "checkins_ok w"
  shows "checkins_ok (claim_event e w)
     \<and> user_bal (claim_event e w) j =
         map_option (\<lambda>b. b + (checkin_credited (claim_event e w) j - checkin_credited w j)) (user_bal w j)"
proof -
  obtain uid t where e: "e = (uid, t)" by fastforce
  show ?thesis
  proof (cases rule: claim_event_cases [of uid t w])
    case same
    with assms e show ?thesis
      by (simp add: checkins_ok_def checkin_credited_def user_bal_def option.map_comp comp_def)
  next
    case (claimed r v)
    note rows = claim_db_rows [OF claimed(5)]
    have "(uid, dateKey (local_day v)) \<notin> (\<lambda>c. (Checkin_UserId c, Checkin_Date c)) ` set (db_checkins (db w))"
      using claimed(3) by (auto simp: checkin_of_def find_None_iff checkin_at_def)
    then have "checkins_ok (claim_event (uid, t) w)"
      using assms rows claimed(4) by (simp add: checkins_ok_def)
    moreover have "checkin_credited (claim_event (uid, t) w) j - checkin_credited w j =
        (if j = Checkin_UserId r then max 0 (Checkin_Quota r) else 0)"
      using rows by (simp add: checkin_credited_def)
    ultimately show ?thesis using claim_db_bal [OF claimed(5), of j] e by (simp add: option.map_ident)
  qed
qed

interpretation claims: credited_orders checkins_ok user_bal checkin_credited claim_event
  by unfold_locales (simp_all add: claim_event_step)

section \<open>Streaks\<close>

text \<open>
  Every row of day \<open>d\<close> carries the number of consecutive days, ending with \<open>d\<close>, on which its user
  has claimed; \<open>D\<close> bounds the days of the rows.
\<close>

definition streak_row_ok :: "World \<Rightarrow> int \<Rightarrow> Checkin \<Rightarrow> bool" where
  "streak_row_ok w d c \<longleftrightarrow> Checkin_Date c = dateKey d \<and> 1 \<le> Checkin_Streak c \<and> Checkin_Streak c \<le> d
     \<and> (\<forall>k. 0 \<le> k \<and> k < Checkin_Streak c \<longrightarrow> checkin_of w (Checkin_UserId c) (dateKey (d - k)) \<noteq> None)
     \<and> checkin_of w (Checkin_UserId c) (dateKey (d - Checkin_Streak c)) = None"

definition streaks_ok :: "int \<Rightarrow> World \<Rightarrow> bool" where
  "streaks_ok D w \<longleftrightarrow> (\<forall>c \<in> set (db_checkins (db w)). \<exists>d \<le> D. streak_row_ok w d c)"

lemma dateKey_inj: "dateKey d = dateKey d' \<Longrightarrow> 0 \<le> d \<Longrightarrow> 0 \<le> d' \<Longrightarrow> d = d'"
  unfolding dateKey_def by (rule format_civil_inj)

lemma checkin_of_append:
  assumes "db_checkins (db w') = db_checkins (db w) @ [r]"
  shows "checkin_of w' u date = (case checkin_of w u date of Some c \<Rightarrow> Some c
     | None \<Rightarrow> if Checkin_UserId r = u \<and> Checkin_Date r = date then Some r else None)"
proof -
  have "find P (xs @ [x]) = (case find P xs of Some c \<Rightarrow> Some c | None \<Rightarrow> if P x then Some x else None)"
    for P xs and x :: Checkin by (induction xs) auto
  with assms show ?thesis by (auto simp: checkin_of_def checkin_at_def split: option.splits)
qed

lemma claim_streaks:
  assumes ok: "streaks_ok D w" and d: "d = local_day (w\<lparr>clock := t\<rparr>)" "D \<le> d" "1 \<le> d" "d < 2 ^ 62"
  shows "streaks_ok d (claim_event (uid, t) w)"
proof (cases rule: claim_event_cases [of uid t w])
  case same
  then have "checkin_of (claim_event (uid, t) w) = checkin_of w" by (simp add: checkin_of_def fun_eq_iff)
  then have "streak_row_ok (claim_event (uid, t) w) = streak_row_ok w"
    by (simp add: streak_row_ok_def fun_eq_iff)
  moreover have "db_checkins (db (claim_event (uid, t) w)) = db_checkins (db w)" using same by simp
  ultimately show ?thesis using ok d(2) order_trans unfolding streaks_ok_def by metis
next
  case (claimed r v)
  let ?w = "claim_event (uid, t) w"
  have dv: "local_day v = d" using claimed(1) d(1) by simp
  note rows = claim_db_rows [OF claimed(5)]
  note lookup = checkin_of_append [OF rows]
  have r: "Checkin_UserId r = uid" "Checkin_Date r = dateKey d" using claimed(4) dv by simp_all
  have fresh: "checkin_of w uid (dateKey d) = None" using claimed(3) dv by simp
  have old: "\<exists>dc \<le> d. streak_row_ok ?w dc c" if c: "c \<in> set (db_checkins (db w))" for c
  proof -
    obtain dc where dc: "dc \<le> D" "streak_row_ok w dc c" using ok c by (auto simp: streaks_ok_def)
    have other: "dc < d \<or> Checkin_UserId c \<noteq> uid"
    proof (rule ccontr)
      assume "\<not> ?thesis"
      then have "dc = d" "Checkin_UserId c = uid" using dc(1) d(2) by auto
      then have "checkin_at uid (dateKey d) c" using dc(2) by (simp add: streak_row_ok_def checkin_at_def)
      with fresh c show False by (auto simp: checkin_of_def find_None_iff)
    qed
    have same_look: "checkin_of ?w (Checkin_UserId c) (dateKey e) = checkin_of w (Checkin_UserId c) (dateKey e)"
      if "0 \<le> e" "e \<le> dc" for e
      using lookup [of "Checkin_UserId c" "dateKey e"] other r that dateKey_inj [of d e] d(3)
      by (auto split: option.splits)
    have "streak_row_ok ?w dc c"
      using dc(2) same_look by (auto simp: streak_row_ok_def)
    moreover have "dc \<le> d" using dc(1) d(2) by simp
    ultimately show ?thesis by blast
  qed
  moreover have "streak_row_ok ?w d r"
  proof (cases "checkin_of w uid (dateKey (d - 1))")
    case None
    have look: "checkin_of v = checkin_of w" using claimed(1) by (simp add: checkin_of_def fun_eq_iff)
    have s: "Checkin_Streak r = 1" using claimed(4) dv None look by (simp add: streak_today_def)
    have "dateKey d \<noteq> dateKey (d - 1)" using dateKey_inj [of d "d - 1"] d(3) by auto
    then have "checkin_of ?w uid (dateKey (d - 1)) = None" using lookup [of uid "dateKey (d - 1)"] None r by simp
    moreover have "checkin_of ?w uid (dateKey d) \<noteq> None" using lookup [of uid "dateKey d"] fresh r by simp
    moreover have "k = 0" if "0 \<le> k" "k < (1::int)" for k using that by simp
    ultimately show ?thesis using s r d(3) unfolding streak_row_ok_def by (metis diff_zero order_refl)
  next
    case (Some p)
    then have p: "p \<in> set (db_checkins (db w))" "Checkin_UserId p = uid" "Checkin_Date p = dateKey (d - 1)"
      by (auto simp: checkin_of_def checkin_at_def dest: find_Some_mem)
    obtain dp where dp: "dp \<le> D" "streak_row_ok w dp p" using ok p(1) by (auto simp: streaks_ok_def)
    have "dp = d - 1" using dateKey_inj [of dp "d - 1"] dp(2) p(3) d(3) by (auto simp: streak_row_ok_def)
    have look: "checkin_of v = checkin_of w" using claimed(1) by (simp add: checkin_of_def fun_eq_iff)
    have sp: "1 \<le> Checkin_Streak p" "Checkin_Streak p \<le> d - 1"
      using dp(2) \<open>dp = d - 1\<close> by (auto simp: streak_row_ok_def)
    then have s: "Checkin_Streak r = Checkin_Streak p + 1"
      using claimed(4) dv Some look d(4) by (simp add: streak_today_def i64_id in_i64_def)
    have kept: "checkin_of ?w uid (dateKey e) = checkin_of w uid (dateKey e)" if "0 \<le> e" "e < d" for e
      using lookup [of uid "dateKey e"] r that dateKey_inj [of d e] by (auto split: option.splits)
    have "checkin_of ?w uid (dateKey (d - k)) \<noteq> None" if k: "0 \<le> k" "k < Checkin_Streak r" for k
    proof (cases "k = 0")
      case True
      with lookup [of uid "dateKey d"] fresh r show ?thesis by simp
    next
      case False
      have "\<forall>i. 0 \<le> i \<and> i < Checkin_Streak p \<longrightarrow> checkin_of w uid (dateKey (d - 1 - i)) \<noteq> None"
        using dp(2) \<open>dp = d - 1\<close> p(2) by (simp add: streak_row_ok_def)
      then have "checkin_of w uid (dateKey (d - 1 - (k - 1))) \<noteq> None"
        using k s False by (elim allE [of _ "k - 1"] impE) auto
      moreover have "0 \<le> d - k" "d - k < d" using k s sp False by auto
      ultimately show ?thesis using kept [of "d - k"] by simp
    qed
    moreover have "checkin_of ?w uid (dateKey (d - Checkin_Streak r)) = None"
      using kept [of "d - Checkin_Streak r"] s sp dp(2) \<open>dp = d - 1\<close> p(2)
      by (simp add: streak_row_ok_def algebra_simps)
    ultimately show ?thesis using r s sp by (simp add: streak_row_ok_def)
  qed
  ultimately show ?thesis using rows by (auto simp: streaks_ok_def)
qed

lemma claim_event_cfg: "cfg (claim_event e w) = cfg w"
proof -
  obtain uid t where e: "e = (uid, t)" by fastforce
  have ins: "same_env v v'" if "claim_insert u td s v = (x, v')" for u td s v x v'
    using that unfolding claim_insert_def Let_def
    by (cases "sql_insert db_checkins db_checkins_update (checkin_at u td)
          \<lparr>Checkin_Id = next_id Checkin_Id (db_checkins (db v)), Checkin_UserId = u, Checkin_Date = td,
           Checkin_Quota = PreviewReward (cfg v) s, Checkin_Streak = s, Checkin_CreatedAt = clock v\<rparr> v")
       (auto dest!: sql_insert_Inl sql_insert_Inr sql_first_frame sql_update_env
          intro: same_env_trans split: sum.splits prod.splits if_splits)
  have "same_env v v'" if "claim_body u td y v = (x, v')" for u td y v x v'
    using that by (auto simp: claim_body_def dest!: sql_first_frame ins
        intro: same_env_trans split: sum.splits prod.splits if_splits)
  then have "same_env v v'" if "sql_transaction (claim_body u td y) v = (x, v')" for u td y v x v'
    using sql_transaction_env that by blast
  then have "same_env (w\<lparr>clock := t\<rparr>) (snd (ClaimToday uid (w\<lparr>clock := t\<rparr>)))"
    by (auto simp: ClaimToday_def intro: same_env_trans [OF _ RecordLog_frame(3)]
        split: sum.splits prod.splits)
  then show ?thesis using e by (simp add: claim_event_def same_env_def)
qed

text \<open>The local day at a time, in the time zone of a configuration.\<close>

definition day_at :: "Config \<Rightarrow> int \<Rightarrow> int" where
  "day_at c t = day_number (t + TZOffset c)"

lemma day_at_mono: "t \<le> t' \<Longrightarrow> day_at c t \<le> day_at c t'"
  by (simp add: day_at_def day_number_def zdiv_mono1)

lemma claims_streaks:
  assumes "streaks_ok D w" and "sorted (map snd es)"
    and "\<forall>e \<in> set es. max 1 D \<le> day_at (cfg w) (snd e) \<and> day_at (cfg w) (snd e) < 2 ^ 62"
  shows "\<exists>D'. streaks_ok D' (fold claim_event es w)"
  using assms
proof (induction es arbitrary: D w)
  case (Cons e es)
  obtain uid t where e: "e = (uid, t)" by fastforce
  have "streaks_ok (day_at (cfg w) t) (claim_event (uid, t) w)"
    by (rule claim_streaks) (use Cons.prems e in \<open>auto simp: local_day_def day_at_def\<close>)
  then have "\<exists>D'. streaks_ok D' (fold claim_event es (claim_event (uid, t) w))"
    by (rule Cons.IH) (use Cons.prems e day_at_mono in \<open>auto simp: claim_event_cfg\<close>)
  with e show ?case by simp
qed auto

section \<open>Properties\<close>

text \<open>
  C10. Over any list of claims at any times and with any failures, each user's balance grows by
  exactly the rewards of the check-in rows inserted for that user, and no user ever has two
  rows for one day.
\<close>

theorem claims_conserve:
  assumes "checkins_ok w"
  shows "checkins_ok (fold claim_event es w)
     \<and> user_bal (fold claim_event es w) j = map_option
         (\<lambda>b. b + (checkin_credited (fold claim_event es w) j - checkin_credited w j)) (user_bal w j)"
  using claims.run_inv [OF assms] claims.run_bal [OF assms] by blast

definition demo_claims_world :: World where
  "demo_claims_world = (world_of demo_db [])\<lparr>cfg := default_cfg\<lparr>Checkin_DailyQuota := 10,
     Checkin_StreakBonus := 5, Checkin_StreakCap := 3\<rparr>\<rparr>"

text \<open>User 1 claims twice on 15 June 2025, on the 16th and the 18th; user 2 on the 16th.\<close>

definition demo_claims :: "(int \<times> int) list" where
  "demo_claims = [(1, 1750000000), (1, 1750000100), (1, 1750086400), (2, 1750086500), (1, 1750259200)]"

theorem claims_conserve_witness:
  "checkins_ok (fold claim_event demo_claims demo_claims_world)
   \<and> user_bal (fold claim_event demo_claims demo_claims_world) 1 = map_option
       (\<lambda>b. b + (checkin_credited (fold claim_event demo_claims demo_claims_world) 1
          - checkin_credited demo_claims_world 1)) (user_bal demo_claims_world 1)
   \<and> user_bal (fold claim_event demo_claims demo_claims_world) 1 = Some (100 + 10 + 15 + 10)"
proof -
  have "checkins_ok demo_claims_world" by code_simp
  note claims_conserve [OF this, of demo_claims 1]
  moreover have "user_bal (fold claim_event demo_claims demo_claims_world) 1 = Some (100 + 10 + 15 + 10)"
    by code_simp
  ultimately show ?thesis by blast
qed

text \<open>
  C11. When the clock does not run backwards, the streak of every check-in row is the number of
  consecutive days, ending with its own, on which its user has claimed, whatever failures
  occurred on the way.
\<close>

theorem streak_counts_days:
  assumes "db_checkins (db w) = []" and "sorted (map snd es)"
    and "\<forall>e \<in> set es. 1 \<le> day_at (cfg w) (snd e) \<and> day_at (cfg w) (snd e) < 2 ^ 62"
    and "c \<in> set (db_checkins (db (fold claim_event es w)))"
  shows "\<exists>d. Checkin_Date c = dateKey d \<and> 1 \<le> Checkin_Streak c \<and> Checkin_Streak c \<le> d
     \<and> (\<forall>k. 0 \<le> k \<and> k < Checkin_Streak c \<longrightarrow>
           checkin_of (fold claim_event es w) (Checkin_UserId c) (dateKey (d - k)) \<noteq> None)
     \<and> checkin_of (fold claim_event es w) (Checkin_UserId c) (dateKey (d - Checkin_Streak c)) = None"
proof -
  have "streaks_ok 1 w" using assms(1) by (simp add: streaks_ok_def)
  then obtain D' where "streaks_ok D' (fold claim_event es w)"
    using claims_streaks assms(2,3) by (metis max.idem)
  with assms(4) show ?thesis by (auto simp: streaks_ok_def streak_row_ok_def)
qed

theorem streak_counts_days_witness:
  "\<exists>d. dateKey d = ''2025-06-16''
     \<and> checkin_of (fold claim_event demo_claims demo_claims_world) 1 (dateKey (d - 0)) \<noteq> None
     \<and> checkin_of (fold claim_event demo_claims demo_claims_world) 1 (dateKey (d - 1)) \<noteq> None
     \<and> checkin_of (fold claim_event demo_claims demo_claims_world) 1 (dateKey (d - 2)) = None"
proof -
  let ?c = "\<lparr>Checkin_Id = 2, Checkin_UserId = 1, Checkin_Date = ''2025-06-16'', Checkin_Quota = 15,
    Checkin_Streak = 2, Checkin_CreatedAt = 1750086400\<rparr>"
  have c: "?c \<in> set (db_checkins (db (fold claim_event demo_claims demo_claims_world)))" by code_simp
  have days: "\<forall>e \<in> set demo_claims. 1 \<le> day_at (cfg demo_claims_world) (snd e)
      \<and> day_at (cfg demo_claims_world) (snd e) < 2 ^ 62" by code_simp
  have "sorted (map snd demo_claims)" by code_simp
  from streak_counts_days [OF _ this days c]
  obtain d where d: "''2025-06-16'' = dateKey d"
    and look: "\<forall>k. 0 \<le> k \<and> k < 2 \<longrightarrow>
        checkin_of (fold claim_event demo_claims demo_claims_world) 1 (dateKey (d - k)) \<noteq> None"
    and none: "checkin_of (fold claim_event demo_claims demo_claims_world) 1 (dateKey (d - 2)) = None"
    by (auto simp: demo_claims_world_def world_of_def demo_db_def empty_db_def)
  from look have "checkin_of (fold claim_event demo_claims demo_claims_world) 1 (dateKey (d - 0)) \<noteq> None"
    and "checkin_of (fold claim_event demo_claims demo_claims_world) 1 (dateKey (d - 1)) \<noteq> None"
    by (elim allE [of _ 0] allE [of _ 1]; simp)+
  with d none show ?thesis by (intro exI [of _ d]) simp
qed

text \<open>
  The reward of a claim lies between the daily quota and the daily quota plus the bonus
  of the capped number of extra days, and does not shrink as the streak grows.
\<close>

theorem PreviewReward_bounds:
  assumes "0 \<le> Checkin_DailyQuota s" and "0 \<le> Checkin_StreakBonus s" and "0 < Checkin_StreakCap s"
    and "Checkin_DailyQuota s + (Checkin_StreakCap s - 1) * Checkin_StreakBonus s < 2 ^ 63"
    and "n \<le> m"
  shows "Checkin_DailyQuota s \<le> PreviewReward s n \<and> PreviewReward s n \<le> PreviewReward s m
     \<and> PreviewReward s m \<le> Checkin_DailyQuota s + (Checkin_StreakCap s - 1) * Checkin_StreakBonus s"
proof -
  define extra where "extra k = min (max 0 (k - 1)) (Checkin_StreakCap s - 1)" for k
  have cap: "extra k * Checkin_StreakBonus s \<le> (Checkin_StreakCap s - 1) * Checkin_StreakBonus s" for k
    using assms(2) by (intro mult_right_mono) (auto simp: extra_def)
  have nn: "0 \<le> extra k * Checkin_StreakBonus s" for k
    using assms(2,3) by (simp add: extra_def)
  have eq: "PreviewReward s k = Checkin_DailyQuota s + extra k * Checkin_StreakBonus s" for k
  proof -
    have "in_i64 (extra k * Checkin_StreakBonus s)"
      and "in_i64 (Checkin_DailyQuota s + extra k * Checkin_StreakBonus s)"
      using nn [of k] cap [of k] assms(1,4) by (auto simp: in_i64_def)
    moreover have "PreviewReward s k = i64 (Checkin_DailyQuota s + i64 (extra k * Checkin_StreakBonus s))"
      using assms(3) by (auto simp: PreviewReward_def Let_def extra_def min_def max_def)
    ultimately show ?thesis by (simp add: i64_id)
  qed
  have "extra n * Checkin_StreakBonus s \<le> extra m * Checkin_StreakBonus s"
    using assms(2,5) by (intro mult_right_mono) (auto simp: extra_def)
  with nn [of n] cap [of m] show ?thesis by (simp add: eq)
qed

theorem PreviewReward_bounds_witness:
  "10 \<le> PreviewReward (cfg demo_claims_world) 2
   \<and> PreviewReward (cfg demo_claims_world) 2 \<le> PreviewReward (cfg demo_claims_world) 9
   \<and> PreviewReward (cfg demo_claims_world) 9 \<le> 10 + (3 - 1) * 5"
  using PreviewReward_bounds [of "cfg demo_claims_world" 2 9]
  by (simp add: demo_claims_world_def default_cfg_def)

text \<open>
  When a concurrent request has inserted today's row between the lookup and the insert,
  the claim ends with the driver's unique-index error: the branch that would re-read the row
  and report \<open>alreadyClaimed\<close> is not reached, since the errors are not translated.
\<close>

theorem claim_race_is_error:
  assumes "checkin_of w uid today = Some c" and "faults w = []"
  shows "fst (claim_insert uid today streak w) = Inl ErrUniqueViolation"
proof -
  have "list_ex (checkin_at uid today) (db_checkins (db w))"
    using find_Some_mem assms(1) by (force simp: checkin_of_def list_ex_iff)
  with assms(2) show ?thesis by (simp add: claim_insert_def sql_insert_def Let_def)
qed

theorem claim_race_is_error_witness:
  "fst (claim_insert 1 (dateKey 739416) 1 (claim_event (1, 1750000000) demo_claims_world)) =
     Inl ErrUniqueViolation"
proof (rule claim_race_is_error)
  show "checkin_of (claim_event (1, 1750000000) demo_claims_world) 1 (dateKey 739416) =
    Some \<lparr>Checkin_Id = 1, Checkin_UserId = 1, Checkin_Date = ''2025-06-15'', Checkin_Quota = 10,
      Checkin_Streak = 1, Checkin_CreatedAt = 1750000000\<rparr>" by code_simp
  show "faults (claim_event (1, 1750000000) demo_claims_world) = []" by code_simp
qed

end
