(* ===== verification/Charge.thy ===== *)
theory Charge
  imports Settle
begin

text \<open>
  The charge of one request from reservation to settlement: after a successful
  \<open>PreConsumeTokenQuota\<close> of \<open>q\<close>, a \<open>PostConsumeTokenQuota\<close> of \<open>final - q\<close> leaves the owner charged
  exactly \<open>final\<close>. The relay handlers and the video submission rest on it.
\<close>

lemma sql_update_ledger_users:
  assumes "sql_update db_users db_users_update user_fits P f w = (r, w1)" and "ledger_ok (db w)"
    and "\<And>u. User_Id (f u) = User_Id u"
  shows "ledger_ok (db w1)"
proof (cases r)
  case (Inl e)
  with assms sql_update_Inl show ?thesis by metis
next
  case (Inr n)
  note eff = sql_update_Inr [OF assms(1) [unfolded Inr]]
  show ?thesis
    using eff assms(2,3)
    by (auto simp: ledger_ok_def distinct_keys_update list_all_iff dest!: set_update_where)
qed

lemma sql_update_ledger_tokens:
  assumes "sql_update db_tokens db_tokens_update token_fits P f w = (r, w1)" and "ledger_ok (db w)"
    and "\<And>t. Token_Id (f t) = Token_Id t"
  shows "ledger_ok (db w1)"
proof (cases r)
  case (Inl e)
  with assms sql_update_Inl show ?thesis by metis
next
  case (Inr n)
  note eff = sql_update_Inr [OF assms(1) [unfolded Inr]]
  show ?thesis
    using eff assms(2,3)
    by (auto simp: ledger_ok_def distinct_keys_update list_all_iff dest!: set_update_where)
qed

lemma reserve_ledger_ok:
  "reserveUser k q w = (r, w1) \<Longrightarrow> ledger_ok (db w) \<Longrightarrow> ledger_ok (db w1)"
  "reserveToken k q w = (r', w1) \<Longrightarrow> ledger_ok (db w) \<Longrightarrow> ledger_ok (db w1)"
  by (auto simp: reserveUser_def reserveToken_def
      intro: sql_update_ledger_users sql_update_ledger_tokens)

lemma reserveToken_row:
  assumes "reserveToken k q w = (Inr n, w1)" and "n \<noteq> 0" and "ledger_ok (db w)"
    and "find (\<lambda>t. Token_Id t = k) (db_tokens (db w)) = Some t"
  shows "find (\<lambda>t. Token_Id t = k) (db_tokens (db w1)) =
     Some (t\<lparr>Token_RemainQuota := Token_RemainQuota t - q, Token_UsedQuota := Token_UsedQuota t + q,
            Token_AccessedTime := clock w\<rparr>)"
proof -
  let ?f = "\<lambda>t. t\<lparr>Token_RemainQuota := Token_RemainQuota t - q, Token_UsedQuota := Token_UsedQuota t + q,
            Token_AccessedTime := clock w\<rparr>"
  have "count_where (\<lambda>t. Token_Id t = k \<and> q \<le> Token_RemainQuota t) (db_tokens (db w)) \<noteq> 0"
    using reserveToken_Inr [OF assms(1)] assms(2) by simp
  then have "q \<le> Token_RemainQuota t"
    using count_guarded [OF ledger_okD(2) [OF assms(3)], of k "\<lambda>t. q \<le> Token_RemainQuota t"] assms(4)
    by (simp split: if_splits)
  then show ?thesis
    using reserveToken_Inr [OF assms(1)] assms(4)
      find_guarded_update [of Token_Id ?f k k "\<lambda>t. q \<le> Token_RemainQuota t" "db_tokens (db w)"]
    by simp
qed

lemma warn_env:
  "cfg (maybeSendQuotaWarning u a b w) = cfg w \<and> faults (maybeSendQuotaWarning u a b w) = faults w"
  by (auto simp: maybeSendQuotaWarning_def shouldSendQuotaWarning_def Let_def
      split: prod.splits bool.splits if_splits)

text \<open>Configuration, table rows and pending faults after a reservation that succeeded.\<close>

lemma PreConsume_success:
  assumes "PreConsumeTokenQuota k q w = (None, w')" and "0 < q" and "\<not> BatchUpdateEnabled (cfg w)"
    and "ledger_ok (db w)" and "faults w = []"
    and "find (\<lambda>t. Token_Id t = k) (db_tokens (db w)) = Some t"
  shows "\<exists>b t'. user_bal w (Token_UserId t) = Some b \<and> q \<le> b
     \<and> user_bal w' = (user_bal w)(Token_UserId t \<mapsto> b - q)
     \<and> ledger_ok (db w') \<and> cfg w' = cfg w \<and> faults w' = [] \<and> k \<noteq> 0
     \<and> find (\<lambda>t. Token_Id t = k) (db_tokens (db w')) = Some t'
     \<and> Token_UserId t' = Token_UserId t \<and> Token_UnlimitedQuota t' = Token_UnlimitedQuota t
     \<and> (if Token_UnlimitedQuota t then t' = t \<and> token_bal w' = token_bal w
        else q \<le> Token_RemainQuota t \<and> Token_RemainQuota t' = Token_RemainQuota t - q
          \<and> Token_UsedQuota t' = Token_UsedQuota t + q
          \<and> token_bal w' = (token_bal w)(k \<mapsto> Token_RemainQuota t - q))
     \<and> db_tasks (db w') = db_tasks (db w)"
proof -
  obtain g v where g: "GetTokenById k w = (g, v)" by fastforce
  have k: "k \<noteq> 0" and gv: "g = Inr t" "v = w"
    using g assms(1,2,5,6)
    by (auto simp: GetTokenById_def sql_first_def PreConsumeTokenQuota_def split: if_splits)
  define s where "s = (if \<not> Token_UnlimitedQuota t then reserveToken k q w else (Inr 1, w))"
  obtain n w2 where s: "s = (Inr n, w2)" "n \<noteq> 0" and rest: "\<exists>m w3. reserveUser (Token_UserId t) q w2 = (Inr m, w3)
      \<and> m \<noteq> 0 \<and> w' = (case GetUserQuota (Token_UserId t) w3 of (Inl e, w4) \<Rightarrow> w4
        | (Inr uq, w4) \<Rightarrow> maybeSendQuotaWarning (Token_UserId t) (i64 (uq + q)) uq w4)"
    using assms(1-3) g gv
    by (auto simp: PreConsumeTokenQuota_def s_def split: if_splits sum.splits prod.splits)
  then obtain m w3 where u: "reserveUser (Token_UserId t) q w2 = (Inr m, w3)" "m \<noteq> 0"
    and w': "w' = (case GetUserQuota (Token_UserId t) w3 of (Inl e, w4) \<Rightarrow> w4
        | (Inr uq, w4) \<Rightarrow> maybeSendQuotaWarning (Token_UserId t) (i64 (uq + q)) uq w4)" by blast
  have st: "if Token_UnlimitedQuota t then w2 = w else reserveToken k q w = (Inr n, w2) \<and> n \<noteq> 0"
    using s by (auto simp: s_def split: if_splits)
  have g': "GetTokenById k w = (Inr t, w)" using g gv by simp
  note leg = token_leg [OF st g' assms(4)]
  have ok2: "ledger_ok (db w2)" using st reserve_ledger_ok(2) assms(4) by (auto split: if_splits)
  have q2: "faults w2 = []" "cfg w2 = cfg w" "db_tasks (db w2) = db_tasks (db w)"
    using st assms(5) reserveToken_Inr [of k q w n w2] sql_update_faults_Nil [of db_tokens db_tokens_update token_fits _ _ w _ w2]
    by (auto simp: reserveToken_def same_env_def split: if_splits)
  have ok3: "ledger_ok (db w3)" using u reserve_ledger_ok(1) ok2 by blast
  have q3: "faults w3 = []" "cfg w3 = cfg w" "db_tokens (db w3) = db_tokens (db w2)" "db_tasks (db w3) = db_tasks (db w)"
    using u(1) q2 reserveUser_Inr [OF u(1)] sql_update_faults_Nil [of db_users db_users_update user_fits _ _ w2 _ w3]
    by (auto simp: reserveUser_def same_env_def)
  obtain b where b: "user_bal w2 (Token_UserId t) = Some b" "q \<le> b"
      "user_bal w3 = (user_bal w2)(Token_UserId t \<mapsto> b - q)"
    using reserveUser_taken [OF u(1) _ u(2)] ledger_okD(1) [OF ok2] by auto
  have ub: "user_bal w2 = user_bal w" using leg(1) by (rule user_bal_cong)
  have w'3: "db w' = db w3" "faults w' = []" "cfg w' = cfg w"
    using w' q3 by (auto simp: GetUserQuota_def sql_find_col_def maybeSendQuotaWarning_frame warn_env)
  have tok: "\<exists>t'. find (\<lambda>t. Token_Id t = k) (db_tokens (db w2)) = Some t'
      \<and> Token_UserId t' = Token_UserId t \<and> Token_UnlimitedQuota t' = Token_UnlimitedQuota t
      \<and> (if Token_UnlimitedQuota t then t' = t else Token_RemainQuota t' = Token_RemainQuota t - q
          \<and> Token_UsedQuota t' = Token_UsedQuota t + q)"
    using st assms(6) reserveToken_row [OF _ _ assms(4,6), of q n w2] by (auto split: if_splits)
  have tb: "token_bal w' = token_bal w2"
    using w'3(1) q3(3) by (intro token_bal_cong) simp
  show ?thesis
    using tok b ub ok3 q3 w'3 k leg(2) tb bal_db_cong [OF w'3(1)] by (auto split: if_splits)
qed

text \<open>Reservation and settlement together charge exactly the final amount.\<close>

lemma charge_exact:
  assumes "PreConsumeTokenQuota k q w = (None, w1)" and "0 < q" and "\<not> BatchUpdateEnabled (cfg w)"
    and "ledger_ok (db w)" and "faults w = []"
    and "find (\<lambda>t. Token_Id t = k) (db_tokens (db w)) = Some t"
    and "user_bal w (Token_UserId t) = Some b"
    and "in_i64 (final - q)" and "final - q \<noteq> - (2 ^ 63)" and "in_i64 (b - final)"
    and "in_i64 (Token_RemainQuota t - final)" and "in_i64 (Token_UsedQuota t + final)"
    and "Token_UnlimitedQuota t \<Longrightarrow> in_i64 (Token_RemainQuota t - (final - q)) \<and> in_i64 (Token_UsedQuota t + (final - q))"
  shows "\<exists>w2. PostConsumeTokenQuota k (final - q) w1 = (None, w2) \<and> faults w2 = []
     \<and> user_bal w2 = (user_bal w)(Token_UserId t \<mapsto> b - final)
     \<and> token_bal w2 = (if Token_UnlimitedQuota t then token_bal w
                      else (token_bal w)(k \<mapsto> Token_RemainQuota t - final))"
proof -
  obtain b' t' where p: "user_bal w (Token_UserId t) = Some b'"
    "user_bal w1 = (user_bal w)(Token_UserId t \<mapsto> b' - q)" "ledger_ok (db w1)" "cfg w1 = cfg w" "faults w1 = []"
    "k \<noteq> 0" "find (\<lambda>t. Token_Id t = k) (db_tokens (db w1)) = Some t'"
    "Token_UserId t' = Token_UserId t" "Token_UnlimitedQuota t' = Token_UnlimitedQuota t"
    "if Token_UnlimitedQuota t then t' = t \<and> token_bal w1 = token_bal w
        else q \<le> Token_RemainQuota t \<and> Token_RemainQuota t' = Token_RemainQuota t - q
          \<and> Token_UsedQuota t' = Token_UsedQuota t + q
          \<and> token_bal w1 = (token_bal w)(k \<mapsto> Token_RemainQuota t - q)"
    using PreConsume_success [OF assms(1-6)] by blast
  have b': "b' = b" using p(1) assms(7) by simp
  have "\<exists>w2. PostConsumeTokenQuota k (final - q) w1 = (None, w2)
     \<and> user_bal w2 = (user_bal w1)(Token_UserId t' \<mapsto> b - q - (final - q))
     \<and> token_bal w2 = (if Token_UnlimitedQuota t' then token_bal w1
                      else (token_bal w1)(k \<mapsto> Token_RemainQuota t' - (final - q)))"
    by (rule settle_exact) (use p b' assms in \<open>auto split: if_splits\<close>)
  then obtain w2 where w2: "PostConsumeTokenQuota k (final - q) w1 = (None, w2)"
     "user_bal w2 = (user_bal w1)(Token_UserId t' \<mapsto> b - q - (final - q))"
     "token_bal w2 = (if Token_UnlimitedQuota t' then token_bal w1
                      else (token_bal w1)(k \<mapsto> Token_RemainQuota t' - (final - q)))" by blast
  moreover have "faults w2 = []" using PostConsume_quiet [OF w2(1)] p assms(3,8,9) by simp
  ultimately show ?thesis using p by (auto split: if_splits)
qed

end
