(* ===== verification/ChannelRouting.thy ===== *)
theory ChannelRouting
  imports Poller "HOL-Library.List_Lexorder"
begin

text \<open>
  Upstream channels and the routing of a model to one of them: the channel table
  (\<open>model/channel.go\<close>), the ability table that indexes it by group and model
  (\<open>model/ability.go\<close>), and the in-memory routing table (\<open>model/cache.go\<close>). The key that the
  database assigns to a new row is an argument, and so is the random source: \<open>rand n\<close> is the
  value of \<open>rand.Intn(n)\<close>.
\<close>

definition ChannelStatusUnknown :: int where "ChannelStatusUnknown = 0"
definition ChannelStatusEnabled :: int where "ChannelStatusEnabled = 1"
definition ChannelStatusManuallyDisabled :: int where "ChannelStatusManuallyDisabled = 2"
definition ChannelStatusAutoDisabled :: int where "ChannelStatusAutoDisabled = 3"

definition GetPriority :: "Channel \<Rightarrow> int" where
  "GetPriority c = (case Channel_Priority c of None \<Rightarrow> 0 | Some p \<Rightarrow> p)"

section \<open>Statements on the two tables\<close>

text \<open>The insertion of several rows in one statement, all or none.\<close>

definition sql_insert_all ::
  "'r tbl_get \<Rightarrow> 'r tbl_upd \<Rightarrow> ('r \<Rightarrow> 'k) \<Rightarrow> 'r list \<Rightarrow> World \<Rightarrow> GoErr option \<times> World" where
  "sql_insert_all get upd key new w = (case io_fault w of
       (True, w1) \<Rightarrow> (Some ErrDB, w1)
     | (False, w1) \<Rightarrow>
         if distinct (map key (get (db w1) @ new))
         then (None, w1\<lparr>db := upd (\<lambda>rows. rows @ new) (db w1)\<rparr>)
         else (Some ErrUniqueViolation, w1))"

section \<open>Abilities\<close>

definition channel_models :: "Channel \<Rightarrow> string list" where
  "channel_models c = split_on CHR '','' (Channel_Models c)"

definition channel_groups :: "Channel \<Rightarrow> string list" where
  "channel_groups c = split_on CHR '','' (Channel_Group c)"

text \<open>
  The rows of a channel. \<open>utils.DeDuplication\<close> returns the models in the order of a Go map; the
  order of the rows is never used.
\<close>

definition abilities_of_channel :: "Channel \<Rightarrow> Ability list" where
  "abilities_of_channel c =
     concat (map (\<lambda>model. map (\<lambda>grp.
        \<lparr>Ability_Group = grp, Ability_Model = model, Ability_ChannelId = Channel_Id c,
         Ability_Enabled = (Channel_Status c = ChannelStatusEnabled),
         Ability_Priority = Some (GetPriority c)\<rparr>) (channel_groups c)) (remdups (channel_models c)))"

definition ability_key :: "Ability \<Rightarrow> string \<times> string \<times> int" where
  "ability_key a = (Ability_Group a, Ability_Model a, Ability_ChannelId a)"

definition AddAbilities :: "Channel \<Rightarrow> World \<Rightarrow> GoErr option \<times> World" where
  "AddAbilities c w = sql_insert_all db_abilities db_abilities_update ability_key (abilities_of_channel c) w"

definition DeleteAbilities :: "Channel \<Rightarrow> World \<Rightarrow> GoErr option \<times> World" where
  "DeleteAbilities c w =
     err_only (sql_delete db_abilities db_abilities_update (\<lambda>a. Ability_ChannelId a = Channel_Id c) w)"

definition UpdateAbilities :: "Channel \<Rightarrow> World \<Rightarrow> GoErr option \<times> World" where
  "UpdateAbilities c w = (case DeleteAbilities c w of
       (Some e, w1) \<Rightarrow> (Some e, w1)
     | (None, w1) \<Rightarrow> AddAbilities c w1)"

definition UpdateAbilityStatus :: "int \<Rightarrow> bool \<Rightarrow> World \<Rightarrow> GoErr option \<times> World" where
  "UpdateAbilityStatus channelId status w =
     err_only (sql_update db_abilities db_abilities_update (\<lambda>_. True) (\<lambda>a. Ability_ChannelId a = channelId)
       (\<lambda>a. a\<lparr>Ability_Enabled := status\<rparr>) w)"

section \<open>Channels\<close>

text \<open>The column defaults that GORM fills in for zero values on insertion.\<close>

definition channel_defaults :: "Channel \<Rightarrow> Channel" where
  "channel_defaults c =
     c\<lparr>Channel_Status := (if Channel_Status c = 0 then 1 else Channel_Status c),
       Channel_Group := (if Channel_Group c = [] then ''default'' else Channel_Group c),
       Channel_BaseURL := (case Channel_BaseURL c of None \<Rightarrow> Some [] | u \<Rightarrow> u),
       Channel_ModelMapping := (case Channel_ModelMapping c of None \<Rightarrow> Some [] | u \<Rightarrow> u),
       Channel_Priority := (case Channel_Priority c of None \<Rightarrow> Some 0 | p \<Rightarrow> p)\<rparr>"

definition new_channel :: "int \<Rightarrow> Channel \<Rightarrow> Channel" where
  "new_channel nid c = channel_defaults (if Channel_Id c = 0 then c\<lparr>Channel_Id := nid\<rparr> else c)"

definition Channel_Insert :: "int \<Rightarrow> Channel \<Rightarrow> World \<Rightarrow> GoErr option \<times> World" where
  "Channel_Insert nid c w =
     (case sql_insert_all db_channels db_channels_update Channel_Id [new_channel nid c] w of
        (Some e, w1) \<Rightarrow> (Some e, w1)
      | (None, w1) \<Rightarrow> AddAbilities (new_channel nid c) w1)"

fun add_all_abilities :: "Channel list \<Rightarrow> World \<Rightarrow> GoErr option \<times> World" where
  "add_all_abilities [] w = (None, w)"
| "add_all_abilities (c # cs) w = (case AddAbilities c w of
      (Some e, w1) \<Rightarrow> (Some e, w1)
    | (None, w1) \<Rightarrow> add_all_abilities cs w1)"

text \<open>The assigned keys come as a list, one for each channel.\<close>

definition BatchInsertChannels :: "int list \<Rightarrow> Channel list \<Rightarrow> World \<Rightarrow> GoErr option \<times> World" where
  "BatchInsertChannels nids cs w =
     (case sql_insert_all db_channels db_channels_update Channel_Id (map2 new_channel nids cs) w of
        (Some e, w1) \<Rightarrow> (Some e, w1)
      | (None, w1) \<Rightarrow> add_all_abilities (map2 new_channel nids cs) w1)"

text \<open>\<open>Updates(struct)\<close> writes the fields that are not zero.\<close>

definition nonzero_updates :: "Channel \<Rightarrow> Channel \<Rightarrow> Channel" where
  "nonzero_updates c x =
     x\<lparr>Channel_Type := (if Channel_Type c = 0 then Channel_Type x else Channel_Type c),
       Channel_Key := (if Channel_Key c = [] then Channel_Key x else Channel_Key c),
       Channel_Status := (if Channel_Status c = 0 then Channel_Status x else Channel_Status c),
       Channel_Name := (if Channel_Name c = [] then Channel_Name x else Channel_Name c),
       Channel_BaseURL := (case Channel_BaseURL c of None \<Rightarrow> Channel_BaseURL x | u \<Rightarrow> u),
       Channel_Models := (if Channel_Models c = [] then Channel_Models x else Channel_Models c),
       Channel_Group := (if Channel_Group c = [] then Channel_Group x else Channel_Group c),
       Channel_UsedQuota := (if Channel_UsedQuota c = 0 then Channel_UsedQuota x else Channel_UsedQuota c),
       Channel_Priority := (case Channel_Priority c of None \<Rightarrow> Channel_Priority x | p \<Rightarrow> p),
       Channel_ModelMapping := (case Channel_ModelMapping c of None \<Rightarrow> Channel_ModelMapping x | u \<Rightarrow> u),
       Channel_Other := (case Channel_Other c of None \<Rightarrow> Channel_Other x | u \<Rightarrow> u),
       Channel_Config := (if Channel_Config c = [] then Channel_Config x else Channel_Config c),
       Channel_SystemPrompt := (case Channel_SystemPrompt c of None \<Rightarrow> Channel_SystemPrompt x | u \<Rightarrow> u),
       Channel_TestTime := (if Channel_TestTime c = 0 then Channel_TestTime x else Channel_TestTime c),
       Channel_ResponseTime :=
         (if Channel_ResponseTime c = 0 then Channel_ResponseTime x else Channel_ResponseTime c)\<rparr>"

text \<open>
  The re-read of the row ignores its error: when the row is missing, the caller's own struct goes
  on to \<open>UpdateAbilities\<close>. Without a key GORM refuses the update.
\<close>

definition Channel_Update :: "Channel \<Rightarrow> World \<Rightarrow> GoErr option \<times> World" where
  "Channel_Update c w =
     (if Channel_Id c = 0 then (Some (Err ''WHERE conditions required''), w)
      else case sql_update db_channels db_channels_update (\<lambda>_. True) (\<lambda>x. Channel_Id x = Channel_Id c)
             (nonzero_updates c) w of
        (Inl e, w1) \<Rightarrow> (Some e, w1)
      | (Inr n, w1) \<Rightarrow>
          (case sql_first db_channels (\<lambda>x. Channel_Id x = Channel_Id c) w1 of
             (Inl e, w2) \<Rightarrow> UpdateAbilities c w2
           | (Inr row, w2) \<Rightarrow> UpdateAbilities row w2))"

definition UpdateResponseTime :: "Channel \<Rightarrow> int \<Rightarrow> World \<Rightarrow> World" where
  "UpdateResponseTime c responseTime w =
     snd (sql_update db_channels db_channels_update (\<lambda>_. True) (\<lambda>x. Channel_Id x = Channel_Id c)
       (\<lambda>x. x\<lparr>Channel_TestTime := clock w, Channel_ResponseTime := responseTime\<rparr>) w)"

definition Channel_Delete :: "Channel \<Rightarrow> World \<Rightarrow> GoErr option \<times> World" where
  "Channel_Delete c w =
     (if Channel_Id c = 0 then (Some (Err ''WHERE conditions required''), w)
      else case sql_delete db_channels db_channels_update (\<lambda>x. Channel_Id x = Channel_Id c) w of
        (Inl e, w1) \<Rightarrow> (Some e, w1)
      | (Inr n, w1) \<Rightarrow> DeleteAbilities c w1)"

definition UpdateChannelStatusById :: "int \<Rightarrow> int \<Rightarrow> World \<Rightarrow> World" where
  "UpdateChannelStatusById cid status w =
     (let w1 = snd (UpdateAbilityStatus cid (status = ChannelStatusEnabled) w)
      in snd (sql_update db_channels db_channels_update (\<lambda>_. True) (\<lambda>c. Channel_Id c = cid)
           (\<lambda>c. c\<lparr>Channel_Status := status\<rparr>) w1))"

definition DeleteChannelByStatus :: "int \<Rightarrow> World \<Rightarrow> (GoErr + nat) \<times> World" where
  "DeleteChannelByStatus status w =
     sql_delete db_channels db_channels_update (\<lambda>c. Channel_Status c = status) w"

definition DeleteDisabledChannel :: "World \<Rightarrow> (GoErr + nat) \<times> World" where
  "DeleteDisabledChannel w = sql_delete db_channels db_channels_update
     (\<lambda>c. Channel_Status c = ChannelStatusAutoDisabled \<or> Channel_Status c = ChannelStatusManuallyDisabled) w"

section \<open>Choosing a channel from the database\<close>

text \<open>The rows of the query; \<open>MAX(priority)\<close> and \<open>priority = (...)\<close> skip rows without a priority.\<close>

definition enabled_abilities :: "string \<Rightarrow> string \<Rightarrow> Ability list \<Rightarrow> Ability list" where
  "enabled_abilities grp model rows =
     filter (\<lambda>a. Ability_Group a = grp \<and> Ability_Model a = model \<and> Ability_Enabled a) rows"

definition ability_candidates :: "string \<Rightarrow> string \<Rightarrow> bool \<Rightarrow> Ability list \<Rightarrow> Ability list" where
  "ability_candidates grp model ignoreFirstPriority rows =
     (let cs = enabled_abilities grp model rows
      in if ignoreFirstPriority then cs
         else case List.map_filter Ability_Priority cs of
                [] \<Rightarrow> []
              | p # ps \<Rightarrow> filter (\<lambda>a. Ability_Priority a = Some (fold max ps p)) cs)"

definition GetRandomSatisfiedChannel ::
  "(nat \<Rightarrow> nat) \<Rightarrow> string \<Rightarrow> string \<Rightarrow> bool \<Rightarrow> World \<Rightarrow> (GoErr + Channel) \<times> World" where
  "GetRandomSatisfiedChannel rand grp model ignoreFirstPriority w = (case io_fault w of
       (True, w1) \<Rightarrow> (Inl ErrDB, w1)
     | (False, w1) \<Rightarrow>
         let cs = ability_candidates grp model ignoreFirstPriority (db_abilities (db w1))
         in if cs = [] then (Inl ErrRecordNotFound, w1)
            else sql_first db_channels (\<lambda>c. Channel_Id c = Ability_ChannelId (cs ! rand (length cs))) w1)"

definition GetGroupModels :: "string \<Rightarrow> World \<Rightarrow> (GoErr + string list) \<times> World" where
  "GetGroupModels grp w = (case io_fault w of
       (True, w1) \<Rightarrow> (Inl ErrDB, w1)
     | (False, w1) \<Rightarrow>
         (Inr (sort_key (map (of_char :: char \<Rightarrow> nat))
            (remdups (map Ability_Model
              (filter (\<lambda>a. Ability_Group a = grp \<and> Ability_Enabled a) (db_abilities (db w1)))))), w1))"

section \<open>The routing table in memory\<close>

text \<open>
  \<open>map[string]map[string][]*Channel\<close>: an unknown group has a nil map, and storing into it
  panics.
\<close>

type_synonym routes = "string \<Rightarrow> (string \<Rightarrow> Channel list option) option"

definition add_route :: "Channel \<Rightarrow> string \<times> string \<Rightarrow> routes \<Rightarrow> routes option" where
  "add_route c = (\<lambda>(grp, model) r. case r grp of
       None \<Rightarrow> None
     | Some ms \<Rightarrow>
         Some (r(grp := Some (ms(model := Some ((case ms model of None \<Rightarrow> [] | Some cs \<Rightarrow> cs) @ [c]))))))"

definition channel_routes :: "Channel \<Rightarrow> (string \<times> string) list" where
  "channel_routes c = concat (map (\<lambda>grp. map (\<lambda>model. (grp, model)) (channel_models c)) (channel_groups c))"

fun add_routes :: "(Channel \<times> string \<times> string) list \<Rightarrow> routes \<Rightarrow> routes option" where
  "add_routes [] r = Some r"
| "add_routes ((c, gm) # xs) r = (case add_route c gm r of None \<Rightarrow> None | Some r1 \<Rightarrow> add_routes xs r1)"

text \<open>\<open>sort.Slice\<close> by descending priority; the order among equal priorities is left open by Go.\<close>

definition by_priority :: "Channel list \<Rightarrow> Channel list" where
  "by_priority cs = sort_key (\<lambda>c. - GetPriority c) cs"

definition build_routes :: "Channel list \<Rightarrow> Ability list \<Rightarrow> routes option" where
  "build_routes channels abilities =
     map_option (\<lambda>r grp. map_option (\<lambda>ms model. map_option by_priority (ms model)) (r grp))
       (add_routes (concat (map (\<lambda>c. map (\<lambda>gm. (c, gm)) (channel_routes c)) channels))
          (\<lambda>grp. if grp \<in> Ability_Group ` set abilities then Some (\<lambda>_. None) else None))"

text \<open>The errors of the two queries are ignored: a failed query reads as an empty table.\<close>

definition InitChannelCache :: "World \<Rightarrow> routes option \<times> World" where
  "InitChannelCache w =
     (case sql_list_asc db_channels (\<lambda>c. Channel_Status c = ChannelStatusEnabled) (- 1) w of (chs, w1) \<Rightarrow>
        (case sql_list_asc db_abilities (\<lambda>_. True) (- 1) w1 of (abl, w2) \<Rightarrow>
           (build_routes (case chs of Inl _ \<Rightarrow> [] | Inr cs \<Rightarrow> cs) (case abl of Inl _ \<Rightarrow> [] | Inr rows \<Rightarrow> rows), w2)))"

definition lookup_route :: "routes \<Rightarrow> string \<Rightarrow> string \<Rightarrow> Channel list" where
  "lookup_route r grp model = (case r grp of
       None \<Rightarrow> []
     | Some ms \<Rightarrow> (case ms model of None \<Rightarrow> [] | Some cs \<Rightarrow> cs))"

text \<open>The end of the first priority; a first channel without a positive priority has no tiers.\<close>

definition first_tier :: "Channel list \<Rightarrow> nat" where
  "first_tier cs =
     (if 0 < GetPriority (hd cs)
      then length (takeWhile (\<lambda>c. GetPriority c = GetPriority (hd cs)) cs) else length cs)"

definition pick_route :: "(nat \<Rightarrow> nat) \<Rightarrow> bool \<Rightarrow> Channel list \<Rightarrow> Channel option" where
  "pick_route rand ignoreFirstPriority cs =
     (if cs = [] then None
      else let endIdx = first_tier cs
           in Some (cs ! (if ignoreFirstPriority \<and> endIdx < length cs
                          then endIdx + rand (length cs - endIdx) else rand endIdx)))"

definition CacheGetRandomSatisfiedChannel ::
  "(nat \<Rightarrow> nat) \<Rightarrow> routes \<Rightarrow> string \<Rightarrow> string \<Rightarrow> bool \<Rightarrow> World \<Rightarrow> (GoErr + Channel) \<times> World" where
  "CacheGetRandomSatisfiedChannel rand r grp model ignoreFirstPriority w =
     (if \<not> MemoryCacheEnabled (cfg w) then GetRandomSatisfiedChannel rand grp model ignoreFirstPriority w
      else case pick_route rand ignoreFirstPriority (lookup_route r grp model) of
        None \<Rightarrow> (Inl (Err ''channel not found''), w)
      | Some c \<Rightarrow> (Inr c, w))"

section \<open>The routing table mirrors the enabled channels\<close>

lemma add_routes_lookup:
  "add_routes xs r = Some r' \<Longrightarrow>
     lookup_route r' g m = lookup_route r g m @ map fst (filter (\<lambda>(c, gm). gm = (g, m)) xs)"
proof (induction xs arbitrary: r)
  case (Cons x xs)
  obtain c g' m' where x: "x = (c, g', m')" by (cases x) auto
  obtain r1 where r1: "add_route c (g', m') r = Some r1" and "add_routes xs r1 = Some r'"
    using Cons.prems x by (auto split: option.splits)
  moreover have "lookup_route r1 g m = lookup_route r g m @ (if g' = g \<and> m' = m then [c] else [])"
    using r1 by (auto simp: add_route_def lookup_route_def split: option.splits if_splits)
  ultimately show ?case using Cons.IH [of r1] x by auto
qed simp

lemma add_routes_dom:
  "add_routes xs r \<noteq> None \<longleftrightarrow> list_all (\<lambda>(c, g, m). r g \<noteq> None) xs"
proof (induction xs arbitrary: r)
  case (Cons x xs)
  obtain c g m where x: "x = (c, g, m)" by (cases x) auto
  show ?case
  proof (cases "r g")
    case None
    with x show ?thesis by (simp add: add_route_def)
  next
    case (Some ms)
    then obtain r1 where r1: "add_route c (g, m) r = Some r1" by (simp add: add_route_def)
    have "\<And>g'. r1 g' = None \<longleftrightarrow> r g' = None" using r1 Some by (auto simp: add_route_def split: if_splits)
    with Cons.IH [of r1] x r1 Some show ?thesis by (simp add: list_all_iff)
  qed
qed simp

lemma set_by_priority [simp]: "set (by_priority cs) = set cs"
  by (simp add: by_priority_def)

lemma sorted_by_priority: "sorted_wrt (\<lambda>a b. GetPriority b \<le> GetPriority a) (by_priority cs)"
  using sorted_sort_key [of "\<lambda>c. - GetPriority c" cs]
  by (simp add: by_priority_def sorted_map)

definition serves :: "string \<Rightarrow> string \<Rightarrow> Channel \<Rightarrow> bool" where
  "serves grp model c \<longleftrightarrow> grp \<in> set (channel_groups c) \<and> model \<in> set (channel_models c)"

lemma build_routes_lookup:
  assumes "build_routes channels abilities = Some r"
  shows "set (lookup_route r g m) = {c \<in> set channels. serves g m c}
     \<and> sorted_wrt (\<lambda>a b. GetPriority b \<le> GetPriority a) (lookup_route r g m)"
proof -
  let ?xs = "concat (map (\<lambda>c. map (\<lambda>gm. (c, gm)) (channel_routes c)) channels)"
  let ?r0 = "\<lambda>grp. if grp \<in> Ability_Group ` set abilities then Some (\<lambda>_. None) else None"
  obtain r1 where r1: "add_routes ?xs ?r0 = Some r1"
    and r: "r = (\<lambda>grp. map_option (\<lambda>ms model. map_option by_priority (ms model)) (r1 grp))"
    using assms by (auto simp: build_routes_def)
  have l: "lookup_route r g m = by_priority (lookup_route r1 g m)"
    by (simp add: r lookup_route_def by_priority_def split: option.split)
  have "lookup_route ?r0 g m = []" by (simp add: lookup_route_def)
  with add_routes_lookup [OF r1, of g m]
  have "set (lookup_route r1 g m) = {c \<in> set channels. serves g m c}"
    by (auto simp: channel_routes_def serves_def image_iff)
  then show ?thesis using l sorted_by_priority by simp
qed

lemma ex_Some_if: "(\<exists>y. (if P then Some z else None) = Some y) \<longleftrightarrow> P"
  by simp

text \<open>
  When no query fails, synchronising the cache either builds a routing table that lists, for
  each group and model, exactly the enabled channels that serve them, by descending priority; or
  it panics, exactly when some enabled channel names a group that no ability row mentions.
\<close>

lemma InitChannelCache_mirrors:
  assumes "faults w = []"
  shows "(case fst (InitChannelCache w) of
       None \<Rightarrow> list_ex (\<lambda>c. Channel_Status c = ChannelStatusEnabled
                 \<and> list_ex (\<lambda>g. g \<notin> Ability_Group ` set (db_abilities (db w))) (channel_groups c)) (db_channels (db w))
     | Some r \<Rightarrow> set (lookup_route r g m)
           = {c \<in> set (db_channels (db w)). Channel_Status c = ChannelStatusEnabled \<and> serves g m c}
         \<and> sorted_wrt (\<lambda>a b. GetPriority b \<le> GetPriority a) (lookup_route r g m))"
proof -
  let ?chs = "filter (\<lambda>c. Channel_Status c = ChannelStatusEnabled) (db_channels (db w))"
  have i: "fst (InitChannelCache w) = build_routes ?chs (db_abilities (db w))"
    using assms by (simp add: InitChannelCache_def sql_list_asc_def)
  show ?thesis
  proof (cases "build_routes ?chs (db_abilities (db w))")
    case None
    then have "add_routes (concat (map (\<lambda>c. map (\<lambda>gm. (c, gm)) (channel_routes c)) ?chs))
        (\<lambda>grp. if grp \<in> Ability_Group ` set (db_abilities (db w)) then Some (\<lambda>_. None) else None) = None"
      by (simp add: build_routes_def)
    then have "\<not> list_all (\<lambda>(c, g, m). g \<in> Ability_Group ` set (db_abilities (db w)))
        (concat (map (\<lambda>c. map (\<lambda>gm. (c, gm)) (channel_routes c)) ?chs))"
      using add_routes_dom [of "concat (map (\<lambda>c. map (\<lambda>gm. (c, gm)) (channel_routes c)) ?chs)"
        "\<lambda>grp. if grp \<in> Ability_Group ` set (db_abilities (db w)) then Some (\<lambda>_. None) else None"]
      by (simp add: ex_Some_if)
    then obtain c g' m' where c: "c \<in> set (db_channels (db w))" "Channel_Status c = ChannelStatusEnabled"
      "(g', m') \<in> set (channel_routes c)" "g' \<notin> Ability_Group ` set (db_abilities (db w))"
      by (auto simp: list_all_iff)
    then have "g' \<in> set (channel_groups c)" by (auto simp: channel_routes_def)
    with c show ?thesis unfolding i None by (auto simp: list_ex_iff)
  next
    case (Some r)
    with build_routes_lookup [OF Some, of g m] show ?thesis by (auto simp: i)
  qed
qed

section \<open>Abilities stay in step with channels\<close>

text \<open>
  The invariant of the two tables: channel keys and ability keys are unique, the abilities of
  each channel are those of its present group, model, status and priority columns, and an
  enabled ability belongs to some channel.
\<close>

definition abilities_of :: "int \<Rightarrow> Ability list \<Rightarrow> Ability list" where
  "abilities_of cid rows = filter (\<lambda>a. Ability_ChannelId a = cid) rows"

definition synced :: "Database \<Rightarrow> bool" where
  "synced d \<longleftrightarrow> distinct (map Channel_Id (db_channels d))
     \<and> distinct (map ability_key (db_abilities d))
     \<and> list_all (\<lambda>c. set (abilities_of (Channel_Id c) (db_abilities d)) = set (abilities_of_channel c)) (db_channels d)
     \<and> list_all (\<lambda>a. Ability_Enabled a \<longrightarrow> Ability_ChannelId a \<in> Channel_Id ` set (db_channels d)) (db_abilities d)"

lemma set_abilities_of_channel:
  "a \<in> set (abilities_of_channel c) \<longleftrightarrow> Ability_Group a \<in> set (channel_groups c)
     \<and> Ability_Model a \<in> set (channel_models c) \<and> Ability_ChannelId a = Channel_Id c
     \<and> Ability_Enabled a = (Channel_Status c = ChannelStatusEnabled) \<and> Ability_Priority a = Some (GetPriority c)"
  by (cases a) (auto simp: abilities_of_channel_def)

lemma set_abilities_of [simp]: "a \<in> set (abilities_of k rows) \<longleftrightarrow> a \<in> set rows \<and> Ability_ChannelId a = k"
  by (auto simp: abilities_of_def)

lemma distinct_pairs:
  "distinct xs \<Longrightarrow> distinct ys \<Longrightarrow> distinct (concat (map (\<lambda>x. map (\<lambda>y. (y, x, k)) ys) xs))"
  by (induction xs) (auto simp: distinct_map inj_on_def)

lemma distinct_abilities_of_channel:
  "distinct (channel_groups c) \<Longrightarrow> distinct (map ability_key (abilities_of_channel c))"
  using distinct_pairs [of "remdups (channel_models c)" "channel_groups c" "Channel_Id c"]
  by (simp add: abilities_of_channel_def map_concat comp_def ability_key_def)

lemma abilities_of_channel_id: "a \<in> set (abilities_of_channel c) \<Longrightarrow> Ability_ChannelId a = Channel_Id c"
  by (simp add: set_abilities_of_channel)

text \<open>Replacing the abilities of one channel, the effect of every operation on the index.\<close>

definition set_abilities :: "Channel \<Rightarrow> Ability list \<Rightarrow> Ability list" where
  "set_abilities c rows = filter (\<lambda>a. Ability_ChannelId a \<noteq> Channel_Id c) rows @ abilities_of_channel c"

lemma set_abilities_keys:
  assumes "distinct (map ability_key rows)" and "distinct (channel_groups c)"
  shows "distinct (map ability_key (set_abilities c rows))"
proof -
  have "ability_key a \<noteq> ability_key a'" if "a \<in> set (abilities_of_channel c)" "Ability_ChannelId a' \<noteq> Channel_Id c" for a a'
    using that by (auto simp: ability_key_def set_abilities_of_channel)
  then have "ability_key ` set (filter (\<lambda>a. Ability_ChannelId a \<noteq> Channel_Id c) rows)
      \<inter> ability_key ` set (abilities_of_channel c) = {}"
    by fastforce
  then show ?thesis
    using assms distinct_abilities_of_channel [OF assms(2)]
    by (simp add: set_abilities_def distinct_map_filter)
qed

lemma set_abilities_same: "set (abilities_of (Channel_Id c) (set_abilities c rows)) = set (abilities_of_channel c)"
  by (auto simp: set_abilities_def dest: abilities_of_channel_id)

lemma set_abilities_other:
  "k \<noteq> Channel_Id c \<Longrightarrow> set (abilities_of k (set_abilities c rows)) = set (abilities_of k rows)"
  by (auto simp: set_abilities_def dest: abilities_of_channel_id)

text \<open>One step: the row of a channel is written (or appended) and its abilities are set.\<close>

lemma synced_write:
  assumes "synced d" and "distinct (channel_groups c)"
    and "map Channel_Id chs = map Channel_Id (db_channels d) \<and> c \<in> set chs
         \<or> chs = db_channels d @ [c] \<and> Channel_Id c \<notin> Channel_Id ` set (db_channels d)"
    and "\<And>x. x \<in> set chs \<Longrightarrow> Channel_Id x \<noteq> Channel_Id c \<Longrightarrow> x \<in> set (db_channels d)"
    and "\<And>x. x \<in> set chs \<Longrightarrow> Channel_Id x = Channel_Id c \<Longrightarrow> x = c"
  shows "synced (d\<lparr>db_channels := chs, db_abilities := set_abilities c (db_abilities d)\<rparr>)"
proof -
  let ?rows = "set_abilities c (db_abilities d)"
  have ids: "distinct (map Channel_Id chs)" using assms(1,3) by (auto simp: synced_def)
  have keys: "distinct (map ability_key ?rows)"
    using assms(1,2) by (intro set_abilities_keys) (simp_all add: synced_def)
  have own: "set (abilities_of (Channel_Id x) ?rows) = set (abilities_of_channel x)" if "x \<in> set chs" for x
  proof (cases "Channel_Id x = Channel_Id c")
    case True
    with assms(5) that have "x = c" by blast
    then show ?thesis using set_abilities_same by simp
  next
    case False
    then have "set (abilities_of (Channel_Id x) ?rows) = set (abilities_of (Channel_Id x) (db_abilities d))"
      by (rule set_abilities_other)
    with assms(1) assms(4) [OF that False] show ?thesis by (simp add: synced_def list_all_iff)
  qed
  have all_ids: "Channel_Id ` set (db_channels d) \<subseteq> Channel_Id ` set chs" "c \<in> set chs"
    using assms(3) by (auto dest: arg_cong [where f = set] simp flip: set_map)
  have "Ability_ChannelId a \<in> Channel_Id ` set chs" if "a \<in> set ?rows" "Ability_Enabled a" for a
  proof (cases "a \<in> set (abilities_of_channel c)")
    case True
    then show ?thesis using all_ids(2) abilities_of_channel_id by fastforce
  next
    case False
    with that have "a \<in> set (db_abilities d)" by (auto simp: set_abilities_def)
    with assms(1) that(2) all_ids(1) show ?thesis by (auto simp: synced_def list_all_iff)
  qed
  with ids keys own show ?thesis by (simp add: synced_def list_all_iff)
qed

lemma synced_remove:
  assumes "synced d"
    and "chs = filter (\<lambda>c. \<not> P c) (db_channels d)"
    and "rows = filter (\<lambda>a. \<not> Q a) (db_abilities d)"
    and "\<And>c a. c \<in> set (db_channels d) \<Longrightarrow> a \<in> set (db_abilities d) \<Longrightarrow> Ability_ChannelId a = Channel_Id c
           \<Longrightarrow> \<not> P c \<Longrightarrow> \<not> Q a"
    and "\<And>c a. c \<in> set (db_channels d) \<Longrightarrow> a \<in> set (db_abilities d) \<Longrightarrow> Ability_ChannelId a = Channel_Id c
           \<Longrightarrow> P c \<Longrightarrow> Q a \<or> \<not> Ability_Enabled a"
  shows "synced (d\<lparr>db_channels := chs, db_abilities := rows\<rparr>)"
proof -
  have s: "distinct (map Channel_Id (db_channels d))" "distinct (map ability_key (db_abilities d))"
    "\<And>c. c \<in> set (db_channels d) \<Longrightarrow>
       set (abilities_of (Channel_Id c) (db_abilities d)) = set (abilities_of_channel c)"
    "\<And>a. a \<in> set (db_abilities d) \<Longrightarrow> Ability_Enabled a \<Longrightarrow> Ability_ChannelId a \<in> Channel_Id ` set (db_channels d)"
    using assms(1) by (auto simp: synced_def list_all_iff)
  have "set (abilities_of (Channel_Id c) rows) = set (abilities_of_channel c)" if "c \<in> set chs" for c
  proof -
    have c: "c \<in> set (db_channels d)" "\<not> P c" using that assms(2) by auto
    have "set (abilities_of (Channel_Id c) rows) = set (abilities_of (Channel_Id c) (db_abilities d))"
      using assms(3) assms(4) [OF c(1) _ _ c(2)] by auto
    then show ?thesis using s(3) c(1) by simp
  qed
  moreover have "Ability_ChannelId a \<in> Channel_Id ` set chs" if "a \<in> set rows" "Ability_Enabled a" for a
  proof -
    have a: "a \<in> set (db_abilities d)" "\<not> Q a" using that assms(3) by auto
    from s(4) [OF a(1) that(2)] obtain c where "c \<in> set (db_channels d)" "Ability_ChannelId a = Channel_Id c" by auto
    with assms(2) assms(5) [of c a] a that(2) show ?thesis by auto
  qed
  ultimately show ?thesis
    using s(1,2) assms(2,3) by (simp add: synced_def list_all_iff distinct_map_filter)
qed

section \<open>The operations on channels keep the tables in step\<close>

datatype channel_op =
    OpInsert int Channel
  | OpUpdate Channel
  | OpStatus int int
  | OpDelete Channel
  | OpDeleteDisabled

fun run_channel_op :: "channel_op \<Rightarrow> World \<Rightarrow> World" where
  "run_channel_op (OpInsert nid c) w = snd (Channel_Insert nid c w)"
| "run_channel_op (OpUpdate c) w = snd (Channel_Update c w)"
| "run_channel_op (OpStatus cid status) w = UpdateChannelStatusById cid status w"
| "run_channel_op (OpDelete c) w = snd (Channel_Delete c w)"
| "run_channel_op OpDeleteDisabled w = snd (DeleteDisabledChannel w)"

text \<open>
  What the callers must see to: a fresh key without left-over abilities, an update of a channel
  that exists, no group named twice, and no enabling of a channel that is gone.
\<close>

fun channel_op_ok :: "channel_op \<Rightarrow> Database \<Rightarrow> bool" where
  "channel_op_ok (OpInsert nid c) d \<longleftrightarrow>
     distinct (channel_groups (new_channel nid c))
     \<and> Channel_Id (new_channel nid c) \<notin> Channel_Id ` set (db_channels d)
     \<and> Channel_Id (new_channel nid c) \<notin> Ability_ChannelId ` set (db_abilities d)"
| "channel_op_ok (OpUpdate c) d \<longleftrightarrow>
     (case find (\<lambda>x. Channel_Id x = Channel_Id c) (db_channels d) of
        None \<Rightarrow> False
      | Some x \<Rightarrow> distinct (channel_groups (nonzero_updates c x)))"
| "channel_op_ok (OpStatus cid status) d \<longleftrightarrow>
     cid \<in> Channel_Id ` set (db_channels d) \<or> status \<noteq> ChannelStatusEnabled"
| "channel_op_ok (OpDelete c) d \<longleftrightarrow> True"
| "channel_op_ok OpDeleteDisabled d \<longleftrightarrow> True"

fun channel_ops_ok :: "channel_op list \<Rightarrow> World \<Rightarrow> bool" where
  "channel_ops_ok [] w \<longleftrightarrow> True"
| "channel_ops_ok (op # ops) w \<longleftrightarrow> channel_op_ok op (db w) \<and> channel_ops_ok ops (run_channel_op op w)"

lemma update_where_mem:
  "x \<in> set (update_where P f rows) \<longleftrightarrow> (\<exists>r \<in> set rows. x = (if P r then f r else r))"
  by (auto simp: update_where_def)

lemma set_abilities_fresh:
  "Channel_Id c \<notin> Ability_ChannelId ` set rows \<Longrightarrow> set_abilities c rows = rows @ abilities_of_channel c"
  by (force simp: set_abilities_def intro!: filter_True)

text \<open>Without failures, writing the index is replacing the abilities of the channel.\<close>

lemma AddAbilities_ok:
  assumes "faults w = []" "distinct (map ability_key (db_abilities (db w)))"
    "distinct (channel_groups c)" "Channel_Id c \<notin> Ability_ChannelId ` set (db_abilities (db w))"
  shows "AddAbilities c w = (None, w\<lparr>db := db_abilities_update (set_abilities c) (db w)\<rparr>)"
proof -
  have "distinct (map ability_key (db_abilities (db w) @ abilities_of_channel c))"
    using set_abilities_keys [OF assms(2,3)] set_abilities_fresh [OF assms(4)] by simp
  then show ?thesis
    using assms(1) set_abilities_fresh [OF assms(4)]
    by (simp add: AddAbilities_def sql_insert_all_def)
qed

lemma UpdateAbilities_ok:
  assumes "faults w = []" "distinct (map ability_key (db_abilities (db w)))" "distinct (channel_groups c)"
  shows "UpdateAbilities c w = (None, w\<lparr>db := db_abilities_update (set_abilities c) (db w)\<rparr>)"
proof -
  let ?w = "w\<lparr>db := db_abilities_update (filter (\<lambda>a. Ability_ChannelId a \<noteq> Channel_Id c)) (db w)\<rparr>"
  have d: "DeleteAbilities c w = (None, ?w)"
    using assms(1) by (simp add: DeleteAbilities_def sql_delete_def err_only_def)
  have "AddAbilities c ?w = (None, ?w\<lparr>db := db_abilities_update (set_abilities c) (db ?w)\<rparr>)"
    using assms by (intro AddAbilities_ok) (auto simp: distinct_map_filter)
  with d show ?thesis by (simp add: UpdateAbilities_def set_abilities_def comp_def)
qed

lemma synced_insert:
  assumes "synced (db w)" "faults w = []" "channel_op_ok (OpInsert nid c) (db w)"
  shows "synced (db (snd (Channel_Insert nid c w)))"
proof -
  let ?c = "new_channel nid c"
  let ?w = "w\<lparr>db := db_channels_update (\<lambda>chs. chs @ [?c]) (db w)\<rparr>"
  have "sql_insert_all db_channels db_channels_update Channel_Id [?c] w = (None, ?w)"
    using assms by (auto simp: sql_insert_all_def synced_def)
  moreover have "AddAbilities ?c ?w = (None, ?w\<lparr>db := db_abilities_update (set_abilities ?c) (db ?w)\<rparr>)"
    using assms by (intro AddAbilities_ok) (auto simp: synced_def)
  ultimately have "db (snd (Channel_Insert nid c w)) =
      (db w)\<lparr>db_channels := db_channels (db w) @ [?c], db_abilities := set_abilities ?c (db_abilities (db w))\<rparr>"
    by (simp add: Channel_Insert_def)
  moreover have "synced ((db w)\<lparr>db_channels := db_channels (db w) @ [?c],
      db_abilities := set_abilities ?c (db_abilities (db w))\<rparr>)"
  proof (rule synced_write [OF assms(1)])
    fix x assume "x \<in> set (db_channels (db w) @ [?c])" "Channel_Id x = Channel_Id ?c"
    then show "x = ?c" using assms(3) by (auto simp: image_iff)
  qed (use assms(3) in auto)
  ultimately show ?thesis by simp
qed

lemma synced_update:
  assumes "synced (db w)" "faults w = []" "channel_op_ok (OpUpdate c) (db w)"
  shows "synced (db (snd (Channel_Update c w)))"
proof (cases "Channel_Id c = 0")
  case True
  with assms(1) show ?thesis by (simp add: Channel_Update_def)
next
  case False
  let ?P = "\<lambda>x. Channel_Id x = Channel_Id c"
  let ?chs = "update_where ?P (nonzero_updates c) (db_channels (db w))"
  let ?w = "w\<lparr>db := db_channels_update (update_where ?P (nonzero_updates c)) (db w)\<rparr>"
  obtain x where x: "find ?P (db_channels (db w)) = Some x" and g: "distinct (channel_groups (nonzero_updates c x))"
    using assms(3) by (auto split: option.splits)
  let ?row = "nonzero_updates c x"
  have keep [simp]: "Channel_Id (nonzero_updates c y) = Channel_Id y" for y by (simp add: nonzero_updates_def)
  have mem: "x \<in> set (db_channels (db w))" "?P x" using x by (auto simp: find_Some_iff)
  have uniq: "y = x" if "y \<in> set (db_channels (db w))" "?P y" for y
    using that mem assms(1) by (auto simp: synced_def distinct_map inj_on_def)
  have row: "find ?P ?chs = Some ?row"
    using x mem find_update_where_frame [of ?P "nonzero_updates c" ?P "db_channels (db w)"] by simp
  have "sql_update db_channels db_channels_update (\<lambda>_. True) ?P (nonzero_updates c) w
      = (Inr (count_where ?P (db_channels (db w))), ?w)"
    using assms(2) by (simp add: sql_update_def list_all_iff)
  moreover have "sql_first db_channels ?P ?w = (Inr ?row, ?w)"
    using assms(2) row by (simp add: sql_first_def)
  moreover have "UpdateAbilities ?row ?w = (None, ?w\<lparr>db := db_abilities_update (set_abilities ?row) (db ?w)\<rparr>)"
    using assms g by (intro UpdateAbilities_ok) (auto simp: synced_def)
  ultimately have "db (snd (Channel_Update c w)) =
      (db w)\<lparr>db_channels := ?chs, db_abilities := set_abilities ?row (db_abilities (db w))\<rparr>"
    using False by (simp add: Channel_Update_def)
  moreover have "synced ((db w)\<lparr>db_channels := ?chs, db_abilities := set_abilities ?row (db_abilities (db w))\<rparr>)"
  proof (rule synced_write [OF assms(1) g])
    have "map Channel_Id ?chs = map Channel_Id (db_channels (db w))"
      by (simp add: update_where_def)
    moreover have "?row \<in> set ?chs" using mem by (force simp: update_where_def)
    ultimately show "map Channel_Id ?chs = map Channel_Id (db_channels (db w)) \<and> ?row \<in> set ?chs
        \<or> ?chs = db_channels (db w) @ [?row] \<and> Channel_Id ?row \<notin> Channel_Id ` set (db_channels (db w))" by simp
  next
    fix y assume y: "y \<in> set ?chs" "Channel_Id y \<noteq> Channel_Id ?row"
    then obtain z where "z \<in> set (db_channels (db w))" "y = (if ?P z then nonzero_updates c z else z)"
      unfolding update_where_mem by blast
    with y(2) mem(2) show "y \<in> set (db_channels (db w))" by (cases "?P z") simp_all
  next
    fix y assume y: "y \<in> set ?chs" "Channel_Id y = Channel_Id ?row"
    then obtain z where z: "z \<in> set (db_channels (db w))" "y = (if ?P z then nonzero_updates c z else z)"
      unfolding update_where_mem by blast
    with y(2) mem(2) have "?P z" by (cases "?P z") simp_all
    with z uniq show "y = ?row" by simp
  qed
  ultimately show ?thesis by simp
qed

lemma abilities_of_channel_status:
  "abilities_of_channel (c\<lparr>Channel_Status := st\<rparr>) =
     map (\<lambda>a. a\<lparr>Ability_Enabled := st = ChannelStatusEnabled\<rparr>) (abilities_of_channel c)"
  by (simp add: abilities_of_channel_def channel_models_def channel_groups_def GetPriority_def map_concat comp_def)

lemma set_status_abilities:
  "set (abilities_of k (update_where (\<lambda>a. Ability_ChannelId a = cid) (\<lambda>a. a\<lparr>Ability_Enabled := b\<rparr>) rows)) =
     (if k = cid then (\<lambda>a. a\<lparr>Ability_Enabled := b\<rparr>) ` set (abilities_of k rows) else set (abilities_of k rows))"
  by (auto simp: update_where_def abilities_of_def)

lemma UpdateChannelStatusById_ok:
  assumes "faults w = []"
  shows "UpdateChannelStatusById cid status w = w\<lparr>db := (db w)
    \<lparr>db_channels := update_where (\<lambda>c. Channel_Id c = cid) (\<lambda>c. c\<lparr>Channel_Status := status\<rparr>) (db_channels (db w)),
     db_abilities := update_where (\<lambda>a. Ability_ChannelId a = cid)
       (\<lambda>a. a\<lparr>Ability_Enabled := status = ChannelStatusEnabled\<rparr>) (db_abilities (db w))\<rparr>\<rparr>"
  using assms
  by (simp add: UpdateChannelStatusById_def UpdateAbilityStatus_def sql_update_def list_all_iff err_only_def)

lemma synced_status:
  assumes "synced (db w)" "faults w = []" "channel_op_ok (OpStatus cid status) (db w)"
  shows "synced (db (UpdateChannelStatusById cid status w))"
proof -
  let ?f = "\<lambda>c. c\<lparr>Channel_Status := status\<rparr>"
  let ?chs = "update_where (\<lambda>c. Channel_Id c = cid) ?f (db_channels (db w))"
  let ?rows = "update_where (\<lambda>a. Ability_ChannelId a = cid)
       (\<lambda>a. a\<lparr>Ability_Enabled := status = ChannelStatusEnabled\<rparr>) (db_abilities (db w))"
  have ids: "map Channel_Id ?chs = map Channel_Id (db_channels (db w))"
    and keys: "map ability_key ?rows = map ability_key (db_abilities (db w))"
    by (simp_all add: map_update_where_frame ability_key_def)
  have "set (abilities_of (Channel_Id c) ?rows) = set (abilities_of_channel c)" if cm: "c \<in> set ?chs" for c
  proof -
    obtain x where x: "x \<in> set (db_channels (db w))" "c = (if Channel_Id x = cid then ?f x else x)"
      using cm unfolding update_where_mem by blast
    moreover have "set (abilities_of (Channel_Id x) (db_abilities (db w))) = set (abilities_of_channel x)"
      using x(1) assms(1) by (simp add: synced_def list_all_iff)
    ultimately show ?thesis
      by (cases "Channel_Id x = cid")
        (auto simp: set_status_abilities abilities_of_channel_status simp del: set_abilities_of)
  qed
  moreover have "Ability_ChannelId a \<in> Channel_Id ` set ?chs" if "a \<in> set ?rows" "Ability_Enabled a" for a
  proof -
    have "Channel_Id ` set ?chs = Channel_Id ` set (db_channels (db w))"
      using arg_cong [OF ids, of set] by simp
    moreover have "Ability_ChannelId a \<in> Channel_Id ` set (db_channels (db w))"
      using that assms by (auto simp: update_where_def synced_def list_all_iff split: if_splits)
    ultimately show ?thesis by simp
  qed
  ultimately show ?thesis
    using assms(1) ids keys
    by (simp add: UpdateChannelStatusById_ok [OF assms(2)] synced_def list_all_iff del: set_abilities_of)
qed

lemma synced_delete:
  assumes "synced (db w)" "faults w = []"
  shows "synced (db (snd (Channel_Delete c w)))"
proof (cases "Channel_Id c = 0")
  case True
  with assms(1) show ?thesis by (simp add: Channel_Delete_def)
next
  case False
  have "db (snd (Channel_Delete c w)) = (db w)
      \<lparr>db_channels := filter (\<lambda>x. \<not> Channel_Id x = Channel_Id c) (db_channels (db w)),
       db_abilities := filter (\<lambda>a. \<not> Ability_ChannelId a = Channel_Id c) (db_abilities (db w))\<rparr>"
    using False assms(2) by (simp add: Channel_Delete_def DeleteAbilities_def sql_delete_def err_only_def)
  then show ?thesis by (simp only:) (rule synced_remove [OF assms(1) refl refl]; simp)
qed

lemma synced_delete_disabled:
  assumes "synced (db w)" "faults w = []"
  shows "synced (db (snd (DeleteDisabledChannel w)))"
proof -
  let ?P = "\<lambda>c. Channel_Status c = ChannelStatusAutoDisabled \<or> Channel_Status c = ChannelStatusManuallyDisabled"
  have own: "a \<in> set (abilities_of_channel c)"
    if "c \<in> set (db_channels (db w))" "a \<in> set (db_abilities (db w))" "Ability_ChannelId a = Channel_Id c" for a c
  proof -
    have "a \<in> set (abilities_of (Channel_Id c) (db_abilities (db w)))" using that by simp
    also have "\<dots> = set (abilities_of_channel c)" using that(1) assms(1) by (simp add: synced_def list_all_iff)
    finally show ?thesis .
  qed
  have "db (snd (DeleteDisabledChannel w)) = (db w)
      \<lparr>db_channels := filter (\<lambda>c. \<not> ?P c) (db_channels (db w)),
       db_abilities := filter (\<lambda>a. \<not> False) (db_abilities (db w))\<rparr>"
    using assms(2) by (simp add: DeleteDisabledChannel_def sql_delete_def)
  moreover have "synced ((db w)
      \<lparr>db_channels := filter (\<lambda>c. \<not> ?P c) (db_channels (db w)),
       db_abilities := filter (\<lambda>a. \<not> False) (db_abilities (db w))\<rparr>)"
  proof (rule synced_remove [OF assms(1) refl refl])
    fix c a assume "c \<in> set (db_channels (db w))" "a \<in> set (db_abilities (db w))"
      "Ability_ChannelId a = Channel_Id c" "?P c"
    then show "False \<or> \<not> Ability_Enabled a"
      using own [of c a] by (auto simp: set_abilities_of_channel ChannelStatusEnabled_def
          ChannelStatusAutoDisabled_def ChannelStatusManuallyDisabled_def)
  qed simp
  ultimately show ?thesis by simp
qed

lemma run_channel_op_faults: "faults w = [] \<Longrightarrow> faults (run_channel_op op w) = []"
  by (cases op)
    (auto simp: Channel_Insert_def Channel_Update_def Channel_Delete_def DeleteDisabledChannel_def
      UpdateChannelStatusById_ok sql_insert_all_def AddAbilities_def UpdateAbilities_def DeleteAbilities_def
      sql_delete_def sql_update_def sql_first_def err_only_def
      split: option.splits if_splits sum.splits prod.splits)

lemma synced_step:
  "synced (db w) \<Longrightarrow> faults w = [] \<Longrightarrow> channel_op_ok op (db w) \<Longrightarrow> synced (db (run_channel_op op w))"
  by (cases op) (auto simp: synced_insert synced_update synced_status synced_delete synced_delete_disabled
      simp del: channel_op_ok.simps)

lemma synced_ops:
  "synced (db w) \<Longrightarrow> faults w = [] \<Longrightarrow> channel_ops_ok ops w \<Longrightarrow>
     synced (db (fold run_channel_op ops w)) \<and> faults (fold run_channel_op ops w) = []"
proof (induction ops arbitrary: w)
  case (Cons op ops)
  then show ?case by (simp add: synced_step run_channel_op_faults)
qed simp

section \<open>The two ways of choosing agree\<close>

definition routable :: "Database \<Rightarrow> string \<Rightarrow> string \<Rightarrow> Channel set" where
  "routable d grp model =
     {c \<in> set (db_channels d). Channel_Status c = ChannelStatusEnabled \<and> serves grp model c}"

lemma synced_own:
  "synced d \<Longrightarrow> c \<in> set (db_channels d) \<Longrightarrow>
     a \<in> set (db_abilities d) \<and> Ability_ChannelId a = Channel_Id c \<longleftrightarrow> a \<in> set (abilities_of_channel c)"
  using set_abilities_of [of a "Channel_Id c" "db_abilities d"]
  by (simp add: synced_def list_all_iff del: set_abilities_of)

lemma enabled_ability_channel:
  assumes "synced d" "a \<in> set (enabled_abilities g m (db_abilities d))"
  shows "\<exists>c \<in> routable d g m. Channel_Id c = Ability_ChannelId a \<and> Ability_Priority a = Some (GetPriority c)"
proof -
  have a: "a \<in> set (db_abilities d)" "Ability_Group a = g" "Ability_Model a = m" "Ability_Enabled a"
    using assms(2) by (auto simp: enabled_abilities_def)
  then obtain c where c: "c \<in> set (db_channels d)" "Ability_ChannelId a = Channel_Id c"
    using assms(1) by (auto simp: synced_def list_all_iff)
  have "a \<in> set (abilities_of_channel c)" using synced_own [OF assms(1) c(1), of a] a(1) c(2) by simp
  with a c show ?thesis by (auto simp: set_abilities_of_channel routable_def serves_def)
qed

lemma routable_ability:
  assumes "synced d" "c \<in> routable d g m"
  shows "\<exists>a \<in> set (enabled_abilities g m (db_abilities d)).
    Ability_ChannelId a = Channel_Id c \<and> Ability_Priority a = Some (GetPriority c)"
proof -
  let ?a = "\<lparr>Ability_Group = g, Ability_Model = m, Ability_ChannelId = Channel_Id c, Ability_Enabled = True,
    Ability_Priority = Some (GetPriority c)\<rparr>"
  have c: "c \<in> set (db_channels d)" "Channel_Status c = ChannelStatusEnabled" "serves g m c"
    using assms(2) by (auto simp: routable_def)
  then have "?a \<in> set (abilities_of_channel c)" by (simp add: set_abilities_of_channel serves_def)
  with synced_own [OF assms(1) c(1), of ?a] have "?a \<in> set (enabled_abilities g m (db_abilities d))"
    by (simp add: enabled_abilities_def)
  then show ?thesis by (intro bexI [of _ ?a]) simp_all
qed

lemma enabled_abilities_ids:
  "synced d \<Longrightarrow> Ability_ChannelId ` set (enabled_abilities g m (db_abilities d)) = Channel_Id ` routable d g m"
proof (rule set_eqI, rule iffI)
  fix k assume s: "synced d"
  {
    assume "k \<in> Ability_ChannelId ` set (enabled_abilities g m (db_abilities d))"
    with enabled_ability_channel [OF s] show "k \<in> Channel_Id ` routable d g m" by force
  next
    assume "k \<in> Channel_Id ` routable d g m"
    with routable_ability [OF s] show "k \<in> Ability_ChannelId ` set (enabled_abilities g m (db_abilities d))"
      by force
  }
qed

text \<open>The rows of the query with the best priority.\<close>

lemma map_filter_Some:
  "(\<And>a. a \<in> set xs \<Longrightarrow> f a = Some (h a)) \<Longrightarrow> List.map_filter f xs = map h xs"
  by (induction xs) (simp_all add: List.map_filter_simps)

lemma fold_max_mem: "fold max ps (p :: int) \<in> insert p (set ps)"
  by (induction ps arbitrary: p) (auto simp: max_def split: if_splits)

lemma first_priority_candidates:
  assumes "synced d"
  shows "set (ability_candidates g m False (db_abilities d)) =
    {a \<in> set (enabled_abilities g m (db_abilities d)).
       \<exists>c \<in> routable d g m. Channel_Id c = Ability_ChannelId a \<and> Ability_Priority a = Some (GetPriority c)
         \<and> (\<forall>c' \<in> routable d g m. GetPriority c' \<le> GetPriority c)}"
proof -
  let ?cs = "enabled_abilities g m (db_abilities d)"
  let ?h = "\<lambda>a. the (Ability_Priority a)"
  have pr: "Ability_Priority a = Some (?h a)" if "a \<in> set ?cs" for a
    using enabled_ability_channel [OF assms that] by auto
  have mf: "List.map_filter Ability_Priority ?cs = map ?h ?cs"
    by (rule map_filter_Some) (rule pr)
  have le_iff: "(\<forall>c' \<in> routable d g m. GetPriority c' \<le> k) \<longleftrightarrow> (\<forall>a \<in> set ?cs. ?h a \<le> k)" for k
    using enabled_ability_channel [OF assms] routable_ability [OF assms] by (metis option.sel)
  show ?thesis
  proof (cases "?cs")
    case Nil
    then show ?thesis by (simp add: ability_candidates_def)
  next
    case (Cons b bs)
    let ?p = "fold max (map ?h bs) (?h b)"
    have ge: "?h a \<le> ?p" if "a \<in> set ?cs" for a
      using that Cons fold_max_ge [of "?h b" "map ?h bs" "?h a"] by auto
    have "?p \<in> ?h ` set ?cs" using fold_max_mem [of "map ?h bs" "?h b"] Cons by auto
    then obtain b0 where b0: "b0 \<in> set ?cs" "?h b0 = ?p" by auto
    have top: "Ability_Priority a = Some ?p \<longleftrightarrow> (\<forall>a' \<in> set ?cs. ?h a' \<le> ?h a)" if "a \<in> set ?cs" for a
      using pr [OF that] ge b0 that by (metis option.sel order_antisym)
    have "ability_candidates g m False (db_abilities d) = filter (\<lambda>a. Ability_Priority a = Some ?p) ?cs"
      using mf Cons by (simp add: ability_candidates_def)
    then have "set (ability_candidates g m False (db_abilities d)) = {a \<in> set ?cs. \<forall>a' \<in> set ?cs. ?h a' \<le> ?h a}"
      using top by auto
    also have "\<dots> = {a \<in> set ?cs. \<exists>c \<in> routable d g m. Channel_Id c = Ability_ChannelId a
        \<and> Ability_Priority a = Some (GetPriority c) \<and> (\<forall>c' \<in> routable d g m. GetPriority c' \<le> GetPriority c)}"
    proof (rule Collect_cong, rule conj_cong [OF refl])
      fix a assume a: "a \<in> set ?cs"
      obtain c where "c \<in> routable d g m" "Channel_Id c = Ability_ChannelId a"
        "Ability_Priority a = Some (GetPriority c)"
        using enabled_ability_channel [OF assms a] by auto
      then show "(\<forall>a' \<in> set ?cs. ?h a' \<le> ?h a) \<longleftrightarrow> (\<exists>c \<in> routable d g m. Channel_Id c = Ability_ChannelId a
          \<and> Ability_Priority a = Some (GetPriority c) \<and> (\<forall>c' \<in> routable d g m. GetPriority c' \<le> GetPriority c))"
        unfolding le_iff by force
    qed
    finally show ?thesis .
  qed
qed

lemma split_on_nonempty: "split_on ch s \<noteq> []"
  by (induction s) (auto split: list.splits)

lemma InitChannelCache_synced:
  assumes "synced (db w)" "faults w = []"
  shows "\<exists>r. fst (InitChannelCache w) = Some r
    \<and> (\<forall>g m. set (lookup_route r g m) = routable (db w) g m
         \<and> sorted_wrt (\<lambda>a b. GetPriority b \<le> GetPriority a) (lookup_route r g m))"
proof -
  have named: "g \<in> Ability_Group ` set (db_abilities (db w))"
    if c: "c \<in> set (db_channels (db w))" "g \<in> set (channel_groups c)" for c g
  proof -
    obtain m where "m \<in> set (channel_models c)"
      using split_on_nonempty [of "CHR '',''" "Channel_Models c"]
      by (cases "channel_models c") (auto simp: channel_models_def)
    with c have "\<lparr>Ability_Group = g, Ability_Model = m, Ability_ChannelId = Channel_Id c,
        Ability_Enabled = (Channel_Status c = ChannelStatusEnabled), Ability_Priority = Some (GetPriority c)\<rparr>
        \<in> set (abilities_of_channel c)" (is "?a \<in> _")
      by (simp add: set_abilities_of_channel)
    with synced_own [OF assms(1) c(1), of ?a] show ?thesis by (force intro: image_eqI [of _ _ ?a])
  qed
  show ?thesis
  proof (cases "fst (InitChannelCache w)")
    case None
    with InitChannelCache_mirrors [OF assms(2)] named show ?thesis
      by (fastforce simp: list_ex_iff)
  next
    case (Some r)
    with InitChannelCache_mirrors [OF assms(2)] show ?thesis by (simp add: routable_def)
  qed
qed

text \<open>The channels the cached table prefers: those before the end of the first tier.\<close>

lemma takeWhile_first_tier:
  assumes "sorted_wrt (\<lambda>a b. GetPriority b \<le> GetPriority a) cs" "cs \<noteq> []" "0 < GetPriority (hd cs)"
  shows "set (take (first_tier cs) cs) = {c \<in> set cs. \<forall>c' \<in> set cs. GetPriority c' \<le> GetPriority c}"
proof -
  obtain x xs where cs: "cs = x # xs" using assms(2) by (cases cs) auto
  have le: "GetPriority c \<le> GetPriority x" if "c \<in> set cs" for c using that assms(1) cs by auto
  have "set (takeWhile (\<lambda>c. GetPriority c = GetPriority x) cs) = {c \<in> set cs. GetPriority c = GetPriority x}"
    if "sorted_wrt (\<lambda>a b. GetPriority b \<le> GetPriority a) cs" "\<forall>c \<in> set cs. GetPriority c \<le> GetPriority x" for cs
    using that
  proof (induction cs)
    case (Cons y ys)
    then show ?case by (cases "GetPriority y = GetPriority x") force+
  qed simp
  then have "set (takeWhile (\<lambda>c. GetPriority c = GetPriority x) cs) = {c \<in> set cs. GetPriority c = GetPriority x}"
    using assms(1) le by blast
  moreover have "take (first_tier cs) cs = takeWhile (\<lambda>c. GetPriority c = GetPriority x) cs"
    using assms(3) cs by (simp add: first_tier_def flip: takeWhile_eq_take)
  moreover have "(\<forall>c' \<in> set cs. GetPriority c' \<le> GetPriority c) \<longleftrightarrow> GetPriority c = GetPriority x" if "c \<in> set cs" for c
  proof -
    have "x \<in> set cs" by (simp add: cs)
    with le that show ?thesis by (metis order_antisym order_refl)
  qed
  ultimately show ?thesis by auto
qed

text \<open>
  C17. The tables keep in step over any sequence of channel operations. Adding a channel, updating,
  enabling, disabling and deleting one, and purging the disabled ones: if the keys are fresh, no
  group is named twice and no operation enables or updates a channel that is gone, then after the
  whole sequence the ability rows of each channel are exactly those its columns call for, and
  every enabled ability belongs to an existing channel.
\<close>

theorem channel_tables_synced:
  assumes "synced (db w)" "faults w = []" "channel_ops_ok ops w"
  shows "synced (db (fold run_channel_op ops w))"
  using synced_ops [OF assms] by simp

text \<open>
  C18. The in-memory routing table agrees with the ability table. When the tables are in step and
  no query fails, building the table does not panic; for every group and model it lists the
  channels that the ability query finds; and when the best priority is positive, the channels
  it draws from first are exactly those whose rows have the best priority in the query.
\<close>

theorem cached_routing_agrees:
  assumes "synced (db w)" "faults w = []"
  shows "(case fst (InitChannelCache w) of
       None \<Rightarrow> False
     | Some r \<Rightarrow>
         Channel_Id ` set (lookup_route r g m) = Ability_ChannelId ` set (enabled_abilities g m (db_abilities (db w)))
         \<and> (lookup_route r g m = [] \<or> GetPriority (hd (lookup_route r g m)) \<le> 0
            \<or> Channel_Id ` set (take (first_tier (lookup_route r g m)) (lookup_route r g m))
              = Ability_ChannelId ` set (ability_candidates g m False (db_abilities (db w)))))"
proof -
  obtain r where r: "fst (InitChannelCache w) = Some r" "set (lookup_route r g m) = routable (db w) g m"
    "sorted_wrt (\<lambda>a b. GetPriority b \<le> GetPriority a) (lookup_route r g m)"
    using InitChannelCache_synced [OF assms] by auto
  let ?cs = "lookup_route r g m" and ?as = "ability_candidates g m False (db_abilities (db w))"
  have "Channel_Id ` set (take (first_tier ?cs) ?cs) = Ability_ChannelId ` set ?as"
    if ne: "?cs \<noteq> []" "0 < GetPriority (hd ?cs)"
  proof -
    have cand: "set ?as = {a \<in> set (enabled_abilities g m (db_abilities (db w))).
       \<exists>c \<in> routable (db w) g m. Channel_Id c = Ability_ChannelId a \<and> Ability_Priority a = Some (GetPriority c)
         \<and> (\<forall>c' \<in> routable (db w) g m. GetPriority c' \<le> GetPriority c)}"
      by (rule first_priority_candidates [OF assms(1)])
    have top: "set (take (first_tier ?cs) ?cs) = {c \<in> routable (db w) g m.
        \<forall>c' \<in> routable (db w) g m. GetPriority c' \<le> GetPriority c}"
      using takeWhile_first_tier [OF r(3) ne] r(2) by simp
    show ?thesis
    proof (intro equalityI subsetI)
      fix k assume "k \<in> Channel_Id ` set (take (first_tier ?cs) ?cs)"
      then obtain c where c: "k = Channel_Id c" "c \<in> routable (db w) g m"
        "\<forall>c' \<in> routable (db w) g m. GetPriority c' \<le> GetPriority c" unfolding top by auto
      with routable_ability [OF assms(1) c(2)] show "k \<in> Ability_ChannelId ` set ?as" unfolding cand by force
    next
      fix k assume "k \<in> Ability_ChannelId ` set ?as"
      then show "k \<in> Channel_Id ` set (take (first_tier ?cs) ?cs)" unfolding cand top by force
    qed
  qed
  then have "?cs = [] \<or> GetPriority (hd ?cs) \<le> 0
      \<or> Channel_Id ` set (take (first_tier ?cs) ?cs) = Ability_ChannelId ` set ?as"
    by (meson not_le)
  moreover have "Channel_Id ` set ?cs = Ability_ChannelId ` set (enabled_abilities g m (db_abilities (db w)))"
    using r(2) enabled_abilities_ids [OF assms(1), of g m] by simp
  ultimately show ?thesis by (simp add: r(1))
qed

section \<open>What a selection returns\<close>

lemma pick_route_mem:
  assumes "cs \<noteq> []" "\<And>n. 0 < n \<Longrightarrow> rand n < n"
  shows "\<exists>c \<in> set cs. pick_route rand ign cs = Some c \<and> (ign \<or> c \<in> set (take (first_tier cs) cs))"
proof -
  have pos: "0 < first_tier cs" and le: "first_tier cs \<le> length cs"
    using assms(1) by (auto simp: first_tier_def length_takeWhile_le) (cases cs; simp)
  show ?thesis
  proof (cases "ign \<and> first_tier cs < length cs")
    case True
    with assms(2) [of "length cs - first_tier cs"]
    have "first_tier cs + rand (length cs - first_tier cs) < length cs" by linarith
    then show ?thesis using True assms(1) by (auto simp: pick_route_def Let_def)
  next
    case False
    have "rand (first_tier cs) < first_tier cs" using assms(2) pos by blast
    then have "cs ! rand (first_tier cs) \<in> set (take (first_tier cs) cs)" "cs ! rand (first_tier cs) \<in> set cs"
      using le by (auto simp: in_set_conv_nth intro!: exI [of _ "rand (first_tier cs)"])
    then show ?thesis using False assms(1) by (auto simp: pick_route_def Let_def)
  qed
qed

lemma find_channel:
  assumes "synced d" "c \<in> set (db_channels d)"
  shows "find (\<lambda>x. Channel_Id x = Channel_Id c) (db_channels d) = Some c"
proof (cases "find (\<lambda>x. Channel_Id x = Channel_Id c) (db_channels d)")
  case None
  with assms(2) show ?thesis by (auto simp: find_None_iff)
next
  case (Some x)
  then have "x \<in> set (db_channels d)" "Channel_Id x = Channel_Id c" by (auto simp: find_Some_iff)
  with assms have "x = c" by (auto simp: synced_def distinct_map inj_on_def)
  with Some show ?thesis by simp
qed

lemma db_selection:
  assumes "synced (db w)" "faults w = []" "\<And>n. 0 < n \<Longrightarrow> rand n < n"
  shows "(case fst (GetRandomSatisfiedChannel rand g m ign w) of
       Inl e \<Rightarrow> routable (db w) g m = {}
     | Inr c \<Rightarrow> c \<in> routable (db w) g m
         \<and> (ign \<or> (\<forall>c' \<in> routable (db w) g m. GetPriority c' \<le> GetPriority c)))"
proof -
  let ?as = "ability_candidates g m ign (db_abilities (db w))"
  let ?en = "set (enabled_abilities g m (db_abilities (db w)))"
  have sub: "\<exists>c \<in> routable (db w) g m. Channel_Id c = Ability_ChannelId a
      \<and> (ign \<or> (\<forall>c' \<in> routable (db w) g m. GetPriority c' \<le> GetPriority c))" if "a \<in> set ?as" for a
  proof (cases ign)
    case True
    with that have "a \<in> ?en" by (simp add: ability_candidates_def)
    with enabled_ability_channel [OF assms(1)] True show ?thesis by blast
  next
    case False
    with that first_priority_candidates [OF assms(1), of g m] show ?thesis by auto
  qed
  show ?thesis
  proof (cases "?as = []")
    case True
    have "routable (db w) g m = {}"
    proof (rule ccontr)
      assume "routable (db w) g m \<noteq> {}"
      moreover have "finite (routable (db w) g m)" by (simp add: routable_def)
      ultimately have "Max (GetPriority ` routable (db w) g m) \<in> GetPriority ` routable (db w) g m"
        and "\<forall>c' \<in> routable (db w) g m. GetPriority c' \<le> Max (GetPriority ` routable (db w) g m)"
        by (simp_all add: Max_in)
      then obtain c where c: "c \<in> routable (db w) g m" "\<forall>c' \<in> routable (db w) g m. GetPriority c' \<le> GetPriority c"
        by auto
      obtain a where a: "a \<in> ?en" "Ability_ChannelId a = Channel_Id c" "Ability_Priority a = Some (GetPriority c)"
        using routable_ability [OF assms(1) c(1)] by auto
      have "a \<in> set ?as"
      proof (cases ign)
        case True
        with a show ?thesis by (simp add: ability_candidates_def)
      next
        case False
        with a c first_priority_candidates [OF assms(1), of g m] show ?thesis by auto
      qed
      with True show False by simp
    qed
    then show ?thesis using True assms(2) by (simp add: GetRandomSatisfiedChannel_def)
  next
    case False
    then have "?as ! rand (length ?as) \<in> set ?as" using assms(3) by simp
    from sub [OF this] obtain c where c: "c \<in> routable (db w) g m"
      "Channel_Id c = Ability_ChannelId (?as ! rand (length ?as))"
      "ign \<or> (\<forall>c' \<in> routable (db w) g m. GetPriority c' \<le> GetPriority c)" by auto
    have "find (\<lambda>x. Channel_Id x = Ability_ChannelId (?as ! rand (length ?as))) (db_channels (db w)) = Some c"
      using find_channel [OF assms(1), of c] c by (simp add: routable_def)
    then show ?thesis using False assms(2) c by (simp add: GetRandomSatisfiedChannel_def sql_first_def)
  qed
qed

lemma selection:
  assumes "synced (db w)" "faults w = []" "\<And>n. 0 < n \<Longrightarrow> rand n < n" "fst (InitChannelCache w) = Some r"
  shows "(case fst (CacheGetRandomSatisfiedChannel rand r g m ign w) of
       Inl e \<Rightarrow> routable (db w) g m = {}
     | Inr c \<Rightarrow> c \<in> routable (db w) g m
         \<and> (ign \<or> MemoryCacheEnabled (cfg w) \<and> GetPriority c \<le> 0
            \<or> (\<forall>c' \<in> routable (db w) g m. GetPriority c' \<le> GetPriority c)))"
proof (cases "MemoryCacheEnabled (cfg w)")
  case False
  with db_selection [OF assms(1-3), of g m ign] show ?thesis
    by (simp add: CacheGetRandomSatisfiedChannel_def split: sum.splits)
next
  case True
  let ?cs = "lookup_route r g m"
  have r: "set ?cs = routable (db w) g m" "sorted_wrt (\<lambda>a b. GetPriority b \<le> GetPriority a) ?cs"
    using InitChannelCache_synced [OF assms(1,2)] assms(4) by auto
  show ?thesis
  proof (cases "?cs = []")
    case True
    with r(1) \<open>MemoryCacheEnabled (cfg w)\<close> show ?thesis
      by (simp add: CacheGetRandomSatisfiedChannel_def pick_route_def)
  next
    case False
    obtain c where c: "c \<in> set ?cs" "pick_route rand ign ?cs = Some c" "ign \<or> c \<in> set (take (first_tier ?cs) ?cs)"
      using pick_route_mem [OF False assms(3), of ign] by auto
    have "ign \<or> GetPriority c \<le> 0 \<or> (\<forall>c' \<in> routable (db w) g m. GetPriority c' \<le> GetPriority c)"
    proof (cases "0 < GetPriority (hd ?cs)")
      case True
      with takeWhile_first_tier [OF r(2) False] c(3) r(1) show ?thesis by auto
    next
      case h: False
      have "GetPriority c \<le> GetPriority (hd ?cs)" using r(2) c(1) False by (cases ?cs) auto
      with h show ?thesis by simp
    qed
    with c r(1) True show ?thesis by (simp add: CacheGetRandomSatisfiedChannel_def)
  qed
qed


section \<open>Witnesses\<close>

definition demo_channel :: "int \<Rightarrow> int \<Rightarrow> Channel" where
  "demo_channel cid prio = \<lparr>Channel_Id = cid, Channel_Type = 1, Channel_Key = ''sk'', Channel_Status = 1,
     Channel_Name = ''c'', Channel_BaseURL = None, Channel_Models = ''m1,m2'', Channel_Group = ''default,vip'',
     Channel_UsedQuota = 0, Channel_Priority = Some prio, Channel_ModelMapping = None, Channel_Other = None,
     Channel_Config = [], Channel_SystemPrompt = None, Channel_TestTime = 0, Channel_ResponseTime = 0\<rparr>"

definition demo_channel_ops :: "channel_op list" where
  "demo_channel_ops =
     [OpInsert 1 (demo_channel 0 5), OpInsert 2 (demo_channel 0 3), OpInsert 3 (demo_channel 0 9),
      OpStatus 3 3, OpUpdate ((demo_channel 2 4)\<lparr>Channel_Models := ''m1''\<rparr>), OpDeleteDisabled]"

definition demo_channel_world :: World where
  "demo_channel_world = fold run_channel_op demo_channel_ops (world_of empty_db [])"

lemma synced_empty: "synced (db (world_of empty_db [])) \<and> faults (world_of empty_db []) = []"
  by (simp add: synced_def world_of_def empty_db_def)

lemma demo_ops_ok: "channel_ops_ok demo_channel_ops (world_of empty_db [])"
  by code_simp

lemma demo_channel_synced: "synced (db demo_channel_world)" "faults demo_channel_world = []"
  using synced_ops [OF conjunct1 [OF synced_empty] conjunct2 [OF synced_empty] demo_ops_ok]
  by (simp_all add: demo_channel_world_def)

theorem channel_tables_synced_witness:
  "map (\<lambda>c. (Channel_Id c, Channel_Priority c)) (db_channels (db demo_channel_world)) = [(1, Some 5), (2, Some 4)]
   \<and> synced (db demo_channel_world)"
proof
  show "synced (db demo_channel_world)"
    unfolding demo_channel_world_def
    by (rule channel_tables_synced [OF conjunct1 [OF synced_empty] conjunct2 [OF synced_empty] demo_ops_ok])
qed code_simp

theorem cached_routing_agrees_witness:
  "Ability_ChannelId ` set (ability_candidates ''vip'' ''m1'' False (db_abilities (db demo_channel_world))) = {1}
   \<and> (case fst (InitChannelCache demo_channel_world) of
        None \<Rightarrow> False
      | Some r \<Rightarrow> Channel_Id ` set (lookup_route r ''vip'' ''m1'') = {1, 2}
         \<and> Channel_Id ` set (take (first_tier (lookup_route r ''vip'' ''m1'')) (lookup_route r ''vip'' ''m1'')) = {1})"
  (is "?q \<and> _")
proof
  show q: ?q by code_simp
  have "Ability_ChannelId ` set (enabled_abilities ''vip'' ''m1'' (db_abilities (db demo_channel_world))) = {1, 2}"
    by code_simp
  moreover have "case fst (InitChannelCache demo_channel_world) of
        None \<Rightarrow> False
      | Some r \<Rightarrow> lookup_route r ''vip'' ''m1'' \<noteq> [] \<and> 0 < GetPriority (hd (lookup_route r ''vip'' ''m1''))"
    by code_simp
  ultimately show "case fst (InitChannelCache demo_channel_world) of
        None \<Rightarrow> False
      | Some r \<Rightarrow> Channel_Id ` set (lookup_route r ''vip'' ''m1'') = {1, 2}
         \<and> Channel_Id ` set (take (first_tier (lookup_route r ''vip'' ''m1'')) (lookup_route r ''vip'' ''m1'')) = {1}"
    using cached_routing_agrees [OF demo_channel_synced, of "''vip''" "''m1''"] q
    by (auto split: option.splits)
qed


end
