(* ===== verification/Sessions.thy ===== *)
theory Sessions
  imports Wallet
begin

text \<open>
  Who may use the console: the ban list in memory (\<open>common/blacklist\<close>), access tokens
  (\<open>model/user.go\<close>) and the session middleware (\<open>middleware/auth.go\<close>).
\<close>

section \<open>The ban list\<close>

type_synonym blackList = "string \<Rightarrow> bool"

definition userId2Key :: "int \<Rightarrow> string" where
  "userId2Key uid = ''userid_'' @ show_int uid"

definition BanUser :: "int \<Rightarrow> blackList \<Rightarrow> blackList" where
  "BanUser uid b = b(userId2Key uid := True)"

definition UnbanUser :: "int \<Rightarrow> blackList \<Rightarrow> blackList" where
  "UnbanUser uid b = b(userId2Key uid := False)"

definition IsUserBanned :: "int \<Rightarrow> blackList \<Rightarrow> bool" where
  "IsUserBanned uid b = b (userId2Key uid)"

section \<open>Sessions\<close>

definition replace_first :: "string \<Rightarrow> string \<Rightarrow> string \<Rightarrow> string" where
  "replace_first old new s =
     (case find (\<lambda>i. has_prefix (drop i s) old) [0..<Suc (length s)] of
        None \<Rightarrow> s
      | Some i \<Rightarrow> take i s @ new @ drop (i + length old) s)"

definition ValidateAccessToken :: "string \<Rightarrow> World \<Rightarrow> User option \<times> World" where
  "ValidateAccessToken token w =
     (if token = [] then (None, w)
      else case sql_first db_users (\<lambda>u. User_AccessToken u = replace_first ''Bearer '' [] token) w of
        (Inl e, w1) \<Rightarrow> (None, w1)
      | (Inr u, w1) \<Rightarrow> (Some u, w1))"

record Session =
  S_username :: string
  S_role :: int
  S_id :: int
  S_status :: int

text \<open>\<open>cleared\<close> says that the session was emptied, \<open>Denied\<close> carries the HTTP status.\<close>

datatype AuthResult = Denied int (cleared: bool) | Allowed (auth_username: string) (auth_role: int) (auth_id: int)

definition auth_check :: "int \<Rightarrow> blackList \<Rightarrow> Session \<Rightarrow> AuthResult" where
  "auth_check minRole b s =
     (if S_status s = UserStatusDisabled \<or> IsUserBanned (S_id s) b then Denied 200 True
      else if S_role s < minRole then Denied 200 False
      else Allowed (S_username s) (S_role s) (S_id s))"

definition authHelper ::
  "int \<Rightarrow> blackList \<Rightarrow> Session option \<Rightarrow> string \<Rightarrow> World \<Rightarrow> AuthResult \<times> World" where
  "authHelper minRole b session accessToken w = (case session of
       Some s \<Rightarrow> (auth_check minRole b s, w)
     | None \<Rightarrow>
         if accessToken = [] then (Denied 401 False, w)
         else (case ValidateAccessToken accessToken w of
             (Some user, w1) \<Rightarrow>
               if User_Username user \<noteq> []
               then (auth_check minRole b \<lparr>S_username = User_Username user, S_role = User_Role user,
                       S_id = User_Id user, S_status = User_Status user\<rparr>, w1)
               else (Denied 200 False, w1)
           | (None, w1) \<Rightarrow> (Denied 200 False, w1)))"

definition UserAuth where "UserAuth = authHelper RoleCommonUser"
definition AdminAuth where "AdminAuth = authHelper RoleAdminUser"
definition RootAuth where "RootAuth = authHelper RoleRootUser"

end
