(* ===== verification/Authorize.thy ===== *)
theory Authorize
  imports RelayMeta ChannelRouting Sessions
begin

text \<open>
  Who may call the relay: the status and group caches of \<open>model/cache.go\<close>, the token middleware
  (\<open>middleware/auth.go\<close>, \<open>middleware/utils.go\<close>), and the subnets of a token
  (\<open>common/network/ip.go\<close>). Parsing of an address
  block (\<open>net.ParseCIDR\<close>) and of the request body are arguments.
\<close>

section \<open>Caches\<close>

text \<open>The group is returned also when storing it in Redis fails.\<close>

definition CacheGetUserGroup :: "int \<Rightarrow> World \<Rightarrow> (string \<times> GoErr option) \<times> World" where
  "CacheGetUserGroup uid w =
     (if \<not> RedisEnabled (cfg w) then
        (case GetUserGroup uid w of (Inl e, w1) \<Rightarrow> (([], Some e), w1) | (Inr grp, w1) \<Rightarrow> ((grp, None), w1))
      else case RedisGet (''user_group:'' @ show_int uid) w of
        (Inr grp, w1) \<Rightarrow> ((grp, None), w1)
      | (Inl e, w1) \<Rightarrow> (case GetUserGroup uid w1 of
            (Inl e, w2) \<Rightarrow> (([], Some e), w2)
          | (Inr grp, w2) \<Rightarrow> (case RedisSet (''user_group:'' @ show_int uid) grp w2 of
                (Inl e, w3) \<Rightarrow> ((grp, Some e), w3)
              | (Inr _, w3) \<Rightarrow> ((grp, None), w3))))"

definition CacheIsUserEnabled :: "int \<Rightarrow> World \<Rightarrow> (GoErr + bool) \<times> World" where
  "CacheIsUserEnabled uid w =
     (if \<not> RedisEnabled (cfg w) then IsUserEnabled uid w
      else case RedisGet (''user_enabled:'' @ show_int uid) w of
        (Inr enabled, w1) \<Rightarrow> (Inr (enabled = ''1''), w1)
      | (Inl e, w1) \<Rightarrow> (case IsUserEnabled uid w1 of
            (Inl e, w2) \<Rightarrow> (Inl e, w2)
          | (Inr enabled, w2) \<Rightarrow> (case RedisSet (''user_enabled:'' @ show_int uid) (if enabled then ''1'' else ''0'') w2 of
                (Inl e, w3) \<Rightarrow> (Inl e, w3)
              | (Inr _, w3) \<Rightarrow> (Inr enabled, w3))))"

definition CacheGetGroupModels :: "string \<Rightarrow> World \<Rightarrow> (GoErr + string list) \<times> World" where
  "CacheGetGroupModels grp w =
     (if \<not> RedisEnabled (cfg w) then GetGroupModels grp w
      else case RedisGet (''group_models:'' @ grp) w of
        (Inr s, w1) \<Rightarrow> (Inr (split_on CHR '','' s), w1)
      | (Inl e, w1) \<Rightarrow> (case GetGroupModels grp w1 of
            (Inl e, w2) \<Rightarrow> (Inl e, w2)
          | (Inr models, w2) \<Rightarrow>
              (Inr models, snd (RedisSet (''group_models:'' @ grp) (join_with '','' models) w2))))"

section \<open>Tokens\<close>

text \<open>The request context together with what the token middleware reads and sets beside it.\<close>

record RequestContext = GinContext +
  R_Method :: string
  R_ClientIP :: string
  R_ParamChannelId :: string
  R_AvailableModels :: string

record AuthEnv =
  AU_cidr :: "string \<Rightarrow> (string \<Rightarrow> bool) option"
  AU_decode_model :: "RequestContext \<Rightarrow> GoErr + string"
  AU_blackList :: blackList

definition splitSubnets :: "string \<Rightarrow> string list" where
  "splitSubnets subnets = map trim_space (split_on CHR '','' subnets)"

definition isValidSubnet :: "AuthEnv \<Rightarrow> string \<Rightarrow> GoErr option" where
  "isValidSubnet E subnet = (case AU_cidr E subnet of
       None \<Rightarrow> Some (Err (''failed to parse subnet: invalid CIDR address: '' @ subnet))
     | Some _ \<Rightarrow> None)"

definition isIpInSubnet :: "AuthEnv \<Rightarrow> string \<Rightarrow> string \<Rightarrow> bool" where
  "isIpInSubnet E ip subnet = (case AU_cidr E subnet of None \<Rightarrow> False | Some contains \<Rightarrow> contains ip)"

definition IsValidSubnets :: "AuthEnv \<Rightarrow> string \<Rightarrow> GoErr option" where
  "IsValidSubnets E subnets =
     (case find (\<lambda>s. isValidSubnet E s \<noteq> None) (splitSubnets subnets) of
        None \<Rightarrow> None
      | Some s \<Rightarrow> isValidSubnet E s)"

definition IsIpInSubnets :: "AuthEnv \<Rightarrow> string \<Rightarrow> string \<Rightarrow> bool" where
  "IsIpInSubnets E ip subnets = list_ex (isIpInSubnet E ip) (splitSubnets subnets)"

definition isModelInList :: "string \<Rightarrow> string \<Rightarrow> bool" where
  "isModelInList modelName models = list_ex (\<lambda>m. modelName = m) (split_on CHR '','' models)"

definition shouldCheckModel :: "RequestContext \<Rightarrow> bool" where
  "shouldCheckModel c \<longleftrightarrow> has_prefix (C_Path c) ''/v1/completions''
     \<or> has_prefix (C_Path c) ''/v1/chat/completions''
     \<or> has_prefix (C_Path c) ''/v1/images''
     \<or> has_prefix (C_Path c) ''/v1/audio''
     \<or> has_prefix (C_Path c) ''/v1/videos'' \<and> R_Method c = ''POST''"

definition default_model :: "string \<Rightarrow> bool \<Rightarrow> string \<Rightarrow> string" where
  "default_model d applies model = (if applies \<and> model = [] then d else model)"

definition getRequestModel :: "AuthEnv \<Rightarrow> RequestContext \<Rightarrow> GoErr + string" where
  "getRequestModel E c = (case AU_decode_model E c of
       Inl e \<Rightarrow> Inl (Err (''common.UnmarshalBodyReusable failed: '' @ error_text e))
     | Inr model \<Rightarrow> Inr
         (default_model ''whisper-1'' (has_prefix (C_Path c) ''/v1/audio/transcriptions''
                                     \<or> has_prefix (C_Path c) ''/v1/audio/translations'')
           (default_model ''dall-e-2'' (has_prefix (C_Path c) ''/v1/images/generations'')
             (default_model (C_ParamModel c) (has_suffix (C_Path c) ''embeddings'')
               (default_model ''text-moderation-stable'' (has_prefix (C_Path c) ''/v1/moderations'') model)))))"

datatype TokenAuthResult = Abort int string | Next RequestContext

text \<open>The key and what follows it after a dash, which names a channel.\<close>

definition auth_key_parts :: "string \<Rightarrow> string list" where
  "auth_key_parts authorization =
     split_on CHR ''-'' (trim_prefix (trim_prefix authorization ''Bearer '') ''sk-'')"

definition token_context :: "Token \<Rightarrow> RequestContext \<Rightarrow> RequestContext" where
  "token_context t c = c\<lparr>C_Id := Token_UserId t, C_TokenId := Token_Id t, C_TokenName := Token_Name t\<rparr>"

text \<open>The last step: a channel named after the key (administrators only) or in the path.\<close>

definition auth_channel :: "string list \<Rightarrow> Token \<Rightarrow> RequestContext \<Rightarrow> World \<Rightarrow> TokenAuthResult \<times> World" where
  "auth_channel parts t c w =
     (case (if 1 < length parts
            then (case IsAdmin (Token_UserId t) w of
                (True, w1) \<Rightarrow> (Some (c\<lparr>C_SpecificChannelId := Some (parts ! 1)\<rparr>), w1)
              | (False, w1) \<Rightarrow> (None, w1))
            else (Some c, w)) of
        (None, w1) \<Rightarrow> (Abort 403 ''common users cannot name a channel'', w1)
      | (Some c1, w1) \<Rightarrow>
          (Next (if R_ParamChannelId c1 \<noteq> [] then c1\<lparr>C_SpecificChannelId := Some (R_ParamChannelId c1)\<rparr> else c1), w1))"

text \<open>The model of the request against the models of the token.\<close>

definition auth_model :: "AuthEnv \<Rightarrow> string list \<Rightarrow> Token \<Rightarrow> RequestContext \<Rightarrow> World \<Rightarrow> TokenAuthResult \<times> World" where
  "auth_model E parts t c w =
     (if (case getRequestModel E c of Inl e \<Rightarrow> shouldCheckModel c | Inr _ \<Rightarrow> False)
      then (Abort 400 (case getRequestModel E c of Inl e \<Rightarrow> error_text e | Inr _ \<Rightarrow> []), w)
      else let requestModel = (case getRequestModel E c of Inl e \<Rightarrow> [] | Inr m \<Rightarrow> m);
               c1 = c\<lparr>C_RequestModel := requestModel\<rparr>
           in case Token_Models t of
                None \<Rightarrow> auth_channel parts t (token_context t c1) w
              | Some models \<Rightarrow>
                  if models = [] then auth_channel parts t (token_context t c1) w
                  else if requestModel \<noteq> [] \<and> \<not> isModelInList requestModel models
                  then (Abort 403 (''token may not use model: '' @ requestModel), w)
                  else auth_channel parts t (token_context t (c1\<lparr>R_AvailableModels := models\<rparr>)) w)"

definition subnet_ok :: "AuthEnv \<Rightarrow> Token \<Rightarrow> string \<Rightarrow> bool" where
  "subnet_ok E t ip = (case Token_Subnet t of
       None \<Rightarrow> True
     | Some subnet \<Rightarrow> subnet = [] \<or> IsIpInSubnets E ip subnet)"

definition TokenAuth :: "AuthEnv \<Rightarrow> RequestContext \<Rightarrow> World \<Rightarrow> TokenAuthResult \<times> World" where
  "TokenAuth E c w = (case ValidateUserToken (hd (auth_key_parts (C_Authorization c))) w of
       (Inl e, w1) \<Rightarrow> (Abort 401 (error_text e), w1)
     | (Inr t, w1) \<Rightarrow>
         if \<not> subnet_ok E t (R_ClientIP c) then (Abort 403 ''token restricted to its subnets'', w1)
         else (case CacheIsUserEnabled (Token_UserId t) w1 of
             (Inl e, w2) \<Rightarrow> (Abort 500 (error_text e), w2)
           | (Inr enabled, w2) \<Rightarrow>
               if \<not> enabled \<or> IsUserBanned (Token_UserId t) (AU_blackList E)
               then (Abort 403 ''user is banned'', w2)
               else auth_model E (auth_key_parts (C_Authorization c)) t c w2))"

section \<open>What an admitted request has passed\<close>

definition token_usable :: "Token \<Rightarrow> int \<Rightarrow> bool" where
  "token_usable t now \<longleftrightarrow> Token_Status t = TokenStatusEnabled
     \<and> (Token_ExpiredTime t = - 1 \<or> now \<le> Token_ExpiredTime t)
     \<and> (Token_UnlimitedQuota t \<or> 0 < Token_RemainQuota t)"

lemma CacheGetTokenByKey_frame:
  "CacheGetTokenByKey key w = (r, w1) \<Longrightarrow> db w1 = db w \<and> clock w1 = clock w \<and> cfg w1 = cfg w"
  by (auto simp: CacheGetTokenByKey_def same_env_def dest!: io_fault_frame sql_first_frame
      split: if_splits prod.splits option.splits sum.splits bool.splits)

lemma CacheGetTokenByKey_row:
  assumes "CacheGetTokenByKey key w = (Inr t, w1)" "\<not> RedisEnabled (cfg w)"
  shows "t \<in> set (db_tokens (db w)) \<and> Token_Key t = key"
proof -
  have "sql_first db_tokens (\<lambda>t. Token_Key t = key) w = (Inr t, w1)"
    using assms by (simp add: CacheGetTokenByKey_def)
  from sql_first_Inr [OF this] show ?thesis by (auto dest: find_Some_mem)
qed

lemma ValidateUserToken_Inr:
  assumes "ValidateUserToken key w = (Inr t, w1)"
  shows "token_usable t (clock w) \<and> db w1 = db w \<and> cfg w1 = cfg w
     \<and> (RedisEnabled (cfg w) \<or> t \<in> set (db_tokens (db w)) \<and> Token_Key t = key)"
proof -
  obtain r v where g: "CacheGetTokenByKey key w = (r, v)" by fastforce
  note fr = CacheGetTokenByKey_frame [OF g]
  have "r = Inr t" "w1 = v" "token_usable t (clock v)"
    using assms g by (auto simp: ValidateUserToken_def token_usable_def split: if_splits sum.splits)
  then show ?thesis using fr CacheGetTokenByKey_row [of key w t v] g by auto
qed

lemma sql_find_col_Inr:
  "sql_find_col get P col z w = (Inr x, w1) \<Longrightarrow> x = (case find P (get (db w)) of None \<Rightarrow> z | Some r \<Rightarrow> col r)"
  by (auto simp: sql_find_col_def dest!: io_fault_frame split: prod.splits bool.splits)

lemma IsUserEnabled_frame: "IsUserEnabled uid w = (r, w1) \<Longrightarrow> db w1 = db w"
  by (auto simp: IsUserEnabled_def dest!: sql_find_col_frame split: if_splits prod.splits sum.splits)

lemma IsUserEnabled_row:
  assumes "IsUserEnabled uid w = (Inr True, w1)"
  shows "\<exists>u \<in> set (db_users (db w)). User_Id u = uid \<and> User_Status u = UserStatusEnabled"
proof -
  obtain w2 where "sql_find_col db_users (\<lambda>u. User_Id u = uid) User_Status 0 w = (Inr UserStatusEnabled, w2)"
    using assms by (auto simp: IsUserEnabled_def split: if_splits prod.splits sum.splits)
  from sql_find_col_Inr [OF this] show ?thesis
    by (auto simp: UserStatusEnabled_def split: option.splits dest: find_Some_mem)
qed

lemma CacheIsUserEnabled_frame: "CacheIsUserEnabled uid w = (r, w1) \<Longrightarrow> db w1 = db w"
  by (auto simp: CacheIsUserEnabled_def RedisGet_def RedisSet_def
      dest!: IsUserEnabled_frame io_fault_frame split: if_splits prod.splits sum.splits option.splits bool.splits)

lemma IsAdmin_row:
  assumes "IsAdmin uid w = (True, w1)"
  shows "\<exists>u \<in> set (db_users (db w)). User_Id u = uid \<and> RoleAdminUser \<le> User_Role u"
proof -
  obtain w2 role where "sql_find_col db_users (\<lambda>u. User_Id u = uid) User_Role 0 w = (Inr role, w2)" "RoleAdminUser \<le> role"
    using assms by (auto simp: IsAdmin_def split: if_splits prod.splits sum.splits)
  with sql_find_col_Inr [OF this(1)] show ?thesis
    by (auto simp: RoleAdminUser_def split: option.splits dest: find_Some_mem)
qed

text \<open>What the last two steps leave in the context.\<close>

definition channel_named :: "RequestContext \<Rightarrow> RequestContext \<Rightarrow> int \<Rightarrow> Database \<Rightarrow> bool" where
  "channel_named c c' uid d \<longleftrightarrow> C_SpecificChannelId c' = C_SpecificChannelId c
     \<or> R_ParamChannelId c \<noteq> [] \<and> C_SpecificChannelId c' = Some (R_ParamChannelId c)
     \<or> list_ex (\<lambda>u. User_Id u = uid \<and> RoleAdminUser \<le> User_Role u) (db_users d)"

lemma auth_channel_Next:
  assumes "auth_channel parts t c w = (Next c', w')"
  shows "channel_named c c' (Token_UserId t) (db w) \<and> C_Id c' = C_Id c \<and> C_TokenId c' = C_TokenId c
     \<and> C_RequestModel c' = C_RequestModel c"
proof -
  have "list_ex (\<lambda>u. User_Id u = Token_UserId t \<and> RoleAdminUser \<le> User_Role u) (db_users (db w))"
    if "IsAdmin (Token_UserId t) w = (True, w1)" for w1
    using IsAdmin_row [OF that] by (auto simp: list_ex_iff)
  then show ?thesis
    using assms by (auto simp: auth_channel_def channel_named_def split: if_splits prod.splits bool.splits option.splits)
qed

lemma auth_model_Next:
  assumes "auth_model E parts t c w = (Next c', w')"
  shows "C_Id c' = Token_UserId t \<and> C_TokenId c' = Token_Id t \<and> channel_named c c' (Token_UserId t) (db w)
     \<and> (Token_Models t = None \<or> Token_Models t = Some [] \<or> C_RequestModel c' = []
        \<or> isModelInList (C_RequestModel c') (the (Token_Models t)))"
  using assms
  by (auto simp: auth_model_def Let_def token_context_def channel_named_def dest!: auth_channel_Next
      split: if_splits sum.splits option.splits)

text \<open>
  C22. A request that the token middleware lets through carries the identity of a token that is
  enabled, not expired and not exhausted, comes from an address in the token's subnets, belongs
  to a user who is not banned, and asks for a model the token may use. Without Redis the token
  and its enabled owner are the rows of the database. A channel is named in the context only if
  the owner is an administrator or the path names it.
\<close>

theorem TokenAuth_admits:
  assumes "TokenAuth E c w = (Next c', w')"
  shows "\<exists>t. token_usable t (clock w) \<and> subnet_ok E t (R_ClientIP c)
     \<and> \<not> IsUserBanned (Token_UserId t) (AU_blackList E)
     \<and> C_Id c' = Token_UserId t \<and> C_TokenId c' = Token_Id t
     \<and> (Token_Models t = None \<or> Token_Models t = Some [] \<or> C_RequestModel c' = []
        \<or> isModelInList (C_RequestModel c') (the (Token_Models t)))
     \<and> channel_named c c' (Token_UserId t) (db w)
     \<and> (RedisEnabled (cfg w)
        \<or> t \<in> set (db_tokens (db w)) \<and> Token_Key t = hd (auth_key_parts (C_Authorization c))
          \<and> list_ex (\<lambda>u. User_Id u = Token_UserId t \<and> User_Status u = UserStatusEnabled) (db_users (db w)))"
proof -
  obtain t w1 where v: "ValidateUserToken (hd (auth_key_parts (C_Authorization c))) w = (Inr t, w1)"
    using assms by (auto simp: TokenAuth_def split: prod.splits sum.splits)
  note V = ValidateUserToken_Inr [OF v]
  have sub: "subnet_ok E t (R_ClientIP c)"
    using assms v by (auto simp: TokenAuth_def split: if_splits)
  obtain w2 where en: "CacheIsUserEnabled (Token_UserId t) w1 = (Inr True, w2)"
    and ban: "\<not> IsUserBanned (Token_UserId t) (AU_blackList E)"
    and am: "auth_model E (auth_key_parts (C_Authorization c)) t c w2 = (Next c', w')"
    using assms v sub by (auto simp: TokenAuth_def split: prod.splits sum.splits if_splits)
  have d: "db w2 = db w" using CacheIsUserEnabled_frame [OF en] V by simp
  have row: "list_ex (\<lambda>u. User_Id u = Token_UserId t \<and> User_Status u = UserStatusEnabled) (db_users (db w))"
    if "\<not> RedisEnabled (cfg w)"
    using en V IsUserEnabled_row [of "Token_UserId t" w1 w2] that
    by (auto simp: CacheIsUserEnabled_def list_ex_iff)
  show ?thesis using V sub ban row auth_model_Next [OF am] d by (intro exI [of _ t]) auto
qed

end
