(* ===== verification/Monitor.thy ===== *)
theory Monitor
  imports RelayMeta ChannelRouting
begin

text \<open>
  The watch over channels: when a failing channel is disabled (\<open>monitor/manage.go\<close>,
  \<open>monitor/channel.go\<close>), the success rate over recent calls (\<open>monitor/metric.go\<close>), and the periodic
  test of all channels (\<open>controller/channel-test.go\<close>), whose single test is an argument. The mails
  to the root user are not modelled.
\<close>

section \<open>Disabling and enabling\<close>

text \<open>The last phrase of the source is Chinese (\<open>in arrears\<close>), here its UTF-8 bytes.\<close>

definition arrears :: string where
  "arrears = [CHR 0xE5, CHR 0xB7, CHR 0xB2, CHR 0xE6, CHR 0xAC, CHR 0xA0, CHR 0xE8, CHR 0xB4, CHR 0xB9]"

definition ShouldDisableChannel :: "Config \<Rightarrow> RelayError option \<Rightarrow> int \<Rightarrow> bool" where
  "ShouldDisableChannel cf err statusCode =
     (if \<not> AutomaticDisableChannelEnabled cf then False
      else case err of
        None \<Rightarrow> False
      | Some e \<Rightarrow>
          if statusCode = 401 then True
          else if RE_Type e \<in> set [''insufficient_quota'', ''authentication_error'', ''permission_error'', ''forbidden'']
          then True
          else if RE_Code e = AnyStr ''invalid_api_key'' \<or> RE_Code e = AnyStr ''account_deactivated'' then True
          else list_ex (contains_str (to_lower (RE_Message e)))
                 [''your access was terminated'', ''violation of our policies'', ''your credit balance is too low'',
                  ''organization has been disabled'', ''credit'', ''balance'', ''permission denied'',
                  ''organization has been restricted'', ''api key not valid'', ''api key expired'', arrears])"

definition ShouldEnableChannel :: "Config \<Rightarrow> GoErr option \<Rightarrow> RelayError option \<Rightarrow> bool" where
  "ShouldEnableChannel cf err openAIErr \<longleftrightarrow>
     AutomaticEnableChannelEnabled cf \<and> err = None \<and> openAIErr = None"

definition DisableChannel :: "int \<Rightarrow> World \<Rightarrow> World" where
  "DisableChannel channelId w = UpdateChannelStatusById channelId ChannelStatusAutoDisabled w"

definition MetricDisableChannel :: "int \<Rightarrow> World \<Rightarrow> World" where
  "MetricDisableChannel channelId w = UpdateChannelStatusById channelId ChannelStatusAutoDisabled w"

definition EnableChannel :: "int \<Rightarrow> World \<Rightarrow> World" where
  "EnableChannel channelId w = UpdateChannelStatusById channelId ChannelStatusEnabled w"

section \<open>Success rates\<close>

type_synonym metric_store = "int \<Rightarrow> bool list"

text \<open>
  Appending a result, the oldest dropped when the queue is longer than configured. \<open>None\<close> is the
  panic of slicing an empty queue, which needs a negative queue size.
\<close>

definition push_result :: "Config \<Rightarrow> int \<Rightarrow> bool \<Rightarrow> metric_store \<Rightarrow> metric_store option" where
  "push_result cf channelId ok store =
     (if MetricQueueSize cf < int (length (store channelId))
      then (case store channelId of
          [] \<Rightarrow> None
        | _ # rest \<Rightarrow> Some (store(channelId := rest @ [ok])))
      else Some (store(channelId := store channelId @ [ok])))"

definition consumeSuccess :: "Config \<Rightarrow> int \<Rightarrow> metric_store \<Rightarrow> metric_store option" where
  "consumeSuccess cf channelId store = push_result cf channelId True store"

definition success_rate :: "bool list \<Rightarrow> float64" where
  "success_rate q = fdiv (fl_int (int (length (filter (\<lambda>s. s) q)))) (fl_int (int (length q)))"

definition consumeFail :: "Config \<Rightarrow> int \<Rightarrow> metric_store \<Rightarrow> ((bool \<times> float64) \<times> metric_store) option" where
  "consumeFail cf channelId store = (case push_result cf channelId False store of
       None \<Rightarrow> None
     | Some store1 \<Rightarrow>
         let q = store1 channelId; successRate = success_rate q
         in if int (length q) < MetricQueueSize cf then Some ((False, successRate), store1)
            else if fle successRate (MetricSuccessRateThreshold cf)
                    \<and> \<not> feq successRate (MetricSuccessRateThreshold cf)
            then Some ((True, successRate), store1(channelId := []))
            else Some ((False, successRate), store1))"

text \<open>The two consumers: a result arrives, and a failure may disable its channel.\<close>

definition consume_metric :: "int \<Rightarrow> bool \<Rightarrow> metric_store \<times> World \<Rightarrow> (metric_store \<times> World) option" where
  "consume_metric channelId success = (\<lambda>(store, w).
     if success then map_option (\<lambda>s. (s, w)) (consumeSuccess (cfg w) channelId store)
     else (case consumeFail (cfg w) channelId store of
         None \<Rightarrow> None
       | Some ((disable, successRate), s) \<Rightarrow>
           Some (s, if disable then MetricDisableChannel channelId w else w)))"

definition Emit :: "int \<Rightarrow> bool \<Rightarrow> metric_store \<times> World \<Rightarrow> (metric_store \<times> World) option" where
  "Emit channelId success sw = (if \<not> EnableMetric (cfg (snd sw)) then Some sw else consume_metric channelId success sw)"

fun emit_all :: "(int \<times> bool) list \<Rightarrow> metric_store \<times> World \<Rightarrow> (metric_store \<times> World) option" where
  "emit_all [] sw = Some sw"
| "emit_all ((channelId, success) # es) sw = (case Emit channelId success sw of
      None \<Rightarrow> None
    | Some sw1 \<Rightarrow> emit_all es sw1)"

section \<open>Testing all channels\<close>

text \<open>
  \<open>test\<close> is \<open>testChannel\<close> on the generated request: its error, the error of the upstream, and the
  milliseconds it took. \<open>threshold\<close> is the configured limit in milliseconds. \<open>None\<close> is the panic of
  \<open>err.Error()\<close> on a nil error.
\<close>

type_synonym channel_test = "Channel \<Rightarrow> GoErr option \<times> RelayError option \<times> int"

definition GetAllChannels :: "int \<Rightarrow> int \<Rightarrow> string \<Rightarrow> World \<Rightarrow> (GoErr + Channel list) \<times> World" where
  "GetAllChannels startIdx num scope w =
     (if scope = ''all'' then sql_list db_channels (\<lambda>_. True) 0 (- 1) w
      else if scope = ''disabled'' then sql_list db_channels
        (\<lambda>c. Channel_Status c = ChannelStatusAutoDisabled \<or> Channel_Status c = ChannelStatusManuallyDisabled) 0 (- 1) w
      else (case sql_list db_channels (\<lambda>_. True) startIdx num w of
          (Inl e, w1) \<Rightarrow> (Inl e, w1)
        | (Inr cs, w1) \<Rightarrow> (Inr (map (\<lambda>c. c\<lparr>Channel_Key := []\<rparr>) cs), w1)))"

definition test_one :: "channel_test \<Rightarrow> int \<Rightarrow> Channel \<Rightarrow> World \<Rightarrow> World option" where
  "test_one test threshold c w = (case test c of (err, openaiErr, milliseconds) \<Rightarrow>
     let isChannelEnabled = (Channel_Status c = ChannelStatusEnabled);
         slow = (isChannelEnabled \<and> threshold < milliseconds);
         err1 = (if slow then Some (Err ''response time over the threshold'') else err);
         w1 = (if slow \<and> AutomaticDisableChannelEnabled (cfg w) then DisableChannel (Channel_Id c) w else w);
         drop = (isChannelEnabled \<and> ShouldDisableChannel (cfg w) openaiErr (- 1))
     in if drop \<and> err1 = None then None
        else let w2 = (if drop then DisableChannel (Channel_Id c) w1 else w1);
                 w3 = (if \<not> isChannelEnabled \<and> ShouldEnableChannel (cfg w) err1 openaiErr
                       then EnableChannel (Channel_Id c) w2 else w2)
             in Some (UpdateResponseTime c milliseconds w3))"

fun test_all :: "channel_test \<Rightarrow> int \<Rightarrow> Channel list \<Rightarrow> World \<Rightarrow> World option" where
  "test_all test threshold [] w = Some w"
| "test_all test threshold (c # cs) w = (case test_one test threshold c w of
      None \<Rightarrow> None
    | Some w1 \<Rightarrow> test_all test threshold cs w1)"

text \<open>
  \<open>testAllChannelsRunning\<close> is the flag that keeps two runs apart: starting a run returns its error
  or the channels that the goroutine goes through, which clears the flag at its end.
\<close>

definition testChannels ::
  "string \<Rightarrow> bool \<Rightarrow> World \<Rightarrow> (GoErr + Channel list) \<times> bool \<times> World" where
  "testChannels scope testAllChannelsRunning w =
     (if testAllChannelsRunning then (Inl (Err ''a test is already running''), True, w)
      else case GetAllChannels 0 0 scope w of
        (Inl e, w1) \<Rightarrow> (Inl e, True, w1)
      | (Inr channels, w1) \<Rightarrow> (Inr channels, True, w1))"

definition finish_tests ::
  "channel_test \<Rightarrow> int \<Rightarrow> Channel list \<Rightarrow> bool \<times> World \<Rightarrow> (bool \<times> World) option" where
  "finish_tests test threshold channels = (\<lambda>(running, w).
     map_option (\<lambda>w1. (False, w1)) (test_all test threshold channels w))"

section \<open>Bounds of the success window\<close>

lemma push_result_length:
  assumes "push_result cf k ok store = Some store1" "0 \<le> MetricQueueSize cf"
    and "\<forall>i. int (length (store i)) \<le> MetricQueueSize cf + 1"
  shows "\<forall>i. int (length (store1 i)) \<le> MetricQueueSize cf + 1"
proof -
  have "int (length (store k)) \<le> MetricQueueSize cf + 1" using assms(3) by blast
  then show ?thesis
    using assms by (cases "store k") (auto simp: push_result_def split: if_splits)
qed

lemma push_result_total: "0 \<le> MetricQueueSize cf \<Longrightarrow> push_result cf k ok store \<noteq> None"
  by (auto simp: push_result_def split: list.splits)

lemma sql_update_cfg: "cfg (snd (sql_update get upd ok P f v)) = cfg v"
  using sql_update_env [of get upd ok P f v] by (cases "sql_update get upd ok P f v") (simp add: same_env_def)

lemma snd_err_only [simp]: "snd (err_only x) = snd x"
  by (auto simp: err_only_def split: prod.splits sum.splits)

lemma UpdateChannelStatusById_cfg: "cfg (UpdateChannelStatusById k st w) = cfg w"
  by (simp add: UpdateChannelStatusById_def UpdateAbilityStatus_def sql_update_cfg)

lemma Emit_step:
  assumes "0 \<le> MetricQueueSize (cfg w)" "\<forall>i. int (length (store i)) \<le> MetricQueueSize (cfg w) + 1"
  shows "\<exists>store1 w1. Emit k ok (store, w) = Some (store1, w1) \<and> cfg w1 = cfg w
     \<and> (\<forall>i. int (length (store1 i)) \<le> MetricQueueSize (cfg w) + 1)"
proof -
  obtain s where s: "push_result (cfg w) k ok store = Some s" using push_result_total [OF assms(1)] by blast
  note len = push_result_length [OF s assms]
  show ?thesis
  proof (cases ok)
    case True
    with s len assms show ?thesis by (simp add: Emit_def consume_metric_def consumeSuccess_def)
  next
    case False
    with s len assms show ?thesis
      by (simp add: Emit_def consume_metric_def consumeFail_def Let_def MetricDisableChannel_def
          UpdateChannelStatusById_cfg)
  qed
qed

lemma emit_all_bounded:
  "0 \<le> MetricQueueSize (cfg w) \<Longrightarrow> \<forall>i. int (length (store i)) \<le> MetricQueueSize (cfg w) + 1 \<Longrightarrow>
     \<exists>store1 w1. emit_all es (store, w) = Some (store1, w1) \<and> cfg w1 = cfg w
       \<and> (\<forall>i. int (length (store1 i)) \<le> MetricQueueSize (cfg w) + 1)"
proof (induction es arbitrary: store w)
  case (Cons e es)
  obtain k ok where e: "e = (k, ok)" by (cases e)
  obtain store1 w1 where s: "Emit k ok (store, w) = Some (store1, w1)" "cfg w1 = cfg w"
    "\<forall>i. int (length (store1 i)) \<le> MetricQueueSize (cfg w) + 1"
    using Emit_step [OF Cons.prems] by blast
  show ?case using Cons.IH [of w1 store1] Cons.prems(1) s by (simp add: e)
qed simp

text \<open>
  The window of results of a channel stays bounded: over any sequence of results of any
  channels, with a queue size that is not negative, nothing panics and no queue holds more than
  one result above the configured size.
\<close>

theorem metric_window_bounded:
  assumes "0 \<le> MetricQueueSize (cfg w)"
  shows "(case emit_all es (\<lambda>_. [], w) of
       None \<Rightarrow> False
     | Some (store, w1) \<Rightarrow> int (length (store k)) \<le> MetricQueueSize (cfg w) + 1)"
  using emit_all_bounded [OF assms, of "\<lambda>_. []" es] assms by auto

definition metric_world :: World where
  "metric_world = demo_channel_world\<lparr>cfg := default_cfg\<lparr>EnableMetric := True, MetricQueueSize := 2\<rparr>\<rparr>"

theorem metric_window_bounded_witness:
  "(case emit_all [(1, True), (1, True), (1, True), (1, True)] (\<lambda>_. [], metric_world) of
       None \<Rightarrow> False
     | Some (store, w1) \<Rightarrow> int (length (store 1)) \<le> 3)
   \<and> (case emit_all [(1, True), (1, True), (1, True), (1, True)] (\<lambda>_. [], metric_world) of
       None \<Rightarrow> False
     | Some (store, w1) \<Rightarrow> length (store 1) = 3)"
proof -
  have q: "MetricQueueSize (cfg metric_world) = 2" by (simp add: metric_world_def)
  have "case emit_all [(1, True), (1, True), (1, True), (1, True)] (\<lambda>_. [], metric_world) of
       None \<Rightarrow> False | Some (store, w1) \<Rightarrow> length (store 1) = 3" by code_simp
  then show ?thesis
    using metric_window_bounded [where w = metric_world and es = "[(1, True), (1, True), (1, True), (1, True)]" and k = 1] q
    by (auto simp del: emit_all.simps split: option.splits)
qed

section \<open>A disabled channel is not chosen again\<close>

lemma synced_disable:
  assumes "synced (db w)" "faults w = []"
  shows "synced (db (DisableChannel cid w)) \<and> faults (DisableChannel cid w) = []"
proof -
  have "channel_op_ok (OpStatus cid ChannelStatusAutoDisabled) (db w)"
    by (simp add: ChannelStatusAutoDisabled_def ChannelStatusEnabled_def)
  from synced_status [OF assms this] show ?thesis
    using assms(2) by (simp add: DisableChannel_def UpdateChannelStatusById_ok)
qed

lemma serves_status [simp]: "serves g m (c\<lparr>Channel_Status := s\<rparr>) = serves g m c"
  by (simp add: serves_def channel_groups_def channel_models_def)

lemma routable_disable:
  assumes "faults w = []"
  shows "routable (db (DisableChannel cid w)) g m = {c \<in> routable (db w) g m. Channel_Id c \<noteq> cid}"
proof -
  define f :: "Channel \<Rightarrow> Channel" where "f c = (if Channel_Id c = cid then c\<lparr>Channel_Status := ChannelStatusAutoDisabled\<rparr> else c)" for c
  have chs: "db_channels (db (DisableChannel cid w)) = map f (db_channels (db w))"
    using assms by (simp add: DisableChannel_def UpdateChannelStatusById_ok update_where_def f_def)
  have on: "Channel_Status (f c) = ChannelStatusEnabled \<longleftrightarrow> Channel_Status c = ChannelStatusEnabled \<and> Channel_Id c \<noteq> cid" for c
    by (simp add: f_def ChannelStatusAutoDisabled_def ChannelStatusEnabled_def)
  have same: "Channel_Id c \<noteq> cid \<Longrightarrow> f c = c" for c by (simp add: f_def)
  show ?thesis
  proof (intro equalityI subsetI)
    fix x assume "x \<in> routable (db (DisableChannel cid w)) g m"
    then obtain c where "x = f c" "c \<in> set (db_channels (db w))" "Channel_Status (f c) = ChannelStatusEnabled"
      "serves g m (f c)" by (auto simp: routable_def chs)
    then show "x \<in> {c \<in> routable (db w) g m. Channel_Id c \<noteq> cid}"
      using on [of c] same [of c] by (simp add: routable_def)
  next
    fix x assume "x \<in> {c \<in> routable (db w) g m. Channel_Id c \<noteq> cid}"
    then have "x \<in> set (db_channels (db w))" "f x = x" "Channel_Status x = ChannelStatusEnabled" "serves g m x"
      using same [of x] by (auto simp: routable_def)
    then show "x \<in> routable (db (DisableChannel cid w)) g m"
      by (simp add: routable_def chs) (metis image_eqI)
  qed
qed

text \<open>
  A channel that the monitor disables is not chosen again. With the tables in step and no
  failure, once the routing table has been rebuilt (or without one), a selection for any group and
  model returns another channel that serves them, or an error if the disabled one was the only
  one.
\<close>

theorem disabled_channel_not_selected:
  assumes "synced (db w)" "faults w = []" "\<And>n. 0 < n \<Longrightarrow> rand n < n"
    and "fst (InitChannelCache (DisableChannel cid w)) = Some r"
  shows "(case fst (CacheGetRandomSatisfiedChannel rand r g m ign (DisableChannel cid w)) of
       Inl e \<Rightarrow> Channel_Id ` routable (db w) g m \<subseteq> {cid}
     | Inr c \<Rightarrow> Channel_Id c \<noteq> cid \<and> c \<in> routable (db w) g m)"
proof -
  note s = synced_disable [OF assms(1,2), of cid]
  from selection [OF conjunct1 [OF s] conjunct2 [OF s] assms(3,4), of g m ign]
  show ?thesis using routable_disable [OF assms(2), of cid g m] by (auto split: sum.splits)
qed

theorem disabled_channel_not_selected_witness:
  "fst (CacheGetRandomSatisfiedChannel (\<lambda>n. 0) (the (fst (InitChannelCache (DisableChannel 1 demo_channel_world))))
      ''vip'' ''m1'' False (DisableChannel 1 demo_channel_world)) = Inr (db_channels (db demo_channel_world) ! 1)
   \<and> Channel_Id (db_channels (db demo_channel_world) ! 1) = 2
   \<and> db_channels (db demo_channel_world) ! 1 \<in> routable (db demo_channel_world) ''vip'' ''m1''"
proof -
  let ?w = "DisableChannel 1 demo_channel_world"
  note s = synced_disable [OF demo_channel_synced, of 1]
  have i: "fst (InitChannelCache ?w) = Some (the (fst (InitChannelCache ?w)))"
    using InitChannelCache_synced [OF conjunct1 [OF s] conjunct2 [OF s]] by auto
  have r: "fst (CacheGetRandomSatisfiedChannel (\<lambda>n. 0) (the (fst (InitChannelCache ?w))) ''vip'' ''m1'' False ?w)
      = Inr (db_channels (db demo_channel_world) ! 1)"
    and k: "Channel_Id (db_channels (db demo_channel_world) ! 1) = 2" by code_simp+
  show ?thesis
    using disabled_channel_not_selected [OF demo_channel_synced _ i, of "\<lambda>n. 0" "''vip''" "''m1''" False]
    unfolding r using k by simp
qed

section \<open>Two faults of the channel test\<close>

text \<open>A listing that fails once leaves the flag set: from then on no test of the channels runs.\<close>

lemma failed_listing_blocks_tests:
  assumes "testChannels scope False w = (Inl e, running, w1)"
  shows "fst (testChannels scope' running w') = Inl (Err ''a test is already running'')"
proof -
  have running using assms by (auto simp: testChannels_def split: prod.splits sum.splits)
  then show ?thesis by (simp add: testChannels_def)
qed

text \<open>A channel that an administrator disabled by hand is enabled again when its test passes.\<close>

lemma test_enables_manually_disabled:
  assumes "Channel_Status c = ChannelStatusManuallyDisabled" "AutomaticEnableChannelEnabled (cfg w)"
    and "test c = (None, None, ms)"
  shows "test_one test threshold c w = Some (UpdateResponseTime c ms (EnableChannel (Channel_Id c) w))"
  using assms
  by (simp add: test_one_def ShouldEnableChannel_def ChannelStatusManuallyDisabled_def ChannelStatusEnabled_def)

end
