(* ===== verification/RelayBilling.thy ===== *)
theory RelayBilling
  imports RelayMeta Charge
begin

text \<open>
  The money side of a synchronous relay request (\<open>relay/controller/helper.go\<close>,
  \<open>relay/billing/billing.go\<close>): the estimate reserved before the upstream call, the quota computed
  from the reported usage, and the goroutines that settle or return the reservation. A \<open>go\<close>
  statement is a \<open>Job\<close> that the handler leaves behind; \<open>run_job\<close> is its body.
\<close>

section \<open>Reserving\<close>

definition getPreConsumedQuota :: "int \<Rightarrow> TextRequest \<Rightarrow> int \<Rightarrow> float64 \<Rightarrow> int" where
  "getPreConsumedQuota PreConsumed r promptTokens ratio =
     (let t = i64 (PreConsumed + promptTokens);
          t = (if TR_MaxTokens r \<noteq> 0 then i64 (t + TR_MaxTokens r) else t)
      in f2i (fmul (fl_int t) ratio))"

text \<open>
  The part of \<open>preConsumeQuota\<close> after the estimate, which \<open>RelayAudioHelper\<close> repeats: check the
  (cached) balance, lower the cache, trust a rich user, else reserve.
\<close>

definition reserve_quota ::
  "int \<Rightarrow> int \<Rightarrow> int \<Rightarrow> World \<Rightarrow> (int \<times> RelayError option) \<times> World" where
  "reserve_quota userId tokenId pre w = (case CacheGetUserQuota userId w of
       (Inl e, w1) \<Rightarrow> ((pre, Some (ErrorWrapper e ''get_user_quota_failed'' 500)), w1)
     | (Inr userQuota, w1) \<Rightarrow>
         if i64 (userQuota - pre) < 0
         then ((pre, Some (ErrorWrapper (Err ''user quota is not enough'') ''insufficient_user_quota'' 403)), w1)
         else case CacheDecreaseUserQuota userId pre w1 of
           (Some e, w2) \<Rightarrow> ((pre, Some (ErrorWrapper e ''decrease_user_quota_failed'' 500)), w2)
         | (None, w2) \<Rightarrow>
             let pre = (if i64 (100 * pre) < userQuota then 0 else pre)
             in if 0 < pre then
                  (case PreConsumeTokenQuota tokenId pre w2 of
                     (Some e, w3) \<Rightarrow> ((pre, Some (ErrorWrapper e ''pre_consume_token_quota_failed'' 403)), w3)
                   | (None, w3) \<Rightarrow> ((pre, None), w3))
                else ((pre, None), w2))"

definition preConsumeQuota ::
  "TextRequest \<Rightarrow> int \<Rightarrow> float64 \<Rightarrow> Meta \<Rightarrow> World \<Rightarrow> (int \<times> RelayError option) \<times> World" where
  "preConsumeQuota r promptTokens ratio m w =
     reserve_quota (M_UserId m) (M_TokenId m)
       (getPreConsumedQuota (PreConsumedQuota (cfg w)) r promptTokens ratio) w"

section \<open>Settling\<close>

text \<open>The quota of a request from the usage its upstream reported.\<close>

definition usage_quota :: "Usage \<Rightarrow> float64 \<Rightarrow> float64 \<Rightarrow> int" where
  "usage_quota u completionRatio ratio =
     (let q = f2i (fceil (fmul (fadd (fl_int (PromptTokens u))
                                     (fmul (fl_int (CompletionTokens u)) completionRatio)) ratio));
          q = (if \<not> feq ratio (Fin 0) \<and> q \<le> 0 then 1 else q)
      in if i64 (PromptTokens u + CompletionTokens u) = 0 then 0 else q)"

definition consume_log ::
  "int \<Rightarrow> int \<Rightarrow> int \<Rightarrow> int \<Rightarrow> string \<Rightarrow> string \<Rightarrow> int \<Rightarrow> float64 list \<Rightarrow> bool \<Rightarrow> bool \<Rightarrow> Log" where
  "consume_log userId channelId prompt completion model token quota ratios stream reset =
     \<lparr>Log_UserId = userId, Log_Username = [], Log_CreatedAt = 0, Log_Type = 0,
      Log_Content = LogRatios ratios, Log_ModelName = model, Log_TokenName = token,
      Log_Quota = quota, Log_PromptTokens = prompt, Log_CompletionTokens = completion,
      Log_ChannelId = channelId, Log_IsStream = stream, Log_SystemPromptReset = reset\<rparr>"

definition postConsumeQuota ::
  "Ratios \<Rightarrow> Usage option \<Rightarrow> Meta \<Rightarrow> TextRequest \<Rightarrow> float64 \<Rightarrow> int \<Rightarrow> float64 \<Rightarrow> float64 \<Rightarrow> bool
     \<Rightarrow> World \<Rightarrow> World" where
  "postConsumeQuota R usage m r ratio preConsumedQuota modelRatio groupRatio systemPromptReset w =
     (case usage of
        None \<Rightarrow> w
      | Some u \<Rightarrow>
          let completionRatio = GetCompletionRatio (TR_Model r) (M_ChannelType m) R;
              quota = usage_quota u completionRatio ratio;
              quotaDelta = i64 (quota - preConsumedQuota);
              w1 = snd (PostConsumeTokenQuota (M_TokenId m) quotaDelta w);
              w2 = snd (CacheUpdateUserQuota (M_UserId m) w1);
              w3 = RecordConsumeLog (consume_log (M_UserId m) (M_ChannelId m) (PromptTokens u)
                     (CompletionTokens u) (TR_Model r) (M_TokenName m) quota
                     [modelRatio, groupRatio, completionRatio] (M_IsStream m) systemPromptReset) w2;
              w4 = UpdateUserUsedQuotaAndRequestCount (M_UserId m) quota w3
          in UpdateChannelUsedQuota (M_ChannelId m) quota w4)"

definition PostConsumeQuota ::
  "int \<Rightarrow> int \<Rightarrow> int \<Rightarrow> int \<Rightarrow> int \<Rightarrow> float64 \<Rightarrow> float64 \<Rightarrow> string \<Rightarrow> string \<Rightarrow> World \<Rightarrow> World" where
  "PostConsumeQuota tokenId quotaDelta totalQuota userId channelId modelRatio groupRatio modelName
     tokenName w =
     (let w1 = snd (PostConsumeTokenQuota tokenId quotaDelta w);
          w2 = snd (CacheUpdateUserQuota userId w1)
      in if totalQuota \<noteq> 0 then
           let w3 = RecordConsumeLog (consume_log userId channelId totalQuota 0 modelName tokenName
                      totalQuota [modelRatio, groupRatio] False False) w2;
               w4 = UpdateUserUsedQuotaAndRequestCount userId totalQuota w3
           in UpdateChannelUsedQuota channelId totalQuota w4
         else w2)"

section \<open>Goroutines\<close>

datatype Job =
    JobReturn int int
  | JobPostConsume "Usage option" Meta TextRequest float64 int float64 float64 bool
  | JobBilling int int int int int float64 float64 string string

fun run_job :: "Ratios \<Rightarrow> Job \<Rightarrow> World \<Rightarrow> World" where
  "run_job R (JobReturn tokenId amount) w = snd (PostConsumeTokenQuota tokenId (i64 (- amount)) w)"
| "run_job R (JobPostConsume usage m r ratio pre modelRatio groupRatio reset) w =
     postConsumeQuota R usage m r ratio pre modelRatio groupRatio reset w"
| "run_job R (JobBilling tokenId delta tq userId channelId mr gr model token) w =
     PostConsumeQuota tokenId delta tq userId channelId mr gr model token w"

definition run_jobs :: "Ratios \<Rightarrow> Job list \<Rightarrow> World \<Rightarrow> World" where
  "run_jobs R js w = fold (run_job R) js w"

definition ReturnPreConsumedQuota :: "int \<Rightarrow> int \<Rightarrow> Job list" where
  "ReturnPreConsumedQuota preConsumedQuota tokenId =
     (if preConsumedQuota \<noteq> 0 then [JobReturn tokenId preConsumedQuota] else [])"

section \<open>What the bookkeeping around a settlement leaves alone\<close>

lemma used_quota_frame:
  "user_bal (UpdateUserUsedQuotaAndRequestCount u q w) = user_bal w
   \<and> token_bal (UpdateUserUsedQuotaAndRequestCount u q w) = token_bal w"
proof -
  let ?f = "\<lambda>u. u\<lparr>User_UsedQuota := User_UsedQuota u + q, User_RequestCount := User_RequestCount u + 1\<rparr>"
  obtain r v where s: "sql_update db_users db_users_update user_fits (\<lambda>x. User_Id x = u) ?f w = (r, v)"
    by fastforce
  have k: "map_option User_Quota (find (\<lambda>x. User_Id x = j) (update_where (\<lambda>x. User_Id x = u) ?f us)) =
      map_option User_Quota (find (\<lambda>x. User_Id x = j) us)" for j us
    by (induction us) auto
  have "user_bal v = user_bal w \<and> token_bal v = token_bal w"
  proof (cases r)
    case (Inl e)
    then show ?thesis using bal_db_cong [OF conjunct1 [OF sql_update_Inl [OF s [unfolded Inl]]]] by simp
  next
    case (Inr n)
    then show ?thesis using sql_update_Inr [OF s [unfolded Inr]] k
      by (auto simp: user_bal_def token_bal_def fun_eq_iff)
  qed
  then show ?thesis
    using s by (simp add: UpdateUserUsedQuotaAndRequestCount_def updateUserUsedQuotaAndRequestCount_def
        addNewRecord_def user_bal_def token_bal_def fun_eq_iff)
qed

lemma channel_quota_bal:
  "user_bal (UpdateChannelUsedQuota c q w) = user_bal w \<and> token_bal (UpdateChannelUsedQuota c q w) = token_bal w"
  using channel_quota_frame [of c q w] by (simp add: user_bal_def token_bal_def fun_eq_iff)

lemma log_bal: "user_bal (RecordConsumeLog l w) = user_bal w \<and> token_bal (RecordConsumeLog l w) = token_bal w"
  by (simp add: user_bal_def token_bal_def fun_eq_iff go_simps)

lemma cache_update_bal:
  "user_bal (snd (CacheUpdateUserQuota u w)) = user_bal w \<and> token_bal (snd (CacheUpdateUserQuota u w)) = token_bal w"
  by (simp add: user_bal_def token_bal_def fun_eq_iff)

lemmas bookkeeping_bal = used_quota_frame channel_quota_bal log_bal cache_update_bal

text \<open>So a settlement job moves balances exactly as its \<open>PostConsumeTokenQuota\<close> does.\<close>

lemma postConsumeQuota_bal:
  "postConsumeQuota R (Some u) m r ratio pre mr gr reset w = w' \<Longrightarrow>
   PostConsumeTokenQuota (M_TokenId m)
     (i64 (usage_quota u (GetCompletionRatio (TR_Model r) (M_ChannelType m) R) ratio - pre)) w = (e, w1) \<Longrightarrow>
   user_bal w' = user_bal w1 \<and> token_bal w' = token_bal w1"
  by (auto simp: postConsumeQuota_def Let_def bookkeeping_bal)

lemma PostConsumeQuota_bal:
  "PostConsumeQuota k delta tq uid ch mr gr model token w = w' \<Longrightarrow>
   PostConsumeTokenQuota k delta w = (e, w1) \<Longrightarrow>
   user_bal w' = user_bal w1 \<and> token_bal w' = token_bal w1"
  by (auto simp: PostConsumeQuota_def Let_def bookkeeping_bal)

section \<open>A reservation and its settlement\<close>

text \<open>No amount exceeds \<open>2 ^ 61\<close>: sums of three of them stay in range.\<close>

definition small :: "int \<Rightarrow> bool" where
  "small x \<longleftrightarrow> \<bar>x\<bar> \<le> 2 ^ 61"

lemma small_in_i64:
  "small x \<Longrightarrow> in_i64 x"
  "small x \<Longrightarrow> small y \<Longrightarrow> in_i64 (x + y)"
  "small x \<Longrightarrow> small y \<Longrightarrow> in_i64 (x - y)"
  "small x \<Longrightarrow> small y \<Longrightarrow> small z \<Longrightarrow> in_i64 (x - (y - z))"
  "small x \<Longrightarrow> small y \<Longrightarrow> small z \<Longrightarrow> in_i64 (x + (y - z))"
  "small x \<Longrightarrow> small y \<Longrightarrow> x - y \<noteq> - (2 ^ 63)"
  by (auto simp: small_def in_i64_def abs_le_iff)

text \<open>
  The setting of the exact results: no batch mode, no failing call, a consistent ledger in which
  the request's token belongs to the user who pays.
\<close>

definition payer :: "int \<Rightarrow> int \<Rightarrow> Token \<Rightarrow> int \<Rightarrow> World \<Rightarrow> bool" where
  "payer userId tokenId t b w \<longleftrightarrow> \<not> BatchUpdateEnabled (cfg w) \<and> faults w = [] \<and> ledger_ok (db w)
     \<and> tokenId \<noteq> 0 \<and> find (\<lambda>t. Token_Id t = tokenId) (db_tokens (db w)) = Some t
     \<and> Token_UserId t = userId \<and> user_bal w userId = Some b
     \<and> small b \<and> small (Token_RemainQuota t) \<and> small (Token_UsedQuota t)"

text \<open>The balances after a charge of \<open>q\<close>.\<close>

definition charged :: "Token \<Rightarrow> int \<Rightarrow> int \<Rightarrow> World \<Rightarrow> World \<Rightarrow> bool" where
  "charged t b q w w' \<longleftrightarrow> user_bal w' = (user_bal w)(Token_UserId t \<mapsto> b - q)
     \<and> token_bal w' = (if Token_UnlimitedQuota t then token_bal w
                      else (token_bal w)(Token_Id t \<mapsto> Token_RemainQuota t - q))"

lemma payer_token: "payer u k t b w \<Longrightarrow> Token_Id t = k \<and> Token_UserId t = u"
  by (auto simp: payer_def dest: find_Some_mem)

lemma payer_same:
  assumes "payer u k t b w" and "db v = db w" and "faults v = []" and "cfg v = cfg w"
  shows "payer u k t b v"
  using assms bal_db_cong [OF assms(2)] by (simp add: payer_def)

lemma charged_0:
  assumes "payer u k t b w"
  shows "charged t b 0 w w' \<longleftrightarrow> user_bal w' = user_bal w \<and> token_bal w' = token_bal w"
proof -
  have "user_bal w (Token_UserId t) = Some b" and "token_bal w (Token_Id t) = Some (Token_RemainQuota t)"
    using assms payer_token [OF assms] by (auto simp: payer_def token_bal_def)
  then show ?thesis by (simp add: charged_def fun_upd_idem)
qed

lemma quiet_cache_decrease:
  "CacheDecreaseUserQuota u q w = (r, w1) \<Longrightarrow> faults w = [] \<Longrightarrow> faults w1 = []"
  by (auto simp: CacheDecreaseUserQuota_def RedisDecrease_def err_only_def split: option.splits if_splits)

text \<open>What \<open>reserve_quota\<close> did when it returns no error.\<close>

lemma reserve_quota_ok:
  assumes "reserve_quota u k q w = ((pre, None), w1)" and "payer u k t b w"
  shows "\<exists>v. payer u k t b v \<and> db v = db w \<and>
     (if 0 < pre then pre = q \<and> PreConsumeTokenQuota k pre v = (None, w1) else w1 = v \<and> (pre = 0 \<or> pre = q))"
proof -
  obtain g v1 where g: "CacheGetUserQuota u w = (g, v1)" by fastforce
  note f1 = CacheGetUserQuota_frame [OF g]
  have q1: "faults v1 = []" using quiet_cache_get [OF g] assms(2) by (simp add: payer_def)
  obtain uq where uq: "g = Inr uq" using assms(1) g by (cases g) (auto simp: reserve_quota_def)
  obtain r v2 where d: "CacheDecreaseUserQuota u q v1 = (r, v2)" by fastforce
  note f2 = CacheDecreaseUserQuota_frame [OF d]
  have q2: "faults v2 = []" using quiet_cache_decrease [OF d q1] .
  have p: "payer u k t b v2"
    using assms(2) by (rule payer_same) (use f1 f2 q2 in \<open>auto simp: same_env_def\<close>)
  have r: "r = None" using assms(1) g uq d by (cases r) (auto simp: reserve_quota_def split: if_splits)
  show ?thesis
    using assms(1) g uq d r p f1 f2
    by (intro exI [of _ v2])
       (auto simp: reserve_quota_def Let_def split: if_splits prod.splits option.splits)
qed

lemma reserve_quota_err:
  assumes "reserve_quota u k q w = ((pre, Some e), w1)" and "payer u k t b w"
  shows "\<exists>v. payer u k t b v \<and> db v = db w \<and> (db w1 = db v \<or> (\<exists>x. PreConsumeTokenQuota k pre v = (Some x, w1)))"
proof -
  obtain g v1 where g: "CacheGetUserQuota u w = (g, v1)" by fastforce
  note f1 = CacheGetUserQuota_frame [OF g]
  have q1: "faults v1 = []" using quiet_cache_get [OF g] assms(2) by (simp add: payer_def)
  have p1: "payer u k t b v1"
    using assms(2) by (rule payer_same) (use f1 q1 in \<open>auto simp: same_env_def\<close>)
  obtain r v2 where d: "CacheDecreaseUserQuota u q v1 = (r, v2)" by fastforce
  note f2 = CacheDecreaseUserQuota_frame [OF d]
  have q2: "faults v2 = []" using quiet_cache_decrease [OF d q1] .
  have p2: "payer u k t b v2"
    using p1 by (rule payer_same) (use f2 q2 in \<open>auto simp: same_env_def\<close>)
  show ?thesis
  proof (cases "\<exists>x. PreConsumeTokenQuota k pre v2 = (Some x, w1)")
    case True
    then show ?thesis using p2 f1 f2 by auto
  next
    case False
    then have "db w1 = db w"
      using assms(1) g d f1 f2
      by (auto simp: reserve_quota_def Let_def split: sum.splits if_splits prod.splits option.splits)
    then show ?thesis using p1 f1 by auto
  qed
qed

text \<open>The ledger after a successful reservation, and after a settlement of it at \<open>q\<close>.\<close>

lemma reserved_balance:
  assumes "reserve_quota u k q w = ((pre, None), w1)" and "payer u k t b w" and "0 \<le> pre"
  shows "charged t b pre w w1"
proof -
  obtain v where v: "payer u k t b v" "db v = db w"
    "if 0 < pre then pre = q \<and> PreConsumeTokenQuota k pre v = (None, w1) else w1 = v \<and> (pre = 0 \<or> pre = q)"
    using reserve_quota_ok [OF assms(1,2)] by blast
  note same = bal_db_cong [OF v(2)]
  show ?thesis
  proof (cases "0 < pre")
    case True
    with v(3) have P: "PreConsumeTokenQuota k pre v = (None, w1)" by auto
    from PreConsume_success [OF P True] v(1)
    have "user_bal w1 = (user_bal v)(Token_UserId t \<mapsto> b - pre)
       \<and> token_bal w1 = (if Token_UnlimitedQuota t then token_bal v
            else (token_bal v)(k \<mapsto> Token_RemainQuota t - pre))"
      by (auto simp: payer_def split: if_splits)
    then show ?thesis using same payer_token [OF v(1)] by (simp add: charged_def)
  next
    case False
    with v(3) assms(3) have "pre = 0" "w1 = v" by auto
    then show ?thesis using same charged_0 [OF assms(2)] by simp
  qed
qed

lemma settled_balance:
  assumes "reserve_quota u k q w = ((pre, None), w1)" and "payer u k t b w" and "0 \<le> pre" and "small pre"
    and "small final"
  shows "\<exists>w2. PostConsumeTokenQuota k (final - pre) w1 = (None, w2) \<and> charged t b final w w2"
proof -
  obtain v where v: "payer u k t b v" "db v = db w"
    "if 0 < pre then pre = q \<and> PreConsumeTokenQuota k pre v = (None, w1) else w1 = v \<and> (pre = 0 \<or> pre = q)"
    using reserve_quota_ok [OF assms(1,2)] by blast
  note same = bal_db_cong [OF v(2)] and tok = payer_token [OF v(1)]
  have p: "\<not> BatchUpdateEnabled (cfg v)" "faults v = []" "ledger_ok (db v)" "k \<noteq> 0"
    "find (\<lambda>t. Token_Id t = k) (db_tokens (db v)) = Some t" "user_bal v (Token_UserId t) = Some b"
    "small b" "small (Token_RemainQuota t)" "small (Token_UsedQuota t)"
    using v(1) by (auto simp: payer_def)
  show ?thesis
  proof (cases "0 < pre")
    case True
    with v(3) have P: "PreConsumeTokenQuota k pre v = (None, w1)" by auto
    have "\<exists>w2. PostConsumeTokenQuota k (final - pre) w1 = (None, w2) \<and> faults w2 = []
       \<and> user_bal w2 = (user_bal v)(Token_UserId t \<mapsto> b - final)
       \<and> token_bal w2 = (if Token_UnlimitedQuota t then token_bal v
                        else (token_bal v)(k \<mapsto> Token_RemainQuota t - final))"
      by (rule charge_exact [OF P True p(1,3,2,5,6)]) (use p assms(4,5) small_in_i64(6) [of final pre] in \<open>auto intro: small_in_i64\<close>)
    then show ?thesis using same tok by (auto simp: charged_def)
  next
    case False
    with v(3) assms(3) have "pre = 0" "w1 = v" by auto
    moreover have "\<exists>w'. PostConsumeTokenQuota k final v = (None, w')
       \<and> user_bal w' = (user_bal v)(Token_UserId t \<mapsto> b - final)
       \<and> token_bal w' = (if Token_UnlimitedQuota t then token_bal v
                       else (token_bal v)(k \<mapsto> Token_RemainQuota t - final))"
      by (rule settle_exact [OF p(3,1,2,4,5,6)])
         (use p assms(5) in \<open>auto intro: small_in_i64 simp: small_def\<close>)
    ultimately show ?thesis using same tok by (auto simp: charged_def)
  qed
qed

end
