(* ===== verification/RelayText.thy ===== *)
theory RelayText
  imports RelayBilling
begin

text \<open>
  The synchronous text endpoints (\<open>relay/controller/text.go\<close> and the request half of
  \<open>helper.go\<close>) and the raw proxy (\<open>proxy.go\<close>). A handler returns its outcome (a value for the
  client or a panic), the goroutines it started, and the state.
\<close>

section \<open>Surroundings\<close>

text \<open>
  Everything a handler calls that is not part of the gateway: the decoders of the request and
  of an error body, \<open>json.Marshal\<close>, the adaptors, the tokenizer; and the price tables.
\<close>

record 'enc RelayEnv =
  RV_decode_text :: "GinContext \<Rightarrow> GoErr + TextRequest"
  RV_decode_image :: "GinContext \<Rightarrow> GoErr + ImageRequest"
  RV_decode_error :: "string \<Rightarrow> GeneralErrorResponse option"
  RV_marshal :: "AnyVal \<Rightarrow> GoErr + string"
  RV_marshal_image :: "ImageRequest \<Rightarrow> GoErr + string"
  RV_adaptors :: "int \<Rightarrow> Adaptor"
  RV_tokenizer :: "'enc Tokenizer"
  RV_ratios :: Ratios

datatype Outcome = Panic | Returned "RelayError option"

type_synonym 'enc relay_result = "Outcome \<times> Job list \<times> 'enc Encoders \<times> World"

section \<open>The text handler\<close>

definition getAndValidateTextRequest ::
  "'enc RelayEnv \<Rightarrow> GinContext \<Rightarrow> RelayMode \<Rightarrow> GoErr + TextRequest" where
  "getAndValidateTextRequest E c relayMode = (case RV_decode_text E c of
       Inl err \<Rightarrow> Inl err
     | Inr r \<Rightarrow>
         let r = (if relayMode = Moderations \<and> TR_Model r = []
                  then r\<lparr>TR_Model := ''text-moderation-latest''\<rparr> else r);
             r = (if relayMode = Embeddings \<and> TR_Model r = []
                  then r\<lparr>TR_Model := C_ParamModel c\<rparr> else r)
         in case ValidateTextRequest r relayMode of Some err \<Rightarrow> Inl err | None \<Rightarrow> Inr r)"

definition getPromptTokens ::
  "'enc Tokenizer \<Rightarrow> TextRequest \<Rightarrow> RelayMode \<Rightarrow> 'enc Encoders \<Rightarrow> int option \<times> 'enc Encoders" where
  "getPromptTokens tk r relayMode s = (case relayMode of
       ChatCompletions \<Rightarrow> CountTokenMessages tk (TR_Messages r) (TR_Model r) s
     | Completions \<Rightarrow> (case CountTokenInput tk (TR_Prompt r) (TR_Model r) s of (n, s1) \<Rightarrow> (Some n, s1))
     | Moderations \<Rightarrow> (case CountTokenInput tk (TR_Input r) (TR_Model r) s of (n, s1) \<Rightarrow> (Some n, s1))
     | _ \<Rightarrow> (Some 0, s))"

definition getRequestBody ::
  "'enc RelayEnv \<Rightarrow> bool \<Rightarrow> GinContext \<Rightarrow> Meta \<Rightarrow> TextRequest \<Rightarrow> Adaptor \<Rightarrow> GoErr + string" where
  "getRequestBody E enforceIncludeUsage c m r a =
     (if \<not> enforceIncludeUsage \<and> M_APIType m = API_OpenAI
         \<and> M_OriginModelName m = M_ActualModelName m \<and> M_ChannelType m \<noteq> CT_Baichuan
         \<and> M_ForcedSystemPrompt m = []
      then Inr (C_Body c)
      else case ConvertRequest a m r of
             Inl err \<Rightarrow> Inl err
           | Inr converted \<Rightarrow> RV_marshal E converted)"

text \<open>The call to the upstream and what follows it; the reservation has been made.\<close>

definition relay_upstream ::
  "'enc RelayEnv \<Rightarrow> GinContext \<Rightarrow> Meta \<Rightarrow> TextRequest \<Rightarrow> bool \<Rightarrow> float64 \<Rightarrow> float64 \<Rightarrow> float64 \<Rightarrow> int
     \<Rightarrow> World \<Rightarrow> RelayError option \<times> Job list" where
  "relay_upstream E c m r reset ratio modelRatio groupRatio pre w =
     (case RelayGetAdaptor (RV_adaptors E) (M_APIType m) of
        None \<Rightarrow> (Some (ErrorWrapper (Err (''invalid api type: '' @ show_int (M_APIType m)))
                  ''invalid_api_type'' 400), [])
      | Some a \<Rightarrow>
          (case getRequestBody E (EnforceIncludeUsage (cfg w)) c m r a of
             Inl err \<Rightarrow> (Some (ErrorWrapper err ''convert_request_failed'' 500), [])
           | Inr body \<Rightarrow>
               (case DoRequest a m body of
                  Inl err \<Rightarrow> (Some (ErrorWrapper err ''do_request_failed'' 500), [])
                | Inr resp \<Rightarrow>
                    if isErrorHappened m resp
                    then (Some (RelayErrorHandler (RV_decode_error E) resp),
                          ReturnPreConsumedQuota pre (M_TokenId m))
                    else (case AdaptorDoResponse a resp m of
                            (usage, Some respErr) \<Rightarrow> (Some respErr, ReturnPreConsumedQuota pre (M_TokenId m))
                          | (usage, None) \<Rightarrow>
                              (None, [JobPostConsume usage m r ratio pre modelRatio groupRatio reset])))))"

text \<open>From the reservation on.\<close>

definition relay_text_charged ::
  "'enc RelayEnv \<Rightarrow> GinContext \<Rightarrow> Meta \<Rightarrow> TextRequest \<Rightarrow> bool \<Rightarrow> float64 \<Rightarrow> float64 \<Rightarrow> int \<Rightarrow> World
     \<Rightarrow> RelayError option \<times> Job list \<times> World" where
  "relay_text_charged E c m r reset modelRatio groupRatio promptTokens w =
     (case preConsumeQuota r promptTokens (fmul modelRatio groupRatio) m w of
        ((pre, Some bizErr), w1) \<Rightarrow> (Some bizErr, [], w1)
      | ((pre, None), w1) \<Rightarrow>
          (case relay_upstream E c m r reset (fmul modelRatio groupRatio) modelRatio groupRatio pre w1 of
             (err, jobs) \<Rightarrow> (err, jobs, w1)))"

text \<open>The model mapping and the forced system prompt, before anything is priced.\<close>

definition map_text_request :: "Meta \<Rightarrow> TextRequest \<Rightarrow> Meta \<times> TextRequest \<times> bool" where
  "map_text_request m r =
     (let model = fst (getMappedModelName (TR_Model r) (M_ModelMapping m))
      in (m\<lparr>M_IsStream := TR_Stream r, M_OriginModelName := TR_Model r, M_ActualModelName := model\<rparr>,
          setSystemPrompt (r\<lparr>TR_Model := model\<rparr>) (M_ForcedSystemPrompt m)))"

definition RelayTextHelper ::
  "'enc RelayEnv \<Rightarrow> GinContext \<Rightarrow> 'enc Encoders \<Rightarrow> World \<Rightarrow> 'enc relay_result" where
  "RelayTextHelper E c s w = (case GetByContext c of
       None \<Rightarrow> (Panic, [], s, w)
     | Some m0 \<Rightarrow> (case getAndValidateTextRequest E c (M_Mode m0) of
           Inl err \<Rightarrow> (Returned (Some (ErrorWrapper err ''invalid_text_request'' 400)), [], s, w)
         | Inr r0 \<Rightarrow> (case map_text_request m0 r0 of (m, r, reset) \<Rightarrow>
             (case getPromptTokens (RV_tokenizer E) r (M_Mode m) s of
                (None, s1) \<Rightarrow> (Panic, [], s1, w)
              | (Some promptTokens, s1) \<Rightarrow>
                  (case relay_text_charged E c (m\<lparr>M_PromptTokens := promptTokens\<rparr>) r reset
                          (GetModelRatio (TR_Model r) (M_ChannelType m) (RV_ratios E))
                          (GetGroupRatio (M_Group m) (RV_ratios E)) promptTokens w of
                     (err, jobs, w1) \<Rightarrow> (Returned err, jobs, s1, w1))))))"

section \<open>The proxy handler\<close>

definition RelayProxyHelper ::
  "'enc RelayEnv \<Rightarrow> GinContext \<Rightarrow> 'enc Encoders \<Rightarrow> World \<Rightarrow> 'enc relay_result" where
  "RelayProxyHelper E c s w = (case GetByContext c of
       None \<Rightarrow> (Panic, [], s, w)
     | Some m \<Rightarrow> (case RelayGetAdaptor (RV_adaptors E) (M_APIType m) of
           None \<Rightarrow> (Returned (Some (ErrorWrapper (Err (''invalid api type: '' @ show_int (M_APIType m)))
                     ''invalid_api_type'' 400)), [], s, w)
         | Some a \<Rightarrow> (case DoRequest a m (C_Body c) of
               Inl err \<Rightarrow> (Returned (Some (ErrorWrapper err ''do_request_failed'' 500)), [], s, w)
             | Inr resp \<Rightarrow> (Returned (snd (AdaptorDoResponse a resp m)), [], s, w))))"

section \<open>What a text request costs\<close>

lemma GetByContext_ids: "GetByContext c = Some m \<Longrightarrow> M_UserId m = C_Id c \<and> M_TokenId m = C_TokenId c"
  by (auto simp: GetByContext_def split: option.splits)

text \<open>Every run ends before the reservation, in a refused reservation, or past it.\<close>

lemma RelayTextHelper_cases:
  assumes "RelayTextHelper E c s w = (out, jobs, s', w')"
  obtains (early) "jobs = []" "w' = w" "out \<noteq> Returned None"
  | (ran) m r n mr gr reset err where "M_UserId m = C_Id c" "M_TokenId m = C_TokenId c"
      "relay_text_charged E c m r reset mr gr n w = (err, jobs, w')" "out = Returned err"
proof (cases "GetByContext c")
  case None
  with assms early show ?thesis by (simp add: RelayTextHelper_def)
next
  case (Some m0)
  show ?thesis
  proof (cases "getAndValidateTextRequest E c (M_Mode m0)")
    case (Inl err)
    with Some assms early show ?thesis by (auto simp: RelayTextHelper_def)
  next
    case (Inr r0)
    obtain m r reset where mp: "map_text_request m0 r0 = (m, r, reset)" by (metis surj_pair)
    then have ids: "M_UserId m = C_Id c" "M_TokenId m = C_TokenId c"
      using GetByContext_ids [OF Some] by (auto simp: map_text_request_def Let_def)
    obtain pt s1 where pt: "getPromptTokens (RV_tokenizer E) r (M_Mode m) s = (pt, s1)" by fastforce
    show ?thesis
    proof (cases pt)
      case None
      with assms Some Inr mp pt early show ?thesis by (auto simp: RelayTextHelper_def)
    next
      case n: (Some n)
      show ?thesis
        using assms Some Inr mp pt n ran [of "m\<lparr>M_PromptTokens := n\<rparr>" r reset] ids
        by (auto simp: RelayTextHelper_def split: prod.splits)
    qed
  qed
qed

text \<open>Past the validation a request is refused its reservation or goes to the upstream.\<close>

lemma relay_text_charged_cases:
  assumes "relay_text_charged E c m r reset mr gr n w = (err, jobs, w')"
  obtains (refused) pre e where "preConsumeQuota r n (fmul mr gr) m w = ((pre, Some e), w')"
      "jobs = []" "err = Some e"
  | (sent) pre where "preConsumeQuota r n (fmul mr gr) m w = ((pre, None), w')"
      "relay_upstream E c m r reset (fmul mr gr) mr gr pre w' = (err, jobs)"
  using assms by (auto simp: relay_text_charged_def split: prod.splits option.splits)

lemma upstream_jobs:
  assumes "relay_upstream E c m r reset ratio mr gr pre w = (err, jobs)"
  shows "jobs = [] \<or> (err \<noteq> None \<and> pre \<noteq> 0 \<and> jobs = [JobReturn (M_TokenId m) pre])
     \<or> (err = None \<and> (\<exists>usage. jobs = [JobPostConsume usage m r ratio pre mr gr reset]))"
  using assms
  by (auto simp: relay_upstream_def ReturnPreConsumedQuota_def split: option.splits sum.splits prod.splits if_splits)

lemma upstream_None:
  "relay_upstream E c m r reset ratio mr gr pre w = (None, jobs) \<Longrightarrow>
     \<exists>usage. jobs = [JobPostConsume usage m r ratio pre mr gr reset]"
  by (auto simp: relay_upstream_def split: option.splits sum.splits prod.splits if_splits)

lemma run_one_job [simp]: "run_jobs R [j] w = run_job R j w" "run_jobs R [] w = w"
  by (simp_all add: run_jobs_def)

text \<open>
  C14. A text request that succeeds is charged exactly once and exactly its quota: the handler
  takes only the reservation, and when the settlement goroutine has run, the owner (and a
  limited token) has paid the quota computed from the reported usage, whatever was reserved, be
  it nothing, less or more than that.
\<close>

theorem text_success_charges_usage:
  assumes "RelayTextHelper E c s w = (Returned None, [JobPostConsume (Some u) m r ratio pre mr gr reset], s', w1)"
    and "payer (C_Id c) (C_TokenId c) t b w" and "0 \<le> pre" and "small pre"
    and "quota = usage_quota u (GetCompletionRatio (TR_Model r) (M_ChannelType m) (RV_ratios E)) ratio"
    and "small quota"
  shows "charged t b pre w w1
     \<and> charged t b quota w (run_jobs (RV_ratios E) [JobPostConsume (Some u) m r ratio pre mr gr reset] w1)"
  using assms(1)
proof (cases rule: RelayTextHelper_cases)
  case (ran m' r' n mr' gr' reset' err)
  from ran(3) show ?thesis
  proof (cases rule: relay_text_charged_cases)
    case (sent pre')
    from upstream_None [of E c m' r' reset' "fmul mr' gr'" mr' gr' pre' w1] sent(2) ran(4)
    have same: "m' = m" "fmul mr' gr' = ratio" "pre' = pre" by auto
    have res: "reserve_quota (C_Id c) (C_TokenId c)
        (getPreConsumedQuota (PreConsumedQuota (cfg w)) r' n ratio) w = ((pre, None), w1)"
      using sent(1) ran(1,2) same by (simp add: preConsumeQuota_def)
    obtain w2 where w2: "PostConsumeTokenQuota (C_TokenId c) (quota - pre) w1 = (None, w2)" "charged t b quota w w2"
      using settled_balance [OF res assms(2-4,6)] by blast
    have "i64 (quota - pre) = quota - pre" using assms(4,6) by (intro i64_id small_in_i64)
    with w2(1) ran(2) same assms(5)
    have "PostConsumeTokenQuota (M_TokenId m)
       (i64 (usage_quota u (GetCompletionRatio (TR_Model r) (M_ChannelType m) (RV_ratios E)) ratio - pre)) w1 = (None, w2)"
      by simp
    from postConsumeQuota_bal [OF refl this, of mr gr reset] w2(2)
    show ?thesis using reserved_balance [OF res assms(2,3)] by (simp add: charged_def)
  qed simp
qed simp_all

section \<open>A small gateway for the witnesses\<close>

definition demo_context :: GinContext where
  "demo_context = \<lparr>C_Path = ''/v1/chat/completions'', C_URL = ''/v1/chat/completions'',
     C_Authorization = ''Bearer k'', C_Body = ''{}'', C_ParamModel = [], C_Id = 1, C_TokenId = 7,
     C_TokenName = ''tok'', C_Group = ''default'', C_RequestModel = ''gpt-5.4'', C_OriginalModel = ''gpt-5.4'',
     C_SpecificChannelId = None, C_Channel = 1, C_ChannelId = 3, C_ChannelName = ''ch'',
     C_ModelMapping = None, C_BaseURL = [], C_SystemPrompt = [], C_Config = None\<rparr>"

definition demo_request :: TextRequest where
  "demo_request = \<lparr>TR_Messages = [\<lparr>Msg_Role = ''user'', Msg_Content = AnyStr ''hello'', Msg_Name = None\<rparr>],
     TR_Model = ''gpt-5.4'', TR_MaxTokens = 0, TR_Stream = False, TR_Prompt = AnyNil, TR_Input = AnyNil,
     TR_Instruction = []\<rparr>"

definition demo_resp :: "int \<Rightarrow> HttpResp" where
  "demo_resp code = \<lparr>H_StatusCode = code, H_ContentType = ''application/json'', H_Body = Inr ''body'', H_CloseErr = None\<rparr>"

definition relay_adaptor :: "GoErr + HttpResp option \<Rightarrow> Usage option \<times> RelayError option \<Rightarrow> Adaptor" where
  "relay_adaptor sent answer = \<lparr>ConvertRequest = (\<lambda>_ _. Inr AnyNil), ConvertImageRequest = (\<lambda>_. Inr AnyNil),
     DoRequest = (\<lambda>_ _. sent), AdaptorDoResponse = (\<lambda>_ _. answer)\<rparr>"

definition demo_env :: "Adaptor \<Rightarrow> unit RelayEnv" where
  "demo_env a = \<lparr>RV_decode_text = (\<lambda>_. Inr demo_request),
     RV_decode_image = (\<lambda>_. Inr \<lparr>IR_Model = ''my-image'', IR_Prompt = ''a cat'', IR_N = 1, IR_Size = [],
        IR_Quality = [], IR_ResponseFormat = []\<rparr>),
     RV_decode_error = (\<lambda>_. None), RV_marshal = (\<lambda>_. Inr ''{}''), RV_marshal_image = (\<lambda>_. Inr ''{}''),
     RV_adaptors = (\<lambda>_. a),
     RV_tokenizer = \<lparr>TK_approx = False, TK_EncodingForModel = (\<lambda>_. None), TK_Encode = (\<lambda>_ t. length t),
        TK_GetImageSize = (\<lambda>_. Inl ErrDB)\<rparr>,
     RV_ratios = configured_ratios\<rparr>"

definition demo_encoders :: "unit Encoders" where
  "demo_encoders = \<lparr>tokenEncoderMap = [], defaultTokenEncoder = ()\<rparr>"

definition relay_world :: World where
  "relay_world = world_of (demo_db\<lparr>db_users := [demo_user 1 100000],
     db_tokens := [demo_token 7 1 50000 False]\<rparr>) []"

lemma relay_world_payer: "payer 1 7 (demo_token 7 1 50000 False) 100000 relay_world"
  by code_simp

definition demo_meta :: Meta where
  "demo_meta = \<lparr>M_Mode = ChatCompletions, M_ChannelType = 1, M_ChannelId = 3, M_TokenId = 7,
     M_TokenName = ''tok'', M_UserId = 1, M_Group = ''default'', M_ModelMapping = None,
     M_BaseURL = ''https://api.openai.com'', M_APIKey = ''k'', M_APIType = 0,
     M_Config = empty_channel_config, M_IsStream = False, M_OriginModelName = ''gpt-5.4'',
     M_ActualModelName = ''gpt-5.4'', M_RequestURLPath = ''/v1/chat/completions'',
     M_PromptTokens = 15, M_ForcedSystemPrompt = []\<rparr>"

definition demo_usage :: Usage where
  "demo_usage = \<lparr>PromptTokens = 10, CompletionTokens = 20\<rparr>"

definition demo_run :: "GoErr + HttpResp option \<Rightarrow> Usage option \<times> RelayError option \<Rightarrow> unit relay_result" where
  "demo_run sent answer = RelayTextHelper (demo_env (relay_adaptor sent answer)) demo_context demo_encoders relay_world"

definition demo_after :: "GoErr + HttpResp option \<Rightarrow> Usage option \<times> RelayError option \<Rightarrow> World" where
  "demo_after sent answer = snd (snd (snd (demo_run sent answer)))"

lemma demo_run_eqI:
  "fst (demo_run sent answer) = out \<Longrightarrow> fst (snd (demo_run sent answer)) = jobs \<Longrightarrow>
   fst (snd (snd (demo_run sent answer))) = demo_encoders \<Longrightarrow>
   RelayTextHelper (demo_env (relay_adaptor sent answer)) demo_context demo_encoders relay_world
     = (out, jobs, demo_encoders, demo_after sent answer)"
  by (simp add: demo_after_def demo_run_def prod_eq_iff)

theorem text_success_charges_usage_witness:
  "charged (demo_token 7 1 50000 False) 100000 1030 relay_world
      (demo_after (Inr (Some (demo_resp 200))) (Some demo_usage, None))
   \<and> charged (demo_token 7 1 50000 False) 100000 260 relay_world
      (run_jobs configured_ratios
        [JobPostConsume (Some demo_usage) demo_meta demo_request (Fin 2) 1030 (Fin 2) (Fin 1) False]
        (demo_after (Inr (Some (demo_resp 200))) (Some demo_usage, None)))"
proof -
  have run: "RelayTextHelper (demo_env (relay_adaptor (Inr (Some (demo_resp 200))) (Some demo_usage, None)))
      demo_context demo_encoders relay_world =
    (Returned None, [JobPostConsume (Some demo_usage) demo_meta demo_request (Fin 2) 1030 (Fin 2) (Fin 1) False],
     demo_encoders, demo_after (Inr (Some (demo_resp 200))) (Some demo_usage, None))"
    by (rule demo_run_eqI) code_simp+
  have R: "RV_ratios (demo_env a) = configured_ratios" for a by (simp add: demo_env_def)
  have ids: "C_Id demo_context = 1" "C_TokenId demo_context = 7" by (simp_all add: demo_context_def)
  have q: "260 = usage_quota demo_usage (GetCompletionRatio (TR_Model demo_request) (M_ChannelType demo_meta)
      configured_ratios) (Fin 2)" by code_simp
  have "small 260" "small 1030" by (simp_all add: small_def)
  with text_success_charges_usage [OF run, unfolded ids R, OF relay_world_payer _ _ q] show ?thesis by simp
qed

section \<open>Failures\<close>



text \<open>
  When the request cannot be sent at all (no route to the upstream, a timeout), the handler
  returns its error and leaves no goroutine behind: the reservation is never returned and the
  owner has paid it for nothing.
\<close>

theorem unreachable_upstream_keeps_reservation:
  assumes "preConsumeQuota r n (fmul mr gr) m w = ((pre, None), w1)" and "0 < pre"
    and "payer (M_UserId m) (M_TokenId m) t b w"
    and "RelayGetAdaptor (RV_adaptors E) (M_APIType m) = Some a"
    and "getRequestBody E (EnforceIncludeUsage (cfg w1)) c m r a = Inr body" and "DoRequest a m body = Inl err"
  shows "relay_text_charged E c m r reset mr gr n w = (Some (ErrorWrapper err ''do_request_failed'' 500), [], w1)
     \<and> charged t b pre w w1 \<and> user_bal w1 (M_UserId m) = Some (b - pre)"
proof -
  have "charged t b pre w w1"
    using reserved_balance [OF _ assms(3)] assms(1,2) by (simp add: preConsumeQuota_def)
  moreover have "Token_UserId t = M_UserId m" using assms(3) by (simp add: payer_def)
  ultimately show ?thesis
    using assms(1,4-6) by (simp add: relay_text_charged_def relay_upstream_def charged_def)
qed

theorem unreachable_upstream_keeps_reservation_witness:
  "let w1 = snd (preConsumeQuota demo_request 15 (fmul (Fin 2) (Fin 1)) demo_meta relay_world) in
   fst (relay_text_charged (demo_env (relay_adaptor (Inl ErrDB) (None, None))) demo_context demo_meta
     demo_request False (Fin 2) (Fin 1) 15 relay_world) = Some (ErrorWrapper ErrDB ''do_request_failed'' 500)
   \<and> user_bal w1 1 = Some (100000 - 1030)"
proof -
  define w1 where "w1 = snd (preConsumeQuota demo_request 15 (fmul (Fin 2) (Fin 1)) demo_meta relay_world)"
  have "fst (preConsumeQuota demo_request 15 (fmul (Fin 2) (Fin 1)) demo_meta relay_world) = (1030, None)"
    by code_simp
  then have p: "preConsumeQuota demo_request 15 (fmul (Fin 2) (Fin 1)) demo_meta relay_world = ((1030, None), w1)"
    by (simp add: w1_def prod_eq_iff)
  have m: "M_UserId demo_meta = 1" "M_TokenId demo_meta = 7" by (simp_all add: demo_meta_def)
  have e: "EnforceIncludeUsage (cfg w1) = False" unfolding w1_def by code_simp
  let ?E = "demo_env (relay_adaptor (Inl ErrDB) (None, None))"
  have a: "RelayGetAdaptor (RV_adaptors ?E) (M_APIType demo_meta) = Some (relay_adaptor (Inl ErrDB) (None, None))"
    by (simp add: demo_env_def demo_meta_def RelayGetAdaptor_def adaptor_api_types_def api_type_defs)
  have body: "getRequestBody ?E (EnforceIncludeUsage (cfg w1)) demo_context demo_meta demo_request
      (relay_adaptor (Inl ErrDB) (None, None)) = Inr ''{}''"
    unfolding e by code_simp
  have d: "DoRequest (relay_adaptor (Inl ErrDB) (None, None)) demo_meta ''{}'' = Inl ErrDB"
    by (simp add: relay_adaptor_def)
  from unreachable_upstream_keeps_reservation [OF p _ _ a body d, unfolded m, OF _ relay_world_payer]
  show ?thesis by (simp add: w1_def)
qed

end
