(* ===== verification/RelayImage.thy ===== *)
theory RelayImage
  imports RelayText
begin

text \<open>
  Image generation (\<open>relay/controller/image.go\<close>): the limits per model, the price, and the
  handler, which checks the balance but reserves nothing and charges when it returns.
\<close>

section \<open>Request and limits\<close>

definition getImageRequest :: "'enc RelayEnv \<Rightarrow> GinContext \<Rightarrow> GoErr + ImageRequest" where
  "getImageRequest E c = (case RV_decode_image E c of
       Inl err \<Rightarrow> Inl err
     | Inr r \<Rightarrow>
         Inr (r\<lparr>IR_N := (if IR_N r = 0 then 1 else IR_N r),
                IR_Size := (if IR_Size r = [] then ''1024x1024'' else IR_Size r),
                IR_Model := (if IR_Model r = [] then ''dall-e-2'' else IR_Model r)\<rparr>))"

definition isValidImageSize :: "string \<Rightarrow> string \<Rightarrow> bool" where
  "isValidImageSize model sz =
     (if model = ''cogview-3'' then True
      else case map_of ImageSizeRatios model of
             None \<Rightarrow> True
           | Some sizes \<Rightarrow> map_of sizes sz \<noteq> None)"

definition isValidImagePromptLength :: "string \<Rightarrow> int \<Rightarrow> bool" where
  "isValidImagePromptLength model promptLength =
     (case map_of ImagePromptLengthLimitations model of
        None \<Rightarrow> True
      | Some maxPromptLength \<Rightarrow> promptLength \<le> maxPromptLength)"

definition isWithinRange :: "string \<Rightarrow> int \<Rightarrow> bool" where
  "isWithinRange element value =
     (case map_of ImageGenerationAmounts element of
        None \<Rightarrow> True
      | Some (lo, hi) \<Rightarrow> lo \<le> value \<and> value \<le> hi)"

definition getImageSizeRatio :: "string \<Rightarrow> string \<Rightarrow> float64" where
  "getImageSizeRatio model sz =
     (case map_of ImageSizeRatios model of
        None \<Rightarrow> Fin 1
      | Some sizes \<Rightarrow> (case map_of sizes sz of None \<Rightarrow> Fin 1 | Some x \<Rightarrow> fl x))"

definition validateImageRequest :: "ImageRequest \<Rightarrow> RelayError option" where
  "validateImageRequest r =
     (if IR_Prompt r = [] then
        Some (ErrorWrapper (Err ''prompt is required'') ''prompt_missing'' 400)
      else if \<not> isValidImageSize (IR_Model r) (IR_Size r) then
        Some (ErrorWrapper (Err ''size not supported for this image model'') ''size_not_supported'' 400)
      else if \<not> isValidImagePromptLength (IR_Model r) (int (length (IR_Prompt r))) then
        Some (ErrorWrapper (Err ''prompt is too long'') ''prompt_too_long'' 400)
      else if \<not> isWithinRange (IR_Model r) (IR_N r) then
        Some (ErrorWrapper (Err ''invalid value of n'') ''n_not_within_range'' 400)
      else None)"

definition getImageCostRatio :: "ImageRequest \<Rightarrow> float64" where
  "getImageCostRatio r =
     (if IR_Quality r = ''hd'' \<and> IR_Model r = ''dall-e-3''
      then fmul (getImageSizeRatio (IR_Model r) (IR_Size r))
                (if IR_Size r = ''1024x1024'' then Fin 2 else Fin (3 / 2))
      else getImageSizeRatio (IR_Model r) (IR_Size r))"

section \<open>The handler\<close>

text \<open>
  \<open>userQuota, err := model.CacheGetUserQuota(...)\<close> with \<open>err\<close> dropped: the value that comes with an
  error is 0, or the stored balance when only the write to Redis failed.
\<close>

definition fetched_quota :: "int \<Rightarrow> World \<Rightarrow> int \<times> World" where
  "fetched_quota uid w = (case GetUserQuota uid w of
       (Inl e, w1) \<Rightarrow> (0, w1)
     | (Inr q, w1) \<Rightarrow> (q, snd (RedisSet (user_quota_key uid) (show_int q) w1)))"

definition user_quota_value :: "int \<Rightarrow> World \<Rightarrow> int \<times> World" where
  "user_quota_value uid w =
     (if \<not> RedisEnabled (cfg w)
      then (case GetUserQuota uid w of (Inl e, w1) \<Rightarrow> (0, w1) | (Inr q, w1) \<Rightarrow> (q, w1))
      else case RedisGet (user_quota_key uid) w of
        (Inl e, w1) \<Rightarrow> fetched_quota uid w1
      | (Inr s, w1) \<Rightarrow> (case go_atoi s of
            None \<Rightarrow> (0, w1)
          | Some q \<Rightarrow> if q \<le> PreConsumedQuota (cfg w1) then fetched_quota uid w1 else (q, w1)))"

definition image_quota :: "int \<Rightarrow> float64 \<Rightarrow> float64 \<Rightarrow> int \<Rightarrow> int" where
  "image_quota channelType ratio imageCostRatio n =
     (if channelType = CT_Replicate then f2i (fmul (fmul ratio imageCostRatio) (Fin 1000))
      else i64 (f2i (fmul (fmul ratio imageCostRatio) (Fin 1000)) * n))"

text \<open>The deferred charge.\<close>

definition image_charge ::
  "GinContext \<Rightarrow> Meta \<Rightarrow> string \<Rightarrow> float64 \<Rightarrow> float64 \<Rightarrow> int \<Rightarrow> HttpResp option \<Rightarrow> World \<Rightarrow> World" where
  "image_charge c m model modelRatio groupRatio quota resp w =
     (if (case resp of None \<Rightarrow> False | Some h \<Rightarrow> H_StatusCode h \<noteq> 201 \<and> H_StatusCode h \<noteq> 200) then w
      else let w1 = snd (PostConsumeTokenQuota (M_TokenId m) quota w);
               w2 = snd (CacheUpdateUserQuota (M_UserId m) w1)
           in if quota \<noteq> 0 then
                let w3 = RecordConsumeLog (consume_log (M_UserId m) (M_ChannelId m) 0 0 model
                           (C_TokenName c) quota [modelRatio, groupRatio] False False) w2;
                    w4 = UpdateUserUsedQuotaAndRequestCount (M_UserId m) quota w3
                in UpdateChannelUsedQuota (C_ChannelId c) quota w4
              else w2)"

text \<open>The body for the upstream: the client's own, or the request encoded again or converted.\<close>

definition image_body ::
  "'enc RelayEnv \<Rightarrow> GinContext \<Rightarrow> Meta \<Rightarrow> bool \<Rightarrow> ImageRequest \<Rightarrow> Adaptor \<Rightarrow> RelayError + string" where
  "image_body E c m isModelMapped r a =
     (case (if isModelMapped \<or> M_ChannelType m = CT_Azure then RV_marshal_image E r else Inr (C_Body c)) of
        Inl err \<Rightarrow> Inl (ErrorWrapper err ''marshal_image_request_failed'' 500)
      | Inr body \<Rightarrow>
          if M_ChannelType m \<in> {CT_Zhipu, CT_Ali, CT_Replicate, CT_Baidu} then
            (case ConvertImageRequest a r of
               Inl err \<Rightarrow> Inl (ErrorWrapper err ''convert_image_request_failed'' 500)
             | Inr finalRequest \<Rightarrow>
                 (case RV_marshal E finalRequest of
                    Inl err \<Rightarrow> Inl (ErrorWrapper err ''marshal_image_request_failed'' 500)
                  | Inr json \<Rightarrow> Inr json))
          else Inr body)"

text \<open>From the price on.\<close>

definition image_upstream ::
  "GinContext \<Rightarrow> Meta \<Rightarrow> ImageRequest \<Rightarrow> Adaptor \<Rightarrow> string \<Rightarrow> float64 \<Rightarrow> float64 \<Rightarrow> float64 \<Rightarrow> World
     \<Rightarrow> RelayError option \<times> World" where
  "image_upstream c m r a body modelRatio groupRatio imageCostRatio w =
     (case user_quota_value (M_UserId m) w of (userQuota, w1) \<Rightarrow>
        if i64 (userQuota - image_quota (M_ChannelType m) (fmul modelRatio groupRatio) imageCostRatio (IR_N r)) < 0
        then (Some (ErrorWrapper (Err ''user quota is not enough'') ''insufficient_user_quota'' 403), w1)
        else case DoRequest a m body of
          Inl err \<Rightarrow> (Some (ErrorWrapper err ''do_request_failed'' 500), w1)
        | Inr resp \<Rightarrow>
            (snd (AdaptorDoResponse a resp m),
             image_charge c m (IR_Model r) modelRatio groupRatio
               (image_quota (M_ChannelType m) (fmul modelRatio groupRatio) imageCostRatio (IR_N r)) resp w1))"

text \<open>
  Up to the body: model mapping, validation, price of one image, the upstream's model name. The
  result keeps the model the price is looked up with.
\<close>

definition image_prepare ::
  "'enc RelayEnv \<Rightarrow> GinContext \<Rightarrow> Meta
     \<Rightarrow> RelayError + Meta \<times> ImageRequest \<times> string \<times> float64 \<times> bool" where
  "image_prepare E c m = (case getImageRequest E c of
       Inl err \<Rightarrow> Inl (ErrorWrapper err ''invalid_image_request'' 400)
     | Inr r0 \<Rightarrow> (case getMappedModelName (IR_Model r0) (M_ModelMapping m) of (model, isModelMapped) \<Rightarrow>
         (case validateImageRequest (r0\<lparr>IR_Model := model\<rparr>) of
            Some bizErr \<Rightarrow> Inl bizErr
          | None \<Rightarrow>
              Inr (m\<lparr>M_OriginModelName := IR_Model r0, M_ActualModelName := model\<rparr>,
                   r0\<lparr>IR_Model := fst (getMappedModelName model (Some ImageOriginModelName))\<rparr>,
                   model, getImageCostRatio (r0\<lparr>IR_Model := model\<rparr>), isModelMapped))))"

definition RelayImageHelper ::
  "'enc RelayEnv \<Rightarrow> GinContext \<Rightarrow> 'enc Encoders \<Rightarrow> World \<Rightarrow> 'enc relay_result" where
  "RelayImageHelper E c s w = (case GetByContext c of
       None \<Rightarrow> (Panic, [], s, w)
     | Some m0 \<Rightarrow> (case image_prepare E c m0 of
           Inl bizErr \<Rightarrow> (Returned (Some bizErr), [], s, w)
         | Inr (m, r, imageModel, imageCostRatio, isModelMapped) \<Rightarrow>
             (case RelayGetAdaptor (RV_adaptors E) (M_APIType m) of
                None \<Rightarrow> (Returned (Some (ErrorWrapper (Err (''invalid api type: '' @ show_int (M_APIType m)))
                          ''invalid_api_type'' 400)), [], s, w)
              | Some a \<Rightarrow> (case image_body E c m isModelMapped r a of
                    Inl err \<Rightarrow> (Returned (Some err), [], s, w)
                  | Inr body \<Rightarrow>
                      (case image_upstream c m r a body
                              (GetModelRatio imageModel (M_ChannelType m) (RV_ratios E))
                              (GetGroupRatio (M_Group m) (RV_ratios E)) imageCostRatio w of
                         (err, w1) \<Rightarrow> (Returned err, [], s, w1))))))"

section \<open>What an image request costs\<close>

lemma quiet_user_quota_value: "user_quota_value u w = (q, w1) \<Longrightarrow> faults w = [] \<Longrightarrow> faults w1 = []"
  by (auto simp: user_quota_value_def fetched_quota_def GetUserQuota_def RedisSet_def
      dest: quiet_find_col quiet_redis split: prod.splits sum.splits option.splits if_splits)

lemma fetched_quota_frame:
  "fetched_quota u w = (q, w1) \<Longrightarrow> db w1 = db w \<and> same_env w w1"
proof -
  assume a: "fetched_quota u w = (q, w1)"
  obtain g v where g: "GetUserQuota u w = (g, v)" by fastforce
  from GetUserQuota_frame [OF g] RedisSet_frame [OF surjective_pairing, of "user_quota_key u" "show_int q" v] a g
  show ?thesis by (cases g) (auto simp: fetched_quota_def intro: same_env_trans)
qed

lemma user_quota_value_frame:
  "user_quota_value u w = (q, w1) \<Longrightarrow> db w1 = db w \<and> same_env w w1"
  by (auto simp: user_quota_value_def dest!: GetUserQuota_frame RedisGet_frame fetched_quota_frame
      intro: same_env_trans split: prod.splits sum.splits option.splits if_splits)

lemma user_quota_value_Inr: "CacheGetUserQuota u w = (Inr q, w1) \<Longrightarrow> user_quota_value u w = (q, w1)"
  by (auto simp: CacheGetUserQuota_def user_quota_value_def fetched_quota_def fetchAndUpdateUserQuota_def
      split: prod.splits sum.splits option.splits if_splits)

lemma image_charge_bal:
  assumes "PostConsumeTokenQuota (M_TokenId m) q w = (e, w1)"
    and "case resp of None \<Rightarrow> True | Some h \<Rightarrow> H_StatusCode h = 200 \<or> H_StatusCode h = 201"
  shows "user_bal (image_charge c m model mr gr q resp w) = user_bal w1
     \<and> token_bal (image_charge c m model mr gr q resp w) = token_bal w1"
  using assms by (auto simp: image_charge_def Let_def bookkeeping_bal split: option.splits)

text \<open>A charge without a reservation.\<close>

lemma direct_charge:
  assumes "payer u k t b w" and "small q"
  shows "\<exists>w'. PostConsumeTokenQuota k q w = (None, w') \<and> charged t b q w w'"
proof -
  have p: "\<not> BatchUpdateEnabled (cfg w)" "faults w = []" "ledger_ok (db w)" "k \<noteq> 0"
    "find (\<lambda>t. Token_Id t = k) (db_tokens (db w)) = Some t" "user_bal w (Token_UserId t) = Some b"
    "small b" "small (Token_RemainQuota t)" "small (Token_UsedQuota t)"
    using assms(1) by (auto simp: payer_def)
  have "\<exists>w'. PostConsumeTokenQuota k q w = (None, w')
     \<and> user_bal w' = (user_bal w)(Token_UserId t \<mapsto> b - q)
     \<and> token_bal w' = (if Token_UnlimitedQuota t then token_bal w
                     else (token_bal w)(k \<mapsto> Token_RemainQuota t - q))"
    by (rule settle_exact [OF p(3,1,2,4,5,6)]) (use p assms(2) in \<open>auto intro: small_in_i64 simp: small_def\<close>)
  then show ?thesis using payer_token [OF assms(1)] by (auto simp: charged_def)
qed

lemma image_upstream_charges:
  assumes "payer (M_UserId m) (M_TokenId m) t b w"
    and "image_upstream c m r a body mr gr cost w = (err, w')"
    and "q = image_quota (M_ChannelType m) (fmul mr gr) cost (IR_N r)" and "small q"
  shows "charged t b
     (if 0 \<le> i64 (fst (user_quota_value (M_UserId m) w) - q)
         \<and> (case DoRequest a m body of
              Inl _ \<Rightarrow> False
            | Inr None \<Rightarrow> True
            | Inr (Some h) \<Rightarrow> H_StatusCode h = 200 \<or> H_StatusCode h = 201)
      then q else 0) w w'"
proof -
  obtain uq v where v: "user_quota_value (M_UserId m) w = (uq, v)" by fastforce
  note f = user_quota_value_frame [OF v]
  have q1: "faults v = []" using quiet_user_quota_value [OF v] assms(1) by (simp add: payer_def)
  have pv: "payer (M_UserId m) (M_TokenId m) t b v"
    using assms(1) by (rule payer_same) (use f q1 in \<open>auto simp: same_env_def\<close>)
  have same: "user_bal v = user_bal w \<and> token_bal v = token_bal w" using bal_db_cong f by blast
  obtain w1 where w1: "PostConsumeTokenQuota (M_TokenId m) q v = (None, w1)" "charged t b q v w1"
    using direct_charge [OF pv assms(4)] by blast
  have none: "charged t b 0 w x" if "user_bal x = user_bal v" "token_bal x = token_bal v" for x
    using that same charged_0 [OF assms(1)] by simp
  show ?thesis
  proof (cases "i64 (uq - q) < 0")
    case True
    with assms(2,3) v none show ?thesis by (auto simp: image_upstream_def)
  next
    case ok: False
    show ?thesis
    proof (cases "DoRequest a m body")
      case (Inl e)
      with assms(2,3) v ok none show ?thesis by (auto simp: image_upstream_def)
    next
      case (Inr resp)
      with assms(2,3) v ok have w': "w' = image_charge c m (IR_Model r) mr gr q resp v"
        by (auto simp: image_upstream_def)
      show ?thesis
      proof (cases "case resp of None \<Rightarrow> True | Some h \<Rightarrow> H_StatusCode h = 200 \<or> H_StatusCode h = 201")
        case True
        from image_charge_bal [OF w1(1) True] w1(2) same w' Inr ok v True show ?thesis
          by (auto simp: charged_def split: option.splits)
      next
        case False
        then have "w' = v" unfolding w' by (auto simp: image_charge_def split: option.splits)
        with Inr ok v False none show ?thesis by (auto split: option.splits)
      qed
    qed
  qed
qed

lemma image_helper_run:
  assumes "GetByContext c = Some m0" and "image_prepare E c m0 = Inr (m, r, model, cost, mapped)"
    and "RelayGetAdaptor (RV_adaptors E) (M_APIType m) = Some a" and "image_body E c m mapped r a = Inr body"
    and "image_upstream c m r a body (GetModelRatio model (M_ChannelType m) (RV_ratios E))
           (GetGroupRatio (M_Group m) (RV_ratios E)) cost w = (err, w')"
  shows "RelayImageHelper E c s w = (Returned err, [], s, w')"
  using assms by (simp add: RelayImageHelper_def)

lemma image_prepare_ids:
  "image_prepare E c m0 = Inr (m, r, model, cost, mapped) \<Longrightarrow> M_UserId m = M_UserId m0 \<and> M_TokenId m = M_TokenId m0"
  by (auto simp: image_prepare_def split: sum.splits prod.splits option.splits)

text \<open>
  An image request leaves no goroutine behind and charges at once: exactly its price when
  the balance covers it and the upstream could be reached and answered 200 or 201 (or nothing
  at all), and nothing in every other case. The price is due even when the answer then turns out
  to be unusable and the client gets an error.
\<close>

theorem image_charge_exact:
  assumes "GetByContext c = Some m0" and "image_prepare E c m0 = Inr (m, r, model, cost, mapped)"
    and "RelayGetAdaptor (RV_adaptors E) (M_APIType m) = Some a" and "image_body E c m mapped r a = Inr body"
    and "payer (C_Id c) (C_TokenId c) t b w"
    and "q = image_quota (M_ChannelType m) (fmul (GetModelRatio model (M_ChannelType m) (RV_ratios E))
               (GetGroupRatio (M_Group m) (RV_ratios E))) cost (IR_N r)" and "small q"
  shows "\<exists>err w'. RelayImageHelper E c s w = (Returned err, [], s, w') \<and> charged t b
     (if 0 \<le> i64 (fst (user_quota_value (C_Id c) w) - q)
         \<and> (case DoRequest a m body of
              Inl _ \<Rightarrow> False
            | Inr None \<Rightarrow> True
            | Inr (Some h) \<Rightarrow> H_StatusCode h = 200 \<or> H_StatusCode h = 201)
      then q else 0) w w'"
proof -
  have ids: "M_UserId m = C_Id c" "M_TokenId m = C_TokenId c"
    using image_prepare_ids [OF assms(2)] GetByContext_ids [OF assms(1)] by auto
  obtain err w' where up: "image_upstream c m r a body (GetModelRatio model (M_ChannelType m) (RV_ratios E))
           (GetGroupRatio (M_Group m) (RV_ratios E)) cost w = (err, w')" by fastforce
  from image_helper_run [OF assms(1-4) up] image_upstream_charges [OF _ up assms(6,7), of t b] assms(5)
  show ?thesis unfolding ids by blast
qed

definition image_adaptor :: "int \<Rightarrow> Adaptor" where
  "image_adaptor code = relay_adaptor (Inr (Some (demo_resp code))) (None, None)"

definition image_context :: GinContext where
  "image_context = demo_context\<lparr>C_Path := ''/v1/images/generations'', C_RequestModel := ''my-image''\<rparr>"

definition image_meta :: Meta where
  "image_meta = demo_meta\<lparr>M_Mode := ImagesGenerations, M_OriginModelName := ''my-image'',
     M_ActualModelName := [], M_PromptTokens := 0\<rparr>"

definition image_request :: "int \<Rightarrow> ImageRequest" where
  "image_request n = \<lparr>IR_Model = ''my-image'', IR_Prompt = ''a cat'', IR_N = n, IR_Size = ''1024x1024'',
     IR_Quality = [], IR_ResponseFormat = []\<rparr>"

definition image_env :: "int \<Rightarrow> int \<Rightarrow> unit RelayEnv" where
  "image_env code n = (demo_env (image_adaptor code))\<lparr>RV_decode_image := (\<lambda>_. Inr (image_request n))\<rparr>"

lemma image_demo:
  "GetByContext image_context = Some image_meta"
  "RelayGetAdaptor (RV_adaptors (image_env code n)) 0 = Some (image_adaptor code)"
  "DoRequest (image_adaptor code) m body = Inr (Some (demo_resp code))"
  "GetModelRatio ''my-image'' 1 configured_ratios = Fin 3"
  "GetGroupRatio ''default'' configured_ratios = Fin 1"
  "RV_ratios (image_env code n) = configured_ratios"
  "C_Id image_context = 1" "C_TokenId image_context = 7"
  by (code_simp, simp add: image_env_def demo_env_def RelayGetAdaptor_def adaptor_api_types_def api_type_defs,
      simp add: image_adaptor_def relay_adaptor_def, code_simp, code_simp,
      simp_all add: image_env_def demo_env_def image_context_def demo_context_def)

definition image_meta' :: Meta where
  "image_meta' = image_meta\<lparr>M_ActualModelName := ''my-image''\<rparr>"

lemma image_demo_meta:
  "M_APIType image_meta' = 0" "M_ChannelType image_meta' = 1" "M_Group image_meta' = ''default''"
  "M_UserId image_meta' = 1" "M_TokenId image_meta' = 7"
  by (simp_all add: image_meta'_def image_meta_def demo_meta_def)

lemma image_demo_prepared:
  "n \<noteq> 0 \<Longrightarrow> image_prepare (image_env code n) image_context image_meta =
     Inr (image_meta', image_request n, ''my-image'', Fin 1, False)"
  "image_body (image_env code n) image_context image_meta' False (image_request n) (image_adaptor code) = Inr ''{}''"
proof -
  have k: "map_of ImageSizeRatios ''my-image'' = None" "map_of ImagePromptLengthLimitations ''my-image'' = None"
    "map_of ImageGenerationAmounts ''my-image'' = None" "map_of ImageOriginModelName ''my-image'' = None"
    by code_simp+
  show "n \<noteq> 0 \<Longrightarrow> image_prepare (image_env code n) image_context image_meta =
     Inr (image_meta', image_request n, ''my-image'', Fin 1, False)"
    by (simp add: image_prepare_def image_env_def getImageRequest_def image_request_def getMappedModelName_def
        validateImageRequest_def isValidImageSize_def isValidImagePromptLength_def isWithinRange_def
        getImageCostRatio_def getImageSizeRatio_def image_meta'_def image_meta_def demo_meta_def k)
  show "image_body (image_env code n) image_context image_meta' False (image_request n) (image_adaptor code) = Inr ''{}''"
    by (simp add: image_body_def image_demo_meta channel_type_defs image_context_def demo_context_def)
qed

lemma image_demo_quota: "image_quota 1 (fmul (Fin 3) (Fin 1)) (Fin 1) 1 = 3000"
  "image_quota 1 (fmul (Fin 3) (Fin 1)) (Fin 1) (- 5) = - 15000"
  by code_simp+

lemma image_demo_balance: "fst (user_quota_value 1 relay_world) = 100000"
  by code_simp

theorem image_charge_exact_witness:
  "\<exists>err w'. RelayImageHelper (image_env 200 1) image_context demo_encoders relay_world
      = (Returned err, [], demo_encoders, w')
     \<and> charged (demo_token 7 1 50000 False) 100000 3000 relay_world w'"
proof -
  have "small 3000" by (simp add: small_def)
  have q: "3000 = image_quota (M_ChannelType image_meta')
      (fmul (GetModelRatio ''my-image'' (M_ChannelType image_meta') (RV_ratios (image_env 200 1)))
         (GetGroupRatio (M_Group image_meta') (RV_ratios (image_env 200 1)))) (Fin 1) (IR_N (image_request 1))"
    by (simp add: image_demo image_demo_meta image_demo_quota image_request_def del: fmul.simps)
  have n: "(1 :: int) \<noteq> 0" by simp
  have a: "RelayGetAdaptor (RV_adaptors (image_env 200 1)) (M_APIType image_meta') = Some (image_adaptor 200)"
    by (simp add: image_demo image_demo_meta)
  have p: "payer (C_Id image_context) (C_TokenId image_context) (demo_token 7 1 50000 False) 100000 relay_world"
    using relay_world_payer by (simp add: image_demo)
  from image_charge_exact [OF image_demo(1) image_demo_prepared(1) [OF n] a image_demo_prepared(2) p q \<open>small 3000\<close>,
      of demo_encoders]
  show ?thesis by (simp add: image_demo image_demo_balance i64_def demo_resp_def)
qed



end
