(* ===== verification/RelayAudio.thy ===== *)
theory RelayAudio
  imports RelayImage
begin

text \<open>
  Speech synthesis and transcription (\<open>relay/controller/audio.go\<close>), with the address helper of the
  OpenAI adaptor. The handler calls the upstream itself; the HTTP client, the body readers and
  the JSON decoders are the fields of \<open>AudioEnv\<close>.
\<close>

record AudioEnv =
  AE_decode_tts :: "GinContext \<Rightarrow> GoErr + string \<times> string"
  AE_read_body :: "GoErr option"
  AE_new_request :: "string \<Rightarrow> GoErr option"
  AE_do :: "string \<Rightarrow> GoErr + HttpResp"
  AE_close_request :: "GoErr option"
  AE_close_client_body :: "GoErr option"
  AE_slim_error :: "string \<Rightarrow> RelayError option"
  AE_show_code :: "AnyVal \<Rightarrow> string"
  AE_response_format :: string
  AE_whisper_json :: "string \<Rightarrow> GoErr + string"
  AE_whisper_verbose :: "string \<Rightarrow> GoErr + string"
  AE_copy :: "GoErr option"

section \<open>Addresses\<close>

definition GetFullRequestURL :: "string \<Rightarrow> string \<Rightarrow> int \<Rightarrow> string" where
  "GetFullRequestURL baseURL requestURL channelType =
     (if channelType = CT_OpenAICompatible
      then trim_suffix baseURL ''/'' @ trim_prefix requestURL ''/v1''
      else if has_prefix baseURL ''https://gateway.ai.cloudflare.com'' then
        (if channelType = CT_OpenAI then baseURL @ trim_prefix requestURL ''/v1''
         else if channelType = CT_Azure then baseURL @ trim_prefix requestURL ''/openai/deployments''
         else baseURL @ requestURL)
      else baseURL @ requestURL)"

definition audio_url :: "GinContext \<Rightarrow> Meta \<Rightarrow> RelayMode \<Rightarrow> string \<Rightarrow> string \<Rightarrow> string" where
  "audio_url c m relayMode baseURL audioModel =
     (if C_Channel c = CT_Azure \<and> relayMode = AudioTranscription then
        baseURL @ ''/openai/deployments/'' @ audioModel @ ''/audio/transcriptions?api-version=''
          @ CC_APIVersion (M_Config m)
      else if C_Channel c = CT_Azure \<and> relayMode = AudioSpeech then
        baseURL @ ''/openai/deployments/'' @ audioModel @ ''/audio/speech?api-version=''
          @ CC_APIVersion (M_Config m)
      else GetFullRequestURL baseURL (C_URL c) (C_Channel c))"

section \<open>The text of a transcription\<close>

text \<open>
  \<open>bufio.Scanner\<close>: lines without their end, a trailing carriage return dropped, no line after
  the final newline; a line that fills the 64 KB buffer ends the scan with an error.
\<close>

definition scan_raw :: "string \<Rightarrow> string list" where
  "scan_raw s = (let ls = split_on CHR 0x0A s in if last ls = [] then butlast ls else ls)"

definition drop_cr :: "string \<Rightarrow> string" where
  "drop_cr l = (if l \<noteq> [] \<and> last l = CHR 0x0D then butlast l else l)"

definition max_line :: int where "max_line = 65536"

fun srt_lines :: "bool \<Rightarrow> string list \<Rightarrow> string" where
  "srt_lines textLine [] = []"
| "srt_lines textLine (l # ls) =
     (if textLine then l @ srt_lines False ls
      else if contains_str l ''-->'' then srt_lines True ls
      else srt_lines textLine ls)"

definition getTextFromSRT :: "string \<Rightarrow> GoErr + string" where
  "getTextFromSRT body =
     (if list_ex (\<lambda>l. max_line \<le> int (length l)) (scan_raw body)
      then Inl (Err ''bufio.Scanner: token too long'')
      else Inr (srt_lines False (map drop_cr (scan_raw body))))"

definition getTextFromVTT :: "string \<Rightarrow> GoErr + string" where
  "getTextFromVTT body = getTextFromSRT body"

definition getTextFromText :: "string \<Rightarrow> GoErr + string" where
  "getTextFromText body = Inr (trim_suffix body [CHR 0x0A])"

definition getTextFromJSON :: "AudioEnv \<Rightarrow> string \<Rightarrow> GoErr + string" where
  "getTextFromJSON A body = (case AE_whisper_json A body of
       Inl e \<Rightarrow> Inl (Err (''unmarshal_response_body_failed err :'' @ error_text e))
     | Inr t \<Rightarrow> Inr t)"

definition getTextFromVerboseJSON :: "AudioEnv \<Rightarrow> string \<Rightarrow> GoErr + string" where
  "getTextFromVerboseJSON A body = (case AE_whisper_verbose A body of
       Inl e \<Rightarrow> Inl (Err (''unmarshal_response_body_failed err :'' @ error_text e))
     | Inr t \<Rightarrow> Inr t)"

definition audio_text :: "AudioEnv \<Rightarrow> string \<Rightarrow> (GoErr + string) option" where
  "audio_text A body =
     (if AE_response_format A = ''json'' then Some (getTextFromJSON A body)
      else if AE_response_format A = ''text'' then Some (getTextFromText body)
      else if AE_response_format A = ''srt'' then Some (getTextFromSRT body)
      else if AE_response_format A = ''verbose_json'' then Some (getTextFromVerboseJSON A body)
      else if AE_response_format A = ''vtt'' then Some (getTextFromVTT body)
      else None)"

section \<open>The handler\<close>

text \<open>
  A transcription: the text of the body in the requested format, whose tokens are the quota.
\<close>

definition audio_transcribed ::
  "'enc RelayEnv \<Rightarrow> AudioEnv \<Rightarrow> string \<Rightarrow> HttpResp \<Rightarrow> string \<Rightarrow> 'enc Encoders
     \<Rightarrow> (RelayError + int) \<times> 'enc Encoders" where
  "audio_transcribed E A audioModel h body s = (case audio_text A body of
       None \<Rightarrow> (Inl (ErrorWrapper (Err ''unexpected_response_format'') ''unexpected_response_format'' 500), s)
     | Some (Inl e) \<Rightarrow> (Inl (ErrorWrapper e ''get_text_from_body_err'' 500), s)
     | Some (Inr t) \<Rightarrow> (case CountTokenText (RV_tokenizer E) t audioModel s of (quota, s1) \<Rightarrow>
         if H_StatusCode h \<noteq> 200
         then (Inl (RelayErrorHandler (RV_decode_error E) (Some (h\<lparr>H_Body := Inr body, H_CloseErr := None\<rparr>))), s1)
         else (Inr quota, s1)))"

text \<open>
  The answer of the upstream: for a transcription the text is extracted and its tokens are the
  quota; for speech the quota is known. An answer other than 200 is an error.
\<close>

definition audio_answer ::
  "'enc RelayEnv \<Rightarrow> AudioEnv \<Rightarrow> RelayMode \<Rightarrow> string \<Rightarrow> int \<Rightarrow> HttpResp \<Rightarrow> 'enc Encoders
     \<Rightarrow> (RelayError + int) \<times> 'enc Encoders" where
  "audio_answer E A relayMode audioModel quota h s =
     (if relayMode \<noteq> AudioSpeech then
        (case H_Body h of
           Inl e \<Rightarrow> (Inl (ErrorWrapper e ''read_response_body_failed'' 500), s)
         | Inr body \<Rightarrow>
             (case H_CloseErr h of
                Some e \<Rightarrow> (Inl (ErrorWrapper e ''close_response_body_failed'' 500), s)
              | None \<Rightarrow>
                  (case AE_slim_error A body of
                     Some err \<Rightarrow>
                       if RE_Message err \<noteq> [] then
                         (Inl (ErrorWrapper (Err (''type '' @ RE_Type err @ '', code '' @ AE_show_code A (RE_Code err)
                             @ '', message '' @ RE_Message err)) ''request_error'' 500), s)
                       else audio_transcribed E A audioModel h body s
                   | None \<Rightarrow> audio_transcribed E A audioModel h body s)))
      else if H_StatusCode h \<noteq> 200 then (Inl (RelayErrorHandler (RV_decode_error E) (Some h)), s)
      else (Inr quota, s))"

text \<open>Sending the request, up to the quota of the answer.\<close>

definition audio_exchange ::
  "'enc RelayEnv \<Rightarrow> AudioEnv \<Rightarrow> RelayMode \<Rightarrow> string \<Rightarrow> string \<Rightarrow> int \<Rightarrow> 'enc Encoders
     \<Rightarrow> (RelayError + HttpResp \<times> int) \<times> 'enc Encoders" where
  "audio_exchange E A relayMode url audioModel quota s =
     (case AE_read_body A of
        Some e \<Rightarrow> (Inl (ErrorWrapper e ''new_request_body_failed'' 500), s)
      | None \<Rightarrow> (case AE_new_request A url of
          Some e \<Rightarrow> (Inl (ErrorWrapper e ''new_request_failed'' 500), s)
        | None \<Rightarrow> (case AE_do A url of
            Inl e \<Rightarrow> (Inl (ErrorWrapper e ''do_request_failed'' 500), s)
          | Inr h \<Rightarrow> (case AE_close_request A of
              Some e \<Rightarrow> (Inl (ErrorWrapper e ''close_request_body_failed'' 500), s)
            | None \<Rightarrow> (case AE_close_client_body A of
                Some e \<Rightarrow> (Inl (ErrorWrapper e ''close_request_body_failed'' 500), s)
              | None \<Rightarrow> (case audio_answer E A relayMode audioModel quota h s of
                  (Inl err, s1) \<Rightarrow> (Inl err, s1)
                | (Inr quota', s1) \<Rightarrow> (Inr (h, quota'), s1)))))))"

text \<open>Handing the answer to the client, when the charge is already due.\<close>

definition audio_deliver :: "AudioEnv \<Rightarrow> RelayMode \<Rightarrow> HttpResp \<Rightarrow> RelayError option" where
  "audio_deliver A relayMode h =
     (case (if relayMode = AudioSpeech then (case H_Body h of Inl e \<Rightarrow> Some e | Inr _ \<Rightarrow> AE_copy A) else AE_copy A) of
        Some e \<Rightarrow> Some (ErrorWrapper e ''copy_response_body_failed'' 500)
      | None \<Rightarrow> (case (if relayMode = AudioSpeech then H_CloseErr h else None) of
          Some e \<Rightarrow> Some (ErrorWrapper e ''close_response_body_failed'' 500)
        | None \<Rightarrow> None))"

text \<open>The deferred rollback, which also runs when the handler panics.\<close>

definition audio_rollback :: "int \<Rightarrow> int \<Rightarrow> Job list" where
  "audio_rollback tokenId pre = (if 0 < pre then [JobReturn tokenId pre] else [])"

text \<open>From the reservation on.\<close>

definition audio_charged ::
  "'enc RelayEnv \<Rightarrow> AudioEnv \<Rightarrow> GinContext \<Rightarrow> Meta \<Rightarrow> RelayMode \<Rightarrow> string \<Rightarrow> float64 \<Rightarrow> float64 \<Rightarrow> int \<Rightarrow> int
     \<Rightarrow> 'enc Encoders \<Rightarrow> World \<Rightarrow> 'enc relay_result" where
  "audio_charged E A c m relayMode audioModel modelRatio groupRatio quota pre0 s w =
     (case reserve_quota (C_Id c) (C_TokenId c) pre0 w of
        ((pre, Some err), w1) \<Rightarrow> (Returned (Some err), [], s, w1)
      | ((pre, None), w1) \<Rightarrow>
          (case go_index ChannelBaseURLs (C_Channel c) of
             None \<Rightarrow> (Panic, audio_rollback (C_TokenId c) pre, s, w1)
           | Some base \<Rightarrow>
               (case audio_exchange E A relayMode
                       (audio_url c m relayMode (if C_BaseURL c \<noteq> [] then C_BaseURL c else base) audioModel)
                       audioModel quota s of
                  (Inl err, s1) \<Rightarrow> (Returned (Some err), audio_rollback (C_TokenId c) pre, s1, w1)
                | (Inr (h, quota'), s1) \<Rightarrow>
                    (Returned (audio_deliver A relayMode h),
                     [JobBilling (C_TokenId c) (i64 (quota' - pre)) quota' (C_Id c) (C_ChannelId c) modelRatio
                        groupRatio audioModel (C_TokenName c)], s1, w1))))"

definition RelayAudioHelper ::
  "'enc RelayEnv \<Rightarrow> AudioEnv \<Rightarrow> GinContext \<Rightarrow> RelayMode \<Rightarrow> 'enc Encoders \<Rightarrow> World \<Rightarrow> 'enc relay_result" where
  "RelayAudioHelper E A c relayMode s w = (case GetByContext c of
       None \<Rightarrow> (Panic, [], s, w)
     | Some m \<Rightarrow>
         (case (if relayMode = AudioSpeech then AE_decode_tts A c else Inr (''whisper-1'', [])) of
            Inl e \<Rightarrow> (Returned (Some (ErrorWrapper e ''invalid_json'' 400)), [], s, w)
          | Inr (audioModel, input) \<Rightarrow>
              if relayMode = AudioSpeech \<and> 4096 < int (length input)
              then (Returned (Some (ErrorWrapper (Err ''input is too long (over 4096 characters)'')
                      ''text_too_long'' 400)), [], s, w)
              else audio_charged E A c m relayMode
                     (fst (getMappedModelName audioModel (C_ModelMapping c)))
                     (GetModelRatio audioModel (C_Channel c) (RV_ratios E))
                     (GetGroupRatio (C_Group c) (RV_ratios E))
                     (if relayMode = AudioSpeech
                      then f2i (fmul (fl_int (int (length input)))
                             (fmul (GetModelRatio audioModel (C_Channel c) (RV_ratios E))
                                (GetGroupRatio (C_Group c) (RV_ratios E)))) else 0)
                     (f2i (fmul (fl_int (if relayMode = AudioSpeech then int (length input)
                                         else PreConsumedQuota (cfg w)))
                        (fmul (GetModelRatio audioModel (C_Channel c) (RV_ratios E))
                           (GetGroupRatio (C_Group c) (RV_ratios E)))))
                     s w))"

section \<open>No reservation is lost\<close>

text \<open>
  The audio handler settles every reservation it makes: whatever goes wrong after it, also
  a panic, one goroutine is left behind, and when it has run the owner has either paid exactly
  the quota of the answer or nothing at all.
\<close>

theorem audio_settles_reservation:
  assumes "audio_charged E A c m relayMode audioModel mr gr quota pre0 s w = (out, jobs, s', w1)"
    and "payer (C_Id c) (C_TokenId c) t b w" and "0 \<le> pre0" and "small pre0"
    and "\<And>h q s2 s3 url. audio_exchange E A relayMode url audioModel quota s2 = (Inr (h, q), s3) \<Longrightarrow> small q"
    and "reserve_quota (C_Id c) (C_TokenId c) pre0 w = ((pre, None), w1)"
  shows "charged t b 0 w (run_jobs R jobs w1)
     \<or> (\<exists>q md. jobs = [JobBilling (C_TokenId c) (i64 (q - pre)) q (C_Id c) (C_ChannelId c) mr gr md (C_TokenName c)]
          \<and> charged t b q w (run_jobs R jobs w1))"
proof -
  have pre: "0 \<le> pre" "small pre"
    using reserve_quota_ok [OF assms(6,2)] assms(3,4) by (auto simp: small_def split: if_splits)
  have returned: "charged t b 0 w (run_jobs R (audio_rollback (C_TokenId c) pre) w1)"
  proof (cases "0 < pre")
    case True
    have "small 0" by (simp add: small_def)
    from settled_balance [OF assms(6,2) pre this] obtain w2
      where "PostConsumeTokenQuota (C_TokenId c) (0 - pre) w1 = (None, w2)" "charged t b 0 w w2" by blast
    moreover have "i64 (- pre) = 0 - pre" using pre by (simp add: i64_id small_def in_i64_def)
    ultimately show ?thesis using True by (simp add: audio_rollback_def)
  next
    case False
    with pre have "pre = 0" by simp
    with reserved_balance [OF assms(6,2) pre(1)] show ?thesis by (simp add: audio_rollback_def)
  qed
  have bill: "charged t b q w (PostConsumeQuota (C_TokenId c) (i64 (q - pre)) q uid ch mr gr md tn w1)"
    if sq: "small q" for q uid ch md tn
  proof -
    obtain w2 where w2: "PostConsumeTokenQuota (C_TokenId c) (q - pre) w1 = (None, w2)" "charged t b q w w2"
      using settled_balance [OF assms(6,2) pre sq] by blast
    have "i64 (q - pre) = q - pre" using pre(2) sq by (intro i64_id small_in_i64)
    with PostConsumeQuota_bal [OF refl w2(1), of q uid ch mr gr md tn] w2(2) show ?thesis
      by (simp add: charged_def)
  qed
  show ?thesis
  proof (cases "go_index ChannelBaseURLs (C_Channel c)")
    case None
    with assms(1,6) returned show ?thesis by (simp add: audio_charged_def)
  next
    case (Some base)
    obtain x s1 where ex: "audio_exchange E A relayMode
        (audio_url c m relayMode (if C_BaseURL c \<noteq> [] then C_BaseURL c else base) audioModel) audioModel quota s
        = (x, s1)" by fastforce
    show ?thesis
    proof (cases x)
      case (Inl err)
      with assms(1,6) Some ex returned show ?thesis by (auto simp: audio_charged_def)
    next
      case (Inr hq)
      obtain h q where hq: "hq = (h, q)" by (cases hq)
      have "small q" using assms(5) ex Inr hq by blast
      with assms(1,6) Some ex Inr hq bill show ?thesis by (auto simp: audio_charged_def)
    qed
  qed
qed

definition audio_env :: AudioEnv where
  "audio_env = \<lparr>AE_decode_tts = (\<lambda>_. Inl ErrJSON), AE_read_body = None, AE_new_request = (\<lambda>_. None),
     AE_do = (\<lambda>_. Inr \<lparr>H_StatusCode = 200, H_ContentType = ''text/plain'', H_Body = Inr ''hello'', H_CloseErr = None\<rparr>),
     AE_close_request = None, AE_close_client_body = None, AE_slim_error = (\<lambda>_. None), AE_show_code = (\<lambda>_. []),
     AE_response_format = ''text'', AE_whisper_json = (\<lambda>_. Inl ErrJSON), AE_whisper_verbose = (\<lambda>_. Inl ErrJSON),
     AE_copy = None\<rparr>"

definition audio_demo_env :: "unit RelayEnv" where
  "audio_demo_env = demo_env (relay_adaptor (Inl ErrDB) (None, None))"

lemma audio_demo_quota:
  "audio_exchange audio_demo_env audio_env AudioTranscription url ''whisper-1'' 0 s2 = (Inr (h, q), s3) \<Longrightarrow> q = 5"
  by (auto simp: audio_exchange_def audio_env_def audio_answer_def audio_transcribed_def audio_text_def
      getTextFromText_def trim_suffix_def has_suffix_def CountTokenText_def getTokenNum_def audio_demo_env_def
      demo_env_def split: prod.splits)

definition audio_demo_run :: "unit relay_result" where
  "audio_demo_run = audio_charged audio_demo_env audio_env demo_context demo_meta AudioTranscription ''whisper-1''
     (Fin 2) (Fin 1) 0 1000 demo_encoders relay_world"

theorem audio_settles_reservation_witness:
  "let jobs = fst (snd audio_demo_run); w1 = snd (snd (snd audio_demo_run));
       t = demo_token 7 1 50000 False
   in charged t 100000 0 relay_world (run_jobs configured_ratios jobs w1)
     \<or> (\<exists>q md. jobs = [JobBilling 7 (i64 (q - 1000)) q 1 3 (Fin 2) (Fin 1) md ''tok'']
          \<and> charged t 100000 q relay_world (run_jobs configured_ratios jobs w1))"
proof -
  define out jobs s' w1 where "out = fst audio_demo_run" and "jobs = fst (snd audio_demo_run)"
    and "s' = fst (snd (snd audio_demo_run))" and "w1 = snd (snd (snd audio_demo_run))"
  have run: "audio_charged audio_demo_env audio_env demo_context demo_meta AudioTranscription ''whisper-1''
     (Fin 2) (Fin 1) 0 1000 demo_encoders relay_world = (out, jobs, s', w1)"
    by (simp add: out_def jobs_def s'_def w1_def audio_demo_run_def)
  have ids: "C_Id demo_context = 1" "C_TokenId demo_context = 7" "C_ChannelId demo_context = 3"
    "C_TokenName demo_context = ''tok''"
    by (simp_all add: demo_context_def)
  have "fst (reserve_quota 1 7 1000 relay_world) = (1000, None)" by code_simp
  then obtain w2 where r2: "reserve_quota 1 7 1000 relay_world = ((1000, None), w2)" by (metis prod.collapse)
  have "w2 = w1"
    using run r2 by (auto simp: audio_charged_def ids split: prod.splits option.splits sum.splits)
  with r2 have r: "reserve_quota (C_Id demo_context) (C_TokenId demo_context) 1000 relay_world = ((1000, None), w1)"
    by (simp add: ids)
  have q: "small q" if "audio_exchange audio_demo_env audio_env AudioTranscription url ''whisper-1'' 0 s2
      = (Inr (h, q), s3)" for url s2 h q s3
    using audio_demo_quota [OF that] by (simp add: small_def)
  have p: "payer (C_Id demo_context) (C_TokenId demo_context) (demo_token 7 1 50000 False) 100000 relay_world"
    using relay_world_payer by (simp add: ids)
  have n: "(0 :: int) \<le> 1000" "small 1000" by (simp_all add: small_def)
  have "charged (demo_token 7 1 50000 False) 100000 0 relay_world (run_jobs configured_ratios jobs w1)
     \<or> (\<exists>q md. jobs = [JobBilling (C_TokenId demo_context) (i64 (q - 1000)) q (C_Id demo_context)
            (C_ChannelId demo_context) (Fin 2) (Fin 1) md (C_TokenName demo_context)]
          \<and> charged (demo_token 7 1 50000 False) 100000 q relay_world (run_jobs configured_ratios jobs w1))"
    by (rule audio_settles_reservation [OF run p n _ r]) (erule q)
  then show ?thesis unfolding ids Let_def jobs_def w1_def .
qed

end
