(* ===== verification/RelayLoop.thy ===== *)
theory RelayLoop
  imports Authorize Monitor RelayAudio
begin

text \<open>
  From an admitted request to its answer: the choice of the channel (\<open>middleware/distributor.go\<close>)
  and the relay with its retries over other channels (\<open>controller/relay.go\<close>). Goroutines that an
  attempt starts are kept in a list; a schedule says how many of them have run before each
  further attempt.
\<close>

section \<open>Setting up a channel\<close>

text \<open>\<open>json.Unmarshal\<close> of a model mapping and of a channel configuration (its error is ignored).\<close>

record DistEnv =
  DE_json_map :: "string \<Rightarrow> (string \<times> string) list option"
  DE_json_config :: "string \<Rightarrow> ChannelConfig"

definition GetModelMapping :: "DistEnv \<Rightarrow> Channel \<Rightarrow> (string \<times> string) list option" where
  "GetModelMapping D ch = (case Channel_ModelMapping ch of
       None \<Rightarrow> None
     | Some s \<Rightarrow> if s = [] \<or> s = ''{}'' then None else DE_json_map D s)"

definition LoadConfig :: "DistEnv \<Rightarrow> Channel \<Rightarrow> ChannelConfig" where
  "LoadConfig D ch = (if Channel_Config ch = [] then empty_channel_config else DE_json_config D (Channel_Config ch))"

text \<open>The deprecated field \<open>Other\<close> fills one field of the configuration, by channel type.\<close>

definition config_with_other :: "Channel \<Rightarrow> ChannelConfig \<Rightarrow> ChannelConfig" where
  "config_with_other ch cc = (case Channel_Other ch of
       None \<Rightarrow> cc
     | Some other \<Rightarrow>
         if Channel_Type ch \<in> {CT_Azure, CT_Xunfei, CT_Gemini}
         then (if CC_APIVersion cc = [] then cc\<lparr>CC_APIVersion := other\<rparr> else cc)
         else if Channel_Type ch = CT_AIProxyLibrary
         then (if CC_LibraryID cc = [] then cc\<lparr>CC_LibraryID := other\<rparr> else cc)
         else if Channel_Type ch = CT_Ali
         then (if CC_Plugin cc = [] then cc\<lparr>CC_Plugin := other\<rparr> else cc)
         else cc)"

text \<open>A channel without a system prompt leaves the one that the context already has.\<close>

definition SetupContextForSelectedChannel ::
  "DistEnv \<Rightarrow> 'x GinContext_scheme \<Rightarrow> Channel \<Rightarrow> string \<Rightarrow> 'x GinContext_scheme" where
  "SetupContextForSelectedChannel D c ch modelName =
     c\<lparr>C_Channel := Channel_Type ch, C_ChannelId := Channel_Id ch, C_ChannelName := Channel_Name ch,
       C_SystemPrompt := (case Channel_SystemPrompt ch of
           None \<Rightarrow> C_SystemPrompt c
         | Some p \<Rightarrow> if p = [] then C_SystemPrompt c else p),
       C_ModelMapping := GetModelMapping D ch, C_OriginalModel := modelName,
       C_Authorization := ''Bearer '' @ Channel_Key ch, C_BaseURL := GetBaseURL ch,
       C_Config := Some (config_with_other ch (LoadConfig D ch))\<rparr>"

section \<open>The distributor\<close>

datatype 'c DistResult = DAbort int string | DNext 'c

definition distribute_specific ::
  "DistEnv \<Rightarrow> 'x GinContext_scheme \<Rightarrow> string \<Rightarrow> World \<Rightarrow> 'x GinContext_scheme DistResult \<times> World" where
  "distribute_specific D c channelId w = (case go_atoi channelId of
       None \<Rightarrow> (DAbort 400 ''invalid channel id'', w)
     | Some cid \<Rightarrow> (case GetChannelById cid True w of
           (Inl e, w1) \<Rightarrow> (DAbort 400 ''invalid channel id'', w1)
         | (Inr ch, w1) \<Rightarrow>
             if Channel_Status ch \<noteq> ChannelStatusEnabled then (DAbort 403 ''channel is disabled'', w1)
             else (DNext (SetupContextForSelectedChannel D c ch []), w1)))"

definition Distribute ::
  "DistEnv \<Rightarrow> (nat \<Rightarrow> nat) \<Rightarrow> routes \<Rightarrow> 'x GinContext_scheme \<Rightarrow> World \<Rightarrow> 'x GinContext_scheme DistResult \<times> World" where
  "Distribute D rand r c w = (case CacheGetUserGroup (C_Id c) w of
       ((userGroup, err), w1) \<Rightarrow>
         let c1 = c\<lparr>C_Group := userGroup\<rparr>
         in case C_SpecificChannelId c of
              Some channelId \<Rightarrow> distribute_specific D c1 channelId w1
            | None \<Rightarrow>
                (case CacheGetRandomSatisfiedChannel rand r userGroup (C_RequestModel c) False w1 of
                   (Inl e, w2) \<Rightarrow> (DAbort 503 ''no channel available'', w2)
                 | (Inr ch, w2) \<Rightarrow> (DNext (SetupContextForSelectedChannel D c1 ch (C_RequestModel c)), w2)))"

section \<open>The relay\<close>

datatype RelayJob = Bill Job | Metric int bool | ChannelFailed int RelayError

text \<open>
  What a relay works on: the tokenizer's map, the world, the success windows, the goroutines not
  yet run, and (for the statements below) the channels called so far.
\<close>

record 'enc System =
  Y_encoders :: "'enc Encoders"
  Y_world :: World
  Y_metric :: metric_store
  Y_pending :: "RelayJob list"
  Y_attempts :: "int list"

definition relayHelper ::
  "'enc RelayEnv \<Rightarrow> AudioEnv \<Rightarrow> GinContext \<Rightarrow> RelayMode \<Rightarrow> 'enc Encoders \<Rightarrow> World \<Rightarrow> 'enc relay_result" where
  "relayHelper E A c relayMode s w =
     (if relayMode = ImagesGenerations then RelayImageHelper E c s w
      else if relayMode \<in> {AudioSpeech, AudioTranslation, AudioTranscription} then RelayAudioHelper E A c relayMode s w
      else if relayMode = ProxyMode then RelayProxyHelper E c s w
      else RelayTextHelper E c s w)"

definition shouldRetry :: "GinContext \<Rightarrow> int \<Rightarrow> bool" where
  "shouldRetry c statusCode =
     (if C_SpecificChannelId c \<noteq> None then False
      else if statusCode = 429 then True
      else if go_div statusCode 100 = 5 then True
      else if statusCode = 400 then False
      else if go_div statusCode 100 = 2 then False
      else True)"

definition emit :: "int \<Rightarrow> bool \<Rightarrow> 'enc System \<Rightarrow> 'enc System" where
  "emit channelId success y = (case Emit channelId success (Y_metric y, Y_world y) of
       None \<Rightarrow> y
     | Some (store, w) \<Rightarrow> y\<lparr>Y_metric := store, Y_world := w\<rparr>)"

definition processChannelRelayError :: "int \<Rightarrow> RelayError \<Rightarrow> 'enc System \<Rightarrow> 'enc System" where
  "processChannelRelayError channelId err y =
     (if ShouldDisableChannel (cfg (Y_world y)) (Some err) (RE_StatusCode err)
      then y\<lparr>Y_world := DisableChannel channelId (Y_world y)\<rparr>
      else emit channelId False y)"

fun run_relay_job :: "Ratios \<Rightarrow> RelayJob \<Rightarrow> 'enc System \<Rightarrow> 'enc System" where
  "run_relay_job R (Bill j) y = y\<lparr>Y_world := run_job R j (Y_world y)\<rparr>"
| "run_relay_job R (Metric channelId success) y = emit channelId success y"
| "run_relay_job R (ChannelFailed channelId err) y = processChannelRelayError channelId err y"

text \<open>The first \<open>n\<close> waiting goroutines run.\<close>

definition drain :: "Ratios \<Rightarrow> nat \<Rightarrow> 'enc System \<Rightarrow> 'enc System" where
  "drain R n y = fold (run_relay_job R) (take n (Y_pending y)) (y\<lparr>Y_pending := drop n (Y_pending y)\<rparr>)"

definition relay_attempt ::
  "'enc RelayEnv \<Rightarrow> AudioEnv \<Rightarrow> GinContext \<Rightarrow> RelayMode \<Rightarrow> 'enc System \<Rightarrow> Outcome \<times> 'enc System" where
  "relay_attempt E A c relayMode y = (case relayHelper E A c relayMode (Y_encoders y) (Y_world y) of
       (out, jobs, s, w) \<Rightarrow>
         (out, y\<lparr>Y_encoders := s, Y_world := w, Y_pending := Y_pending y @ map Bill jobs,
                 Y_attempts := Y_attempts y @ [C_ChannelId c]\<rparr>))"

definition failed :: "int \<Rightarrow> RelayError \<Rightarrow> 'enc System \<Rightarrow> 'enc System" where
  "failed channelId err y = y\<lparr>Y_pending := Y_pending y @ [ChannelFailed channelId err]\<rparr>"

text \<open>
  The retry loop, from \<open>i = retryTimes\<close> down to 1: \<open>rand i\<close> and \<open>sched i\<close> are the random source and
  the schedule of round \<open>i\<close>. A selection that fails ends it; the channel that failed last is
  skipped, and the round is spent.
\<close>

fun relay_retry ::
  "'enc RelayEnv \<Rightarrow> AudioEnv \<Rightarrow> DistEnv \<Rightarrow> (nat \<Rightarrow> nat \<Rightarrow> nat) \<Rightarrow> (nat \<Rightarrow> nat) \<Rightarrow> routes \<Rightarrow> int \<Rightarrow> RelayMode
     \<Rightarrow> nat \<Rightarrow> int \<Rightarrow> RelayError \<Rightarrow> GinContext \<Rightarrow> 'enc System \<Rightarrow> Outcome \<times> 'enc System" where
  "relay_retry E A D rand sched r retryTimes relayMode 0 lastFailed bizErr c y = (Returned (Some bizErr), y)"
| "relay_retry E A D rand sched r retryTimes relayMode (Suc n) lastFailed bizErr c y =
     (case CacheGetRandomSatisfiedChannel (rand (Suc n)) r (C_Group c) (C_OriginalModel c)
             (int (Suc n) \<noteq> retryTimes) (Y_world (drain (RV_ratios E) (sched (Suc n)) y)) of
        (Inl e, w) \<Rightarrow> (Returned (Some bizErr), (drain (RV_ratios E) (sched (Suc n)) y)\<lparr>Y_world := w\<rparr>)
      | (Inr ch, w) \<Rightarrow>
          if Channel_Id ch = lastFailed
          then relay_retry E A D rand sched r retryTimes relayMode n lastFailed bizErr c
                 ((drain (RV_ratios E) (sched (Suc n)) y)\<lparr>Y_world := w\<rparr>)
          else (case relay_attempt E A (SetupContextForSelectedChannel D c ch (C_OriginalModel c)) relayMode
                       ((drain (RV_ratios E) (sched (Suc n)) y)\<lparr>Y_world := w\<rparr>) of
              (Returned (Some err), y1) \<Rightarrow>
                relay_retry E A D rand sched r retryTimes relayMode n (Channel_Id ch) err
                  (SetupContextForSelectedChannel D c ch (C_OriginalModel c)) (failed (Channel_Id ch) err y1)
            | (out, y1) \<Rightarrow> (out, y1)))"

text \<open>The error that the client sees: one message for every 429, and the request id.\<close>

definition client_error :: "string \<Rightarrow> RelayError \<Rightarrow> RelayError" where
  "client_error requestId err =
     err\<lparr>RE_Message := (if RE_StatusCode err = 429 then ''upstream saturated for this group, try again later''
                        else RE_Message err) @ '' (request id: '' @ requestId @ '')''\<rparr>"

definition relay_answer :: "string \<Rightarrow> Outcome \<Rightarrow> Outcome" where
  "relay_answer requestId out = (case out of
       Returned (Some err) \<Rightarrow> Returned (Some (client_error requestId err))
     | _ \<Rightarrow> out)"

definition Relay ::
  "'enc RelayEnv \<Rightarrow> AudioEnv \<Rightarrow> DistEnv \<Rightarrow> (nat \<Rightarrow> nat \<Rightarrow> nat) \<Rightarrow> (nat \<Rightarrow> nat) \<Rightarrow> routes \<Rightarrow> string \<Rightarrow> GinContext
     \<Rightarrow> 'enc System \<Rightarrow> Outcome \<times> 'enc System" where
  "Relay E A D rand sched r requestId c y =
     (case relay_attempt E A c (GetByPath (C_Path c)) y of
        (Panic, y1) \<Rightarrow> (Panic, y1)
      | (Returned None, y1) \<Rightarrow> (Returned None, y1\<lparr>Y_pending := Y_pending y1 @ [Metric (C_ChannelId c) True]\<rparr>)
      | (Returned (Some bizErr), y1) \<Rightarrow>
          (case relay_retry E A D rand sched r (RetryTimes (cfg (Y_world y1))) (GetByPath (C_Path c))
                  (if shouldRetry c (RE_StatusCode bizErr) then nat (RetryTimes (cfg (Y_world y1))) else 0)
                  (C_ChannelId c) bizErr c (failed (C_ChannelId c) bizErr y1) of
             (out, y2) \<Rightarrow> (relay_answer requestId out, y2)))"

section \<open>How often, and on which channels\<close>

lemma Y_attempts_job [simp]: "Y_attempts (run_relay_job R j y) = Y_attempts y"
  by (cases j) (auto simp: emit_def processChannelRelayError_def split: option.splits)

lemma Y_attempts_drain [simp]: "Y_attempts (drain R n y) = Y_attempts y"
proof -
  have "Y_attempts (fold (run_relay_job R) js z) = Y_attempts z" for js and z :: "'a System"
    by (induction js arbitrary: z) simp_all
  then show ?thesis by (simp add: drain_def)
qed

lemma Y_attempts_failed [simp]: "Y_attempts (failed k e y) = Y_attempts y"
  by (simp add: failed_def)

lemma Y_attempts_attempt:
  "relay_attempt E A c m y = (out, y1) \<Longrightarrow> Y_attempts y1 = Y_attempts y @ [C_ChannelId c]"
  by (auto simp: relay_attempt_def split: prod.splits)

lemma SetupContext_channel [simp]: "C_ChannelId (SetupContextForSelectedChannel D c ch m) = Channel_Id ch"
  by (simp add: SetupContextForSelectedChannel_def)

lemma relay_retry_attempts:
  "relay_retry E A D rand sched r rt m n lastFailed err c y = (out, y2) \<Longrightarrow>
     \<exists>xs. Y_attempts y2 = Y_attempts y @ xs \<and> length xs \<le> n \<and> distinct_adj (lastFailed # xs)"
proof (induction n arbitrary: lastFailed err c y)
  case 0
  then show ?case by simp
next
  case (Suc n)
  let ?y = "drain (RV_ratios E) (sched (Suc n)) y"
  obtain sel w where s: "CacheGetRandomSatisfiedChannel (rand (Suc n)) r (C_Group c) (C_OriginalModel c)
      (int (Suc n) \<noteq> rt) (Y_world ?y) = (sel, w)" by fastforce
  show ?case
  proof (cases sel)
    case (Inl e)
    with Suc.prems s show ?thesis by auto
  next
    case (Inr ch)
    show ?thesis
    proof (cases "Channel_Id ch = lastFailed")
      case True
      with Suc.prems s Inr
      have "relay_retry E A D rand sched r rt m n lastFailed err c (?y\<lparr>Y_world := w\<rparr>) = (out, y2)" by simp
      from Suc.IH [OF this] show ?thesis by fastforce
    next
      case False
      let ?c = "SetupContextForSelectedChannel D c ch (C_OriginalModel c)"
      obtain o1 y1 where a: "relay_attempt E A ?c m (?y\<lparr>Y_world := w\<rparr>) = (o1, y1)" by fastforce
      note att = Y_attempts_attempt [OF a]
      show ?thesis
      proof (cases "\<exists>e. o1 = Returned (Some e)")
        case True
        then obtain e where e: "o1 = Returned (Some e)" by blast
        with Suc.prems s Inr False a
        have "relay_retry E A D rand sched r rt m n (Channel_Id ch) e ?c (failed (Channel_Id ch) e y1) = (out, y2)"
          by simp
        from Suc.IH [OF this] obtain xs where "Y_attempts y2 = Y_attempts y1 @ xs" "length xs \<le> n"
          "distinct_adj (Channel_Id ch # xs)" by auto
        with att False show ?thesis by (intro exI [of _ "Channel_Id ch # xs"]) simp
      next
        case e: False
        then have "y2 = y1" using Suc.prems s Inr False a by (cases o1) (auto split: option.splits)
        with att False show ?thesis by (intro exI [of _ "[Channel_Id ch]"]) simp
      qed
    qed
  qed
qed

text \<open>
  C23. A relayed request calls its own channel first and at most \<open>RetryTimes\<close> others after it; no
  channel is called twice in a row; a request pinned to a channel calls that channel only. So
  every relay ends, whatever the upstreams, the random source and the schedule of the goroutines.
\<close>

theorem relay_attempts_bounded:
  assumes "Y_attempts y = []" "relay_attempt E A c (GetByPath (C_Path c)) y = (first, y1)"
    and "Relay E A D rand sched r requestId c y = (out, y2)"
  shows "hd (Y_attempts y2) = C_ChannelId c \<and> Y_attempts y2 \<noteq> []
     \<and> length (Y_attempts y2) \<le> 1 + nat (RetryTimes (cfg (Y_world y1)))
     \<and> distinct_adj (Y_attempts y2)
     \<and> (C_SpecificChannelId c = None \<or> Y_attempts y2 = [C_ChannelId c])"
proof -
  note att = Y_attempts_attempt [OF assms(2)]
  show ?thesis
  proof (cases "\<exists>e. first = Returned (Some e)")
    case False
    then have "Y_attempts y2 = Y_attempts y1"
      using assms(2,3) by (cases first) (auto simp: Relay_def split: option.splits)
    then show ?thesis using att assms(1) by simp
  next
    case True
    then obtain e where e: "first = Returned (Some e)" by blast
    let ?n = "if shouldRetry c (RE_StatusCode e) then nat (RetryTimes (cfg (Y_world y1))) else 0"
    obtain out' where rr: "relay_retry E A D rand sched r (RetryTimes (cfg (Y_world y1))) (GetByPath (C_Path c)) ?n
        (C_ChannelId c) e c (failed (C_ChannelId c) e y1) = (out', y2)"
      using assms(2,3) e by (auto simp: Relay_def split: prod.splits)
    from relay_retry_attempts [OF rr] obtain xs where xs: "Y_attempts y2 = Y_attempts y1 @ xs"
      "length xs \<le> ?n" "distinct_adj (C_ChannelId c # xs)" by auto
    have "xs = []" if "C_SpecificChannelId c \<noteq> None" using xs(2) that by (simp add: shouldRetry_def)
    then show ?thesis using xs att assms(1) by (cases "C_SpecificChannelId c") (auto split: if_splits)
  qed
qed

lemma auth_channel_param:
  "auth_channel parts t c w = (Next c', w') \<Longrightarrow> R_ParamChannelId c \<noteq> [] \<Longrightarrow>
     C_SpecificChannelId c' = Some (R_ParamChannelId c)"
  by (auto simp: auth_channel_def split: if_splits prod.splits bool.splits option.splits)

lemma TokenAuth_param:
  "TokenAuth E c w = (Next c', w') \<Longrightarrow> R_ParamChannelId c \<noteq> [] \<Longrightarrow> C_SpecificChannelId c' = Some (R_ParamChannelId c)"
  by (auto simp: TokenAuth_def auth_model_def Let_def token_context_def dest!: auth_channel_param
      split: if_splits prod.splits sum.splits option.splits)

lemma show_int_not_Nil [simp]: "show_int k \<noteq> []"
  by (simp add: show_int_def)

text \<open>
  The channel in the path of a proxy request is used whoever calls: when the token is let
  through, the distributor sets up the named channel, with its key, if it is enabled, and looks
  neither at the role nor at the group of the user.
\<close>

theorem proxy_path_picks_any_channel:
  assumes "TokenAuth E c w = (Next c', w')" "R_ParamChannelId c = show_int k" "in_i64 k"
    and "faults w' = []" "\<not> RedisEnabled (cfg w')"
    and "find (\<lambda>ch. Channel_Id ch = k) (db_channels (db w')) = Some ch" "Channel_Status ch = ChannelStatusEnabled"
  shows "(case fst (Distribute D rand r c' w') of
       DAbort code msg \<Rightarrow> False
     | DNext c'' \<Rightarrow> C_ChannelId c'' = k \<and> C_Authorization c'' = ''Bearer '' @ Channel_Key ch)"
proof -
  have k: "Channel_Id ch = k" using assms(6) by (auto dest: find_Some_mem)
  have named: "C_SpecificChannelId c' = Some (show_int k)"
    using TokenAuth_param [OF assms(1)] assms(2) by simp
  obtain grp where g: "CacheGetUserGroup (C_Id c') w' = ((grp, None), w')"
    using assms(4,5) by (simp add: CacheGetUserGroup_def GetUserGroup_def sql_find_col_def)
  have "GetChannelById k True w' = (Inr ch, w')"
    using assms(4,6) by (simp add: GetChannelById_def sql_first_def)
  then have "distribute_specific D (c'\<lparr>C_Group := grp\<rparr>) (show_int k) w' =
      (DNext (SetupContextForSelectedChannel D (c'\<lparr>C_Group := grp\<rparr>) ch []), w')"
    using assms(3,7) by (simp add: distribute_specific_def atoi_show_int)
  then show ?thesis
    using g named k by (simp add: Distribute_def SetupContextForSelectedChannel_def)
qed

section \<open>Witnesses\<close>

definition loop_world :: World where
  "loop_world = demo_channel_world\<lparr>db := (db demo_channel_world)\<lparr>db_users := [demo_user 1 100000],
     db_tokens := [demo_token 7 1 50000 False]\<rparr>, cfg := default_cfg\<lparr>RetryTimes := 2\<rparr>\<rparr>"

definition loop_request :: "string \<Rightarrow> RequestContext" where
  "loop_request channelid = GinContext.extend
     (demo_context\<lparr>C_Path := ''/v1/oneapi/proxy/2/x'', C_Authorization := ''Bearer sk-key''\<rparr>)
     \<lparr>R_Method = ''POST'', R_ClientIP = ''10.0.0.1'', R_ParamChannelId = channelid, R_AvailableModels = []\<rparr>"

definition loop_auth :: AuthEnv where
  "loop_auth = \<lparr>AU_cidr = (\<lambda>_. None), AU_decode_model = (\<lambda>_. Inr ''m1''), AU_blackList = (\<lambda>_. False)\<rparr>"

definition loop_admitted :: "string \<Rightarrow> RequestContext" where
  "loop_admitted channelid = (case fst (TokenAuth loop_auth (loop_request channelid) loop_world) of
     Next c \<Rightarrow> c | Abort code msg \<Rightarrow> loop_request channelid)"

definition loop_dist :: DistEnv where
  "loop_dist = \<lparr>DE_json_map = (\<lambda>_. None), DE_json_config = (\<lambda>_. empty_channel_config)\<rparr>"

lemma loop_admit:
  "TokenAuth loop_auth (loop_request '''') loop_world = (Next (loop_admitted ''''), loop_world)"
  "TokenAuth loop_auth (loop_request ''2'') loop_world = (Next (loop_admitted ''2''), loop_world)"
proof -
  have f: "fst (TokenAuth loop_auth (loop_request p) loop_world) = Next (loop_admitted p)"
    if "case fst (TokenAuth loop_auth (loop_request p) loop_world) of Next c \<Rightarrow> True | Abort code msg \<Rightarrow> False" for p
    using that by (simp add: loop_admitted_def split: TokenAuthResult.splits)
  have n: "faults loop_world = []" "\<not> RedisEnabled (cfg loop_world)"
    using demo_channel_synced by (simp_all add: loop_world_def default_cfg_def)
  have v: "ValidateUserToken ''key'' loop_world = (Inr (demo_token 7 1 50000 False), loop_world)"
    using n by (simp add: ValidateUserToken_def CacheGetTokenByKey_def sql_first_def loop_world_def demo_token_def
        TokenStatusExhausted_def TokenStatusExpired_def TokenStatusEnabled_def)
  have k: "hd (auth_key_parts (C_Authorization (loop_request p))) = ''key''"
    "length (auth_key_parts (C_Authorization (loop_request p))) = 1" for p
    by (simp_all add: loop_request_def GinContext.defs) code_simp+
  have e: "CacheIsUserEnabled 1 loop_world = (Inr True, loop_world)"
    using n by (simp add: CacheIsUserEnabled_def IsUserEnabled_def sql_find_col_def loop_world_def demo_user_def
        UserStatusEnabled_def)
  have s: "snd (TokenAuth loop_auth (loop_request p) loop_world) = loop_world" for p
    using v k e by (simp add: TokenAuth_def subnet_ok_def demo_token_def loop_auth_def IsUserBanned_def
        auth_model_def getRequestModel_def auth_channel_def Let_def)
  have "case fst (TokenAuth loop_auth (loop_request '''') loop_world) of Next c \<Rightarrow> True | Abort code msg \<Rightarrow> False"
    "case fst (TokenAuth loop_auth (loop_request ''2'') loop_world) of Next c \<Rightarrow> True | Abort code msg \<Rightarrow> False"
    by code_simp+
  then show "TokenAuth loop_auth (loop_request '''') loop_world = (Next (loop_admitted ''''), loop_world)"
    "TokenAuth loop_auth (loop_request ''2'') loop_world = (Next (loop_admitted ''2''), loop_world)"
    using f s by (simp_all add: prod_eq_iff)
qed

theorem TokenAuth_admits_witness:
  "\<exists>t. token_usable t (clock loop_world) \<and> C_TokenId (loop_admitted '''') = Token_Id t
     \<and> t \<in> set (db_tokens (db loop_world)) \<and> Token_Key t = ''key''"
proof -
  have r: "\<not> RedisEnabled (cfg loop_world)" by (simp add: loop_world_def default_cfg_def)
  have k: "hd (auth_key_parts (C_Authorization (loop_request ''''))) = ''key''" by code_simp
  show ?thesis using TokenAuth_admits [OF loop_admit(1)] r k by auto
qed

theorem proxy_path_picks_any_channel_witness:
  "(case fst (Distribute loop_dist (\<lambda>n. 0) (\<lambda>_. None) (loop_admitted ''2'') loop_world) of
       DAbort code msg \<Rightarrow> False
     | DNext c \<Rightarrow> C_ChannelId c = 2 \<and> C_Authorization c = ''Bearer sk'')
   \<and> User_Role (hd (db_users (db loop_world))) = RoleCommonUser"
proof -
  have w: "faults loop_world = []" "\<not> RedisEnabled (cfg loop_world)"
    using demo_channel_synced by (simp_all add: loop_world_def default_cfg_def)
  have f: "find (\<lambda>ch. Channel_Id ch = 2) (db_channels (db loop_world)) = Some (db_channels (db loop_world) ! 1)"
    and s: "Channel_Status (db_channels (db loop_world) ! 1) = ChannelStatusEnabled"
    and y: "Channel_Key (db_channels (db loop_world) ! 1) = ''sk''"
    and p: "R_ParamChannelId (loop_request ''2'') = show_int 2"
    and u: "User_Role (hd (db_users (db loop_world))) = RoleCommonUser" by code_simp+
  have "in_i64 2" by (simp add: in_i64_def)
  from proxy_path_picks_any_channel [OF loop_admit(2) p this w f s, of loop_dist "\<lambda>n. 0" "\<lambda>_. None"] y u
  show ?thesis by (simp split: DistResult.splits)
qed

definition loop_system :: "unit System" where
  "loop_system = \<lparr>Y_encoders = demo_encoders, Y_world = loop_world, Y_metric = (\<lambda>_. []), Y_pending = [], Y_attempts = []\<rparr>"

definition loop_context :: GinContext where
  "loop_context = demo_context\<lparr>C_Path := ''/v1/oneapi/proxy/3/x'', C_Group := ''vip'', C_OriginalModel := ''m1''\<rparr>"

definition loop_run :: "Outcome \<times> unit System" where
  "loop_run = Relay (demo_env (relay_adaptor (Inl ErrDB) (None, None))) audio_env loop_dist (\<lambda>i n. 0) (\<lambda>i. 1)
     (\<lambda>_. None) ''r1'' loop_context loop_system"

theorem relay_attempts_bounded_witness:
  "Y_attempts (snd loop_run) = [3, 1] \<and> length (Y_attempts (snd loop_run)) \<le> 3"
proof
  show "Y_attempts (snd loop_run) = [3, 1]" by code_simp
  let ?a = "relay_attempt (demo_env (relay_adaptor (Inl ErrDB) (None, None))) audio_env loop_context
     (GetByPath (C_Path loop_context)) loop_system"
  have n: "RetryTimes (cfg (Y_world (snd ?a))) = 2" by code_simp
  have "Y_attempts loop_system = []" by (simp add: loop_system_def)
  from relay_attempts_bounded [OF this, of "demo_env (relay_adaptor (Inl ErrDB) (None, None))" audio_env loop_context
      "fst ?a" "snd ?a" loop_dist "\<lambda>i n. 0" "\<lambda>i. 1" "\<lambda>_. None" "''r1''" "fst loop_run" "snd loop_run"] n
  show "length (Y_attempts (snd loop_run)) \<le> 3" by (simp add: loop_run_def)
qed

end
