(* ===== verification/RateLimit.thy ===== *)
theory RateLimit
  imports GoPrelude
begin

text \<open>
  The two rate limiters (\<open>common/rate-limit.go\<close>, \<open>middleware/rate-limit.go\<close>), one over a map in
  memory and one over lists in Redis, and the sliding window that both implement.
\<close>

section \<open>The limiter in memory\<close>

text \<open>
  \<open>RL_expiration\<close> is \<open>expirationDuration\<close> in whole seconds; times are Unix seconds. A result
  \<open>None\<close> is a panic (\<open>make\<close> with a negative capacity, index 0 of an empty slice); the deferred
  unlock runs and the map is as it was.
\<close>

record InMemoryRateLimiter =
  RL_store :: "string \<Rightarrow> int list option"
  RL_expiration :: int

definition expired_queue :: "int \<Rightarrow> int \<Rightarrow> int list \<Rightarrow> bool" where
  "expired_queue expiration now queue \<longleftrightarrow> queue = [] \<or> expiration < i64 (now - last queue)"

definition clearExpiredItems :: "int \<Rightarrow> InMemoryRateLimiter \<Rightarrow> InMemoryRateLimiter" where
  "clearExpiredItems now l = l\<lparr>RL_store := (\<lambda>key. case RL_store l key of
       None \<Rightarrow> None
     | Some queue \<Rightarrow> if expired_queue (RL_expiration l) now queue then None else Some queue)\<rparr>"

definition Request :: "string \<Rightarrow> int \<Rightarrow> int \<Rightarrow> int \<Rightarrow> InMemoryRateLimiter \<Rightarrow> bool option \<times> InMemoryRateLimiter" where
  "Request key maxRequestNum duration now l = (case RL_store l key of
       Some queue \<Rightarrow>
         if int (length queue) < maxRequestNum
         then (Some True, l\<lparr>RL_store := (RL_store l)(key \<mapsto> queue @ [now])\<rparr>)
         else (case queue of
             [] \<Rightarrow> (None, l)
           | old # rest \<Rightarrow>
               if duration \<le> i64 (now - old)
               then (Some True, l\<lparr>RL_store := (RL_store l)(key \<mapsto> rest @ [now])\<rparr>)
               else (Some False, l))
     | None \<Rightarrow>
         if maxRequestNum < 0 then (None, l)
         else (Some True, l\<lparr>RL_store := (RL_store l)(key \<mapsto> [now])\<rparr>))"

section \<open>The limiter in Redis\<close>

text \<open>
  A Redis list holds the times of the accepted requests, the newest first, in milliseconds (the
  layout \<open>2006-01-02T15:04:05.000Z\<close> keeps three decimals), with the instant at which the key
  expires. \<open>fails\<close> says which of the Redis calls of one request fail: \<open>LLEN\<close> and \<open>LINDEX\<close> end in
  status 500 (a failed \<open>LINDEX\<close> leaves an empty string, which is no time); the errors of the
  others are ignored. A call on an expired key finds no list.
\<close>

type_synonym RedisLists = "string \<Rightarrow> (int list \<times> int) option"

datatype redis_call = LLEN | LINDEX | LPUSH | LTRIM | EXPIRE

datatype limit_verdict = Continue | Abort int

definition live_list :: "int \<Rightarrow> string \<Rightarrow> RedisLists \<Rightarrow> int list" where
  "live_list now key s = (case s key of
       None \<Rightarrow> []
     | Some (xs, deadline) \<Rightarrow> if now < deadline then xs else [])"

definition live_deadline :: "int \<Rightarrow> string \<Rightarrow> RedisLists \<Rightarrow> int" where
  "live_deadline now key s = (case s key of
       None \<Rightarrow> now
     | Some (xs, deadline) \<Rightarrow> deadline)"

text \<open>
  The keys a write touches: \<open>LPUSH\<close> creates a list without a deadline, which is written here as
  one that lies after every instant (\<open>no_deadline\<close>).
\<close>

definition no_deadline :: int where "no_deadline = 2 ^ 62"

definition LPush :: "(redis_call \<Rightarrow> bool) \<Rightarrow> int \<Rightarrow> string \<Rightarrow> int \<Rightarrow> RedisLists \<Rightarrow> RedisLists" where
  "LPush fails now key x s = (if fails LPUSH then s else
     case live_list now key s of
       [] \<Rightarrow> s(key \<mapsto> ([x], no_deadline))
     | ys \<Rightarrow> s(key \<mapsto> (x # ys, live_deadline now key s)))"

definition LTrim :: "(redis_call \<Rightarrow> bool) \<Rightarrow> int \<Rightarrow> string \<Rightarrow> nat \<Rightarrow> RedisLists \<Rightarrow> RedisLists" where
  "LTrim fails now key n s = (if fails LTRIM then s else
     case live_list now key s of
       [] \<Rightarrow> s
     | ys \<Rightarrow> s(key \<mapsto> (take n ys, live_deadline now key s)))"

definition Expire :: "(redis_call \<Rightarrow> bool) \<Rightarrow> int \<Rightarrow> string \<Rightarrow> int \<Rightarrow> RedisLists \<Rightarrow> RedisLists" where
  "Expire fails now key ttl s = (if fails EXPIRE then s else
     case live_list now key s of
       [] \<Rightarrow> s
     | ys \<Rightarrow> s(key \<mapsto> (ys, now + ttl)))"

text \<open>
  \<open>ttl\<close> is \<open>config.RateLimitKeyExpirationDuration\<close> in milliseconds; the elapsed seconds are
  truncated as the conversion to \<open>int64\<close> does.
\<close>

definition redisRateLimiter ::
  "(redis_call \<Rightarrow> bool) \<Rightarrow> int \<Rightarrow> string \<Rightarrow> int \<Rightarrow> int \<Rightarrow> int \<Rightarrow> RedisLists \<Rightarrow> limit_verdict \<times> RedisLists" where
  "redisRateLimiter fails ttl key maxRequestNum duration now s =
     (if fails LLEN then (Abort 500, s)
      else if int (length (live_list now key s)) < maxRequestNum
      then (Continue, Expire fails now key ttl (LPush fails now key now s))
      else if fails LINDEX \<or> live_list now key s = [] then (Abort 500, s)
      else if go_div (now - last (live_list now key s)) 1000 < duration
      then (Abort 429, Expire fails now key ttl s)
      else (Continue, Expire fails now key ttl
              (LTrim fails now key (nat maxRequestNum) (LPush fails now key now s))))"

section \<open>The middleware\<close>

definition memoryRateLimiter ::
  "string \<Rightarrow> string \<Rightarrow> int \<Rightarrow> int \<Rightarrow> int \<Rightarrow> InMemoryRateLimiter \<Rightarrow> limit_verdict option \<times> InMemoryRateLimiter" where
  "memoryRateLimiter mark ip maxRequestNum duration now l =
     (case Request (mark @ ip) maxRequestNum duration now l of
        (None, l1) \<Rightarrow> (None, l1)
      | (Some ok, l1) \<Rightarrow> (Some (if ok then Continue else Abort 429), l1))"

record RateLimitConfig =
  RC_DebugEnabled :: bool
  RC_RedisEnabled :: bool
  RC_KeyExpiration :: int

record RateLimitState =
  RS_memory :: InMemoryRateLimiter
  RS_redis :: RedisLists

text \<open>\<open>config.RateLimitKeyExpirationDuration\<close> in seconds; \<open>nowms\<close> is the clock in milliseconds.\<close>

definition rateLimitFactory ::
  "RateLimitConfig \<Rightarrow> (redis_call \<Rightarrow> bool) \<Rightarrow> string \<Rightarrow> int \<Rightarrow> int \<Rightarrow> string \<Rightarrow> int \<Rightarrow> RateLimitState
     \<Rightarrow> limit_verdict option \<times> RateLimitState" where
  "rateLimitFactory cf fails ip maxRequestNum duration mark nowms s =
     (if maxRequestNum = 0 \<or> RC_DebugEnabled cf then (Some Continue, s)
      else if RC_RedisEnabled cf then
        (case redisRateLimiter fails (1000 * RC_KeyExpiration cf) (''rateLimit:'' @ mark @ ip)
                maxRequestNum duration nowms (RS_redis s) of
           (v, r) \<Rightarrow> (Some v, s\<lparr>RS_redis := r\<rparr>))
      else (case memoryRateLimiter mark ip maxRequestNum duration (nowms div 1000) (RS_memory s) of
           (v, l) \<Rightarrow> (v, s\<lparr>RS_memory := l\<rparr>)))"

section \<open>A sliding window\<close>

text \<open>
  What a limiter promises for one key: of the requests it has let through, fewer than \<open>N\<close> lie in
  the last \<open>D\<close> units of time when it lets another one through, and it refuses one only then.
\<close>

definition window_admits :: "nat \<Rightarrow> int \<Rightarrow> int list \<Rightarrow> int \<Rightarrow> bool" where
  "window_admits N D H now \<longleftrightarrow> length (filter (\<lambda>h. now - h < D) H) < N"

definition window_step :: "nat \<Rightarrow> int \<Rightarrow> int \<Rightarrow> int list \<Rightarrow> int list" where
  "window_step N D now H = (if window_admits N D H now then H @ [now] else H)"

text \<open>Requests on the key, and anything else that happens to the limiter in between.\<close>

datatype 'e limiter_event = Arrive int | Other int 'e

fun event_time :: "'e limiter_event \<Rightarrow> int" where
  "event_time (Arrive t) = t"
| "event_time (Other t e) = t"

fun window_decisions :: "nat \<Rightarrow> int \<Rightarrow> 'e limiter_event list \<Rightarrow> int list \<Rightarrow> bool list" where
  "window_decisions N D [] H = []"
| "window_decisions N D (Arrive t # es) H = window_admits N D H t # window_decisions N D es (window_step N D t H)"
| "window_decisions N D (Other t e # es) H = window_decisions N D es H"

fun window_history :: "nat \<Rightarrow> int \<Rightarrow> 'e limiter_event list \<Rightarrow> int list \<Rightarrow> int list" where
  "window_history N D [] H = H"
| "window_history N D (Arrive t # es) H = window_history N D es (window_step N D t H)"
| "window_history N D (Other t e # es) H = window_history N D es H"

fun in_order :: "int \<Rightarrow> 'e limiter_event list \<Rightarrow> bool" where
  "in_order t [] \<longleftrightarrow> True"
| "in_order t (e # es) \<longleftrightarrow> t \<le> event_time e \<and> event_time e < 2 ^ 61 \<and> in_order (event_time e) es"

text \<open>The limiter as it runs: the answer to each arrival (\<open>None\<close> is a panic).\<close>

fun limiter_decisions ::
  "(int \<Rightarrow> 's \<Rightarrow> bool option \<times> 's) \<Rightarrow> (int \<Rightarrow> 'e \<Rightarrow> 's \<Rightarrow> 's) \<Rightarrow> 'e limiter_event list \<Rightarrow> 's \<Rightarrow> bool option list" where
  "limiter_decisions req other [] s = []"
| "limiter_decisions req other (Arrive t # es) s =
     fst (req t s) # limiter_decisions req other es (snd (req t s))"
| "limiter_decisions req other (Other t e # es) s = limiter_decisions req other es (other t e s)"

text \<open>The contract of a limiter: a relation between the history, the clock and its state.\<close>

locale window_limiter =
  fixes N :: nat and D :: int
    and req :: "int \<Rightarrow> 's \<Rightarrow> bool option \<times> 's"
    and other :: "int \<Rightarrow> 'e \<Rightarrow> 's \<Rightarrow> 's"
    and rel :: "int list \<Rightarrow> int \<Rightarrow> 's \<Rightarrow> bool"
  assumes req_admits: "rel H t s \<Longrightarrow> t \<le> now \<Longrightarrow> now < 2 ^ 61 \<Longrightarrow> fst (req now s) = Some (window_admits N D H now)"
    and req_rel: "rel H t s \<Longrightarrow> t \<le> now \<Longrightarrow> now < 2 ^ 61 \<Longrightarrow> rel (window_step N D now H) now (snd (req now s))"
    and other_rel: "rel H t s \<Longrightarrow> t \<le> now \<Longrightarrow> now < 2 ^ 61 \<Longrightarrow> rel H now (other now e s)"
begin

lemma decisions:
  "rel H t s \<Longrightarrow> in_order t es \<Longrightarrow>
     limiter_decisions req other es s = map Some (window_decisions N D es H)"
proof (induction es arbitrary: H t s)
  case (Cons e es)
  show ?case
  proof (cases e)
    case (Arrive now)
    with Cons.prems have now: "t \<le> now" "now < 2 ^ 61" "in_order now es" by simp_all
    with Cons.IH [OF req_rel [OF Cons.prems(1) now(1,2)]] show ?thesis
      using req_admits [OF Cons.prems(1) now(1,2)] by (simp add: Arrive)
  next
    case (Other now x)
    with Cons.prems have now: "t \<le> now" "now < 2 ^ 61" "in_order now es" by simp_all
    with Cons.IH [OF other_rel [OF Cons.prems(1) now(1,2)]] show ?thesis by (simp add: Other)
  qed
qed simp

end

text \<open>What the window gives: no stretch of \<open>D\<close> units contains more than \<open>N\<close> admitted requests.\<close>

definition spaced :: "nat \<Rightarrow> int \<Rightarrow> int list \<Rightarrow> bool" where
  "spaced N D H \<longleftrightarrow> (\<forall>i. i + N < length H \<longrightarrow> D \<le> H ! (i + N) - H ! i)"

lemma spaced_step:
  assumes "sorted H" "spaced N D H" "\<forall>h \<in> set H. h \<le> now" "0 < N"
  shows "spaced N D (window_step N D now H) \<and> sorted (window_step N D now H)
     \<and> (\<forall>h \<in> set (window_step N D now H). h \<le> now)"
proof (cases "window_admits N D H now")
  case True
  let ?r = "filter (\<lambda>h. now - h < D) H"
  have "D \<le> now - H ! i" if "i + N = length H" for i
  proof (rule ccontr)
    assume "\<not> D \<le> now - H ! i"
    moreover have "H ! i \<le> H ! j" if "i \<le> j" "j < length H" for j
      using assms(1) that by (simp add: sorted_nth_mono)
    ultimately have "now - H ! j < D" if "i \<le> j" "j < length H" for j using that by fastforce
    then have "set (drop i H) \<subseteq> {h. now - h < D}" using that assms(4)
      by (auto simp: set_conv_nth)
    then have "filter (\<lambda>h. now - h < D) (drop i H) = drop i H" by (intro filter_True) auto
    then have "length (drop i H) \<le> length ?r"
      by (metis append_take_drop_id filter_append length_append le_add2)
    moreover have "length ?r < N" using True by (simp add: window_admits_def)
    ultimately show False using that by simp
  qed
  then show ?thesis using True assms
    by (auto simp: window_step_def spaced_def nth_append sorted_append)
qed (use assms in \<open>simp add: window_step_def\<close>)

lemma spaced_history:
  "sorted H \<Longrightarrow> spaced N D H \<Longrightarrow> \<forall>h \<in> set H. h \<le> t \<Longrightarrow> 0 < N \<Longrightarrow> in_order t es \<Longrightarrow>
     spaced N D (window_history N D es H) \<and> sorted (window_history N D es H)"
proof (induction es arbitrary: H t)
  case (Cons e es)
  show ?case
  proof (cases e)
    case (Arrive now)
    have "\<forall>h \<in> set H. h \<le> now" using Cons.prems(3,5) Arrive by fastforce
    from spaced_step [OF Cons.prems(1,2) this Cons.prems(4)] Cons.IH [of "window_step N D now H" now] Cons.prems(4,5)
    show ?thesis by (simp add: Arrive)
  next
    case (Other now x)
    have "\<forall>h \<in> set H. h \<le> now" using Cons.prems(3,5) Other by fastforce
    with Cons.IH [of H now] Cons.prems show ?thesis by (simp add: Other)
  qed
qed simp

section \<open>The limiter in memory implements the window\<close>

text \<open>The state after a history: the queue is its recent end, the part before it has left the window.\<close>

definition memory_rel :: "string \<Rightarrow> nat \<Rightarrow> int \<Rightarrow> int list \<Rightarrow> int \<Rightarrow> InMemoryRateLimiter \<Rightarrow> bool" where
  "memory_rel k N D H t l \<longleftrightarrow> 0 < N \<and> D \<le> RL_expiration l + 1 \<and> sorted H \<and> (\<forall>h \<in> set H. 0 \<le> h \<and> h \<le> t) \<and> 0 \<le> t
     \<and> (case RL_store l k of
          None \<Rightarrow> \<forall>h \<in> set H. D \<le> t - h
        | Some q \<Rightarrow> \<exists>H1. H = H1 @ q \<and> q \<noteq> [] \<and> length q \<le> N \<and> (length q < N \<longrightarrow> (\<forall>h \<in> set H1. D \<le> t - h)))"

text \<open>Everything else that reaches the limiter: the sweep and requests on other keys.\<close>

datatype memory_event = Sweep | Hit string int int

fun memory_other :: "string \<Rightarrow> int \<Rightarrow> memory_event \<Rightarrow> InMemoryRateLimiter \<Rightarrow> InMemoryRateLimiter" where
  "memory_other k now Sweep l = clearExpiredItems now l"
| "memory_other k now (Hit key maxRequestNum duration) l =
     (if key = k then l else snd (Request key maxRequestNum duration now l))"

lemma i64_time: "0 \<le> a \<Longrightarrow> a \<le> b \<Longrightarrow> b < 2 ^ 61 \<Longrightarrow> i64 (b - a) = b - (a :: int)"
  by (rule i64_id) (simp add: in_i64_def)

lemma count_split: "length (filter P (xs @ ys)) = length (filter P xs) + length (filter P ys)"
  by simp

lemma expired_count:
  "\<forall>h \<in> set H. D \<le> now - h \<Longrightarrow> filter (\<lambda>h. now - h < D) H = ([] :: int list)"
  by (auto simp: filter_empty_conv not_less)

lemma memory_rel_mono:
  assumes "memory_rel k N D H t l" "t \<le> now"
  shows "memory_rel k N D H now l"
  using assms unfolding memory_rel_def by (fastforce split: option.splits)

lemma memory_request_other:
  assumes "key \<noteq> k"
  shows "RL_store (snd (Request key m d now l)) k = RL_store l k
     \<and> RL_expiration (snd (Request key m d now l)) = RL_expiration l"
  using assms by (auto simp: Request_def split: option.splits list.splits)

lemma memory_sweep:
  assumes "memory_rel k N D H now l" "now < 2 ^ 61"
  shows "memory_rel k N D H now (clearExpiredItems now l)"
proof (cases "RL_store l k")
  case None
  with assms show ?thesis by (simp add: memory_rel_def clearExpiredItems_def)
next
  case (Some q)
  then obtain H1 where H: "H = H1 @ q" "q \<noteq> []" using assms by (auto simp: memory_rel_def)
  show ?thesis
  proof (cases "expired_queue (RL_expiration l) now q")
    case True
    have l: "0 \<le> last q" "last q \<le> now" using assms(1) H by (auto simp: memory_rel_def)
    then have "RL_expiration l < now - last q"
      using True H(2) i64_time [OF l assms(2)] by (simp add: expired_queue_def)
    moreover have "h \<le> last q" if hm: "h \<in> set H" for h
    proof -
      obtain i where "i < length H" "h = H ! i" using hm by (auto simp: in_set_conv_nth)
      moreover have "sorted H" "last q = H ! (length H - 1)"
        using assms(1) H last_conv_nth [of H] by (simp_all add: memory_rel_def)
      ultimately show ?thesis by (simp add: sorted_nth_mono)
    qed
    moreover have "D \<le> RL_expiration l + 1" using assms(1) by (simp add: memory_rel_def)
    ultimately have "\<forall>h \<in> set H. D \<le> now - h" by fastforce
    with True Some assms show ?thesis by (simp add: memory_rel_def clearExpiredItems_def)
  next
    case False
    with Some assms show ?thesis by (simp add: memory_rel_def clearExpiredItems_def)
  qed
qed

lemma memory_request:
  assumes "memory_rel k N D H now l" "now < 2 ^ 61"
  shows "fst (Request k (int N) D now l) = Some (window_admits N D H now)
     \<and> memory_rel k N D (window_step N D now H) now (snd (Request k (int N) D now l))"
proof -
  have base: "0 < N" "D \<le> RL_expiration l + 1" "sorted H" "\<forall>h \<in> set H. 0 \<le> h \<and> h \<le> now" "0 \<le> now"
    using assms(1) by (auto simp: memory_rel_def)
  have sortedH: "sorted (H @ [now])" using base(3,4) by (auto simp: sorted_append)
  show ?thesis
  proof (cases "RL_store l k")
    case None
    then have "\<forall>h \<in> set H. D \<le> now - h" using assms(1) by (simp add: memory_rel_def)
    with base None sortedH show ?thesis
      by (auto simp: Request_def window_admits_def window_step_def expired_count memory_rel_def)
  next
    case (Some q)
    then obtain H1 where H: "H = H1 @ q" "q \<noteq> []" "length q \<le> N"
      "length q < N \<longrightarrow> (\<forall>h \<in> set H1. D \<le> now - h)" using assms(1) by (auto simp: memory_rel_def)
    show ?thesis
    proof (cases "length q < N")
      case True
      have "length (filter (\<lambda>h. now - h < D) q) < N" by (rule le_less_trans [OF length_filter_le True])
      then have "window_admits N D H now" using H True by (simp add: window_admits_def expired_count)
      with Some True H base sortedH show ?thesis
        by (auto simp: Request_def window_step_def memory_rel_def intro!: exI [of _ H1])
    next
      case False
      with H have len: "length q = N" by simp
      obtain x rest where q: "q = x # rest" using H(2) by (cases q) auto
      have x: "0 \<le> x" "x \<le> now" using base(4) H q by auto
      have i: "i64 (now - x) = now - x" by (rule i64_time [OF x assms(2)])
      show ?thesis
      proof (cases "D \<le> now - x")
        case True
        have "\<forall>h \<in> set (H1 @ [x]). D \<le> now - h"
          using base(3) H q True by (fastforce simp: sorted_append)
        then have "filter (\<lambda>h. now - h < D) H = filter (\<lambda>h. now - h < D) rest"
          using expired_count [of "H1 @ [x]" D now] H q by simp
        moreover have "length (filter (\<lambda>h. now - h < D) rest) < N"
          using len q by (intro le_less_trans [OF length_filter_le]) simp
        ultimately have "window_admits N D H now" using len q by (simp add: window_admits_def)
        with Some False len True H base sortedH q i show ?thesis
          by (auto simp: Request_def window_step_def memory_rel_def intro!: exI [of _ "H1 @ [x]"])
      next
        case fresh: False
        have "\<forall>h \<in> set q. now - h < D" using base(3) H q fresh by (fastforce simp: sorted_append)
        then have "filter (\<lambda>h. now - h < D) q = q" by (intro filter_True) auto
        then have "\<not> window_admits N D H now" using H len by (simp add: window_admits_def)
        with Some False len fresh H base assms(1) q i show ?thesis
          by (simp add: Request_def window_step_def)
      qed
    qed
  qed
qed

interpretation mem: window_limiter N D "Request k (int N) D" "memory_other k" "memory_rel k N D"
proof
  fix H t l now assume "memory_rel k N D H t l" "t \<le> now" "now < 2 ^ 61"
  then show "fst (Request k (int N) D now l) = Some (window_admits N D H now)"
    and "memory_rel k N D (window_step N D now H) now (snd (Request k (int N) D now l))"
    using memory_request [OF memory_rel_mono, of k N D H t l now] by blast+
next
  fix H t l now e assume "memory_rel k N D H t l" "t \<le> now" "now < 2 ^ 61"
  then have m: "memory_rel k N D H now l" "now < 2 ^ 61" using memory_rel_mono by blast+
  show "memory_rel k N D H now (memory_other k now e l)"
  proof (cases e)
    case Sweep
    with memory_sweep [OF m] show ?thesis by simp
  next
    case (Hit key mx d)
    with m memory_request_other [of key k mx d now l] show ?thesis
      by (auto simp: memory_rel_def)
  qed
qed

section \<open>The limiter in Redis implements the window\<close>

definition redis_answer :: "limit_verdict \<Rightarrow> bool option" where
  "redis_answer v = (case v of Continue \<Rightarrow> Some True | Abort code \<Rightarrow> if code = 429 then Some False else None)"

definition redis_request :: "string \<Rightarrow> nat \<Rightarrow> int \<Rightarrow> int \<Rightarrow> int \<Rightarrow> RedisLists \<Rightarrow> bool option \<times> RedisLists" where
  "redis_request k N D ttl now s = (case redisRateLimiter (\<lambda>_. False) ttl k (int N) D now s of
       (v, s1) \<Rightarrow> (redis_answer v, s1))"

text \<open>What else happens to the lists: requests on other keys, with any failures.\<close>

datatype redis_event = RHit "redis_call \<Rightarrow> bool" string int int

fun redis_other :: "string \<Rightarrow> int \<Rightarrow> int \<Rightarrow> redis_event \<Rightarrow> RedisLists \<Rightarrow> RedisLists" where
  "redis_other k ttl now (RHit fails key maxRequestNum duration) s =
     (if key = k then s else snd (redisRateLimiter fails ttl key maxRequestNum duration now s))"

definition redis_rel :: "string \<Rightarrow> nat \<Rightarrow> int \<Rightarrow> int \<Rightarrow> int list \<Rightarrow> int \<Rightarrow> RedisLists \<Rightarrow> bool" where
  "redis_rel k N D ttl H t s \<longleftrightarrow> 0 < N \<and> 0 < D \<and> 1000 * D \<le> ttl \<and> sorted H \<and> (\<forall>h \<in> set H. 0 \<le> h \<and> h \<le> t) \<and> 0 \<le> t
     \<and> (live_list t k s \<noteq> [] \<longrightarrow> hd (live_list t k s) + ttl \<le> live_deadline t k s)
     \<and> (\<exists>H1. H = H1 @ rev (live_list t k s) \<and> length (live_list t k s) \<le> N
          \<and> (length (live_list t k s) < N \<longrightarrow> (\<forall>h \<in> set H1. 1000 * D \<le> t - h)))"

lemma redis_relI:
  assumes "0 < N" "0 < D" "1000 * D \<le> ttl" "sorted H" "\<forall>h \<in> set H. 0 \<le> h \<and> h \<le> t" "0 \<le> t"
    and "s k = Some (xs, dl)" "t < dl" "xs \<noteq> []" "hd xs + ttl \<le> dl"
    and "H = H1 @ rev xs" "length xs \<le> N" "length xs < N \<longrightarrow> (\<forall>h \<in> set H1. 1000 * D \<le> t - h)"
  shows "redis_rel k N D ttl H t s"
proof -
  have "live_list t k s = xs" "live_deadline t k s = dl"
    using assms by (simp_all add: live_list_def live_deadline_def)
  then show ?thesis unfolding redis_rel_def using assms(1-6,9-13) by blast
qed

lemma sorted_rev_hd:
  "sorted (H1 @ rev (x # xs)) \<Longrightarrow> h \<in> set (H1 @ rev (x # xs)) \<Longrightarrow> h \<le> (x :: int)"
  by (auto simp: sorted_append)

lemma redis_rel_mono:
  assumes "redis_rel k N D ttl H t s" "t \<le> now"
  shows "redis_rel k N D ttl H now s"
proof (cases "live_list now k s = live_list t k s")
  case True
  moreover have "live_deadline now k s = live_deadline t k s" if "live_list t k s \<noteq> []"
    using that by (auto simp: live_list_def live_deadline_def split: option.splits)
  ultimately show ?thesis using assms unfolding redis_rel_def by fastforce
next
  case False
  then obtain xs dl where k: "s k = Some (xs, dl)" "t < dl" "dl \<le> now"
    using assms(2) by (auto simp: live_list_def split: option.splits if_splits)
  then have live: "live_list t k s = xs" "live_deadline t k s = dl" "live_list now k s = []"
    by (auto simp: live_list_def live_deadline_def)
  obtain x ys where xs: "xs = x # ys" using False live by (cases xs) auto
  obtain H1 where H: "H = H1 @ rev xs" using assms(1) live by (auto simp: redis_rel_def)
  have "x + ttl \<le> dl" "1000 * D \<le> ttl" "sorted H" using assms(1) live xs by (auto simp: redis_rel_def)
  then have "1000 * D \<le> now - h" if "h \<in> set H" for h
    using sorted_rev_hd [of H1 x ys h] that H xs k(3) by simp
  with assms live show ?thesis unfolding redis_rel_def by fastforce
qed

lemma go_div_1000:
  assumes "0 \<le> x" "x < 2 ^ 61"
  shows "go_div x 1000 < D \<longleftrightarrow> x < 1000 * D"
proof -
  have "go_div x 1000 = i64 (x div 1000)"
    using assms by (cases "x = 0") (simp_all add: go_div_def)
  also have "\<dots> = x div 1000"
  proof (rule i64_id)
    have "0 \<le> x div 1000" "x div 1000 \<le> x" using assms by linarith+
    with assms show "in_i64 (x div 1000)" by (simp add: in_i64_def)
  qed
  finally show ?thesis by (simp only:) linarith
qed

lemma redis_request_window:
  assumes "redis_rel k N D ttl H now s" "now < 2 ^ 61"
  shows "fst (redis_request k N D ttl now s) = Some (window_admits N (1000 * D) H now)
     \<and> redis_rel k N D ttl (window_step N (1000 * D) now H) now (snd (redis_request k N D ttl now s))"
proof -
  let ?live = "live_list now k s"
  have base: "0 < N" "0 < D" "1000 * D \<le> ttl" "sorted H" "\<forall>h \<in> set H. 0 \<le> h \<and> h \<le> now" "0 \<le> now"
    using assms(1) by (auto simp: redis_rel_def)
  then have ttl: "0 < ttl" by simp
  obtain H1 where H: "H = H1 @ rev ?live" "length ?live \<le> N"
    "length ?live < N \<longrightarrow> (\<forall>h \<in> set H1. 1000 * D \<le> now - h)"
    using assms(1) by (auto simp: redis_rel_def)
  have sortedH: "sorted (H @ [now])" "\<forall>h \<in> set (H @ [now]). 0 \<le> h \<and> h \<le> now"
    using base(4-6) by (auto simp: sorted_append)
  have push: "LPush (\<lambda>_. False) now k now s k =
      Some (now # ?live, if ?live = [] then no_deadline else live_deadline now k s)"
    and push_live: "now < (if ?live = [] then no_deadline else live_deadline now k s)"
    using assms(2) by (auto simp: LPush_def live_list_def live_deadline_def no_deadline_def
        split: list.splits option.splits if_splits)
  then have pl: "live_list now k (LPush (\<lambda>_. False) now k now s) = now # ?live"
    by (simp add: live_list_def)
  show ?thesis
  proof (cases "length ?live < N")
    case True
    have "length (filter (\<lambda>h. now - h < 1000 * D) (rev ?live)) < N"
      by (rule le_less_trans [OF length_filter_le]) (simp add: True)
    then have adm: "window_admits N (1000 * D) H now"
      using H True by (subst H(1)) (simp add: window_admits_def expired_count)
    have e: "Expire (\<lambda>_. False) now k ttl (LPush (\<lambda>_. False) now k now s) k = Some (now # ?live, now + ttl)"
      by (simp add: Expire_def pl)
    have rr: "redis_request k N D ttl now s =
        (Some True, Expire (\<lambda>_. False) now k ttl (LPush (\<lambda>_. False) now k now s))"
      using True by (simp add: redis_request_def redisRateLimiter_def redis_answer_def)
    have "redis_rel k N D ttl (H @ [now]) now (snd (redis_request k N D ttl now s))"
      unfolding rr snd_conv
      by (rule redis_relI [OF base(1-3) sortedH base(6), where xs = "now # ?live" and dl = "now + ttl" and ?H1.0 = H1])
        (use e H True ttl in auto)
    then show ?thesis using adm rr by (simp add: window_step_def)
  next
    case False
    with H have len: "length ?live = N" by simp
    with base(1) have ne: "?live \<noteq> []" by auto
    let ?x = "last ?live"
    have x: "0 \<le> ?x" "?x \<le> now" using base(5) H(1) last_in_set [OF ne] by (metis Un_iff set_append set_rev)+
    have rl: "rev ?live = ?x # rev (butlast ?live)" using ne by (metis append_butlast_last_id rev_eq_Cons_iff rev_rev_ident)
    have test: "go_div (now - ?x) 1000 < D \<longleftrightarrow> now - ?x < 1000 * D"
      using x assms(2) by (intro go_div_1000) auto
    show ?thesis
    proof (cases "now - ?x < 1000 * D")
      case True
      have "\<forall>h \<in> set (rev ?live). now - h < 1000 * D"
        using base(4) True unfolding rl H(1) by (fastforce simp: sorted_append)
      then have "filter (\<lambda>h. now - h < 1000 * D) (rev ?live) = rev ?live" by (intro filter_True) auto
      then have adm: "\<not> window_admits N (1000 * D) H now"
        using len by (subst H(1)) (simp add: window_admits_def)
      have e: "Expire (\<lambda>_. False) now k ttl s k = Some (?live, now + ttl)"
        using ne by (cases ?live) (simp_all add: Expire_def)
      have rr: "redis_request k N D ttl now s = (Some False, Expire (\<lambda>_. False) now k ttl s)"
        using False ne test True by (simp add: redis_request_def redisRateLimiter_def redis_answer_def)
      have "hd ?live \<le> now" using base(5) H(1) ne by auto
      then have "redis_rel k N D ttl H now (snd (redis_request k N D ttl now s))"
        unfolding rr snd_conv
        by (intro redis_relI [OF base(1-6), where xs = ?live and dl = "now + ttl" and ?H1.0 = H1])
          (use e H ne ttl False in auto)
      then show ?thesis using adm rr by (simp add: window_step_def)
    next
      case old: False
      have "\<forall>h \<in> set (H1 @ [?x]). 1000 * D \<le> now - h"
        using base(4) old unfolding H(1) rl by (fastforce simp: sorted_append)
      then have f: "filter (\<lambda>h. now - h < 1000 * D) H = filter (\<lambda>h. now - h < 1000 * D) (rev (butlast ?live))"
        using expired_count [of "H1 @ [?x]" "1000 * D" now] by (subst H(1), subst rl) simp
      have H2: "H = H1 @ ?x # rev (butlast ?live)" using H(1) rl by simp
      have "length (filter (\<lambda>h. now - h < 1000 * D) (rev (butlast ?live))) < N"
        by (rule le_less_trans [OF length_filter_le]) (use len base(1) in simp)
      then have adm: "window_admits N (1000 * D) H now" unfolding window_admits_def f .
      let ?s = "LTrim (\<lambda>_. False) now k N (LPush (\<lambda>_. False) now k now s)"
      have tk: "take N (now # ?live) = now # butlast ?live"
        using len base(1) by (cases N) (simp_all add: butlast_conv_take)
      have t: "?s k = Some (now # butlast ?live, live_deadline now k s)"
        using tk ne push by (simp add: LTrim_def pl live_deadline_def [of now k "LPush _ _ _ _ _"])
      have "live_list now k ?s = now # butlast ?live"
        using t push_live ne by (simp add: live_list_def)
      then have e: "Expire (\<lambda>_. False) now k ttl ?s k = Some (now # butlast ?live, now + ttl)"
        by (simp add: Expire_def)
      have rr: "redis_request k N D ttl now s = (Some True, Expire (\<lambda>_. False) now k ttl ?s)"
        using False ne test old by (simp add: redis_request_def redisRateLimiter_def redis_answer_def)
      have "redis_rel k N D ttl (H @ [now]) now (snd (redis_request k N D ttl now s))"
        unfolding rr snd_conv
      proof (rule redis_relI [OF base(1-3) sortedH base(6), where xs = "now # butlast ?live"
              and dl = "now + ttl" and ?H1.0 = "H1 @ [?x]"])
        show "Expire (\<lambda>_. False) now k ttl ?s k = Some (now # butlast ?live, now + ttl)" by (rule e)
        show "H @ [now] = (H1 @ [?x]) @ rev (now # butlast ?live)" by (simp add: H2)
        have l: "length (now # butlast ?live) = N"
          unfolding list.size length_butlast len using base(1) by simp
        show "length (now # butlast ?live) \<le> N" using l by linarith
        show "length (now # butlast ?live) < N \<longrightarrow> (\<forall>h \<in> set (H1 @ [?x]). 1000 * D \<le> now - h)" using l by linarith
      qed (simp_all add: ttl)
      then show ?thesis using adm rr by (simp add: window_step_def)
    qed
  qed
qed

lemma redis_write_other [simp]:
  assumes "key \<noteq> k"
  shows "LPush fails now key x s k = s k" "LTrim fails now key n s k = s k" "Expire fails now key ttl s k = s k"
  using assms by (simp_all add: LPush_def LTrim_def Expire_def split: list.split)

lemma redis_other_key: "key \<noteq> k \<Longrightarrow> snd (redisRateLimiter fails ttl key m d now s) k = s k"
  by (simp add: redisRateLimiter_def)

lemma live_cong: "s k = s' k \<Longrightarrow> live_list t k s = live_list t k s' \<and> live_deadline t k s = live_deadline t k s'"
  by (simp add: live_list_def live_deadline_def)

interpretation red: window_limiter N "1000 * D" "redis_request k N D ttl" "redis_other k ttl" "redis_rel k N D ttl"
proof
  fix H t s now assume "redis_rel k N D ttl H t s" "t \<le> now" "now < 2 ^ 61"
  then show "fst (redis_request k N D ttl now s) = Some (window_admits N (1000 * D) H now)"
    and "redis_rel k N D ttl (window_step N (1000 * D) now H) now (snd (redis_request k N D ttl now s))"
    using redis_request_window [OF redis_rel_mono, of k N D ttl H t s now] by blast+
next
  fix H t s now e assume "redis_rel k N D ttl H t s" "t \<le> now" "now < 2 ^ 61"
  then have r: "redis_rel k N D ttl H now s" using redis_rel_mono by blast
  show "redis_rel k N D ttl H now (redis_other k ttl now e s)"
  proof (cases e)
    case (RHit fails key m d)
    have "redis_other k ttl now e s k = s k" using redis_other_key [of key k] by (simp add: RHit)
    from live_cong [of "redis_other k ttl now e s" k s now, OF this] r show ?thesis unfolding redis_rel_def by simp
  qed
qed

section \<open>Both limiters refine the window\<close>

definition fresh_limiter :: "int \<Rightarrow> InMemoryRateLimiter" where
  "fresh_limiter E = \<lparr>RL_store = (\<lambda>_. None), RL_expiration = E\<rparr>"

lemma memory_rel_init: "0 < N \<Longrightarrow> D \<le> E \<Longrightarrow> memory_rel k N D [] 0 (fresh_limiter E)"
  by (simp add: memory_rel_def fresh_limiter_def)

lemma redis_rel_init: "0 < N \<Longrightarrow> 0 < D \<Longrightarrow> D \<le> E \<Longrightarrow> redis_rel k N D (1000 * E) [] 0 (\<lambda>_. None)"
  by (simp add: redis_rel_def live_list_def)


definition demo_arrivals :: "memory_event limiter_event list" where
  "demo_arrivals = [Arrive 0, Arrive 10, Other 20 (Hit ''b'' 2 60), Arrive 30, Arrive 60, Other 65 Sweep, Arrive 66, Arrive 70]"

definition demo_redis_arrivals :: "redis_event limiter_event list" where
  "demo_redis_arrivals = [Arrive 0, Arrive 10000, Other 20000 (RHit (\<lambda>_. True) ''b'' 2 60), Arrive 30999, Arrive 60000]"


end
