(* ===== verification/Verification.thy ===== *)
theory Verification
  imports GoPrelude "HOL-Library.AList"
begin

text \<open>
  The one-time codes for mail verification and password reset (\<open>common/verification.go\<close>). The map
  is an association list with distinct keys; times are nanoseconds of the monotonic clock, and
  the elapsed seconds are truncated.
\<close>

record verificationValue =
  VV_code :: string
  VV_time :: int

type_synonym verificationMap = "(string \<times> verificationValue) list"

definition EmailVerificationPurpose :: string where "EmailVerificationPurpose = ''v''"
definition PasswordResetPurpose :: string where "PasswordResetPurpose = ''r''"
definition verificationMapMaxSize :: nat where "verificationMapMaxSize = 10"
definition VerificationValidMinutes :: int where "VerificationValidMinutes = 10"

text \<open>\<open>uuid\<close> is the text of a random UUID; slicing past its end panics.\<close>

definition GenerateVerificationCode :: "string \<Rightarrow> int \<Rightarrow> string option" where
  "GenerateVerificationCode uuid n =
     (let code = filter (\<lambda>c. c \<noteq> CHR ''-'') uuid
      in if n = 0 then Some code
         else if n < 0 \<or> int (length code) < n then None
         else Some (take (nat n) code))"

definition too_old :: "int \<Rightarrow> verificationValue \<Rightarrow> bool" where
  "too_old now v \<longleftrightarrow> VerificationValidMinutes * 60 \<le> go_div (now - VV_time v) 1000000000"

definition removeExpiredPairs :: "int \<Rightarrow> verificationMap \<Rightarrow> verificationMap" where
  "removeExpiredPairs now m = filter (\<lambda>(k, v). \<not> too_old now v) m"

definition RegisterVerificationCodeWithKey ::
  "string \<Rightarrow> string \<Rightarrow> string \<Rightarrow> int \<Rightarrow> verificationMap \<Rightarrow> verificationMap" where
  "RegisterVerificationCodeWithKey key code purpose now m =
     (let m1 = AList.update (purpose @ key) \<lparr>VV_code = code, VV_time = now\<rparr> m
      in if verificationMapMaxSize < length m1 then removeExpiredPairs now m1 else m1)"

definition VerifyCodeWithKey :: "string \<Rightarrow> string \<Rightarrow> string \<Rightarrow> int \<Rightarrow> verificationMap \<Rightarrow> bool" where
  "VerifyCodeWithKey key code purpose now m = (case map_of m (purpose @ key) of
       None \<Rightarrow> False
     | Some v \<Rightarrow> if too_old now v then False else code = VV_code v)"

definition DeleteKey :: "string \<Rightarrow> string \<Rightarrow> verificationMap \<Rightarrow> verificationMap" where
  "DeleteKey key purpose m = AList.delete (purpose @ key) m"

section \<open>A code is good for its key and purpose, for ten minutes\<close>

datatype verification_op = Register string string string | Delete string string

fun op_target :: "verification_op \<Rightarrow> string \<times> string" where
  "op_target (Register key code purpose) = (purpose, key)"
| "op_target (Delete key purpose) = (purpose, key)"

fun run_verification :: "(int \<times> verification_op) list \<Rightarrow> verificationMap \<Rightarrow> verificationMap" where
  "run_verification [] m = m"
| "run_verification ((now, Register key code purpose) # xs) m =
     run_verification xs (RegisterVerificationCodeWithKey key code purpose now m)"
| "run_verification ((now, Delete key purpose) # xs) m = run_verification xs (DeleteKey key purpose m)"

text \<open>The operations happen in time order, up to \<open>t\<close>, with the purposes the program has.\<close>

fun ops_between :: "int \<Rightarrow> (int \<times> verification_op) list \<Rightarrow> int \<Rightarrow> bool" where
  "ops_between t0 [] t \<longleftrightarrow> t0 \<le> t"
| "ops_between t0 ((now, x) # xs) t \<longleftrightarrow> t0 \<le> now
     \<and> fst (op_target x) \<in> {EmailVerificationPurpose, PasswordResetPurpose} \<and> ops_between now xs t"

lemma ops_between_le: "ops_between t0 xs t \<Longrightarrow> t0 \<le> t"
  by (induction xs arbitrary: t0) fastforce+

lemma purpose_key_inj:
  "p \<in> {EmailVerificationPurpose, PasswordResetPurpose} \<Longrightarrow> p' \<in> {EmailVerificationPurpose, PasswordResetPurpose}
     \<Longrightarrow> p @ k = p' @ k' \<longleftrightarrow> p = p' \<and> k = k'"
  by (auto simp: EmailVerificationPurpose_def PasswordResetPurpose_def)

lemma go_div_mono:
  assumes "0 \<le> a" "a \<le> b" "b < 2 ^ 62"
  shows "go_div a 1000000000 \<le> go_div b 1000000000"
proof -
  have d: "go_div x 1000000000 = x div 1000000000" if "0 \<le> x" "x < 2 ^ 62" for x :: int
  proof -
    have "go_div x 1000000000 = i64 (x div 1000000000)"
      using that by (cases "x = 0") (simp_all add: go_div_def)
    moreover have "0 \<le> x div 1000000000" "x div 1000000000 \<le> x" using that by linarith+
    ultimately show ?thesis using that by (simp add: i64_id in_i64_def)
  qed
  from d [of a] d [of b] assms zdiv_mono1 [of a b 1000000000] show ?thesis by simp
qed

lemma too_old_mono:
  "too_old t1 v \<Longrightarrow> VV_time v \<le> t1 \<Longrightarrow> t1 \<le> t \<Longrightarrow> t - VV_time v < 2 ^ 62 \<Longrightarrow> too_old t v"
  using go_div_mono [of "t1 - VV_time v" "t - VV_time v"] by (simp add: too_old_def)

lemma map_of_filter_keys:
  "distinct (map fst m) \<Longrightarrow> map_of (filter (\<lambda>(k, v). P v) m) k = (case map_of m k of None \<Rightarrow> None
     | Some v \<Rightarrow> if P v then Some v else None)"
proof (induction m)
  case (Cons x m)
  obtain a b where x: "x = (a, b)" by (cases x)
  have "map_of m k = None" if "k = a" using Cons.prems that by (simp add: x map_of_eq_None_iff)
  with Cons show ?case by (auto simp: x)
qed simp

text \<open>What a step on another key leaves: the entry as it was, or, when it is too old, nothing.\<close>

definition holds_code :: "string \<Rightarrow> verificationValue \<Rightarrow> int \<Rightarrow> verificationMap \<Rightarrow> bool" where
  "holds_code k v t m \<longleftrightarrow> distinct (map fst m) \<and> (map_of m k = Some v \<or> map_of m k = None \<and> too_old t v)"

lemma distinct_filter_keys: "distinct (map fst m) \<Longrightarrow> distinct (map fst (filter P m))"
  by (simp add: distinct_map_filter)

lemma holds_code_step:
  assumes "holds_code k v t0 m" "VV_time v \<le> t0" "t0 \<le> now" "now - VV_time v < 2 ^ 62" "p @ key \<noteq> k"
  shows "holds_code k v now (RegisterVerificationCodeWithKey key code p now m)"
    and "holds_code k v now (DeleteKey key p m)"
proof -
  let ?m1 = "AList.update (p @ key) \<lparr>VV_code = code, VV_time = now\<rparr> m"
  have d: "distinct (map fst ?m1)" using assms(1) distinct_update [of m] by (simp add: holds_code_def)
  have m1: "map_of ?m1 k = map_of m k" using assms(5) by (simp add: update_conv')
  have old: "too_old now v" if "too_old t0 v" using too_old_mono [OF that] assms(2-4) by simp
  show "holds_code k v now (RegisterVerificationCodeWithKey key code p now m)"
    using d m1 assms(1) old distinct_filter_keys [OF d]
    by (auto simp: RegisterVerificationCodeWithKey_def Let_def holds_code_def removeExpiredPairs_def
        map_of_filter_keys [OF d])
  have "map_of (DeleteKey key p m) k = map_of m k" using assms(5) by (simp add: DeleteKey_def delete_conv')
  moreover have "distinct (map fst (DeleteKey key p m))"
    using assms(1) distinct_delete [of m] by (simp add: DeleteKey_def holds_code_def)
  ultimately show "holds_code k v now (DeleteKey key p m)" using assms(1) old by (auto simp: holds_code_def)
qed

lemma holds_code_run:
  "holds_code (p @ k) v t0 m \<Longrightarrow> VV_time v \<le> t0 \<Longrightarrow> ops_between t0 xs t \<Longrightarrow> t - VV_time v < 2 ^ 62 \<Longrightarrow>
     p \<in> {EmailVerificationPurpose, PasswordResetPurpose} \<Longrightarrow> (p, k) \<notin> op_target ` snd ` set xs \<Longrightarrow>
     holds_code (p @ k) v t (run_verification xs m)"
proof (induction xs arbitrary: t0 m)
  case Nil
  then show ?case using too_old_mono [of t0 v t] by (auto simp: holds_code_def)
next
  case (Cons x xs)
  obtain now y where x: "x = (now, y)" by (cases x)
  have now: "t0 \<le> now" "ops_between now xs t" "now - VV_time v < 2 ^ 62"
    and p: "fst (op_target y) \<in> {EmailVerificationPurpose, PasswordResetPurpose}"
    using Cons.prems ops_between_le [of now xs t] by (auto simp: x)
  have rest: "(p, k) \<notin> op_target ` snd ` set xs" "op_target y \<noteq> (p, k)" using Cons.prems(6) by (auto simp: x)
  have ne: "q @ key \<noteq> p @ k" if "op_target y = (q, key)" for q key
    using purpose_key_inj [of q p key k] p Cons.prems(5) rest(2) that by auto
  have le: "VV_time v \<le> now" using Cons.prems(2) now(1) by simp
  show ?case
  proof (cases y)
    case (Register key code q)
    then have "q @ key \<noteq> p @ k" by (intro ne) simp
    from holds_code_step(1) [OF Cons.prems(1,2) now(1,3) this, of code]
    show ?thesis using Cons.IH [OF _ le now(2) Cons.prems(4,5) rest(1)] by (simp add: x Register)
  next
    case (Delete key q)
    then have "q @ key \<noteq> p @ k" by (intro ne) simp
    from holds_code_step(2) [OF Cons.prems(1,2) now(1,3) this]
    show ?thesis using Cons.IH [OF _ le now(2) Cons.prems(4,5) rest(1)] by (simp add: x Delete)
  qed
qed

text \<open>
  C21. A registered code verifies exactly for its key and purpose, with its exact text, and for
  less than ten minutes: whatever codes are registered or deleted for other keys or purposes in
  between, and although the map drops old entries when it grows past its size.
\<close>

theorem code_verifies_iff:
  assumes "distinct (map fst m)" "purpose \<in> {EmailVerificationPurpose, PasswordResetPurpose}"
    and "ops_between t0 ops t" "(purpose, key) \<notin> op_target ` snd ` set ops" "t - t0 < 2 ^ 62"
  shows "VerifyCodeWithKey key code' purpose t
           (run_verification ops (RegisterVerificationCodeWithKey key code purpose t0 m))
       \<longleftrightarrow> go_div (t - t0) 1000000000 < 600 \<and> code' = code"
proof -
  let ?v = "\<lparr>VV_code = code, VV_time = t0\<rparr>"
  let ?m1 = "AList.update (purpose @ key) ?v m"
  have d: "distinct (map fst ?m1)" using assms(1) distinct_update [of m] by simp
  have "\<not> too_old t0 ?v" by (simp add: too_old_def VerificationValidMinutes_def go_div_def i64_def)
  then have "holds_code (purpose @ key) ?v t0 (RegisterVerificationCodeWithKey key code purpose t0 m)"
    using d distinct_filter_keys [OF d]
    by (simp add: RegisterVerificationCodeWithKey_def Let_def holds_code_def removeExpiredPairs_def
        map_of_filter_keys [OF d] update_conv' del: map_of_eq_Some_iff)
  from holds_code_run [OF this _ assms(3) _ assms(2,4)] assms(5)
  have "holds_code (purpose @ key) ?v t (run_verification ops (RegisterVerificationCodeWithKey key code purpose t0 m))"
    by simp
  then show ?thesis
    by (auto simp: holds_code_def VerifyCodeWithKey_def too_old_def VerificationValidMinutes_def)
qed

theorem code_verifies_iff_witness:
  "VerifyCodeWithKey ''a@x'' ''123456'' ''v'' 599999999999
     (run_verification [(5, Register ''a@x'' ''999999'' ''r''), (7, Delete ''b@x'' ''v'')]
       (RegisterVerificationCodeWithKey ''a@x'' ''123456'' ''v'' 0 []))
   \<and> \<not> VerifyCodeWithKey ''a@x'' ''123456'' ''v'' 600000000000
     (run_verification [(5, Register ''a@x'' ''999999'' ''r''), (7, Delete ''b@x'' ''v'')]
       (RegisterVerificationCodeWithKey ''a@x'' ''123456'' ''v'' 0 []))"
proof -
  have g: "go_div (599999999999 - 0) 1000000000 = 599" "go_div (600000000000 - 0) 1000000000 = 600"
    by code_simp+
  show ?thesis
    using code_verifies_iff [of "[]" "''v''" 0 "[(5, Register ''a@x'' ''999999'' ''r''), (7, Delete ''b@x'' ''v'')]"
        599999999999 "''a@x''" "''123456''" "''123456''"]
      code_verifies_iff [of "[]" "''v''" 0 "[(5, Register ''a@x'' ''999999'' ''r''), (7, Delete ''b@x'' ''v'')]"
        600000000000 "''a@x''" "''123456''" "''123456''"] g
    by (simp add: EmailVerificationPurpose_def PasswordResetPurpose_def)
qed

end
