(* ===== verification/Decimal.thy ===== *)
theory Decimal
  imports GoFloat
begin

text \<open>
  Decimal text of \<open>float64\<close> numbers: \<open>%.2f\<close> of \<open>fmt\<close> and \<open>strconv.ParseFloat\<close>, and the error of one
  rounding. An amount of cents survives being divided by 100, printed, parsed and multiplied.
\<close>

section \<open>Printing and parsing\<close>

definition show_2 :: "nat \<Rightarrow> string" where
  "show_2 n = [char_of (48 + n div 10), char_of (48 + n mod 10)]"

text \<open>\<open>%.2f\<close> rounds the exact value, ties to even.\<close>

definition format_2f :: "float64 \<Rightarrow> string" where
  "format_2f f = (case f of
       Fin x \<Rightarrow> (let n = nat (round_half_even (\<bar>x\<bar> * 100))
                in (if x < 0 then ''-'' else []) @ show_nat (n div 100) @ ''.'' @ show_2 (n mod 100))
     | PInf \<Rightarrow> ''+Inf''
     | NInf \<Rightarrow> ''-Inf''
     | NaN \<Rightarrow> ''NaN'')"

definition split_sign :: "string \<Rightarrow> bool \<times> string" where
  "split_sign s = (case s of
       [] \<Rightarrow> (False, [])
     | c # r \<Rightarrow> if c = CHR ''-'' then (True, r) else if c = CHR ''+'' then (False, r) else (False, s))"

definition digits_value :: "string \<Rightarrow> nat" where
  "digits_value ds = (case parse_digits 0 ds of None \<Rightarrow> 0 | Some n \<Rightarrow> n)"

definition parse_exponent :: "string \<Rightarrow> int option" where
  "parse_exponent s = (case s of
       [] \<Rightarrow> Some 0
     | c # r \<Rightarrow>
         if c = CHR ''e'' \<or> c = CHR ''E'' then
           (case split_sign r of (neg, ds) \<Rightarrow>
              if ds = [] then None
              else map_option (\<lambda>n. if neg then - int n else int n) (parse_digits 0 ds))
         else None)"

definition pow10 :: "int \<Rightarrow> rat" where
  "pow10 e = (if 0 \<le> e then 10 ^ nat e else 1 / 10 ^ nat (- e))"

text \<open>A decimal number without its sign: digits, point, digits, exponent; one digit at least.\<close>

definition parse_decimal :: "string \<Rightarrow> rat option" where
  "parse_decimal s =
     (let ip = takeWhile is_digit s; r1 = dropWhile is_digit s;
          (fp, r2) = (case r1 of
              c # t \<Rightarrow> if c = CHR ''.'' then (takeWhile is_digit t, dropWhile is_digit t) else ([], r1)
            | [] \<Rightarrow> ([], []))
      in if ip = [] \<and> fp = [] then None
         else map_option (\<lambda>e. of_nat (digits_value (ip @ fp)) * pow10 (e - int (length fp))) (parse_exponent r2))"

text \<open>
  \<open>strconv.ParseFloat(s, 64)\<close>: infinities and \<open>nan\<close> in any case, hexadecimal literals (left to
  \<open>hexfloat\<close>), decimal literals rounded once; a value out of range is an error.
\<close>

definition parse_float :: "(string \<Rightarrow> float64 option) \<Rightarrow> string \<Rightarrow> float64 option" where
  "parse_float hexfloat s =
     (case split_sign s of (neg, r) \<Rightarrow>
        if to_lower r \<in> {''inf'', ''infinity''} then Some (if neg then NInf else PInf)
        else if to_lower s = ''nan'' then Some NaN
        else if has_prefix (to_lower r) ''0x'' then hexfloat s
        else case parse_decimal r of
            None \<Rightarrow> None
          | Some x \<Rightarrow> (case fl (if neg then - x else x) of Fin y \<Rightarrow> Some (Fin y) | _ \<Rightarrow> None))"

section \<open>The error of a rounding\<close>

lemma round_half_even_error: "\<bar>of_int (round_half_even x) - x\<bar> \<le> 1 / 2"
  unfolding round_half_even_def Let_def
  using floor_correct [of x] by (auto simp: abs_if) linarith+

lemma round_half_even_near:
  assumes "\<bar>x - of_int n\<bar> < 1 / 2"
  shows "round_half_even x = n"
proof -
  have "\<bar>of_int (round_half_even x) - of_int n :: rat\<bar> < 1"
    using round_half_even_error [of x] assms by linarith
  then have "\<bar>of_int (round_half_even x - n) :: rat\<bar> < of_int 1" by simp
  then show ?thesis unfolding of_int_abs [symmetric] of_int_less_iff by linarith
qed

lemma rnd_error:
  assumes "pow2 (- 1022) \<le> x"
  shows "\<bar>rnd x - x\<bar> \<le> x / 2 ^ 53"
proof -
  have x: "0 < x" using assms pow2_pos [of "- 1022"] by linarith
  define u where "u = pow2 (ulp_exp x)"
  have u: "0 < u" by (simp add: u_def)
  have "- 1022 \<le> bexp x" using pow2_le_iff_bexp [OF x] assms by simp
  then have "ulp_exp x = bexp x - 52" by (simp add: ulp_exp_def)
  then have "u = pow2 (bexp x) / 2 ^ 52" using pow2_diff [of "bexp x" 52] by (simp add: u_def pow2_def)
  with bexp_bounds [OF x] have ux: "u \<le> x / 2 ^ 52" by (simp add: divide_right_mono)
  have "rnd x - x = (of_int (round_half_even (x / u)) - x / u) * u"
    using x u by (simp add: rnd_def round_pos_def u_def [symmetric] left_diff_distrib)
  then have "\<bar>rnd x - x\<bar> = \<bar>of_int (round_half_even (x / u)) - x / u\<bar> * u"
    using u by (simp add: abs_mult)
  also have "\<dots> \<le> 1 / 2 * u"
    using mult_right_mono [OF round_half_even_error, of u "x / u"] u by simp
  finally show ?thesis using ux by simp
qed

lemma rnd_bounds:
  assumes "pow2 (- 1022) \<le> x"
  shows "x - x / 2 ^ 53 \<le> rnd x \<and> rnd x \<le> x + x / 2 ^ 53"
  using abs_le_D1 [OF rnd_error [OF assms]] abs_le_D2 [OF rnd_error [OF assms]] by linarith

lemma pow2_tiny: "pow2 (- 1022) \<le> 1 / 2 ^ 53"
  using pow2_mono [of "- 1022" "- 53"] by (simp add: pow2_def)

lemma fl_Fin: "\<bar>rnd x\<bar> < 2 ^ 1000 \<Longrightarrow> fl x = Fin (rnd x)"
proof -
  assume a: "\<bar>rnd x\<bar> < 2 ^ 1000"
  have "(2::rat) ^ 1000 \<le> 2 ^ 1024" by (rule power_increasing) simp_all
  with a have "\<bar>rnd x\<bar> < overflow_bound" unfolding overflow_bound_def by linarith
  then show ?thesis by (auto simp: fl_def Let_def)
qed

text \<open>Numbers of moderate size are rounded to a number within \<open>2 ^ -53\<close> of themselves, relatively.\<close>

lemma fl_close:
  assumes "1 / 2 ^ 53 \<le> x" and "x \<le> 2 ^ 200"
  shows "\<exists>r. fl x = Fin r \<and> x - x / 2 ^ 53 \<le> r \<and> r \<le> x + x / 2 ^ 53 \<and> 0 < r"
proof -
  have p: "pow2 (- 1022) \<le> x" using pow2_tiny assms(1) by linarith
  have x: "0 < x" using assms(1) by (auto intro: less_le_trans [rotated])
  note b = rnd_bounds [OF p]
  have s: "x / 2 ^ 53 \<le> x / 2" using x by simp
  have "(2::rat) * 2 ^ 200 \<le> 2 ^ 999" using power_increasing [of 201 999 "2::rat"] by simp
  moreover have "(2::rat) ^ 999 < 2 ^ 1000" by (rule power_strict_increasing) simp_all
  ultimately have "\<bar>rnd x\<bar> < 2 ^ 1000" using b s x assms(2) by (simp add: abs_if)
  from fl_Fin [OF this] b s x show ?thesis by (intro exI [of _ "rnd x"]) simp
qed

section \<open>Cents\<close>

lemma fl_cents:
  assumes "0 < c" and "c \<le> 2 ^ 50"
  obtains r where "fdiv (fl_int c) (Fin 100) = Fin r" "fl (of_int c / 100) = Fin r"
    "\<bar>r * 100 - of_int c\<bar> \<le> of_int c / 2 ^ 53" "0 < r"
proof -
  have "(1::rat) \<le> of_int c" "of_int c \<le> (of_int (2 ^ 50) :: rat)" using assms by (simp_all del: of_int_power)
  then have c: "(1::rat) \<le> of_int c" "(of_int c :: rat) \<le> 2 ^ 50" by simp_all
  then have "1 / 2 ^ 53 \<le> (of_int c :: rat) / 100" "(of_int c :: rat) / 100 \<le> 2 ^ 200" by simp_all
  from fl_close [OF this] obtain r where r: "fl (of_int c / 100) = Fin r"
    "of_int c / 100 - of_int c / 100 / 2 ^ 53 \<le> r" "r \<le> of_int c / 100 + of_int c / 100 / 2 ^ 53" "0 < r" by blast
  moreover have "fdiv (fl_int c) (Fin 100) = fl (of_int c / 100)" using assms fl_int_small [of c] by simp
  moreover have "\<bar>r * 100 - of_int c\<bar> \<le> of_int c / 2 ^ 53"
    by (rule abs_leI) (use r(2,3) in linarith)+
  ultimately show thesis using that by simp
qed

lemma cents_error_small:
  assumes "0 < c" and "c \<le> 2 ^ 50"
  shows "(of_int c :: rat) / 2 ^ 53 \<le> 1 / 8"
proof -
  have "(of_int c :: rat) \<le> of_int (2 ^ 50)" using assms by (simp only: of_int_le_iff)
  then show ?thesis by simp
qed

lemma digits_value_simps:
  "digits_value (show_nat n @ show_2 m) = n * 100 + m" if "m < 100"
proof -
  have "m div 10 < 10" "m mod 10 < 10" using that by auto
  then show ?thesis
    by (simp add: digits_value_def parse_digits_append parse_digits_show_nat show_2_def is_digit_char_of)
qed

lemma show_2_digits: "m < 100 \<Longrightarrow> \<forall>c \<in> set (show_2 m). is_digit c"
  by (auto simp: show_2_def intro!: is_digit_char_of)

lemma takeWhile_digits: "\<forall>c \<in> set ds. is_digit c \<Longrightarrow> \<not> is_digit x \<Longrightarrow>
    takeWhile is_digit (ds @ x # r) = ds \<and> dropWhile is_digit (ds @ x # r) = x # r"
  by (simp add: takeWhile_append dropWhile_append)

lemma parse_decimal_cents:
  assumes "m < 100"
  shows "parse_decimal (show_nat n @ ''.'' @ show_2 m) = Some (of_nat (n * 100 + m) / 100)"
proof -
  have d: "\<forall>c \<in> set (show_nat n). is_digit c" using show_nat_digits by blast
  have p: "\<not> is_digit CHR ''.''" by (simp add: is_digit_def)
  note a = takeWhile_digits [OF d p, of "show_2 m"]
  have b: "takeWhile is_digit (show_2 m) = show_2 m" "dropWhile is_digit (show_2 m) = []"
    using show_2_digits [OF assms] takeWhile_eq_all_conv [of is_digit "show_2 m"]
      dropWhile_eq_Nil_conv [of is_digit "show_2 m"] by blast+
  have l: "length (show_2 m) = 2" by (simp add: show_2_def)
  have e: "show_nat n @ ''.'' @ show_2 m = show_nat n @ CHR ''.'' # show_2 m" by simp
  have v: "of_nat (digits_value (show_nat n @ show_2 m)) * pow10 (0 - int 2) = of_nat (n * 100 + m) / 100"
    using digits_value_simps [OF assms, of n] by (simp add: pow10_def)
  show ?thesis
    unfolding parse_decimal_def Let_def e
    by (simp add: a b parse_exponent_def l v [simplified] del: of_nat_add of_nat_mult)
qed

lemma to_lower_number: "\<forall>c \<in> set s. is_digit c \<or> c = CHR ''.'' \<Longrightarrow> to_lower s = s"
  by (induction s) (auto simp: to_lower_def to_lower_char_def is_digit_def)

lemma format_cents:
  assumes "0 < c" and "c \<le> 2 ^ 50"
  shows "format_2f (fdiv (fl_int c) (Fin 100)) = show_nat (nat c div 100) @ ''.'' @ show_2 (nat c mod 100)"
proof -
  obtain r where r: "fdiv (fl_int c) (Fin 100) = Fin r" "\<bar>r * 100 - of_int c\<bar> \<le> of_int c / 2 ^ 53" "0 < r"
    using fl_cents [OF assms] by metis
  then have "\<bar>\<bar>r\<bar> * 100 - of_int c\<bar> < 1 / 2" using cents_error_small [OF assms] by simp
  from round_half_even_near [OF this] r show ?thesis by (simp add: format_2f_def Let_def)
qed

lemma parse_cents:
  assumes "0 < c" and "c \<le> 2 ^ 50"
  shows "parse_float h (format_2f (fdiv (fl_int c) (Fin 100))) = Some (fdiv (fl_int c) (Fin 100))"
proof -
  let ?s = "show_nat (nat c div 100) @ ''.'' @ show_2 (nat c mod 100)"
  obtain r where r: "fdiv (fl_int c) (Fin 100) = Fin r" "fl (of_int c / 100) = Fin r"
    using fl_cents [OF assms] by metis
  have m: "nat c mod 100 < 100" by simp
  have ch: "\<forall>x \<in> set ?s. is_digit x \<or> x = CHR ''.''"
    using show_nat_digits show_2_digits [OF m] by auto
  note low = to_lower_number [OF ch]
  have "x \<notin> set ?s" if "\<not> is_digit x" "x \<noteq> CHR ''.''" for x using ch that by blast
  then have ne: "CHR ''x'' \<notin> set ?s" "CHR ''i'' \<notin> set ?s" "CHR ''n'' \<notin> set ?s" "CHR ''-'' \<notin> set ?s"
    "CHR ''+'' \<notin> set ?s" by (simp_all add: is_digit_def del: set_append)
  have sg: "split_sign s = (False, s)" if "CHR ''-'' \<notin> set s" "CHR ''+'' \<notin> set s" for s
    using that by (cases s) (auto simp: split_sign_def)
  have px: "\<not> has_prefix s ''0x''" if "CHR ''x'' \<notin> set s" for s
  proof
    assume "has_prefix s ''0x''"
    then have "take (length ''0x'') s = ''0x''" unfolding has_prefix_def .
    then have "CHR ''x'' \<in> set (take (length ''0x'') s)" by simp
    with that show False by (metis in_set_takeD)
  qed
  have inf: "?s \<noteq> ''inf''" "?s \<noteq> ''infinity''" "?s \<noteq> ''nan''"
  proof -
    have "CHR ''i'' \<in> set ''inf''" "CHR ''i'' \<in> set ''infinity''" "CHR ''n'' \<in> set ''nan''" by simp_all
    with ne(2,3) show "?s \<noteq> ''inf''" "?s \<noteq> ''infinity''" "?s \<noteq> ''nan''" by metis+
  qed
  have "(nat c div 100) * 100 + nat c mod 100 = nat c" by simp
  then have v: "parse_decimal ?s = Some (of_int c / 100)"
    using parse_decimal_cents [OF m, of "nat c div 100"] assms(1) by simp
  show ?thesis
    unfolding format_cents [OF assms]
    using sg [OF ne(4,5)] px [OF ne(1)] inf low v r
    by (simp only: parse_float_def prod.case) simp
qed

lemma round_cents:
  assumes "0 < c" and "c \<le> 2 ^ 50"
  shows "f2i (fround (fmul (fdiv (fl_int c) (Fin 100)) (Fin 100))) = c"
proof -
  obtain r where r: "fdiv (fl_int c) (Fin 100) = Fin r" "\<bar>r * 100 - of_int c\<bar> \<le> of_int c / 2 ^ 53" "0 < r"
    using fl_cents [OF assms] by metis
  have e: "(of_int c :: rat) / 2 ^ 53 \<le> 1 / 8" using cents_error_small [OF assms] .
  have c: "(1::rat) \<le> of_int c" "(of_int c :: rat) \<le> 2 ^ 50"
  proof -
    have "(of_int 1 :: rat) \<le> of_int c" "(of_int c :: rat) \<le> of_int (2 ^ 50)"
      using assms by (simp_all only: of_int_le_iff)
    then show "(1::rat) \<le> of_int c" "(of_int c :: rat) \<le> 2 ^ 50" by simp_all
  qed
  have lo: "of_int c - 1 / 8 \<le> r * 100" and hi: "r * 100 \<le> of_int c + 1 / 8"
    using abs_le_D1 [OF r(2)] abs_le_D2 [OF r(2)] e by linarith+
  have "1 / 2 ^ 53 \<le> r * 100" "r * 100 \<le> 2 ^ 200" using lo hi c by simp_all
  from fl_close [OF this] obtain v where v: "fl (r * 100) = Fin v"
    "r * 100 - r * 100 / 2 ^ 53 \<le> v" "v \<le> r * 100 + r * 100 / 2 ^ 53" "0 < v" by blast
  have "r * 100 / 2 ^ 53 \<le> 1 / 4" using hi c by simp
  with v lo hi have near: "of_int c - 3 / 8 \<le> v" "v \<le> of_int c + 3 / 8" by linarith+
  have "\<lfloor>v + 1 / 2\<rfloor> = c" by (rule floor_unique) (use near in linarith)+
  moreover have "in_i64 c" using assms by (simp add: in_i64_def)
  ultimately show ?thesis using v(1,4) by (simp add: r(1))
qed

end
