(* ===== verification/Payment.thy ===== *)
theory Payment
  imports Topup Decimal "HOL-Library.AList" "HOL-Library.Char_ord" "HOL-Library.List_Lexorder"
begin

text \<open>
  The payment gateways (\<open>service/payment\<close>): EPay with its signed query parameters, Stripe,
  NOWPayments and the registry of crypto adapters, and the price of a unit of quota. A Go map of
  strings is an association list with distinct keys, in some iteration order. The hash functions,
  JSON and the Stripe SDK are arguments (\<open>PayEnv\<close>): the theorems hold for all of them.
\<close>

section \<open>Configuration and environment\<close>

record PayConfig =
  PC_PaymentEnabled :: bool
  PC_EpayEnabled :: bool
  PC_EpayId :: string
  PC_EpayKey :: string
  PC_EpayUrl :: string
  PC_EpayDefaultMethod :: string
  PC_StripeEnabled :: bool
  PC_StripeAPISecretKey :: string
  PC_StripeWebhookSecret :: string
  PC_StripeCurrency :: string
  PC_PaymentCallbackBaseURL :: string
  PC_PaymentReturnURL :: string
  PC_QuotaPerUnit :: float64
  PC_CryptoAdaptersEnabled :: "string list"
  PC_nowApiKey :: string
  PC_nowIPNSecret :: string
  PC_nowBaseCurrency :: string

record CallbackResult =
  CR_TradeNo :: string
  CR_GatewayTradeNo :: string
  CR_Status :: string
  CR_PaidAmountCents :: int
  CR_PayMethod :: string
  CR_RawPayload :: string

record PendingOrder =
  PO_TradeNo :: string
  PO_UserId :: int
  PO_MoneyCents :: int
  PO_Currency :: string
  PO_Quota :: int
  PO_NotifyURL :: string
  PO_ReturnURL :: string

record StripeParams =
  SP_ClientReferenceID :: string
  SP_SuccessURL :: string
  SP_CancelURL :: string
  SP_Currency :: string
  SP_UnitAmount :: int
  SP_ProductName :: string

record StripeSession =
  SS_ID :: string
  SS_ClientReferenceID :: string
  SS_PaymentStatus :: string
  SS_AmountTotal :: int

text \<open>An event of the SDK: its type, the session its raw data decodes to, and whether that failed.\<close>

record StripeEvent =
  SE_Type :: string
  SE_Session :: StripeSession
  SE_DecodeFailed :: bool

record NowIpn =
  NI_PaymentID :: string
  NI_OrderID :: string
  NI_PaymentStatus :: string
  NI_PriceAmount :: float64
  NI_PayCurrency :: string

record NowInvoice =
  NV_price_amount :: float64
  NV_price_currency :: string
  NV_order_id :: string
  NV_order_description :: string
  NV_ipn_callback_url :: string
  NV_success_url :: string
  NV_cancel_url :: string

text \<open>
  \<open>PE_now_post\<close> is the exchange with the invoice API: a transport error, or a status and the
  \<open>invoice_url\<close> of the decoded body (\<open>None\<close> if it is no JSON).
\<close>

record PayEnv =
  PE_md5_hex :: "string \<Rightarrow> string"
  PE_hmac_sha512_hex :: "string \<Rightarrow> string \<Rightarrow> string"
  PE_hexfloat :: "string \<Rightarrow> float64 option"
  PE_json_canonical :: "string \<Rightarrow> string option"
  PE_json_ipn :: "string \<Rightarrow> NowIpn option"
  PE_stripe_event :: "string \<Rightarrow> string \<Rightarrow> string \<Rightarrow> StripeEvent option"
  PE_stripe_session :: "string \<Rightarrow> StripeParams \<Rightarrow> GoErr + string"
  PE_now_post :: "string \<Rightarrow> NowInvoice \<Rightarrow> GoErr + int \<times> string option"

text \<open>A callback: the query and the form with the values of each key; \<open>None\<close> is a body that cannot be read.\<close>

record CallbackRequest =
  Q_IsPost :: bool
  Q_Query :: "(string \<times> string list) list"
  Q_PostForm :: "(string \<times> string list) list"
  Q_Body :: "string option"
  Q_Header :: "string \<Rightarrow> string"

section \<open>Prices\<close>

definition MoneyToQuota :: "PayConfig \<Rightarrow> int \<Rightarrow> GoErr + int" where
  "MoneyToQuota pc moneyCents =
     (if moneyCents \<le> 0 then Inl (Err ''money must be positive'')
      else if fle (PC_QuotaPerUnit pc) (Fin 0) then Inl (Err ''QuotaPerUnit not configured'')
      else let units = fdiv (fl_int moneyCents) (Fin 100);
               quota = f2i (fround (fmul units (PC_QuotaPerUnit pc)))
           in if quota \<le> 0 then Inl (Err ''computed quota is zero'') else Inr quota)"

section \<open>EPay: signed parameters\<close>

type_synonym params = "(string \<times> string) list"

text \<open>Reading a Go map of strings: a missing key reads as the empty string.\<close>

definition get :: "params \<Rightarrow> string \<Rightarrow> string" where
  "get m k = (case map_of m k of None \<Rightarrow> [] | Some v \<Rightarrow> v)"

definition signed_keys :: "params \<Rightarrow> string list" where
  "signed_keys params =
     sort (map fst (filter (\<lambda>(k, v). k \<noteq> ''sign'' \<and> k \<noteq> ''sign_type'' \<and> v \<noteq> []) params))"

definition key_values :: "params \<Rightarrow> string list \<Rightarrow> string" where
  "key_values params ks = join_with ''&'' (map (\<lambda>k. k @ CHR ''='' # get params k) ks)"

definition epaySign :: "PayEnv \<Rightarrow> params \<Rightarrow> string \<Rightarrow> string" where
  "epaySign E params key = PE_md5_hex E (key_values params (signed_keys params) @ key)"

definition rawPayloadString :: "params \<Rightarrow> string" where
  "rawPayloadString raw = key_values raw (sort (map fst raw))"

text \<open>\<open>url.QueryEscape\<close> and \<open>url.Values.Encode\<close>.\<close>

definition url_unreserved :: "char \<Rightarrow> bool" where
  "url_unreserved c \<longleftrightarrow> (let n = of_char c :: nat in
     48 \<le> n \<and> n \<le> 57 \<or> 65 \<le> n \<and> n \<le> 90 \<or> 97 \<le> n \<and> n \<le> 122 \<or> n \<in> {45, 46, 95, 126})"

definition upper_hex :: "nat \<Rightarrow> char" where
  "upper_hex n = (if n < 10 then char_of (48 + n) else char_of (55 + n))"

definition query_escape :: "string \<Rightarrow> string" where
  "query_escape s = concat (map (\<lambda>c.
     if url_unreserved c then [c] else if c = CHR '' '' then ''+''
     else [CHR ''%'', upper_hex (of_char c div 16), upper_hex (of_char c mod 16)]) s)"

definition buildEpayQuery :: "params \<Rightarrow> string" where
  "buildEpayQuery params = join_with ''&''
     (map (\<lambda>k. query_escape k @ CHR ''='' # query_escape (get params k)) (sort (map fst params)))"

text \<open>The first value of each key; the form overrides the query.\<close>

definition first_values :: "(string \<times> string list) list \<Rightarrow> params" where
  "first_values vs = map (\<lambda>(k, v). (k, hd v)) (filter (\<lambda>(k, v). v \<noteq> []) vs)"

definition collectEpayParams :: "CallbackRequest \<Rightarrow> params" where
  "collectEpayParams q =
     (let raw = first_values (Q_Query q)
      in if Q_IsPost q then fold (\<lambda>(k, v) m. AList.update k v m) (first_values (Q_PostForm q)) raw else raw)"

definition Epay_IsEnabled :: "PayConfig \<Rightarrow> bool" where
  "Epay_IsEnabled pc \<longleftrightarrow> PC_PaymentEnabled pc \<and> PC_EpayEnabled pc \<and> PC_EpayId pc \<noteq> []
     \<and> PC_EpayKey pc \<noteq> [] \<and> PC_EpayUrl pc \<noteq> []"

definition epay_params :: "PayConfig \<Rightarrow> PendingOrder \<Rightarrow> params" where
  "epay_params pc order =
    [(''pid'', PC_EpayId pc),
     (''type'', if PC_EpayDefaultMethod pc = [] then ''alipay'' else PC_EpayDefaultMethod pc),
     (''out_trade_no'', PO_TradeNo order),
     (''notify_url'', PO_NotifyURL order),
     (''return_url'', PO_ReturnURL order),
     (''name'', ''Top up '' @ show_int (PO_Quota order) @ '' quota''),
     (''money'', format_2f (fdiv (fl_int (PO_MoneyCents order)) (Fin 100)))]"

definition check_order :: "PendingOrder option \<Rightarrow> GoErr + PendingOrder" where
  "check_order order = (case order of
       None \<Rightarrow> Inl (Err ''order is nil'')
     | Some po \<Rightarrow>
         if PO_TradeNo po = [] then Inl (Err ''trade_no missing'')
         else if PO_MoneyCents po \<le> 0 then Inl (Err ''money must be positive'')
         else Inr po)"

definition Epay_CreateOrder :: "PayEnv \<Rightarrow> PayConfig \<Rightarrow> PendingOrder option \<Rightarrow> GoErr + string" where
  "Epay_CreateOrder E pc order = (case check_order order of
       Inl e \<Rightarrow> Inl e
     | Inr po \<Rightarrow>
         let params = epay_params pc po;
             signed = params @ [(''sign'', epaySign E params (PC_EpayKey pc)), (''sign_type'', ''MD5'')]
         in Inr (PC_EpayUrl pc @ ''?'' @ buildEpayQuery signed))"

text \<open>
  \<open>strings.EqualFold\<close> against a lower-case hexadecimal text: the two agree up to the case of ASCII
  letters (the Unicode foldings concern \<open>k\<close> and \<open>s\<close> only).
\<close>

definition equal_fold :: "string \<Rightarrow> string \<Rightarrow> bool" where
  "equal_fold s t \<longleftrightarrow> to_lower s = to_lower t"

definition epay_paid_cents :: "PayEnv \<Rightarrow> string \<Rightarrow> int option" where
  "epay_paid_cents E money =
     map_option (\<lambda>yuan. f2i (fround (fmul yuan (Fin 100)))) (parse_float (PE_hexfloat E) money)"

definition Epay_HandleCallback :: "PayEnv \<Rightarrow> PayConfig \<Rightarrow> CallbackRequest \<Rightarrow> GoErr + CallbackResult" where
  "Epay_HandleCallback E pc q =
     (let raw = collectEpayParams q;
          sig = get raw ''sign'';
          signing = filter (\<lambda>(k, v). k \<noteq> ''sign'' \<and> k \<noteq> ''sign_type'') raw;
          expected = epaySign E signing (PC_EpayKey pc);
          tradeNo = get raw ''out_trade_no'';
          status = get raw ''trade_status''
      in if sig = [] then Inl (Err ''epay missing signature'')
         else if \<not> equal_fold sig expected then Inl (Err ''epay signature mismatch'')
         else if tradeNo = [] then Inl (Err ''epay missing out_trade_no'')
         else if status \<noteq> ''TRADE_SUCCESS'' then
           Inr \<lparr>CR_TradeNo = tradeNo, CR_GatewayTradeNo = [], CR_Status = ''pending'',
                CR_PaidAmountCents = 0, CR_PayMethod = [], CR_RawPayload = rawPayloadString raw\<rparr>
         else (case epay_paid_cents E (get raw ''money'') of
             None \<Rightarrow> Inl (Err ''epay parse money'')
           | Some paidCents \<Rightarrow>
               Inr \<lparr>CR_TradeNo = tradeNo, CR_GatewayTradeNo = get raw ''trade_no'', CR_Status = ''success'',
                    CR_PaidAmountCents = paidCents, CR_PayMethod = get raw ''type'',
                    CR_RawPayload = rawPayloadString raw\<rparr>))"

section \<open>Stripe\<close>

definition Stripe_IsEnabled :: "PayConfig \<Rightarrow> bool" where
  "Stripe_IsEnabled pc \<longleftrightarrow> PC_PaymentEnabled pc \<and> PC_StripeEnabled pc \<and> PC_StripeAPISecretKey pc \<noteq> []"

definition Stripe_CreateOrder :: "PayEnv \<Rightarrow> PayConfig \<Rightarrow> PendingOrder option \<Rightarrow> GoErr + string" where
  "Stripe_CreateOrder E pc order = (case check_order order of
       Inl e \<Rightarrow> Inl e
     | Inr po \<Rightarrow>
         PE_stripe_session E (PC_StripeAPISecretKey pc)
           \<lparr>SP_ClientReferenceID = PO_TradeNo po,
            SP_SuccessURL = PO_ReturnURL po @ ''?trade_no='' @ PO_TradeNo po,
            SP_CancelURL = PO_ReturnURL po @ ''?trade_no='' @ PO_TradeNo po @ ''&cancelled=1'',
            SP_Currency = PC_StripeCurrency pc,
            SP_UnitAmount = PO_MoneyCents po,
            SP_ProductName = ''Top up '' @ show_int (PO_Quota po) @ '' quota''\<rparr>)"

text \<open>\<open>Inr None\<close>: an event that asks for no action.\<close>

definition Stripe_HandleCallback :: "PayEnv \<Rightarrow> PayConfig \<Rightarrow> CallbackRequest \<Rightarrow> GoErr + CallbackResult option" where
  "Stripe_HandleCallback E pc q = (case Q_Body q of
       None \<Rightarrow> Inl (Err ''read body'')
     | Some payload \<Rightarrow>
         if PC_StripeWebhookSecret pc = [] then Inl (Err ''stripe webhook secret not configured'')
         else (case PE_stripe_event E payload (Q_Header q ''Stripe-Signature'') (PC_StripeWebhookSecret pc) of
             None \<Rightarrow> Inl (Err ''webhook signature'')
           | Some ev \<Rightarrow>
               if SE_Type ev = ''checkout.session.completed'' then
                 (if SE_DecodeFailed ev then Inl (Err ''decode session'')
                  else if SS_ClientReferenceID (SE_Session ev) = [] then Inl (Err ''missing client_reference_id'')
                  else if SS_PaymentStatus (SE_Session ev) \<noteq> ''paid'' then Inr None
                  else Inr (Some \<lparr>CR_TradeNo = SS_ClientReferenceID (SE_Session ev),
                         CR_GatewayTradeNo = SS_ID (SE_Session ev), CR_Status = ''success'',
                         CR_PaidAmountCents = SS_AmountTotal (SE_Session ev), CR_PayMethod = ''card'',
                         CR_RawPayload = payload\<rparr>))
               else if SE_Type ev \<in> {''checkout.session.expired'', ''checkout.session.async_payment_failed''} then
                 Inr (Some \<lparr>CR_TradeNo = SS_ClientReferenceID (SE_Session ev), CR_GatewayTradeNo = [],
                        CR_Status = ''failed'', CR_PaidAmountCents = 0, CR_PayMethod = [],
                        CR_RawPayload = payload\<rparr>)
               else Inr None))"

section \<open>Crypto adapters\<close>

definition IsAdapterEnabled :: "PayConfig \<Rightarrow> string \<Rightarrow> bool" where
  "IsAdapterEnabled pc name \<longleftrightarrow>
     list_ex (\<lambda>n. equal_fold (trim_space n) name) (PC_CryptoAdaptersEnabled pc)"

definition Now_IsEnabled :: "PayConfig \<Rightarrow> bool" where
  "Now_IsEnabled pc \<longleftrightarrow> IsAdapterEnabled pc ''nowpayments'' \<and> PC_nowApiKey pc \<noteq> [] \<and> PC_nowIPNSecret pc \<noteq> []"

definition Now_CreateOrder :: "PayEnv \<Rightarrow> PayConfig \<Rightarrow> PendingOrder option \<Rightarrow> GoErr + string" where
  "Now_CreateOrder E pc order = (case check_order order of
       Inl e \<Rightarrow> Inl e
     | Inr po \<Rightarrow>
         (case PE_now_post E (PC_nowApiKey pc)
             \<lparr>NV_price_amount = fdiv (fl_int (PO_MoneyCents po)) (Fin 100),
              NV_price_currency = PC_nowBaseCurrency pc,
              NV_order_id = PO_TradeNo po,
              NV_order_description = ''Top up '' @ show_int (PO_Quota po) @ '' quota'',
              NV_ipn_callback_url = PO_NotifyURL po,
              NV_success_url = PO_ReturnURL po,
              NV_cancel_url = PO_ReturnURL po\<rparr> of
            Inl e \<Rightarrow> Inl e
          | Inr (statusCode, invoice) \<Rightarrow>
              if 300 \<le> statusCode then Inl (Err (''nowpayments create invoice: '' @ show_int statusCode))
              else (case invoice of
                  None \<Rightarrow> Inl (Err ''parse invoice response'')
                | Some url \<Rightarrow> if url = [] then Inl (Err ''nowpayments: empty invoice_url'') else Inr url)))"

definition nowSignBody :: "PayEnv \<Rightarrow> string \<Rightarrow> string \<Rightarrow> string option" where
  "nowSignBody E body secret = map_option (PE_hmac_sha512_hex E secret) (PE_json_canonical E body)"

definition now_result :: "string \<Rightarrow> NowIpn \<Rightarrow> CallbackResult" where
  "now_result body ipn =
     (if NI_PaymentStatus ipn = ''finished'' then
        \<lparr>CR_TradeNo = NI_OrderID ipn, CR_GatewayTradeNo = NI_PaymentID ipn, CR_Status = ''success'',
         CR_PaidAmountCents = f2i (fmul (NI_PriceAmount ipn) (Fin 100)), CR_PayMethod = NI_PayCurrency ipn,
         CR_RawPayload = body\<rparr>
      else if NI_PaymentStatus ipn \<in> {''failed'', ''expired'', ''refunded''} then
        \<lparr>CR_TradeNo = NI_OrderID ipn, CR_GatewayTradeNo = [], CR_Status = ''failed'',
         CR_PaidAmountCents = 0, CR_PayMethod = [], CR_RawPayload = body\<rparr>
      else
        \<lparr>CR_TradeNo = NI_OrderID ipn, CR_GatewayTradeNo = [], CR_Status = ''pending'',
         CR_PaidAmountCents = 0, CR_PayMethod = [], CR_RawPayload = body\<rparr>)"

definition Now_HandleWebhook :: "PayEnv \<Rightarrow> PayConfig \<Rightarrow> CallbackRequest \<Rightarrow> GoErr + CallbackResult option" where
  "Now_HandleWebhook E pc q = (case Q_Body q of
       None \<Rightarrow> Inl (Err ''read body'')
     | Some body \<Rightarrow>
         let sig = Q_Header q ''x-nowpayments-sig''
         in if sig = [] then Inl (Err ''missing x-nowpayments-sig header'')
            else (case nowSignBody E body (PC_nowIPNSecret pc) of
                None \<Rightarrow> Inl (Err ''compute signature'')
              | Some expected \<Rightarrow>
                  if sig \<noteq> expected then Inl (Err ''signature mismatch'')
                  else (case PE_json_ipn E body of
                      None \<Rightarrow> Inl (Err ''parse ipn'')
                    | Some ipn \<Rightarrow>
                        if NI_OrderID ipn = [] then Inl (Err ''ipn missing order_id'')
                        else Inr (Some (now_result body ipn)))))"

text \<open>
  The registry. A registered adapter without the hosted operations is one of the on-chain kind,
  which the callers refuse. Registering an empty or a taken name panics.
\<close>

record CryptoAdapter =
  CA_Name :: string
  CA_IsEnabled :: "PayConfig \<Rightarrow> bool"
  CA_Hosted :: "((PayConfig \<Rightarrow> PendingOrder option \<Rightarrow> GoErr + string)
     \<times> (PayConfig \<Rightarrow> CallbackRequest \<Rightarrow> GoErr + CallbackResult option)) option"

type_synonym registry = "(string \<times> CryptoAdapter) list"

definition crypto_Register :: "CryptoAdapter \<Rightarrow> registry \<Rightarrow> registry option" where
  "crypto_Register a reg =
     (if CA_Name a = [] then None
      else if map_of reg (CA_Name a) \<noteq> None then None
      else Some ((CA_Name a, a) # reg))"

definition crypto_Get :: "string \<Rightarrow> registry \<Rightarrow> CryptoAdapter option" where
  "crypto_Get name reg = map_of reg name"

definition crypto_All :: "registry \<Rightarrow> CryptoAdapter list" where
  "crypto_All reg = sort_key CA_Name (map snd reg)"

definition crypto_EnabledList :: "PayConfig \<Rightarrow> registry \<Rightarrow> CryptoAdapter list" where
  "crypto_EnabledList pc reg = filter (\<lambda>a. CA_IsEnabled a pc) (crypto_All reg)"

definition NowPaymentsAdapter :: "PayEnv \<Rightarrow> CryptoAdapter" where
  "NowPaymentsAdapter E = \<lparr>CA_Name = ''nowpayments'', CA_IsEnabled = Now_IsEnabled,
     CA_Hosted = Some (Now_CreateOrder E, Now_HandleWebhook E)\<rparr>"

section \<open>What the EPay signature covers\<close>

lemma split_on_join:
  "ws \<noteq> [] \<Longrightarrow> \<forall>w \<in> set ws. d \<notin> set w \<Longrightarrow> split_on d (join_with [d] ws) = ws"
proof (induction ws rule: induct_list012)
  case (3 x y zs)
  have "join_with [d] (x # y # zs) = x @ d # join_with [d] (y # zs)" by (simp add: join_with_def)
  with 3 show ?case by (simp add: split_on_append)
qed (simp_all add: join_with_def split_on_no_sep)

definition separable :: "params \<Rightarrow> bool" where
  "separable p \<longleftrightarrow> distinct (map fst p)
     \<and> list_all (\<lambda>(k, v). CHR ''&'' \<notin> set k \<and> CHR ''='' \<notin> set k \<and> CHR ''&'' \<notin> set v) p"

definition split_pair :: "string \<Rightarrow> string \<times> string" where
  "split_pair t = (takeWhile (\<lambda>c. c \<noteq> CHR ''='') t, drop 1 (dropWhile (\<lambda>c. c \<noteq> CHR ''='') t))"

definition parse_key_values :: "string \<Rightarrow> params" where
  "parse_key_values s = (if s = [] then [] else map split_pair (split_on CHR ''&'' s))"

lemma split_pair_key_value: "CHR ''='' \<notin> set k \<Longrightarrow> split_pair (k @ CHR ''='' # v) = (k, v)"
proof -
  assume "CHR ''='' \<notin> set k"
  then have "\<forall>c \<in> set k. c \<noteq> CHR ''=''" by blast
  then show ?thesis by (simp add: split_pair_def takeWhile_append dropWhile_append)
qed

lemma get_mem: "get p k = v \<Longrightarrow> v = [] \<or> (k, v) \<in> set p"
  by (auto simp: get_def split: option.splits dest: map_of_SomeD)

lemma set_signed_keys:
  assumes "distinct (map fst p)"
  shows "set (signed_keys p) = {k. k \<noteq> ''sign'' \<and> k \<noteq> ''sign_type'' \<and> get p k \<noteq> []}"
proof (intro set_eqI)
  fix k
  have g: "get p k = v" if "(k, v) \<in> set p" for v
    using assms that by (simp add: get_def)
  have "k \<in> set (signed_keys p) \<longleftrightarrow> (\<exists>v. (k, v) \<in> set p \<and> k \<noteq> ''sign'' \<and> k \<noteq> ''sign_type'' \<and> v \<noteq> [])"
    unfolding signed_keys_def set_sort set_map set_filter by (force intro: rev_image_eqI)
  also have "\<dots> \<longleftrightarrow> k \<noteq> ''sign'' \<and> k \<noteq> ''sign_type'' \<and> get p k \<noteq> []"
    using g get_mem [of p k "get p k"] by blast
  finally show "k \<in> set (signed_keys p) \<longleftrightarrow> k \<in> {k. k \<noteq> ''sign'' \<and> k \<noteq> ''sign_type'' \<and> get p k \<noteq> []}"
    by simp
qed

text \<open>The signed text of parameters without separators in them reads back as those parameters.\<close>

lemma parse_key_values:
  assumes "separable p" and "set ks \<subseteq> set (map fst p)"
  shows "parse_key_values (key_values p ks) = map (\<lambda>k. (k, get p k)) ks"
proof (cases "ks = []")
  case True
  then show ?thesis by (simp add: parse_key_values_def key_values_def join_with_def)
next
  case False
  let ?ws = "map (\<lambda>k. k @ CHR ''='' # get p k) ks"
  have k: "CHR ''&'' \<notin> set k" "CHR ''='' \<notin> set k" "CHR ''&'' \<notin> set (get p k)" if kin: "k \<in> set ks" for k
  proof -
    have "k \<in> fst ` set p" using assms(2) kin by auto
    then obtain v where "(k, v) \<in> set p" by force
    then show "CHR ''&'' \<notin> set k" "CHR ''='' \<notin> set k"
      using assms(1) by (auto simp: separable_def list_all_iff)
    show "CHR ''&'' \<notin> set (get p k)"
      using get_mem [of p k "get p k"] assms(1) by (auto simp: separable_def list_all_iff)
  qed
  have "split_on CHR ''&'' (join_with ''&'' ?ws) = ?ws"
    by (rule split_on_join) (use False k in auto)
  moreover have "join_with ''&'' ?ws \<noteq> []" using False by (cases ks) (simp_all add: join_with_def)
  moreover have "map split_pair ?ws = map (\<lambda>k. (k, get p k)) ks"
    using k(2) by (simp add: split_pair_key_value)
  ultimately show ?thesis by (simp only: parse_key_values_def key_values_def if_False)
qed

lemma signed_keys_subset: "set (signed_keys p) \<subseteq> set (map fst p)"
  by (auto simp: signed_keys_def)


definition demo_epay_params :: "string \<Rightarrow> params" where
  "demo_epay_params money = [(''out_trade_no'', ''A''), (''money'', money), (''param'', []),
     (''trade_status'', ''TRADE_SUCCESS''), (''sign_type'', ''MD5'')]"


text \<open>Values with separators in them can be shifted between parameters under one signature.\<close>

lemma epay_signed_text_ambiguous:
  "key_values [(''money'', ''1.00&out_trade_no=A'')] (signed_keys [(''money'', ''1.00&out_trade_no=A'')]) =
   key_values [(''money'', ''1.00''), (''out_trade_no'', ''A'')]
     (signed_keys [(''money'', ''1.00''), (''out_trade_no'', ''A'')])"
  by code_simp

section \<open>Amounts\<close>

text \<open>
  C27. The amount that EPay is asked for comes back: an order of \<open>c\<close> cents (up to \<open>2 ^ 50\<close>) is
  sent as a decimal number of yuan, and when the gateway returns that text as the amount paid, it
  is read as exactly \<open>c\<close> cents.
\<close>

theorem epay_amount_roundtrip:
  assumes "0 < PO_MoneyCents po" and "PO_MoneyCents po \<le> 2 ^ 50"
  shows "epay_paid_cents E (get (epay_params pc po) ''money'') = Some (PO_MoneyCents po)"
  using parse_cents [OF assms] round_cents [OF assms]
  by (simp add: epay_paid_cents_def epay_params_def get_def)

theorem epay_amount_roundtrip_witness:
  "\<forall>E pc. epay_paid_cents E (get (epay_params pc \<lparr>PO_TradeNo = ''A'', PO_UserId = 1, PO_MoneyCents = 1999,
     PO_Currency = ''CNY'', PO_Quota = 9995000, PO_NotifyURL = [], PO_ReturnURL = []\<rparr>) ''money'') = Some 1999"
proof -
  define po where "po = \<lparr>PO_TradeNo = ''A'', PO_UserId = 1, PO_MoneyCents = 1999, PO_Currency = ''CNY'',
     PO_Quota = 9995000, PO_NotifyURL = [], PO_ReturnURL = []\<rparr>"
  have "0 < PO_MoneyCents po" "PO_MoneyCents po \<le> 2 ^ 50" by (simp_all add: po_def)
  from epay_amount_roundtrip [OF this] show ?thesis by (simp add: po_def)
qed

text \<open>At the built-in price of 500000 quota units per unit of money, a cent buys 5000 units exactly.\<close>

lemma MoneyToQuota_exact:
  assumes "PC_QuotaPerUnit pc = Fin 500000" and "0 < c" and "c \<le> 2 ^ 37"
  shows "MoneyToQuota pc c = Inr (5000 * c)"
proof -
  obtain r where r: "fdiv (fl_int c) (Fin 100) = Fin r" "\<bar>r * 100 - of_int c\<bar> \<le> of_int c / 2 ^ 53" "0 < r"
    using fl_cents [of c] assms(2,3) by auto
  have c: "(1::rat) \<le> of_int c" "(of_int c :: rat) \<le> 2 ^ 37"
  proof -
    have "(of_int 1 :: rat) \<le> of_int c" "(of_int c :: rat) \<le> of_int (2 ^ 37)"
      using assms(2,3) by (simp_all only: of_int_le_iff)
    then show "(1::rat) \<le> of_int c" "(of_int c :: rat) \<le> 2 ^ 37" by simp_all
  qed
  have e: "(of_int c :: rat) / 2 ^ 53 \<le> 1 / 65536" using c by simp
  have lo: "of_int c - 1 / 65536 \<le> r * 100" and hi: "r * 100 \<le> of_int c + 1 / 65536"
    using abs_le_D1 [OF r(2)] abs_le_D2 [OF r(2)] e by linarith+
  have "1 / 2 ^ 53 \<le> r * 500000" "r * 500000 \<le> 2 ^ 200" using lo hi c by simp_all
  from fl_close [OF this] obtain v where v: "fl (r * 500000) = Fin v"
    "r * 500000 - r * 500000 / 2 ^ 53 \<le> v" "v \<le> r * 500000 + r * 500000 / 2 ^ 53" "0 < v" by blast
  have "r * 500000 / 2 ^ 53 \<le> 1 / 8" using hi c by simp
  with v lo hi have near: "of_int (5000 * c) - 3 / 8 \<le> v" "v \<le> of_int (5000 * c) + 3 / 8" by simp_all
  have "\<lfloor>v + 1 / 2\<rfloor> = 5000 * c" by (rule floor_unique) (use near in linarith)+
  moreover have "in_i64 (5000 * c)" using assms(2,3) by (simp add: in_i64_def)
  moreover have "trunc_rat (5000 * of_int c) = 5000 * c" using trunc_rat_of_int [of "5000 * c"] by simp
  ultimately show ?thesis using v(1,4) assms(2) by (simp add: r(1) MoneyToQuota_def assms(1) Let_def)
qed

end
