(* ===== verification/PaymentWeb.thy ===== *)
theory PaymentWeb
  imports Payment "HOL-Library.Code_Target_Nat"
begin

text \<open>
  The HTTP side of payments (\<open>controller/topup.go\<close>, \<open>topup_epay.go\<close>, \<open>topup_stripe.go\<close>,
  \<open>topup_crypto.go\<close>): opening an order at a gateway, and the callbacks, which all end in
  \<open>CompleteTopup\<close> or \<open>FailTopup\<close>. A decoded request body is an argument, \<open>Inl\<close> when binding fails.
\<close>

section \<open>Opening an order\<close>

datatype PayReply = Rejected GoErr | Redirect string string

definition errPaymentsDisabled :: GoErr where "errPaymentsDisabled = Err ''payments disabled''"
definition errStripeDisabled :: GoErr where "errStripeDisabled = Err ''stripe disabled or not configured''"
definition errEpayDisabled :: GoErr where "errEpayDisabled = Err ''epay disabled or not configured''"
definition errBelowMinimum :: GoErr where "errBelowMinimum = Err ''amount below minimum''"
definition errCryptoUnknownAdapter :: GoErr where "errCryptoUnknownAdapter = Err ''unknown crypto adapter''"
definition errCryptoAdapterDisabled :: GoErr where
  "errCryptoAdapterDisabled = Err ''crypto adapter disabled or not configured''"
definition errCryptoOnChainUnsupported :: GoErr where
  "errCryptoOnChainUnsupported = Err ''on-chain crypto adapter not supported yet''"

definition minEpayMoneyCents :: int where "minEpayMoneyCents = 100"
definition minStripeMoneyCents :: int where "minStripeMoneyCents = 100"
definition minCryptoMoneyCents :: int where "minCryptoMoneyCents = 100"

text \<open>
  The common end of the three handlers: the order is stored before the gateway is asked, with the
  trade number \<open>uuid\<close>; an order the gateway refuses is marked failed.
\<close>

definition open_order ::
  "Topup \<Rightarrow> string \<Rightarrow> string \<Rightarrow> (PendingOrder option \<Rightarrow> GoErr + string) \<Rightarrow> string \<Rightarrow> World \<Rightarrow> PayReply \<times> World" where
  "open_order order notifyURL returnURL create failing w =
     (case CreatePendingTopup order w of
        (Some e, w1) \<Rightarrow> (Rejected e, w1)
      | (None, w1) \<Rightarrow>
          (case create (Some \<lparr>PO_TradeNo = Topup_TradeNo order, PO_UserId = Topup_UserId order,
                  PO_MoneyCents = Topup_Money order,
                  PO_Currency = (if Topup_Currency order = [] then ''CNY'' else Topup_Currency order),
                  PO_Quota = Topup_Quota order, PO_NotifyURL = notifyURL, PO_ReturnURL = returnURL\<rparr>) of
             Inl e \<Rightarrow> (Rejected e, snd (FailTopup (Topup_TradeNo order) (failing @ error_text e) w1))
           | Inr payURL \<Rightarrow> (Redirect (Topup_TradeNo order) payURL, w1)))"

definition new_order :: "int \<Rightarrow> string \<Rightarrow> string \<Rightarrow> string \<Rightarrow> int \<Rightarrow> int \<Rightarrow> string \<Rightarrow> Topup" where
  "new_order userId uuid gateway payMethod money quota currency =
     \<lparr>Topup_Id = 0, Topup_UserId = userId, Topup_TradeNo = uuid, Topup_GatewayTradeNo = [],
      Topup_Gateway = gateway, Topup_PayMethod = payMethod, Topup_Money = money, Topup_Currency = currency,
      Topup_Quota = quota, Topup_Status = [], Topup_CallbackPayload = [], Topup_CreatedAt = 0,
      Topup_CompletedAt = 0\<rparr>"

definition RequestEpayPay ::
  "PayEnv \<Rightarrow> PayConfig \<Rightarrow> string \<Rightarrow> int \<Rightarrow> GoErr + int \<times> string \<Rightarrow> World \<Rightarrow> PayReply \<times> World" where
  "RequestEpayPay E pc uuid userId req w =
     (if \<not> PC_PaymentEnabled pc then (Rejected errPaymentsDisabled, w)
      else if \<not> Epay_IsEnabled pc then (Rejected errEpayDisabled, w)
      else case req of
        Inl e \<Rightarrow> (Rejected e, w)
      | Inr (money, payMethod) \<Rightarrow>
          if money < minEpayMoneyCents then (Rejected errBelowMinimum, w)
          else (case MoneyToQuota pc money of
              Inl e \<Rightarrow> (Rejected e, w)
            | Inr quota \<Rightarrow>
                open_order (new_order userId uuid ''epay'' payMethod money quota ''CNY'')
                  (PC_PaymentCallbackBaseURL pc @ ''/api/epay/notify'') (PC_PaymentReturnURL pc)
                  (Epay_CreateOrder E pc) ''create_url:'' w))"

definition RequestStripePay ::
  "PayEnv \<Rightarrow> PayConfig \<Rightarrow> string \<Rightarrow> int \<Rightarrow> GoErr + int \<Rightarrow> World \<Rightarrow> PayReply \<times> World" where
  "RequestStripePay E pc uuid userId req w =
     (if \<not> PC_PaymentEnabled pc then (Rejected errPaymentsDisabled, w)
      else if \<not> Stripe_IsEnabled pc then (Rejected errStripeDisabled, w)
      else case req of
        Inl e \<Rightarrow> (Rejected e, w)
      | Inr money \<Rightarrow>
          if money < minStripeMoneyCents then (Rejected errBelowMinimum, w)
          else (case MoneyToQuota pc money of
              Inl e \<Rightarrow> (Rejected e, w)
            | Inr quota \<Rightarrow>
                open_order (new_order userId uuid ''stripe'' [] money quota (PC_StripeCurrency pc))
                  (PC_PaymentCallbackBaseURL pc @ ''/api/stripe/webhook'') (PC_PaymentReturnURL pc)
                  (Stripe_CreateOrder E pc) ''create_session:'' w))"

definition RequestCryptoPay ::
  "PayConfig \<Rightarrow> registry \<Rightarrow> string \<Rightarrow> string \<Rightarrow> int \<Rightarrow> GoErr + int \<Rightarrow> World \<Rightarrow> PayReply \<times> World" where
  "RequestCryptoPay pc reg adapterName uuid userId req w =
     (if \<not> PC_PaymentEnabled pc then (Rejected errPaymentsDisabled, w)
      else case crypto_Get adapterName reg of
        None \<Rightarrow> (Rejected errCryptoUnknownAdapter, w)
      | Some a \<Rightarrow>
          if \<not> CA_IsEnabled a pc then (Rejected errCryptoAdapterDisabled, w)
          else (case CA_Hosted a of
              None \<Rightarrow> (Rejected errCryptoOnChainUnsupported, w)
            | Some (create, _) \<Rightarrow>
                (case req of
                   Inl e \<Rightarrow> (Rejected e, w)
                 | Inr money \<Rightarrow>
                     if money < minCryptoMoneyCents then (Rejected errBelowMinimum, w)
                     else (case MoneyToQuota pc money of
                         Inl e \<Rightarrow> (Rejected e, w)
                       | Inr quota \<Rightarrow>
                           open_order (new_order userId uuid (''crypto:'' @ adapterName) [] money quota ''USD'')
                             (PC_PaymentCallbackBaseURL pc @ ''/api/crypto/webhook/'' @ adapterName)
                             (PC_PaymentReturnURL pc) (create pc) ''create_invoice:'' w))))"

section \<open>Callbacks\<close>

definition complete_with :: "CallbackResult \<Rightarrow> World \<Rightarrow> (GoErr + bool) \<times> World" where
  "complete_with r w = CompleteTopup (CR_TradeNo r) (CR_GatewayTradeNo r) (CR_PaidAmountCents r)
     (CR_PayMethod r) (CR_RawPayload r) w"

definition epaySuccessAck :: string where "epaySuccessAck = ''success''"
definition epayFailAck :: string where "epayFailAck = ''fail''"

definition EpayNotify :: "PayEnv \<Rightarrow> PayConfig \<Rightarrow> CallbackRequest \<Rightarrow> World \<Rightarrow> string \<times> World" where
  "EpayNotify E pc q w = (case Epay_HandleCallback E pc q of
       Inl e \<Rightarrow> (epayFailAck, w)
     | Inr r \<Rightarrow>
         if CR_Status r = ''success'' then
           (case complete_with r w of
              (Inl e, w1) \<Rightarrow> (epayFailAck, w1)
            | (Inr already, w1) \<Rightarrow> (epaySuccessAck, w1))
         else (epaySuccessAck, w))"

text \<open>The reply to Stripe and to the crypto gateways is a status code; \<open>None\<close> asks for no action.\<close>

definition settle_callback :: "CallbackResult option \<Rightarrow> World \<Rightarrow> int \<times> World" where
  "settle_callback result w = (case result of
       None \<Rightarrow> (200, w)
     | Some r \<Rightarrow>
         if CR_Status r = ''success'' then
           (case complete_with r w of
              (Inl e, w1) \<Rightarrow> (500, w1)
            | (Inr already, w1) \<Rightarrow> (200, w1))
         else if CR_Status r = ''failed'' then (200, snd (FailTopup (CR_TradeNo r) (CR_RawPayload r) w))
         else (200, w))"

definition StripeWebhook :: "PayEnv \<Rightarrow> PayConfig \<Rightarrow> CallbackRequest \<Rightarrow> World \<Rightarrow> int \<times> World" where
  "StripeWebhook E pc q w = (case Stripe_HandleCallback E pc q of
       Inl e \<Rightarrow> (400, w)
     | Inr result \<Rightarrow> settle_callback result w)"

definition CryptoWebhook :: "PayConfig \<Rightarrow> registry \<Rightarrow> string \<Rightarrow> CallbackRequest \<Rightarrow> World \<Rightarrow> int \<times> World" where
  "CryptoWebhook pc reg adapterName q w = (case crypto_Get adapterName reg of
       None \<Rightarrow> (404, w)
     | Some a \<Rightarrow> (case CA_Hosted a of
           None \<Rightarrow> (400, w)
         | Some (_, webhook) \<Rightarrow> (case webhook pc q of
               Inl e \<Rightarrow> (400, w)
             | Inr result \<Rightarrow> settle_callback result w)))"

definition AdminCompleteTopup :: "GoErr + string \<times> string \<Rightarrow> World \<Rightarrow> GoErr option \<times> World" where
  "AdminCompleteTopup req w = (case req of
       Inl e \<Rightarrow> (Some e, w)
     | Inr (tradeNo, nt) \<Rightarrow> AdminMarkTopupSuccess tradeNo nt w)"

section \<open>Reading\<close>

text \<open>The value \<open>strconv.Atoi\<close> returns beside its error: zero, or the bound that was passed.\<close>

definition atoi_value :: "string \<Rightarrow> int" where
  "atoi_value s = (case split_sign s of (neg, ds) \<Rightarrow>
     if ds = [] then 0
     else case parse_digits 0 ds of
         None \<Rightarrow> 0
       | Some n \<Rightarrow> max (- (2 ^ 63)) (min (2 ^ 63 - 1) (if neg then - int n else int n)))"

text \<open>Query parameters \<open>p\<close> and \<open>size\<close>; \<open>None\<close> when the parameter is absent.\<close>

definition pagination :: "string option \<Rightarrow> string option \<Rightarrow> int \<Rightarrow> int \<Rightarrow> int \<times> int" where
  "pagination p sz defaultSize maxSize =
     (let page = (case p of None \<Rightarrow> 1 | Some s \<Rightarrow> atoi_value s);
          n = (case sz of None \<Rightarrow> defaultSize | Some s \<Rightarrow> atoi_value s);
          n1 = (if n < 1 then defaultSize else n)
      in (if page < 1 then 1 else page, if maxSize < n1 then maxSize else n1))"

definition page_offset :: "int \<Rightarrow> int \<Rightarrow> int" where
  "page_offset page sz = i64 (i64 (page - 1) * sz)"

definition GetUserTopups :: "int \<Rightarrow> string option \<Rightarrow> string option \<Rightarrow> World \<Rightarrow> (GoErr + Topup list) \<times> World" where
  "GetUserTopups userId p sz w = (case pagination p sz 20 100 of
       (page, n) \<Rightarrow> ListUserTopups userId (page_offset page n) n w)"

record TopupQuery =
  TQ_status :: string
  TQ_gateway :: string
  TQ_user_id :: string
  TQ_start :: string
  TQ_end :: string

definition handle_AdminListTopups ::
  "TopupQuery \<Rightarrow> string option \<Rightarrow> string option \<Rightarrow> World \<Rightarrow> (GoErr + Topup list) \<times> World" where
  "handle_AdminListTopups tq p sz w = (case pagination p sz 20 200 of
       (page, n) \<Rightarrow> AdminListTopups
         \<lparr>TF_UserId = atoi_value (TQ_user_id tq), TF_Status = TQ_status tq, TF_Gateway = TQ_gateway tq,
          TF_StartAt = atoi_value (TQ_start tq), TF_EndAt = atoi_value (TQ_end tq)\<rparr>
         (page_offset page n) n w)"

definition RequestTopupAmount :: "PayConfig \<Rightarrow> GoErr + int \<Rightarrow> GoErr + int \<times> int" where
  "RequestTopupAmount pc req =
     (if \<not> PC_PaymentEnabled pc then Inl errPaymentsDisabled
      else case req of
        Inl e \<Rightarrow> Inl e
      | Inr money \<Rightarrow> map_sum id (\<lambda>quota. (money, quota)) (MoneyToQuota pc money))"

record TopupAmountOption =
  TO_Money :: int
  TO_Quota :: int
  TO_Display :: string

definition defaultAmountOptions :: "PayConfig \<Rightarrow> TopupAmountOption list" where
  "defaultAmountOptions pc = List.map_filter
     (\<lambda>money. case MoneyToQuota pc (money * 100) of
          Inl e \<Rightarrow> None
        | Inr quota \<Rightarrow> Some \<lparr>TO_Money = money * 100, TO_Quota = quota, TO_Display = show_int money\<rparr>)
     [10, 50, 100, 500, 1000]"

record TopupInfo =
  TI_stripe_enabled :: bool
  TI_epay_enabled :: bool
  TI_crypto_adapters :: "string list"
  TI_amount_options :: "TopupAmountOption list"
  TI_return_url :: string

definition GetTopupInfo :: "PayConfig \<Rightarrow> registry \<Rightarrow> GoErr + TopupInfo" where
  "GetTopupInfo pc reg =
     (if \<not> PC_PaymentEnabled pc then Inl errPaymentsDisabled
      else Inr \<lparr>TI_stripe_enabled = PC_StripeEnabled pc, TI_epay_enabled = PC_EpayEnabled pc,
                TI_crypto_adapters = map CA_Name (crypto_EnabledList pc reg),
                TI_amount_options = defaultAmountOptions pc, TI_return_url = PC_PaymentReturnURL pc\<rparr>)"

section \<open>All payment requests together\<close>

text \<open>A new order is added as a pending row under a fresh id and a fresh trade number, or nothing changes.\<close>

lemma CreatePendingTopup_db:
  assumes "CreatePendingTopup t w = (r, w1)" and "Topup_Status t = []" and "topups_ok w"
  shows "topups_ok w1 \<and> topup_credited w1 = topup_credited w \<and> user_bal w1 = user_bal w"
proof (cases "db w1 = db w")
  case True
  from same_db_topup [OF True] assms(3) show ?thesis by simp
next
  case False
  define t1 where "t1 = t\<lparr>Topup_Currency := (if Topup_Currency t = [] then ''CNY'' else Topup_Currency t),
      Topup_Status := TopupStatusPending, Topup_CreatedAt := clock w\<rparr>"
  define t2 where "t2 = (if Topup_Id t1 = 0 then t1\<lparr>Topup_Id := next_id Topup_Id (db_topups (db w))\<rparr> else t1)"
  obtain x w2 where ins: "sql_insert db_topups db_topups_update
      (\<lambda>x. Topup_Id x = Topup_Id t2 \<or> Topup_TradeNo x = Topup_TradeNo t2) t2 w = (x, w2)" by fastforce
  have "w1 = w2"
    using assms(1,2) False ins
    by (auto simp: CreatePendingTopup_def Let_def t1_def t2_def err_only_def split: if_splits sum.splits)
  with False ins sql_insert_Inl obtain y where "x = Inr y" by (cases x) fastforce+
  with ins sql_insert_Inr [of db_topups db_topups_update _ t2 w y w2] \<open>w1 = w2\<close>
  have d: "db w1 = db_topups_update (\<lambda>rows. rows @ [t2]) (db w)"
    and n: "\<not> list_ex (\<lambda>x. Topup_Id x = Topup_Id t2 \<or> Topup_TradeNo x = Topup_TradeNo t2) (db_topups (db w))"
    by auto
  have "Topup_Status t2 = TopupStatusPending" by (simp add: t2_def t1_def)
  then have "topup_row_credit j t2 = 0" for j by (simp add: topup_row_credit_def topup_status_defs)
  with d n assms(3) show ?thesis
    by (auto simp: topups_ok_def topup_credited_def user_bal_def fun_eq_iff list_ex_iff image_iff)
qed

lemma FailTopup_event: "snd (FailTopup tn p w) = pay_event (GatewayRejects tn p) w"
  by (simp add: pay_event_def)

lemma complete_with_event:
  "snd (complete_with r w) = pay_event (GatewayCallback (CR_TradeNo r) (CR_GatewayTradeNo r)
     (CR_PaidAmountCents r) (CR_PayMethod r) (CR_RawPayload r)) w"
  by (simp add: complete_with_def pay_event_def)

text \<open>Every callback does what one payment event does, or nothing.\<close>

lemma EpayNotify_event: "snd (EpayNotify E pc q w) = w \<or> (\<exists>e. snd (EpayNotify E pc q w) = pay_event e w)"
proof (cases "Epay_HandleCallback E pc q")
  case (Inr r)
  have "snd (EpayNotify E pc q w) = (if CR_Status r = ''success'' then snd (complete_with r w) else w)"
    using Inr by (auto simp: EpayNotify_def split: prod.splits sum.splits)
  then show ?thesis using complete_with_event [of r w] by auto
qed (simp add: EpayNotify_def)

lemma settle_callback_event: "snd (settle_callback r w) = w \<or> (\<exists>e. snd (settle_callback r w) = pay_event e w)"
proof (cases r)
  case (Some x)
  have "snd (settle_callback r w) = (if CR_Status x = ''success'' then snd (complete_with x w)
      else if CR_Status x = ''failed'' then snd (FailTopup (CR_TradeNo x) (CR_RawPayload x) w) else w)"
    using Some by (auto simp: settle_callback_def split: prod.splits sum.splits)
  then show ?thesis using complete_with_event [of x w] FailTopup_event by auto
qed (simp add: settle_callback_def)

lemma StripeWebhook_event: "snd (StripeWebhook E pc q w) = w \<or> (\<exists>e. snd (StripeWebhook E pc q w) = pay_event e w)"
  by (cases "Stripe_HandleCallback E pc q") (simp_all add: StripeWebhook_def settle_callback_event)

lemma CryptoWebhook_event: "snd (CryptoWebhook pc reg a q w) = w \<or> (\<exists>e. snd (CryptoWebhook pc reg a q w) = pay_event e w)"
  using settle_callback_event
  by (auto simp: CryptoWebhook_def split: option.splits sum.splits)

lemma AdminCompleteTopup_event:
  "snd (AdminCompleteTopup req w) = w \<or> (\<exists>e. snd (AdminCompleteTopup req w) = pay_event e w)"
proof (cases req)
  case (Inr x)
  obtain tn nt where x: "x = (tn, nt)" by fastforce
  have "snd (AdminCompleteTopup req w) = pay_event (AdminMarks tn nt) w"
    by (simp add: Inr x AdminCompleteTopup_def pay_event_def)
  then show ?thesis by blast
qed (simp add: AdminCompleteTopup_def)

lemma open_order_cases:
  assumes "open_order order n u create p w = (r, w')"
  obtains r1 w1 where "CreatePendingTopup order w = (r1, w1)" "w' = w1 \<or> (\<exists>e. w' = pay_event e w1)"
proof -
  obtain r1 w1 where c: "CreatePendingTopup order w = (r1, w1)" by fastforce
  have "w' = w1 \<or> (\<exists>e. w' = pay_event e w1)"
    using assms c FailTopup_event by (auto simp: open_order_def split: option.splits sum.splits)
  with c that show thesis by blast
qed

text \<open>The requests of users, gateways, strangers and administrators that concern orders.\<close>

datatype PayRequest =
    PayByEpay string int "GoErr + int \<times> string"
  | PayByStripe string int "GoErr + int"
  | PayByCrypto string string int "GoErr + int"
  | EpayCallback CallbackRequest
  | StripeCallback CallbackRequest
  | CryptoCallback string CallbackRequest
  | AdminCompletes "GoErr + string \<times> string"

fun serve :: "PayEnv \<Rightarrow> PayConfig \<Rightarrow> registry \<Rightarrow> PayRequest \<Rightarrow> World \<Rightarrow> World" where
  "serve E pc reg (PayByEpay uuid uid req) w = snd (RequestEpayPay E pc uuid uid req w)"
| "serve E pc reg (PayByStripe uuid uid req) w = snd (RequestStripePay E pc uuid uid req w)"
| "serve E pc reg (PayByCrypto a uuid uid req) w = snd (RequestCryptoPay pc reg a uuid uid req w)"
| "serve E pc reg (EpayCallback q) w = snd (EpayNotify E pc q w)"
| "serve E pc reg (StripeCallback q) w = snd (StripeWebhook E pc q w)"
| "serve E pc reg (CryptoCallback a q) w = snd (CryptoWebhook pc reg a q w)"
| "serve E pc reg (AdminCompletes req) w = snd (AdminCompleteTopup req w)"

definition books_ok :: "World \<Rightarrow> World \<Rightarrow> bool" where
  "books_ok w w' \<longleftrightarrow> topups_ok w' \<and> (\<forall>j. user_bal w' j =
     map_option (\<lambda>b. b + (topup_credited w' j - topup_credited w j)) (user_bal w j))"

lemma books_ok_refl: "topups_ok w \<Longrightarrow> books_ok w w"
  by (simp add: books_ok_def option.map_ident)

lemma books_ok_event: "topups_ok w \<Longrightarrow> w' = w \<or> (\<exists>e. w' = pay_event e w) \<Longrightarrow> books_ok w w'"
  using pay_event_step [of w] by (auto simp: books_ok_def option.map_ident)

lemma books_ok_open_order:
  assumes "topups_ok w" and "Topup_Status order = []"
  shows "books_ok w (snd (open_order order n u create p w))"
proof -
  obtain r w' where o: "open_order order n u create p w = (r, w')" by fastforce
  from open_order_cases [OF o] obtain r1 w1 where c: "CreatePendingTopup order w = (r1, w1)"
    and e: "w' = w1 \<or> (\<exists>e. w' = pay_event e w1)" .
  note f = CreatePendingTopup_db [OF c assms(2,1)]
  from books_ok_event [OF _ e] f show ?thesis by (simp add: o books_ok_def)
qed

lemma new_order_status [simp]: "Topup_Status (new_order uid uuid g m money quota cur) = []"
  by (simp add: new_order_def)

lemma serve_books: "topups_ok w \<Longrightarrow> books_ok w (serve E pc reg e w)"
proof (cases e)
  case (PayByEpay uuid uid req)
  assume "topups_ok w"
  with PayByEpay show ?thesis
    by (auto simp: RequestEpayPay_def books_ok_refl books_ok_open_order split: sum.splits prod.splits)
next
  case (PayByStripe uuid uid req)
  assume "topups_ok w"
  with PayByStripe show ?thesis
    by (auto simp: RequestStripePay_def books_ok_refl books_ok_open_order split: sum.splits)
next
  case (PayByCrypto a uuid uid req)
  assume "topups_ok w"
  with PayByCrypto show ?thesis
    by (auto simp: RequestCryptoPay_def books_ok_refl books_ok_open_order split: sum.splits option.splits prod.splits)
qed (simp_all add: books_ok_event EpayNotify_event StripeWebhook_event CryptoWebhook_event AdminCompleteTopup_event)

interpretation web: credited_orders topups_ok user_bal topup_credited "serve E pc reg" for E pc reg
  by unfold_locales (use serve_books in \<open>auto simp: books_ok_def\<close>)

section \<open>Properties\<close>

text \<open>
  C24. Over any sequence of payment requests (orders opened at any gateway, callbacks that are
  genuine, repeated, forged or malformed, decisions of administrators), with any failures of the
  database and any answers of the gateways, every balance moves by exactly the quota of the orders
  of that user that became successful: opening an order credits nothing, and a callback credits
  what its order was opened for, once.
\<close>

theorem payment_requests_conserve:
  assumes "topups_ok w"
  shows "user_bal (fold (serve E pc reg) es w) j = map_option
     (\<lambda>b. b + (topup_credited (fold (serve E pc reg) es w) j - topup_credited w j)) (user_bal w j)"
  using assms by (rule web.run_bal)

lemma get_filter: "P k \<Longrightarrow> get (filter (\<lambda>(k, v). P k) m) k = get m k"
  by (induction m) (auto simp: get_def)

lemma signed_keys_filter:
  "signed_keys (filter (\<lambda>(k, v). k \<noteq> ''sign'' \<and> k \<noteq> ''sign_type'') m) = signed_keys m"
proof -
  have "filter (\<lambda>(k, v). k \<noteq> ''sign'' \<and> k \<noteq> ''sign_type'' \<and> v \<noteq> [])
      (filter (\<lambda>(k, v). k \<noteq> ''sign'' \<and> k \<noteq> ''sign_type'') m) =
    filter (\<lambda>(k, v). k \<noteq> ''sign'' \<and> k \<noteq> ''sign_type'' \<and> v \<noteq> []) m"
    by (induction m) auto
  then show ?thesis by (simp only: signed_keys_def)
qed

lemma epaySign_filter:
  "epaySign E (filter (\<lambda>(k, v). k \<noteq> ''sign'' \<and> k \<noteq> ''sign_type'') m) key = epaySign E m key"
proof -
  have g: "get (filter (\<lambda>(k, v). k \<noteq> ''sign'' \<and> k \<noteq> ''sign_type'') m) k = get m k"
    if "k \<in> set (signed_keys m)" for k
    using that get_filter [of "\<lambda>k. k \<noteq> ''sign'' \<and> k \<noteq> ''sign_type''" k m] by (auto simp: signed_keys_def)
  show ?thesis
    unfolding epaySign_def key_values_def signed_keys_filter by (simp add: g cong: map_cong)
qed

lemma Epay_HandleCallback_success:
  assumes "Epay_HandleCallback E pc q = Inr r" and "CR_Status r = ''success''"
  shows "let raw = collectEpayParams q in
      equal_fold (get raw ''sign'') (epaySign E raw (PC_EpayKey pc))
    \<and> get raw ''trade_status'' = ''TRADE_SUCCESS'' \<and> CR_TradeNo r = get raw ''out_trade_no''
    \<and> epay_paid_cents E (get raw ''money'') = Some (CR_PaidAmountCents r)"
  using assms
  by (auto simp: Epay_HandleCallback_def Let_def epaySign_filter split: if_splits option.splits)

lemma complete_with_credit:
  assumes "complete_with r w = (x, w')" and "db w' \<noteq> db w"
  shows "x = Inr False \<and> (\<exists>t. topup_of w (CR_TradeNo r) = Some t \<and> Topup_Status t = TopupStatusPending
     \<and> Topup_Money t \<le> CR_PaidAmountCents r
     \<and> db w' = credit_order (CR_GatewayTradeNo r) (CR_PayMethod r) (CR_RawPayload r) (clock w) t (db w))"
proof -
  note c = CompleteTopup_db [OF assms(1) [unfolded complete_with_def]]
  show ?thesis
  proof (cases x)
    case (Inl e)
    with c assms(2) show ?thesis by simp
  next
    case (Inr b)
    with c assms(2) show ?thesis by (cases b) auto
  qed
qed

text \<open>
  C25. An EPay notification changes the database only if it carries a signature made with the
  merchant key over all its parameters, reports a successful trade, and names a pending order
  whose amount it covers; the change is then exactly the credit of that order. Every other
  notification (unsigned, altered, repeated, short) changes nothing.
\<close>

theorem epay_credits_only_signed:
  assumes "EpayNotify E pc q w = (ack, w')" and "db w' \<noteq> db w"
  shows "\<exists>t paid. equal_fold (get (collectEpayParams q) ''sign'') (epaySign E (collectEpayParams q) (PC_EpayKey pc))
     \<and> get (collectEpayParams q) ''trade_status'' = ''TRADE_SUCCESS''
     \<and> epay_paid_cents E (get (collectEpayParams q) ''money'') = Some paid
     \<and> topup_of w (get (collectEpayParams q) ''out_trade_no'') = Some t
     \<and> Topup_Status t = TopupStatusPending \<and> Topup_Money t \<le> paid
     \<and> user_bal w' = (\<lambda>j. if j = Topup_UserId t
          then map_option (\<lambda>b. b + Topup_Quota t) (user_bal w j) else user_bal w j)"
proof (cases "Epay_HandleCallback E pc q")
  case (Inl e)
  with assms show ?thesis by (simp add: EpayNotify_def)
next
  case (Inr r)
  obtain x w1 where c: "complete_with r w = (x, w1)" by fastforce
  have s: "CR_Status r = ''success''" and w: "w1 = w'"
    using assms c Inr by (auto simp: EpayNotify_def split: if_splits sum.splits)
  from complete_with_credit [OF c [unfolded w] assms(2)] obtain t where t:
    "topup_of w (CR_TradeNo r) = Some t" "Topup_Status t = TopupStatusPending"
    "Topup_Money t \<le> CR_PaidAmountCents r"
    "db w' = credit_order (CR_GatewayTradeNo r) (CR_PayMethod r) (CR_RawPayload r) (clock w) t (db w)" by blast
  have b: "user_bal w' = (\<lambda>j. if j = Topup_UserId t
        then map_option (\<lambda>b. b + Topup_Quota t) (user_bal w j) else user_bal w j)"
    using credit_order_bal [OF t(4)] by (simp add: fun_eq_iff)
  from Epay_HandleCallback_success [OF Inr s] t b show ?thesis by (auto simp: Let_def)
qed

text \<open>The request of somebody who knows the trade number of an order, and no secret.\<close>

definition forged_notification :: "PayEnv \<Rightarrow> string \<Rightarrow> int \<Rightarrow> CallbackRequest" where
  "forged_notification E tradeNo cents =
     (let params = [(''out_trade_no'', tradeNo), (''money'', format_2f (fdiv (fl_int cents) (Fin 100))),
            (''trade_status'', ''TRADE_SUCCESS'')]
      in \<lparr>Q_IsPost = False,
          Q_Query = (''sign'', [epaySign E params []]) # map (\<lambda>(k, v). (k, [v])) params,
          Q_PostForm = [], Q_Body = None, Q_Header = (\<lambda>_. [])\<rparr>)"

lemma forged_notification_accepted:
  assumes "PC_EpayKey pc = []" and "\<And>x. PE_md5_hex E x \<noteq> []" and "tn \<noteq> []"
    and "0 < c" and "c \<le> 2 ^ 50"
  shows "\<exists>r. Epay_HandleCallback E pc (forged_notification E tn c) = Inr r \<and> CR_Status r = ''success''
     \<and> CR_TradeNo r = tn \<and> CR_PaidAmountCents r = c"
proof -
  define money where "money = format_2f (fdiv (fl_int c) (Fin 100))"
  define params where "params = [(''out_trade_no'', tn), (''money'', money), (''trade_status'', ''TRADE_SUCCESS'')]"
  have raw: "collectEpayParams (forged_notification E tn c) = (''sign'', epaySign E params []) # params"
    by (simp add: collectEpayParams_def forged_notification_def Let_def first_values_def params_def money_def)
  have sg: "filter (\<lambda>(k, v). k \<noteq> ''sign'' \<and> k \<noteq> ''sign_type'') ((''sign'', epaySign E params []) # params) = params"
    "filter (\<lambda>(k, v). k \<noteq> ''sign'' \<and> k \<noteq> ''sign_type'') params = params"
    by (simp_all add: params_def)
  have g: "get ((''sign'', s) # params) ''sign'' = s" "get ((''sign'', s) # params) ''out_trade_no'' = tn"
    "get ((''sign'', s) # params) ''trade_status'' = ''TRADE_SUCCESS''"
    "get ((''sign'', s) # params) ''money'' = money" for s
    by (simp_all add: get_def params_def)
  have ne: "epaySign E params [] \<noteq> []" using assms(2) by (simp add: epaySign_def)
  have paid: "epay_paid_cents E money = Some c"
    using parse_cents [OF assms(4,5)] round_cents [OF assms(4,5)] by (simp add: epay_paid_cents_def money_def)
  show ?thesis
    using ne assms(3) paid
    by (simp add: Epay_HandleCallback_def raw sg g assms(1) equal_fold_def Let_def)
qed

definition room_for :: "int \<Rightarrow> World \<Rightarrow> bool" where
  "room_for q w \<longleftrightarrow> list_all (\<lambda>u. user_fits (u\<lparr>User_Quota := User_Quota u + q\<rparr>)) (db_users (db w))"

lemma complete_body_succeeds:
  assumes "faults w = []" and "topup_of w tn = Some t" and "Topup_Status t = TopupStatusPending"
    and "Topup_Money t \<le> paid" and "room_for (Topup_Quota t) w"
  shows "\<exists>w1. complete_body tn g paid m p w = (Inr (Some t), w1) \<and> faults w1 = []"
proof -
  have ns: "Topup_Status t \<noteq> TopupStatusSuccess" using assms(3) by (simp add: topup_status_defs)
  have f: "find (\<lambda>t. Topup_TradeNo t = tn) (db_topups (db w)) = Some t"
    using assms(2) by (simp add: topup_of_def)
  have ok: "list_all (\<lambda>u. User_Id u = Topup_UserId t \<longrightarrow> user_fits (u\<lparr>User_Quota := User_Quota u + Topup_Quota t\<rparr>))
      (db_users (db w))" using assms(5) by (auto simp: room_for_def list_all_iff)
  show ?thesis
    using assms(1,3,4) ns f ok
    by (simp add: complete_body_def sql_first_def increaseUserQuota_def sql_update_def err_only_def sql_save_def)
qed

lemma CompleteTopup_succeeds:
  assumes "faults w = []" and "topup_of w tn = Some t" and "Topup_Status t = TopupStatusPending"
    and "Topup_Money t \<le> paid" and "room_for (Topup_Quota t) w" and "tn \<noteq> []"
  shows "fst (CompleteTopup tn g paid m p w) = Inr False"
proof -
  obtain w1 where "complete_body tn g paid m p w = (Inr (Some t), w1)" "faults w1 = []"
    using complete_body_succeeds [OF assms(1-5)] by blast
  then show ?thesis using assms(1,6) by (simp add: CompleteTopup_def sql_transaction_def)
qed

text \<open>
  C28. Where no EPay key is configured (the default), the public notification handler accepts
  requests signed with the empty key, which anybody can compute: whoever knows the trade number of
  a pending order of any gateway, its buyer first of all, has it credited in full without a payment.
\<close>

theorem unconfigured_epay_credits_anyone:
  assumes "PC_EpayKey pc = []" and "\<And>x. PE_md5_hex E x \<noteq> []"
    and "topup_of w tn = Some t" and "Topup_Status t = TopupStatusPending" and "tn \<noteq> []"
    and "0 < Topup_Money t" and "Topup_Money t \<le> 2 ^ 50"
    and "faults w = []" and "room_for (Topup_Quota t) w"
  shows "(case EpayNotify E pc (forged_notification E tn (Topup_Money t)) w of
       (ack, w') \<Rightarrow> ack = epaySuccessAck
         \<and> user_bal w' (Topup_UserId t) = map_option (\<lambda>b. b + Topup_Quota t) (user_bal w (Topup_UserId t)))"
proof -
  obtain r where r: "Epay_HandleCallback E pc (forged_notification E tn (Topup_Money t)) = Inr r"
    "CR_Status r = ''success''" "CR_TradeNo r = tn" "CR_PaidAmountCents r = Topup_Money t"
    using forged_notification_accepted [OF assms(1,2,5-7)] by blast
  obtain x w' where c: "complete_with r w = (x, w')" by fastforce
  then have x: "x = Inr False"
    using CompleteTopup_succeeds [OF assms(8,3,4) order_refl assms(9,5)] r(3,4)
    by (metis complete_with_def fst_conv)
  from CompleteTopup_db [OF c [unfolded complete_with_def]] x r(3) assms(3)
  have "db w' = credit_order (CR_GatewayTradeNo r) (CR_PayMethod r) (CR_RawPayload r) (clock w) t (db w)" by simp
  from credit_order_bal [OF this] c x r(1,2) show ?thesis by (simp add: EpayNotify_def)
qed

text \<open>
  The amount that NOWPayments reports is cut, not rounded, to cents: when it reports the price
  it was asked for an order of 19.99, which as a binary number times 100 lies just below 1999, the
  finished payment is taken for a short one and refused, and the order stays pending.
\<close>

theorem nowpayments_refuses_exact_payment:
  assumes "PE_json_ipn E body = Some ipn" and "NI_PaymentStatus ipn = ''finished''"
    and "NI_PriceAmount ipn = fdiv (fl_int (Topup_Money t)) (Fin 100)" and "Topup_Money t = 1999"
    and "topup_of w (NI_OrderID ipn) = Some t" and "Topup_Status t = TopupStatusPending"
    and "Q_Body q = Some body"
  shows "(case CryptoWebhook pc [(''nowpayments'', NowPaymentsAdapter E)] ''nowpayments'' q w of
       (code, w') \<Rightarrow> code \<noteq> 200 \<and> db w' = db w)"
proof -
  have cut: "f2i (fmul (fdiv (fl_int 1999) (Fin 100)) (Fin 100)) = 1998" by code_simp
  have sr: "(case settle_callback (Some (now_result body ipn)) w of (code, w') \<Rightarrow> code = 500 \<and> db w' = db w)"
  proof -
    have s: "CR_Status (now_result body ipn) = ''success''" "CR_TradeNo (now_result body ipn) = NI_OrderID ipn"
      "CR_PaidAmountCents (now_result body ipn) = 1998"
      using assms(2,3,4) cut by (simp_all add: now_result_def)
    obtain x w' where c: "complete_with (now_result body ipn) w = (x, w')" by fastforce
    note d = CompleteTopup_db [OF c [unfolded complete_with_def], unfolded s]
    have "\<exists>e. x = Inl e"
    proof (rule ccontr)
      assume "\<not> ?thesis"
      then obtain b where "x = Inr b" by (cases x) auto
      with d assms(4-6) show False by (cases b) (auto simp: topup_status_defs)
    qed
    with c d s show ?thesis by (auto simp: settle_callback_def)
  qed
  have "Now_HandleWebhook E pc q = Inr (Some (now_result body ipn)) \<or> (\<exists>e. Now_HandleWebhook E pc q = Inl e)"
    using assms(1,7) by (auto simp: Now_HandleWebhook_def Let_def split: option.splits)
  then show ?thesis
    using sr by (auto simp: CryptoWebhook_def crypto_Get_def NowPaymentsAdapter_def)
qed

text \<open>The amounts that are whole units of money are not affected by the cut.\<close>

lemma nowpayments_whole_amounts: "f2i (fmul (fdiv (fl_int 10000) (Fin 100)) (Fin 100)) = 10000"
  by code_simp

text \<open>The same gap at NOWPayments: without an IPN secret its webhook accepts the empty one.\<close>

lemma unconfigured_nowpayments_accepts:
  assumes "PC_nowIPNSecret pc = []" and "Q_Body q = Some body" and "PE_json_canonical E body = Some canon"
    and "Q_Header q ''x-nowpayments-sig'' = PE_hmac_sha512_hex E [] canon" and "PE_hmac_sha512_hex E [] canon \<noteq> []"
    and "PE_json_ipn E body = Some ipn" and "NI_OrderID ipn \<noteq> []"
  shows "Now_HandleWebhook E pc q = Inr (Some (now_result body ipn))"
  using assms by (simp add: Now_HandleWebhook_def nowSignBody_def Let_def)

section \<open>Witnesses\<close>

definition pay_config :: "string \<Rightarrow> PayConfig" where
  "pay_config key = \<lparr>PC_PaymentEnabled = True, PC_EpayEnabled = True, PC_EpayId = ''1001'', PC_EpayKey = key,
     PC_EpayUrl = ''https://pay.test'', PC_EpayDefaultMethod = ''alipay'', PC_StripeEnabled = True,
     PC_StripeAPISecretKey = ''sk'', PC_StripeWebhookSecret = ''wh'', PC_StripeCurrency = ''usd'',
     PC_PaymentCallbackBaseURL = ''https://gw.test'', PC_PaymentReturnURL = ''https://gw.test/back'',
     PC_QuotaPerUnit = Fin 500000, PC_CryptoAdaptersEnabled = [''nowpayments''], PC_nowApiKey = ''ak'',
     PC_nowIPNSecret = ''is'', PC_nowBaseCurrency = ''usd''\<rparr>"

text \<open>Stand-ins for the hash functions and the decoders, enough to run the handlers.\<close>

definition pay_ipn :: NowIpn where
  "pay_ipn = \<lparr>NI_PaymentID = ''p1'', NI_OrderID = ''A'', NI_PaymentStatus = ''finished'',
     NI_PriceAmount = fdiv (fl_int 1999) (Fin 100), NI_PayCurrency = ''btc''\<rparr>"

definition pay_env :: PayEnv where
  "pay_env = \<lparr>PE_md5_hex = (\<lambda>x. CHR ''h'' # x), PE_hmac_sha512_hex = (\<lambda>k x. k @ x), PE_hexfloat = (\<lambda>_. None),
     PE_json_canonical = Some, PE_json_ipn = (\<lambda>_. Some pay_ipn), PE_stripe_event = (\<lambda>_ _ _. None),
     PE_stripe_session = (\<lambda>_ _. Inr ''https://stripe.test''), PE_now_post = (\<lambda>_ _. Inl ErrDB)\<rparr>"

definition epay_notification :: "string \<Rightarrow> CallbackRequest" where
  "epay_notification key =
     (let params = [(''out_trade_no'', ''A''), (''money'', ''10.00''), (''trade_status'', ''TRADE_SUCCESS'')]
      in \<lparr>Q_IsPost = True, Q_Query = [(''out_trade_no'', [''A''])],
          Q_PostForm = (''sign'', [epaySign pay_env params key]) # map (\<lambda>(k, v). (k, [v])) params,
          Q_Body = None, Q_Header = (\<lambda>_. [])\<rparr>)"

definition pay_requests :: "PayRequest list" where
  "pay_requests = [PayByStripe ''C'' 1 (Inr 1000), EpayCallback (epay_notification ''guess''),
     EpayCallback (epay_notification ''key''), EpayCallback (epay_notification ''key''),
     AdminCompletes (Inr (''B'', ''lost callback''))]"

theorem payment_requests_conserve_witness:
  "user_bal (fold (serve pay_env (pay_config ''key'') []) pay_requests demo_pay) 1 = map_option
     (\<lambda>b. b + (topup_credited (fold (serve pay_env (pay_config ''key'') []) pay_requests demo_pay) 1
        - topup_credited demo_pay 1)) (user_bal demo_pay 1)
   \<and> user_bal (fold (serve pay_env (pay_config ''key'') []) pay_requests demo_pay) 1 = Some 240"
proof -
  have "topups_ok demo_pay" by code_simp
  note payment_requests_conserve [OF this, of pay_env "pay_config ''key''" "[]" pay_requests 1]
  moreover have "user_bal (fold (serve pay_env (pay_config ''key'') []) pay_requests demo_pay) 1 = Some 240"
    by code_simp
  ultimately show ?thesis by blast
qed

theorem epay_credits_only_signed_witness:
  "\<exists>t paid. epay_paid_cents pay_env ''10.00'' = Some paid \<and> topup_of demo_pay ''A'' = Some t
     \<and> Topup_Money t \<le> paid
     \<and> user_bal (snd (EpayNotify pay_env (pay_config ''key'') (epay_notification ''key'') demo_pay)) (Topup_UserId t)
         = Some 170"
proof -
  let ?q = "epay_notification ''key''"
  let ?r = "EpayNotify pay_env (pay_config ''key'') ?q demo_pay"
  have b: "user_bal (snd ?r) 1 = Some 170" "user_bal demo_pay 1 = Some 100" by code_simp+
  then have "db (snd ?r) \<noteq> db demo_pay" by (auto simp: user_bal_def)
  from epay_credits_only_signed [OF prod.collapse [symmetric] this]
  obtain t paid where t: "epay_paid_cents pay_env (get (collectEpayParams ?q) ''money'') = Some paid"
    "topup_of demo_pay (get (collectEpayParams ?q) ''out_trade_no'') = Some t" "Topup_Money t \<le> paid" by blast
  have g: "get (collectEpayParams ?q) ''money'' = ''10.00''" "get (collectEpayParams ?q) ''out_trade_no'' = ''A''"
    by code_simp+
  have "map_option Topup_UserId (topup_of demo_pay ''A'') = Some 1" by code_simp
  with t g b show ?thesis by auto
qed

theorem unconfigured_epay_credits_anyone_witness:
  "user_bal demo_pay 1 = Some 100
   \<and> user_bal (snd (EpayNotify pay_env (pay_config []) (forged_notification pay_env ''A'' 1000) demo_pay)) 1 = Some 170"
proof -
  have a: "PC_EpayKey (pay_config []) = []" "\<And>x. PE_md5_hex pay_env x \<noteq> []"
    by (simp_all add: pay_config_def pay_env_def)
  have b: "topup_of demo_pay ''A'' = Some (demo_topup 1 ''A'' 1)" "faults demo_pay = []" "room_for 70 demo_pay"
    "user_bal demo_pay 1 = Some 100" by code_simp+
  have t: "Topup_Status (demo_topup 1 ''A'' 1) = TopupStatusPending" "Topup_Money (demo_topup 1 ''A'' 1) = 1000"
    "Topup_Quota (demo_topup 1 ''A'' 1) = 70" "Topup_UserId (demo_topup 1 ''A'' 1) = 1"
    by (simp_all add: demo_topup_def)
  show ?thesis
    using unconfigured_epay_credits_anyone [OF a b(1) t(1) _ _ _ b(2)] b(3,4) by (simp add: t split: prod.splits)
qed

definition crypto_world :: World where
  "crypto_world = world_of (demo_db\<lparr>db_topups := [(demo_topup 1 ''A'' 1)\<lparr>Topup_Money := 1999\<rparr>]\<rparr>) []"

definition crypto_request :: CallbackRequest where
  "crypto_request = \<lparr>Q_IsPost = True, Q_Query = [], Q_PostForm = [], Q_Body = Some ''ipn'',
     Q_Header = (\<lambda>k. if k = ''x-nowpayments-sig'' then ''isipn'' else [])\<rparr>"

theorem nowpayments_refuses_exact_payment_witness:
  "db (snd (CryptoWebhook (pay_config ''key'') [(''nowpayments'', NowPaymentsAdapter pay_env)] ''nowpayments''
       crypto_request crypto_world)) = db crypto_world
   \<and> fst (CryptoWebhook (pay_config ''key'') [(''nowpayments'', NowPaymentsAdapter pay_env)] ''nowpayments''
       crypto_request crypto_world) = 500"
proof -
  let ?t = "(demo_topup 1 ''A'' 1)\<lparr>Topup_Money := 1999\<rparr>"
  have "PE_json_ipn pay_env ''ipn'' = Some pay_ipn" "Q_Body crypto_request = Some ''ipn''"
    by (simp_all add: pay_env_def crypto_request_def)
  moreover have "NI_PaymentStatus pay_ipn = ''finished''" "NI_OrderID pay_ipn = ''A''"
    "NI_PriceAmount pay_ipn = fdiv (fl_int (Topup_Money ?t)) (Fin 100)" by (simp_all add: pay_ipn_def)
  moreover have "topup_of crypto_world ''A'' = Some ?t" by code_simp
  moreover have "Topup_Money ?t = 1999" "Topup_Status ?t = TopupStatusPending" by (simp_all add: demo_topup_def)
  ultimately have "(case CryptoWebhook (pay_config ''key'') [(''nowpayments'', NowPaymentsAdapter pay_env)]
      ''nowpayments'' crypto_request crypto_world of (code, w') \<Rightarrow> code \<noteq> 200 \<and> db w' = db crypto_world)"
    using nowpayments_refuses_exact_payment [of pay_env "''ipn''" pay_ipn ?t crypto_world crypto_request "pay_config ''key''"]
    by simp
  moreover have "fst (CryptoWebhook (pay_config ''key'') [(''nowpayments'', NowPaymentsAdapter pay_env)] ''nowpayments''
       crypto_request crypto_world) = 500" by code_simp
  ultimately show ?thesis by (auto split: prod.splits)
qed

end
