(* ===== verification/Video.thy ===== *)
theory Video
  imports Seedance RelayBilling
begin

text \<open>
  The endpoint for video tasks (\<open>controller/video.go\<close>, \<open>relay/task/video.go\<close>): a submission reserves
  the estimated price, calls the upstream, corrects the price and leaves a row for the poller.
  JSON is a parameter; of the adaptor the handler uses the six operations of \<open>VideoAdaptor\<close>.
\<close>

section \<open>Bodies\<close>

record SubmitRequest =
  SR_Model :: string
  SR_Prompt :: string
  SR_Mode :: string
  SR_Image :: string
  SR_Size :: string
  SR_Seconds :: string
  SR_Metadata :: "(string \<times> string) list"

definition PropertiesJSON :: "(SubmitRequest \<Rightarrow> string option) \<Rightarrow> SubmitRequest \<Rightarrow> string" where
  "PropertiesJSON enc r = (case enc (r\<lparr>SR_Image := []\<rparr>) of None \<Rightarrow> [] | Some s \<Rightarrow> s)"

record VideoResponse =
  VR_Id :: string
  VR_Model :: string
  VR_Status :: string
  VR_Progress :: int
  VR_CreatedAt :: int
  VR_CompletedAt :: int
  VR_Error :: "string option"
  VR_Url :: "string option"

definition ToOpenAIVideoStatus :: "TaskStatus \<Rightarrow> string" where
  "ToOpenAIVideoStatus s =
     (if s = TaskStatusInProgress then ''in_progress''
      else if s = TaskStatusSuccess then ''completed''
      else if s = TaskStatusFailure then ''failed''
      else ''queued'')"

text \<open>\<open>dec\<close> reads the model out of the stored properties, \<open>None\<close> when they do not decode.\<close>

definition BuildVideoResponse :: "(string \<Rightarrow> string option) \<Rightarrow> Task \<Rightarrow> VideoResponse" where
  "BuildVideoResponse dec t =
     \<lparr>VR_Id = Task_TaskId t,
      VR_Model = (if Task_Properties t = [] then [] else case dec (Task_Properties t) of None \<Rightarrow> [] | Some m \<Rightarrow> m),
      VR_Status = ToOpenAIVideoStatus (Task_Status t), VR_Progress = Task_Progress t,
      VR_CreatedAt = Task_CreatedAt t,
      VR_CompletedAt = (if Task_Status t = TaskStatusSuccess then Task_FinishTime t else 0),
      VR_Error = (if Task_Status t = TaskStatusFailure then Some (Task_FailReason t) else None),
      VR_Url = (if Task_Status t = TaskStatusSuccess \<and> Task_ResultUrl t \<noteq> [] then Some (Task_ResultUrl t) else None)\<rparr>"

section \<open>Submission\<close>

record VideoAdaptor =
  VA_ValidateRequest :: "Meta \<Rightarrow> GoErr + string"
  VA_EstimateBilling :: "Meta \<Rightarrow> GoErr + (string \<times> float64) list"
  VA_BuildRequestBody :: "Meta \<Rightarrow> GoErr option"
  VA_DoRequest :: "Meta \<Rightarrow> GoErr option"
  VA_DoResponse :: "Meta \<Rightarrow> RelayError + string"
  VA_AdjustBillingOnSubmit :: "Meta \<Rightarrow> int \<Rightarrow> int option"

record VideoEnv =
  VE_platform :: "string \<Rightarrow> string"
  VE_adaptor :: "string \<Rightarrow> VideoAdaptor option"
  VE_ratios :: Ratios
  VE_encode :: "SubmitRequest \<Rightarrow> string option"
  VE_decode :: "string \<Rightarrow> string option"
  VE_task_id :: string

datatype VideoReply = VideoError int string string | VideoTask VideoResponse

definition err_text :: "GoErr \<Rightarrow> string" where
  "err_text e = (case e of Err s \<Rightarrow> s | _ \<Rightarrow> ''error'')"

definition videoError :: "int \<Rightarrow> string \<Rightarrow> string \<Rightarrow> VideoReply" where
  "videoError status code message = VideoError status code message"

definition video_meta :: "Meta \<Rightarrow> Meta" where
  "video_meta m = m\<lparr>M_ActualModelName :=
     (case M_ModelMapping m of
        None \<Rightarrow> M_OriginModelName m
      | Some mapping \<Rightarrow> (case map_of mapping (M_OriginModelName m) of
            None \<Rightarrow> M_OriginModelName m
          | Some mapped \<Rightarrow> if mapped \<noteq> [] then mapped else M_OriginModelName m))\<rparr>"

definition billing_snapshot :: "Ratios \<Rightarrow> Meta \<Rightarrow> (string \<times> float64) list \<Rightarrow> TaskBillingContext" where
  "billing_snapshot R m otherRatios =
     \<lparr>TB_TokenId = M_TokenId m, TB_TokenName = M_TokenName m, TB_ModelName = M_OriginModelName m,
      TB_ModelRatio = GetModelRatio (M_ActualModelName m) (M_ChannelType m) R,
      TB_GroupRatio = GetGroupRatio (M_Group m) R, TB_OtherRatios = otherRatios\<rparr>"

definition video_refund :: "Meta \<Rightarrow> int \<Rightarrow> World \<Rightarrow> World" where
  "video_refund m amount w =
     snd (CacheUpdateUserQuota (M_UserId m) (snd (PostConsumeTokenQuota (M_TokenId m) (i64 (- amount)) w)))"

text \<open>The correction after the upstream took the job: what is charged from then on.\<close>

definition video_adjust :: "Meta \<Rightarrow> int \<Rightarrow> int option \<Rightarrow> World \<Rightarrow> int \<times> World" where
  "video_adjust m quota adjustment w = (case adjustment of
       None \<Rightarrow> (quota, w)
     | Some adjusted \<Rightarrow>
         if adjusted = quota then (quota, w)
         else (case PostConsumeTokenQuota (M_TokenId m) (i64 (adjusted - quota)) w of
             (Some e, w1) \<Rightarrow> (quota, w1)
           | (None, w1) \<Rightarrow> (adjusted, w1)))"

definition video_task :: "VideoEnv \<Rightarrow> Meta \<Rightarrow> string \<Rightarrow> string \<Rightarrow> SubmitRequest \<Rightarrow> int \<Rightarrow> World \<Rightarrow> Task" where
  "video_task V m platform action request amount w =
     \<lparr>Task_Id = 0, Task_TaskId = VE_task_id V, Task_Platform = platform, Task_UserId = M_UserId m,
      Task_Group = M_Group m, Task_ChannelId = M_ChannelId m, Task_Quota = amount, Task_Action = action,
      Task_Status = TaskStatusQueued, Task_FailReason = [], Task_SubmitTime = clock w, Task_StartTime = 0,
      Task_FinishTime = 0, Task_Progress = 0, Task_ResultUrl = [],
      Task_Properties = PropertiesJSON (VE_encode V) request, Task_PrivateData = PrivateBlank, Task_Data = [],
      Task_CreatedAt = 0\<rparr>"

definition video_log :: "Meta \<Rightarrow> TaskBillingContext \<Rightarrow> string \<Rightarrow> int \<Rightarrow> Log" where
  "video_log m bc taskId amount =
     \<lparr>Log_UserId = M_UserId m, Log_Username = [], Log_CreatedAt = 0, Log_Type = 0,
      Log_Content = LogVideo taskId (TB_ModelRatio bc) (TB_GroupRatio bc), Log_ModelName = M_OriginModelName m,
      Log_TokenName = M_TokenName m, Log_Quota = amount, Log_PromptTokens = 0, Log_CompletionTokens = 0,
      Log_ChannelId = M_ChannelId m, Log_IsStream = False, Log_SystemPromptReset = False\<rparr>"

text \<open>The row, its private data and the records that follow; without the row everything is returned.\<close>

definition video_store ::
  "VideoEnv \<Rightarrow> Meta \<Rightarrow> TaskBillingContext \<Rightarrow> string \<Rightarrow> Task \<Rightarrow> World \<Rightarrow> VideoReply \<times> World" where
  "video_store V m bc upstreamTaskId task w =
     (let amount = Task_Quota task
      in case SetPrivateData \<lparr>PD_UpstreamTaskId = upstreamTaskId, PD_Billing = bc\<rparr> task of
        Inl e \<Rightarrow> (videoError 500 ''create_task_failed'' (err_text e), video_refund m amount w)
      | Inr task1 \<Rightarrow>
          (case InsertTask task1 w of
             (Some e, w1) \<Rightarrow> (videoError 500 ''create_task_failed'' (err_text e), video_refund m amount w1)
           | (None, w1) \<Rightarrow>
               (VideoTask (BuildVideoResponse (VE_decode V)
                  (task1\<lparr>Task_Properties := NormalizeJSONColumn (Task_Properties task1), Task_CreatedAt := clock w\<rparr>)),
                if amount \<noteq> 0
                then UpdateChannelUsedQuota (M_ChannelId m) amount
                       (UpdateUserUsedQuotaAndRequestCount (M_UserId m) amount
                         (RecordConsumeLog (video_log m bc (Task_TaskId task) amount) w1))
                else w1)))"

text \<open>From the reservation on.\<close>

definition video_charged ::
  "VideoEnv \<Rightarrow> VideoAdaptor \<Rightarrow> Meta \<Rightarrow> TaskBillingContext \<Rightarrow> string \<Rightarrow> string \<Rightarrow> SubmitRequest \<Rightarrow> int \<Rightarrow> World
     \<Rightarrow> VideoReply \<times> World" where
  "video_charged V A m bc platform action request quota w = (case VA_BuildRequestBody A m of
       Some e \<Rightarrow> (videoError 500 ''build_request_failed'' (err_text e), video_refund m quota w)
     | None \<Rightarrow> (case VA_DoRequest A m of
           Some e \<Rightarrow> (videoError 500 ''do_request_failed'' (err_text e), video_refund m quota w)
         | None \<Rightarrow> (case VA_DoResponse A m of
               Inl e \<Rightarrow> (videoError (RE_StatusCode e) ''upstream_error'' (RE_Message e), video_refund m quota w)
             | Inr upstreamTaskId \<Rightarrow>
                 (case video_adjust m quota (VA_AdjustBillingOnSubmit A m quota) w of
                    (amount, w1) \<Rightarrow>
                      (let w2 = snd (CacheUpdateUserQuota (M_UserId m) w1)
                       in video_store V m bc upstreamTaskId
                            (video_task V m platform action request amount w2) w2)))))"

definition RelayVideoSubmit ::
  "VideoEnv \<Rightarrow> Meta \<Rightarrow> GoErr + SubmitRequest \<Rightarrow> World \<Rightarrow> VideoReply \<times> World" where
  "RelayVideoSubmit V m0 body w = (case body of
       Inl e \<Rightarrow> (videoError 400 ''invalid_request'' (err_text e), w)
     | Inr request \<Rightarrow>
         (let platform = VE_platform V (M_OriginModelName m0)
          in if platform = [] then (videoError 400 ''model_not_supported'' (M_OriginModelName m0), w)
             else case VE_adaptor V platform of
               None \<Rightarrow> (videoError 400 ''model_not_supported'' (M_OriginModelName m0), w)
             | Some A \<Rightarrow>
                 (let m = video_meta m0
                  in case VA_ValidateRequest A m of
                    Inl e \<Rightarrow> (videoError 400 ''invalid_request'' (err_text e), w)
                  | Inr action \<Rightarrow> (case VA_EstimateBilling A m of
                        Inl e \<Rightarrow> (videoError 400 ''estimate_billing_failed'' (err_text e), w)
                      | Inr otherRatios \<Rightarrow>
                          (let bc = billing_snapshot (VE_ratios V) m otherRatios;
                               quota = ComputeQuota bc
                           in case PreConsumeTokenQuota (M_TokenId m) quota w of
                             (Some e, w1) \<Rightarrow> (videoError 403 ''insufficient_user_quota'' (err_text e), w1)
                           | (None, w1) \<Rightarrow> video_charged V A m bc platform action request quota w1)))))"

text \<open>Only the owner sees a task.\<close>

definition GetVideoTask :: "VideoEnv \<Rightarrow> int \<Rightarrow> string \<Rightarrow> World \<Rightarrow> VideoReply \<times> World" where
  "GetVideoTask V uid taskId w = (case GetTaskByTaskId taskId w of
       (Inl e, w1) \<Rightarrow> (videoError 404 ''task_not_found'' ''no such task'', w1)
     | (Inr task, w1) \<Rightarrow>
         if Task_UserId task \<noteq> uid then (videoError 404 ''task_not_found'' ''no such task'', w1)
         else (VideoTask (BuildVideoResponse (VE_decode V) task), w1))"

text \<open>
  The Seedance adaptor in this place: the request it decoded is kept between the calls, \<open>send\<close> is
  the HTTP client, and the correction on submission is the default that keeps the price.
\<close>

definition BaseBilling_AdjustBillingOnSubmit :: "Meta \<Rightarrow> int \<Rightarrow> int option" where
  "BaseBilling_AdjustBillingOnSubmit m q = None"

definition seedance_video ::
  "(string \<Rightarrow> ArkError option) \<Rightarrow> (string \<Rightarrow> string option) \<Rightarrow> (string \<Rightarrow> ArkCreateRequest \<Rightarrow> GoErr + int \<times> string option)
     \<Rightarrow> GoErr + SdRequest \<Rightarrow> VideoAdaptor" where
  "seedance_video dec_error dec_id send body =
     (let checked = (\<lambda>m. ValidateRequest body (M_ActualModelName m) new_adaptor);
          kept = (\<lambda>m. snd (checked m));
          answer = (\<lambda>m. case BuildRequestBody (M_ActualModelName m) (kept m) of
             Inl e \<Rightarrow> Inl e
           | Inr b \<Rightarrow> (case BuildRequestURL (M_BaseURL m) of Inl e \<Rightarrow> Inl e | Inr url \<Rightarrow> send url b))
      in \<lparr>VA_ValidateRequest = (\<lambda>m. fst (checked m)),
          VA_EstimateBilling = (\<lambda>m. EstimateBilling (kept m)),
          VA_BuildRequestBody = (\<lambda>m. case BuildRequestBody (M_ActualModelName m) (kept m) of Inl e \<Rightarrow> Some e | Inr b \<Rightarrow> None),
          VA_DoRequest = (\<lambda>m. case answer m of Inl e \<Rightarrow> Some e | Inr r \<Rightarrow> None),
          VA_DoResponse = (\<lambda>m. case answer m of
              Inl e \<Rightarrow> Inl (seedanceError 500 [] [])
            | Inr (status, raw) \<Rightarrow> DoResponse dec_error dec_id status raw),
          VA_AdjustBillingOnSubmit = BaseBilling_AdjustBillingOnSubmit\<rparr>)"

section \<open>What a submission costs\<close>

text \<open>
  The world \<open>v\<close> while \<open>q\<close> is charged for the request of \<open>payer\<close> in \<open>w\<close>: nothing else has changed
  that a later settlement depends on.
\<close>

definition billed :: "Token \<Rightarrow> int \<Rightarrow> int \<Rightarrow> World \<Rightarrow> World \<Rightarrow> bool" where
  "billed t b q w v \<longleftrightarrow> cfg v = cfg w \<and> faults v = [] \<and> ledger_ok (db v) \<and> db_tasks (db v) = db_tasks (db w)
     \<and> charged t b q w v
     \<and> (\<exists>t'. find (\<lambda>x. Token_Id x = Token_Id t) (db_tokens (db v)) = Some t' \<and> Token_UserId t' = Token_UserId t
          \<and> Token_UnlimitedQuota t' = Token_UnlimitedQuota t
          \<and> (if Token_UnlimitedQuota t then Token_RemainQuota t' = Token_RemainQuota t \<and> Token_UsedQuota t' = Token_UsedQuota t
             else Token_RemainQuota t' = Token_RemainQuota t - q \<and> Token_UsedQuota t' = Token_UsedQuota t + q))"

lemma billed_same:
  assumes "billed t b q w v" and "db v' = db v" and "cfg v' = cfg v" and "faults v' = []"
  shows "billed t b q w v'"
  using assms bal_db_cong [OF assms(2)] by (simp add: billed_def charged_def)

lemma billed_reserve:
  assumes "PreConsumeTokenQuota k q w = (None, w1)" and "payer u k t b w" and "0 < q"
  shows "billed t b q w w1"
proof -
  have p: "\<not> BatchUpdateEnabled (cfg w)" "ledger_ok (db w)" "faults w = []"
    "find (\<lambda>t. Token_Id t = k) (db_tokens (db w)) = Some t" "user_bal w u = Some b"
    using assms(2) by (auto simp: payer_def)
  have tk: "Token_Id t = k" "Token_UserId t = u" using payer_token [OF assms(2)] by simp_all
  obtain b' t' where r: "user_bal w (Token_UserId t) = Some b'"
    "user_bal w1 = (user_bal w)(Token_UserId t \<mapsto> b' - q)" "ledger_ok (db w1)" "cfg w1 = cfg w" "faults w1 = []"
    "find (\<lambda>t. Token_Id t = k) (db_tokens (db w1)) = Some t'"
    "Token_UserId t' = Token_UserId t" "Token_UnlimitedQuota t' = Token_UnlimitedQuota t"
    "if Token_UnlimitedQuota t then t' = t \<and> token_bal w1 = token_bal w
        else q \<le> Token_RemainQuota t \<and> Token_RemainQuota t' = Token_RemainQuota t - q
          \<and> Token_UsedQuota t' = Token_UsedQuota t + q
          \<and> token_bal w1 = (token_bal w)(k \<mapsto> Token_RemainQuota t - q)"
    "db_tasks (db w1) = db_tasks (db w)"
    using PreConsume_success [OF assms(1,3) p(1-4)] by blast
  have b': "b' = b" using r(1) p(5) tk by simp
  have c: "charged t b q w w1" using r(2,9) b' tk(1) by (simp add: charged_def split: if_splits)
  show ?thesis
    unfolding billed_def tk(1) using r(3-10) c by (intro conjI exI [of _ t']) (simp_all split: if_splits)
qed

text \<open>Changing the charge from \<open>q\<close> to \<open>q2\<close>.\<close>

lemma billed_settle:
  assumes "billed t b q w v" and "payer u k t b w" and "small q" and "small q2"
  shows "\<exists>v'. PostConsumeTokenQuota k (q2 - q) v = (None, v') \<and> billed t b q2 w v'"
proof -
  note tk = payer_token [OF assms(2)]
  have p: "\<not> BatchUpdateEnabled (cfg w)" "k \<noteq> 0" "user_bal w u = Some b"
    "small b" "small (Token_RemainQuota t)" "small (Token_UsedQuota t)"
    "token_bal w k = Some (Token_RemainQuota t)"
    using assms(2) by (auto simp: payer_def token_bal_def)
  obtain t' where v: "cfg v = cfg w" "faults v = []" "ledger_ok (db v)" "db_tasks (db v) = db_tasks (db w)"
    "charged t b q w v" "find (\<lambda>x. Token_Id x = k) (db_tokens (db v)) = Some t'" "Token_UserId t' = u"
    "Token_UnlimitedQuota t' = Token_UnlimitedQuota t"
    "if Token_UnlimitedQuota t then Token_RemainQuota t' = Token_RemainQuota t \<and> Token_UsedQuota t' = Token_UsedQuota t
     else Token_RemainQuota t' = Token_RemainQuota t - q \<and> Token_UsedQuota t' = Token_UsedQuota t + q"
    using assms(1) tk by (auto simp: billed_def)
  have ub: "user_bal v u = Some (b - q)" using v(5) tk by (simp add: charged_def)
  have d: "in_i64 (q2 - q)" "q2 - q \<noteq> - (2 ^ 63)" "in_i64 (b - q2)"
    "in_i64 (Token_RemainQuota t' - (q2 - q))" "in_i64 (Token_UsedQuota t' + (q2 - q))"
    using p(4-6) assms(3,4) v(9) small_in_i64(3) [of q2 q] small_in_i64(3) [of b q2]
      small_in_i64(4) [of "Token_RemainQuota t" q2 q] small_in_i64(5) [of "Token_UsedQuota t" q2 q]
      small_in_i64(3) [of "Token_RemainQuota t" q2] small_in_i64(2) [of "Token_UsedQuota t" q2] small_in_i64(6) [of q2 q]
    by (auto split: if_splits)
  have g: "GetTokenById k v = (Inr t', v)" using v(2,6) p(2) by (simp add: GetTokenById_def sql_first_def)
  have nb: "\<not> BatchUpdateEnabled (cfg v)" using p(1) v(1) by simp
  obtain w1 where w1: "increaseUserQuota u (- (q2 - q)) v = (None, w1)" "faults w1 = []" "ledger_ok (db w1)"
    using increaseUserQuota_ok [OF v(2,3), of u "- (q2 - q)"] ub d(3) by auto
  have leg: "wallet_leg u (q2 - q) v = (None, w1)" using wallet_leg_increase [OF nb d(1,2)] w1(1) by simp
  have ub1: "user_bal w1 = (user_bal w)(u \<mapsto> b - q2)"
    using wallet.credit_ok [OF w1(1)] ub v(5) tk by (auto simp: fun_eq_iff charged_def)
  note eff = increaseUserQuota_effect [OF w1(1)]
  have tk1: "db_tokens (db w1) = db_tokens (db v)" "db_tasks (db w1) = db_tasks (db w)" "cfg w1 = cfg w"
    using eff v(1,4) by (auto simp: same_env_def)
  have d': "in_i64 (Token_RemainQuota t' + - (q2 - q))" "in_i64 (Token_UsedQuota t' - - (q2 - q))"
    using d(4,5) by (simp_all add: algebra_simps)
  show ?thesis
  proof (cases "Token_UnlimitedQuota t")
    case True
    have "token_bal w1 = token_bal w"
      using tk1(1) v(5) True by (simp add: charged_def token_bal_def fun_eq_iff)
    with True g leg w1 ub1 tk1 v(6-9) tk show ?thesis
      by (auto simp: PostConsume_legs billed_def charged_def)
  next
    case False
    then obtain w2 where w2: "increaseTokenQuota k (- (q2 - q)) w1 = (None, w2)"
      using increaseTokenQuota_ok [OF w1(2) ledger_okD(2) [OF w1(3)], of k t' "- (q2 - q)"] v(6) d' tk1(1) by auto
    have leg2: "token_leg_of k (q2 - q) w1 = (None, w2)"
      using token_leg_increase d(1,2) tk1(3) p(1) w2 by simp
    have f2: "faults w2 = []" using increaseTokenQuota_faults_Nil [OF w2 w1(2)] .
    note e2 = increaseTokenQuota_effect [OF w2]
    have db2: "db w2 = db_tokens_update (update_where (\<lambda>t. Token_Id t = k)
       (\<lambda>t. t\<lparr>Token_RemainQuota := Token_RemainQuota t + - (q2 - q), Token_UsedQuota := Token_UsedQuota t - - (q2 - q),
              Token_AccessedTime := clock w1\<rparr>)) (db w1)"
      using increaseTokenQuota_None [OF w2] by blast
    have l2: "ledger_ok (db w2)"
      using sql_update_ledger_tokens w2 w1(3)
      by (auto simp: increaseTokenQuota_def err_only_None)
    have row: "find (\<lambda>x. Token_Id x = k) (db_tokens (db w2)) = Some (t'\<lparr>Token_RemainQuota := Token_RemainQuota t' + - (q2 - q),
        Token_UsedQuota := Token_UsedQuota t' - - (q2 - q), Token_AccessedTime := clock w1\<rparr>)"
      using v(6) tk1(1) find_Some_mem [OF v(6)] by (simp add: db2 find_update_where_frame)
    have "token_bal w2 = (token_bal w)(k \<mapsto> Token_RemainQuota t - q2)"
      using tokens.credit_ok [OF w2] tk1(1) v(5,6,9) False tk
      by (auto simp: fun_eq_iff token_bal_def charged_def)
    with False g leg leg2 f2 l2 e2 row ub1 tk1 v(7-9) tk show ?thesis
      by (auto simp: PostConsume_legs billed_def charged_def same_env_def)
  qed
qed

lemma billed_refl: "payer u k t b w \<Longrightarrow> billed t b 0 w w"
  using payer_token [of u k t b w] charged_0 [of u k t b w w] by (auto simp: billed_def payer_def)

lemma billed_refund:
  assumes "billed t b q w v" and "payer (M_UserId m) (M_TokenId m) t b w" and "small q"
  shows "charged t b 0 w (video_refund m q v) \<and> db_tasks (db (video_refund m q v)) = db_tasks (db w)"
proof -
  have z: "small 0" by (simp add: small_def)
  have "i64 (- q) = 0 - q" using small_in_i64(3) [OF z assms(3)] by (simp add: i64_id)
  with billed_settle [OF assms z] obtain v' where "PostConsumeTokenQuota (M_TokenId m) (i64 (- q)) v = (None, v')"
    "billed t b 0 w v'" by auto
  then show ?thesis
    using cache_update_bal [of "M_UserId m" v'] by (simp add: video_refund_def billed_def charged_def)
qed

lemma PreConsume_tasks:
  assumes "PreConsumeTokenQuota k q w = (Some e, w1)" and "\<not> BatchUpdateEnabled (cfg w)"
  shows "db_tasks (db w1) = db_tasks (db w)"
proof (cases "0 < q")
  case False
  with assms show ?thesis by (auto simp: PreConsumeTokenQuota_def split: if_splits)
next
  case True
  have g: "db_tasks (db v1) = db_tasks (db v)" if "GetTokenById k v = (x, v1)" for v x v1
    using GetTokenById_frame [OF that] by simp
  have rt: "db_tasks (db v1) = db_tasks (db v)" if "reserveToken k q v = (x, v1)" for v x v1
    using that by (cases x) (auto simp: reserveToken_def dest!: sql_update_Inl sql_update_Inr)
  have ru: "db_tasks (db v1) = db_tasks (db v)" if "reserveUser u q v = (x, v1)" for u v x v1
    using that by (cases x) (auto simp: reserveUser_def dest!: sql_update_Inl sql_update_Inr)
  have rb: "db_tasks (db (rollbackToken t k q v)) = db_tasks (db v)" for t v
    by (cases "increaseTokenQuota k q v") (auto simp: rollbackToken_def dest: increaseTokenQuota_effect)
  from assms(1) True assms(2) show ?thesis
    by (cases rule: PreConsume_cases) (auto simp: rb dest!: g rt ru split: if_splits)
qed

text \<open>The row that is stored for the poller.\<close>

definition stored_task :: "Task \<Rightarrow> string \<Rightarrow> TaskBillingContext \<Rightarrow> World \<Rightarrow> Task" where
  "stored_task task upstreamTaskId bc w =
     task\<lparr>Task_Properties := NormalizeJSONColumn (Task_Properties task),
       Task_PrivateData := PrivateJSON \<lparr>PD_UpstreamTaskId = upstreamTaskId, PD_Billing = bc\<rparr>,
       Task_Data := NormalizeJSONColumn (Task_Data task), Task_CreatedAt := clock w,
       Task_Id := next_id Task_Id (db_tasks (db w))\<rparr>"

lemma InsertTask_cases:
  assumes "InsertTask (task\<lparr>Task_PrivateData := PrivateJSON \<lparr>PD_UpstreamTaskId = up, PD_Billing = bc\<rparr>\<rparr>) w = (r, w1)"
    and "Task_Id task = 0" and "faults w = []"
  shows "faults w1 = [] \<and> cfg w1 = cfg w \<and> (if r = None
     then db w1 = db_tasks_update (\<lambda>rows. rows @ [stored_task task up bc w]) (db w) else db w1 = db w)"
proof -
  define row where "row = stored_task task up bc w"
  have "err_only (sql_insert db_tasks db_tasks_update
      (\<lambda>x. Task_Id x = Task_Id row \<or> Task_TaskId x = Task_TaskId row) row w) = (r, w1)"
    using assms(1,2) by (simp add: InsertTask_def row_def stored_task_def NormalizePrivate_def)
  then show ?thesis
    unfolding row_def [symmetric] using assms(3) by (auto simp: sql_insert_def err_only_def split: if_splits)
qed

text \<open>A finished submission: refused with the wallet as before, or one task more and its quota less.\<close>

definition submitted :: "Meta \<Rightarrow> Token \<Rightarrow> int \<Rightarrow> World \<Rightarrow> VideoReply \<times> World \<Rightarrow> bool" where
  "submitted m t b w r \<longleftrightarrow> (case r of
       (VideoError status code msg, w') \<Rightarrow> user_bal w' = user_bal w \<and> db_tasks (db w') = db_tasks (db w)
     | (VideoTask resp, w') \<Rightarrow> \<exists>task up bc. db_tasks (db w') = db_tasks (db w) @ [task]
          \<and> Task_UserId task = M_UserId m \<and> Task_Status task = TaskStatusQueued
          \<and> GetPrivateData task = Inr \<lparr>PD_UpstreamTaskId = up, PD_Billing = bc\<rparr> \<and> TB_TokenId bc = M_TokenId m
          \<and> VR_Id resp = Task_TaskId task
          \<and> charged t b (Task_Quota task) w w')"

lemma charged_0_user: "payer u k t b w \<Longrightarrow> charged t b 0 w w' \<Longrightarrow> user_bal w' = user_bal w"
  by (simp add: charged_0)

lemma video_refund_submitted:
  assumes "billed t b q w v" and "payer (M_UserId m) (M_TokenId m) t b w" and "small q"
  shows "submitted m t b w (videoError st code msg, video_refund m q v)"
  using billed_refund [OF assms] charged_0_user [OF assms(2)] by (simp add: submitted_def videoError_def)

lemma used_quota_tasks: "db_tasks (db (UpdateUserUsedQuotaAndRequestCount u q w)) = db_tasks (db w)"
proof -
  obtain x v where s: "sql_update db_users db_users_update user_fits (\<lambda>x. User_Id x = u)
     (\<lambda>u. u\<lparr>User_UsedQuota := User_UsedQuota u + q, User_RequestCount := User_RequestCount u + 1\<rparr>) w = (x, v)" by fastforce
  then have "db_tasks (db v) = db_tasks (db w)" by (cases x) (auto dest!: sql_update_Inl sql_update_Inr)
  with s show ?thesis
    by (simp add: UpdateUserUsedQuotaAndRequestCount_def updateUserUsedQuotaAndRequestCount_def addNewRecord_def)
qed

lemma video_store_submitted:
  assumes v: "billed t b (Task_Quota task) w v" and p: "payer (M_UserId m) (M_TokenId m) t b w"
    and s: "small (Task_Quota task)"
    and task: "Task_Id task = 0" "Task_UserId task = M_UserId m" "Task_Status task = TaskStatusQueued"
    and bc: "TB_TokenId bc = M_TokenId m"
  shows "submitted m t b w (video_store V m bc up task v)"
proof (cases "SetPrivateData \<lparr>PD_UpstreamTaskId = up, PD_Billing = bc\<rparr> task")
  case (Inl e)
  with video_refund_submitted [OF v p s] show ?thesis by (simp add: video_store_def Let_def)
next
  case (Inr task1)
  then have t1: "task1 = task\<lparr>Task_PrivateData := PrivateJSON \<lparr>PD_UpstreamTaskId = up, PD_Billing = bc\<rparr>\<rparr>"
    by (simp add: SetPrivateData_def split: if_splits)
  obtain r w1 where i: "InsertTask task1 v = (r, w1)" by fastforce
  have fv: "faults v = []" using v by (simp add: billed_def)
  note c = InsertTask_cases [OF i [unfolded t1] task(1) fv]
  show ?thesis
  proof (cases r)
    case (Some e)
    have "billed t b (Task_Quota task) w w1"
      by (rule billed_same [OF v]) (use c Some in auto)
    from video_refund_submitted [OF this p s] Inr i Some show ?thesis by (simp add: video_store_def Let_def)
  next
    case None
    let ?row = "stored_task task up bc v"
    have d: "db_tasks (db w1) = db_tasks (db w) @ [?row]" using c None v by (simp add: billed_def)
    have ch: "charged t b (Task_Quota task) w w1"
      using v c None by (auto simp: billed_def charged_def user_bal_def token_bal_def fun_eq_iff)
    have row: "Task_UserId ?row = M_UserId m" "Task_Status ?row = TaskStatusQueued" "Task_Quota ?row = Task_Quota task"
      "GetPrivateData ?row = Inr \<lparr>PD_UpstreamTaskId = up, PD_Billing = bc\<rparr>" "Task_TaskId ?row = Task_TaskId task"
      using task by (simp_all add: stored_task_def GetPrivateData_def)
    let ?w2 = "snd (video_store V m bc up task v)"
    have w2: "charged t b (Task_Quota task) w ?w2" "db_tasks (db ?w2) = db_tasks (db w1)"
      using Inr i None ch bookkeeping_bal
      by (auto simp: video_store_def Let_def charged_def channel_quota_frame used_quota_tasks go_simps)
    have "fst (video_store V m bc up task v) = VideoTask (BuildVideoResponse (VE_decode V)
        (task1\<lparr>Task_Properties := NormalizeJSONColumn (Task_Properties task1), Task_CreatedAt := clock v\<rparr>))"
      using Inr i None by (simp add: video_store_def Let_def)
    moreover have "Task_TaskId task1 = Task_TaskId task" by (simp add: t1)
    ultimately show ?thesis
      using w2 d row bc
      by (cases "video_store V m bc up task v")
         (auto simp: submitted_def BuildVideoResponse_def intro!: exI [of _ ?row] exI [of _ up] exI [of _ bc])
  qed
qed

lemma video_charged_submitted:
  assumes v: "billed t b q w v" and p: "payer (M_UserId m) (M_TokenId m) t b w" and s: "small q"
    and adj: "\<And>a. VA_AdjustBillingOnSubmit A m q = Some a \<Longrightarrow> small a" and bc: "TB_TokenId bc = M_TokenId m"
  shows "submitted m t b w (video_charged V A m bc platform action request q v)"
proof -
  note refund = video_refund_submitted [OF v p s]
  obtain amount w1 where a: "video_adjust m q (VA_AdjustBillingOnSubmit A m q) v = (amount, w1)" by fastforce
  have w1: "billed t b amount w w1 \<and> small amount"
  proof (cases "VA_AdjustBillingOnSubmit A m q")
    case None
    with a v s show ?thesis by (simp add: video_adjust_def)
  next
    case (Some x)
    show ?thesis
    proof (cases "x = q")
      case True
      with a v s Some show ?thesis by (simp add: video_adjust_def)
    next
      case False
      have "i64 (x - q) = x - q" using small_in_i64(3) [OF adj [OF Some] s] by (simp add: i64_id)
      with billed_settle [OF v p s adj [OF Some]] obtain v'
        where "PostConsumeTokenQuota (M_TokenId m) (i64 (x - q)) v = (None, v')" "billed t b x w v'" by auto
      with a Some False adj [OF Some] show ?thesis by (simp add: video_adjust_def)
    qed
  qed
  let ?w2 = "snd (CacheUpdateUserQuota (M_UserId m) w1)"
  have w2: "billed t b amount w ?w2"
    by (rule billed_same [OF conjunct1 [OF w1]])
       (use w1 quiet_cache_update cache_update_db in \<open>auto simp: billed_def same_env_def\<close>)
  have "submitted m t b w (video_store V m bc up (video_task V m platform action request amount ?w2) ?w2)" for up
    by (rule video_store_submitted [OF _ p]) (use w2 w1 bc in \<open>simp_all add: video_task_def\<close>)
  with refund a show ?thesis
    by (auto simp: video_charged_def Let_def split: option.splits sum.splits)
qed

text \<open>
  C34. A submission that is answered with a task has stored exactly one row, queued and owned by
  the caller, and has charged exactly the quota that the row carries, which is what the poller
  will settle or return; whatever else it is answered, no row is added and the balance of no
  user has changed. (No call fails, the price and its correction stay below \<open>2 ^ 61\<close>.)
\<close>

theorem video_submit_exact:
  assumes "payer (M_UserId m) (M_TokenId m) t b w"
    and "\<And>A rs. VE_adaptor V (VE_platform V (M_OriginModelName m)) = Some A \<Longrightarrow>
      VA_EstimateBilling A (video_meta m) = Inr rs \<Longrightarrow>
      small (ComputeQuota (billing_snapshot (VE_ratios V) (video_meta m) rs))"
    and "\<And>A q a. VE_adaptor V (VE_platform V (M_OriginModelName m)) = Some A \<Longrightarrow>
      VA_AdjustBillingOnSubmit A (video_meta m) q = Some a \<Longrightarrow> small a"
  shows "submitted m t b w (RelayVideoSubmit V m body w)"
proof -
  have same: "submitted m t b w (videoError st code msg, w)" for st code msg
    by (simp add: submitted_def videoError_def)
  have ids: "M_UserId (video_meta m) = M_UserId m" "M_TokenId (video_meta m) = M_TokenId m"
    by (simp_all add: video_meta_def)
  have sub: "submitted (video_meta m) = submitted m" unfolding submitted_def [abs_def] ids ..
  have nb: "\<not> BatchUpdateEnabled (cfg w)" "ledger_ok (db w)" using assms(1) by (auto simp: payer_def)
  have go: "submitted m t b w (case PreConsumeTokenQuota (M_TokenId m) q w of
        (Some e, w1) \<Rightarrow> (videoError 403 ''insufficient_user_quota'' (err_text e), w1)
      | (None, w1) \<Rightarrow> video_charged V A (video_meta m) bc platform action request q w1)"
    if A: "VE_adaptor V (VE_platform V (M_OriginModelName m)) = Some A" and "small q" "TB_TokenId bc = M_TokenId m"
    for A q bc platform action request
  proof -
    obtain r w1 where pc: "PreConsumeTokenQuota (M_TokenId m) q w = (r, w1)" by fastforce
    show ?thesis
    proof (cases r)
      case (Some e)
      have "user_bal w1 = user_bal w"
      proof (cases "0 < q")
        case True
        with refused_balances [OF nb(2,1) True] pc Some show ?thesis by simp
      next
        case False
        with pc Some show ?thesis by (auto simp: PreConsumeTokenQuota_def split: if_splits)
      qed
      with PreConsume_tasks [of "M_TokenId m" q w e w1] pc Some nb(1) show ?thesis
        by (simp add: submitted_def videoError_def)
    next
      case None
      have "billed t b q w w1"
      proof (cases "0 < q")
        case True
        with billed_reserve pc None assms(1) show ?thesis by blast
      next
        case False
        with pc None billed_refl [OF assms(1)] show ?thesis by (auto simp: PreConsumeTokenQuota_def split: if_splits)
      qed
      then have "submitted (video_meta m) t b w (video_charged V A (video_meta m) bc platform action request q w1)"
        by (rule video_charged_submitted) (use assms(1,3) A that(2,3) ids in auto)
      then show ?thesis using pc None by (simp add: sub)
    qed
  qed
  show ?thesis
    using same go assms(2) ids
    by (auto simp: RelayVideoSubmit_def Let_def billing_snapshot_def split: sum.splits option.splits)
qed

text \<open>
  The whole life of a task that fails: what the submission charged is what the refund of the
  stored row returns, so the balance is the one before the submission.
\<close>

lemma failed_task_costs_nothing:
  assumes p: "payer (M_UserId m) (M_TokenId m) t b w"
    and sub: "submitted m t b w (VideoTask resp, w1)"
    and quiet: "faults w1 = []" "cfg w1 = cfg w" "ledger_ok (db w1)"
    and row: "\<And>t'. find (\<lambda>x. Token_Id x = M_TokenId m) (db_tokens (db w1)) = Some t' \<Longrightarrow>
      Token_UserId t' = M_UserId m \<and> small (Token_RemainQuota t') \<and> small (Token_UsedQuota t')"
    and task: "db_tasks (db w1) = db_tasks (db w) @ [task]" "0 < Task_Quota task" "small (Task_Quota task)"
  shows "user_bal (RefundTask task reason w1) = user_bal w"
proof -
  obtain up bc where g: "GetPrivateData task = Inr \<lparr>PD_UpstreamTaskId = up, PD_Billing = bc\<rparr>" "TB_TokenId bc = M_TokenId m"
    "Task_UserId task = M_UserId m" "charged t b (Task_Quota task) w w1"
    using sub task(1) by (auto simp: submitted_def)
  have pw: "\<not> BatchUpdateEnabled (cfg w1)" "M_TokenId m \<noteq> 0" "user_bal w (M_UserId m) = Some b" "small b"
    using p quiet(2) by (auto simp: payer_def)
  have ub: "user_bal w1 = (user_bal w)(M_UserId m \<mapsto> b - Task_Quota task)"
    using g(4) payer_token [OF p] by (simp add: charged_def)
  have "user_bal (RefundTask task reason w1) =
      (user_bal w1)(Task_UserId task \<mapsto> (b - Task_Quota task) + Task_Quota task)"
    by (rule refund_lands [OF pw(1) quiet(1,3) g(1)])
       (use g ub pw task(2,3) row small_in_i64 in auto)
  then show ?thesis using ub g(3) pw(3) by (simp add: fun_upd_idem)
qed

definition video_demo_adaptor :: VideoAdaptor where
  "video_demo_adaptor = \<lparr>VA_ValidateRequest = (\<lambda>m. Inr ''generate''), VA_EstimateBilling = (\<lambda>m. Inr [(''tokens'', Fin (1 / 32))]),
     VA_BuildRequestBody = (\<lambda>m. None), VA_DoRequest = (\<lambda>m. None), VA_DoResponse = (\<lambda>m. Inr ''cgt-1''),
     VA_AdjustBillingOnSubmit = (\<lambda>m q. Some 20)\<rparr>"

definition video_demo_env :: VideoEnv where
  "video_demo_env = \<lparr>VE_platform = (\<lambda>model. if model = ''gpt-5.4'' then ''seedance'' else []),
     VE_adaptor = (\<lambda>p. if p = ''seedance'' then Some video_demo_adaptor else None), VE_ratios = configured_ratios,
     VE_encode = (\<lambda>r. Some (SR_Model r)), VE_decode = Some, VE_task_id = ''task_a''\<rparr>"

definition video_demo_meta :: Meta where
  "video_demo_meta = \<lparr>M_Mode = Unknown, M_ChannelType = 1, M_ChannelId = 5, M_TokenId = 7, M_TokenName = ''tok'',
     M_UserId = 1, M_Group = ''vip'', M_ModelMapping = None, M_BaseURL = [], M_APIKey = [], M_APIType = 0,
     M_Config = empty_channel_config, M_IsStream = False, M_OriginModelName = ''gpt-5.4'', M_ActualModelName = ''gpt-5.4'',
     M_RequestURLPath = [], M_PromptTokens = 0, M_ForcedSystemPrompt = []\<rparr>"


definition video_demo_request :: SubmitRequest where
  "video_demo_request = \<lparr>SR_Model = ''gpt-5.4'', SR_Prompt = ''cat'', SR_Mode = [], SR_Image = [], SR_Size = [],
     SR_Seconds = [], SR_Metadata = []\<rparr>"

text \<open>The price of 31 is corrected to 20 when the upstream has taken the job.\<close>

theorem video_submit_exact_witness:
  "user_bal (snd (RelayVideoSubmit video_demo_env video_demo_meta (Inr video_demo_request) (world_of demo_db []))) 1 = Some 80
   \<and> map Task_Quota (db_tasks (db (snd (RelayVideoSubmit video_demo_env video_demo_meta (Inr video_demo_request) (world_of demo_db [])))))
     = [20]"
proof -
  let ?w = "world_of demo_db []" and ?t = "demo_token 7 1 50 False"
  let ?r = "RelayVideoSubmit video_demo_env video_demo_meta (Inr video_demo_request) ?w"
  have p: "payer (M_UserId video_demo_meta) (M_TokenId video_demo_meta) ?t 100 ?w"
    unfolding video_demo_meta_def by code_simp
  have price: "small (ComputeQuota (billing_snapshot configured_ratios (video_meta video_demo_meta) [(''tokens'', Fin (1 / 32))]))"
    by code_simp
  have "submitted video_demo_meta ?t 100 ?w ?r"
    by (rule video_submit_exact [OF p])
       (use price in \<open>auto simp: video_demo_env_def video_demo_adaptor_def small_def split: if_splits\<close>)
  moreover have one: "map Task_Quota (db_tasks (db (snd ?r))) = [20]" by code_simp
  moreover have "db_tasks (db ?w) = []" by code_simp
  moreover have "Token_UserId ?t = 1" by code_simp
  ultimately show ?thesis
    by (cases ?r) (auto simp: submitted_def charged_def split: VideoReply.splits)
qed

end
