(* ===== verification/SettingRegistry.thy ===== *)
theory SettingRegistry
  imports Store Decimal "HOL-Library.AList"
begin

text \<open>
  The registry of typed settings (\<open>setting/config/config.go\<close>). A registered struct is the list of its
  fields; reflection over it is recursion over this list. \<open>encoding/json\<close>, the shortest text of a
  float and the rounding to 32 bits are arguments. Maps are association lists with distinct keys.
\<close>

section \<open>Fields\<close>

text \<open>
  The kinds that the code tells apart: integers with their width, floats with whether they are
  64 bits wide, a pointer with the zero value of what it points to, a map with the empty map,
  slices and structs as one, everything else.
\<close>

datatype 'j FieldValue =
    FString string | FBool bool | FInt nat int | FUint nat int | FFloat bool float64
  | FPtr 'j "'j option" | FMap 'j 'j | FJson 'j | FOther

record 'j Field =
  Fd_Name :: string
  Fd_Tag :: string
  Fd_Exported :: bool
  Fd_Value :: "'j FieldValue"

text \<open>What \<open>Register\<close> is given: a pointer to a struct, a struct, anything else.\<close>

datatype 'j Setting = PtrTo "'j Field list" | ByValue "'j Field list" | NotStruct

type_synonym 'j ConfigManager = "(string \<times> 'j Setting) list"

text \<open>\<open>CO_unmarshal old text\<close>: whether decoding into \<open>old\<close> succeeded, and what it left there.\<close>

record 'j Codec =
  CO_marshal :: "'j \<Rightarrow> GoErr + string"
  CO_unmarshal :: "'j \<Rightarrow> string \<Rightarrow> bool \<times> 'j"
  CO_format :: "float64 \<Rightarrow> string"
  CO_hexfloat :: "string \<Rightarrow> float64 option"
  CO_float32 :: "float64 \<Rightarrow> float64"

definition field_key :: "'j Field \<Rightarrow> string" where
  "field_key f = takeWhile (\<lambda>c. c \<noteq> CHR '','')
     (if Fd_Tag f = [] \<or> Fd_Tag f = ''-'' then Fd_Name f else Fd_Tag f)"

definition FormatBool :: "bool \<Rightarrow> string" where
  "FormatBool b = (if b then ''true'' else ''false'')"

definition ParseBool :: "string \<Rightarrow> bool option" where
  "ParseBool s =
     (if s \<in> {''1'', ''t'', ''T'', ''TRUE'', ''true'', ''True''} then Some True
      else if s \<in> {''0'', ''f'', ''F'', ''FALSE'', ''false'', ''False''} then Some False
      else None)"

definition ParseUint :: "string \<Rightarrow> int option" where
  "ParseUint s = (if s = [] then None else case parse_digits 0 s of
       None \<Rightarrow> None
     | Some n \<Rightarrow> if n < 2 ^ 64 then Some (int n) else None)"

text \<open>\<open>uint64(f)\<close> for a value that fits; where it does not fit, the language leaves it open.\<close>

definition f2u :: "float64 \<Rightarrow> int" where
  "f2u f = (case f of Fin x \<Rightarrow> if 0 \<le> trunc_rat x \<and> trunc_rat x < 2 ^ 64 then trunc_rat x else 2 ^ 63 | _ \<Rightarrow> 2 ^ 63)"

text \<open>\<open>SetInt\<close> and \<open>SetUint\<close> keep the low bits.\<close>

definition fit_int :: "nat \<Rightarrow> int \<Rightarrow> int" where
  "fit_int b k = (k + 2 ^ (b - 1)) mod 2 ^ b - 2 ^ (b - 1)"

definition fit_uint :: "nat \<Rightarrow> int \<Rightarrow> int" where
  "fit_uint b k = k mod 2 ^ b"

section \<open>From a struct to texts\<close>

text \<open>\<open>Inr None\<close>: the kind is skipped.\<close>

definition field_text :: "'j Codec \<Rightarrow> 'j FieldValue \<Rightarrow> GoErr + string option" where
  "field_text C v = (case v of
       FString s \<Rightarrow> Inr (Some s)
     | FBool b \<Rightarrow> Inr (Some (FormatBool b))
     | FInt n k \<Rightarrow> Inr (Some (show_int k))
     | FUint n k \<Rightarrow> Inr (Some (show_int k))
     | FFloat wide x \<Rightarrow> Inr (Some (CO_format C x))
     | FPtr z None \<Rightarrow> Inr (Some ''null'')
     | FPtr z (Some j) \<Rightarrow> map_sum id Some (CO_marshal C j)
     | FMap z j \<Rightarrow> map_sum id Some (CO_marshal C j)
     | FJson j \<Rightarrow> map_sum id Some (CO_marshal C j)
     | FOther \<Rightarrow> Inr None)"

fun fields_map :: "'j Codec \<Rightarrow> 'j Field list \<Rightarrow> (string \<times> string) list \<Rightarrow> GoErr + (string \<times> string) list" where
  "fields_map C [] result = Inr result"
| "fields_map C (f # fs) result =
     (if \<not> Fd_Exported f then fields_map C fs result
      else case field_text C (Fd_Value f) of
        Inl e \<Rightarrow> Inl e
      | Inr None \<Rightarrow> fields_map C fs result
      | Inr (Some s) \<Rightarrow> fields_map C fs (AList.update (field_key f) s result))"

definition configToMap :: "'j Codec \<Rightarrow> 'j Setting \<Rightarrow> GoErr + (string \<times> string) list" where
  "configToMap C config = (case config of
       PtrTo fs \<Rightarrow> fields_map C fs []
     | ByValue fs \<Rightarrow> fields_map C fs []
     | NotStruct \<Rightarrow> Inr [])"

section \<open>From texts to a struct\<close>

text \<open>A text that does not decode leaves the field, but for what the JSON decoder has already written.\<close>

definition set_field :: "'j Codec \<Rightarrow> string \<Rightarrow> 'j FieldValue \<Rightarrow> 'j FieldValue" where
  "set_field C s v = (case v of
       FString x \<Rightarrow> FString s
     | FBool b \<Rightarrow> (case ParseBool s of None \<Rightarrow> v | Some b' \<Rightarrow> FBool b')
     | FInt n k \<Rightarrow> (case go_atoi s of
           Some k' \<Rightarrow> FInt n (fit_int n k')
         | None \<Rightarrow> (case parse_float (CO_hexfloat C) s of None \<Rightarrow> v | Some x \<Rightarrow> FInt n (fit_int n (f2i x))))
     | FUint n k \<Rightarrow> (case ParseUint s of
           Some k' \<Rightarrow> FUint n (fit_uint n k')
         | None \<Rightarrow> (case parse_float (CO_hexfloat C) s of
               None \<Rightarrow> v
             | Some x \<Rightarrow> if flt x (Fin 0) then v else FUint n (fit_uint n (f2u x))))
     | FFloat wide x \<Rightarrow> (case parse_float (CO_hexfloat C) s of
           None \<Rightarrow> v | Some y \<Rightarrow> FFloat wide (if wide then y else CO_float32 C y))
     | FPtr z j \<Rightarrow> if s = ''null'' then FPtr z None
         else FPtr z (Some (snd (CO_unmarshal C (case j of None \<Rightarrow> z | Some old \<Rightarrow> old) s)))
     | FMap z j \<Rightarrow> (case CO_unmarshal C z s of (ok, j') \<Rightarrow> if ok then FMap z j' else v)
     | FJson j \<Rightarrow> FJson (snd (CO_unmarshal C j s))
     | FOther \<Rightarrow> v)"

definition update_field :: "'j Codec \<Rightarrow> (string \<times> string) list \<Rightarrow> 'j Field \<Rightarrow> 'j Field" where
  "update_field C configMap f =
     (if \<not> Fd_Exported f then f
      else case map_of configMap (field_key f) of
        None \<Rightarrow> f
      | Some s \<Rightarrow> f\<lparr>Fd_Value := set_field C s (Fd_Value f)\<rparr>)"

definition updateConfigFromMap :: "'j Codec \<Rightarrow> (string \<times> string) list \<Rightarrow> 'j Setting \<Rightarrow> 'j Setting" where
  "updateConfigFromMap C configMap config = (case config of
       PtrTo fs \<Rightarrow> PtrTo (map (update_field C configMap) fs)
     | other \<Rightarrow> other)"

section \<open>The registry\<close>

definition NewConfigManager :: "'j ConfigManager" where
  "NewConfigManager = []"

definition config_Register :: "string \<Rightarrow> 'j Setting \<Rightarrow> 'j ConfigManager \<Rightarrow> 'j ConfigManager" where
  "config_Register name config cm = AList.update name config cm"

definition config_Get :: "string \<Rightarrow> 'j ConfigManager \<Rightarrow> 'j Setting option" where
  "config_Get name cm = map_of cm name"

definition module_options :: "string \<Rightarrow> (string \<times> string) list \<Rightarrow> (string \<times> string) list" where
  "module_options name options =
     map (\<lambda>(k, v). (trim_prefix k (name @ ''.''), v)) (filter (\<lambda>(k, v). has_prefix k (name @ ''.'')) options)"

definition LoadFromDB :: "'j Codec \<Rightarrow> (string \<times> string) list \<Rightarrow> 'j ConfigManager \<Rightarrow> 'j ConfigManager" where
  "LoadFromDB C options cm = map (\<lambda>(name, config).
     (name, let configMap = module_options name options
            in if configMap = [] then config else updateConfigFromMap C configMap config)) cm"

text \<open>\<open>updateFunc\<close> works on a state of its own; the first error ends the walk.\<close>

fun save_rows :: "(string \<Rightarrow> string \<Rightarrow> 's \<Rightarrow> GoErr option \<times> 's) \<Rightarrow> (string \<times> string) list \<Rightarrow> 's \<Rightarrow> GoErr option \<times> 's" where
  "save_rows updateFunc [] s = (None, s)"
| "save_rows updateFunc ((k, v) # rows) s = (case updateFunc k v s of
       (Some e, s1) \<Rightarrow> (Some e, s1)
     | (None, s1) \<Rightarrow> save_rows updateFunc rows s1)"

definition dotted :: "string \<Rightarrow> (string \<times> string) list \<Rightarrow> (string \<times> string) list" where
  "dotted name rows = map (\<lambda>(k, v). (name @ CHR ''.'' # k, v)) rows"

fun SaveToDB :: "'j Codec \<Rightarrow> (string \<Rightarrow> string \<Rightarrow> 's \<Rightarrow> GoErr option \<times> 's) \<Rightarrow> 'j ConfigManager \<Rightarrow> 's \<Rightarrow> GoErr option \<times> 's" where
  "SaveToDB C updateFunc [] s = (None, s)"
| "SaveToDB C updateFunc ((name, config) # cm) s = (case configToMap C config of
       Inl e \<Rightarrow> (Some e, s)
     | Inr configMap \<Rightarrow> (case save_rows updateFunc (dotted name configMap) s of
           (Some e, s1) \<Rightarrow> (Some e, s1)
         | (None, s1) \<Rightarrow> SaveToDB C updateFunc cm s1))"

definition ExportAllConfigs :: "'j Codec \<Rightarrow> 'j ConfigManager \<Rightarrow> (string \<times> string) list" where
  "ExportAllConfigs C cm = fold (\<lambda>(name, cfg) result. case configToMap C cfg of
       Inl e \<Rightarrow> result
     | Inr configMap \<Rightarrow> fold (\<lambda>(k, v). AList.update k v) (dotted name configMap) result) cm []"

section \<open>Saving and loading restores every field\<close>

fun same_kind :: "'j FieldValue \<Rightarrow> 'j FieldValue \<Rightarrow> bool" where
  "same_kind (FString _) (FString _) \<longleftrightarrow> True"
| "same_kind (FBool _) (FBool _) \<longleftrightarrow> True"
| "same_kind (FInt n _) (FInt n' _) \<longleftrightarrow> n = n'"
| "same_kind (FUint n _) (FUint n' _) \<longleftrightarrow> n = n'"
| "same_kind (FFloat b _) (FFloat b' _) \<longleftrightarrow> b = b'"
| "same_kind (FPtr z _) (FPtr z' _) \<longleftrightarrow> z = z'"
| "same_kind (FMap z _) (FMap z' _) \<longleftrightarrow> z = z'"
| "same_kind (FJson _) (FJson _) \<longleftrightarrow> True"
| "same_kind FOther FOther \<longleftrightarrow> True"
| "same_kind _ _ \<longleftrightarrow> False"

text \<open>
  What the documentation of \<open>strconv\<close> and \<open>encoding/json\<close> promises for a value: an integer is in
  its range, the text of a float and of a JSON value reads back as the value. A pointer to a value
  whose JSON text is \<open>null\<close> is not told from a nil pointer.
\<close>

fun storable :: "'j Codec \<Rightarrow> 'j FieldValue \<Rightarrow> bool" where
  "storable C (FString s) \<longleftrightarrow> True"
| "storable C (FBool b) \<longleftrightarrow> True"
| "storable C (FInt n k) \<longleftrightarrow> in_i64 k \<and> fit_int n k = k"
| "storable C (FUint n k) \<longleftrightarrow> 0 \<le> k \<and> k < 2 ^ 64 \<and> fit_uint n k = k"
| "storable C (FFloat wide x) \<longleftrightarrow> parse_float (CO_hexfloat C) (CO_format C x) = Some x \<and> (wide \<or> CO_float32 C x = x)"
| "storable C (FPtr z None) \<longleftrightarrow> True"
| "storable C (FPtr z (Some j)) \<longleftrightarrow>
     (\<exists>s. CO_marshal C j = Inr s \<and> s \<noteq> ''null'' \<and> (\<forall>old. CO_unmarshal C old s = (True, j)))"
| "storable C (FMap z j) \<longleftrightarrow> (\<exists>s. CO_marshal C j = Inr s \<and> CO_unmarshal C z s = (True, j))"
| "storable C (FJson j) \<longleftrightarrow> (\<exists>s. CO_marshal C j = Inr s \<and> (\<forall>old. CO_unmarshal C old s = (True, j)))"
| "storable C FOther \<longleftrightarrow> True"

lemma ParseBool_FormatBool: "ParseBool (FormatBool b) = Some b"
  by (simp add: ParseBool_def FormatBool_def)

lemma ParseUint_show: "0 \<le> k \<Longrightarrow> k < 2 ^ 64 \<Longrightarrow> ParseUint (show_int k) = Some k"
  by (simp add: ParseUint_def show_int_def parse_digits_show_nat)

lemma field_restored:
  assumes "storable C v" "same_kind v v'"
  shows "field_text C v = Inr None \<and> v' = v \<or> (\<exists>s. field_text C v = Inr (Some s) \<and> set_field C s v' = v)"
proof (cases v)
  case (FString s)
  with assms(2) show ?thesis by (cases v') (simp_all add: field_text_def set_field_def)
next
  case (FBool b)
  with assms(2) show ?thesis by (cases v') (simp_all add: field_text_def set_field_def ParseBool_FormatBool)
next
  case (FInt n k)
  with assms show ?thesis by (cases v') (simp_all add: field_text_def set_field_def atoi_show_int)
next
  case (FUint n k)
  with assms show ?thesis by (cases v') (simp_all add: field_text_def set_field_def ParseUint_show)
next
  case (FFloat wide x)
  with assms show ?thesis by (cases v'; cases wide) (simp_all add: field_text_def set_field_def)
next
  case (FPtr z j)
  then obtain j' where v': "v' = FPtr z j'" using assms(2) by (cases v') simp_all
  show ?thesis
  proof (cases j)
    case None
    then show ?thesis by (simp add: FPtr v' field_text_def set_field_def)
  next
    case (Some x)
    with assms(1) FPtr obtain s where "CO_marshal C x = Inr s" "s \<noteq> ''null''" "\<And>old. CO_unmarshal C old s = (True, x)" by auto
    then show ?thesis by (simp add: FPtr v' Some field_text_def set_field_def)
  qed
next
  case (FMap z j)
  then obtain j' where v': "v' = FMap z j'" using assms(2) by (cases v') simp_all
  from assms(1) FMap obtain s where "CO_marshal C j = Inr s" "CO_unmarshal C z s = (True, j)" by auto
  then show ?thesis by (simp add: FMap v' field_text_def set_field_def)
next
  case (FJson j)
  then obtain j' where v': "v' = FJson j'" using assms(2) by (cases v') simp_all
  from assms(1) FJson obtain s where "CO_marshal C j = Inr s" "\<And>old. CO_unmarshal C old s = (True, j)" by auto
  then show ?thesis by (simp add: FJson v' field_text_def set_field_def)
next
  case FOther
  with assms(2) show ?thesis by (cases v') (simp_all add: field_text_def)
qed

text \<open>One struct.\<close>

definition same_field :: "'j Field \<Rightarrow> 'j Field \<Rightarrow> bool" where
  "same_field f f' \<longleftrightarrow> Fd_Name f' = Fd_Name f \<and> Fd_Tag f' = Fd_Tag f \<and> Fd_Exported f' = Fd_Exported f
     \<and> (if Fd_Exported f then same_kind (Fd_Value f) (Fd_Value f') else Fd_Value f' = Fd_Value f)"

definition exported_keys :: "'j Field list \<Rightarrow> string list" where
  "exported_keys fs = map field_key (filter Fd_Exported fs)"

definition fields_ok :: "'j Codec \<Rightarrow> 'j Field list \<Rightarrow> bool" where
  "fields_ok C fs \<longleftrightarrow> distinct (exported_keys fs) \<and> (\<forall>f\<in>set fs. Fd_Exported f \<longrightarrow> storable C (Fd_Value f))"

lemma fields_map_Inr:
  assumes "fields_ok C fs"
  obtains m where "fields_map C fs result = Inr m"
    "\<And>f s. f \<in> set fs \<Longrightarrow> Fd_Exported f \<Longrightarrow> field_text C (Fd_Value f) = Inr (Some s) \<Longrightarrow> map_of m (field_key f) = Some s"
    "\<And>k. k \<notin> set (exported_keys fs) \<Longrightarrow> map_of m k = map_of result k"
    "\<And>f. f \<in> set fs \<Longrightarrow> Fd_Exported f \<Longrightarrow> field_text C (Fd_Value f) = Inr None \<Longrightarrow> map_of m (field_key f) = map_of result (field_key f)"
proof -
  have "\<exists>m. fields_map C fs result = Inr m
     \<and> (\<forall>f s. f \<in> set fs \<longrightarrow> Fd_Exported f \<longrightarrow> field_text C (Fd_Value f) = Inr (Some s) \<longrightarrow> map_of m (field_key f) = Some s)
     \<and> (\<forall>k. k \<notin> set (exported_keys fs) \<longrightarrow> map_of m k = map_of result k)
     \<and> (\<forall>f. f \<in> set fs \<longrightarrow> Fd_Exported f \<longrightarrow> field_text C (Fd_Value f) = Inr None
          \<longrightarrow> map_of m (field_key f) = map_of result (field_key f))"
    using assms
  proof (induction fs arbitrary: result)
    case (Cons f fs)
    have ok: "fields_ok C fs" using Cons.prems by (auto simp: fields_ok_def exported_keys_def split: if_splits)
    show ?case
    proof (cases "Fd_Exported f")
      case False
      then show ?thesis using Cons.IH [OF ok, of result] by (auto simp: exported_keys_def)
    next
      case True
      have new: "field_key f \<notin> set (exported_keys fs)" and st: "storable C (Fd_Value f)"
        using Cons.prems True by (auto simp: fields_ok_def exported_keys_def)
      have ne: "field_key g \<noteq> field_key f" if "g \<in> set fs" "Fd_Exported g" for g
        using that new by (auto simp: exported_keys_def image_iff)
      consider "field_text C (Fd_Value f) = Inr None" | s where "field_text C (Fd_Value f) = Inr (Some s)"
        using st by (cases "(C, Fd_Value f)" rule: storable.cases) (auto simp: field_text_def)
      then show ?thesis
      proof cases
        case 1
        with Cons.IH [OF ok, of result] True new ne show ?thesis
          by (auto simp: exported_keys_def)
      next
        case (2 s)
        from Cons.IH [OF ok, of "AList.update (field_key f) s result"] obtain m where
          m: "fields_map C fs (AList.update (field_key f) s result) = Inr m"
            "\<And>g s. g \<in> set fs \<Longrightarrow> Fd_Exported g \<Longrightarrow> field_text C (Fd_Value g) = Inr (Some s) \<Longrightarrow> map_of m (field_key g) = Some s"
            "\<And>k. k \<notin> set (exported_keys fs) \<Longrightarrow> map_of m k = map_of (AList.update (field_key f) s result) k"
            "\<And>g. g \<in> set fs \<Longrightarrow> Fd_Exported g \<Longrightarrow> field_text C (Fd_Value g) = Inr None
               \<Longrightarrow> map_of m (field_key g) = map_of (AList.update (field_key f) s result) (field_key g)" by blast
        have "fields_map C (f # fs) result = Inr m" using True 2 m(1) by simp
        moreover have "map_of m (field_key f) = Some s" using m(3) new by (simp add: update_conv')
        moreover have "k \<notin> set (exported_keys (f # fs)) \<Longrightarrow> map_of m k = map_of result k" for k
          using m(3) True by (simp add: exported_keys_def update_conv')
        moreover have "map_of m (field_key g) = map_of result (field_key g)"
          if "g \<in> set fs" "Fd_Exported g" "field_text C (Fd_Value g) = Inr None" for g
          using m(4) [OF that] ne [OF that(1,2)] by (simp add: update_conv')
        ultimately show ?thesis using m(2) 2 by (intro exI [of _ m]) auto
      qed
    qed
  qed (simp add: exported_keys_def)
  then show thesis using that by blast
qed

text \<open>Texts under a module's name are that module's, because a name has no dot.\<close>

lemma dotted_inj:
  assumes "CHR ''.'' \<notin> set n" "CHR ''.'' \<notin> set n'" "n @ CHR ''.'' # k = n' @ CHR ''.'' # k'"
  shows "n = n' \<and> k = k'"
proof -
  have t: "takeWhile (\<lambda>c. c \<noteq> CHR ''.'') (m @ CHR ''.'' # j) = m" if "CHR ''.'' \<notin> set m" for m j :: string
    using that by (induction m) auto
  from t [OF assms(1), of k] t [OF assms(2), of k'] assms(3) have "n = n'" by simp
  then show ?thesis using assms(3) by simp
qed

lemma has_prefix_iff: "has_prefix s p \<longleftrightarrow> (\<exists>r. s = p @ r)"
  using has_prefix_append [of p] by (auto simp: has_prefix_def) (metis append_take_drop_id)

lemma module_options_map: "map_of (module_options n opts) k = map_of opts (n @ CHR ''.'' # k)"
proof (induction opts)
  case (Cons x opts)
  obtain a v where x: "x = (a, v)" by (cases x)
  show ?case
  proof (cases "has_prefix a (n @ ''.'')")
    case True
    then obtain r where "a = (n @ ''.'') @ r" by (auto simp: has_prefix_iff)
    then show ?thesis using Cons trim_prefix_append [of "n @ ''.''" r] has_prefix_append [of "n @ ''.''" r]
      by (simp add: x module_options_def)
  next
    case False
    then have "a \<noteq> n @ CHR ''.'' # k" using has_prefix_append [of "n @ ''.''" k] by auto
    then show ?thesis using Cons False by (auto simp: x module_options_def)
  qed
qed (simp add: module_options_def)

lemma update_rows_map:
  "map_of (fold (\<lambda>(k, v). AList.update k v) rows r) k =
     (case map_of (rev rows) k of None \<Rightarrow> map_of r k | Some v \<Rightarrow> Some v)"
  by (induction rows arbitrary: r) (auto simp: update_conv' map_add_def split: option.splits)

lemma dotted_map: "map_of (rev (dotted n m)) (n @ CHR ''.'' # k) = map_of (rev m) k"
proof -
  have "map_of (map (\<lambda>(k, v). (n @ CHR ''.'' # k, v)) rows) (n @ CHR ''.'' # k) = map_of rows k" for rows :: "(string \<times> string) list"
    by (induction rows) auto
  then show ?thesis by (simp add: dotted_def rev_map)
qed

lemma dotted_map_other:
  assumes "CHR ''.'' \<notin> set n" "CHR ''.'' \<notin> set n'" "n \<noteq> n'"
  shows "map_of (rev (dotted n' m)) (n @ CHR ''.'' # k) = None"
proof -
  have "n @ CHR ''.'' # k \<notin> fst ` set (dotted n' m)" using dotted_inj [OF assms(1,2)] assms(3) by (auto simp: dotted_def)
  then show ?thesis by (simp add: map_of_eq_None_iff)
qed

lemma distinct_fields_map:
  "distinct (map fst result) \<Longrightarrow> fields_map C fs result = Inr m \<Longrightarrow> distinct (map fst m)"
proof (induction fs arbitrary: result)
  case (Cons f fs)
  then show ?case by (auto split: if_splits sum.splits option.splits intro: distinct_update)
qed simp

lemma distinct_configToMap: "configToMap C c = Inr m \<Longrightarrow> distinct (map fst m)"
  by (cases c) (auto simp: configToMap_def intro: distinct_fields_map [of "[]"])

text \<open>What is exported for a module's field is what the module's own map has.\<close>

lemma export_map:
  assumes "distinct (map fst cm)" "\<forall>n \<in> fst ` set cm. CHR ''.'' \<notin> set n"
    and "(n, c) \<in> set cm" "configToMap C c = Inr m"
  shows "map_of (ExportAllConfigs C cm) (n @ CHR ''.'' # k) = map_of m k"
proof -
  let ?step = "\<lambda>(name, cfg) result. case configToMap C cfg of Inl e \<Rightarrow> result
     | Inr configMap \<Rightarrow> fold (\<lambda>(k, v). AList.update k v) (dotted name configMap) result"
  have nd: "CHR ''.'' \<notin> set n" using assms(2,3) by force
  have other: "map_of (fold ?step ds r) (n @ CHR ''.'' # k) = map_of r (n @ CHR ''.'' # k)"
    if "n \<notin> fst ` set ds" "\<forall>n \<in> fst ` set ds. CHR ''.'' \<notin> set n" for ds r
    using that
  proof (induction ds arbitrary: r)
    case (Cons d ds)
    obtain n' c' where d: "d = (n', c')" by (cases d)
    with Cons.prems have n': "CHR ''.'' \<notin> set n'" "n \<noteq> n'" by auto
    show ?case using Cons dotted_map_other [OF nd n']
      by (auto simp: d update_rows_map split: sum.splits)
  qed simp
  obtain as bs where cm: "cm = as @ (n, c) # bs" using assms(3) by (auto simp: in_set_conv_decomp)
  then have free: "n \<notin> fst ` set as" "n \<notin> fst ` set bs" using assms(1) by auto
  have dm: "map_of (rev m) = map_of m"
    using distinct_configToMap [OF assms(4)] by (metis map_of_inject_set distinct_rev rev_map set_rev)
  have "map_of (ExportAllConfigs C cm) (n @ CHR ''.'' # k) = map_of (?step (n, c) (fold ?step as [])) (n @ CHR ''.'' # k)"
    using other [OF free(2), of "?step (n, c) (fold ?step as [])"] assms(2) by (simp add: ExportAllConfigs_def cm)
  also have "\<dots> = (case map_of m k of None \<Rightarrow> map_of (fold ?step as []) (n @ CHR ''.'' # k) | Some v \<Rightarrow> Some v)"
    using assms(4) dotted_map [of n m k] by (simp add: update_rows_map dm)
  also have "map_of (fold ?step as []) (n @ CHR ''.'' # k) = None"
    using other [OF free(1), of "[]"] assms(2) by (simp add: cm)
  finally show ?thesis by (simp split: option.splits)
qed

definition same_shape :: "'j ConfigManager \<Rightarrow> 'j ConfigManager \<Rightarrow> bool" where
  "same_shape cm cm' \<longleftrightarrow> list_all2 (\<lambda>(n, c) (n', c'). n = n' \<and> (case (c, c') of
     (PtrTo fs, PtrTo fs') \<Rightarrow> list_all2 same_field fs fs' | _ \<Rightarrow> False)) cm cm'"

definition registry_ok :: "'j Codec \<Rightarrow> 'j ConfigManager \<Rightarrow> bool" where
  "registry_ok C cm \<longleftrightarrow> distinct (map fst cm) \<and> (\<forall>n \<in> fst ` set cm. CHR ''.'' \<notin> set n)
     \<and> (\<forall>(n, c) \<in> set cm. case c of PtrTo fs \<Rightarrow> fields_ok C fs | _ \<Rightarrow> False)"

lemma fields_restored:
  assumes ok: "fields_ok C fs" and m: "fields_map C fs [] = Inr m"
    and opts: "\<And>k. map_of opts k = map_of m k" and sh: "list_all2 same_field fs fs'"
  shows "map (update_field C opts) fs' = fs"
proof -
  obtain m' where m': "fields_map C fs [] = Inr m'"
    "\<And>f s. f \<in> set fs \<Longrightarrow> Fd_Exported f \<Longrightarrow> field_text C (Fd_Value f) = Inr (Some s) \<Longrightarrow> map_of m' (field_key f) = Some s"
    "\<And>f. f \<in> set fs \<Longrightarrow> Fd_Exported f \<Longrightarrow> field_text C (Fd_Value f) = Inr None \<Longrightarrow> map_of m' (field_key f) = map_of [] (field_key f)"
    by (rule fields_map_Inr [OF ok, where result = "[]"]) (rule that; assumption)
  have [simp]: "m' = m" using m m'(1) by simp
  have one: "update_field C opts f' = f" if f: "f \<in> set fs" and s: "same_field f f'" for f f'
  proof (cases "Fd_Exported f")
    case True
    have key: "field_key f' = field_key f" using s by (simp add: same_field_def field_key_def)
    have st: "storable C (Fd_Value f)" using ok f True by (simp add: fields_ok_def)
    have k: "same_kind (Fd_Value f) (Fd_Value f')" using s True by (simp add: same_field_def)
    from field_restored [OF st k] m'(2,3) [OF f True] s True show ?thesis
      by (auto simp: update_field_def key opts same_field_def intro!: Field.equality)
  next
    case False
    with s show ?thesis by (simp add: update_field_def same_field_def)
  qed
  show ?thesis
    using sh one
  proof (induction rule: list_all2_induct)
    case (Cons f fs f' fs')
    from Cons.prems [of f f'] Cons.prems Cons.IH Cons.hyps show ?case by simp
  qed simp
qed

text \<open>
  C13. What the registry exports and stores as options restores every setting when it is loaded:
  into any registry of the same modules and fields, whatever values that one has.
\<close>

theorem config_roundtrip:
  assumes "registry_ok C cm" "same_shape cm cm'"
  shows "LoadFromDB C (ExportAllConfigs C cm) cm' = cm"
proof -
  let ?opts = "ExportAllConfigs C cm"
  have load: "LoadFromDB C ?opts ds = map (\<lambda>(n, c). (n, updateConfigFromMap C (module_options n ?opts) c)) ds" for ds
  proof -
    have "update_field C [] = id" by (simp add: fun_eq_iff update_field_def)
    then have "updateConfigFromMap C [] c = c" for c by (cases c) (simp_all add: updateConfigFromMap_def)
    then show ?thesis by (auto simp: LoadFromDB_def Let_def)
  qed
  have one: "updateConfigFromMap C (module_options n ?opts) (PtrTo fs') = PtrTo fs"
    if mem: "(n, PtrTo fs) \<in> set cm" and sh: "list_all2 same_field fs fs'" for n fs fs'
  proof -
    have ok: "fields_ok C fs" using assms(1) mem by (force simp: registry_ok_def)
    obtain m where m: "fields_map C fs [] = Inr m" by (rule fields_map_Inr [OF ok, where result = "[]"]) (rule that; assumption)
    then have "map_of (module_options n ?opts) k = map_of m k" for k
      using export_map [of cm n "PtrTo fs" C m k] assms(1) mem by (simp add: registry_ok_def configToMap_def module_options_map)
    from fields_restored [OF ok m this sh] show ?thesis by (simp add: updateConfigFromMap_def)
  qed
  have "map (\<lambda>(n, c). (n, updateConfigFromMap C (module_options n ?opts) c)) ds' = ds"
    if "same_shape ds ds'" "set ds \<subseteq> set cm" for ds ds'
    using that unfolding same_shape_def
  proof (induction rule: list_all2_induct)
    case (Cons d ds d' ds')
    obtain n c n' c' where d: "d = (n, c)" "d' = (n', c')" by (cases d, cases d')
    with Cons.hyps(1) obtain fs fs' where "n' = n" "c = PtrTo fs" "c' = PtrTo fs'" "list_all2 same_field fs fs'"
      by (cases c; cases c') simp_all
    note this d
    with one [of n fs fs'] Cons show ?case by simp
  qed simp
  with load assms(2) show ?thesis by simp
qed

section \<open>The modules that the program registers\<close>

definition setting :: "string \<Rightarrow> string \<Rightarrow> 'j FieldValue \<Rightarrow> 'j Field" where
  "setting name tag v = \<lparr>Fd_Name = name, Fd_Tag = tag, Fd_Exported = True, Fd_Value = v\<rparr>"

definition CheckinSetting :: "bool \<Rightarrow> int \<Rightarrow> int \<Rightarrow> int \<Rightarrow> 'j Setting" where
  "CheckinSetting enabled daily bonus cap = PtrTo
     [setting ''Enabled'' ''enabled'' (FBool enabled), setting ''DailyQuota'' ''daily_quota'' (FInt 64 daily),
      setting ''StreakBonus'' ''streak_bonus'' (FInt 64 bonus), setting ''StreakCap'' ''streak_cap'' (FInt 64 cap)]"

definition GoogleSetting :: "bool \<Rightarrow> string \<Rightarrow> string \<Rightarrow> 'j Setting" where
  "GoogleSetting enabled clientId clientSecret = PtrTo
     [setting ''Enabled'' ''enabled'' (FBool enabled), setting ''ClientId'' ''client_id'' (FString clientId),
      setting ''ClientSecret'' ''client_secret'' (FString clientSecret)]"

definition PasskeySetting :: "bool \<Rightarrow> string \<Rightarrow> string \<Rightarrow> string \<Rightarrow> 'j Setting" where
  "PasskeySetting enabled rpId rpName rpOrigins = PtrTo
     [setting ''Enabled'' ''enabled'' (FBool enabled), setting ''RPID'' ''rp_id'' (FString rpId),
      setting ''RPName'' ''rp_name'' (FString rpName), setting ''RPOrigins'' ''rp_origins'' (FString rpOrigins)]"

definition QuotaWarningSetting :: "bool \<Rightarrow> int \<Rightarrow> int \<Rightarrow> 'j Setting" where
  "QuotaWarningSetting enabled threshold cooldown = PtrTo
     [setting ''Enabled'' ''enabled'' (FBool enabled), setting ''ThresholdQuota'' ''threshold_quota'' (FInt 64 threshold),
      setting ''CooldownHours'' ''cooldown_hours'' (FInt 64 cooldown)]"

definition GlobalConfig :: "'j ConfigManager" where
  "GlobalConfig =
     config_Register ''quota_warning'' (QuotaWarningSetting True 500000 24)
       (config_Register ''passkey_setting'' (PasskeySetting False [] [] [])
         (config_Register ''google_setting'' (GoogleSetting False [] [])
           (config_Register ''checkin_setting'' (CheckinSetting False 0 0 7) NewConfigManager)))"

text \<open>\<open>dec\<close> decodes a JSON array of strings.\<close>

definition PasskeySetting_Validate :: "(string \<Rightarrow> string list option) \<Rightarrow> bool \<Rightarrow> string \<Rightarrow> string \<Rightarrow> GoErr option" where
  "PasskeySetting_Validate dec enabled rpId rpOrigins =
     (if \<not> enabled then None
      else if rpId = [] then Some (Err ''passkey: enabled but rp_id is empty'')
      else if rpOrigins = [] then Some (Err ''passkey: enabled but rp_origins is empty'')
      else case dec rpOrigins of
        None \<Rightarrow> Some (Err ''passkey: rp_origins is not valid JSON'')
      | Some origins \<Rightarrow> if origins = [] then Some (Err ''passkey: rp_origins parses to an empty array'') else None)"

definition no_codec :: "unit Codec" where
  "no_codec = \<lparr>CO_marshal = (\<lambda>j. Inr ''{}''), CO_unmarshal = (\<lambda>j s. (True, ())), CO_format = (\<lambda>x. []),
     CO_hexfloat = (\<lambda>s. None), CO_float32 = (\<lambda>x. x)\<rparr>"

definition demo_settings :: "unit ConfigManager" where
  "demo_settings = config_Register ''checkin_setting'' (CheckinSetting True 100 (- 5) 3)
     (config_Register ''google_setting'' (GoogleSetting True ''id'' ''secret'')
       (config_Register ''quota_warning'' (QuotaWarningSetting False 50 2) GlobalConfig))"

theorem config_roundtrip_witness:
  "LoadFromDB no_codec (ExportAllConfigs no_codec demo_settings) GlobalConfig = demo_settings
   \<and> map_of (ExportAllConfigs no_codec demo_settings) ''checkin_setting.streak_bonus'' = Some ''-5''
   \<and> demo_settings \<noteq> GlobalConfig"
proof -
  note mods = demo_settings_def GlobalConfig_def config_Register_def NewConfigManager_def
    CheckinSetting_def GoogleSetting_def PasskeySetting_def QuotaWarningSetting_def setting_def
  have ok: "registry_ok no_codec demo_settings"
    by (simp add: mods registry_ok_def fields_ok_def exported_keys_def field_key_def in_i64_def fit_int_def)
  have sh: "same_shape demo_settings GlobalConfig"
    by code_simp
  have "map_of (ExportAllConfigs no_codec demo_settings) ''checkin_setting.streak_bonus'' = Some ''-5''" by code_simp
  moreover have "demo_settings \<noteq> GlobalConfig" by (simp add: mods)
  ultimately show ?thesis using config_roundtrip [OF ok sh] by blast
qed

end
