(* ===== verification/Passkeys.thy ===== *)
theory Passkeys
  imports Sessions
begin

text \<open>
  The rows of passkey credentials (\<open>model/passkey.go\<close>): every change made for a user touches rows
  of that user only.
\<close>

definition CreatePasskey :: "PasskeyCredential \<Rightarrow> World \<Rightarrow> GoErr option \<times> World" where
  "CreatePasskey c w =
     (let c1 = (if Passkey_CreatedAt c = 0 then c\<lparr>Passkey_CreatedAt := clock w\<rparr> else c);
          c2 = (if Passkey_Id c1 = 0 then c1\<lparr>Passkey_Id := next_id Passkey_Id (db_passkeys (db w))\<rparr> else c1)
      in err_only (sql_insert db_passkeys db_passkeys_update
           (\<lambda>x. Passkey_Id x = Passkey_Id c2 \<or> Passkey_CredentialId x = Passkey_CredentialId c2) c2 w))"

definition GetPasskeyByCredentialId :: "string \<Rightarrow> World \<Rightarrow> (GoErr + PasskeyCredential) \<times> World" where
  "GetPasskeyByCredentialId credId w = sql_first db_passkeys (\<lambda>c. Passkey_CredentialId c = credId) w"

definition GetPasskeyByIdForUser :: "int \<Rightarrow> int \<Rightarrow> World \<Rightarrow> (GoErr + PasskeyCredential) \<times> World" where
  "GetPasskeyByIdForUser k userId w =
     sql_first db_passkeys (\<lambda>c. Passkey_Id c = k \<and> Passkey_UserId c = userId) w"

text \<open>The newest first; ties are left in the order of the ids.\<close>

definition ListPasskeysByUserId :: "int \<Rightarrow> World \<Rightarrow> (GoErr + PasskeyCredential list) \<times> World" where
  "ListPasskeysByUserId userId w = (case io_fault w of
       (True, w1) \<Rightarrow> (Inl ErrDB, w1)
     | (False, w1) \<Rightarrow> (Inr (sort_key (\<lambda>c. - Passkey_CreatedAt c)
           (filter (\<lambda>c. Passkey_UserId c = userId) (db_passkeys (db w1)))), w1))"

text \<open>A statement that matches no row is reported as a missing record.\<close>

definition some_row :: "(GoErr + nat) \<times> World \<Rightarrow> GoErr option \<times> World" where
  "some_row r = (case r of
       (Inl e, w) \<Rightarrow> (Some e, w)
     | (Inr n, w) \<Rightarrow> (if n = 0 then Some ErrRecordNotFound else None, w))"

definition RenamePasskey :: "int \<Rightarrow> int \<Rightarrow> string \<Rightarrow> World \<Rightarrow> GoErr option \<times> World" where
  "RenamePasskey k userId name w = some_row (sql_update db_passkeys db_passkeys_update (\<lambda>_. True)
     (\<lambda>c. Passkey_Id c = k \<and> Passkey_UserId c = userId) (\<lambda>c. c\<lparr>Passkey_Name := name\<rparr>) w)"

definition DeletePasskey :: "int \<Rightarrow> int \<Rightarrow> World \<Rightarrow> GoErr option \<times> World" where
  "DeletePasskey k userId w = some_row (sql_delete db_passkeys db_passkeys_update
     (\<lambda>c. Passkey_Id c = k \<and> Passkey_UserId c = userId) w)"

definition AdminDeletePasskey :: "int \<Rightarrow> World \<Rightarrow> GoErr option \<times> World" where
  "AdminDeletePasskey k w = some_row (sql_delete db_passkeys db_passkeys_update (\<lambda>c. Passkey_Id c = k) w)"

definition DeleteAllPasskeysByUserId :: "int \<Rightarrow> World \<Rightarrow> GoErr option \<times> World" where
  "DeleteAllPasskeysByUserId userId w =
     err_only (sql_delete db_passkeys db_passkeys_update (\<lambda>c. Passkey_UserId c = userId) w)"

definition UpdatePasskeyAfterAuth :: "int \<Rightarrow> int \<Rightarrow> int \<Rightarrow> World \<Rightarrow> GoErr option \<times> World" where
  "UpdatePasskeyAfterAuth k signCount lastUsedAt w =
     err_only (sql_update db_passkeys db_passkeys_update (\<lambda>_. True) (\<lambda>c. Passkey_Id c = k)
       (\<lambda>c. c\<lparr>Passkey_SignCount := signCount, Passkey_LastUsedAt := lastUsedAt\<rparr>) w)"

text \<open>A failed count reads as no passkey.\<close>

definition HasPasskey :: "int \<Rightarrow> World \<Rightarrow> bool \<times> World" where
  "HasPasskey userId w = (case io_fault w of
       (True, w1) \<Rightarrow> (False, w1)
     | (False, w1) \<Rightarrow> (0 < count_where (\<lambda>c. Passkey_UserId c = userId) (db_passkeys (db w1)), w1))"

definition hardDeletePasskeysOnUserDelete :: "int \<Rightarrow> World \<Rightarrow> GoErr option \<times> World" where
  "hardDeletePasskeysOnUserDelete userId w =
     (if userId = 0 then (Some (Err ''hardDeletePasskeysOnUserDelete: empty id''), w)
      else err_only (sql_delete db_passkeys db_passkeys_update (\<lambda>c. Passkey_UserId c = userId) w))"

section \<open>Credential ids stay unique\<close>

definition passkeys_ok :: "Database \<Rightarrow> bool" where
  "passkeys_ok d \<longleftrightarrow> distinct (map Passkey_Id (db_passkeys d)) \<and> distinct (map Passkey_CredentialId (db_passkeys d))"

lemma distinct_map_filter_rows: "distinct (map f xs) \<Longrightarrow> distinct (map f (filter P xs))"
  by (induction xs) auto

text \<open>What an operation for one user leaves alone: the rows of all others.\<close>

definition passkeys_of :: "int \<Rightarrow> Database \<Rightarrow> PasskeyCredential list" where
  "passkeys_of j d = filter (\<lambda>c. Passkey_UserId c = j) (db_passkeys d)"

lemma passkeys_of_delete:
  assumes "\<And>c. P c \<Longrightarrow> Passkey_UserId c = uid" and "j \<noteq> uid"
  shows "passkeys_of j (db_passkeys_update (filter (\<lambda>c. \<not> P c)) d) = passkeys_of j d"
proof -
  have "filter (\<lambda>c. Passkey_UserId c = j) (filter (\<lambda>c. \<not> P c) rows) = filter (\<lambda>c. Passkey_UserId c = j) rows" for rows
    using assms by (induction rows) auto
  then show ?thesis by (simp add: passkeys_of_def)
qed

lemma sql_delete_frame:
  "sql_delete get upd P w = (r, w1) \<Longrightarrow> db w1 = db w \<or> db w1 = upd (filter (\<lambda>r. \<not> P r)) (db w)"
  by (auto simp: sql_delete_def dest!: io_fault_frame split: prod.splits bool.splits)

lemma DeletePasskey_frame:
  assumes "j \<noteq> uid" and "DeletePasskey k uid w = (e, w1)"
  shows "passkeys_of j (db w1) = passkeys_of j (db w)"
proof -
  obtain r w2 where d: "sql_delete db_passkeys db_passkeys_update
      (\<lambda>c. Passkey_Id c = k \<and> Passkey_UserId c = uid) w = (r, w2)" by fastforce
  have "w1 = w2" using assms(2) d by (auto simp: DeletePasskey_def some_row_def split: sum.splits)
  with sql_delete_frame [OF d] passkeys_of_delete [of "\<lambda>c. Passkey_Id c = k \<and> Passkey_UserId c = uid" uid j "db w"]
    assms(1) show ?thesis by auto
qed

end
