(* ===== verification/Accounts.thy ===== *)
theory Accounts
  imports Passkeys Redeem Verification
begin

text \<open>
  User accounts: the rows (\<open>model/user.go\<close>) and the console's handlers (\<open>controller/user.go\<close>).
  GORM's \<open>Updates(struct)\<close> writes the fields that are not zero, and \<open>First\<close> whose error is ignored
  leaves the struct as it was. bcrypt and the Unicode tables are arguments (\<open>AccountEnv\<close>).
\<close>

section \<open>Environment\<close>

text \<open>\<open>AE_runes\<close> decodes UTF-8 as \<open>range\<close> over a string does.\<close>

record AccountEnv =
  AE_Password2Hash :: "string \<Rightarrow> GoErr + string"
  AE_ValidatePassword :: "string \<Rightarrow> string \<Rightarrow> bool"
  AE_runes :: "string \<Rightarrow> nat list"
  AE_isLetter :: "nat \<Rightarrow> bool"
  AE_isDigit :: "nat \<Rightarrow> bool"

record AccountConfig =
  AC_PasswordLoginEnabled :: bool
  AC_RegisterEnabled :: bool
  AC_PasswordRegisterEnabled :: bool
  AC_EmailVerificationEnabled :: bool

text \<open>The state of the process: world, ban list, verification codes, mail address of the root user.\<close>

record Site =
  St_world :: World
  St_black :: blackList
  St_codes :: verificationMap
  St_RootUserEmail :: string

text \<open>A cookie session: the login and the user who still owes a second factor.\<close>

record WebSession =
  WS_login :: "Session option"
  WS_pending_2fa_user_id :: "int option"

datatype 'a Reply = Failed GoErr | Done 'a

definition empty_user :: User where
  "empty_user = \<lparr>User_Id = 0, User_Username = [], User_Password = [], User_DisplayName = [], User_Role = 0,
     User_Status = 0, User_Email = [], User_GitHubId = [], User_WeChatId = [], User_LarkId = [],
     User_OidcId = [], User_GoogleId = [], User_AccessToken = [], User_TwoFASecret = [],
     User_TwoFAEnabled = False, User_BackupCodes = [], User_Quota = 0, User_UsedQuota = 0,
     User_RequestCount = 0, User_Group = [], User_AffCode = [], User_InviterId = 0\<rparr>"

section \<open>Validation\<close>

definition username_chars :: "AccountEnv \<Rightarrow> string \<Rightarrow> bool" where
  "username_chars E s \<longleftrightarrow> s \<noteq> []
     \<and> list_all (\<lambda>r. AE_isLetter E r \<or> AE_isDigit E r \<or> r = 95 \<or> r = 45) (AE_runes E s)"

definition rune_count :: "AccountEnv \<Rightarrow> string \<Rightarrow> nat" where
  "rune_count E s = length (AE_runes E s)"

text \<open>The validation tags of the \<open>User\<close> struct.\<close>

definition valid_user :: "AccountEnv \<Rightarrow> User \<Rightarrow> bool" where
  "valid_user E u \<longleftrightarrow>
     3 \<le> rune_count E (User_Username u) \<and> rune_count E (User_Username u) \<le> 12 \<and> username_chars E (User_Username u)
     \<and> 8 \<le> rune_count E (User_Password u) \<and> rune_count E (User_Password u) \<le> 24
     \<and> rune_count E (User_DisplayName u) \<le> 20 \<and> rune_count E (User_Email u) \<le> 50"

definition IsPasswordComplexEnough :: "AccountEnv \<Rightarrow> string \<Rightarrow> bool" where
  "IsPasswordComplexEnough E p \<longleftrightarrow> 8 \<le> rune_count E p \<and> rune_count E p \<le> 24
     \<and> list_ex (AE_isLetter E) (AE_runes E p)
     \<and> list_ex (\<lambda>r. \<not> AE_isLetter E r \<and> AE_isDigit E r) (AE_runes E p)"

section \<open>Rows\<close>

definition nz :: "string \<Rightarrow> string \<Rightarrow> string" where
  "nz new old = (if new = [] then old else new)"

definition nzi :: "int \<Rightarrow> int \<Rightarrow> int" where
  "nzi new old = (if new = 0 then old else new)"

definition nonzero_user_updates :: "User \<Rightarrow> User \<Rightarrow> User" where
  "nonzero_user_updates u x =
     x\<lparr>User_Username := nz (User_Username u) (User_Username x),
       User_Password := nz (User_Password u) (User_Password x),
       User_DisplayName := nz (User_DisplayName u) (User_DisplayName x),
       User_Role := nzi (User_Role u) (User_Role x),
       User_Status := nzi (User_Status u) (User_Status x),
       User_Email := nz (User_Email u) (User_Email x),
       User_GitHubId := nz (User_GitHubId u) (User_GitHubId x),
       User_WeChatId := nz (User_WeChatId u) (User_WeChatId x),
       User_LarkId := nz (User_LarkId u) (User_LarkId x),
       User_OidcId := nz (User_OidcId u) (User_OidcId x),
       User_GoogleId := nz (User_GoogleId u) (User_GoogleId x),
       User_AccessToken := nz (User_AccessToken u) (User_AccessToken x),
       User_TwoFASecret := nz (User_TwoFASecret u) (User_TwoFASecret x),
       User_TwoFAEnabled := (User_TwoFAEnabled u \<or> User_TwoFAEnabled x),
       User_BackupCodes := nz (User_BackupCodes u) (User_BackupCodes x),
       User_Quota := nzi (User_Quota u) (User_Quota x),
       User_UsedQuota := nzi (User_UsedQuota u) (User_UsedQuota x),
       User_RequestCount := nzi (User_RequestCount u) (User_RequestCount x),
       User_Group := nz (User_Group u) (User_Group x),
       User_AffCode := nz (User_AffCode u) (User_AffCode x),
       User_InviterId := nzi (User_InviterId u) (User_InviterId x)\<rparr>"

text \<open>The unique indexes on username, access token and invitation code.\<close>

definition same_unique :: "User \<Rightarrow> User \<Rightarrow> bool" where
  "same_unique u x \<longleftrightarrow> User_Username x = User_Username u \<or> User_AccessToken x = User_AccessToken u
     \<or> User_AffCode x = User_AffCode u"

definition users_unique :: "User list \<Rightarrow> bool" where
  "users_unique us \<longleftrightarrow> distinct (map User_Username us) \<and> distinct (map User_AccessToken us)
     \<and> distinct (map User_AffCode us)"

text \<open>\<open>DB.Model(u).Updates(u)\<close>: without a key GORM refuses the statement.\<close>

definition Updates_user :: "User \<Rightarrow> World \<Rightarrow> GoErr option \<times> World" where
  "Updates_user u w =
     (if User_Id u = 0 then (Some (Err ''WHERE conditions required''), w)
      else case io_fault w of
        (True, w1) \<Rightarrow> (Some ErrDB, w1)
      | (False, w1) \<Rightarrow>
          (let rows = update_where (\<lambda>x. User_Id x = User_Id u) (nonzero_user_updates u) (db_users (db w1))
           in if users_unique rows then (None, w1\<lparr>db := db_users_update (\<lambda>_. rows) (db w1)\<rparr>)
              else (Some ErrUniqueViolation, w1)))"

definition User_Insert ::
  "AccountEnv \<Rightarrow> string \<Rightarrow> string \<Rightarrow> User \<Rightarrow> int \<Rightarrow> World \<Rightarrow> GoErr option \<times> World" where
  "User_Insert E uuid affCode user inviterId w =
     (case (if User_Password user = [] then Inr [] else AE_Password2Hash E (User_Password user)) of
        Inl e \<Rightarrow> (Some e, w)
      | Inr hashed \<Rightarrow>
          (let u1 = user\<lparr>User_Password := hashed, User_Quota := QuotaForNewUser (cfg w),
                 User_AccessToken := uuid, User_AffCode := affCode,
                 User_Role := nzi (User_Role user) RoleCommonUser,
                 User_Status := nzi (User_Status user) UserStatusEnabled,
                 User_Group := nz (User_Group user) ''default''\<rparr>;
               u2 = (if User_Id u1 = 0 then u1\<lparr>User_Id := next_id User_Id (db_users (db w))\<rparr> else u1)
           in case sql_insert db_users db_users_update (\<lambda>x. User_Id x = User_Id u2 \<or> same_unique u2 x) u2 w of
                (Inl e, w1) \<Rightarrow> (Some e, w1)
              | (Inr _, w1) \<Rightarrow>
                  (None,
                   let uid = User_Id u2;
                       w2 = (if 0 < QuotaForNewUser (cfg w)
                             then RecordLog uid LogTypeSystem (LogBonus ''new user'' (QuotaForNewUser (cfg w))) w1 else w1);
                       w3 = (if inviterId \<noteq> 0 \<and> 0 < QuotaForInvitee (cfg w)
                             then RecordLog uid LogTypeSystem (LogBonus ''invitation code'' (QuotaForInvitee (cfg w)))
                                    (snd (IncreaseUserQuota uid (QuotaForInvitee (cfg w)) w2)) else w2)
                   in if inviterId \<noteq> 0 \<and> 0 < QuotaForInviter (cfg w)
                      then RecordLog inviterId LogTypeSystem (LogBonus ''inviting'' (QuotaForInviter (cfg w)))
                             (snd (IncreaseUserQuota inviterId (QuotaForInviter (cfg w)) w3)) else w3)))"

text \<open>The ban list follows the status before the row is written, whether or not that succeeds.\<close>

definition User_Update :: "AccountEnv \<Rightarrow> bool \<Rightarrow> User \<Rightarrow> Site \<Rightarrow> GoErr option \<times> Site" where
  "User_Update E updatePassword user s =
     (case (if updatePassword then AE_Password2Hash E (User_Password user) else Inr (User_Password user)) of
        Inl e \<Rightarrow> (Some e, s)
      | Inr password \<Rightarrow>
          (let black = (if User_Status user = UserStatusDisabled then BanUser (User_Id user) (St_black s)
                        else if User_Status user = UserStatusEnabled then UnbanUser (User_Id user) (St_black s)
                        else St_black s)
           in case Updates_user (user\<lparr>User_Password := password\<rparr>) (St_world s) of
                (e, w) \<Rightarrow> (e, s\<lparr>St_black := black, St_world := w\<rparr>)))"

definition User_Delete :: "string \<Rightarrow> User \<Rightarrow> Site \<Rightarrow> GoErr option \<times> Site" where
  "User_Delete uuid user s =
     (if User_Id user = 0 then (Some (Err ''id is empty''), s)
      else case hardDeletePasskeysOnUserDelete (User_Id user) (St_world s) of
        (Some e, w) \<Rightarrow> (Some e, s\<lparr>St_world := w\<rparr>)
      | (None, w) \<Rightarrow>
          (case Updates_user (user\<lparr>User_Username := ''deleted_'' @ uuid, User_Status := UserStatusDeleted\<rparr>) w of
             (e, w1) \<Rightarrow> (e, s\<lparr>St_black := BanUser (User_Id user) (St_black s), St_world := w1\<rparr>)))"

definition DeleteUserById :: "string \<Rightarrow> int \<Rightarrow> Site \<Rightarrow> GoErr option \<times> Site" where
  "DeleteUserById uuid uid s =
     (if uid = 0 then (Some (Err ''id is empty''), s)
      else User_Delete uuid (empty_user\<lparr>User_Id := uid\<rparr>) s)"

text \<open>\<open>Omit("password", "access_token")\<close> leaves these two columns empty.\<close>

definition GetUserById_sel :: "int \<Rightarrow> bool \<Rightarrow> World \<Rightarrow> (GoErr + User) \<times> World" where
  "GetUserById_sel uid selectAll w = (case GetUserById uid w of
       (Inl e, w1) \<Rightarrow> (Inl e, w1)
     | (Inr u, w1) \<Rightarrow> (Inr (if selectAll then u else u\<lparr>User_Password := [], User_AccessToken := []\<rparr>), w1))"

definition GetUserIdByAffCode :: "string \<Rightarrow> World \<Rightarrow> int \<times> World" where
  "GetUserIdByAffCode affCode w =
     (if affCode = [] then (0, w)
      else case sql_first db_users (\<lambda>u. User_AffCode u = affCode) w of
        (Inl e, w1) \<Rightarrow> (0, w1)
      | (Inr u, w1) \<Rightarrow> (User_Id u, w1))"

definition GetMaxUserId :: "World \<Rightarrow> int \<times> World" where
  "GetMaxUserId w = (case io_fault w of
       (True, w1) \<Rightarrow> (0, w1)
     | (False, w1) \<Rightarrow> (if db_users (db w1) = [] then 0 else User_Id (last (db_users (db w1))), w1))"

text \<open>The common shape of the \<open>FillUserBy...\<close> methods: the error of the query is dropped.\<close>

definition fill_user :: "(User \<Rightarrow> bool) \<Rightarrow> User \<Rightarrow> World \<Rightarrow> User \<times> World" where
  "fill_user P user w = (case sql_first db_users P w of
       (Inl e, w1) \<Rightarrow> (user, w1)
     | (Inr u, w1) \<Rightarrow> (u, w1))"

definition FillUserById :: "User \<Rightarrow> World \<Rightarrow> (GoErr option \<times> User) \<times> World" where
  "FillUserById user w =
     (if User_Id user = 0 then ((Some (Err ''id is empty''), user), w)
      else case fill_user (\<lambda>u. User_Id u = User_Id user) user w of (u, w1) \<Rightarrow> ((None, u), w1))"

definition FillUserByEmail :: "User \<Rightarrow> World \<Rightarrow> (GoErr option \<times> User) \<times> World" where
  "FillUserByEmail user w =
     (if User_Email user = [] then ((Some (Err ''email is empty''), user), w)
      else case fill_user (\<lambda>u. User_Email u = User_Email user) user w of (u, w1) \<Rightarrow> ((None, u), w1))"

definition FillUserByGitHubId :: "User \<Rightarrow> World \<Rightarrow> (GoErr option \<times> User) \<times> World" where
  "FillUserByGitHubId user w =
     (if User_GitHubId user = [] then ((Some (Err ''GitHub id is empty''), user), w)
      else case fill_user (\<lambda>u. User_GitHubId u = User_GitHubId user) user w of (u, w1) \<Rightarrow> ((None, u), w1))"

definition FillUserByLarkId :: "User \<Rightarrow> World \<Rightarrow> (GoErr option \<times> User) \<times> World" where
  "FillUserByLarkId user w =
     (if User_LarkId user = [] then ((Some (Err ''lark id is empty''), user), w)
      else case fill_user (\<lambda>u. User_LarkId u = User_LarkId user) user w of (u, w1) \<Rightarrow> ((None, u), w1))"

definition FillUserByOidcId :: "User \<Rightarrow> World \<Rightarrow> (GoErr option \<times> User) \<times> World" where
  "FillUserByOidcId user w =
     (if User_OidcId user = [] then ((Some (Err ''oidc id is empty''), user), w)
      else case fill_user (\<lambda>u. User_OidcId u = User_OidcId user) user w of (u, w1) \<Rightarrow> ((None, u), w1))"

definition FillUserByGoogleId :: "User \<Rightarrow> World \<Rightarrow> (GoErr option \<times> User) \<times> World" where
  "FillUserByGoogleId user w =
     (if User_GoogleId user = [] then ((Some (Err ''google id is empty''), user), w)
      else case fill_user (\<lambda>u. User_GoogleId u = User_GoogleId user) user w of (u, w1) \<Rightarrow> ((None, u), w1))"

definition FillUserByWeChatId :: "User \<Rightarrow> World \<Rightarrow> (GoErr option \<times> User) \<times> World" where
  "FillUserByWeChatId user w =
     (if User_WeChatId user = [] then ((Some (Err ''WeChat id is empty''), user), w)
      else case fill_user (\<lambda>u. User_WeChatId u = User_WeChatId user) user w of (u, w1) \<Rightarrow> ((None, u), w1))"

definition FillUserByUsername :: "User \<Rightarrow> World \<Rightarrow> (GoErr option \<times> User) \<times> World" where
  "FillUserByUsername user w =
     (if User_Username user = [] then ((Some (Err ''username is empty''), user), w)
      else case fill_user (\<lambda>u. User_Username u = User_Username user) user w of (u, w1) \<Rightarrow> ((None, u), w1))"

text \<open>\<open>RowsAffected == 1\<close>: a failed query and several matching rows both read as not taken.\<close>

definition one_row :: "(User \<Rightarrow> bool) \<Rightarrow> World \<Rightarrow> bool \<times> World" where
  "one_row P w = (case io_fault w of
       (True, w1) \<Rightarrow> (False, w1)
     | (False, w1) \<Rightarrow> (count_where P (db_users (db w1)) = 1, w1))"

definition IsEmailAlreadyTaken where "IsEmailAlreadyTaken email = one_row (\<lambda>u. User_Email u = email)"
definition IsWeChatIdAlreadyTaken where "IsWeChatIdAlreadyTaken k = one_row (\<lambda>u. User_WeChatId u = k)"
definition IsGitHubIdAlreadyTaken where "IsGitHubIdAlreadyTaken k = one_row (\<lambda>u. User_GitHubId u = k)"
definition IsLarkIdAlreadyTaken where "IsLarkIdAlreadyTaken k = one_row (\<lambda>u. User_LarkId u = k)"
definition IsOidcIdAlreadyTaken where "IsOidcIdAlreadyTaken k = one_row (\<lambda>u. User_OidcId u = k)"
definition IsGoogleIdAlreadyTaken where "IsGoogleIdAlreadyTaken k = one_row (\<lambda>u. User_GoogleId u = k)"
definition IsUsernameAlreadyTaken where "IsUsernameAlreadyTaken name = one_row (\<lambda>u. User_Username u = name)"

definition ResetUserPasswordByEmail :: "AccountEnv \<Rightarrow> string \<Rightarrow> string \<Rightarrow> World \<Rightarrow> GoErr option \<times> World" where
  "ResetUserPasswordByEmail E email password w =
     (if email = [] \<or> password = [] then (Some (Err ''email or password is empty''), w)
      else case AE_Password2Hash E password of
        Inl e \<Rightarrow> (Some e, w)
      | Inr hashed \<Rightarrow> err_only (sql_update db_users db_users_update (\<lambda>_. True) (\<lambda>u. User_Email u = email)
            (\<lambda>u. u\<lparr>User_Password := hashed\<rparr>) w))"

definition GetRootUserEmail :: "World \<Rightarrow> string \<times> World" where
  "GetRootUserEmail w = (case sql_find_col db_users (\<lambda>u. User_Role u = RoleRootUser) User_Email [] w of
       (Inl e, w1) \<Rightarrow> ([], w1)
     | (Inr email, w1) \<Rightarrow> (email, w1))"

text \<open>By name first, then by mail address.\<close>

definition ValidateAndFill :: "AccountEnv \<Rightarrow> string \<Rightarrow> string \<Rightarrow> World \<Rightarrow> (GoErr + User) \<times> World" where
  "ValidateAndFill E username password w =
     (if username = [] \<or> password = [] then (Inl (Err ''username or password is empty''), w)
      else case (case sql_first db_users (\<lambda>u. User_Username u = username) w of
            (Inr u, w1) \<Rightarrow> (Inr u, w1)
          | (Inl e, w1) \<Rightarrow> sql_first db_users (\<lambda>u. User_Email u = username) w1) of
        (Inl e, w2) \<Rightarrow> (Inl (Err ''wrong username or password, or banned''), w2)
      | (Inr u, w2) \<Rightarrow>
          if \<not> AE_ValidatePassword E password (User_Password u) \<or> User_Status u \<noteq> UserStatusEnabled
          then (Inl (Err ''wrong username or password, or banned''), w2)
          else (Inr u, w2))"

end
