(* ===== verification/AccountWeb.thy ===== *)
theory AccountWeb
  imports Accounts
begin

text \<open>
  The console's handlers for accounts (\<open>controller/user.go\<close>): sign-in, registration, the user's
  own changes, and what administrators do to users. A decoded body is an argument, \<open>None\<close> when it
  does not decode; \<open>role\<close> and \<open>uid\<close> are what the session middleware put into the context.
\<close>

section \<open>Signing in and out\<close>

text \<open>\<open>saves\<close>: the session can be stored; when it cannot, the client keeps the one it had.\<close>

definition session_of :: "User \<Rightarrow> Session" where
  "session_of user = \<lparr>S_username = User_Username user, S_role = User_Role user, S_id = User_Id user,
     S_status = User_Status user\<rparr>"

definition clean_user :: "User \<Rightarrow> User" where
  "clean_user user = empty_user\<lparr>User_Id := User_Id user, User_Username := User_Username user,
     User_DisplayName := User_DisplayName user, User_Role := User_Role user, User_Status := User_Status user\<rparr>"

datatype LoginReply = LoginFailed GoErr | SecondFactor "string list" | LoggedIn User

text \<open>\<open>ws\<close> is the session with the changes made so far, \<open>ws0\<close> the one that the client has.\<close>

definition SetupLogin :: "bool \<Rightarrow> User \<Rightarrow> WebSession \<Rightarrow> WebSession \<Rightarrow> LoginReply \<times> WebSession" where
  "SetupLogin saves user ws0 ws =
     (if \<not> saves then (LoginFailed (Err ''cannot save the session''), ws0)
      else (LoggedIn (clean_user user), ws\<lparr>WS_login := Some (session_of user)\<rparr>))"

definition Login ::
  "AccountEnv \<Rightarrow> AccountConfig \<Rightarrow> (string \<times> string) option \<Rightarrow> bool \<Rightarrow> WebSession \<Rightarrow> World
     \<Rightarrow> (LoginReply \<times> WebSession) \<times> World" where
  "Login E ac req saves ws w =
     (if \<not> AC_PasswordLoginEnabled ac then ((LoginFailed (Err ''password login is disabled''), ws), w)
      else case req of
        None \<Rightarrow> ((LoginFailed (Err ''invalid_parameter''), ws), w)
      | Some (username, password) \<Rightarrow>
          if username = [] \<or> password = [] then ((LoginFailed (Err ''invalid_parameter''), ws), w)
          else (case ValidateAndFill E username password w of
              (Inl e, w1) \<Rightarrow> ((LoginFailed e, ws), w1)
            | (Inr user, w1) \<Rightarrow>
                (case HasPasskey (User_Id user) w1 of (hasPasskey, w2) \<Rightarrow>
                   if User_TwoFAEnabled user \<or> hasPasskey then
                     (if \<not> saves then ((LoginFailed (Err ''cannot save the session''), ws), w2)
                      else ((SecondFactor ((if User_TwoFAEnabled user then [''totp''] else [])
                               @ (if hasPasskey then [''passkey''] else [])),
                             ws\<lparr>WS_pending_2fa_user_id := Some (User_Id user)\<rparr>), w2))
                   else (SetupLogin saves user ws ws, w2))))"

definition Logout :: "bool \<Rightarrow> WebSession \<Rightarrow> unit Reply \<times> WebSession" where
  "Logout saves ws =
     (if saves then (Done (), \<lparr>WS_login = None, WS_pending_2fa_user_id = None\<rparr>)
      else (Failed (Err ''cannot save the session''), ws))"

section \<open>Registration\<close>

text \<open>The message for an invalid user: the first failing tag of the name decides, if any does.\<close>

definition registration_message :: "AccountEnv \<Rightarrow> User \<Rightarrow> string" where
  "registration_message E u =
     (if rune_count E (User_Username u) < 3 then ''invalid_username_short''
      else if 12 < rune_count E (User_Username u) then ''invalid_username_long''
      else if \<not> username_chars E (User_Username u) then ''invalid_username_chars''
      else ''invalid_input'')"

definition check_registration ::
  "AccountEnv \<Rightarrow> AccountConfig \<Rightarrow> int \<Rightarrow> User \<Rightarrow> string \<Rightarrow> verificationMap \<Rightarrow> GoErr option" where
  "check_registration E ac now user verificationCode codes =
     (if \<not> valid_user E user then Some (Err (registration_message E user))
      else if \<not> IsPasswordComplexEnough E (User_Password user) then Some (Err ''invalid_password_complexity'')
      else if AC_EmailVerificationEnabled ac \<and> (User_Email user = [] \<or> verificationCode = [])
        then Some (Err ''mail address and verification code required'')
      else if AC_EmailVerificationEnabled ac
          \<and> \<not> VerifyCodeWithKey (User_Email user) verificationCode EmailVerificationPurpose now codes
        then Some (Err ''verification code wrong or expired'')
      else None)"

definition register_checked ::
  "AccountEnv \<Rightarrow> string \<Rightarrow> string \<Rightarrow> User \<Rightarrow> World \<Rightarrow> unit Reply \<times> World" where
  "register_checked E uuid affCode user w =
     (case IsUsernameAlreadyTaken (User_Username user) w of
        (True, w1) \<Rightarrow> (Failed (Err ''username_taken''), w1)
      | (False, w1) \<Rightarrow>
          (case (if User_Email user \<noteq> [] then IsEmailAlreadyTaken (User_Email user) w1 else (False, w1)) of
             (True, w2) \<Rightarrow> (Failed (Err ''email_taken''), w2)
           | (False, w2) \<Rightarrow>
               (case GetUserIdByAffCode (User_AffCode user) w2 of (inviterId, w3) \<Rightarrow>
                  (case User_Insert E uuid affCode
                      (empty_user\<lparr>User_Username := User_Username user, User_Password := User_Password user,
                         User_DisplayName := User_Username user, User_InviterId := inviterId,
                         User_Email := User_Email user\<rparr>) inviterId w3 of
                     (Some e, w4) \<Rightarrow> (Failed e, w4)
                   | (None, w4) \<Rightarrow> (Done (), w4)))))"

definition Register ::
  "AccountEnv \<Rightarrow> AccountConfig \<Rightarrow> int \<Rightarrow> string \<Rightarrow> string \<Rightarrow> (User \<times> string) option \<Rightarrow> Site \<Rightarrow> unit Reply \<times> Site" where
  "Register E ac now uuid affCode req s =
     (if \<not> AC_RegisterEnabled ac then (Failed (Err ''registration is disabled''), s)
      else if \<not> AC_PasswordRegisterEnabled ac then (Failed (Err ''registration by password is disabled''), s)
      else case req of
        None \<Rightarrow> (Failed (Err ''invalid_parameter''), s)
      | Some (user, verificationCode) \<Rightarrow>
          (case check_registration E ac now user verificationCode (St_codes s) of
             Some e \<Rightarrow> (Failed e, s)
           | None \<Rightarrow> (case register_checked E uuid affCode user (St_world s) of
                 (r, w) \<Rightarrow> (r, s\<lparr>St_world := w\<rparr>))))"

section \<open>The own account\<close>

definition placeholder :: string where "placeholder = ''$I_LOVE_U''"

definition with_placeholder :: "User \<Rightarrow> User" where
  "with_placeholder u = (if User_Password u = [] then u\<lparr>User_Password := placeholder\<rparr> else u)"

definition without_placeholder :: "User \<Rightarrow> User" where
  "without_placeholder u = (if User_Password u = placeholder then u\<lparr>User_Password := []\<rparr> else u)"

definition reply_of :: "GoErr option \<times> Site \<Rightarrow> unit Reply \<times> Site" where
  "reply_of r = (case r of (Some e, s) \<Rightarrow> (Failed e, s) | (None, s) \<Rightarrow> (Done (), s))"

definition UpdateSelf :: "AccountEnv \<Rightarrow> int \<Rightarrow> User option \<Rightarrow> Site \<Rightarrow> unit Reply \<times> Site" where
  "UpdateSelf E uid req s = (case req of
       None \<Rightarrow> (Failed (Err ''invalid_parameter''), s)
     | Some user0 \<Rightarrow>
         (let user = with_placeholder user0
          in if \<not> valid_user E user then (Failed (Err ''invalid input''), s)
             else (let clean = without_placeholder (empty_user\<lparr>User_Id := uid, User_Username := User_Username user,
                         User_Password := User_Password user, User_DisplayName := User_DisplayName user\<rparr>);
                       updatePassword = (User_Password clean \<noteq> [])
                   in if updatePassword \<and> \<not> IsPasswordComplexEnough E (User_Password clean)
                      then (Failed (Err ''invalid_password_complexity''), s)
                      else reply_of (User_Update E updatePassword clean s))))"

definition GetSelf :: "int \<Rightarrow> World \<Rightarrow> User Reply \<times> World" where
  "GetSelf uid w = (case GetUserById_sel uid False w of
       (Inl e, w1) \<Rightarrow> (Failed e, w1) | (Inr u, w1) \<Rightarrow> (Done u, w1))"

text \<open>
  The search for another user with the new token runs with the row's own key as a second
  condition, so it can only find that row.
\<close>

definition GenerateAccessToken :: "AccountEnv \<Rightarrow> string \<Rightarrow> int \<Rightarrow> Site \<Rightarrow> string Reply \<times> Site" where
  "GenerateAccessToken E uuid uid s = (case GetUserById_sel uid True (St_world s) of
       (Inl e, w) \<Rightarrow> (Failed e, s\<lparr>St_world := w\<rparr>)
     | (Inr u, w) \<Rightarrow>
         (case sql_first db_users (\<lambda>x. User_AccessToken x = uuid \<and> User_Id x = User_Id u) w of
            (Inr _, w1) \<Rightarrow> (Failed (Err ''duplicate UUID, try again''), s\<lparr>St_world := w1\<rparr>)
          | (Inl _, w1) \<Rightarrow>
              (case User_Update E False (u\<lparr>User_AccessToken := uuid\<rparr>) (s\<lparr>St_world := w1\<rparr>) of
                 (Some e, s1) \<Rightarrow> (Failed e, s1)
               | (None, s1) \<Rightarrow> (Done uuid, s1))))"

definition GetAffCode :: "AccountEnv \<Rightarrow> string \<Rightarrow> int \<Rightarrow> Site \<Rightarrow> string Reply \<times> Site" where
  "GetAffCode E fresh uid s = (case GetUserById_sel uid True (St_world s) of
       (Inl e, w) \<Rightarrow> (Failed e, s\<lparr>St_world := w\<rparr>)
     | (Inr u, w) \<Rightarrow>
         if User_AffCode u \<noteq> [] then (Done (User_AffCode u), s\<lparr>St_world := w\<rparr>)
         else (case User_Update E False (u\<lparr>User_AffCode := fresh\<rparr>) (s\<lparr>St_world := w\<rparr>) of
             (Some e, s1) \<Rightarrow> (Failed e, s1)
           | (None, s1) \<Rightarrow> (Done fresh, s1)))"

definition EmailBind :: "AccountEnv \<Rightarrow> int \<Rightarrow> int \<Rightarrow> string \<Rightarrow> string \<Rightarrow> Site \<Rightarrow> unit Reply \<times> Site" where
  "EmailBind E now uid email code s =
     (if \<not> VerifyCodeWithKey email code EmailVerificationPurpose now (St_codes s)
      then (Failed (Err ''verification code wrong or expired''), s)
      else case FillUserById (empty_user\<lparr>User_Id := uid\<rparr>) (St_world s) of
        ((Some e, u), w) \<Rightarrow> (Failed e, s\<lparr>St_world := w\<rparr>)
      | ((None, u), w) \<Rightarrow>
          (case User_Update E False (u\<lparr>User_Email := email\<rparr>) (s\<lparr>St_world := w\<rparr>) of
             (Some e, s1) \<Rightarrow> (Failed e, s1)
           | (None, s1) \<Rightarrow> (Done (), if User_Role u = RoleRootUser then s1\<lparr>St_RootUserEmail := email\<rparr> else s1)))"

text \<open>The error of the first query is ignored; the struct it leaves has the key and nothing else.\<close>

definition DeleteSelf :: "string \<Rightarrow> int \<Rightarrow> Site \<Rightarrow> unit Reply \<times> Site" where
  "DeleteSelf uuid uid s =
     (case (case GetUserById_sel uid False (St_world s) of
          (Inr u, w) \<Rightarrow> (u, w) | (Inl e, w) \<Rightarrow> (empty_user\<lparr>User_Id := uid\<rparr>, w)) of
        (user, w) \<Rightarrow>
          if User_Role user = RoleRootUser then (Failed (Err ''the root account cannot be deleted''), s\<lparr>St_world := w\<rparr>)
          else reply_of (DeleteUserById uuid uid (s\<lparr>St_world := w\<rparr>)))"

definition TopUp :: "int \<Rightarrow> GoErr + string \<Rightarrow> World \<Rightarrow> int Reply \<times> World" where
  "TopUp uid req w = (case req of
       Inl e \<Rightarrow> (Failed e, w)
     | Inr key \<Rightarrow> (case Redeem key uid w of
           (Inl e, w1) \<Rightarrow> (Failed e, w1) | (Inr quota, w1) \<Rightarrow> (Done quota, w1)))"

section \<open>Administration\<close>

definition GetUser :: "int \<Rightarrow> string \<Rightarrow> World \<Rightarrow> (User \<times> PasskeyCredential list) Reply \<times> World" where
  "GetUser myRole idText w = (case go_atoi idText of
       None \<Rightarrow> (Failed (Err ''invalid syntax''), w)
     | Some uid \<Rightarrow> (case GetUserById_sel uid False w of
           (Inl e, w1) \<Rightarrow> (Failed e, w1)
         | (Inr user, w1) \<Rightarrow>
             if myRole \<le> User_Role user \<and> myRole \<noteq> RoleRootUser
             then (Failed (Err ''no permission on users of the same or a higher level''), w1)
             else (case ListPasskeysByUserId (User_Id user) w1 of
                 (Inl e, w2) \<Rightarrow> (Done (user, []), w2)
               | (Inr ps, w2) \<Rightarrow> (Done (user, ps), w2))))"

definition UpdateUser :: "AccountEnv \<Rightarrow> int \<Rightarrow> User option \<Rightarrow> Site \<Rightarrow> unit Reply \<times> Site" where
  "UpdateUser E myRole req s = (case req of
       None \<Rightarrow> (Failed (Err ''invalid_parameter''), s)
     | Some u0 \<Rightarrow>
         if User_Id u0 = 0 then (Failed (Err ''invalid_parameter''), s)
         else if \<not> valid_user E (with_placeholder u0) then (Failed (Err ''invalid_input''), s)
         else (case GetUserById_sel (User_Id u0) False (St_world s) of
             (Inl e, w) \<Rightarrow> (Failed e, s\<lparr>St_world := w\<rparr>)
           | (Inr origin, w) \<Rightarrow>
               if myRole \<le> User_Role origin \<and> myRole \<noteq> RoleRootUser
               then (Failed (Err ''no permission on users of the same or a higher level''), s\<lparr>St_world := w\<rparr>)
               else if myRole \<le> User_Role u0 \<and> myRole \<noteq> RoleRootUser
               then (Failed (Err ''cannot raise a user to the own level or above''), s\<lparr>St_world := w\<rparr>)
               else (let user = without_placeholder (with_placeholder u0);
                         updatePassword = (User_Password user \<noteq> [])
                     in if updatePassword \<and> \<not> IsPasswordComplexEnough E (User_Password user)
                        then (Failed (Err ''invalid_password_complexity''), s\<lparr>St_world := w\<rparr>)
                        else (case User_Update E updatePassword user (s\<lparr>St_world := w\<rparr>) of
                            (Some e, s1) \<Rightarrow> (Failed e, s1)
                          | (None, s1) \<Rightarrow>
                              (Done (), if User_Quota origin \<noteq> User_Quota user
                                 then s1\<lparr>St_world := RecordLog (User_Id origin) LogTypeManage
                                        (LogQuotaChange (User_Quota origin) (User_Quota user)) (St_world s1)\<rparr>
                                 else s1)))))"

text \<open>Success of the deletion is answered with an empty body, its failure with success.\<close>

datatype DeleteReply = DeleteFailed GoErr | SaysSuccess | EmptyBody

definition DeleteUser :: "string \<Rightarrow> int \<Rightarrow> string \<Rightarrow> Site \<Rightarrow> DeleteReply \<times> Site" where
  "DeleteUser uuid myRole idText s = (case go_atoi idText of
       None \<Rightarrow> (DeleteFailed (Err ''invalid syntax''), s)
     | Some uid \<Rightarrow> (case GetUserById_sel uid False (St_world s) of
           (Inl e, w) \<Rightarrow> (DeleteFailed e, s\<lparr>St_world := w\<rparr>)
         | (Inr origin, w) \<Rightarrow>
             if myRole \<le> User_Role origin
             then (DeleteFailed (Err ''no permission on users of the same or a higher level''), s\<lparr>St_world := w\<rparr>)
             else (case DeleteUserById uuid uid (s\<lparr>St_world := w\<rparr>) of
                 (Some e, s1) \<Rightarrow> (SaysSuccess, s1)
               | (None, s1) \<Rightarrow> (EmptyBody, s1))))"

definition CreateUser :: "AccountEnv \<Rightarrow> string \<Rightarrow> string \<Rightarrow> int \<Rightarrow> User option \<Rightarrow> Site \<Rightarrow> unit Reply \<times> Site" where
  "CreateUser E uuid affCode myRole req s = (case req of
       None \<Rightarrow> (Failed (Err ''invalid_parameter''), s)
     | Some user \<Rightarrow>
         if User_Username user = [] \<or> User_Password user = [] then (Failed (Err ''invalid_parameter''), s)
         else if \<not> valid_user E user then (Failed (Err ''invalid_input''), s)
         else if \<not> IsPasswordComplexEnough E (User_Password user)
         then (Failed (Err ''invalid_password_complexity''), s)
         else if myRole \<le> User_Role user
         then (Failed (Err ''cannot create a user of the own level or above''), s)
         else (case User_Insert E uuid affCode
             (empty_user\<lparr>User_Username := User_Username user, User_Password := User_Password user,
                User_DisplayName := nz (User_DisplayName user) (User_Username user)\<rparr>) 0 (St_world s) of
            (Some e, w) \<Rightarrow> (Failed e, s\<lparr>St_world := w\<rparr>)
          | (None, w) \<Rightarrow> (Done (), s\<lparr>St_world := w\<rparr>)))"

text \<open>
  \<open>Where(&user)\<close> with an empty name has no condition and takes the first user. The actions change
  the loaded row, which is then written back; \<open>delete\<close> writes it twice, an unknown action once.
\<close>

definition manage_action :: "string \<Rightarrow> int \<Rightarrow> string \<Rightarrow> User \<Rightarrow> Site \<Rightarrow> (GoErr + User) \<times> Site" where
  "manage_action uuid myRole action user s =
     (if action = ''disable'' then
        (if User_Role user = RoleRootUser then (Inl (Err ''the root user cannot be disabled''), s)
         else (Inr (user\<lparr>User_Status := UserStatusDisabled\<rparr>), s))
      else if action = ''enable'' then (Inr (user\<lparr>User_Status := UserStatusEnabled\<rparr>), s)
      else if action = ''delete'' then
        (if User_Role user = RoleRootUser then (Inl (Err ''the root user cannot be deleted''), s)
         else (case User_Delete uuid user s of
             (Some e, s1) \<Rightarrow> (Inl e, s1)
           | (None, s1) \<Rightarrow>
               (Inr (user\<lparr>User_Username := ''deleted_'' @ uuid, User_Status := UserStatusDeleted\<rparr>), s1)))
      else if action = ''promote'' then
        (if myRole \<noteq> RoleRootUser then (Inl (Err ''only the root user can promote''), s)
         else if RoleAdminUser \<le> User_Role user then (Inl (Err ''already an administrator''), s)
         else (Inr (user\<lparr>User_Role := RoleAdminUser\<rparr>), s))
      else if action = ''demote'' then
        (if User_Role user = RoleRootUser then (Inl (Err ''the root user cannot be demoted''), s)
         else if User_Role user = RoleCommonUser then (Inl (Err ''already a common user''), s)
         else (Inr (user\<lparr>User_Role := RoleCommonUser\<rparr>), s))
      else (Inr user, s))"

definition ManageUser ::
  "AccountEnv \<Rightarrow> string \<Rightarrow> int \<Rightarrow> (string \<times> string) option \<Rightarrow> Site \<Rightarrow> (int \<times> int) Reply \<times> Site" where
  "ManageUser E uuid myRole req s = (case req of
       None \<Rightarrow> (Failed (Err ''invalid_parameter''), s)
     | Some (username, action) \<Rightarrow>
         (case fill_user (\<lambda>u. username = [] \<or> User_Username u = username)
                 (empty_user\<lparr>User_Username := username\<rparr>) (St_world s) of
            (user, w) \<Rightarrow>
              if User_Id user = 0 then (Failed (Err ''no such user''), s\<lparr>St_world := w\<rparr>)
              else if myRole \<le> User_Role user \<and> myRole \<noteq> RoleRootUser
              then (Failed (Err ''no permission on users of the same or a higher level''), s\<lparr>St_world := w\<rparr>)
              else (case manage_action uuid myRole action user (s\<lparr>St_world := w\<rparr>) of
                  (Inl e, s1) \<Rightarrow> (Failed e, s1)
                | (Inr changed, s1) \<Rightarrow>
                    (case User_Update E False changed s1 of
                       (Some e, s2) \<Rightarrow> (Failed e, s2)
                     | (None, s2) \<Rightarrow> (Done (User_Role changed, User_Status changed), s2)))))"

definition RecordTopupLog :: "int \<Rightarrow> LogContent \<Rightarrow> int \<Rightarrow> World \<Rightarrow> World" where
  "RecordTopupLog userId content quota w =
     (case GetUsernameById userId w of (name, w1) \<Rightarrow>
        recordLogHelper \<lparr>Log_UserId = userId, Log_Username = name, Log_CreatedAt = clock w1,
          Log_Type = LogTypeTopup, Log_Content = content, Log_ModelName = [], Log_TokenName = [],
          Log_Quota = quota, Log_PromptTokens = 0, Log_CompletionTokens = 0, Log_ChannelId = 0,
          Log_IsStream = False, Log_SystemPromptReset = False\<rparr> w1)"

definition AdminTopUp :: "GoErr + int \<times> int \<times> string \<Rightarrow> World \<Rightarrow> unit Reply \<times> World" where
  "AdminTopUp req w = (case req of
       Inl e \<Rightarrow> (Failed e, w)
     | Inr (uid, quota, remark) \<Rightarrow> (case IncreaseUserQuota uid quota w of
           (Some e, w1) \<Rightarrow> (Failed e, w1)
         | (None, w1) \<Rightarrow> (Done (), RecordTopupLog uid (LogRemark remark quota) quota w1)))"

section \<open>Administrators stay below their own level\<close>

text \<open>The users of level \<open>r\<close> and above, with everything in their rows.\<close>

definition high :: "int \<Rightarrow> World \<Rightarrow> User list" where
  "high r w = filter (\<lambda>u. r \<le> User_Role u) (db_users (db w))"

text \<open>No user with id \<open>k\<close> is of that level.\<close>

definition low_id :: "int \<Rightarrow> int \<Rightarrow> World \<Rightarrow> bool" where
  "low_id r k w \<longleftrightarrow> list_all (\<lambda>u. User_Id u = k \<longrightarrow> User_Role u < r) (db_users (db w))"

definition keeps_high :: "int \<Rightarrow> World \<Rightarrow> World \<Rightarrow> bool" where
  "keeps_high r w w' \<longleftrightarrow> high r w' = high r w \<and> (distinct (map User_Id (db_users (db w))) \<longrightarrow>
     distinct (map User_Id (db_users (db w'))))"

lemma keeps_high_db: "db w' = db w \<Longrightarrow> keeps_high r w w'"
  by (simp add: keeps_high_def high_def)

lemma keeps_high_trans: "keeps_high r w w1 \<Longrightarrow> keeps_high r w1 w2 \<Longrightarrow> keeps_high r w w2"
  by (simp add: keeps_high_def)

lemma low_id_db: "db w' = db w \<Longrightarrow> low_id r k w' = low_id r k w"
  by (simp add: low_id_def)

lemma low_id_find:
  assumes "distinct (map User_Id (db_users (db w)))" and "find P (db_users (db w)) = Some u" and "User_Role u < r"
  shows "low_id r (User_Id u) w"
proof -
  have u: "u \<in> set (db_users (db w))" using find_Some_mem [OF assms(2)] by simp
  have "x = u" if "x \<in> set (db_users (db w))" "User_Id x = User_Id u" for x
    using assms(1) u that by (meson distinct_map inj_onD)
  then show ?thesis unfolding low_id_def list_all_iff using assms(3) by blast
qed

lemma nonzero_user_updates_id [simp]: "User_Id (nonzero_user_updates u x) = User_Id x"
  by (simp add: nonzero_user_updates_def)

lemma nonzero_user_updates_role: "User_Role (nonzero_user_updates u x) = nzi (User_Role u) (User_Role x)"
  by (simp add: nonzero_user_updates_def)

lemma Updates_user_db:
  assumes "Updates_user u w = (e, w')"
  shows "db w' = db w \<or> e = None \<and> db w' = db_users_update
     (\<lambda>_. update_where (\<lambda>x. User_Id x = User_Id u) (nonzero_user_updates u) (db_users (db w))) (db w)"
proof -
  obtain b w0 where io: "io_fault w = (b, w0)" by fastforce
  then have "db w0 = db w" using io_fault_frame by blast
  with assms io show ?thesis
    by (cases b) (auto simp: Updates_user_def Let_def split: if_splits)
qed

lemma Updates_user_None:
  assumes "Updates_user u w = (None, w')"
  shows "db_users (db w') = update_where (\<lambda>x. User_Id x = User_Id u) (nonzero_user_updates u) (db_users (db w))"
proof -
  obtain b w0 where io: "io_fault w = (b, w0)" by fastforce
  then have "db w0 = db w" using io_fault_frame by blast
  with assms io show ?thesis
    by (cases b) (auto simp: Updates_user_def Let_def split: if_splits)
qed

lemma Updates_user_high:
  assumes "Updates_user u w = (e, w')" and "low_id r (User_Id u) w" and "User_Role u < r" and "0 < r"
  shows "keeps_high r w w' \<and> low_id r (User_Id u) w'"
proof (cases "db w' = db w")
  case True
  with keeps_high_db assms(2) low_id_db show ?thesis by blast
next
  case False
  let ?f = "nonzero_user_updates u" and ?P = "\<lambda>x. User_Id x = User_Id u"
  have d: "db w' = db_users_update (\<lambda>_. update_where ?P ?f (db_users (db w))) (db w)"
    using Updates_user_db [OF assms(1)] False by blast
  have low: "User_Role x < r" if "x \<in> set (db_users (db w))" "User_Id x = User_Id u" for x
    using assms(2) that by (simp add: low_id_def list_all_iff)
  have f: "User_Role (?f x) < r" if "x \<in> set (db_users (db w))" "User_Id x = User_Id u" for x
    using low [OF that] assms(3) by (simp add: nonzero_user_updates_role nzi_def)
  have "high r w' = high r w"
    unfolding high_def d using low f
    by (simp add: filter_update_where [of "db_users (db w)" ?P "\<lambda>u. r \<le> User_Role u" ?f] not_le)
  moreover have "map User_Id (db_users (db w')) = map User_Id (db_users (db w))"
    by (simp add: d map_update_where_frame)
  moreover have "low_id r (User_Id u) w'"
    unfolding low_id_def d using f by (auto simp: list_all_iff update_where_def)
  ultimately show ?thesis by (simp add: keeps_high_def)
qed

lemma User_Update_high:
  assumes "User_Update E b u s = (e, s')" and "low_id r (User_Id u) (St_world s)" and "User_Role u < r" and "0 < r"
  shows "keeps_high r (St_world s) (St_world s')"
proof (cases "if b then AE_Password2Hash E (User_Password u) else Inr (User_Password u)")
  case (Inl x)
  with assms(1) show ?thesis by (auto simp: User_Update_def keeps_high_db)
next
  case (Inr p)
  obtain e1 w1 where u: "Updates_user (u\<lparr>User_Password := p\<rparr>) (St_world s) = (e1, w1)" by fastforce
  with Inr assms(1) have "St_world s' = w1" by (auto simp: User_Update_def Let_def)
  with Updates_user_high [OF u, of r] assms(2-4) show ?thesis by simp
qed

lemma hardDelete_users:
  "hardDeletePasskeysOnUserDelete k w = (e, w') \<Longrightarrow> db_users (db w') = db_users (db w)"
  using sql_delete_frame [of db_passkeys db_passkeys_update "\<lambda>c. Passkey_UserId c = k" w]
  by (auto simp: hardDeletePasskeysOnUserDelete_def err_only_def split: if_splits prod.splits sum.splits)

lemma User_Delete_high:
  assumes "User_Delete uuid u s = (e, s')" and "low_id r (User_Id u) (St_world s)" and "User_Role u < r" and "0 < r"
  shows "keeps_high r (St_world s) (St_world s') \<and> low_id r (User_Id u) (St_world s')"
proof (cases "User_Id u = 0")
  case True
  with assms show ?thesis by (auto simp: User_Delete_def keeps_high_db)
next
  case False
  obtain e1 w1 where h: "hardDeletePasskeysOnUserDelete (User_Id u) (St_world s) = (e1, w1)" by fastforce
  have k: "keeps_high r (St_world s) w1" "low_id r (User_Id u) w1"
    using hardDelete_users [OF h] assms(2) by (simp_all add: keeps_high_def high_def low_id_def)
  let ?u = "u\<lparr>User_Username := ''deleted_'' @ uuid, User_Status := UserStatusDeleted\<rparr>"
  obtain e2 w2 where u: "Updates_user ?u w1 = (e2, w2)" by fastforce
  have "St_world s' = (if e1 = None then w2 else w1)"
    using assms(1) False h u by (auto simp: User_Delete_def split: option.splits)
  with k Updates_user_high [OF u, of r] assms(3,4) show ?thesis by (auto intro: keeps_high_trans)
qed

lemma RecordLog_db_eq: "db (RecordLog k t c w) = db w"
  by (auto simp: RecordLog_def recordLogHelper_def GetUsernameById_def sql_find_col_def
      dest!: io_fault_frame split: prod.splits sum.splits bool.splits if_splits)

lemma keeps_high_RecordLog [simp]: "keeps_high r w (RecordLog k t c w1) = keeps_high r w w1"
  by (simp add: keeps_high_def high_def RecordLog_db_eq)

lemma GetUserById_sel_frame:
  assumes "GetUserById_sel k b w = (r, w1)"
  shows "db w1 = db w \<and> (case r of Inl e \<Rightarrow> True | Inr u \<Rightarrow>
     \<exists>x. find (\<lambda>u. User_Id u = k) (db_users (db w)) = Some x \<and> User_Role u = User_Role x
       \<and> User_Id u = User_Id x \<and> User_Id x = k)"
  using assms
  by (auto simp: GetUserById_sel_def GetUserById_def sql_first_def dest!: io_fault_frame dest: find_Some_mem
      split: prod.splits sum.splits bool.splits if_splits option.splits)

text \<open>What an administrator can send to the console.\<close>

datatype AdminRequest =
    AdminUpdates "User option"
  | AdminDeletes string string
  | AdminCreates string string "User option"
  | AdminManages string "(string \<times> string) option"

fun admin_request :: "AccountEnv \<Rightarrow> int \<Rightarrow> AdminRequest \<Rightarrow> Site \<Rightarrow> Site" where
  "admin_request E myRole (AdminUpdates req) s = snd (UpdateUser E myRole req s)"
| "admin_request E myRole (AdminDeletes uuid k) s = snd (DeleteUser uuid myRole k s)"
| "admin_request E myRole (AdminCreates uuid aff req) s = snd (CreateUser E uuid aff myRole req s)"
| "admin_request E myRole (AdminManages uuid req) s = snd (ManageUser E uuid myRole req s)"

lemma reply_of_snd [simp]: "snd (reply_of r) = snd r"
  by (cases r) (simp add: reply_of_def split: option.split)

lemma UpdateUser_high:
  assumes "r \<noteq> RoleRootUser" and "0 < r" and ids: "distinct (map User_Id (db_users (db (St_world s))))"
  shows "keeps_high r (St_world s) (St_world (snd (UpdateUser E r req s)))"
proof (cases req)
  case None
  then show ?thesis by (simp add: UpdateUser_def keeps_high_db)
next
  case (Some u0)
  obtain g w where g: "GetUserById_sel (User_Id u0) False (St_world s) = (g, w)" by fastforce
  note fr = GetUserById_sel_frame [OF g]
  let ?s = "s\<lparr>St_world := w\<rparr>" and ?u = "without_placeholder (with_placeholder u0)"
  have same: "keeps_high r (St_world s) w" using fr by (simp add: keeps_high_db)
  have u: "User_Id ?u = User_Id u0" "User_Role ?u = User_Role u0"
    by (simp_all add: without_placeholder_def with_placeholder_def)
  show ?thesis
  proof (cases g)
    case (Inl e)
    with same g Some show ?thesis by (auto simp: UpdateUser_def keeps_high_db)
  next
    case (Inr origin)
    obtain x where x: "find (\<lambda>u. User_Id u = User_Id u0) (db_users (db (St_world s))) = Some x"
      "User_Role origin = User_Role x" "User_Id x = User_Id u0" using fr Inr by auto
    have upd: "keeps_high r (St_world s) (St_world s1)"
      if "User_Update E b ?u ?s = (e, s1)" "User_Role origin < r" "User_Role u0 < r" for b e s1
    proof -
      have "low_id r (User_Id ?u) (St_world ?s)"
        using low_id_find [OF ids x(1)] that(2) x(2,3) fr u low_id_db [of w "St_world s"] by simp
      from User_Update_high [OF that(1) this] that(3) u assms(2)
      show ?thesis using same by (simp add: keeps_high_trans)
    qed
    show ?thesis
      using Some g Inr same assms(1) upd
      by (auto simp: UpdateUser_def Let_def keeps_high_db not_le split: prod.splits option.splits)
  qed
qed

lemma DeleteUser_high:
  assumes "0 < r" and ids: "distinct (map User_Id (db_users (db (St_world s))))"
  shows "keeps_high r (St_world s) (St_world (snd (DeleteUser uuid r k s)))"
proof (cases "go_atoi k")
  case None
  then show ?thesis by (simp add: DeleteUser_def keeps_high_db)
next
  case (Some uid)
  obtain g w where g: "GetUserById_sel uid False (St_world s) = (g, w)" by fastforce
  note fr = GetUserById_sel_frame [OF g]
  have same: "keeps_high r (St_world s) w" using fr by (simp add: keeps_high_db)
  have del: "keeps_high r (St_world s) (St_world s1)"
    if dd: "DeleteUserById uuid uid (s\<lparr>St_world := w\<rparr>) = (e, s1)" "g = Inr origin" "User_Role origin < r" for e s1 origin
  proof (cases "uid = 0")
    case True
    with dd(1) same show ?thesis by (auto simp: DeleteUserById_def)
  next
    case False
    obtain x where x: "find (\<lambda>u. User_Id u = uid) (db_users (db (St_world s))) = Some x"
      "User_Role origin = User_Role x" "User_Id x = uid" using fr dd(2) by auto
    have "low_id r uid (St_world (s\<lparr>St_world := w\<rparr>))"
      using low_id_find [OF ids x(1)] dd(3) x(2,3) fr low_id_db [of w "St_world s"] by simp
    with User_Delete_high [of uuid "empty_user\<lparr>User_Id := uid\<rparr>" "s\<lparr>St_world := w\<rparr>" e s1 r] dd(1) False assms(1) same
    show ?thesis by (auto simp: DeleteUserById_def empty_user_def intro: keeps_high_trans)
  qed
  show ?thesis
  proof (cases g)
    case (Inl e)
    with same g Some show ?thesis by (simp add: DeleteUser_def)
  next
    case (Inr origin)
    obtain e s1 where d: "DeleteUserById uuid uid (s\<lparr>St_world := w\<rparr>) = (e, s1)" by fastforce
    show ?thesis using Some g Inr same del [OF d Inr] d
      by (auto simp: DeleteUser_def not_le split: option.splits)
  qed
qed

lemma User_Insert_high:
  assumes "User_Insert E uuid aff u 0 w = (e, w')" and "User_Role u = 0" and "User_Id u = 0" and "RoleCommonUser < r"
  shows "keeps_high r w w'"
proof (cases "db w' = db w")
  case True
  then show ?thesis by (rule keeps_high_db)
next
  case False
  then obtain hashed where h: "(if User_Password u = [] then Inr [] else AE_Password2Hash E (User_Password u)) = Inr hashed"
    using assms(1) by (cases "if User_Password u = [] then Inr [] else AE_Password2Hash E (User_Password u)")
      (auto simp: User_Insert_def)
  define u2 where "u2 = u\<lparr>User_Password := hashed, User_Quota := QuotaForNewUser (cfg w), User_AccessToken := uuid,
      User_AffCode := aff, User_Role := RoleCommonUser, User_Status := nzi (User_Status u) UserStatusEnabled,
      User_Group := nz (User_Group u) ''default'', User_Id := next_id User_Id (db_users (db w))\<rparr>"
  obtain x w1 where i: "sql_insert db_users db_users_update
      (\<lambda>x. User_Id x = User_Id u2 \<or> same_unique u2 x) u2 w = (x, w1)" by fastforce
  have "db w' = db w1"
    using assms(1-3) h i
    by (auto simp: User_Insert_def Let_def u2_def nzi_def RecordLog_db_eq split: sum.splits if_splits)
  moreover from this False sql_insert_Inl i obtain y where "x = Inr y" by (cases x) fastforce+
  ultimately have d: "db w' = db_users_update (\<lambda>rows. rows @ [u2]) (db w)"
    and n: "\<not> list_ex (\<lambda>x. User_Id x = User_Id u2 \<or> same_unique u2 x) (db_users (db w))"
    using sql_insert_Inr [of db_users db_users_update _ u2 w y w1] i by auto
  have "User_Role u2 < r" using assms(4) by (simp add: u2_def)
  with d n show ?thesis by (auto simp: keeps_high_def high_def list_ex_iff)
qed

lemma CreateUser_high:
  assumes "RoleCommonUser < r"
  shows "keeps_high r (St_world s) (St_world (snd (CreateUser E uuid aff r req s)))"
proof -
  have ins: "keeps_high r (St_world s) w" if "User_Insert E uuid aff
      (empty_user\<lparr>User_Username := n, User_Password := p, User_DisplayName := d\<rparr>) 0 (St_world s) = (e, w)" for n p d e w
    by (rule User_Insert_high [OF that]) (simp_all add: empty_user_def assms)
  show ?thesis
    using ins by (auto simp: CreateUser_def keeps_high_db split: option.splits prod.splits)
qed

lemma fill_user_cases:
  assumes "fill_user P u0 w = (u, w1)"
  shows "db w1 = db w \<and> (u = u0 \<or> find P (db_users (db w)) = Some u)"
proof -
  obtain x w2 where x: "sql_first db_users P w = (x, w2)" by fastforce
  have "w1 = w2" "u = u0 \<or> x = Inr u" using assms x by (auto simp: fill_user_def split: sum.splits)
  with sql_first_frame [OF x] x sql_first_Inr [of db_users P w u w2] show ?thesis by auto
qed

lemma manage_action_high:
  assumes "manage_action uuid r action u s = (a, s1)" and "r \<noteq> RoleRootUser"
    and "low_id r (User_Id u) (St_world s)" and "User_Role u < r" and "RoleCommonUser < r"
  shows "keeps_high r (St_world s) (St_world s1) \<and> (case a of Inl e \<Rightarrow> True
     | Inr v \<Rightarrow> User_Id v = User_Id u \<and> User_Role v < r \<and> low_id r (User_Id u) (St_world s1))"
proof (cases "action = ''delete'' \<and> User_Role u \<noteq> RoleRootUser")
  case True
  obtain e s2 where d: "User_Delete uuid u s = (e, s2)" by fastforce
  have "0 < r" using assms(5) by (simp add: RoleCommonUser_def)
  with User_Delete_high [OF d assms(3,4)] True assms(1,4) d show ?thesis
    by (auto simp: manage_action_def split: option.splits)
next
  case False
  with assms show ?thesis
    by (auto simp: manage_action_def keeps_high_db split: if_splits sum.splits)
qed

lemma ManageUser_high:
  assumes "r \<noteq> RoleRootUser" and "RoleCommonUser < r" and ids: "distinct (map User_Id (db_users (db (St_world s))))"
  shows "keeps_high r (St_world s) (St_world (snd (ManageUser E uuid r req s)))"
proof (cases req)
  case None
  then show ?thesis by (simp add: ManageUser_def keeps_high_db)
next
  case (Some na)
  obtain name action where na: "na = (name, action)" by fastforce
  obtain u w where f: "fill_user (\<lambda>u. name = [] \<or> User_Username u = name)
      (empty_user\<lparr>User_Username := name\<rparr>) (St_world s) = (u, w)" by fastforce
  note fr = fill_user_cases [OF f]
  have same: "keeps_high r (St_world s) w" using fr by (simp add: keeps_high_db)
  show ?thesis
  proof (cases "User_Id u = 0 \<or> r \<le> User_Role u")
    case True
    with Some na f same assms(1) show ?thesis by (auto simp: ManageUser_def)
  next
    case False
    then have "find (\<lambda>u. name = [] \<or> User_Username u = name) (db_users (db (St_world s))) = Some u"
      using fr by (auto simp: empty_user_def)
    from low_id_find [OF ids this] False fr
    have low: "low_id r (User_Id u) (St_world (s\<lparr>St_world := w\<rparr>))" by (simp add: low_id_def)
    obtain a s1 where a: "manage_action uuid r action u (s\<lparr>St_world := w\<rparr>) = (a, s1)" by fastforce
    have "User_Role u < r" using False by simp
    note m = manage_action_high [OF a assms(1) low this assms(2)]
    show ?thesis
    proof (cases a)
      case (Inl e)
      with m a Some na f False same assms(1) show ?thesis
        by (auto simp: ManageUser_def intro: keeps_high_trans)
    next
      case (Inr v)
      obtain e s2 where up: "User_Update E False v s1 = (e, s2)" by fastforce
      have "0 < r" using assms(2) by (simp add: RoleCommonUser_def)
      with User_Update_high [OF up] m Inr have "keeps_high r (St_world s1) (St_world s2)" by simp
      moreover have "keeps_high r (St_world s) (St_world s1)" using m same by (auto intro: keeps_high_trans)
      ultimately have "keeps_high r (St_world s) (St_world s2)" by (rule keeps_high_trans [rotated])
      with a Inr up Some na f False assms(1) show ?thesis
        by (auto simp: ManageUser_def split: option.splits)
    qed
  qed
qed

lemma admin_request_high:
  assumes "r \<noteq> RoleRootUser" and "RoleCommonUser < r" and "distinct (map User_Id (db_users (db (St_world s))))"
  shows "keeps_high r (St_world s) (St_world (admin_request E r q s))"
proof -
  have "0 < r" using assms(2) by (simp add: RoleCommonUser_def)
  then show ?thesis
    using UpdateUser_high [OF assms(1) _ assms(3)] DeleteUser_high [OF _ assms(3)] CreateUser_high [OF assms(2)]
      ManageUser_high [OF assms] by (cases q) simp_all
qed


definition account_env :: AccountEnv where
  "account_env = \<lparr>AE_Password2Hash = (\<lambda>p. Inr (''#'' @ p)), AE_ValidatePassword = (\<lambda>p h. h = ''#'' @ p),
     AE_runes = map of_char, AE_isLetter = (\<lambda>n. 65 \<le> n \<and> n \<le> 122), AE_isDigit = (\<lambda>n. 48 \<le> n \<and> n \<le> 57)\<rparr>"

definition console_user :: "int \<Rightarrow> string \<Rightarrow> int \<Rightarrow> User" where
  "console_user k name role = (demo_user k 100)\<lparr>User_Username := name, User_Password := ''#secret12'',
     User_Role := role, User_Email := name @ ''@b.c'', User_AccessToken := ''t'' @ name, User_AffCode := ''x'' @ name\<rparr>"

definition console_site :: Site where
  "console_site = \<lparr>St_world = world_of (empty_db\<lparr>db_users := [console_user 1 ''root'' 100,
       console_user 2 ''boss'' 10, console_user 3 ''carol'' 1]\<rparr>) [], St_black = (\<lambda>_. False), St_codes = [],
     St_RootUserEmail = []\<rparr>"

definition console_config :: AccountConfig where
  "console_config = \<lparr>AC_PasswordLoginEnabled = True, AC_RegisterEnabled = True,
     AC_PasswordRegisterEnabled = True, AC_EmailVerificationEnabled = False\<rparr>"

definition no_session :: WebSession where
  "no_session = \<lparr>WS_login = None, WS_pending_2fa_user_id = None\<rparr>"

definition console_requests :: "AdminRequest list" where
  "console_requests = [AdminManages ''u'' (Some (''carol'', ''disable'')), AdminManages ''u'' (Some (''carol'', ''promote'')),
     AdminManages ''u'' (Some ([], ''disable'')), AdminDeletes ''u'' ''1'',
     AdminUpdates (Some ((console_user 3 ''carol'' 100)\<lparr>User_Password := []\<rparr>)),
     AdminUpdates (Some ((console_user 3 ''carl'' 1)\<lparr>User_Password := [], User_Quota := 7\<rparr>))]"


section \<open>Sessions and passwords\<close>

lemma ValidateAndFill_Inr:
  assumes "ValidateAndFill E username password w = (Inr u, w1)"
  shows "db w1 = db w \<and> u \<in> set (db_users (db w)) \<and> (User_Username u = username \<or> User_Email u = username)
     \<and> AE_ValidatePassword E password (User_Password u) \<and> User_Status u = UserStatusEnabled"
proof -
  obtain f w0 where f: "sql_first db_users (\<lambda>u. User_Username u = username) w = (f, w0)" by fastforce
  obtain g w2 where g: "sql_first db_users (\<lambda>u. User_Email u = username) w0 = (g, w2)" by fastforce
  have d0: "db w0 = db w" using sql_first_frame [OF f] by simp
  have d2: "db w2 = db w" using sql_first_frame [OF g] d0 by simp
  show ?thesis
  proof (cases f)
    case (Inl e)
    with assms f g have "g = Inr u" "w1 = w2" "AE_ValidatePassword E password (User_Password u)"
      "User_Status u = UserStatusEnabled"
      by (auto simp: ValidateAndFill_def split: if_splits sum.splits)
    with sql_first_Inr [of db_users _ w0 u w2] g d0 d2 show ?thesis by (auto dest: find_Some_mem)
  next
    case (Inr v)
    with assms f have "v = u" "w1 = w0" "AE_ValidatePassword E password (User_Password u)"
      "User_Status u = UserStatusEnabled"
      by (auto simp: ValidateAndFill_def split: if_splits)
    with sql_first_Inr [of db_users _ w v w0] Inr f d0 show ?thesis by (auto dest: find_Some_mem)
  qed
qed

text \<open>
  C30. A login by password alone opens a session only for an enabled user found by name or mail
  address, with the password that fits the stored hash, who has no TOTP and (when the passkeys
  can be counted) no passkey; the session then carries that user's id, role and status. For a
  user with a second factor the session only notes who still owes it.
\<close>

theorem login_opens_session:
  assumes "Login E ac (Some (username, password)) saves ws w = ((reply, ws'), w')"
  shows "(WS_login ws' = WS_login ws \<and> (WS_pending_2fa_user_id ws' = WS_pending_2fa_user_id ws
       \<or> (\<exists>u m. reply = SecondFactor m \<and> WS_pending_2fa_user_id ws' = Some (User_Id u) \<and> u \<in> set (db_users (db w))
            \<and> AE_ValidatePassword E password (User_Password u))))
     \<or> (\<exists>u. u \<in> set (db_users (db w)) \<and> WS_login ws' = Some (session_of u)
          \<and> (User_Username u = username \<or> User_Email u = username)
          \<and> AE_ValidatePassword E password (User_Password u) \<and> User_Status u = UserStatusEnabled
          \<and> \<not> User_TwoFAEnabled u
          \<and> (faults w = [] \<longrightarrow> passkeys_of (User_Id u) (db w) = []))"
proof -
  obtain v w1 where v: "ValidateAndFill E username password w = (v, w1)" by fastforce
  show ?thesis
  proof (cases v)
    case (Inl e)
    with assms v show ?thesis by (auto simp: Login_def split: if_splits)
  next
    case (Inr u)
    note val = ValidateAndFill_Inr [OF v [unfolded Inr]]
    obtain h w2 where h: "HasPasskey (User_Id u) w1 = (h, w2)" by fastforce
    have np: "passkeys_of (User_Id u) (db w) = []" if "faults w = []" "\<not> h"
    proof -
      have "faults w1 = []" using that(1) v
        by (auto simp: ValidateAndFill_def sql_first_def split: if_splits sum.splits option.splits)
      with h that(2) val show ?thesis
        by (auto simp: HasPasskey_def passkeys_of_def count_where_def)
    qed
    show ?thesis
      using assms v Inr h val np
      by (auto simp: Login_def SetupLogin_def split: if_splits)
  qed
qed

theorem login_opens_session_witness:
  "WS_login (snd (fst (Login account_env console_config (Some (''carol'', ''secret12'')) True no_session (St_world console_site))))
     = Some (session_of (console_user 3 ''carol'' 1))
   \<and> (\<exists>u. u \<in> set (db_users (db (St_world console_site))) \<and> User_Username u = ''carol'' \<and> User_Status u = UserStatusEnabled)"
proof -
  let ?r = "Login account_env console_config (Some (''carol'', ''secret12'')) True no_session (St_world console_site)"
  have l: "WS_login (snd (fst ?r)) = Some (session_of (console_user 3 ''carol'' 1))" by code_simp
  have n: "WS_login no_session = None" by (simp add: no_session_def)
  have mail: "\<forall>u \<in> set (db_users (db (St_world console_site))). User_Email u \<noteq> ''carol''" by code_simp
  obtain reply ws' w' where r: "?r = ((reply, ws'), w')" by (metis surj_pair)
  from login_opens_session [OF r] l n r mail show ?thesis by auto
qed

section \<open>Stale rows\<close>

text \<open>
  The handlers that change one field of an account load the row and write all of it back
  (\<open>GenerateAccessToken\<close>, \<open>GetAffCode\<close>, \<open>EmailBind\<close>, \<open>ManageUser\<close>): whatever was charged or
  credited between the two statements is undone, the balance is again the one that was loaded.
\<close>

theorem stale_update_restores_quota:
  assumes load: "GetUserById_sel uid True w = (Inr u, w1)" "User_Quota u \<noteq> 0"
    and row: "find (\<lambda>x. User_Id x = uid) (db_users (db (St_world s))) = Some x"
    and save: "User_Update E False (u\<lparr>User_AffCode := code\<rparr>) s = (None, s')"
  shows "\<exists>y. find (\<lambda>x. User_Id x = uid) (db_users (db (St_world s'))) = Some y \<and> User_Quota y = User_Quota u"
proof -
  have k: "User_Id u = uid" using GetUserById_sel_frame [OF load(1)] by auto
  let ?u = "u\<lparr>User_AffCode := code\<rparr>"
  have up: "Updates_user ?u (St_world s) = (None, St_world s')"
    using save by (auto simp: User_Update_def Let_def split: prod.splits)
  have "db_users (db (St_world s')) = update_where (\<lambda>x. User_Id x = uid) (nonzero_user_updates ?u) (db_users (db (St_world s)))"
    using Updates_user_None [OF up] by (simp add: k)
  with row have "find (\<lambda>x. User_Id x = uid) (db_users (db (St_world s'))) = Some (nonzero_user_updates ?u x)"
    using find_Some_mem [OF row] by (simp add: find_update_where_frame)
  moreover have "User_Quota (nonzero_user_updates ?u x) = User_Quota u"
    using load(2) by (simp add: nonzero_user_updates_def nzi_def)
  ultimately show ?thesis by blast
qed

text \<open>A charge of 60 between the two statements.\<close>

definition charged_site :: Site where
  "charged_site = console_site\<lparr>St_world := snd (decreaseUserQuota 3 60 (St_world console_site))\<rparr>"

theorem stale_update_restores_quota_witness:
  "map User_Quota (db_users (db (St_world charged_site))) = [100, 100, 40]
   \<and> map User_Quota (db_users (db (St_world (snd (User_Update account_env False
        ((console_user 3 ''carol'' 1)\<lparr>User_AffCode := ''new''\<rparr>) charged_site))))) = [100, 100, 100]"
proof -
  let ?u = "console_user 3 ''carol'' 1" and ?w = "St_world console_site"
  let ?r = "User_Update account_env False (?u\<lparr>User_AffCode := ''new''\<rparr>) charged_site"
  have g: "GetUserById_sel 3 True ?w = (Inr ?u, ?w)"
    by (simp add: GetUserById_sel_def GetUserById_def sql_first_def console_site_def console_user_def world_of_def
        empty_db_def demo_user_def)
  have q: "User_Quota ?u \<noteq> 0" by code_simp
  have x: "find (\<lambda>x. User_Id x = 3) (db_users (db (St_world charged_site))) = Some (?u\<lparr>User_Quota := 40\<rparr>)" by code_simp
  have "fst ?r = None" by code_simp
  then have r: "?r = (None, snd ?r)" by (simp add: prod_eq_iff)
  have others: "map (\<lambda>x. (User_Id x, User_Quota x)) (take 2 (db_users (db (St_world (snd ?r))))) = [(1, 100), (2, 100)]"
    "length (db_users (db (St_world (snd ?r)))) = 3" "map User_Id (db_users (db (St_world (snd ?r)))) = [1, 2, 3]"
    by code_simp+
  have before: "map User_Quota (db_users (db (St_world charged_site))) = [100, 100, 40]" by code_simp
  obtain a b c where us: "db_users (db (St_world (snd ?r))) = [a, b, c]"
    using others(2) by (auto simp: length_Suc_conv numeral_3_eq_3)
  from stale_update_restores_quota [OF g q x r] us others q have "User_Quota c = User_Quota ?u" by auto
  moreover have "User_Quota ?u = 100" by code_simp
  ultimately show ?thesis using us others before by simp
qed

end
