(* ===== verification/TokenAdmin.thy ===== *)
theory TokenAdmin
  imports Authorize PaymentWeb AccountWeb
begin

text \<open>
  The tokens of a user: their rows (\<open>model/token.go\<close>) and the console's handlers for them
  (\<open>controller/token.go\<close>). Every handler acts for the user of the session. \<open>LIKE\<close>, whose rules
  depend on the database, is a parameter.
\<close>

section \<open>Rows\<close>

record SqlDialect =
  SD_postgres :: bool
  SD_like :: "string \<Rightarrow> string \<Rightarrow> bool"
  SD_is_id :: "string \<Rightarrow> int \<Rightarrow> bool"

definition ItemsPerPage :: int where "ItemsPerPage = 10"

text \<open>\<open>Order("unlimited_quota desc, remain_quota desc")\<close>, rows with equal keys in the order of the table.\<close>

definition by_remain_quota :: "Token list \<Rightarrow> Token list" where
  "by_remain_quota ts = sort_key (\<lambda>t. if Token_UnlimitedQuota t then 0 else 1 :: int)
     (sort_key (\<lambda>t. - Token_RemainQuota t) ts)"

definition GetAllUserTokens :: "int \<Rightarrow> int \<Rightarrow> int \<Rightarrow> string \<Rightarrow> World \<Rightarrow> (GoErr + Token list) \<times> World" where
  "GetAllUserTokens userId startIdx num order w =
     (if order = ''remain_quota'' then
        (case io_fault w of
           (True, w1) \<Rightarrow> (Inl ErrDB, w1)
         | (False, w1) \<Rightarrow>
             (Inr (take (nat num) (drop (nat startIdx)
               (by_remain_quota (filter (\<lambda>t. Token_UserId t = userId) (db_tokens (db w1)))))), w1))
      else if order = ''used_quota'' then sql_sorted db_tokens (\<lambda>t. Token_UserId t = userId) Token_UsedQuota startIdx num w
      else sql_list db_tokens (\<lambda>t. Token_UserId t = userId) startIdx num w)"

definition SearchUserTokens :: "SqlDialect \<Rightarrow> int \<Rightarrow> string \<Rightarrow> World \<Rightarrow> (GoErr + Token list) \<times> World" where
  "SearchUserTokens D userId keyword w =
     sql_list_asc db_tokens (\<lambda>t. Token_UserId t = userId \<and> SD_like D (keyword @ ''%'') (Token_Name t)) (- 1) w"

text \<open>\<open>Create\<close> gives a zero field its default: status 1, no expiry, an empty subnet.\<close>

definition token_defaults :: "Token \<Rightarrow> Token" where
  "token_defaults t = t\<lparr>Token_Status := nzi (Token_Status t) 1, Token_ExpiredTime := nzi (Token_ExpiredTime t) (- 1),
     Token_Subnet := (case Token_Subnet t of None \<Rightarrow> Some [] | Some s \<Rightarrow> Some s)\<rparr>"

definition Token_Insert :: "Token \<Rightarrow> World \<Rightarrow> (GoErr + Token) \<times> World" where
  "Token_Insert t w =
     (let t1 = token_defaults t;
          t2 = (if Token_Id t1 = 0 then t1\<lparr>Token_Id := next_id Token_Id (db_tokens (db w))\<rparr> else t1)
      in case sql_insert db_tokens db_tokens_update
           (\<lambda>x. Token_Id x = Token_Id t2 \<or> Token_Key x = Token_Key t2) t2 w of
          (Inl e, w1) \<Rightarrow> (Inl e, w1)
        | (Inr _, w1) \<Rightarrow> (Inr t2, w1))"

definition token_columns :: "Token \<Rightarrow> Token \<Rightarrow> Token" where
  "token_columns t x = x\<lparr>Token_Name := Token_Name t, Token_Status := Token_Status t,
     Token_ExpiredTime := Token_ExpiredTime t, Token_RemainQuota := Token_RemainQuota t,
     Token_UnlimitedQuota := Token_UnlimitedQuota t, Token_Models := Token_Models t, Token_Subnet := Token_Subnet t\<rparr>"

definition Token_Update :: "Token \<Rightarrow> World \<Rightarrow> GoErr option \<times> World" where
  "Token_Update t w =
     err_only (sql_update db_tokens db_tokens_update token_fits (\<lambda>x. Token_Id x = Token_Id t) (token_columns t) w)"

definition Token_Delete :: "Token \<Rightarrow> World \<Rightarrow> GoErr option \<times> World" where
  "Token_Delete t w = err_only (sql_delete db_tokens db_tokens_update (\<lambda>x. Token_Id x = Token_Id t) w)"

definition GetModels :: "Token option \<Rightarrow> string" where
  "GetModels t = (case t of None \<Rightarrow> [] | Some t \<Rightarrow> (case Token_Models t of None \<Rightarrow> [] | Some m \<Rightarrow> m))"

definition DeleteTokenById :: "int \<Rightarrow> int \<Rightarrow> World \<Rightarrow> GoErr option \<times> World" where
  "DeleteTokenById k userId w =
     (if k = 0 \<or> userId = 0 then (Some (Err ''id or userId is empty''), w)
      else case sql_first db_tokens (\<lambda>t. Token_Id t = k \<and> Token_UserId t = userId) w of
        (Inl e, w1) \<Rightarrow> (Some e, w1)
      | (Inr t, w1) \<Rightarrow> Token_Delete t w1)"

section \<open>Handlers\<close>

definition reply :: "(GoErr + 'a) \<times> World \<Rightarrow> 'a Reply \<times> World" where
  "reply r = (case r of (Inl e, w) \<Rightarrow> (Failed e, w) | (Inr x, w) \<Rightarrow> (Done x, w))"

text \<open>The page number of a list: what does not parse counts as 0, a negative one too.\<close>

definition start_of_page :: "string \<Rightarrow> int" where
  "start_of_page p = i64 ((if atoi_value p < 0 then 0 else atoi_value p) * ItemsPerPage)"

definition GetAllTokens :: "int \<Rightarrow> string \<Rightarrow> string \<Rightarrow> World \<Rightarrow> Token list Reply \<times> World" where
  "GetAllTokens userId p order w = reply (GetAllUserTokens userId (start_of_page p) ItemsPerPage order w)"

definition SearchTokens :: "SqlDialect \<Rightarrow> int \<Rightarrow> string \<Rightarrow> World \<Rightarrow> Token list Reply \<times> World" where
  "SearchTokens D userId keyword w = reply (SearchUserTokens D userId keyword w)"

definition GetToken :: "int \<Rightarrow> string \<Rightarrow> World \<Rightarrow> Token Reply \<times> World" where
  "GetToken userId idText w = (case go_atoi idText of
       None \<Rightarrow> (Failed (Err ''invalid syntax''), w)
     | Some k \<Rightarrow> reply (GetTokenByIds k userId w))"

text \<open>Granted, available, and the time of expiry in milliseconds, 0 for none.\<close>

definition GetTokenStatus :: "int \<Rightarrow> int \<Rightarrow> World \<Rightarrow> (int \<times> int \<times> int) Reply \<times> World" where
  "GetTokenStatus tokenId userId w = (case GetTokenByIds tokenId userId w of
       (Inl e, w1) \<Rightarrow> (Failed e, w1)
     | (Inr t, w1) \<Rightarrow>
         (Done (Token_RemainQuota t, Token_RemainQuota t,
                i64 ((if Token_ExpiredTime t = - 1 then 0 else Token_ExpiredTime t) * 1000)), w1))"

definition validateToken :: "AuthEnv \<Rightarrow> Token \<Rightarrow> GoErr option" where
  "validateToken E t =
     (if 30 < length (Token_Name t) then Some (Err ''token name too long'')
      else case Token_Subnet t of
        None \<Rightarrow> None
      | Some s \<Rightarrow> if s = [] then None else IsValidSubnets E s)"

definition AddToken :: "AuthEnv \<Rightarrow> string \<Rightarrow> int \<Rightarrow> GoErr + Token \<Rightarrow> World \<Rightarrow> Token Reply \<times> World" where
  "AddToken E key userId req w = (case req of
       Inl e \<Rightarrow> (Failed e, w)
     | Inr t \<Rightarrow> (case validateToken E t of
           Some e \<Rightarrow> (Failed e, w)
         | None \<Rightarrow> reply (Token_Insert
             \<lparr>Token_Id = 0, Token_UserId = userId, Token_Key = key, Token_Status = 0, Token_Name = Token_Name t,
              Token_AccessedTime = clock w, Token_ExpiredTime = Token_ExpiredTime t,
              Token_RemainQuota = Token_RemainQuota t, Token_UnlimitedQuota = Token_UnlimitedQuota t,
              Token_UsedQuota = 0, Token_Models = Token_Models t, Token_Subnet = Token_Subnet t\<rparr> w)))"

definition DeleteToken :: "int \<Rightarrow> string \<Rightarrow> World \<Rightarrow> unit Reply \<times> World" where
  "DeleteToken userId idText w = (case DeleteTokenById (atoi_value idText) userId w of
       (Some e, w1) \<Rightarrow> (Failed e, w1) | (None, w1) \<Rightarrow> (Done (), w1))"

text \<open>Why an expired or exhausted token is not enabled again.\<close>

definition not_enablable :: "int \<Rightarrow> Token \<Rightarrow> GoErr option" where
  "not_enablable now t =
     (if Token_Status t = TokenStatusExpired \<and> Token_ExpiredTime t \<le> now \<and> Token_ExpiredTime t \<noteq> - 1
      then Some (Err ''the token has expired'')
      else if Token_Status t = TokenStatusExhausted \<and> Token_RemainQuota t \<le> 0 \<and> \<not> Token_UnlimitedQuota t
      then Some (Err ''the quota of the token is used up'')
      else None)"

definition edited_token :: "string \<Rightarrow> Token \<Rightarrow> Token \<Rightarrow> Token" where
  "edited_token statusOnly t x =
     (if statusOnly \<noteq> [] then x\<lparr>Token_Status := Token_Status t\<rparr>
      else x\<lparr>Token_Name := Token_Name t, Token_ExpiredTime := Token_ExpiredTime t,
             Token_RemainQuota := Token_RemainQuota t, Token_UnlimitedQuota := Token_UnlimitedQuota t,
             Token_Models := Token_Models t, Token_Subnet := Token_Subnet t\<rparr>)"

definition UpdateToken :: "AuthEnv \<Rightarrow> int \<Rightarrow> string \<Rightarrow> GoErr + Token \<Rightarrow> World \<Rightarrow> Token Reply \<times> World" where
  "UpdateToken E userId statusOnly req w = (case req of
       Inl e \<Rightarrow> (Failed e, w)
     | Inr t \<Rightarrow> (case validateToken E t of
           Some e \<Rightarrow> (Failed e, w)
         | None \<Rightarrow> (case GetTokenByIds (Token_Id t) userId w of
               (Inl e, w1) \<Rightarrow> (Failed e, w1)
             | (Inr x, w1) \<Rightarrow>
                 (case (if Token_Status t = TokenStatusEnabled then not_enablable (clock w1) x else None) of
                    Some e \<Rightarrow> (Failed e, w1)
                  | None \<Rightarrow> (case Token_Update (edited_token statusOnly t x) w1 of
                        (Some e, w2) \<Rightarrow> (Failed e, w2)
                      | (None, w2) \<Rightarrow> (Done (edited_token statusOnly t x), w2))))))"

section \<open>Users stay among their own tokens\<close>

datatype TokenRequest =
    TokenAdds string "GoErr + Token"
  | TokenDeletes string
  | TokenUpdates string "GoErr + Token"

fun token_request :: "AuthEnv \<Rightarrow> int \<Rightarrow> TokenRequest \<Rightarrow> World \<Rightarrow> World" where
  "token_request E uid (TokenAdds key req) w = snd (AddToken E key uid req w)"
| "token_request E uid (TokenDeletes k) w = snd (DeleteToken uid k w)"
| "token_request E uid (TokenUpdates statusOnly req) w = snd (UpdateToken E uid statusOnly req w)"

definition others_tokens :: "int \<Rightarrow> World \<Rightarrow> Token list" where
  "others_tokens uid w = filter (\<lambda>t. Token_UserId t \<noteq> uid) (db_tokens (db w))"

definition keeps_tokens :: "int \<Rightarrow> World \<Rightarrow> World \<Rightarrow> bool" where
  "keeps_tokens uid w w' \<longleftrightarrow> others_tokens uid w' = others_tokens uid w \<and> db_users (db w') = db_users (db w)
     \<and> distinct (map Token_Id (db_tokens (db w')))"

lemma keeps_tokens_db: "db w' = db w \<Longrightarrow> distinct (map Token_Id (db_tokens (db w))) \<Longrightarrow> keeps_tokens uid w w'"
  by (simp add: keeps_tokens_def others_tokens_def)

lemma own_rows:
  assumes "find (\<lambda>t. Token_Id t = k \<and> Token_UserId t = uid) rows = Some x" and "distinct (map Token_Id rows)"
    and "y \<in> set rows" and "Token_Id y = k"
  shows "y = x \<and> Token_UserId y = uid \<and> Token_Id x = k"
  using find_Some_mem [OF assms(1)] assms(2-4) by (metis distinct_map inj_onD)

lemma Token_Update_keeps:
  assumes "Token_Update t w = (e, w1)" and "distinct (map Token_Id (db_tokens (db w)))"
    and "\<And>y. y \<in> set (db_tokens (db w)) \<Longrightarrow> Token_Id y = Token_Id t \<Longrightarrow> Token_UserId y = uid"
  shows "keeps_tokens uid w w1"
proof -
  obtain r where u: "sql_update db_tokens db_tokens_update token_fits (\<lambda>x. Token_Id x = Token_Id t) (token_columns t) w = (r, w1)"
    using assms(1) by (auto simp: Token_Update_def err_only_def split: prod.splits sum.splits)
  show ?thesis
  proof (cases r)
    case (Inl e)
    with sql_update_Inl u assms(2) show ?thesis by (blast intro: keeps_tokens_db)
  next
    case (Inr n)
    have d: "db w1 = db_tokens_update (update_where (\<lambda>x. Token_Id x = Token_Id t) (token_columns t)) (db w)"
      using sql_update_Inr [OF u [unfolded Inr]] by simp
    have "filter (\<lambda>x. Token_UserId x \<noteq> uid) (update_where (\<lambda>x. Token_Id x = Token_Id t) (token_columns t) (db_tokens (db w)))
        = filter (\<lambda>x. Token_UserId x \<noteq> uid) (db_tokens (db w))"
      by (rule filter_update_where) (simp add: assms(3) token_columns_def)
    moreover have "map Token_Id (update_where (\<lambda>x. Token_Id x = Token_Id t) (token_columns t) rows) = map Token_Id rows" for rows
      by (rule map_update_where_frame) (simp add: token_columns_def)
    ultimately show ?thesis using d assms(2) by (simp add: keeps_tokens_def others_tokens_def)
  qed
qed

lemma UpdateToken_keeps:
  assumes "distinct (map Token_Id (db_tokens (db w)))"
  shows "keeps_tokens uid w (snd (UpdateToken E uid st req w))"
proof -
  have same: "keeps_tokens uid w w1" if "GetTokenByIds k uid w = (r, w1)" for k r w1
    using that assms by (auto simp: GetTokenByIds_def intro!: keeps_tokens_db dest: sql_first_frame split: if_splits)
  have upd: "keeps_tokens uid w w2" if g: "GetTokenByIds k uid w = (Inr x, w1)"
    and u: "Token_Update (edited_token st t x) w1 = (e, w2)" for k x w1 t e w2
  proof -
    have f: "find (\<lambda>t. Token_Id t = k \<and> Token_UserId t = uid) (db_tokens (db w)) = Some x" and d: "db w1 = db w"
      using g by (auto simp: GetTokenByIds_def dest: sql_first_Inr sql_first_frame split: if_splits)
    have k: "Token_Id (edited_token st t x) = k" using find_Some_mem [OF f] by (simp add: edited_token_def)
    have "Token_UserId y = uid" if "y \<in> set (db_tokens (db w1))" "Token_Id y = Token_Id (edited_token st t x)" for y
      using own_rows [OF f assms, of y] that unfolding d k by blast
    then have "keeps_tokens uid w1 w2" using Token_Update_keeps [OF u, of uid] assms d by simp
    with d show ?thesis by (simp add: keeps_tokens_def others_tokens_def)
  qed
  have self: "keeps_tokens uid w w" using assms by (simp add: keeps_tokens_db)
  show ?thesis
  proof (cases "req")
    case (Inl e)
    with self show ?thesis by (simp add: UpdateToken_def)
  next
    case (Inr t)
    obtain g w1 where g: "GetTokenByIds (Token_Id t) uid w = (g, w1)" by fastforce
    note w1 = same [OF g]
    show ?thesis
    proof (cases g)
      case (Inl e)
      with Inr g w1 self show ?thesis by (simp add: UpdateToken_def split: option.split)
    next
      case (Inr x)
      obtain e w2 where u: "Token_Update (edited_token st t x) w1 = (e, w2)" by fastforce
      from upd [OF g [unfolded Inr] u] \<open>req = Inr t\<close> g Inr w1 self u show ?thesis
        by (simp add: UpdateToken_def split: option.split)
    qed
  qed
qed

lemma DeleteToken_keeps:
  assumes "distinct (map Token_Id (db_tokens (db w)))"
  shows "keeps_tokens uid w (snd (DeleteToken uid k w))"
proof -
  have del: "keeps_tokens uid w w2" if f: "sql_first db_tokens (\<lambda>t. Token_Id t = i \<and> Token_UserId t = uid) w = (Inr x, w1)"
    and u: "Token_Delete x w1 = (e, w2)" for i x w1 e w2
  proof -
    have g: "find (\<lambda>t. Token_Id t = i \<and> Token_UserId t = uid) (db_tokens (db w)) = Some x" and d: "db w1 = db w"
      using sql_first_Inr [OF f] sql_first_frame [OF f] by auto
    obtain r where s: "sql_delete db_tokens db_tokens_update (\<lambda>y. Token_Id y = Token_Id x) w1 = (r, w2)"
      using u by (auto simp: Token_Delete_def err_only_def split: prod.splits sum.splits)
    have "filter (\<lambda>t. Token_UserId t \<noteq> uid) (filter (\<lambda>y. Token_Id y \<noteq> Token_Id x) (db_tokens (db w)))
        = filter (\<lambda>t. Token_UserId t \<noteq> uid) (db_tokens (db w))"
      using own_rows [OF g assms] find_Some_mem [OF g] by (auto simp: filter_filter intro!: filter_cong)
    with sql_delete_frame [OF s] d assms show ?thesis
      by (auto simp: keeps_tokens_def others_tokens_def distinct_map_filter_rows)
  qed
  show ?thesis
    using assms del
    by (auto simp: DeleteToken_def DeleteTokenById_def keeps_tokens_db dest: sql_first_frame
        split: sum.splits option.splits prod.splits if_splits)
qed

lemma AddToken_keeps:
  assumes "distinct (map Token_Id (db_tokens (db w)))"
  shows "keeps_tokens uid w (snd (AddToken E key uid req w))"
proof -
  have ins: "keeps_tokens uid w w1" if i: "Token_Insert t w = (r, w1)" and u: "Token_UserId t = uid" for t r w1
  proof -
    define t2 where "t2 = (if Token_Id (token_defaults t) = 0
      then (token_defaults t)\<lparr>Token_Id := next_id Token_Id (db_tokens (db w))\<rparr> else token_defaults t)"
    have o: "Token_UserId t2 = uid" using u by (simp add: t2_def token_defaults_def)
    obtain x where s: "sql_insert db_tokens db_tokens_update (\<lambda>x. Token_Id x = Token_Id t2 \<or> Token_Key x = Token_Key t2) t2 w = (x, w1)"
      using i by (auto simp: Token_Insert_def Let_def t2_def split: prod.splits sum.splits)
    show ?thesis
    proof (cases x)
      case (Inl e)
      with sql_insert_Inl [of db_tokens db_tokens_update _ t2 w e w1] s have "db w1 = db w" by auto
      with assms show ?thesis by (rule keeps_tokens_db [rotated])
    next
      case (Inr y)
      with sql_insert_Inr [of db_tokens db_tokens_update _ t2 w y w1] s
      have "db w1 = db_tokens_update (\<lambda>rows. rows @ [t2]) (db w)"
        "\<not> list_ex (\<lambda>x. Token_Id x = Token_Id t2 \<or> Token_Key x = Token_Key t2) (db_tokens (db w))" by auto
      with assms o show ?thesis by (auto simp: keeps_tokens_def others_tokens_def list_ex_iff)
    qed
  qed
  show ?thesis
    using assms ins by (auto simp: AddToken_def reply_def keeps_tokens_db split: sum.splits option.splits prod.splits)
qed

text \<open>
  C35. Whatever a signed-in user sends to the token handlers, in any order and with any failures,
  the tokens of all other users stay exactly as they are, no balance of a user changes, and token
  ids stay unique.
\<close>

theorem token_requests_isolated:
  assumes "distinct (map Token_Id (db_tokens (db w)))"
  shows "keeps_tokens uid w (fold (token_request E uid) qs w)"
  using assms
proof (induction qs arbitrary: w)
  case (Cons q qs)
  have "keeps_tokens uid w (token_request E uid q w)"
    using UpdateToken_keeps [OF Cons.prems] DeleteToken_keeps [OF Cons.prems] AddToken_keeps [OF Cons.prems]
    by (cases q) simp_all
  with Cons show ?case by (simp add: keeps_tokens_def)
qed (simp add: keeps_tokens_db)

definition open_auth :: AuthEnv where
  "open_auth = \<lparr>AU_cidr = (\<lambda>s. Some (\<lambda>ip. True)), AU_decode_model = (\<lambda>c. Inr []), AU_blackList = (\<lambda>_. False)\<rparr>"

definition token_demo_requests :: "TokenRequest list" where
  "token_demo_requests = [TokenDeletes ''8'', TokenUpdates [] (Inr (demo_token 8 1 9999 True)),
     TokenAdds ''new'' (Inr (demo_token 8 2 5 False)), TokenUpdates ''true'' (Inr ((demo_token 7 1 0 False)\<lparr>Token_Status := 2\<rparr>)),
     TokenDeletes ''7'']"

theorem token_requests_isolated_witness:
  "others_tokens 1 (fold (token_request open_auth 1) token_demo_requests (world_of demo_db [])) = [demo_token 8 2 0 True]
   \<and> map (\<lambda>t. (Token_Id t, Token_UserId t, Token_RemainQuota t))
        (db_tokens (db (fold (token_request open_auth 1) token_demo_requests (world_of demo_db [])))) = [(8, 2, 0), (9, 1, 5)]"
proof -
  have d: "distinct (map Token_Id (db_tokens (db (world_of demo_db []))))" by code_simp
  have o: "others_tokens 1 (world_of demo_db []) = [demo_token 8 2 0 True]"
    by (simp add: others_tokens_def world_of_def demo_db_def demo_token_def)
  have "map (\<lambda>t. (Token_Id t, Token_UserId t, Token_RemainQuota t))
      (db_tokens (db (fold (token_request open_auth 1) token_demo_requests (world_of demo_db [])))) = [(8, 2, 0), (9, 1, 5)]"
    by code_simp
  with token_requests_isolated [OF d, of 1 open_auth token_demo_requests] o show ?thesis
    by (simp add: keeps_tokens_def)
qed

text \<open>
  Switching a token on or off writes its quota back as it was loaded: what was charged to it
  meanwhile is undone.
\<close>

lemma token_switch_restores_quota:
  assumes "find (\<lambda>x. Token_Id x = Token_Id old) (db_tokens (db w)) = Some x"
    and "Token_Update (edited_token ''true'' t old) w = (None, w')"
  shows "\<exists>y. find (\<lambda>x. Token_Id x = Token_Id old) (db_tokens (db w')) = Some y \<and> Token_RemainQuota y = Token_RemainQuota old"
proof -
  let ?t = "edited_token ''true'' t old"
  have k: "Token_Id ?t = Token_Id old" by (simp add: edited_token_def)
  obtain n where "sql_update db_tokens db_tokens_update token_fits (\<lambda>x. Token_Id x = Token_Id old) (token_columns ?t) w = (Inr n, w')"
    using assms(2) by (auto simp: Token_Update_def err_only_def k split: prod.splits sum.splits)
  from sql_update_Inr [OF this]
  have "db w' = db_tokens_update (update_where (\<lambda>x. Token_Id x = Token_Id old) (token_columns ?t)) (db w)" by simp
  then show ?thesis using assms(1) find_Some_mem [OF assms(1)]
    by (simp add: find_update_where_frame token_columns_def edited_token_def)
qed

end
