(* ===== verification/TwoFactor.thy ===== *)
theory TwoFactor
  imports AccountWeb
begin

text \<open>
  The second factor: recovery codes and their hashes (\<open>service/twofa/twofa.go\<close>), enrolment and
  the second step of a login (\<open>controller/twofa.go\<close>). The TOTP check, SHA-256 and the JSON text of a
  list of hashes are arguments.
\<close>

section \<open>Recovery codes\<close>

record TwoFAEnv =
  TF_totp_Validate :: "string \<Rightarrow> string \<Rightarrow> bool"
  TF_sha256_hex :: "string \<Rightarrow> string"
  TF_json_encode :: "string list \<Rightarrow> string"
  TF_json_decode :: "string \<Rightarrow> string list option"

definition BackupCodeCount :: nat where "BackupCodeCount = 10"

record SetupArtifact =
  SA_Secret :: string
  SA_BackupCodes :: "string list"

definition alphabet :: string where "alphabet = ''abcdefghjkmnpqrstuvwxyz23456789''"

text \<open>One code from twelve random bytes: \<open>xxxx-xxxx-xxxx\<close>.\<close>

definition backup_code :: "nat list \<Rightarrow> string" where
  "backup_code raw = concat (map (\<lambda>(j, b). (if j = 4 \<or> j = 8 then ''-'' else []) @ [alphabet ! (b mod length alphabet)])
     (enumerate 0 raw))"

definition newBackupCodes :: "nat list list option \<Rightarrow> (GoErr + string list)" where
  "newBackupCodes raws = (case raws of
       None \<Rightarrow> Inl (Err ''random source failed'')
     | Some rs \<Rightarrow> Inr (map backup_code rs))"

text \<open>\<open>generated\<close> is the secret with its QR image from the TOTP library.\<close>

definition NewSetup :: "string \<Rightarrow> GoErr + string \<Rightarrow> nat list list option \<Rightarrow> GoErr + SetupArtifact" where
  "NewSetup accountName generated raws =
     (if accountName = [] then Inl (Err ''account name required'')
      else case generated of
        Inl e \<Rightarrow> Inl e
      | Inr secret \<Rightarrow> map_sum id (\<lambda>codes. \<lparr>SA_Secret = secret, SA_BackupCodes = codes\<rparr>) (newBackupCodes raws))"

definition Validate :: "TwoFAEnv \<Rightarrow> string \<Rightarrow> string \<Rightarrow> bool" where
  "Validate E code secret \<longleftrightarrow> code \<noteq> [] \<and> secret \<noteq> [] \<and> TF_totp_Validate E code secret"

definition normaliseBackupCode :: "string \<Rightarrow> string" where
  "normaliseBackupCode s = List.map_filter (\<lambda>ch. let n = of_char ch :: nat in
     if 65 \<le> n \<and> n \<le> 90 then Some (char_of (n + 32))
     else if 97 \<le> n \<and> n \<le> 122 then Some ch
     else if 48 \<le> n \<and> n \<le> 57 then Some ch
     else None) s"

definition HashBackupCode :: "TwoFAEnv \<Rightarrow> string \<Rightarrow> string" where
  "HashBackupCode E code =
     (if normaliseBackupCode code = [] then [] else TF_sha256_hex E (normaliseBackupCode code))"

definition EncodeBackupHashes :: "TwoFAEnv \<Rightarrow> string list \<Rightarrow> string" where
  "EncodeBackupHashes E hashes = TF_json_encode E hashes"

definition DecodeBackupHashes :: "TwoFAEnv \<Rightarrow> string \<Rightarrow> string list option" where
  "DecodeBackupHashes E stored = (if stored = [] then Some [] else TF_json_decode E stored)"

definition ConsumeBackupCode :: "TwoFAEnv \<Rightarrow> string list \<Rightarrow> string \<Rightarrow> string list \<times> bool" where
  "ConsumeBackupCode E stored code =
     (let want = HashBackupCode E code
      in if want = [] then (stored, False)
         else if want \<in> set stored then (remove1 want stored, True)
         else (stored, False))"

section \<open>Handlers\<close>

definition errNotSignedIn :: GoErr where "errNotSignedIn = Err ''not signed in''"
definition errNoPendingSetup :: GoErr where "errNoPendingSetup = Err ''2fa setup not started''"
definition errInvalid2FACode :: GoErr where "errInvalid2FACode = Err ''invalid code''"
definition err2FANotEnabled :: GoErr where "err2FANotEnabled = Err ''2fa not enabled''"
definition errNoPending2FA :: GoErr where "errNoPending2FA = Err ''no pending 2fa challenge''"

text \<open>A map update of one user's row.\<close>

definition update_columns :: "int \<Rightarrow> (User \<Rightarrow> User) \<Rightarrow> World \<Rightarrow> GoErr option \<times> World" where
  "update_columns uid f w = err_only (sql_update db_users db_users_update (\<lambda>_. True) (\<lambda>u. User_Id u = uid) f w)"

definition loadSelf :: "int \<Rightarrow> World \<Rightarrow> User option \<times> World" where
  "loadSelf uid w =
     (if uid = 0 then (None, w)
      else case FillUserById (empty_user\<lparr>User_Id := uid\<rparr>) w of
        ((err, user), w1) \<Rightarrow> (if err \<noteq> None \<or> User_Id user = 0 then None else Some user, w1))"

text \<open>
  The recovery code is accepted only if the shorter list could be stored. The list is the one
  that was loaded with the user.
\<close>

definition verifyTOTPOrBackup :: "TwoFAEnv \<Rightarrow> User \<Rightarrow> string \<Rightarrow> World \<Rightarrow> bool \<times> World" where
  "verifyTOTPOrBackup E user code w =
     (if Validate E code (User_TwoFASecret user) then (True, w)
      else case DecodeBackupHashes E (User_BackupCodes user) of
        None \<Rightarrow> (False, w)
      | Some stored \<Rightarrow>
          (case ConsumeBackupCode E stored code of (remaining, ok) \<Rightarrow>
             if \<not> ok then (False, w)
             else (case update_columns (User_Id user)
                      (\<lambda>u. u\<lparr>User_BackupCodes := EncodeBackupHashes E remaining\<rparr>) w of
                 (Some e, w1) \<Rightarrow> (False, w1)
               | (None, w1) \<Rightarrow> (True, w1))))"

definition Get2FAStatus :: "TwoFAEnv \<Rightarrow> int \<Rightarrow> World \<Rightarrow> (bool \<times> nat) Reply \<times> World" where
  "Get2FAStatus E uid w = (case loadSelf uid w of
       (None, w1) \<Rightarrow> (Failed errNotSignedIn, w1)
     | (Some user, w1) \<Rightarrow>
         (Done (User_TwoFAEnabled user,
                (case DecodeBackupHashes E (User_BackupCodes user) of None \<Rightarrow> 0 | Some cs \<Rightarrow> length cs)), w1))"

definition Setup2FA ::
  "TwoFAEnv \<Rightarrow> int \<Rightarrow> GoErr + string \<Rightarrow> nat list list option \<Rightarrow> World \<Rightarrow> SetupArtifact Reply \<times> World" where
  "Setup2FA E uid generated raws w = (case loadSelf uid w of
       (None, w1) \<Rightarrow> (Failed errNotSignedIn, w1)
     | (Some user, w1) \<Rightarrow>
         (case NewSetup (nz (User_Email user) (User_Username user)) generated raws of
            Inl e \<Rightarrow> (Failed e, w1)
          | Inr art \<Rightarrow>
              (case update_columns (User_Id user)
                   (\<lambda>u. u\<lparr>User_TwoFASecret := SA_Secret art, User_TwoFAEnabled := False,
                          User_BackupCodes := EncodeBackupHashes E (map (HashBackupCode E) (SA_BackupCodes art))\<rparr>) w1 of
                 (Some e, w2) \<Rightarrow> (Failed e, w2)
               | (None, w2) \<Rightarrow> (Done art, w2))))"

definition Enable2FA :: "TwoFAEnv \<Rightarrow> int \<Rightarrow> GoErr + string \<Rightarrow> World \<Rightarrow> unit Reply \<times> World" where
  "Enable2FA E uid req w = (case req of
       Inl e \<Rightarrow> (Failed e, w)
     | Inr code \<Rightarrow> (case loadSelf uid w of
           (None, w1) \<Rightarrow> (Failed errNotSignedIn, w1)
         | (Some user, w1) \<Rightarrow>
             if User_TwoFASecret user = [] then (Failed errNoPendingSetup, w1)
             else if \<not> Validate E code (User_TwoFASecret user) then (Failed errInvalid2FACode, w1)
             else (case update_columns (User_Id user) (\<lambda>u. u\<lparr>User_TwoFAEnabled := True\<rparr>) w1 of
                 (Some e, w2) \<Rightarrow> (Failed e, w2)
               | (None, w2) \<Rightarrow> (Done (), w2))))"

definition Disable2FA :: "TwoFAEnv \<Rightarrow> int \<Rightarrow> GoErr + string \<Rightarrow> World \<Rightarrow> unit Reply \<times> World" where
  "Disable2FA E uid req w = (case req of
       Inl e \<Rightarrow> (Failed e, w)
     | Inr code \<Rightarrow> (case loadSelf uid w of
           (None, w1) \<Rightarrow> (Failed errNotSignedIn, w1)
         | (Some user, w1) \<Rightarrow>
             if \<not> User_TwoFAEnabled user then (Failed err2FANotEnabled, w1)
             else (case verifyTOTPOrBackup E user code w1 of
                 (False, w2) \<Rightarrow> (Failed errInvalid2FACode, w2)
               | (True, w2) \<Rightarrow>
                   (case update_columns (User_Id user)
                        (\<lambda>u. u\<lparr>User_TwoFASecret := [], User_TwoFAEnabled := False, User_BackupCodes := []\<rparr>) w2 of
                      (Some e, w3) \<Rightarrow> (Failed e, w3)
                    | (None, w3) \<Rightarrow> (Done (), w3)))))"

definition RegenerateBackupCodes ::
  "TwoFAEnv \<Rightarrow> int \<Rightarrow> GoErr + string \<Rightarrow> GoErr + string \<Rightarrow> nat list list option \<Rightarrow> World \<Rightarrow> string list Reply \<times> World" where
  "RegenerateBackupCodes E uid req generated raws w = (case req of
       Inl e \<Rightarrow> (Failed e, w)
     | Inr code \<Rightarrow> (case loadSelf uid w of
           (None, w1) \<Rightarrow> (Failed errNotSignedIn, w1)
         | (Some user, w1) \<Rightarrow>
             if \<not> User_TwoFAEnabled user then (Failed err2FANotEnabled, w1)
             else (case verifyTOTPOrBackup E user code w1 of
                 (False, w2) \<Rightarrow> (Failed errInvalid2FACode, w2)
               | (True, w2) \<Rightarrow>
                   (case NewSetup (User_Username user) generated raws of
                      Inl e \<Rightarrow> (Failed e, w2)
                    | Inr art \<Rightarrow>
                        (case update_columns (User_Id user)
                             (\<lambda>u. u\<lparr>User_BackupCodes := EncodeBackupHashes E (map (HashBackupCode E) (SA_BackupCodes art))\<rparr>) w2 of
                           (Some e, w3) \<Rightarrow> (Failed e, w3)
                         | (None, w3) \<Rightarrow> (Done (SA_BackupCodes art), w3))))))"

text \<open>
  The second step of a login. \<open>FillUserById\<close> drops the error of its query: the user then has an id
  and nothing else, and passes for one without a second factor. \<open>saves1\<close> is the first of two
  savings of the session, whose error is ignored.
\<close>

definition Verify2FALogin ::
  "TwoFAEnv \<Rightarrow> GoErr + string \<Rightarrow> bool \<Rightarrow> bool \<Rightarrow> WebSession \<Rightarrow> World \<Rightarrow> (LoginReply \<times> WebSession) \<times> World" where
  "Verify2FALogin E req saves1 saves2 ws w = (case req of
       Inl e \<Rightarrow> ((LoginFailed e, ws), w)
     | Inr code \<Rightarrow> (case WS_pending_2fa_user_id ws of
           None \<Rightarrow> ((LoginFailed errNoPending2FA, ws), w)
         | Some pendingId \<Rightarrow>
             if pendingId = 0 then ((LoginFailed errNoPending2FA, ws), w)
             else (case FillUserById (empty_user\<lparr>User_Id := pendingId\<rparr>) w of
                 ((err, user), w1) \<Rightarrow>
                   if err \<noteq> None \<or> User_Id user = 0 then ((LoginFailed errNoPending2FA, ws), w1)
                   else if \<not> User_TwoFAEnabled user
                   then (SetupLogin saves2 user ws (ws\<lparr>WS_pending_2fa_user_id := None\<rparr>), w1)
                   else (case verifyTOTPOrBackup E user code w1 of
                       (False, w2) \<Rightarrow> ((LoginFailed errInvalid2FACode, ws), w2)
                     | (True, w2) \<Rightarrow>
                         (SetupLogin saves2 user (if saves1 then ws\<lparr>WS_pending_2fa_user_id := None\<rparr> else ws)
                            (ws\<lparr>WS_pending_2fa_user_id := None\<rparr>), w2)))))"

section \<open>What a second factor protects\<close>

lemma update_columns_None:
  assumes "update_columns uid f w = (None, w1)"
  shows "db w1 = db_users_update (update_where (\<lambda>u. User_Id u = uid) f) (db w)"
proof -
  obtain r w2 where u: "sql_update db_users db_users_update (\<lambda>_. True) (\<lambda>u. User_Id u = uid) f w = (r, w2)"
    by fastforce
  with assms obtain n where "r = Inr n" "w2 = w1"
    by (auto simp: update_columns_def err_only_def split: sum.splits)
  with sql_update_Inr [of db_users db_users_update "\<lambda>_. True" _ f w n w1] u show ?thesis by simp
qed

lemma FillUserById_found:
  assumes "io_fault w = (False, w0)" and "find (\<lambda>u. User_Id u = uid) (db_users (db w)) = Some user" and "uid \<noteq> 0"
  shows "FillUserById (empty_user\<lparr>User_Id := uid\<rparr>) w = ((None, user), w0)"
proof -
  have "db w0 = db w" using io_fault_frame [OF assms(1)] by simp
  with assms show ?thesis by (simp add: FillUserById_def fill_user_def sql_first_def)
qed

text \<open>The ways in which a code can be accepted.\<close>

lemma verifyTOTPOrBackup_True:
  assumes "verifyTOTPOrBackup E user code w = (True, w1)"
  shows "Validate E code (User_TwoFASecret user) \<and> w1 = w
     \<or> (\<exists>stored. DecodeBackupHashes E (User_BackupCodes user) = Some stored \<and> HashBackupCode E code \<noteq> []
          \<and> HashBackupCode E code \<in> set stored
          \<and> db w1 = db_users_update (update_where (\<lambda>u. User_Id u = User_Id user)
               (\<lambda>u. u\<lparr>User_BackupCodes := EncodeBackupHashes E (remove1 (HashBackupCode E code) stored)\<rparr>)) (db w))"
  using assms
  by (auto simp: verifyTOTPOrBackup_def ConsumeBackupCode_def Let_def dest: update_columns_None
      split: if_splits option.splits prod.splits)

text \<open>
  C31. While a user has TOTP and the row can be read, the pending sign-in ends in a session only
  with a valid TOTP code or with a recovery code whose hash is stored, which is then taken out of
  the stored list; the session is the pending user's and nobody is pending any more.
\<close>

theorem second_factor_needed:
  assumes "Verify2FALogin E (Inr code) saves1 saves2 ws w = ((LoggedIn v, ws'), w')"
    and "WS_pending_2fa_user_id ws = Some uid"
    and "find (\<lambda>u. User_Id u = uid) (db_users (db w)) = Some user" and "User_TwoFAEnabled user"
    and "io_fault w = (False, w0)"
  shows "WS_login ws' = Some (session_of user) \<and> WS_pending_2fa_user_id ws' = None
     \<and> (Validate E code (User_TwoFASecret user) \<and> db w' = db w
        \<or> (\<exists>stored. DecodeBackupHashes E (User_BackupCodes user) = Some stored
             \<and> HashBackupCode E code \<in> set stored
             \<and> db w' = db_users_update (update_where (\<lambda>u. User_Id u = uid)
                  (\<lambda>u. u\<lparr>User_BackupCodes := EncodeBackupHashes E (remove1 (HashBackupCode E code) stored)\<rparr>)) (db w)))"
proof -
  have uid: "uid \<noteq> 0" using assms(1,2) by (auto simp: Verify2FALogin_def)
  note fill = FillUserById_found [OF assms(5,3) uid]
  have k: "User_Id user = uid" using find_Some_mem [OF assms(3)] by simp
  have d: "db w0 = db w" using io_fault_frame [OF assms(5)] by simp
  obtain ok w2 where v: "verifyTOTPOrBackup E user code w0 = (ok, w2)" by fastforce
  have ok: ok "w' = w2" "WS_login ws' = Some (session_of user)" "WS_pending_2fa_user_id ws' = None"
    using assms(1,2,4) uid fill k v by (auto simp: Verify2FALogin_def SetupLogin_def split: if_splits bool.splits)
  from verifyTOTPOrBackup_True [of E user code w0 w2] v ok k d show ?thesis by auto
qed

definition demo_2fa :: TwoFAEnv where
  "demo_2fa = \<lparr>TF_totp_Validate = (\<lambda>code secret. code = secret @ ''1''), TF_sha256_hex = (\<lambda>s. ''h'' @ s),
     TF_json_encode = (\<lambda>hs. ''['' @ concat (map (\<lambda>h. h @ '','') hs)),
     TF_json_decode = (\<lambda>s. if s = ''['' then Some [] else if s = ''[haa,'' then Some [''haa'']
        else if s = ''[haa,hbb,'' then Some [''haa'', ''hbb''] else None)\<rparr>"

definition enrolled_user :: User where
  "enrolled_user = (console_user 3 ''carol'' 1)\<lparr>User_TwoFASecret := ''s'', User_TwoFAEnabled := True,
     User_BackupCodes := ''[haa,hbb,''\<rparr>"

definition enrolled_world :: World where
  "enrolled_world = world_of (empty_db\<lparr>db_users := [console_user 1 ''root'' 100, enrolled_user]\<rparr>) []"

definition pending_session :: "int \<Rightarrow> WebSession" where
  "pending_session k = no_session\<lparr>WS_pending_2fa_user_id := Some k\<rparr>"

theorem second_factor_needed_witness:
  "map User_BackupCodes (db_users (db (snd (Verify2FALogin demo_2fa (Inr ''B-b'') True True (pending_session 3) enrolled_world))))
     = [[], ''[haa,'']"
proof -
  let ?r = "Verify2FALogin demo_2fa (Inr ''B-b'') True True (pending_session 3) enrolled_world"
  have "fst (fst ?r) = LoggedIn (clean_user enrolled_user)" by code_simp
  then have r: "?r = ((LoggedIn (clean_user enrolled_user), snd (fst ?r)), snd ?r)" by (simp add: prod_eq_iff)
  have p: "WS_pending_2fa_user_id (pending_session 3) = Some 3" by code_simp
  have u: "find (\<lambda>u. User_Id u = 3) (db_users (db enrolled_world)) = Some enrolled_user" "User_TwoFAEnabled enrolled_user"
    by code_simp+
  have io: "io_fault enrolled_world = (False, enrolled_world)" by (simp add: enrolled_world_def world_of_def)
  have v: "\<not> Validate demo_2fa ''B-b'' (User_TwoFASecret enrolled_user)" by code_simp
  have dec: "DecodeBackupHashes demo_2fa (User_BackupCodes enrolled_user) = Some [''haa'', ''hbb'']" by code_simp
  have enc: "EncodeBackupHashes demo_2fa (remove1 (HashBackupCode demo_2fa ''B-b'') [''haa'', ''hbb'']) = ''[haa,''"
    by code_simp
  have us: "db_users (db enrolled_world) = [console_user 1 ''root'' 100, enrolled_user]"
    by (simp add: enrolled_world_def world_of_def empty_db_def)
  have ids: "User_Id (console_user 1 ''root'' 100) = 1" "User_Id enrolled_user = 3"
    "User_BackupCodes (console_user 1 ''root'' 100) = []" by code_simp+
  from second_factor_needed [OF r p u io] v dec enc us ids show ?thesis by auto
qed

text \<open>A recovery code that is not in the stored list.\<close>

lemma unknown_code_refused:
  assumes "io_fault w = (False, w0)" and "find (\<lambda>u. User_Id u = uid) (db_users (db w)) = Some user" and "uid \<noteq> 0"
    and "User_TwoFAEnabled user" and "WS_pending_2fa_user_id ws = Some uid"
    and "DecodeBackupHashes E (User_BackupCodes user) = Some stored" and "HashBackupCode E code \<notin> set stored"
    and "\<not> Validate E code (User_TwoFASecret user)"
  shows "fst (Verify2FALogin E (Inr code) saves1 saves2 ws w) = (LoginFailed errInvalid2FACode, ws)"
  using assms FillUserById_found [OF assms(1-3)] find_Some_mem [OF assms(2)]
  by (auto simp: Verify2FALogin_def verifyTOTPOrBackup_def ConsumeBackupCode_def Let_def)



section \<open>Ways around it\<close>

text \<open>
  The list that was loaded with the user decides: of two requests that both loaded the user before
  either stored the shorter list, both are let through with the same recovery code.
\<close>

lemma racing_recovery_codes:
  assumes "DecodeBackupHashes E (User_BackupCodes user) = Some stored" and "HashBackupCode E code \<in> set stored"
    and "HashBackupCode E code \<noteq> []" and "faults w = []"
  shows "fst (verifyTOTPOrBackup E user code w)
     \<and> fst (verifyTOTPOrBackup E user code (snd (verifyTOTPOrBackup E user code w)))"
  using assms
  by (auto simp: verifyTOTPOrBackup_def ConsumeBackupCode_def Let_def update_columns_def sql_update_def
      err_only_def list_all_iff)

text \<open>
  C33. A passkey is no second factor: when the password step of a user without TOTP asks for one,
  the TOTP step then opens the session for whatever code is sent.
\<close>

theorem passkey_second_factor_bypass:
  assumes login: "Login E ac (Some (username, password)) saves ws w = ((SecondFactor [''passkey''], ws1), w1)"
    and rows: "distinct (map User_Id (db_users (db w)))" "0 \<notin> User_Id ` set (db_users (db w))"
    and no_faults: "io_fault w1 = (False, w2)"
  shows "\<exists>u. u \<in> set (db_users (db w)) \<and> AE_ValidatePassword E password (User_Password u)
     \<and> passkeys_of (User_Id u) (db w) \<noteq> []
     \<and> Verify2FALogin E2 (Inr code) saves1 True ws1 w1
        = ((LoggedIn (clean_user u), ws\<lparr>WS_pending_2fa_user_id := None, WS_login := Some (session_of u)\<rparr>), w2)"
proof -
  obtain v w0 where v: "ValidateAndFill E username password w = (v, w0)" by fastforce
  with login obtain u where u: "v = Inr u" by (cases v) (auto simp: Login_def split: if_splits)
  note val = ValidateAndFill_Inr [OF v [unfolded u]]
  obtain h w3 where h: "HasPasskey (User_Id u) w0 = (h, w3)" by fastforce
  have step: "h" "\<not> User_TwoFAEnabled u" "w1 = w3" "ws1 = ws\<lparr>WS_pending_2fa_user_id := Some (User_Id u)\<rparr>"
    using login v u h by (auto simp: Login_def SetupLogin_def split: if_splits)
  have d: "db w1 = db w" and keys: "passkeys_of (User_Id u) (db w) \<noteq> []"
    using h step(1,3) val
    by (auto simp: HasPasskey_def passkeys_of_def count_where_def dest!: io_fault_frame split: prod.splits bool.splits)
  have uid: "User_Id u \<noteq> 0" using val rows(2) by force
  obtain x where x: "find (\<lambda>r. User_Id r = User_Id u) (db_users (db w)) = Some x"
    using val by (cases "find (\<lambda>r. User_Id r = User_Id u) (db_users (db w))") (auto simp: find_None_all)
  then have "x = u" using find_Some_mem [OF x] val rows(1) by (meson distinct_map inj_onD)
  with x have fill: "FillUserById (empty_user\<lparr>User_Id := User_Id u\<rparr>) w1 = ((None, u), w2)"
    using FillUserById_found [OF no_faults _ uid] d by simp
  have "Verify2FALogin E2 (Inr code) saves1 True ws1 w1
        = ((LoggedIn (clean_user u), ws\<lparr>WS_pending_2fa_user_id := None, WS_login := Some (session_of u)\<rparr>), w2)"
    using fill step uid by (simp add: Verify2FALogin_def SetupLogin_def)
  with val keys show ?thesis by blast
qed

definition carols_key :: PasskeyCredential where
  "carols_key = \<lparr>Passkey_Id = 1, Passkey_UserId = 3, Passkey_CredentialId = ''c'', Passkey_PublicKey = ''k'',
     Passkey_SignCount = 0, Passkey_Transports = [], Passkey_AAGUID = [], Passkey_Name = ''phone'',
     Passkey_CreatedAt = 0, Passkey_LastUsedAt = 0\<rparr>"

definition keyed_world :: World where
  "keyed_world = world_of (empty_db\<lparr>db_users := [console_user 1 ''root'' 100, console_user 3 ''carol'' 1],
     db_passkeys := [carols_key]\<rparr>) []"

theorem passkey_second_factor_bypass_witness:
  "WS_login (snd (fst (Verify2FALogin demo_2fa (Inr ''whatever'') True True
      (snd (fst (Login account_env console_config (Some (''carol'', ''secret12'')) True no_session keyed_world)))
      (snd (Login account_env console_config (Some (''carol'', ''secret12'')) True no_session keyed_world)))))
   = Some (session_of (console_user 3 ''carol'' 1))"
proof -
  let ?r = "Login account_env console_config (Some (''carol'', ''secret12'')) True no_session keyed_world"
  have "fst (fst ?r) = SecondFactor [''passkey'']" by code_simp
  then have r: "?r = ((SecondFactor [''passkey''], snd (fst ?r)), snd ?r)" by (simp add: prod_eq_iff)
  have ids: "distinct (map User_Id (db_users (db keyed_world)))" "0 \<notin> User_Id ` set (db_users (db keyed_world))"
    by code_simp+
  have "faults (snd ?r) = []" by code_simp
  then have io: "io_fault (snd ?r) = (False, snd ?r)" by simp
  have keys: "passkeys_of 1 (db keyed_world) = []" by code_simp
  have us: "db_users (db keyed_world) = [console_user 1 ''root'' 100, console_user 3 ''carol'' 1]"
    by (simp add: keyed_world_def world_of_def empty_db_def)
  have "User_Id (console_user 1 ''root'' 100) = 1" by code_simp
  with passkey_second_factor_bypass [OF r ids io, of demo_2fa "''whatever''" True] keys us show ?thesis by force
qed

text \<open>
  Starting an enrolment turns the second factor of an enrolled account off: \<open>Disable2FA\<close> asks for a
  code, \<open>Setup2FA\<close> does not.
\<close>

lemma setup_disables_two_factor:
  assumes "faults w = []" and "find (\<lambda>u. User_Id u = uid) (db_users (db w)) = Some user" and "uid \<noteq> 0"
    and "NewSetup (nz (User_Email user) (User_Username user)) generated raws = Inr art"
  shows "\<exists>w'. Setup2FA E uid generated raws w = (Done art, w')
     \<and> map_option User_TwoFAEnabled (find (\<lambda>u. User_Id u = uid) (db_users (db w'))) = Some False"
proof -
  have io: "io_fault w = (False, w)" using assms(1) by simp
  have k: "User_Id user = uid" using find_Some_mem [OF assms(2)] by simp
  have l: "loadSelf uid w = (Some user, w)"
    using FillUserById_found [OF io assms(2,3)] assms(3) k by (simp add: loadSelf_def)
  show ?thesis
    using l assms(1,2,4) k
    by (simp add: Setup2FA_def update_columns_def sql_update_def err_only_def list_all_iff find_update_where_frame)
qed

end
