(* ===== verification/Console.thy ===== *)
theory Console
  imports TokenAdmin TwoFactor CheckinModel Monitor
begin

text \<open>
  The console's remaining lists and handlers: users (\<open>controller/user.go\<close>), the usage log
  (\<open>model/log.go\<close>, \<open>controller/log.go\<close>), redemption codes, channels, check-in, mail codes and
  password reset (\<open>controller/misc.go\<close>), the billing view of a token (\<open>controller/billing.go\<close>).
\<close>

section \<open>Lists of users\<close>

definition without_password :: "User \<Rightarrow> User" where
  "without_password u = u\<lparr>User_Password := []\<rparr>"

definition rows_of :: "('r \<Rightarrow> 's) \<Rightarrow> (GoErr + 'r list) \<times> World \<Rightarrow> (GoErr + 's list) \<times> World" where
  "rows_of f r = (map_sum id (map f) (fst r), snd r)"

definition GetAllUsers :: "int \<Rightarrow> int \<Rightarrow> string \<Rightarrow> World \<Rightarrow> (GoErr + User list) \<times> World" where
  "GetAllUsers startIdx num order w =
     (let live = (\<lambda>u. User_Status u \<noteq> UserStatusDeleted)
      in rows_of without_password
        (if order = ''quota'' then sql_sorted db_users live User_Quota startIdx num w
         else if order = ''used_quota'' then sql_sorted db_users live User_UsedQuota startIdx num w
         else if order = ''request_count'' then sql_sorted db_users live User_RequestCount startIdx num w
         else sql_list db_users live startIdx num w))"

definition SearchUsers :: "SqlDialect \<Rightarrow> string \<Rightarrow> World \<Rightarrow> (GoErr + User list) \<times> World" where
  "SearchUsers D keyword w =
     (let matches = (\<lambda>u. SD_like D (keyword @ ''%'') (User_Username u) \<or> SD_like D (keyword @ ''%'') (User_Email u)
            \<or> SD_like D (keyword @ ''%'') (User_DisplayName u))
      in rows_of without_password (sql_list_asc db_users
           (\<lambda>u. (\<not> SD_postgres D \<and> SD_is_id D keyword (User_Id u)) \<or> matches u) (- 1) w))"

definition GetAllUsers_page :: "string \<Rightarrow> string \<Rightarrow> World \<Rightarrow> User list Reply \<times> World" where
  "GetAllUsers_page p order w = reply (GetAllUsers (start_of_page p) ItemsPerPage order w)"

definition SearchUsers_page :: "SqlDialect \<Rightarrow> string \<Rightarrow> World \<Rightarrow> User list Reply \<times> World" where
  "SearchUsers_page D keyword w = reply (SearchUsers D keyword w)"

section \<open>The usage log\<close>

definition LogTypeUnknown :: int where "LogTypeUnknown = 0"
definition LogTypeTest :: int where "LogTypeTest = 5"
definition MaxRecentItems :: nat where "MaxRecentItems = 100"

text \<open>The log has a database of its own; a query can fail like any other.\<close>

definition log_query :: "(Log list \<Rightarrow> 'a) \<Rightarrow> World \<Rightarrow> (GoErr + 'a) \<times> World" where
  "log_query f w = (case io_fault w of
       (True, w1) \<Rightarrow> (Inl ErrDB, w1)
     | (False, w1) \<Rightarrow> (Inr (f (log_db w1)), w1))"

definition RecordTestLog :: "Log \<Rightarrow> World \<Rightarrow> World" where
  "RecordTestLog l w = recordLogHelper (l\<lparr>Log_CreatedAt := clock w, Log_Type := LogTypeTest\<rparr>) w"

record LogFilter =
  LF_Type :: int
  LF_Start :: int
  LF_End :: int
  LF_Model :: string
  LF_Username :: string
  LF_Token :: string
  LF_Channel :: int

text \<open>The conditions that a filter puts on the rows, but for the type.\<close>

definition log_matches :: "LogFilter \<Rightarrow> Log \<Rightarrow> bool" where
  "log_matches f l \<longleftrightarrow>
     (LF_Model f = [] \<or> Log_ModelName l = LF_Model f)
     \<and> (LF_Username f = [] \<or> Log_Username l = LF_Username f)
     \<and> (LF_Token f = [] \<or> Log_TokenName l = LF_Token f)
     \<and> (LF_Start f = 0 \<or> LF_Start f \<le> Log_CreatedAt l)
     \<and> (LF_End f = 0 \<or> Log_CreatedAt l \<le> LF_End f)
     \<and> (LF_Channel f = 0 \<or> Log_ChannelId l = LF_Channel f)"

definition type_matches :: "int \<Rightarrow> Log \<Rightarrow> bool" where
  "type_matches k l \<longleftrightarrow> k = LogTypeUnknown \<or> Log_Type l = k"

definition page_of :: "int \<Rightarrow> int \<Rightarrow> Log list \<Rightarrow> Log list" where
  "page_of startIdx num ls = take (nat num) (drop (nat startIdx) (rev ls))"

definition GetAllLogs :: "LogFilter \<Rightarrow> int \<Rightarrow> int \<Rightarrow> World \<Rightarrow> (GoErr + Log list) \<times> World" where
  "GetAllLogs f startIdx num =
     log_query (\<lambda>ls. page_of startIdx num (filter (\<lambda>l. type_matches (LF_Type f) l \<and> log_matches f l) ls))"

definition GetUserLogs :: "int \<Rightarrow> LogFilter \<Rightarrow> int \<Rightarrow> int \<Rightarrow> World \<Rightarrow> (GoErr + Log list) \<times> World" where
  "GetUserLogs userId f startIdx num =
     log_query (\<lambda>ls. page_of startIdx num (filter (\<lambda>l. Log_UserId l = userId \<and> type_matches (LF_Type f) l
        \<and> log_matches (f\<lparr>LF_Username := [], LF_Channel := 0\<rparr>) l) ls))"

text \<open>The text of a record is a parameter: \<open>contains\<close> says how the database compares it.\<close>

definition SearchAllLogs ::
  "SqlDialect \<Rightarrow> (LogContent \<Rightarrow> string) \<Rightarrow> string \<Rightarrow> World \<Rightarrow> (GoErr + Log list) \<times> World" where
  "SearchAllLogs D content keyword =
     log_query (\<lambda>ls. take MaxRecentItems (rev (filter (\<lambda>l. SD_is_id D keyword (Log_Type l)
        \<or> SD_like D (keyword @ ''%'') (content (Log_Content l))) ls)))"

definition SearchUserLogs :: "SqlDialect \<Rightarrow> int \<Rightarrow> string \<Rightarrow> World \<Rightarrow> (GoErr + Log list) \<times> World" where
  "SearchUserLogs D userId keyword =
     log_query (\<lambda>ls. take MaxRecentItems (rev (filter (\<lambda>l. Log_UserId l = userId \<and> SD_is_id D keyword (Log_Type l)) ls)))"

text \<open>Only consumption is summed, whatever type was asked for; a failed query counts as 0.\<close>

definition SumUsedQuota :: "LogFilter \<Rightarrow> World \<Rightarrow> int \<times> World" where
  "SumUsedQuota f w = (case log_query (\<lambda>ls. sum_list (map Log_Quota
        (filter (\<lambda>l. log_matches f l \<and> Log_Type l = LogTypeConsume) ls))) w of
       (Inl e, w1) \<Rightarrow> (0, w1) | (Inr q, w1) \<Rightarrow> (q, w1))"

definition SumUsedToken :: "LogFilter \<Rightarrow> World \<Rightarrow> int \<times> World" where
  "SumUsedToken f w = (case log_query (\<lambda>ls. sum_list (map (\<lambda>l. Log_PromptTokens l + Log_CompletionTokens l)
        (filter (\<lambda>l. log_matches (f\<lparr>LF_Channel := 0\<rparr>) l \<and> Log_Type l = LogTypeConsume) ls))) w of
       (Inl e, w1) \<Rightarrow> (0, w1) | (Inr q, w1) \<Rightarrow> (q, w1))"

definition DeleteOldLog :: "int \<Rightarrow> World \<Rightarrow> (GoErr + nat) \<times> World" where
  "DeleteOldLog target w = (case io_fault w of
       (True, w1) \<Rightarrow> (Inl ErrDB, w1)
     | (False, w1) \<Rightarrow> (Inr (length (filter (\<lambda>l. Log_CreatedAt l < target) (log_db w1))),
         w1\<lparr>log_db := filter (\<lambda>l. \<not> Log_CreatedAt l < target) (log_db w1)\<rparr>))"

record LogStatistic =
  LS_Day :: string
  LS_ModelName :: string
  LS_RequestCount :: int
  LS_Quota :: int
  LS_PromptTokens :: int
  LS_CompletionTokens :: int

text \<open>\<open>day\<close> is the database's text for the day of a time; one row for each day and model, in order.\<close>

definition statistic :: "(int \<Rightarrow> string) \<Rightarrow> Log list \<Rightarrow> string \<times> string \<Rightarrow> LogStatistic" where
  "statistic day ls g =
     (let rows = filter (\<lambda>l. (day (Log_CreatedAt l), Log_ModelName l) = g) ls
      in \<lparr>LS_Day = fst g, LS_ModelName = snd g, LS_RequestCount = int (length rows),
          LS_Quota = sum_list (map Log_Quota rows), LS_PromptTokens = sum_list (map Log_PromptTokens rows),
          LS_CompletionTokens = sum_list (map Log_CompletionTokens rows)\<rparr>)"

definition group_less :: "string \<times> string \<Rightarrow> string \<times> string \<Rightarrow> bool" where
  "group_less a b \<longleftrightarrow> fst a < fst b \<or> fst a = fst b \<and> snd a < snd b"

definition insert_group :: "string \<times> string \<Rightarrow> (string \<times> string) list \<Rightarrow> (string \<times> string) list" where
  "insert_group g gs = takeWhile (\<lambda>h. group_less h g) gs @
     (if g \<in> set gs then [] else [g]) @ dropWhile (\<lambda>h. group_less h g) gs"

definition log_statistics :: "(int \<Rightarrow> string) \<Rightarrow> Log list \<Rightarrow> LogStatistic list" where
  "log_statistics day ls = map (statistic day ls)
     (fold insert_group (map (\<lambda>l. (day (Log_CreatedAt l), Log_ModelName l)) ls) [])"

definition SearchLogsByDayAndModel ::
  "(int \<Rightarrow> string) \<Rightarrow> int \<Rightarrow> int \<Rightarrow> int \<Rightarrow> World \<Rightarrow> (GoErr + LogStatistic list) \<times> World" where
  "SearchLogsByDayAndModel day userId start_time end_time =
     log_query (\<lambda>ls. log_statistics day (filter (\<lambda>l. Log_Type l = 2 \<and> Log_UserId l = userId
        \<and> start_time \<le> Log_CreatedAt l \<and> Log_CreatedAt l \<le> end_time) ls))"

text \<open>Seven days up to the end of today; \<open>Truncate\<close> cuts at midnight UTC.\<close>

definition GetUserDashboard :: "(int \<Rightarrow> string) \<Rightarrow> int \<Rightarrow> World \<Rightarrow> LogStatistic list Reply \<times> World" where
  "GetUserDashboard day uid w =
     (let midnight = clock w - clock w mod 86400
      in case SearchLogsByDayAndModel day uid (midnight - 6 * 86400) (midnight + 86400 - 1) w of
        (Inl e, w1) \<Rightarrow> (Failed (Err ''no statistics''), w1)
      | (Inr s, w1) \<Rightarrow> (Done s, w1))"

section \<open>Handlers of the log\<close>

text \<open>The query parameters \<open>type\<close>, \<open>start_timestamp\<close>, \<open>end_timestamp\<close>, \<open>channel\<close> as texts.\<close>

record LogQuery =
  LQ_p :: string
  LQ_type :: string
  LQ_start :: string
  LQ_end :: string
  LQ_username :: string
  LQ_token :: string
  LQ_model :: string
  LQ_channel :: string

definition filter_of :: "LogQuery \<Rightarrow> LogFilter" where
  "filter_of q = \<lparr>LF_Type = atoi_value (LQ_type q), LF_Start = atoi_value (LQ_start q), LF_End = atoi_value (LQ_end q),
     LF_Model = LQ_model q, LF_Username = LQ_username q, LF_Token = LQ_token q, LF_Channel = atoi_value (LQ_channel q)\<rparr>"

definition GetAllLogs_page :: "LogQuery \<Rightarrow> World \<Rightarrow> Log list Reply \<times> World" where
  "GetAllLogs_page q w = reply (GetAllLogs (filter_of q) (start_of_page (LQ_p q)) ItemsPerPage w)"

definition GetUserLogs_page :: "int \<Rightarrow> LogQuery \<Rightarrow> World \<Rightarrow> Log list Reply \<times> World" where
  "GetUserLogs_page userId q w = reply (GetUserLogs userId (filter_of q) (start_of_page (LQ_p q)) ItemsPerPage w)"

definition SearchAllLogs_page :: "SqlDialect \<Rightarrow> (LogContent \<Rightarrow> string) \<Rightarrow> string \<Rightarrow> World \<Rightarrow> Log list Reply \<times> World" where
  "SearchAllLogs_page D content keyword w = reply (SearchAllLogs D content keyword w)"

definition SearchUserLogs_page :: "SqlDialect \<Rightarrow> int \<Rightarrow> string \<Rightarrow> World \<Rightarrow> Log list Reply \<times> World" where
  "SearchUserLogs_page D userId keyword w = reply (SearchUserLogs D userId keyword w)"

definition GetLogsStat :: "LogQuery \<Rightarrow> World \<Rightarrow> int \<times> World" where
  "GetLogsStat q w = SumUsedQuota (filter_of q) w"

definition GetLogsSelfStat :: "string \<Rightarrow> LogQuery \<Rightarrow> World \<Rightarrow> int \<times> World" where
  "GetLogsSelfStat username q w = SumUsedQuota ((filter_of q)\<lparr>LF_Username := username\<rparr>) w"

definition DeleteHistoryLogs :: "string \<Rightarrow> World \<Rightarrow> nat Reply \<times> World" where
  "DeleteHistoryLogs target w =
     (if atoi_value target = 0 then (Failed (Err ''target timestamp is required''), w)
      else reply (DeleteOldLog (atoi_value target) w))"

section \<open>Redemption codes\<close>

definition SearchRedemptions :: "SqlDialect \<Rightarrow> string \<Rightarrow> World \<Rightarrow> (GoErr + Redemption list) \<times> World" where
  "SearchRedemptions D keyword w = sql_list_asc db_redemptions
     (\<lambda>r. SD_is_id D keyword (Redemption_Id r) \<or> SD_like D (keyword @ ''%'') (Redemption_Name r)) (- 1) w"

definition GetAllRedemptions_page :: "string \<Rightarrow> World \<Rightarrow> Redemption list Reply \<times> World" where
  "GetAllRedemptions_page p w = reply (GetAllRedemptions (start_of_page p) ItemsPerPage w)"

definition SearchRedemptions_page :: "SqlDialect \<Rightarrow> string \<Rightarrow> World \<Rightarrow> Redemption list Reply \<times> World" where
  "SearchRedemptions_page D keyword w = reply (SearchRedemptions D keyword w)"

definition GetRedemption :: "string \<Rightarrow> World \<Rightarrow> Redemption Reply \<times> World" where
  "GetRedemption idText w = (case go_atoi idText of
       None \<Rightarrow> (Failed (Err ''invalid syntax''), w)
     | Some k \<Rightarrow> reply (GetRedemptionById k w))"

definition fresh_redemption :: "int \<Rightarrow> Redemption \<Rightarrow> string \<Rightarrow> int \<Rightarrow> Redemption" where
  "fresh_redemption uid r key now = \<lparr>Redemption_Id = 0, Redemption_UserId = uid, Redemption_Key = key,
     Redemption_Status = 0, Redemption_Name = Redemption_Name r, Redemption_Quota = Redemption_Quota r,
     Redemption_CreatedTime = now, Redemption_RedeemedTime = 0\<rparr>"

text \<open>Up to three attempts to store one code, each with a key of its own.\<close>

fun insert_code :: "int \<Rightarrow> Redemption \<Rightarrow> string list \<Rightarrow> GoErr option \<Rightarrow> World \<Rightarrow> (GoErr option \<times> string) \<times> World" where
  "insert_code uid r [] lastErr w = ((lastErr, []), w)"
| "insert_code uid r (key # keys) lastErr w = (case Redemption_Insert (fresh_redemption uid r key (clock w)) w of
      (None, w1) \<Rightarrow> ((None, key), w1)
    | (Some e, w1) \<Rightarrow> insert_code uid r keys (Some e) w1)"

fun insert_codes ::
  "int \<Rightarrow> Redemption \<Rightarrow> string list list \<Rightarrow> string list \<Rightarrow> World \<Rightarrow> (GoErr option \<times> string list) \<times> World" where
  "insert_codes uid r [] keys w = ((None, keys), w)"
| "insert_codes uid r (uuids # rest) keys w = (case insert_code uid r (take 3 uuids) None w of
      ((Some e, _), w1) \<Rightarrow> ((Some e, keys), w1)
    | ((None, key), w1) \<Rightarrow> insert_codes uid r rest (keys @ [key]) w1)"

text \<open>\<open>uuids\<close> are the random keys, a list for each code. On failure the codes stored so far are told.\<close>

datatype CodesReply = CodesFailed GoErr "string list" | CodesAdded "string list"

definition AddRedemption ::
  "(nat \<Rightarrow> string list) \<Rightarrow> int \<Rightarrow> GoErr + Redemption \<times> int \<Rightarrow> World \<Rightarrow> CodesReply \<times> World" where
  "AddRedemption uuids uid req w = (case req of
       Inl e \<Rightarrow> (CodesFailed e [], w)
     | Inr (r, count) \<Rightarrow>
         if Redemption_Name r = [] \<or> 20 < length (Redemption_Name r)
         then (CodesFailed (Err ''the name must have 1 to 20 bytes'') [], w)
         else if count \<le> 0 then (CodesFailed (Err ''the count must be positive'') [], w)
         else if 100 < count then (CodesFailed (Err ''at most 100 codes at once'') [], w)
         else (case insert_codes uid r (map uuids [0..<nat count]) [] w of
             ((Some e, keys), w1) \<Rightarrow> (CodesFailed e keys, w1)
           | ((None, keys), w1) \<Rightarrow> (CodesAdded keys, w1)))"

definition DeleteRedemption :: "string \<Rightarrow> World \<Rightarrow> unit Reply \<times> World" where
  "DeleteRedemption idText w = (case DeleteRedemptionById (atoi_value idText) w of
       (Some e, w1) \<Rightarrow> (Failed e, w1) | (None, w1) \<Rightarrow> (Done (), w1))"

definition edited_redemption :: "string \<Rightarrow> Redemption \<Rightarrow> Redemption \<Rightarrow> Redemption" where
  "edited_redemption statusOnly r x =
     (if statusOnly \<noteq> [] then x\<lparr>Redemption_Status := Redemption_Status r\<rparr>
      else x\<lparr>Redemption_Name := Redemption_Name r, Redemption_Quota := Redemption_Quota r\<rparr>)"

definition UpdateRedemption :: "string \<Rightarrow> GoErr + Redemption \<Rightarrow> World \<Rightarrow> Redemption Reply \<times> World" where
  "UpdateRedemption statusOnly req w = (case req of
       Inl e \<Rightarrow> (Failed e, w)
     | Inr r \<Rightarrow> (case GetRedemptionById (Redemption_Id r) w of
           (Inl e, w1) \<Rightarrow> (Failed e, w1)
         | (Inr x, w1) \<Rightarrow> (case Redemption_Update (edited_redemption statusOnly r x) w1 of
               (Some e, w2) \<Rightarrow> (Failed e, w2)
             | (None, w2) \<Rightarrow> (Done (edited_redemption statusOnly r x), w2))))"

section \<open>Channels\<close>

definition GetAllChannels :: "int \<Rightarrow> int \<Rightarrow> string \<Rightarrow> World \<Rightarrow> (GoErr + Channel list) \<times> World" where
  "GetAllChannels startIdx num scope w =
     (if scope = ''all'' then sql_list db_channels (\<lambda>_. True) 0 (- 1) w
      else if scope = ''disabled'' then sql_list db_channels
        (\<lambda>c. Channel_Status c = ChannelStatusAutoDisabled \<or> Channel_Status c = ChannelStatusManuallyDisabled) 0 (- 1) w
      else rows_of (\<lambda>c. c\<lparr>Channel_Key := []\<rparr>) (sql_list db_channels (\<lambda>_. True) startIdx num w))"

definition SearchChannels :: "SqlDialect \<Rightarrow> string \<Rightarrow> World \<Rightarrow> (GoErr + Channel list) \<times> World" where
  "SearchChannels D keyword w = rows_of (\<lambda>c. c\<lparr>Channel_Key := []\<rparr>) (sql_list_asc db_channels
     (\<lambda>c. Channel_Id c = (case go_atoi keyword of None \<Rightarrow> 0 | Some k \<Rightarrow> k)
        \<or> SD_like D (keyword @ ''%'') (Channel_Name c)) (- 1) w)"

definition GetAllChannels_page :: "string \<Rightarrow> World \<Rightarrow> Channel list Reply \<times> World" where
  "GetAllChannels_page p w = reply (GetAllChannels (start_of_page p) ItemsPerPage ''limited'' w)"

definition SearchChannels_page :: "SqlDialect \<Rightarrow> string \<Rightarrow> World \<Rightarrow> Channel list Reply \<times> World" where
  "SearchChannels_page D keyword w = reply (SearchChannels D keyword w)"

definition GetChannel :: "string \<Rightarrow> World \<Rightarrow> Channel Reply \<times> World" where
  "GetChannel idText w = (case go_atoi idText of
       None \<Rightarrow> (Failed (Err ''invalid syntax''), w)
     | Some k \<Rightarrow> reply (GetChannelById k False w))"

text \<open>One channel for each line of the key. \<open>nids\<close> are the keys that the database assigns.\<close>

definition AddChannel :: "int list \<Rightarrow> GoErr + Channel \<Rightarrow> World \<Rightarrow> unit Reply \<times> World" where
  "AddChannel nids req w = (case req of
       Inl e \<Rightarrow> (Failed e, w)
     | Inr c \<Rightarrow>
         (let cs = map (\<lambda>key. c\<lparr>Channel_Key := key\<rparr>) (filter (\<lambda>k. k \<noteq> []) (split_on (CHR 0x0A) (Channel_Key c)))
          in case BatchInsertChannels nids cs w of
              (Some e, w1) \<Rightarrow> (Failed e, w1) | (None, w1) \<Rightarrow> (Done (), w1)))"

definition DeleteChannel :: "Channel \<Rightarrow> string \<Rightarrow> World \<Rightarrow> unit Reply \<times> World" where
  "DeleteChannel zero idText w = (case Channel_Delete (zero\<lparr>Channel_Id := atoi_value idText\<rparr>) w of
       (Some e, w1) \<Rightarrow> (Failed e, w1) | (None, w1) \<Rightarrow> (Done (), w1))"

definition DeleteDisabledChannel_all :: "World \<Rightarrow> nat Reply \<times> World" where
  "DeleteDisabledChannel_all w = reply (DeleteDisabledChannel w)"

definition UpdateChannel :: "GoErr + Channel \<Rightarrow> World \<Rightarrow> unit Reply \<times> World" where
  "UpdateChannel req w = (case req of
       Inl e \<Rightarrow> (Failed e, w)
     | Inr c \<Rightarrow> (case Channel_Update c w of (Some e, w1) \<Rightarrow> (Failed e, w1) | (None, w1) \<Rightarrow> (Done (), w1)))"

section \<open>Check-in\<close>

record checkinInfo =
  CI_Enabled :: bool
  CI_CheckedToday :: bool
  CI_CurrentStreak :: int
  CI_TodayReward :: int
  CI_LastCheckinDate :: string

definition buildCheckinInfo :: "bool \<Rightarrow> int \<Rightarrow> World \<Rightarrow> (GoErr + checkinInfo) \<times> World" where
  "buildCheckinInfo enabled uid w = (case CurrentStreak uid w of
       (Inl e, w1) \<Rightarrow> (Inl e, w1)
     | (Inr (streak, checkedToday), w1) \<Rightarrow>
         (let info = \<lparr>CI_Enabled = enabled, CI_CheckedToday = checkedToday, CI_CurrentStreak = streak,
                CI_TodayReward = PreviewReward (cfg w1) (if checkedToday then streak else i64 (streak + 1)),
                CI_LastCheckinDate = []\<rparr>
          in if \<not> checkedToday then (Inr info, w1)
             else case GetTodayCheckin uid w1 of
               (Inl e, w2) \<Rightarrow> (Inl e, w2)
             | (Inr None, w2) \<Rightarrow> (Inr info, w2)
             | (Inr (Some t), w2) \<Rightarrow>
                 (Inr (info\<lparr>CI_LastCheckinDate := Checkin_Date t, CI_TodayReward := Checkin_Quota t\<rparr>), w2)))"

definition GetCheckinInfo :: "bool \<Rightarrow> int \<Rightarrow> World \<Rightarrow> checkinInfo Reply \<times> World" where
  "GetCheckinInfo enabled uid w = reply (buildCheckinInfo enabled uid w)"

text \<open>Answer: the row, whether it was there before, and the view unless it could not be built.\<close>

definition DoCheckin :: "bool \<Rightarrow> int \<Rightarrow> World \<Rightarrow> (bool \<times> Checkin \<times> checkinInfo option) Reply \<times> World" where
  "DoCheckin enabled uid w =
     (if \<not> enabled then (Failed (Err ''check-in is not enabled''), w)
      else if uid \<le> 0 then (Failed (Err ''not signed in''), w)
      else case ClaimToday uid w of
        (Inl e, w1) \<Rightarrow> (Failed e, w1)
      | (Inr (rec, already), w1) \<Rightarrow>
          (case buildCheckinInfo enabled uid w1 of
             (Inl e, w2) \<Rightarrow> (Done (already, rec, None), w2)
           | (Inr info, w2) \<Rightarrow> (Done (already, rec, Some info), w2)))"

section \<open>Mail codes and password reset\<close>

record MailEnv =
  ME_valid :: "string \<Rightarrow> bool"
  ME_send :: "string \<Rightarrow> string \<Rightarrow> GoErr option"
  ME_restricted :: bool
  ME_whitelist :: "string list"

text \<open>A code whose UUID is too short for it would panic; \<open>None\<close> leaves the site alone.\<close>

definition SendEmailVerification :: "MailEnv \<Rightarrow> int \<Rightarrow> string \<Rightarrow> string \<Rightarrow> Site \<Rightarrow> unit Reply option \<times> Site" where
  "SendEmailVerification M now uuid email s =
     (if \<not> ME_valid M email then (Some (Failed (Err ''invalid_parameter'')), s)
      else if ME_restricted M \<and> \<not> list_ex (\<lambda>d. has_suffix email (''@'' @ d)) (ME_whitelist M)
      then (Some (Failed (Err ''the domain is not on the whitelist'')), s)
      else case IsEmailAlreadyTaken email (St_world s) of
        (True, w) \<Rightarrow> (Some (Failed (Err ''email_taken'')), s\<lparr>St_world := w\<rparr>)
      | (False, w) \<Rightarrow> (case GenerateVerificationCode uuid 6 of
            None \<Rightarrow> (None, s\<lparr>St_world := w\<rparr>)
          | Some code \<Rightarrow>
              (Some (case ME_send M email code of Some e \<Rightarrow> Failed e | None \<Rightarrow> Done ()),
               s\<lparr>St_world := w, St_codes := RegisterVerificationCodeWithKey email code EmailVerificationPurpose now (St_codes s)\<rparr>)))"

definition SendPasswordResetEmail :: "MailEnv \<Rightarrow> int \<Rightarrow> string \<Rightarrow> string \<Rightarrow> Site \<Rightarrow> unit Reply option \<times> Site" where
  "SendPasswordResetEmail M now uuid email s =
     (if \<not> ME_valid M email then (Some (Failed (Err ''invalid_parameter'')), s)
      else case IsEmailAlreadyTaken email (St_world s) of
        (False, w) \<Rightarrow> (Some (Failed (Err ''the address is not registered'')), s\<lparr>St_world := w\<rparr>)
      | (True, w) \<Rightarrow> (case GenerateVerificationCode uuid 0 of
            None \<Rightarrow> (None, s\<lparr>St_world := w\<rparr>)
          | Some code \<Rightarrow>
              (Some (case ME_send M email code of Some e \<Rightarrow> Failed e | None \<Rightarrow> Done ()),
               s\<lparr>St_world := w, St_codes := RegisterVerificationCodeWithKey email code PasswordResetPurpose now (St_codes s)\<rparr>)))"

text \<open>The answer is the new password; the code is used up only when it was stored.\<close>

definition ResetPassword ::
  "AccountEnv \<Rightarrow> int \<Rightarrow> string \<Rightarrow> string \<Rightarrow> string \<Rightarrow> Site \<Rightarrow> string Reply option \<times> Site" where
  "ResetPassword E now uuid email token s =
     (if email = [] \<or> token = [] then (Some (Failed (Err ''invalid_parameter'')), s)
      else if \<not> VerifyCodeWithKey email token PasswordResetPurpose now (St_codes s)
      then (Some (Failed (Err ''the link is wrong or expired'')), s)
      else case GenerateVerificationCode uuid 12 of
        None \<Rightarrow> (None, s)
      | Some password \<Rightarrow>
          (case ResetUserPasswordByEmail E email password (St_world s) of
             (Some e, w) \<Rightarrow> (Some (Failed e), s\<lparr>St_world := w\<rparr>)
           | (None, w) \<Rightarrow> (Some (Done password),
               s\<lparr>St_world := w, St_codes := DeleteKey email PasswordResetPurpose (St_codes s)\<rparr>)))"

section \<open>The billing view of a token\<close>

text \<open>
  Whether the token or the user is shown. For the user the used quota is asked for only when the
  first query has failed. \<open>None\<close>: \<open>GetUsage\<close> reads through a nil token when its id is 0.
\<close>

definition display_amount :: "bool \<Rightarrow> World \<Rightarrow> int \<Rightarrow> float64" where
  "display_amount inCurrency w quota =
     (if inCurrency then fdiv (fl_int quota) (QuotaPerUnit (cfg w)) else fl_int quota)"

definition GetSubscription :: "bool \<Rightarrow> bool \<Rightarrow> int \<Rightarrow> int \<Rightarrow> World \<Rightarrow> (float64 \<times> int) Reply \<times> World" where
  "GetSubscription tokenStat inCurrency tokenId uid w =
     (let answer = (\<lambda>remain used expired unlimited w1.
        (Done (if unlimited then fl_int 100000000 else display_amount inCurrency w1 (i64 (remain + used)),
               if expired \<le> 0 then 0 else expired), w1))
      in if tokenStat then (case GetTokenById tokenId w of
             (Inl e, w1) \<Rightarrow> (Failed e, w1)
           | (Inr t, w1) \<Rightarrow> answer (Token_RemainQuota t) (Token_UsedQuota t) (Token_ExpiredTime t) (Token_UnlimitedQuota t) w1)
         else (case GetUserQuota uid w of
             (Inr remain, w1) \<Rightarrow> answer remain 0 0 False w1
           | (Inl e, w1) \<Rightarrow> (case GetUserUsedQuota uid w1 of
                 (Inl e2, w2) \<Rightarrow> (Failed e2, w2)
               | (Inr used, w2) \<Rightarrow> answer 0 used 0 False w2)))"

definition GetUsage :: "bool \<Rightarrow> bool \<Rightarrow> int \<Rightarrow> int \<Rightarrow> World \<Rightarrow> float64 Reply option \<times> World" where
  "GetUsage tokenStat inCurrency tokenId uid w =
     (let answer = (\<lambda>quota w1. (Some (Done (fmul (display_amount inCurrency w1 quota) (fl_int 100))), w1))
      in if tokenStat then
           (if tokenId = 0 then (None, w)
            else case GetTokenById tokenId w of
              (Inl e, w1) \<Rightarrow> (Some (Failed e), w1)
            | (Inr t, w1) \<Rightarrow> answer (Token_UsedQuota t) w1)
         else (case GetUserUsedQuota uid w of
             (Inl e, w1) \<Rightarrow> (Some (Failed e), w1)
           | (Inr quota, w1) \<Rightarrow> answer quota w1))"

definition GetGroups :: "Ratios \<Rightarrow> string list" where
  "GetGroups R = map fst (GroupRatio R)"

section \<open>Passkeys of other users\<close>

definition AdminDeleteUserPasskey :: "string \<Rightarrow> string \<Rightarrow> World \<Rightarrow> unit Reply \<times> World" where
  "AdminDeleteUserPasskey idText credText w = (case (go_atoi idText, go_atoi credText) of
       (Some uid, Some credId) \<Rightarrow>
         if uid = 0 then (Failed (Err ''passkey not found''), w)
         else (case GetPasskeyByIdForUser credId uid w of
             (Inl e, w1) \<Rightarrow> (Failed (if e = ErrRecordNotFound then Err ''passkey not found'' else e), w1)
           | (Inr row, w1) \<Rightarrow> (case AdminDeletePasskey (Passkey_Id row) w1 of
                 (Some e, w2) \<Rightarrow> (Failed e, w2) | (None, w2) \<Rightarrow> (Done (), w2)))
     | _ \<Rightarrow> (Failed (Err ''passkey not found''), w))"

definition AdminClearUserPasskeys :: "string \<Rightarrow> World \<Rightarrow> unit Reply \<times> World" where
  "AdminClearUserPasskeys idText w = (case go_atoi idText of
       None \<Rightarrow> (Failed (Err ''passkey not found''), w)
     | Some uid \<Rightarrow>
         if uid = 0 then (Failed (Err ''passkey not found''), w)
         else (case DeleteAllPasskeysByUserId uid w of (Some e, w1) \<Rightarrow> (Failed e, w1) | (None, w1) \<Rightarrow> (Done (), w1)))"

section \<open>What these handlers promise\<close>

lemma insert_group_set: "set (insert_group g gs) = insert g (set gs)"
proof -
  have "set gs = set (takeWhile (\<lambda>h. group_less h g) gs) \<union> set (dropWhile (\<lambda>h. group_less h g) gs)"
    by (metis set_append takeWhile_dropWhile_id)
  then show ?thesis by (auto simp: insert_group_def)
qed

lemma group_less_trans: "group_less a b \<Longrightarrow> group_less b c \<Longrightarrow> group_less a c"
  by (auto simp: group_less_def)

lemma group_less_irrefl: "\<not> group_less a a"
  by (simp add: group_less_def)

lemma group_less_total: "\<not> group_less a b \<Longrightarrow> a \<noteq> b \<Longrightarrow> group_less b a"
  by (cases a; cases b) (auto simp: group_less_def)

lemma insert_group_sorted:
  assumes "sorted_wrt group_less gs"
  shows "sorted_wrt group_less (insert_group g gs)"
  using assms
proof (induction gs)
  case (Cons h gs)
  show ?case
  proof (cases "group_less h g")
    case True
    then have "insert_group g (h # gs) = h # insert_group g gs"
      using group_less_irrefl [of h] by (auto simp: insert_group_def)
    then show ?thesis using Cons True by (auto simp: insert_group_set)
  next
    case False
    have "insert_group g (h # gs) = (if h = g then h # gs else g # h # gs)"
    proof (cases "h = g")
      case False
      then have gh: "group_less g h" using group_less_total \<open>\<not> group_less h g\<close> by blast
      then have "g \<notin> set gs" using Cons.prems group_less_irrefl group_less_trans by fastforce
      then show ?thesis using False \<open>\<not> group_less h g\<close> by (simp add: insert_group_def)
    qed (use group_less_irrefl [of h] in \<open>simp add: insert_group_def\<close>)
    moreover have "group_less g k" if "h \<noteq> g" "k \<in> set (h # gs)" for k
      using that group_less_total [OF False] Cons.prems group_less_trans by fastforce
    ultimately show ?thesis using Cons.prems by auto
  qed
qed (simp add: insert_group_def)

lemma groups_sorted: "sorted_wrt group_less gs \<Longrightarrow> sorted_wrt group_less (fold insert_group xs gs)"
  by (induction xs arbitrary: gs) (auto simp: insert_group_sorted)

lemma groups_set: "set (fold insert_group xs gs) = set xs \<union> set gs"
  by (induction xs arbitrary: gs) (auto simp: insert_group_set)

lemma sorted_groups_distinct: "sorted_wrt group_less gs \<Longrightarrow> distinct gs"
  by (induction gs) (auto simp: group_less_irrefl)

text \<open>Rows split by a key sum up to the rows.\<close>

lemma sum_by_key:
  fixes f :: "'a \<Rightarrow> int"
  assumes "distinct gs" "k ` set xs \<subseteq> set gs"
  shows "(\<Sum>g\<leftarrow>gs. sum_list (map f (filter (\<lambda>x. k x = g) xs))) = sum_list (map f xs)"
  using assms(2)
proof (induction xs)
  case (Cons x xs)
  have "(\<Sum>g\<leftarrow>gs. if k x = g then f x else 0) = f x"
    using assms(1) Cons.prems by (simp add: sum_list_distinct_conv_sum_set)
  moreover have "sum_list (map f (filter (\<lambda>x. k x = g) (x # xs)))
      = (if k x = g then f x else 0) + sum_list (map f (filter (\<lambda>x. k x = g) xs))" for g by simp
  ultimately show ?case using Cons by (simp only: sum_list_addf) simp
qed simp

definition shown_on_dashboard :: "int \<Rightarrow> int \<Rightarrow> int \<Rightarrow> Log \<Rightarrow> bool" where
  "shown_on_dashboard uid a b l \<longleftrightarrow> Log_Type l = LogTypeConsume \<and> Log_UserId l = uid \<and> a \<le> Log_CreatedAt l \<and> Log_CreatedAt l \<le> b"

text \<open>
  C37. The dashboard of a user adds up: its rows are strictly ordered by day and model, and
  together they have exactly the requests, the quota and the tokens of the user's consumption in
  the span, whatever text the database gives a day.
\<close>

theorem dashboard_adds_up:
  assumes "SearchLogsByDayAndModel day uid a b w = (Inr xs, w')"
  shows "sorted_wrt group_less (map (\<lambda>x. (LS_Day x, LS_ModelName x)) xs)
    \<and> sum_list (map LS_RequestCount xs) = int (length (filter (shown_on_dashboard uid a b) (log_db w)))
    \<and> sum_list (map LS_Quota xs) = sum_list (map Log_Quota (filter (shown_on_dashboard uid a b) (log_db w)))
    \<and> sum_list (map LS_PromptTokens xs) = sum_list (map Log_PromptTokens (filter (shown_on_dashboard uid a b) (log_db w)))
    \<and> sum_list (map LS_CompletionTokens xs) = sum_list (map Log_CompletionTokens (filter (shown_on_dashboard uid a b) (log_db w)))"
proof -
  let ?rows = "filter (shown_on_dashboard uid a b) (log_db w)"
  let ?k = "\<lambda>l. (day (Log_CreatedAt l), Log_ModelName l)"
  let ?gs = "fold insert_group (map ?k ?rows) []"
  obtain v w0 where v: "io_fault w = (v, w0)" by fastforce
  have "log_db w0 = log_db w" using v by (auto simp: io_fault_def split: list.splits)
  moreover have "(\<lambda>l. Log_Type l = 2 \<and> Log_UserId l = uid \<and> a \<le> Log_CreatedAt l \<and> Log_CreatedAt l \<le> b) = shown_on_dashboard uid a b"
    by (simp add: fun_eq_iff shown_on_dashboard_def LogTypeConsume_def)
  ultimately have xs: "xs = map (statistic day ?rows) ?gs"
    using assms v by (auto simp: SearchLogsByDayAndModel_def log_query_def log_statistics_def split: bool.splits)
  have s: "sorted_wrt group_less ?gs" by (rule groups_sorted) simp
  have d: "distinct ?gs" using sorted_groups_distinct [OF s] .
  have k: "?k ` set ?rows \<subseteq> set ?gs" by (simp add: groups_set)
  have "map (\<lambda>x. (LS_Day x, LS_ModelName x)) xs = ?gs" by (simp add: xs statistic_def Let_def comp_def)
  moreover have "sum_list (map LS_RequestCount xs) = int (length ?rows)"
    using sum_by_key [OF d k, of "\<lambda>l. 1"] by (simp add: xs statistic_def Let_def comp_def sum_list_triv)
  moreover have "sum_list (map LS_Quota xs) = sum_list (map Log_Quota ?rows)"
    using sum_by_key [OF d k, of Log_Quota] by (simp add: xs statistic_def Let_def comp_def)
  moreover have "sum_list (map LS_PromptTokens xs) = sum_list (map Log_PromptTokens ?rows)"
    using sum_by_key [OF d k, of Log_PromptTokens] by (simp add: xs statistic_def Let_def comp_def)
  moreover have "sum_list (map LS_CompletionTokens xs) = sum_list (map Log_CompletionTokens ?rows)"
    using sum_by_key [OF d k, of Log_CompletionTokens] by (simp add: xs statistic_def Let_def comp_def)
  ultimately show ?thesis using s by presburger
qed

text \<open>
  C36. A password reset succeeds only with the code that was mailed for exactly this address and
  has not expired; it then gives the new password to the accounts of that address and no other,
  and no code of the address resets a password any more. When it fails nothing is changed.
\<close>

theorem password_reset_needs_code:
  "case ResetPassword E now uuid email token s of (r, s') \<Rightarrow>
    (case r of
       Some (Done password) \<Rightarrow>
         VerifyCodeWithKey email token PasswordResetPurpose now (St_codes s)
         \<and> (\<exists>hashed. AE_Password2Hash E password = Inr hashed
              \<and> db_users (db (St_world s')) = map (\<lambda>u. if User_Email u = email then u\<lparr>User_Password := hashed\<rparr> else u)
                    (db_users (db (St_world s))))
         \<and> (\<forall>now' token'. \<not> VerifyCodeWithKey email token' PasswordResetPurpose now' (St_codes s'))
     | _ \<Rightarrow> db (St_world s') = db (St_world s) \<and> St_codes s' = St_codes s)"
proof (cases "email = [] \<or> token = [] \<or> \<not> VerifyCodeWithKey email token PasswordResetPurpose now (St_codes s)
    \<or> GenerateVerificationCode uuid 12 = None")
  case True
  then show ?thesis by (auto simp: ResetPassword_def)
next
  case False
  then obtain password where p: "GenerateVerificationCode uuid 12 = Some password" by auto
  obtain r w where r: "ResetUserPasswordByEmail E email password (St_world s) = (r, w)" by fastforce
  have used: "\<not> VerifyCodeWithKey email t PasswordResetPurpose n (DeleteKey email PasswordResetPurpose m)" for t n m
    by (simp add: VerifyCodeWithKey_def DeleteKey_def delete_conv')
  show ?thesis
  proof (cases r)
    case (Some e)
    then have "db w = db (St_world s)" using r
      by (auto simp: ResetUserPasswordByEmail_def err_only_def dest: sql_update_Inl split: if_splits sum.splits prod.splits)
    then show ?thesis using False p r Some by (simp add: ResetPassword_def)
  next
    case None
    then obtain hashed n where h: "AE_Password2Hash E password = Inr hashed"
      and u: "sql_update db_users db_users_update (\<lambda>_. True) (\<lambda>u. User_Email u = email)
          (\<lambda>u. u\<lparr>User_Password := hashed\<rparr>) (St_world s) = (Inr n, w)"
      using r by (auto simp: ResetUserPasswordByEmail_def err_only_def split: if_splits sum.splits prod.splits)
    from sql_update_Inr [OF u]
    have "db_users (db w) = map (\<lambda>u. if User_Email u = email then u\<lparr>User_Password := hashed\<rparr> else u) (db_users (db (St_world s)))"
      by (simp add: update_where_def)
    then show ?thesis using False p r None h used by (simp add: ResetPassword_def)
  qed
qed

text \<open>A day's text for the witness: the number of the day, by letters.\<close>

definition day_letter :: "int \<Rightarrow> string" where
  "day_letter t = (if t < 86400 then ''a'' else if t < 172800 then ''b'' else ''c'')"

definition usage_row :: "int \<Rightarrow> int \<Rightarrow> string \<Rightarrow> int \<Rightarrow> Log" where
  "usage_row uid t model q =
     \<lparr>Log_UserId = uid, Log_Username = [], Log_CreatedAt = t, Log_Type = LogTypeConsume,
      Log_Content = LogRedeem 0, Log_ModelName = model, Log_TokenName = [], Log_Quota = q, Log_PromptTokens = 3,
      Log_CompletionTokens = 4, Log_ChannelId = 1, Log_IsStream = False, Log_SystemPromptReset = False\<rparr>"

definition usage_world :: World where
  "usage_world = (world_of demo_db [])\<lparr>log_db :=
     [usage_row 1 100000 ''m'' 5, usage_row 1 7 ''n'' 6, usage_row 2 7 ''n'' 50, usage_row 1 99000 ''m'' 8,
      usage_row 1 900000 ''m'' 70]\<rparr>"

theorem dashboard_adds_up_witness:
  "(case SearchLogsByDayAndModel day_letter 1 0 200000 usage_world of
      (Inl e, w') \<Rightarrow> False
    | (Inr xs, w') \<Rightarrow> map LS_Quota xs = [6, 13]
        \<and> sum_list (map LS_Quota xs) = sum_list (map Log_Quota (filter (shown_on_dashboard 1 0 200000) (log_db usage_world))))"
proof -
  obtain r w' where r: "SearchLogsByDayAndModel day_letter 1 0 200000 usage_world = (r, w')" by fastforce
  have "map_sum id (map LS_Quota) (fst (SearchLogsByDayAndModel day_letter 1 0 200000 usage_world)) = Inr [6, 13]"
    by code_simp
  with r obtain xs where xs: "r = Inr xs" "map LS_Quota xs = [6, 13]" by (cases r) auto
  from dashboard_adds_up [of day_letter 1 0 200000 usage_world xs w'] r xs show ?thesis by simp
qed

lemma find_update_first:
  "find Q rows = Some r \<Longrightarrow> find P rows = Some r \<Longrightarrow> Q (f r) \<Longrightarrow> find Q (update_where P f rows) = Some (f r)"
  by (induction rows) (auto split: if_splits dest: find_Some_mem)



end
