(* ===== verification/Options.thy ===== *)
theory Options
  imports SettingRegistry Console Ratio
begin

text \<open>
  Options (\<open>model/option.go\<close>, \<open>controller/option.go\<close>): the option table, the map in memory that the
  console shows, and the variables and settings that follow it. JSON is a parameter.
\<close>

section \<open>Variables\<close>

text \<open>
  The variables of \<open>common/config\<close> that options set and that are not fields of \<open>Config\<close>; Boolean
  and string variables by name.
\<close>

record OptionVars =
  OV_bool :: "string \<Rightarrow> bool"
  OV_string :: "string \<Rightarrow> string"
  OV_SMTPPort :: int
  OV_EmailDomainWhitelist :: "string list"
  OV_ChannelDisableThreshold :: float64
  OV_CryptoAdaptersEnabled :: "string list"

definition bool_variables :: "string list" where
  "bool_variables = [''PasswordRegisterEnabled'', ''PasswordLoginEnabled'', ''EmailVerificationEnabled'', ''GitHubOAuthEnabled'',
     ''OidcEnabled'', ''WeChatAuthEnabled'', ''TurnstileCheckEnabled'', ''RegisterEnabled'', ''EmailDomainRestrictionEnabled'',
     ''ApproximateTokenEnabled'', ''DisplayInCurrencyEnabled'', ''DisplayTokenStatEnabled'', ''PaymentEnabled'',
     ''StripeEnabled'', ''EpayEnabled'']"

definition string_variables :: "string list" where
  "string_variables = [''SMTPServer'', ''SMTPAccount'', ''SMTPFrom'', ''SMTPToken'', ''ServerAddress'', ''GitHubClientId'',
     ''GitHubClientSecret'', ''LarkClientId'', ''LarkClientSecret'', ''OidcClientId'', ''OidcClientSecret'', ''OidcWellKnown'',
     ''OidcAuthorizationEndpoint'', ''OidcTokenEndpoint'', ''OidcUserinfoEndpoint'', ''Footer'', ''SystemName'', ''Logo'',
     ''WeChatServerAddress'', ''WeChatServerToken'', ''WeChatAccountQRCodeImageURL'', ''MessagePusherAddress'',
     ''MessagePusherToken'', ''TurnstileSiteKey'', ''TurnstileSecretKey'', ''TopUpLink'', ''ChatLink'', ''Theme'',
     ''PaymentCallbackBaseURL'', ''PaymentReturnURL'']"

record 'j OptState =
  OS_world :: World
  OS_map :: "(string \<times> string) list"
  OS_vars :: OptionVars
  OS_ratios :: Ratios
  OS_registry :: "'j ConfigManager"

record 'j OptionEnv =
  OE_codec :: "'j Codec"
  OE_decode :: decoder
  OE_encode :: "(string \<times> float64) list \<Rightarrow> string option"

abbreviation set_cfg :: "(Config \<Rightarrow> Config) \<Rightarrow> 'j OptState \<Rightarrow> 'j OptState" where
  "set_cfg f s \<equiv> s\<lparr>OS_world := (OS_world s)\<lparr>cfg := f (cfg (OS_world s))\<rparr>\<rparr>"

abbreviation set_vars :: "(OptionVars \<Rightarrow> OptionVars) \<Rightarrow> 'j OptState \<Rightarrow> 'j OptState" where
  "set_vars f s \<equiv> s\<lparr>OS_vars := f (OS_vars s)\<rparr>"

text \<open>The value of \<open>x, _ := strconv.ParseFloat(s, 64)\<close>: 0 for no number, an infinity out of range.\<close>

definition float_value :: "(string \<Rightarrow> float64 option) \<Rightarrow> string \<Rightarrow> float64" where
  "float_value hexfloat s = (case parse_float hexfloat s of
       Some x \<Rightarrow> x
     | None \<Rightarrow> (case split_sign s of (neg, r) \<Rightarrow>
           if has_prefix (to_lower r) ''0x'' \<or> parse_decimal r = None then Fin 0
           else if neg then NInf else PInf))"

definition set_bool :: "string \<Rightarrow> bool \<Rightarrow> 'j OptState \<Rightarrow> 'j OptState" where
  "set_bool key b s =
     (if key = ''LogConsumeEnabled'' then set_cfg (LogConsumeEnabled_update (\<lambda>_. b)) s
      else if key = ''AutomaticDisableChannelEnabled'' then set_cfg (AutomaticDisableChannelEnabled_update (\<lambda>_. b)) s
      else if key = ''AutomaticEnableChannelEnabled'' then set_cfg (AutomaticEnableChannelEnabled_update (\<lambda>_. b)) s
      else if key \<in> set bool_variables then set_vars (OV_bool_update (\<lambda>f. f(key := b))) s
      else s)"

definition trimmed_names :: "string \<Rightarrow> string list" where
  "trimmed_names v = filter (\<lambda>n. n \<noteq> []) (map trim_space (split_on (CHR '','') v))"

definition set_variable :: "'j OptionEnv \<Rightarrow> string \<Rightarrow> string \<Rightarrow> 'j OptState \<Rightarrow> GoErr option \<times> 'j OptState" where
  "set_variable E key v s =
     (let number = atoi_value v; fval = float_value (CO_hexfloat (OE_codec E)) v;
          ratios = (\<lambda>update. case update (OE_decode E) v (OS_ratios s) of (e, R) \<Rightarrow> (e, s\<lparr>OS_ratios := R\<rparr>))
      in if key \<in> set string_variables then (None, set_vars (OV_string_update (\<lambda>f. f(key := v))) s)
         else if key = ''EmailDomainWhitelist'' then (None, set_vars (OV_EmailDomainWhitelist_update (\<lambda>_. split_on (CHR '','') v)) s)
         else if key = ''SMTPPort'' then (None, set_vars (OV_SMTPPort_update (\<lambda>_. number)) s)
         else if key = ''QuotaForNewUser'' then (None, set_cfg (QuotaForNewUser_update (\<lambda>_. number)) s)
         else if key = ''QuotaForInviter'' then (None, set_cfg (QuotaForInviter_update (\<lambda>_. number)) s)
         else if key = ''QuotaForInvitee'' then (None, set_cfg (QuotaForInvitee_update (\<lambda>_. number)) s)
         else if key = ''PreConsumedQuota'' then (None, set_cfg (PreConsumedQuota_update (\<lambda>_. number)) s)
         else if key = ''RetryTimes'' then (None, set_cfg (RetryTimes_update (\<lambda>_. number)) s)
         else if key = ''ModelRatio'' then ratios UpdateModelRatioByJSONString
         else if key = ''GroupRatio'' then ratios UpdateGroupRatioByJSONString
         else if key = ''CompletionRatio'' then ratios UpdateCompletionRatioByJSONString
         else if key = ''ChannelDisableThreshold'' then (None, set_vars (OV_ChannelDisableThreshold_update (\<lambda>_. fval)) s)
         else if key = ''QuotaPerUnit'' then (None, set_cfg (QuotaPerUnit_update (\<lambda>_. fval)) s)
         else if key = ''CryptoAdaptersEnabled'' then (None, set_vars (OV_CryptoAdaptersEnabled_update (\<lambda>_. trimmed_names v)) s)
         else (None, s))"

text \<open>The model reads the registered settings through \<open>Config\<close>; the program through their pointers.\<close>

definition live_setting :: "string \<Rightarrow> string \<Rightarrow> 'j ConfigManager \<Rightarrow> 'j FieldValue option" where
  "live_setting mname tag reg = (case map_of reg mname of
       Some (PtrTo fs) \<Rightarrow> map_option Fd_Value (find (\<lambda>f. field_key f = tag) fs)
     | _ \<Rightarrow> None)"

definition live_int :: "string \<Rightarrow> string \<Rightarrow> 'j ConfigManager \<Rightarrow> int \<Rightarrow> int" where
  "live_int mname tag reg d = (case live_setting mname tag reg of Some (FInt n k) \<Rightarrow> k | _ \<Rightarrow> d)"

definition live_config :: "'j ConfigManager \<Rightarrow> Config \<Rightarrow> Config" where
  "live_config reg c = c\<lparr>
     Checkin_DailyQuota := live_int ''checkin_setting'' ''daily_quota'' reg (Checkin_DailyQuota c),
     Checkin_StreakBonus := live_int ''checkin_setting'' ''streak_bonus'' reg (Checkin_StreakBonus c),
     Checkin_StreakCap := live_int ''checkin_setting'' ''streak_cap'' reg (Checkin_StreakCap c),
     Warn_Enabled := (case live_setting ''quota_warning'' ''enabled'' reg of Some (FBool b) \<Rightarrow> b | _ \<Rightarrow> Warn_Enabled c),
     Warn_ThresholdQuota := live_int ''quota_warning'' ''threshold_quota'' reg (Warn_ThresholdQuota c),
     Warn_CooldownHours := live_int ''quota_warning'' ''cooldown_hours'' reg (Warn_CooldownHours c)\<rparr>"

definition load_settings :: "'j OptionEnv \<Rightarrow> (string \<times> string) list \<Rightarrow> 'j OptState \<Rightarrow> 'j OptState" where
  "load_settings E options s =
     (let reg = LoadFromDB (OE_codec E) options (OS_registry s)
      in set_cfg (live_config reg) (s\<lparr>OS_registry := reg\<rparr>))"

definition updateOptionMap :: "'j OptionEnv \<Rightarrow> string \<Rightarrow> string \<Rightarrow> 'j OptState \<Rightarrow> GoErr option \<times> 'j OptState" where
  "updateOptionMap E key v s =
     (let s1 = s\<lparr>OS_map := AList.update key v (OS_map s)\<rparr>
      in if contains_str key ''.'' then (None, load_settings E [(key, v)] s1)
         else set_variable E key v (if has_suffix key ''Enabled'' then set_bool key (v = ''true'') s1 else s1))"

section \<open>The option table\<close>

definition AllOption :: "World \<Rightarrow> (GoErr + OptionRow list) \<times> World" where
  "AllOption w = sql_list_asc db_options (\<lambda>_. True) (- 1) w"

definition loadOptionsFromDatabase :: "'j OptionEnv \<Rightarrow> 'j OptState \<Rightarrow> 'j OptState" where
  "loadOptionsFromDatabase E s = (case AllOption (OS_world s) of (r, w1) \<Rightarrow>
     let options = (case r of Inl e \<Rightarrow> [] | Inr rows \<Rightarrow> rows);
         s2 = fold (\<lambda>x s. snd (updateOptionMap E (Option_Key x)
                (if Option_Key x = ''ModelRatio'' then AddNewMissingRatio (OE_decode E) (OE_encode E) (Option_Value x)
                 else Option_Value x) s)) options (s\<lparr>OS_world := w1\<rparr>)
     in load_settings E (OS_map s2) s2)"

text \<open>
  \<open>FirstOrCreate\<close>: GORM leaves zero fields out of the condition, so an empty key asks for the row
  with the least key.
\<close>

definition option_found :: "string \<Rightarrow> OptionRow list \<Rightarrow> OptionRow option" where
  "option_found key rows =
     (if key = [] then (case sort_key Option_Key rows of [] \<Rightarrow> None | x # _ \<Rightarrow> Some x)
      else find (\<lambda>x. Option_Key x = key) rows)"

definition FirstOrCreate_option :: "string \<Rightarrow> World \<Rightarrow> (GoErr + OptionRow) \<times> World" where
  "FirstOrCreate_option key w = (case io_fault w of
       (True, w1) \<Rightarrow> (Inl ErrDB, w1)
     | (False, w1) \<Rightarrow> (case option_found key (db_options (db w1)) of
           Some x \<Rightarrow> (Inr x, w1)
         | None \<Rightarrow>
             let x = \<lparr>Option_Key = key, Option_Value = []\<rparr>
             in (case sql_insert db_options db_options_update (\<lambda>y. Option_Key y = key) x w1 of
                   (Inl e, w2) \<Rightarrow> (Inl e, w2) | (Inr _, w2) \<Rightarrow> (Inr x, w2))))"

text \<open>\<open>Save\<close> of a row without a key is an insertion.\<close>

definition Save_option :: "OptionRow \<Rightarrow> World \<Rightarrow> (GoErr + unit) \<times> World" where
  "Save_option x w =
     (if Option_Key x = [] then sql_insert db_options db_options_update (\<lambda>y. Option_Key y = []) x w
      else sql_save db_options db_options_update Option_Key x w)"

definition UpdateOption :: "'j OptionEnv \<Rightarrow> string \<Rightarrow> string \<Rightarrow> 'j OptState \<Rightarrow> GoErr option \<times> 'j OptState" where
  "UpdateOption E key v s = (case FirstOrCreate_option key (OS_world s) of (r, w1) \<Rightarrow>
     let x = (case r of Inl e \<Rightarrow> \<lparr>Option_Key = key, Option_Value = []\<rparr> | Inr y \<Rightarrow> y);
         w2 = snd (Save_option (x\<lparr>Option_Value := v\<rparr>) w1)
     in updateOptionMap E key v (s\<lparr>OS_world := w2\<rparr>))"

text \<open>The batch in the order in which the map is walked.\<close>

fun write_options :: "(string \<times> string) list \<Rightarrow> World \<Rightarrow> (GoErr + unit) \<times> World" where
  "write_options [] w = (Inr (), w)"
| "write_options ((key, v) # rest) w = (case FirstOrCreate_option key w of
      (Inl e, w1) \<Rightarrow> (Inl e, w1)
    | (Inr x, w1) \<Rightarrow> (case Save_option (x\<lparr>Option_Value := v\<rparr>) w1 of
          (Inl e, w2) \<Rightarrow> (Inl e, w2)
        | (Inr _, w2) \<Rightarrow> write_options rest w2))"

fun apply_options :: "'j OptionEnv \<Rightarrow> (string \<times> string) list \<Rightarrow> 'j OptState \<Rightarrow> GoErr option \<times> 'j OptState" where
  "apply_options E [] s = (None, s)"
| "apply_options E ((key, v) # rest) s = (case updateOptionMap E key v s of
      (Some e, s1) \<Rightarrow> (Some e, loadOptionsFromDatabase E s1)
    | (None, s1) \<Rightarrow> apply_options E rest s1)"

definition UpdateOptions :: "'j OptionEnv \<Rightarrow> (string \<times> string) list \<Rightarrow> 'j OptState \<Rightarrow> GoErr option \<times> 'j OptState" where
  "UpdateOptions E options s =
     (if options = [] then (None, s)
      else case sql_transaction (write_options options) (OS_world s) of
        (Inl e, w1) \<Rightarrow> (Some e, s\<lparr>OS_world := w1\<rparr>)
      | (Inr _, w1) \<Rightarrow> apply_options E options (s\<lparr>OS_world := w1\<rparr>))"

text \<open>The map at start-up, before the table is read over it.\<close>

definition initial_options :: "'j OptionEnv \<Rightarrow> 'j OptState \<Rightarrow> (string \<times> string) list" where
  "initial_options E s =
     (let c = cfg (OS_world s); V = OS_vars s; R = OS_ratios s; C = OE_codec E;
          b = (\<lambda>n. (n, FormatBool (OV_bool V n)));
          v = (\<lambda>n. (n, OV_string V n));
          e = (\<lambda>n. (n, []));
          r = (\<lambda>t. case OE_encode E t of None \<Rightarrow> [] | Some j \<Rightarrow> j)
      in map b bool_variables @
         [(''AutomaticDisableChannelEnabled'', FormatBool (AutomaticDisableChannelEnabled c)),
          (''AutomaticEnableChannelEnabled'', FormatBool (AutomaticEnableChannelEnabled c)),
          (''LogConsumeEnabled'', FormatBool (LogConsumeEnabled c)),
          (''ChannelDisableThreshold'', CO_format C (OV_ChannelDisableThreshold V)),
          (''EmailDomainWhitelist'', join_with '','' (OV_EmailDomainWhitelist V)),
          (''SMTPPort'', show_int (OV_SMTPPort V))] @
         map e [''SMTPServer'', ''SMTPFrom'', ''SMTPAccount'', ''SMTPToken'', ''Notice'', ''About'', ''HomePageContent'',
           ''ServerAddress'', ''GitHubClientId'', ''GitHubClientSecret'', ''WeChatServerAddress'', ''WeChatServerToken'',
           ''WeChatAccountQRCodeImageURL'', ''MessagePusherAddress'', ''MessagePusherToken'', ''TurnstileSiteKey'',
           ''TurnstileSecretKey''] @
         map v [''Footer'', ''SystemName'', ''Logo'', ''TopUpLink'', ''ChatLink'', ''Theme'', ''PaymentCallbackBaseURL'',
           ''PaymentReturnURL''] @
         [(''QuotaForNewUser'', show_int (QuotaForNewUser c)), (''QuotaForInviter'', show_int (QuotaForInviter c)),
          (''QuotaForInvitee'', show_int (QuotaForInvitee c)), (''PreConsumedQuota'', show_int (PreConsumedQuota c)),
          (''ModelRatio'', r (ModelRatio R)), (''GroupRatio'', r (GroupRatio R)),
          (''CompletionRatio'', r (CompletionRatio R)), (''QuotaPerUnit'', CO_format C (QuotaPerUnit c)),
          (''RetryTimes'', show_int (RetryTimes c)),
          (''CryptoAdaptersEnabled'', join_with '','' (OV_CryptoAdaptersEnabled V))] @
         ExportAllConfigs C (OS_registry s))"

definition InitOptionMap :: "'j OptionEnv \<Rightarrow> 'j OptState \<Rightarrow> 'j OptState" where
  "InitOptionMap E s = loadOptionsFromDatabase E (s\<lparr>OS_map := initial_options E s\<rparr>)"

section \<open>Handlers\<close>

definition GetOptions :: "'j OptState \<Rightarrow> (string \<times> string) list" where
  "GetOptions s = filter (\<lambda>(k, v). \<not> (has_suffix k ''Token'' \<or> has_suffix k ''Secret'')) (OS_map s)"

definition ValidThemes :: "string list" where
  "ValidThemes = [''wavy'']"

text \<open>The answer is the message of the rejection; \<open>writes\<close> are all writes of the request.\<close>

definition optionUpdateRejection ::
  "OptionVars \<Rightarrow> string \<Rightarrow> string \<Rightarrow> (string \<times> string) list \<Rightarrow> string option" where
  "optionUpdateRejection V key v writes =
     (let effective = (\<lambda>dep current. case map_of writes dep of Some x \<Rightarrow> x | None \<Rightarrow> current);
          missing = (\<lambda>dep. effective dep (OV_string V dep) = [])
      in if key = ''Theme'' then (if v \<in> set ValidThemes then None else Some ''invalid theme'')
         else if v \<noteq> ''true'' then None
         else if key = ''GitHubOAuthEnabled'' then
           (if missing ''GitHubClientId'' \<or> missing ''GitHubClientSecret'' then Some ''GitHub credentials first'' else None)
         else if key = ''EmailDomainRestrictionEnabled'' then
           (if effective ''EmailDomainWhitelist'' (join_with '','' (OV_EmailDomainWhitelist V)) = []
            then Some ''mail domains first'' else None)
         else if key = ''WeChatAuthEnabled'' then
           (if missing ''WeChatServerAddress'' then Some ''WeChat server first'' else None)
         else if key = ''TurnstileCheckEnabled'' then
           (if missing ''TurnstileSiteKey'' then Some ''Turnstile key first'' else None)
         else None)"

definition handle_UpdateOption :: "'j OptionEnv \<Rightarrow> (string \<times> string) option \<Rightarrow> 'j OptState \<Rightarrow> unit Reply \<times> 'j OptState" where
  "handle_UpdateOption E req s = (case req of
       None \<Rightarrow> (Failed (Err ''invalid_parameter''), s)
     | Some (key, v) \<Rightarrow> (case optionUpdateRejection (OS_vars s) key v [(key, v)] of
           Some m \<Rightarrow> (Failed (Err m), s)
         | None \<Rightarrow> (case UpdateOption E key v s of
               (Some e, s1) \<Rightarrow> (Failed e, s1) | (None, s1) \<Rightarrow> (Done (), s1))))"

definition first_rejection :: "OptionVars \<Rightarrow> (string \<times> string) list \<Rightarrow> string option" where
  "first_rejection V keys = (case List.map_filter (\<lambda>(k, v). optionUpdateRejection V k v keys) keys of
       [] \<Rightarrow> None | m # _ \<Rightarrow> Some m)"

definition UpdateOptionsBatch :: "'j OptionEnv \<Rightarrow> (string \<times> string) list option \<Rightarrow> 'j OptState \<Rightarrow> unit Reply \<times> 'j OptState" where
  "UpdateOptionsBatch E req s = (case req of
       None \<Rightarrow> (Failed (Err ''invalid_parameter''), s)
     | Some keys \<Rightarrow>
         if keys = [] then (Failed (Err ''invalid_parameter''), s)
         else (case first_rejection (OS_vars s) keys of
             Some m \<Rightarrow> (Failed (Err m), s)
           | None \<Rightarrow> (case UpdateOptions E keys s of
                 (Some e, s1) \<Rightarrow> (Failed e, s1) | (None, s1) \<Rightarrow> (Done (), s1))))"

section \<open>The database is what the statements make it\<close>

definition option_value :: "Database \<Rightarrow> string \<Rightarrow> string option" where
  "option_value d k = map_option Option_Value (find (\<lambda>x. Option_Key x = k) (db_options d))"

lemma load_settings_db [simp]: "db (OS_world (load_settings E opts s)) = db (OS_world s)"
  by (simp add: load_settings_def Let_def)

lemma set_bool_db [simp]: "db (OS_world (set_bool key b s)) = db (OS_world s)"
  by (simp add: set_bool_def)

lemma set_variable_db [simp]: "db (OS_world (snd (set_variable E key v s))) = db (OS_world s)"
  by (simp add: set_variable_def Let_def split: prod.splits)

lemma updateOptionMap_db [simp]: "db (OS_world (snd (updateOptionMap E key v s))) = db (OS_world s)"
  by (simp add: updateOptionMap_def Let_def)

lemma loadOptionsFromDatabase_db [simp]: "db (OS_world (loadOptionsFromDatabase E s)) = db (OS_world s)"
proof -
  obtain r w1 where r: "AllOption (OS_world s) = (r, w1)" by fastforce
  have f: "db (OS_world (fold (\<lambda>x s. snd (updateOptionMap E (k x) (v x) s)) xs t)) = db (OS_world t)"
    for xs k v and t :: "'a OptState" by (induction xs arbitrary: t) simp_all
  have "db w1 = db (OS_world s)" using r sql_list_asc_frame unfolding AllOption_def by blast
  then show ?thesis by (simp add: loadOptionsFromDatabase_def r Let_def f)
qed

lemma apply_options_db [simp]: "db (OS_world (snd (apply_options E opts s))) = db (OS_world s)"
proof (induction E opts s rule: apply_options.induct)
  case (2 E key v rest s)
  obtain r s1 where u: "updateOptionMap E key v s = (r, s1)" by fastforce
  then have "db (OS_world s1) = db (OS_world s)" using updateOptionMap_db [of E key v s] by simp
  with 2 u show ?case by (cases r) simp_all
qed simp

text \<open>One write.\<close>

lemma find_append_one: "find P (rows @ [x]) = (case find P rows of None \<Rightarrow> if P x then Some x else None | Some y \<Rightarrow> Some y)"
  by (induction rows) auto

lemma find_other_updated:
  "k \<noteq> Option_Key o' \<Longrightarrow> find (\<lambda>x. Option_Key x = k) (update_where (\<lambda>x. Option_Key x = Option_Key o') (\<lambda>_. o') rows)
     = find (\<lambda>x. Option_Key x = k) rows"
  by (induction rows) auto

lemma find_same_updated:
  "list_ex (\<lambda>x. Option_Key x = Option_Key o') rows \<Longrightarrow>
     find (\<lambda>x. Option_Key x = Option_Key o') (update_where (\<lambda>x. Option_Key x = Option_Key o') (\<lambda>_. o') rows) = Some o'"
  by (induction rows) auto

lemma find_absent: "\<not> list_ex P rows \<Longrightarrow> find P rows = None"
  by (induction rows) auto

lemma find_saved:
  "find (\<lambda>x. Option_Key x = k) (if list_ex (\<lambda>x. Option_Key x = Option_Key o') rows
       then update_where (\<lambda>x. Option_Key x = Option_Key o') (\<lambda>_. o') rows else rows @ [o'])
   = (if k = Option_Key o' then Some o' else find (\<lambda>x. Option_Key x = k) rows)"
  using find_other_updated [of k o' rows] find_same_updated [of o' rows] find_absent [of "\<lambda>x. Option_Key x = k" rows]
  by (cases "k = Option_Key o'") (auto simp: find_append_one split: option.splits)

lemma option_value_saved:
  assumes "Save_option o' w = (Inr u, w')" "Option_Key o' \<noteq> []"
  shows "option_value (db w') k = (if k = Option_Key o' then Some (Option_Value o') else option_value (db w) k)"
proof -
  from assms have "db w' = db_options_update (\<lambda>rows. if list_ex (\<lambda>x. Option_Key x = Option_Key o') rows
      then update_where (\<lambda>x. Option_Key x = Option_Key o') (\<lambda>_. o') rows else rows @ [o']) (db w)"
    using sql_save_Inr [of db_options db_options_update Option_Key o' w u w'] by (simp add: Save_option_def)
  then show ?thesis by (simp add: option_value_def find_saved)
qed

lemma found_key: "option_found key rows = Some x \<Longrightarrow> key \<noteq> [] \<Longrightarrow> Option_Key x = key"
  by (auto simp: option_found_def dest: find_Some_mem)

lemma FirstOrCreate_value:
  assumes "FirstOrCreate_option key w = (Inr x, w')" "key \<noteq> []"
  shows "Option_Key x = key \<and> (\<forall>k. k \<noteq> key \<longrightarrow> option_value (db w') k = option_value (db w) k)"
proof -
  obtain f w1 where f: "io_fault w = (f, w1)" by fastforce
  then have w1: "db w1 = db w" using io_fault_frame by blast
  have "\<not> f" using assms f by (cases f) (auto simp: FirstOrCreate_option_def)
  with f have f0: "io_fault w = (False, w1)" by simp
  show ?thesis
  proof (cases "option_found key (db_options (db w1))")
    case (Some y)
    then show ?thesis using assms f0 w1 found_key [of key] by (auto simp: FirstOrCreate_option_def)
  next
    case None
    let ?x = "\<lparr>Option_Key = key, Option_Value = []\<rparr>"
    obtain i w2 where i: "sql_insert db_options db_options_update (\<lambda>y. Option_Key y = key) ?x w1 = (i, w2)" by fastforce
    have F: "FirstOrCreate_option key w = (case i of Inl e \<Rightarrow> (Inl e, w2) | Inr _ \<Rightarrow> (Inr ?x, w2))"
      unfolding FirstOrCreate_option_def f0 prod.case bool.case None option.case Let_def i ..
    have G: "(case i of Inl e \<Rightarrow> (Inl e, w2) | Inr _ \<Rightarrow> (Inr ?x, w2)) = (Inr x, w')" using F assms(1) by (rule subst)
    then obtain u where u: "i = Inr u" by (cases i) auto
    from G have "?x = x \<and> w2 = w'" unfolding u sum.case prod.inject sum.inject .
    then have x: "x = ?x" "w' = w2" by (blast, blast)
    then have "db w' = db_options_update (\<lambda>rows. rows @ [?x]) (db w)"
      using sql_insert_Inr [of db_options db_options_update "\<lambda>y. Option_Key y = key" ?x w1 u w2] i w1 u x(2) by simp
    then show ?thesis using x(1) by (simp add: option_value_def find_append_one split: option.splits)
  qed
qed

lemma write_options_values:
  "write_options opts w = (Inr u, w') \<Longrightarrow> distinct (map fst opts) \<Longrightarrow> [] \<notin> fst ` set opts \<Longrightarrow>
     option_value (db w') k = (case map_of opts k of Some v \<Rightarrow> Some v | None \<Rightarrow> option_value (db w) k)"
proof (induction opts w rule: write_options.induct)
  case (2 key v rest w)
  obtain r w1 where r: "FirstOrCreate_option key w = (r, w1)" by fastforce
  with 2 obtain x where x: "r = Inr x" by (cases r) auto
  have key: "key \<noteq> []" using 2 by auto
  from FirstOrCreate_value [of key w x w1] r x key have fx: "Option_Key x = key"
    "\<And>k. k \<noteq> key \<Longrightarrow> option_value (db w1) k = option_value (db w) k" by auto
  obtain t w2 where t: "Save_option (x\<lparr>Option_Value := v\<rparr>) w1 = (t, w2)" by fastforce
  with 2 r x obtain y where y: "t = Inr y" by (cases t) auto
  have sv: "option_value (db w2) k = (if k = key then Some v else option_value (db w1) k)"
    using option_value_saved [of "x\<lparr>Option_Value := v\<rparr>" w1 y w2 k] t y fx key by simp
  have "write_options rest w2 = (Inr u, w')" using 2 r x t y by simp
  moreover have "distinct (map fst rest)" "[] \<notin> fst ` set rest" "map_of rest key = None"
    using 2 by (auto simp: map_of_eq_None_iff)
  ultimately show ?case using "2.IH" [of "Inr x" w1 x "Inr y" w2] r x t y sv fx
    by (auto split: option.splits)
qed simp

text \<open>The memory follows.\<close>

lemma set_bool_map [simp]: "OS_map (set_bool key b s) = OS_map s"
  by (simp add: set_bool_def)

lemma set_variable_map [simp]: "OS_map (snd (set_variable E key v s)) = OS_map s"
  by (simp add: set_variable_def Let_def split: prod.splits)

lemma updateOptionMap_map [simp]: "OS_map (snd (updateOptionMap E key v s)) = AList.update key v (OS_map s)"
  by (simp add: updateOptionMap_def load_settings_def Let_def)

lemma apply_options_map:
  "apply_options E opts s = (None, s') \<Longrightarrow> distinct (map fst opts) \<Longrightarrow>
     map_of (OS_map s') k = (case map_of opts k of Some v \<Rightarrow> Some v | None \<Rightarrow> map_of (OS_map s) k)"
proof (induction E opts s rule: apply_options.induct)
  case (2 E key v rest s)
  obtain r s1 where u: "updateOptionMap E key v s = (r, s1)" by fastforce
  then have m: "OS_map s1 = AList.update key v (OS_map s)" using updateOptionMap_map [of E key v s] by simp
  from 2(2) u have r: "r = None" "apply_options E rest s1 = (None, s')" by (cases r; simp)+
  have "map_of rest key = None" "distinct (map fst rest)" using 2(3) by (auto simp: map_of_eq_None_iff)
  with 2(1) [OF u [symmetric] r(1) r(2)] m show ?case by (auto simp: update_conv' split: option.splits)
qed simp


text \<open>
  C40. The filter of secrets compares the end of a key with \<open>Token\<close> and \<open>Secret\<close> as they are
  written: no such key is shown, but the client secret of the Google sign-in, whose key ends in
  \<open>_secret\<close>, is shown in clear from the moment it is set.
\<close>

theorem google_secret_listed:
  "(''google_setting.client_secret'', secret) \<in>
      set (GetOptions (snd (UpdateOption E ''google_setting.client_secret'' secret s)))
   \<and> (\<forall>k v p. (p @ ''Secret'', v) \<notin> set (GetOptions s) \<and> (p @ ''Token'', v) \<notin> set (GetOptions s))"
proof -
  let ?key = "''google_setting.client_secret''"
  obtain r w1 where r: "FirstOrCreate_option ?key (OS_world s) = (r, w1)" by fastforce
  have "OS_map (snd (UpdateOption E ?key secret s)) = AList.update ?key secret (OS_map s)"
    by (simp add: UpdateOption_def Let_def r)
  then have "(?key, secret) \<in> set (OS_map (snd (UpdateOption E ?key secret s)))"
    using map_of_SomeD [of "AList.update ?key secret (OS_map s)" ?key secret] by (simp add: update_conv')
  then show ?thesis using has_suffix_append by (auto simp: GetOptions_def has_suffix_def)
qed

definition plain_env :: "unit OptionEnv" where
  "plain_env = \<lparr>OE_codec = no_codec,
     OE_decode = (\<lambda>s. if s = ''bad'' then ([], Some (Err ''invalid JSON'')) else ([(''m'', Fin 2)], None)),
     OE_encode = (\<lambda>t. Some [])\<rparr>"

definition option_state :: "bool list \<Rightarrow> unit OptState" where
  "option_state fs =
     \<lparr>OS_world = world_of (demo_db\<lparr>db_options := [\<lparr>Option_Key = ''Notice'', Option_Value = ''old''\<rparr>]\<rparr>) fs,
      OS_map = [(''Notice'', ''old'')],
      OS_vars = \<lparr>OV_bool = (\<lambda>n. False), OV_string = (\<lambda>n. []), OV_SMTPPort = 587, OV_EmailDomainWhitelist = [],
        OV_ChannelDisableThreshold = Fin 5, OV_CryptoAdaptersEnabled = []\<rparr>,
      OS_ratios = \<lparr>ModelRatio = [], CompletionRatio = [], GroupRatio = []\<rparr>,
      OS_registry = GlobalConfig\<rparr>"

definition option_batch :: "(string \<times> string) list" where
  "option_batch = [(''Notice'', ''new''), (''RetryTimes'', ''3''), (''checkin_setting.daily_quota'', ''40'')]"


text \<open>A write of an option without a key overwrites the option with the least key.\<close>

lemma empty_key_overwrites:
  "option_value (db (OS_world (snd (UpdateOption plain_env [] ''x'' (option_state []))))) ''Notice'' = Some ''x''"
  by code_simp

text \<open>A write that the database refuses is answered as a success and undone by the next synchronisation.\<close>

lemma unsaved_option_reported:
  "fst (UpdateOption plain_env ''Notice'' ''new'' (option_state [True, True])) = None
   \<and> map_of (OS_map (snd (UpdateOption plain_env ''Notice'' ''new'' (option_state [True, True])))) ''Notice'' = Some ''new''
   \<and> map_of (OS_map (loadOptionsFromDatabase plain_env
        (snd (UpdateOption plain_env ''Notice'' ''new'' (option_state [True, True]))))) ''Notice'' = Some ''old''"
  by code_simp

text \<open>Whether a batch is rejected does not depend on the order in which it is walked.\<close>

lemma first_rejection_iff: "first_rejection V keys = None \<longleftrightarrow> (\<forall>(k, v) \<in> set keys. optionUpdateRejection V k v keys = None)"
proof -
  have "first_rejection V keys = None \<longleftrightarrow> List.map_filter (\<lambda>(k, v). optionUpdateRejection V k v keys) keys = []"
    by (simp add: first_rejection_def split: list.splits)
  also have "\<dots> \<longleftrightarrow> (\<forall>(k, v) \<in> set keys. optionUpdateRejection V k v keys = None)"
    by (auto simp: List.map_filter_def filter_empty_conv)
  finally show ?thesis .
qed

lemma rejection_order:
  assumes "distinct (map fst keys)" "set keys' = set keys" "distinct (map fst keys')"
  shows "first_rejection V keys' = None \<longleftrightarrow> first_rejection V keys = None"
proof -
  have "map_of keys' = map_of keys" using map_of_inject_set [OF assms(3,1)] assms(2) by simp
  then show ?thesis using assms(2) by (simp add: first_rejection_iff optionUpdateRejection_def)
qed

end
