(* ===== verification/Spec2Isabelle.thy ===== *)
theory Spec2Isabelle
  imports Seedance CheckinModel Charge Ratio RelayLoop RateLimit Verification PaymentWeb Video Options
begin

text \<open>
  A verification development for the gateway, a Go program that sells access to model providers:
  users hold a balance in quota units, tokens (API keys) may hold a limit of their own, requests
  and video tasks reserve quota and settle it, and top-up orders, redemption codes and daily
  check-ins add to balances.

  \<^bold>\<open>Conventions.\<close> A GORM model is a record (fields \<open><Table>_<Field>\<close>), a table a list of rows, and
  a process the record \<open>World\<close>: database, log database, Redis, configuration, clock, deferred
  batch updates, mails sent, and the list \<open>faults\<close> that says which of the coming database and
  Redis calls fail. A theorem for all worlds is therefore a theorem for every pattern of failures.
  Go's \<open>int\<close> and \<open>int64\<close> are \<open>int\<close> with the wrap-around written out by \<open>i64\<close>; \<open>float64\<close> is the
  binary64 format of \<open>GoFloat\<close>, with round-to-nearest-even and without fused operations. An error
  is \<open>Inl\<close> of a sum, or \<open>Some\<close> where only an error is returned; a Go panic is \<open>Panic\<close> or \<open>None\<close>.
  Goroutines that the code starts and does not wait for are returned as a list of jobs and run
  after the handler. Third-party code is an argument: the tokenizer, JSON decoding, the provider
  adaptors and their HTTP exchanges, the random source, the zone offset.

  \<^bold>\<open>Theories.\<close>
  \<^item> \<open>GoPrelude\<close>: wrap-around, Go's truncating division, strings, rows and updates, the
    \<open>named_theorems\<close> collections. \<open>GoFloat\<close>: binary64 arithmetic and its bounds.
  \<^item> \<open>Store\<close>: the records of \<open>model/\<close>, the statements (\<open>sql_first\<close>, \<open>sql_update\<close>, \<open>sql_save\<close>,
    \<open>sql_transaction\<close>), Redis, and their frame lemmas.
  \<^item> \<open>Wallet\<close> (\<open>model/user.go\<close>, \<open>model/cache.go\<close>), \<open>QuotaWarning\<close> (\<open>model/quota_warning.go\<close>),
    \<open>TokenLedger\<close> (\<open>model/token.go\<close>: reservation), \<open>ConcurrentReserve\<close> (the reservation as a step
    relation over interleaved statements), \<open>Settle\<close> (settlement and the batch updater of
    \<open>model/utils.go\<close>).
  \<^item> \<open>TaskModel\<close> (\<open>model/task.go\<close>, \<open>relay/task/billing.go\<close>), \<open>Poller\<close> (\<open>relay/task/poller.go\<close>,
    racing pollers as a step relation), \<open>Seedance\<close> (\<open>relay/task/seedance/adaptor.go\<close>), \<open>Charge\<close>
    (\<open>relay/task/billing.go\<close>, pricing).
  \<^item> \<open>Topup\<close> (\<open>model/topup.go\<close>), \<open>Redeem\<close> (\<open>model/redemption.go\<close>), \<open>Calendar\<close> and \<open>CheckinModel\<close>
    (\<open>model/checkin.go\<close>).
  \<^item> \<open>RatioTables\<close> and \<open>Ratio\<close> (\<open>relay/billing/ratio\<close>), \<open>TokenCount\<close>
    (\<open>relay/adaptor/openai/token.go\<close>).
  \<^item> \<open>RelayMeta\<close> (channel types, relay modes, request metadata, error conversion), \<open>RelayBilling\<close>
    (\<open>relay/billing/billing.go\<close> and the quota part of \<open>relay/controller/helper.go\<close>), \<open>RelayText\<close>,
    \<open>RelayImage\<close>, \<open>RelayAudio\<close> (the handlers of \<open>relay/controller\<close>).
  \<^item> \<open>ChannelRouting\<close> (\<open>model/channel.go\<close>, \<open>model/ability.go\<close>, the routing part of \<open>model/cache.go\<close>),
    \<open>Monitor\<close> (\<open>monitor/\<close>, the test of all channels of \<open>controller/channel-test.go\<close>).
  \<^item> \<open>RateLimit\<close> (\<open>common/rate-limit.go\<close>, \<open>middleware/rate-limit.go\<close>), \<open>Verification\<close>
    (\<open>common/verification.go\<close>), \<open>Authorize\<close> (\<open>middleware/auth.go\<close>, \<open>middleware/utils.go\<close>, the ban list,
    address ranges), \<open>RelayLoop\<close> (\<open>middleware/distributor.go\<close>, \<open>controller/relay.go\<close>: attempts and
    retries, with the goroutines they start).
  \<^item> \<open>Decimal\<close> (Go's decimal texts), \<open>Payment\<close> (\<open>service/payment\<close>: EPay, Stripe, NOWPayments and the
    registry of crypto adapters), \<open>PaymentWeb\<close> (\<open>controller/topup*.go\<close>).
  \<^item> \<open>Sessions\<close> (cookies and the answers of the console), \<open>Passkeys\<close> (\<open>model/passkey.go\<close>),
    \<open>Accounts\<close> (\<open>model/user.go\<close>: accounts), \<open>AccountWeb\<close> (\<open>controller/user.go\<close>), \<open>TwoFactor\<close>
    (\<open>service/twofa\<close>, \<open>controller/twofa.go\<close>).
  \<^item> \<open>Video\<close> (\<open>controller/video.go\<close>, \<open>relay/task/video.go\<close>), \<open>TokenAdmin\<close> (the rest of
    \<open>model/token.go\<close>, \<open>controller/token.go\<close>), \<open>Console\<close> (lists, logs, redemption codes, channels,
    check-in, mail codes and password reset, billing view, passkeys of other users).
  \<^item> \<open>SettingRegistry\<close> (\<open>setting/\<close>: typed settings and their registry),
    \<open>Options\<close> (\<open>model/option.go\<close>, \<open>controller/option.go\<close>).

  \<^bold>\<open>What the lemmas show.\<close> The ledger theories: each operation moves exactly its amount on every
  branch, no interleaving overspends, and what is lost when a write fails. Orders, codes and
  check-ins: over any sequence of attempts each pays at most once and the sum of balances moves
  by exactly what was granted. Tasks: racing pollers settle or refund a task at most once and a
  terminal status is never left. Relay: a request is charged exactly once and exactly its usage,
  an upstream error restores the balance, and which paths keep a reservation. Routing: the
  ability table stays in step with the channels, and the routing table in memory agrees with it;
  a disabled channel is not chosen again. Admission: both rate limiters refine one sliding window,
  a code verifies only for its key and its ten minutes, and what a request that passes the token
  check carries. The relay loop makes a bounded number of attempts, never two in a row on one
  channel. Payments: over any sequence of requests, genuine or
  forged, balances move by exactly the orders that became successful, and EPay credits only what
  was signed. Accounts: who gets a session, what the second factor takes, whom an administrator can
  change, whose tokens a user can change, what a password reset takes. Video: a submission
  charges what its row says, or nothing. Options: a batch is stored as a whole or not at all, and
  the exported settings restore every setting.

  \<^bold>\<open>Bounds.\<close> Theorems on charges ask that amounts be \<open>small\<close> (below \<open>2 ^ 62\<close>), so that sums of
  two of them do not wrap; the loops of the code are structural recursions or folds, and no fuel
  is used.

  \<^bold>\<open>Not modelled.\<close> The provider adaptors under \<open>relay/adaptor\<close> (other than token counting and error
  wrapping of the OpenAI one), the WebAuthn ceremonies, the sign-in providers, the queries of
  upstream balances and the playground, mail
  texts, logging and start-up code, and the web front ends.
\<close>

end
